(* ===== verification/GoPrelude.thy ===== *)
theory GoPrelude
  imports Main "HOL-Library.Word"
begin

text \<open>
  What the whole development shares: the Go values the components use (errors, byte strings,
  the functions of package \<^verbatim>\<open>strings\<close> the sources call, decimal printing), the lists that stand
  for SQL tables, and the collections of facts the component proofs run on.

  A Go string is its list of bytes, an Isabelle \<^typ>\<open>string\<close>. An \<^verbatim>\<open>error\<close> result is
  \<open>gerr option\<close> (\<open>None\<close> is \<^verbatim>\<open>nil\<close>); a pair of a value and an error is \<open>gerr + 'a\<close>.
\<close>

named_theorems go_string \<open>facts on the functions of package strings\<close>
named_theorems go_result \<open>facts on error values and early returns\<close>
named_theorems go_table \<open>facts on lists of rows\<close>

subsection \<open>Errors\<close>

text \<open>
  \<open>ErrNoRows\<close> is \<^verbatim>\<open>sql.ErrNoRows\<close>, \<open>ErrWrap\<close> is \<^verbatim>\<open>fmt.Errorf("...: %w", err)\<close>, which keeps the
  wrapped error for \<^verbatim>\<open>errors.Is\<close>; \<open>ErrConstraint\<close> is a constraint violation reported by the
  database, \<open>ErrConnDone\<close> the error of a closed handle, \<open>ErrCtx\<close> a cancelled context.
\<close>

datatype gerr =
    ErrNoRows
  | ErrMsg string
  | ErrWrap string gerr
  | ErrConstraint string
  | ErrConnDone
  | ErrCtx

type_synonym 'a result = "gerr + 'a"

primrec is_no_rows :: "gerr \<Rightarrow> bool" where
  "is_no_rows ErrNoRows = True"
| "is_no_rows (ErrMsg m) = False"
| "is_no_rows (ErrWrap m e) = is_no_rows e"
| "is_no_rows (ErrConstraint m) = False"
| "is_no_rows ErrConnDone = False"
| "is_no_rows ErrCtx = False"

text \<open>\<open>if err := v; err != nil { return err }\<close>, then the rest.\<close>

definition try_err :: "gerr option \<Rightarrow> 'a result \<Rightarrow> 'a result" where
  "try_err v k = (case v of Some e \<Rightarrow> Inl e | None \<Rightarrow> k)"

definition bind_res :: "'a result \<Rightarrow> ('a \<Rightarrow> 'b result) \<Rightarrow> 'b result" where
  "bind_res r k = (case r of Inl e \<Rightarrow> Inl e | Inr x \<Rightarrow> k x)"

definition wrap_res :: "string \<Rightarrow> 'a result \<Rightarrow> 'a result" where
  "wrap_res m r = (case r of Inl e \<Rightarrow> Inl (ErrWrap m e) | Inr x \<Rightarrow> Inr x)"

definition is_ok :: "'a result \<Rightarrow> bool" where
  "is_ok r = (case r of Inl e \<Rightarrow> False | Inr x \<Rightarrow> True)"

lemma try_err_simps [simp, go_result]:
  "try_err None k = k"
  "try_err (Some e) k = Inl e"
  by (simp_all add: try_err_def)

lemma try_err_Inr [go_result]: "try_err v k = Inr x \<longleftrightarrow> v = None \<and> k = Inr x"
  by (cases v) auto

lemma bind_res_simps [simp, go_result]:
  "bind_res (Inl e) k = Inl e"
  "bind_res (Inr x) k = k x"
  by (simp_all add: bind_res_def)

lemma bind_res_Inr [go_result]: "bind_res r k = Inr y \<longleftrightarrow> (\<exists>x. r = Inr x \<and> k x = Inr y)"
  by (cases r) auto

lemma wrap_res_simps [simp, go_result]:
  "wrap_res m (Inl e) = Inl (ErrWrap m e)"
  "wrap_res m (Inr x) = Inr x"
  by (simp_all add: wrap_res_def)

lemma wrap_res_Inr [simp, go_result]: "wrap_res m r = Inr x \<longleftrightarrow> r = Inr x"
  by (cases r) auto

lemma is_ok_simps [simp]: "is_ok (Inr x)" "\<not> is_ok (Inl e)"
  by (simp_all add: is_ok_def)

subsection \<open>Byte strings\<close>

definition byte :: "char \<Rightarrow> nat" where
  "byte c = of_char c"

definition is_upper :: "char \<Rightarrow> bool" where
  "is_upper c = (65 \<le> byte c \<and> byte c \<le> 90)"

definition is_lower :: "char \<Rightarrow> bool" where
  "is_lower c = (97 \<le> byte c \<and> byte c \<le> 122)"

definition is_alpha :: "char \<Rightarrow> bool" where
  "is_alpha c = (is_upper c \<or> is_lower c)"

definition is_digit :: "char \<Rightarrow> bool" where
  "is_digit c = (48 \<le> byte c \<and> byte c \<le> 57)"

text \<open>
  The number of bytes of a white-space rune (\<^verbatim>\<open>unicode.IsSpace\<close>, UTF-8 encoded) at the start of a
  string, 0 if there is none there. The encodings begin with a byte that never continues another
  rune, so looking for them byte by byte finds the same runes as decoding does.
\<close>

fun space_len :: "string \<Rightarrow> nat" where
  "space_len [] = 0"
| "space_len (c # cs) =
     (let b = byte c in
      if (9 \<le> b \<and> b \<le> 13) \<or> b = 32 then 1
      else if b = 194 then
        (case cs of d # _ \<Rightarrow> if byte d = 133 \<or> byte d = 160 then 2 else 0 | [] \<Rightarrow> 0)
      else if b = 225 then
        (case cs of d # e # _ \<Rightarrow> if byte d = 154 \<and> byte e = 128 then 3 else 0 | _ \<Rightarrow> 0)
      else if b = 226 then
        (case cs of d # e # _ \<Rightarrow>
           if byte d = 128 \<and> ((128 \<le> byte e \<and> byte e \<le> 138) \<or> byte e = 168 \<or> byte e = 169 \<or> byte e = 175)
              \<or> byte d = 129 \<and> byte e = 159
           then 3 else 0
         | _ \<Rightarrow> 0)
      else if b = 227 then
        (case cs of d # e # _ \<Rightarrow> if byte d = 128 \<and> byte e = 128 then 3 else 0 | _ \<Rightarrow> 0)
      else 0)"

lemma space_len_le: "space_len s \<le> length s"
  by (cases s) (auto simp: Let_def split: list.splits)

lemma space_len_pos_nonempty: "0 < space_len s \<Longrightarrow> s \<noteq> []"
  by auto

declare space_len.simps(2) [simp del]

function trim_left :: "string \<Rightarrow> string" where
  "trim_left s = (if space_len s = 0 then s else trim_left (drop (space_len s) s))"
  by pat_completeness auto
termination
  by (relation "measure length") (use space_len_pos_nonempty in auto)

declare trim_left.simps [simp del]

text \<open>The white-space rune at the end of a string: its encodings are at most three bytes long.\<close>

definition space_end_len :: "string \<Rightarrow> nat" where
  "space_end_len s =
     (let n = length s in
      if 1 \<le> n \<and> space_len (drop (n - 1) s) = 1 then 1
      else if 2 \<le> n \<and> space_len (drop (n - 2) s) = 2 then 2
      else if 3 \<le> n \<and> space_len (drop (n - 3) s) = 3 then 3
      else 0)"

lemma space_end_len_le: "space_end_len s \<le> length s"
  by (simp add: space_end_len_def Let_def)

function trim_right :: "string \<Rightarrow> string" where
  "trim_right s =
     (if space_end_len s = 0 then s else trim_right (take (length s - space_end_len s) s))"
  by pat_completeness auto
termination
  by (relation "measure length") (auto simp: space_end_len_def Let_def split: if_splits)

declare trim_right.simps [simp del]

definition trim_space :: "string \<Rightarrow> string" where
  "trim_space s = trim_right (trim_left s)"

text \<open>\<^verbatim>\<open>strings.Fields\<close>: the accumulator holds the bytes of the field being read.\<close>

function go_fields_acc :: "string \<Rightarrow> string \<Rightarrow> string list" where
  "go_fields_acc acc s =
     (case s of
        [] \<Rightarrow> (if acc = [] then [] else [acc])
      | c # cs \<Rightarrow>
          (if space_len s = 0 then go_fields_acc (acc @ [c]) cs
           else if acc = [] then go_fields_acc [] (drop (space_len s) s)
           else acc # go_fields_acc [] (drop (space_len s) s)))"
  by pat_completeness auto
termination
  by (relation "measure (\<lambda>(acc, s). length s)") auto

declare go_fields_acc.simps [simp del]

definition go_fields :: "string \<Rightarrow> string list" where
  "go_fields s = go_fields_acc [] s"

fun join :: "string \<Rightarrow> string list \<Rightarrow> string" where
  "join sep [] = []"
| "join sep [x] = x"
| "join sep (x # y # xs) = x @ sep @ join sep (y # xs)"

definition has_prefix :: "string \<Rightarrow> string \<Rightarrow> bool" where
  "has_prefix s p = (take (length p) s = p)"

definition has_suffix :: "string \<Rightarrow> string \<Rightarrow> bool" where
  "has_suffix s p = (length p \<le> length s \<and> drop (length s - length p) s = p)"

text \<open>\<^verbatim>\<open>strings.Index\<close>, with \<open>None\<close> for -1.\<close>

fun index_of :: "string \<Rightarrow> string \<Rightarrow> nat option" where
  "index_of [] p = (if p = [] then Some 0 else None)"
| "index_of (c # cs) p =
     (if has_prefix (c # cs) p then Some 0 else map_option Suc (index_of cs p))"

text \<open>\<^verbatim>\<open>strings.ReplaceAll\<close> for a non-empty old string, the only one the sources pass.\<close>

function replace_all :: "string \<Rightarrow> string \<Rightarrow> string \<Rightarrow> string" where
  "replace_all s old new =
     (case s of
        [] \<Rightarrow> []
      | c # cs \<Rightarrow>
          (if old \<noteq> [] \<and> has_prefix s old then new @ replace_all (drop (length old) s) old new
           else c # replace_all cs old new))"
  by pat_completeness auto
termination
  by (relation "measure (\<lambda>(s, old, new). length s)") auto

declare replace_all.simps [simp del]

definition contains_any :: "string \<Rightarrow> string \<Rightarrow> bool" where
  "contains_any s chars = list_ex (\<lambda>c. c \<in> set chars) s"

text \<open>The carriage return, the line feed and NUL, which identifiers must not contain.\<close>

definition ctl_chars :: string where
  "ctl_chars = [CHR 0x0D, CHR 0x0A, CHR 0x00]"

text \<open>\<^verbatim>\<open>strconv.FormatInt(n, 10)\<close>.\<close>

fun digits10 :: "nat \<Rightarrow> string" where
  "digits10 n =
     (if n < 10 then [char_of (48 + n)] else digits10 (n div 10) @ [char_of (48 + n mod 10)])"

declare digits10.simps [simp del]

definition format_int :: "int \<Rightarrow> string" where
  "format_int i = (if i < 0 then CHR ''-'' # digits10 (nat (- i)) else digits10 (nat i))"

definition digits_value :: "string \<Rightarrow> nat" where
  "digits_value s = foldl (\<lambda>a c. 10 * a + (byte c - 48)) 0 s"

lemma byte_char_of: "n < 256 \<Longrightarrow> byte (char_of n) = n"
  by (simp add: byte_def)

lemma digits10_nonempty: "digits10 n \<noteq> []"
  by (subst digits10.simps) simp

lemma digits_value_digits10 [go_string]: "digits_value (digits10 n) = n"
proof (induction n rule: digits10.induct)
  case (1 n)
  show ?case
  proof (cases "n < 10")
    case True
    then show ?thesis by (subst digits10.simps) (simp add: digits_value_def byte_char_of)
  next
    case False
    with "1.IH" have "digits_value (digits10 (n div 10)) = n div 10" by simp
    with False show ?thesis
      by (subst digits10.simps) (simp add: digits_value_def byte_char_of)
  qed
qed

lemma digits10_inject: "digits10 m = digits10 n \<longleftrightarrow> m = n"
  by (metis digits_value_digits10)

lemma digits10_digits: "list_all is_digit (digits10 n)"
proof (induction n rule: digits10.induct)
  case (1 n)
  have "is_digit (char_of (48 + n mod 10))"
    using mod_less_divisor [of 10 n] by (simp add: is_digit_def byte_char_of)
  moreover have "n < 10 \<Longrightarrow> is_digit (char_of (48 + n))"
    by (simp add: is_digit_def byte_char_of)
  ultimately show ?case
    using "1.IH" by (subst digits10.simps) simp
qed

lemma digits10_hd: "0 < n \<Longrightarrow> 49 \<le> byte (hd (digits10 n))"
proof (induction n rule: digits10.induct)
  case (1 n)
  show ?case
  proof (cases "n < 10")
    case True
    with "1.prems" show ?thesis by (subst digits10.simps) (simp add: byte_char_of)
  next
    case False
    then have "0 < n div 10" by simp
    with False "1.IH" have "49 \<le> byte (hd (digits10 (n div 10)))" by simp
    with False show ?thesis
      by (subst digits10.simps) (simp add: digits10_nonempty)
  qed
qed

lemma length_digits10: "n < 10 ^ k \<Longrightarrow> 0 < k \<Longrightarrow> length (digits10 n) \<le> k"
proof (induction k arbitrary: n)
  case 0
  then show ?case by simp
next
  case (Suc k)
  show ?case
  proof (cases "n < 10")
    case True
    then show ?thesis by (subst digits10.simps) simp
  next
    case False
    with Suc.prems(1) have "0 < k" by (cases k) simp_all
    moreover have "n div 10 < 10 ^ k"
      using Suc.prems(1) by (simp add: less_mult_imp_div_less mult.commute)
    moreover note False
    ultimately have "0 < k" "n div 10 < 10 ^ k" by simp_all
    with Suc.IH have "length (digits10 (n div 10)) \<le> k" by blast
    with False show ?thesis by (subst digits10.simps) simp
  qed
qed

lemma length_digits10_ge2: "10 \<le> n \<Longrightarrow> 2 \<le> length (digits10 n)"
  using digits10_nonempty [of "n div 10"]
  by (subst digits10.simps) (auto simp: Suc_le_eq)

subsection \<open>Letters\<close>

definition lower :: "char \<Rightarrow> char" where
  "lower c = (if is_upper c then char_of (byte c + 32) else c)"

lemma byte_less: "byte c < 256"
  by (simp add: byte_def)

lemma byte_inject: "byte c = byte d \<longleftrightarrow> c = d"
  by (simp add: byte_def)

lemma byte_lower: "byte (lower c) = (if is_upper c then byte c + 32 else byte c)"
  by (simp add: lower_def is_upper_def byte_char_of)

lemma is_alpha_lower [simp]: "is_alpha (lower c) = is_alpha c"
  by (auto simp: is_alpha_def is_upper_def is_lower_def byte_lower)

lemma lower_space [simp]: "lower c = CHR '' '' \<longleftrightarrow> c = CHR '' ''"
proof -
  have "byte (CHR '' '') = 32" by (simp add: byte_def)
  then show ?thesis
    using byte_inject [of "lower c" "CHR '' ''"] byte_inject [of c "CHR '' ''"]
    by (auto simp: byte_lower is_upper_def split: if_splits)
qed

lemma not_alpha_space [simp]: "\<not> is_alpha (CHR '' '')"
  by (simp add: is_alpha_def is_upper_def is_lower_def byte_def)

lemma digit_not_alpha: "is_digit c \<Longrightarrow> \<not> is_alpha c"
  by (auto simp: is_alpha_def is_upper_def is_lower_def is_digit_def)

lemma lower_digit: "is_digit c \<Longrightarrow> lower c = c"
  by (auto simp: lower_def is_upper_def is_digit_def)

subsection \<open>Searching\<close>

lemma has_prefix_append [simp]: "has_prefix (p @ s) p"
  by (simp add: has_prefix_def)

lemma has_prefix_split: "has_prefix s p \<Longrightarrow> s = p @ drop (length p) s"
  by (metis append_take_drop_id has_prefix_def)

lemma has_prefix_length: "has_prefix s p \<Longrightarrow> length p \<le> length s"
  by (metis has_prefix_def length_take min.cobounded1)

lemma index_of_Some:
  "index_of s p = Some k \<Longrightarrow>
     has_prefix (drop k s) p \<and> k + length p \<le> length s \<and> (\<forall>j<k. \<not> has_prefix (drop j s) p)"
proof (induction s arbitrary: k)
  case Nil
  then show ?case by (simp add: has_prefix_def split: if_splits)
next
  case (Cons c cs)
  show ?case
  proof (cases "has_prefix (c # cs) p")
    case True
    with Cons.prems show ?thesis using has_prefix_length [OF True] by simp
  next
    case False
    with Cons.prems obtain k' where k': "index_of cs p = Some k'" "k = Suc k'" by auto
    with Cons.IH have "has_prefix (drop k' cs) p" "k' + length p \<le> length cs"
      "\<forall>j<k'. \<not> has_prefix (drop j cs) p" by blast+
    with k'(2) False show ?thesis by (auto simp: less_Suc_eq_0_disj)
  qed
qed

lemma index_of_None: "index_of s p = None \<Longrightarrow> \<not> has_prefix (drop j s) p"
proof (induction s arbitrary: j)
  case Nil
  then show ?case by (auto simp: has_prefix_def split: if_splits)
next
  case (Cons c cs)
  then show ?case by (cases j) (auto split: if_splits)
qed

lemma index_of_first:
  assumes "has_prefix (drop k s) p" "k \<le> length s" "\<And>j. j < k \<Longrightarrow> \<not> has_prefix (drop j s) p"
  shows "index_of s p = Some k"
proof (cases "index_of s p")
  case None
  with assms(1) show ?thesis using index_of_None by blast
next
  case (Some i)
  note i = index_of_Some [OF Some]
  show ?thesis
  proof (cases i k rule: linorder_cases)
    case less
    with assms(3) i show ?thesis by blast
  next
    case equal
    with Some show ?thesis by simp
  next
    case greater
    with i assms(1) show ?thesis by blast
  qed
qed

subsection \<open>Fields and blanks\<close>

text \<open>The fields of a string contain no white space, and joining them by blanks and splitting again gives them back.\<close>

lemma byte_blank: "byte (CHR '' '') = 32"
  by (simp add: byte_def)

lemma space_len_blank [simp]: "space_len (CHR '' '' # y) = 1"
  by (simp add: space_len.simps(2) Let_def byte_blank)

lemma space_len_prefix: "space_len u \<noteq> 0 \<Longrightarrow> space_len (u @ y) = space_len u"
proof (cases u)
  case (Cons c cs)
  assume "space_len u \<noteq> 0"
  with Cons show ?thesis
    by (cases cs; cases "tl cs") (auto simp: space_len.simps(2) Let_def split: if_split_asm)
qed simp

lemma space_len_before_blank: "u \<noteq> [] \<Longrightarrow> space_len u = 0 \<Longrightarrow> space_len (u @ CHR '' '' # y) = 0"
proof (cases u)
  case (Cons c cs)
  assume "space_len u = 0"
  with Cons show ?thesis
    by (cases cs; cases "tl cs"; cases y) (auto simp: space_len.simps(2) Let_def byte_blank split: if_split_asm)
qed simp

definition spaceless :: "string \<Rightarrow> bool" where
  "spaceless w \<longleftrightarrow> (\<forall>i < length w. space_len (drop i w) = 0)"

lemma spaceless_Cons: "spaceless (c # w) \<longleftrightarrow> space_len (c # w) = 0 \<and> spaceless w"
  by (auto simp: spaceless_def less_Suc_eq_0_disj)

lemma fields_acc_word:
  "spaceless w \<Longrightarrow> y = [] \<or> hd y = CHR '' '' \<Longrightarrow> go_fields_acc acc (w @ y) = go_fields_acc (acc @ w) y"
proof (induction w arbitrary: acc)
  case (Cons c w)
  have "space_len ((c # w) @ y) = 0"
    using Cons.prems space_len_before_blank [of "c # w" "tl y"] by (cases y) (auto simp: spaceless_Cons)
  then have "go_fields_acc acc ((c # w) @ y) = go_fields_acc (acc @ [c]) (w @ y)"
    by (subst go_fields_acc.simps) simp
  with Cons show ?case by (simp add: spaceless_Cons)
qed simp

lemma go_fields_join:
  "\<forall>w \<in> set ws. w \<noteq> [] \<and> spaceless w \<Longrightarrow> go_fields (join '' '' ws) = ws"
proof (induction "'' '' :: string" ws rule: join.induct)
  case 1 then show ?case by (simp add: go_fields_def go_fields_acc.simps)
next
  case (2 x)
  then show ?case using fields_acc_word [of x "[]" "[]"] by (simp add: go_fields_def go_fields_acc.simps [of x "[]"])
next
  case (3 x y xs)
  then show ?case using fields_acc_word [of x "CHR '' '' # join '' '' (y # xs)" "[]"]
    by (simp add: go_fields_def go_fields_acc.simps [of x "CHR '' '' # s" for s])
qed

lemma go_fields_acc_words:
  assumes "\<forall>i < length acc. space_len (drop i acc @ s) = 0" "w \<in> set (go_fields_acc acc s)"
  shows "w \<noteq> [] \<and> spaceless w"
  using assms
proof (induction acc s rule: go_fields_acc.induct)
  case (1 acc s)
  have acc: "spaceless acc"
    using "1.prems"(1) space_len_prefix unfolding spaceless_def by force
  show ?case
  proof (cases s)
    case Nil
    with "1.prems" acc show ?thesis by (simp add: go_fields_acc.simps split: if_splits)
  next
    case (Cons c cs)
    show ?thesis
    proof (cases "space_len s = 0")
      case True
      have "\<forall>i < length (acc @ [c]). space_len (drop i (acc @ [c]) @ cs) = 0"
        using "1.prems"(1) True Cons by (auto simp: less_Suc_eq)
      with "1.IH"(1) [OF Cons True] "1.prems"(2) Cons True show ?thesis
        by (simp add: go_fields_acc.simps [of acc])
    next
      case False
      with "1.IH"(2,3) [OF Cons False] "1.prems"(2) Cons acc show ?thesis
        by (auto simp: go_fields_acc.simps [of acc] split: if_splits)
    qed
  qed
qed

lemma go_fields_words: "w \<in> set (go_fields s) \<Longrightarrow> w \<noteq> [] \<and> spaceless w"
  unfolding go_fields_def by (rule go_fields_acc_words) simp_all

lemma go_fields_twice: "go_fields (join '' '' (go_fields s)) = go_fields s"
  by (rule go_fields_join) (use go_fields_words in blast)
text \<open>A string of printable ASCII characters has nothing to trim.\<close>

lemma space_len_printable: "33 \<le> byte c \<Longrightarrow> byte c < 127 \<Longrightarrow> space_len (c # cs) = 0"
  by (simp add: space_len.simps(2) Let_def)

lemma trim_space_printable:
  assumes "\<forall>c \<in> set s. 33 \<le> byte c \<and> byte c < 127"
  shows "trim_space s = s"
proof -
  have none: "space_len (drop k s) = 0" for k
  proof (cases "drop k s")
    case (Cons c cs)
    then have "c \<in> set s" by (metis in_set_dropD list.set_intros(1))
    with assms Cons show ?thesis by (simp add: space_len_printable)
  qed simp
  from none [of 0] have "trim_left s = s" by (simp add: trim_left.simps)
  moreover have "space_end_len s = 0" by (simp add: space_end_len_def Let_def none)
  ultimately show ?thesis by (simp add: trim_space_def trim_right.simps)
qed

subsection \<open>Trimming twice\<close>

lemma space_len_append:
  assumes "0 < space_len s"
  shows "space_len (s @ t) = space_len s"
proof -
  consider "s = []" | c where "s = [c]" | c d where "s = [c, d]" | c d e r where "s = c # d # e # r"
    by (metis list.exhaust)
  then show ?thesis
    using assms by cases (auto simp: space_len.simps(2) Let_def split: if_split_asm)
qed

lemma trim_left_none: "space_len (trim_left s) = 0"
proof (induction s rule: trim_left.induct)
  case (1 s)
  then show ?case
    by (cases "space_len s = 0") (simp_all add: trim_left.simps [of s])
qed

lemma trim_right_none: "space_end_len (trim_right s) = 0"
proof (induction s rule: trim_right.induct)
  case (1 s)
  then show ?case
    by (cases "space_end_len s = 0") (simp_all add: trim_right.simps [of s])
qed

lemma trim_right_prefix: "\<exists>t. s = trim_right s @ t"
proof (induction s rule: trim_right.induct)
  case (1 s)
  show ?case
  proof (cases "space_end_len s = 0")
    case True
    then show ?thesis by (simp add: trim_right.simps [of s])
  next
    case False
    then obtain t where "take (length s - space_end_len s) s = trim_right (take (length s - space_end_len s) s) @ t"
      using 1 by blast
    then have "s = trim_right (take (length s - space_end_len s) s) @ t @ drop (length s - space_end_len s) s"
      by (metis append.assoc append_take_drop_id)
    then show ?thesis
      using False by (metis trim_right.simps)
  qed
qed

lemma trim_space_idem [simp]: "trim_space (trim_space s) = trim_space s"
proof -
  obtain t where "trim_left s = trim_right (trim_left s) @ t"
    using trim_right_prefix by blast
  then have "space_len (trim_right (trim_left s)) = 0"
    using trim_left_none [of s] space_len_append [of "trim_right (trim_left s)" t] by (metis neq0_conv)
  then have "trim_left (trim_right (trim_left s)) = trim_right (trim_left s)"
    by (simp add: trim_left.simps [of "trim_right (trim_left s)"])
  moreover have "trim_right (trim_right (trim_left s)) = trim_right (trim_left s)"
    using trim_right_none by (simp add: trim_right.simps [of "trim_right (trim_left s)"])
  ultimately show ?thesis by (simp add: trim_space_def)
qed

end
