(* ===== verification/Commands.thy ===== *)
theory Commands
  imports GoPrelude "HOL-Library.List_Lexorder" "HOL-Library.Char_ord"
begin

text \<open>
  The built-in conversation commands of \<^verbatim>\<open>internal/commands/commands.go\<close>. A Go \<^verbatim>\<open>map[string]bool\<close> used
  as a set is the list of its keys without duplicates, in insertion order; \<^verbatim>\<open>sort.Strings\<close> is
  \<^const>\<open>sort\<close> at the byte-lexicographic order of \<^verbatim>\<open>List_Lexorder\<close> over \<^verbatim>\<open>Char_ord\<close>.
\<close>

definition cmd_Local :: string where "cmd_Local = ''/local''"
definition cmd_Summary :: string where "cmd_Summary = ''/summary''"
definition default_trigger :: string where "default_trigger = ''aggregate-response''"

record Settings =
  LocalPrefixes :: string
  AggregationTriggers :: string

definition MatchLocal :: "string \<Rightarrow> string \<Rightarrow> bool" where
  "MatchLocal text configured =
     (let fs = go_fields text
      in if 0 < length fs \<and> fs ! 0 = cmd_Local then True
         else list_ex (\<lambda>prefix. has_prefix text prefix) (go_fields configured))"

definition MatchSummary :: "string \<Rightarrow> string \<Rightarrow> bool" where
  "MatchSummary text configured =
     (let text = trim_space text
      in if text = cmd_Summary then True
         else
           let configured = (if trim_space configured = [] then default_trigger else configured)
           in list_ex (\<lambda>trigger. text = trigger) (go_fields configured))"

definition set_add :: "string list \<Rightarrow> string \<Rightarrow> string list" where
  "set_add vs v = (if v \<in> set vs then vs else vs @ [v])"

definition local_values :: "Settings list \<Rightarrow> string list" where
  "local_values settings =
     foldl (\<lambda>vs s. foldl (\<lambda>vs v. if v \<noteq> cmd_Local then set_add vs v else vs) vs (go_fields (LocalPrefixes s)))
       [] settings"

definition trigger_values :: "Settings list \<Rightarrow> string list" where
  "trigger_values settings =
     foldl (\<lambda>vs s.
         let values = go_fields (AggregationTriggers s);
             values = (if length values = 0 then [default_trigger] else values)
         in foldl (\<lambda>vs v. if v \<noteq> cmd_Summary then set_add vs v else vs) vs values)
       [] settings"

definition describe_group :: "string \<Rightarrow> string list \<Rightarrow> string" where
  "describe_group label values =
     (if length values = 0 then []
      else CHR 0x0A # label @ '': '' @ join '', '' (sort values))"

text \<open>\<open>help\<close> is the text of the constant \<^verbatim>\<open>Help\<close>.\<close>

definition Describe :: "string \<Rightarrow> Settings list \<Rightarrow> string" where
  "Describe help settings =
     help @ describe_group ''Additional local-only prefixes (groups)'' (local_values settings)
          @ describe_group ''Additional poll summary triggers (reply to a poll)'' (trigger_values settings)"

lemma set_add_set [simp]: "set (set_add vs v) = insert v (set vs)"
  by (auto simp: set_add_def)

lemma set_add_distinct [simp]: "distinct (set_add vs v) = distinct vs"
  by (simp add: set_add_def)

lemma fold_set_add:
  "set (foldl (\<lambda>vs v. if P v then set_add vs v else vs) vs xs) = set vs \<union> {v \<in> set xs. P v} \<and>
   distinct (foldl (\<lambda>vs v. if P v then set_add vs v else vs) vs xs) = distinct vs"
  by (induction xs arbitrary: vs) auto

lemma fold_fold_set_add:
  "set (foldl (\<lambda>vs s. foldl (\<lambda>vs v. if P v then set_add vs v else vs) vs (f s)) vs ss)
     = set vs \<union> {v. \<exists>s \<in> set ss. v \<in> set (f s) \<and> P v} \<and>
   distinct (foldl (\<lambda>vs s. foldl (\<lambda>vs v. if P v then set_add vs v else vs) vs (f s)) vs ss) = distinct vs"
proof (induction ss arbitrary: vs)
  case (Cons s ss)
  show ?case by (simp only: foldl_Cons Cons.IH fold_set_add) auto
qed simp

lemma local_values_set:
  "set (local_values settings) = {v. \<exists>s \<in> set settings. v \<in> set (go_fields (LocalPrefixes s)) \<and> v \<noteq> cmd_Local}"
  "distinct (local_values settings)"
  using fold_fold_set_add [of "\<lambda>v. v \<noteq> cmd_Local" "\<lambda>s. go_fields (LocalPrefixes s)" "[]" settings]
  by (simp_all add: local_values_def)

definition set_triggers :: "Settings \<Rightarrow> string list" where
  "set_triggers s = (let vs = go_fields (AggregationTriggers s) in if vs = [] then [default_trigger] else vs)"

lemma trigger_values_set:
  "set (trigger_values settings) = {v. \<exists>s \<in> set settings. v \<in> set (set_triggers s) \<and> v \<noteq> cmd_Summary}"
  "distinct (trigger_values settings)"
  using fold_fold_set_add [of "\<lambda>v. v \<noteq> cmd_Summary" set_triggers "[]" settings]
  by (simp_all add: trigger_values_def set_triggers_def Let_def)

lemma describe_group_set:
  "distinct vs \<Longrightarrow> distinct ws \<Longrightarrow> set vs = set ws \<Longrightarrow> describe_group l vs = describe_group l ws"
proof -
  assume d: "distinct vs" "distinct ws" and eq: "set vs = set ws"
  have "sort vs = sorted_list_of_set (set vs)" "sort ws = sorted_list_of_set (set ws)"
    using d by (simp_all add: sorted_list_of_set_sort_remdups distinct_remdups_id)
  moreover have "length vs = length ws" using d eq by (metis distinct_card)
  ultimately show ?thesis by (simp only: describe_group_def eq)
qed

subsection \<open>Properties\<close>

text \<open>
  The description of the commands depends only on the set of the settings: it does not show in
  which order the sync sets come, how often a word is configured, or how many sets share it.
\<close>

theorem describe_order_independent:
  assumes "set settings = set settings'"
  shows "Describe help settings = Describe help settings'"
proof -
  have "describe_group l (local_values settings) = describe_group l (local_values settings')" for l
    by (rule describe_group_set [OF local_values_set(2) local_values_set(2)])
       (simp only: local_values_set(1) assms)
  moreover have "describe_group l (trigger_values settings) = describe_group l (trigger_values settings')" for l
    by (rule describe_group_set [OF trigger_values_set(2) trigger_values_set(2)])
       (simp only: trigger_values_set(1) assms)
  ultimately show ?thesis by (simp only: Describe_def)
qed

theorem describe_order_independent_witness:
  "Describe [] [\<lparr>LocalPrefixes = ''//'', AggregationTriggers = ''sum''\<rparr>,
                \<lparr>LocalPrefixes = [], AggregationTriggers = []\<rparr>] =
   Describe [] [\<lparr>LocalPrefixes = [], AggregationTriggers = []\<rparr>,
                \<lparr>LocalPrefixes = ''//'', AggregationTriggers = ''sum''\<rparr>]"
  by (rule describe_order_independent) (simp only: list.set insert_commute)

end
