(* ===== verification/AliasWords.thy ===== *)
theory AliasWords
  imports GoPrelude
begin

text \<open>
  The frozen alias vocabulary of \<^verbatim>\<open>internal/identity/alias_words.go\<close>, word by word and in its
  order (four source lines to a definition, so that no proof handles a literal of 256 words), with
  the facts the alias proofs need of it: 256 distinct words in each list, every word a capital and
  1 to 15 small letters.
\<close>

definition adjectives1 :: "string list" where
  "adjectives1 =
    [''Amber'', ''Azure'', ''Brave'', ''Bright'', ''Calm'', ''Cedar'', ''Clever'', ''Coral'',
     ''Cosmic'', ''Crisp'', ''Dawn'', ''Echo'', ''Emerald'', ''Fair'', ''Fierce'', ''Fleet'',
     ''Frost'', ''Gentle'', ''Golden'', ''Grand'', ''Green'', ''Haven'', ''Indigo'', ''Jade'',
     ''Keen'', ''Lively'', ''Lunar'', ''Maple'', ''Merry'', ''Mist'', ''Moon'', ''Moss'']"

definition adjectives2 :: "string list" where
  "adjectives2 =
    [''Mystic'', ''Nimble'', ''Noble'', ''Nova'', ''Opal'', ''Pine'', ''Polar'', ''Proud'',
     ''Quiet'', ''Radiant'', ''Rapid'', ''River'', ''Ruby'', ''Rust'', ''Sage'', ''Shadow'',
     ''Shining'', ''Silent'', ''Silver'', ''Sky'', ''Solar'', ''Spark'', ''Star'', ''Stellar'',
     ''Storm'', ''Swift'', ''Tidal'', ''Topaz'', ''True'', ''Velvet'', ''Vivid'', ''Wild'']"

definition adjectives3 :: "string list" where
  "adjectives3 =
    [''Able'', ''Active'', ''Agile'', ''Airy'', ''Alpine'', ''Ample'', ''Ancient'', ''Arctic'',
     ''Ashen'', ''Autumn'', ''Avid'', ''Balanced'', ''Banded'', ''Beaming'', ''Blazing'', ''Blooming'',
     ''Blue'', ''Bold'', ''Bouncy'', ''Breezy'', ''Bronze'', ''Brown'', ''Budding'', ''Buoyant'',
     ''Burgundy'', ''Burnished'', ''Busy'', ''Candid'', ''Careful'', ''Caring'', ''Celestial'', ''Charming'']"

definition adjectives4 :: "string list" where
  "adjectives4 =
    [''Cheerful'', ''Cherry'', ''Chestnut'', ''Clear'', ''Cloudy'', ''Cobalt'', ''Comet'', ''Comfy'',
     ''Copper'', ''Cotton'', ''Cream'', ''Crimson'', ''Crystal'', ''Curious'', ''Dainty'', ''Dancing'',
     ''Dappled'', ''Daring'', ''Dashing'', ''Daylight'', ''Deep'', ''Delicate'', ''Dewy'', ''Distant'',
     ''Dotted'', ''Dreamy'', ''Dusky'', ''Eager'', ''Earthy'', ''Eastern'', ''Easy'', ''Ebony'']"

definition adjectives5 :: "string list" where
  "adjectives5 =
    [''Electric'', ''Elegant'', ''Elfin'', ''Evening'', ''Everglade'', ''Evergreen'', ''Feathered'', ''Fern'',
     ''Fiery'', ''Fine'', ''Floral'', ''Flowing'', ''Fluffy'', ''Flying'', ''Foamy'', ''Forest'',
     ''Fragrant'', ''Freckled'', ''Free'', ''Fresh'', ''Friendly'', ''Full'', ''Garnet'', ''Glassy'',
     ''Gleaming'', ''Gliding'', ''Glimmering'', ''Glowing'', ''Graceful'', ''Grassy'', ''Gray'', ''Happy'']"

definition adjectives6 :: "string list" where
  "adjectives6 =
    [''Hardy'', ''Hazel'', ''Heather'', ''Helpful'', ''Hidden'', ''Honey'', ''Hopeful'', ''Hushed'',
     ''Icy'', ''Ivory'', ''Jolly'', ''Joyful'', ''Juniper'', ''Kind'', ''Leafy'', ''Lemon'',
     ''Light'', ''Lilac'', ''Lime'', ''Linen'', ''Little'', ''Lofty'', ''Lovely'', ''Lucky'',
     ''Lustrous'', ''Magenta'', ''Magic'', ''Mahogany'', ''Marbled'', ''Marine'', ''Mauve'', ''Mellow'']"

definition adjectives7 :: "string list" where
  "adjectives7 =
    [''Minty'', ''Modern'', ''Modest'', ''Morning'', ''Mountain'', ''Moving'', ''Neat'', ''Night'',
     ''Northern'', ''Nutmeg'', ''Ochre'', ''Olive'', ''Orange'', ''Orchid'', ''Organic'', ''Pacific'',
     ''Pale'', ''Pastel'', ''Patient'', ''Peach'', ''Pearly'', ''Pebble'', ''Peppy'', ''Petal'',
     ''Pink'', ''Placid'', ''Playful'', ''Plum'', ''Polished'', ''Poppy'', ''Precious'', ''Pretty'']"

definition adjectives8 :: "string list" where
  "adjectives8 =
    [''Primrose'', ''Pure'', ''Purple'', ''Quick'', ''Rainy'', ''Ready'', ''Reed'', ''Rich'',
     ''Rising'', ''Rosy'', ''Round'', ''Royal'', ''Russet'', ''Saffron'', ''Sandy'', ''Scarlet'',
     ''Scenic'', ''Serene'', ''Sheltered'', ''Silken'', ''Silky'', ''Simple'', ''Singing'', ''Slender'',
     ''Smooth'', ''Snowy'', ''Soft'', ''Southern'', ''Speckled'', ''Spirited'', ''Spruce'', ''Spring'']"

definition aliasAdjectives :: "string list" where
  "aliasAdjectives =
     adjectives1 @ adjectives2 @ adjectives3 @ adjectives4 @
     adjectives5 @ adjectives6 @ adjectives7 @ adjectives8"

definition nouns1 :: "string list" where
  "nouns1 =
    [''Badger'', ''Bear'', ''Beaver'', ''Bison'', ''Cedar'', ''Cheetah'', ''Crane'', ''Deer'',
     ''Dolphin'', ''Eagle'', ''Falcon'', ''Finch'', ''Fox'', ''Gecko'', ''Harbor'', ''Hare'',
     ''Hawk'', ''Heron'', ''Jaguar'', ''Lark'', ''Leopard'', ''Lion'', ''Llama'', ''Lynx'',
     ''Mantis'', ''Marten'', ''Meadow'', ''Mink'', ''Moose'', ''Ocean'', ''Osprey'', ''Otter'']"

definition nouns2 :: "string list" where
  "nouns2 =
    [''Owl'', ''Panda'', ''Panther'', ''Parrot'', ''Pelican'', ''Penguin'', ''Plover'', ''Puma'',
     ''Quail'', ''Raven'', ''Robin'', ''Sailor'', ''Salmon'', ''Seal'', ''Shadow'', ''Sparrow'',
     ''Starling'', ''Stork'', ''Swan'', ''Swift'', ''Tiger'', ''Toucan'', ''Trout'', ''Turtle'',
     ''Viper'', ''Voyager'', ''Walrus'', ''Whale'', ''Willow'', ''Wolf'', ''Wombat'', ''Wren'']"

definition nouns3 :: "string list" where
  "nouns3 =
    [''Acorn'', ''Albatross'', ''Alder'', ''Almond'', ''Alpaca'', ''Anemone'', ''Ant'', ''Antelope'',
     ''Apple'', ''Apricot'', ''Aspen'', ''Aster'', ''Avocet'', ''Azalea'', ''Bamboo'', ''Banyan'',
     ''Bass'', ''Bay'', ''Beach'', ''Beech'', ''Beetle'', ''Bell'', ''Berry'', ''Birch'',
     ''Bloom'', ''Blossom'', ''Bluebell'', ''Bluebird'', ''Bluejay'', ''Boa'', ''Boulder'', ''Branch'']"

definition nouns4 :: "string list" where
  "nouns4 =
    [''Brook'', ''Bud'', ''Buffalo'', ''Bumblebee'', ''Butterfly'', ''Cactus'', ''Camel'', ''Camellia'',
     ''Canary'', ''Canyon'', ''Capybara'', ''Cardinal'', ''Carnation'', ''Carp'', ''Carrot'', ''Cassia'',
     ''Caterpillar'', ''Cedarwood'', ''Cherry'', ''Chickadee'', ''Chipmunk'', ''Cicada'', ''Cloud'', ''Clover'',
     ''Clownfish'', ''Cockatoo'', ''Coconut'', ''Cod'', ''Comet'', ''Coral'', ''Cormorant'', ''Cosmos'']"

definition nouns5 :: "string list" where
  "nouns5 =
    [''Cottonwood'', ''Coyote'', ''Crab'', ''Cranberry'', ''Creek'', ''Cricket'', ''Crocus'', ''Cypress'',
     ''Daffodil'', ''Dahlia'', ''Daisy'', ''Damselfly'', ''Dandelion'', ''Dove'', ''Dragonfly'', ''Duck'',
     ''Dune'', ''Egret'', ''Elephant'', ''Elm'', ''Ember'', ''Ermine'', ''Eucalyptus'', ''Fern'',
     ''Ferret'', ''Fig'', ''Firefly'', ''Fir'', ''Flamingo'', ''Flint'', ''Flounder'', ''Flower'']"

definition nouns6 :: "string list" where
  "nouns6 =
    [''Forest'', ''Fountain'', ''Frog'', ''Fuchsia'', ''Gazelle'', ''Geranium'', ''Gibbon'', ''Ginger'',
     ''Giraffe'', ''Ginkgo'', ''Glade'', ''Glacier'', ''Goat'', ''Goldfinch'', ''Goose'', ''Grasshopper'',
     ''Grouse'', ''Guava'', ''Gull'', ''Haddock'', ''Hamster'', ''Hawthorn'', ''Hazel'', ''Hedgehog'',
     ''Hibiscus'', ''Holly'', ''Honeybee'', ''Honeysuckle'', ''Hummingbird'', ''Hyacinth'', ''Ibex'', ''Ibis'']"

definition nouns7 :: "string list" where
  "nouns7 =
    [''Iris'', ''Ivy'', ''Jackal'', ''Jasmine'', ''Jay'', ''Jellyfish'', ''Juniper'', ''Kestrel'',
     ''Kingfisher'', ''Kiwi'', ''Koala'', ''Koi'', ''Lagoon'', ''Lake'', ''Larch'', ''Laurel'',
     ''Lavender'', ''Leaf'', ''Lemur'', ''Linden'', ''Lotus'', ''Magnolia'', ''Magpie'', ''Mallard'',
     ''Mangrove'', ''Maple'', ''Marigold'', ''Marmot'', ''Mayfly'', ''Mimosa'', ''Minnow'', ''Moth'']"

definition nouns8 :: "string list" where
  "nouns8 =
    [''Mulberry'', ''Narwhal'', ''Nectar'', ''Newt'', ''Nutmeg'', ''Oak'', ''Olive'', ''Onyx'',
     ''Orchid'', ''Ostrich'', ''Oyster'', ''Palm'', ''Papaya'', ''Peafowl'', ''Pearl'', ''Pebble'',
     ''Peony'', ''Perch'', ''Petal'', ''Petrel'', ''Pheasant'', ''Pine'', ''Pipit'', ''Plum'',
     ''Poppy'', ''Porcupine'', ''Puffin'', ''Rabbit'', ''Raccoon'', ''Rain'', ''Raindrop'', ''Rainbow'']"

definition aliasNouns :: "string list" where
  "aliasNouns = nouns1 @ nouns2 @ nouns3 @ nouns4 @ nouns5 @ nouns6 @ nouns7 @ nouns8"

definition alias_word :: "string \<Rightarrow> bool" where
  "alias_word w = (2 \<le> length w \<and> length w \<le> 16 \<and> list_all is_alpha w)"

lemmas adjectives_defs =
  adjectives1_def adjectives2_def adjectives3_def adjectives4_def
  adjectives5_def adjectives6_def adjectives7_def adjectives8_def

lemmas nouns_defs =
  nouns1_def nouns2_def nouns3_def nouns4_def nouns5_def nouns6_def nouns7_def nouns8_def

lemma length_aliasAdjectives: "length aliasAdjectives = 256"
  by (simp add: aliasAdjectives_def adjectives_defs)

lemma length_aliasNouns: "length aliasNouns = 256"
  by (simp add: aliasNouns_def nouns_defs)

fun vocabulary_word :: "string \<Rightarrow> bool" where
  "vocabulary_word [] = False"
| "vocabulary_word (c # cs) =
     (is_upper c \<and> list_all is_lower cs \<and> 1 \<le> length cs \<and> length cs \<le> 15)"

lemmas word_check_defs = is_upper_def is_lower_def byte_def

lemma adjectives1_vocabulary: "list_all vocabulary_word adjectives1"
  by (simp add: adjectives1_def word_check_defs)

lemma adjectives2_vocabulary: "list_all vocabulary_word adjectives2"
  by (simp add: adjectives2_def word_check_defs)

lemma adjectives3_vocabulary: "list_all vocabulary_word adjectives3"
  by (simp add: adjectives3_def word_check_defs)

lemma adjectives4_vocabulary: "list_all vocabulary_word adjectives4"
  by (simp add: adjectives4_def word_check_defs)

lemma adjectives5_vocabulary: "list_all vocabulary_word adjectives5"
  by (simp add: adjectives5_def word_check_defs)

lemma adjectives6_vocabulary: "list_all vocabulary_word adjectives6"
  by (simp add: adjectives6_def word_check_defs)

lemma adjectives7_vocabulary: "list_all vocabulary_word adjectives7"
  by (simp add: adjectives7_def word_check_defs)

lemma adjectives8_vocabulary: "list_all vocabulary_word adjectives8"
  by (simp add: adjectives8_def word_check_defs)

lemma nouns1_vocabulary: "list_all vocabulary_word nouns1"
  by (simp add: nouns1_def word_check_defs)

lemma nouns2_vocabulary: "list_all vocabulary_word nouns2"
  by (simp add: nouns2_def word_check_defs)

lemma nouns3_vocabulary: "list_all vocabulary_word nouns3"
  by (simp add: nouns3_def word_check_defs)

lemma nouns4_vocabulary: "list_all vocabulary_word nouns4"
  by (simp add: nouns4_def word_check_defs)

lemma nouns5_vocabulary: "list_all vocabulary_word nouns5"
  by (simp add: nouns5_def word_check_defs)

lemma nouns6_vocabulary: "list_all vocabulary_word nouns6"
  by (simp add: nouns6_def word_check_defs)

lemma nouns7_vocabulary: "list_all vocabulary_word nouns7"
  by (simp add: nouns7_def word_check_defs)

lemma nouns8_vocabulary: "list_all vocabulary_word nouns8"
  by (simp add: nouns8_def word_check_defs)

lemma aliasAdjectives_vocabulary: "list_all vocabulary_word aliasAdjectives"
  by (simp add: aliasAdjectives_def adjectives1_vocabulary adjectives2_vocabulary adjectives3_vocabulary adjectives4_vocabulary
      adjectives5_vocabulary adjectives6_vocabulary adjectives7_vocabulary adjectives8_vocabulary)

lemma aliasNouns_vocabulary: "list_all vocabulary_word aliasNouns"
  by (simp add: aliasNouns_def nouns1_vocabulary nouns2_vocabulary nouns3_vocabulary nouns4_vocabulary
      nouns5_vocabulary nouns6_vocabulary nouns7_vocabulary nouns8_vocabulary)

lemma vocabulary_alias_word: "vocabulary_word w \<Longrightarrow> alias_word w"
  by (cases w) (auto simp: alias_word_def is_alpha_def list_all_iff)

lemma vocabulary_adjective: "i < 256 \<Longrightarrow> vocabulary_word (aliasAdjectives ! i)"
  using aliasAdjectives_vocabulary by (simp add: list_all_length length_aliasAdjectives)

lemma vocabulary_noun: "i < 256 \<Longrightarrow> vocabulary_word (aliasNouns ! i)"
  using aliasNouns_vocabulary by (simp add: list_all_length length_aliasNouns)

text \<open>Lower-casing is injective on words with a capital and small letters behind it.\<close>

lemma lower_is_lower: "is_lower c \<Longrightarrow> lower c = c"
  by (auto simp: lower_def is_upper_def is_lower_def)

lemma lower_upper_inject:
  assumes "is_upper c" "is_upper d" "lower c = lower d"
  shows "c = d"
proof -
  have "byte (lower c) = byte (lower d)" by (simp add: assms(3))
  then have "byte c = byte d" using assms(1,2) by (simp add: byte_lower)
  then show ?thesis by (simp add: byte_inject)
qed

lemma vocabulary_lower_inject:
  assumes "vocabulary_word v" "vocabulary_word w" "map lower v = map lower w"
  shows "v = w"
proof -
  obtain c cs d ds where vw: "v = c # cs" "w = d # ds"
    using assms(1,2) by (cases v; cases w) auto
  have "map lower cs = cs" "map lower ds = ds"
    using assms(1,2) by (auto simp: vw list_all_iff lower_is_lower intro!: map_idI)
  with assms show ?thesis by (auto simp: vw dest: lower_upper_inject)
qed

text \<open>Distinctness: within a group of 32 words, and of a group from the ones behind it.\<close>

lemma adjectives1_distinct: "distinct adjectives1"
  by (simp add: adjectives1_def)

lemma adjectives2_distinct: "distinct adjectives2"
  by (simp add: adjectives2_def)

lemma adjectives3_distinct: "distinct adjectives3"
  by (simp add: adjectives3_def)

lemma adjectives4_distinct: "distinct adjectives4"
  by (simp add: adjectives4_def)

lemma adjectives5_distinct: "distinct adjectives5"
  by (simp add: adjectives5_def)

lemma adjectives6_distinct: "distinct adjectives6"
  by (simp add: adjectives6_def)

lemma adjectives7_distinct: "distinct adjectives7"
  by (simp add: adjectives7_def)

lemma adjectives8_distinct: "distinct adjectives8"
  by (simp add: adjectives8_def)

lemma adjectives1_apart2: "set adjectives1 \<inter> set adjectives2 = {}"
  by (simp add: adjectives1_def adjectives2_def)

lemma adjectives1_apart3: "set adjectives1 \<inter> set adjectives3 = {}"
  by (simp add: adjectives1_def adjectives3_def)

lemma adjectives1_apart4: "set adjectives1 \<inter> set adjectives4 = {}"
  by (simp add: adjectives1_def adjectives4_def)

lemma adjectives1_apart5: "set adjectives1 \<inter> set adjectives5 = {}"
  by (simp add: adjectives1_def adjectives5_def)

lemma adjectives1_apart6: "set adjectives1 \<inter> set adjectives6 = {}"
  by (simp add: adjectives1_def adjectives6_def)

lemma adjectives1_apart7: "set adjectives1 \<inter> set adjectives7 = {}"
  by (simp add: adjectives1_def adjectives7_def)

lemma adjectives1_apart8: "set adjectives1 \<inter> set adjectives8 = {}"
  by (simp add: adjectives1_def adjectives8_def)

lemma adjectives2_apart3: "set adjectives2 \<inter> set adjectives3 = {}"
  by (simp add: adjectives2_def adjectives3_def)

lemma adjectives2_apart4: "set adjectives2 \<inter> set adjectives4 = {}"
  by (simp add: adjectives2_def adjectives4_def)

lemma adjectives2_apart5: "set adjectives2 \<inter> set adjectives5 = {}"
  by (simp add: adjectives2_def adjectives5_def)

lemma adjectives2_apart6: "set adjectives2 \<inter> set adjectives6 = {}"
  by (simp add: adjectives2_def adjectives6_def)

lemma adjectives2_apart7: "set adjectives2 \<inter> set adjectives7 = {}"
  by (simp add: adjectives2_def adjectives7_def)

lemma adjectives2_apart8: "set adjectives2 \<inter> set adjectives8 = {}"
  by (simp add: adjectives2_def adjectives8_def)

lemma adjectives3_apart4: "set adjectives3 \<inter> set adjectives4 = {}"
  by (simp add: adjectives3_def adjectives4_def)

lemma adjectives3_apart5: "set adjectives3 \<inter> set adjectives5 = {}"
  by (simp add: adjectives3_def adjectives5_def)

lemma adjectives3_apart6: "set adjectives3 \<inter> set adjectives6 = {}"
  by (simp add: adjectives3_def adjectives6_def)

lemma adjectives3_apart7: "set adjectives3 \<inter> set adjectives7 = {}"
  by (simp add: adjectives3_def adjectives7_def)

lemma adjectives3_apart8: "set adjectives3 \<inter> set adjectives8 = {}"
  by (simp add: adjectives3_def adjectives8_def)

lemma adjectives4_apart5: "set adjectives4 \<inter> set adjectives5 = {}"
  by (simp add: adjectives4_def adjectives5_def)

lemma adjectives4_apart6: "set adjectives4 \<inter> set adjectives6 = {}"
  by (simp add: adjectives4_def adjectives6_def)

lemma adjectives4_apart7: "set adjectives4 \<inter> set adjectives7 = {}"
  by (simp add: adjectives4_def adjectives7_def)

lemma adjectives4_apart8: "set adjectives4 \<inter> set adjectives8 = {}"
  by (simp add: adjectives4_def adjectives8_def)

lemma adjectives5_apart6: "set adjectives5 \<inter> set adjectives6 = {}"
  by (simp add: adjectives5_def adjectives6_def)

lemma adjectives5_apart7: "set adjectives5 \<inter> set adjectives7 = {}"
  by (simp add: adjectives5_def adjectives7_def)

lemma adjectives5_apart8: "set adjectives5 \<inter> set adjectives8 = {}"
  by (simp add: adjectives5_def adjectives8_def)

lemma adjectives6_apart7: "set adjectives6 \<inter> set adjectives7 = {}"
  by (simp add: adjectives6_def adjectives7_def)

lemma adjectives6_apart8: "set adjectives6 \<inter> set adjectives8 = {}"
  by (simp add: adjectives6_def adjectives8_def)

lemma adjectives7_apart8: "set adjectives7 \<inter> set adjectives8 = {}"
  by (simp add: adjectives7_def adjectives8_def)

lemmas adjectives_apart =
  adjectives1_apart2 adjectives1_apart3 adjectives1_apart4 adjectives1_apart5 adjectives1_apart6 adjectives1_apart7 adjectives1_apart8
  adjectives2_apart3 adjectives2_apart4 adjectives2_apart5 adjectives2_apart6 adjectives2_apart7 adjectives2_apart8
  adjectives3_apart4 adjectives3_apart5 adjectives3_apart6 adjectives3_apart7 adjectives3_apart8
  adjectives4_apart5 adjectives4_apart6 adjectives4_apart7 adjectives4_apart8
  adjectives5_apart6 adjectives5_apart7 adjectives5_apart8
  adjectives6_apart7 adjectives6_apart8
  adjectives7_apart8

lemmas adjectives_distinct = adjectives1_distinct adjectives2_distinct adjectives3_distinct adjectives4_distinct adjectives5_distinct adjectives6_distinct adjectives7_distinct adjectives8_distinct

lemma nouns1_distinct: "distinct nouns1"
  by (simp add: nouns1_def)

lemma nouns2_distinct: "distinct nouns2"
  by (simp add: nouns2_def)

lemma nouns3_distinct: "distinct nouns3"
  by (simp add: nouns3_def)

lemma nouns4_distinct: "distinct nouns4"
  by (simp add: nouns4_def)

lemma nouns5_distinct: "distinct nouns5"
  by (simp add: nouns5_def)

lemma nouns6_distinct: "distinct nouns6"
  by (simp add: nouns6_def)

lemma nouns7_distinct: "distinct nouns7"
  by (simp add: nouns7_def)

lemma nouns8_distinct: "distinct nouns8"
  by (simp add: nouns8_def)

lemma nouns1_apart2: "set nouns1 \<inter> set nouns2 = {}"
  by (simp add: nouns1_def nouns2_def)

lemma nouns1_apart3: "set nouns1 \<inter> set nouns3 = {}"
  by (simp add: nouns1_def nouns3_def)

lemma nouns1_apart4: "set nouns1 \<inter> set nouns4 = {}"
  by (simp add: nouns1_def nouns4_def)

lemma nouns1_apart5: "set nouns1 \<inter> set nouns5 = {}"
  by (simp add: nouns1_def nouns5_def)

lemma nouns1_apart6: "set nouns1 \<inter> set nouns6 = {}"
  by (simp add: nouns1_def nouns6_def)

lemma nouns1_apart7: "set nouns1 \<inter> set nouns7 = {}"
  by (simp add: nouns1_def nouns7_def)

lemma nouns1_apart8: "set nouns1 \<inter> set nouns8 = {}"
  by (simp add: nouns1_def nouns8_def)

lemma nouns2_apart3: "set nouns2 \<inter> set nouns3 = {}"
  by (simp add: nouns2_def nouns3_def)

lemma nouns2_apart4: "set nouns2 \<inter> set nouns4 = {}"
  by (simp add: nouns2_def nouns4_def)

lemma nouns2_apart5: "set nouns2 \<inter> set nouns5 = {}"
  by (simp add: nouns2_def nouns5_def)

lemma nouns2_apart6: "set nouns2 \<inter> set nouns6 = {}"
  by (simp add: nouns2_def nouns6_def)

lemma nouns2_apart7: "set nouns2 \<inter> set nouns7 = {}"
  by (simp add: nouns2_def nouns7_def)

lemma nouns2_apart8: "set nouns2 \<inter> set nouns8 = {}"
  by (simp add: nouns2_def nouns8_def)

lemma nouns3_apart4: "set nouns3 \<inter> set nouns4 = {}"
  by (simp add: nouns3_def nouns4_def)

lemma nouns3_apart5: "set nouns3 \<inter> set nouns5 = {}"
  by (simp add: nouns3_def nouns5_def)

lemma nouns3_apart6: "set nouns3 \<inter> set nouns6 = {}"
  by (simp add: nouns3_def nouns6_def)

lemma nouns3_apart7: "set nouns3 \<inter> set nouns7 = {}"
  by (simp add: nouns3_def nouns7_def)

lemma nouns3_apart8: "set nouns3 \<inter> set nouns8 = {}"
  by (simp add: nouns3_def nouns8_def)

lemma nouns4_apart5: "set nouns4 \<inter> set nouns5 = {}"
  by (simp add: nouns4_def nouns5_def)

lemma nouns4_apart6: "set nouns4 \<inter> set nouns6 = {}"
  by (simp add: nouns4_def nouns6_def)

lemma nouns4_apart7: "set nouns4 \<inter> set nouns7 = {}"
  by (simp add: nouns4_def nouns7_def)

lemma nouns4_apart8: "set nouns4 \<inter> set nouns8 = {}"
  by (simp add: nouns4_def nouns8_def)

lemma nouns5_apart6: "set nouns5 \<inter> set nouns6 = {}"
  by (simp add: nouns5_def nouns6_def)

lemma nouns5_apart7: "set nouns5 \<inter> set nouns7 = {}"
  by (simp add: nouns5_def nouns7_def)

lemma nouns5_apart8: "set nouns5 \<inter> set nouns8 = {}"
  by (simp add: nouns5_def nouns8_def)

lemma nouns6_apart7: "set nouns6 \<inter> set nouns7 = {}"
  by (simp add: nouns6_def nouns7_def)

lemma nouns6_apart8: "set nouns6 \<inter> set nouns8 = {}"
  by (simp add: nouns6_def nouns8_def)

lemma nouns7_apart8: "set nouns7 \<inter> set nouns8 = {}"
  by (simp add: nouns7_def nouns8_def)

lemmas nouns_apart =
  nouns1_apart2 nouns1_apart3 nouns1_apart4 nouns1_apart5 nouns1_apart6 nouns1_apart7 nouns1_apart8
  nouns2_apart3 nouns2_apart4 nouns2_apart5 nouns2_apart6 nouns2_apart7 nouns2_apart8
  nouns3_apart4 nouns3_apart5 nouns3_apart6 nouns3_apart7 nouns3_apart8
  nouns4_apart5 nouns4_apart6 nouns4_apart7 nouns4_apart8
  nouns5_apart6 nouns5_apart7 nouns5_apart8
  nouns6_apart7 nouns6_apart8
  nouns7_apart8

lemmas nouns_distinct = nouns1_distinct nouns2_distinct nouns3_distinct nouns4_distinct nouns5_distinct nouns6_distinct nouns7_distinct nouns8_distinct

lemma distinct_aliasAdjectives: "distinct aliasAdjectives"
  by (simp add: aliasAdjectives_def adjectives_apart adjectives_distinct Int_Un_distrib)

lemma distinct_aliasNouns: "distinct aliasNouns"
  by (simp add: aliasNouns_def nouns_apart nouns_distinct Int_Un_distrib)

end
