(* ===== verification/Identity.thy ===== *)
theory Identity
  imports AliasWords
begin

text \<open>
  The permanent participant aliases of \<^verbatim>\<open>internal/identity/alias.go\<close>: the scrambled order of the
  65536 slots, the alias of an ordinal, the bounded token grammar and the scanner that finds whole,
  unescaped references in a message. Slots are 16-bit words (the code relies on the overflow),
  ordinals are integers bounded as \<^verbatim>\<open>int64\<close> values where a statement needs it.
\<close>

unbundle bit_operations_syntax

definition AliasPoolSize :: int where
  "AliasPoolSize = 256 * 256"

definition scrambledAliasSlot :: "16 word \<Rightarrow> 16 word" where
  "scrambledAliasSlot slot =
     (let slot = slot XOR drop_bit 7 slot;
          slot = slot * 0x9e37;
          slot = slot XOR drop_bit 9 slot;
          slot = slot * 0x85eb;
          slot = slot XOR drop_bit 8 slot
      in slot)"

definition syncSetAlias :: "int \<Rightarrow> bool \<Rightarrow> string result" where
  "syncSetAlias ordinal scrambled =
     (if ordinal < 1 then Inl (ErrMsg ''alias ordinal must be positive'')
      else
        let zero = ordinal - 1;
            slot = (word_of_int (zero mod AliasPoolSize) :: 16 word);
            slot = (if scrambled then scrambledAliasSlot slot else slot);
            alias = aliasAdjectives ! unat (slot div 256) @ '' '' @ aliasNouns ! unat (slot mod 256);
            tier = zero div AliasPoolSize + 1
        in Inr (if 1 < tier then alias @ '' '' @ format_int tier else alias))"

definition SyncSetAlias :: "int \<Rightarrow> string result" where
  "SyncSetAlias ordinal = syncSetAlias ordinal True"

definition SequentialSyncSetAlias :: "int \<Rightarrow> string result" where
  "SequentialSyncSetAlias ordinal = syncSetAlias ordinal False"

subsection \<open>The token grammar\<close>

definition tok_open :: string where
  "tok_open = [CHR 0x40, CHR 0x7B]"

definition tok_close :: char where
  "tok_close = CHR 0x7D"

text \<open>
  The body of \<^verbatim>\<open>AliasTokenPattern\<close>: two words of 2 to 16 letters, and optionally a tier, a digit
  from 2 to 9 or a number of 2 to 15 digits without a leading zero. A word ends at the first
  byte that is not a letter, so the deterministic reading accepts what the pattern matches.
\<close>

definition tier_ok :: "string \<Rightarrow> bool" where
  "tier_ok ds =
     (case ds of
        [] \<Rightarrow> False
      | d # ds' \<Rightarrow>
          if ds' = [] then is_digit d \<and> 50 \<le> byte d
          else is_digit d \<and> 49 \<le> byte d \<and> list_all is_digit ds' \<and> length ds' \<le> 14)"

definition alias_body :: "string \<Rightarrow> bool" where
  "alias_body s =
     (let w1 = takeWhile is_alpha s; r1 = dropWhile is_alpha s
      in alias_word w1 \<and>
         (case r1 of
            [] \<Rightarrow> False
          | c # r2 \<Rightarrow>
              c = CHR '' '' \<and>
              (let w2 = takeWhile is_alpha r2; r3 = dropWhile is_alpha r2
               in alias_word w2 \<and>
                  (case r3 of [] \<Rightarrow> True | d # ds \<Rightarrow> d = CHR '' '' \<and> tier_ok ds))))"

definition ParseAliasToken :: "string \<Rightarrow> string option" where
  "ParseAliasToken token =
     (if has_prefix token tok_open \<and> 3 \<le> length token \<and> last token = tok_close \<and>
         alias_body (butlast (drop 2 token))
      then Some (butlast (drop 2 token)) else None)"

definition ValidAlias :: "string \<Rightarrow> bool" where
  "ValidAlias alias =
     (ParseAliasToken (tok_open @ alias @ [tok_close]) \<noteq> None \<and>
      \<not> contains_any alias [CHR 0x7B, CHR 0x7D])"

subsection \<open>The scanner\<close>

text \<open>The number of backslashes right before a position, read from the position leftwards.\<close>

definition backslashes_before :: "string \<Rightarrow> nat \<Rightarrow> nat" where
  "backslashes_before text b = length (takeWhile (\<lambda>c. c = CHR 0x5C) (rev (take b text)))"

definition substr :: "string \<Rightarrow> nat \<Rightarrow> nat \<Rightarrow> string" where
  "substr text b e = take (e - b) (drop b text)"

function spans_from :: "string \<Rightarrow> nat \<Rightarrow> (nat \<times> nat) list" where
  "spans_from text start =
     (if start < length text then
        (case index_of (drop start text) tok_open of
           None \<Rightarrow> []
         | Some offset \<Rightarrow>
             let b = start + offset in
             (case index_of (drop b text) [tok_close] of
                None \<Rightarrow> []
              | Some close \<Rightarrow>
                  let e = b + close + 1; rest = spans_from text e in
                  if ParseAliasToken (substr text b e) = None then rest
                  else if even (backslashes_before text b) then (b, e) # rest
                  else rest))
      else [])"
  by pat_completeness auto
termination
  by (relation "measure (\<lambda>(text, start). length text - start)") auto

declare spans_from.simps [simp del]

definition AliasTokenSpans :: "string \<Rightarrow> (nat \<times> nat) list" where
  "AliasTokenSpans text = spans_from text 0"

subsection \<open>The scrambled order is a permutation\<close>

text \<open>
  The inverse of each step: a xor with a right shift is undone by repeating it until the shift
  leaves nothing, a product with an odd constant by the product with its inverse modulo
  \<open>2 ^ 16\<close>.
\<close>

definition unscrambledAliasSlot :: "16 word \<Rightarrow> 16 word" where
  "unscrambledAliasSlot y =
     (let y = y XOR drop_bit 8 y;
          y = y * 0x7ac3;
          y = y XOR drop_bit 9 y;
          y = y * 0x7787;
          y = y XOR drop_bit 7 y XOR drop_bit 14 y
      in y)"

lemma bit_16_beyond: "16 \<le> n \<Longrightarrow> \<not> bit (x :: 16 word) n"
  by (simp add: bit_word.rep_eq)

lemma xor_shift_undo_big:
  fixes x :: "16 word"
  assumes "8 \<le> k"
  shows "(x XOR drop_bit k x) XOR drop_bit k (x XOR drop_bit k x) = x"
proof (rule bit_word_eqI)
  fix n assume "n < LENGTH(16)"
  have "\<not> bit x (k + k + n)" using assms by (intro bit_16_beyond) simp
  then show "bit ((x XOR drop_bit k x) XOR drop_bit k (x XOR drop_bit k x)) n = bit x n"
    by (auto simp: bit_xor_iff bit_drop_bit_eq)
qed

lemma xor_shift_undo_7:
  fixes x :: "16 word"
  defines "y \<equiv> x XOR drop_bit 7 x"
  shows "y XOR drop_bit 7 y XOR drop_bit 14 y = x"
proof (rule bit_word_eqI)
  fix n assume "n < LENGTH(16)"
  then have n: "n < 16" by simp
  then have "\<not> bit x (n + 21)" by (intro bit_16_beyond) simp
  then show "bit (y XOR drop_bit 7 y XOR drop_bit 14 y) n = bit x n"
    by (auto simp: y_def bit_xor_iff bit_drop_bit_eq add.commute)
qed

lemma mult_undo_1: "(x :: 16 word) * 0x9e37 * 0x7787 = x"
proof -
  have "(0x9e37 * 0x7787 :: 16 word) = 1" by simp
  then show ?thesis by (simp only: mult.assoc mult_1_right)
qed

lemma mult_undo_2: "(x :: 16 word) * 0x85eb * 0x7ac3 = x"
proof -
  have "(0x85eb * 0x7ac3 :: 16 word) = 1" by simp
  then show ?thesis by (simp only: mult.assoc mult_1_right)
qed

lemma unscramble_scramble: "unscrambledAliasSlot (scrambledAliasSlot x) = x"
proof -
  have eight: "(8::nat) \<le> 8" "(8::nat) \<le> 9" by simp_all
  show ?thesis
    unfolding unscrambledAliasSlot_def scrambledAliasSlot_def Let_def
    by (simp only: xor_shift_undo_big [OF eight(1)] xor_shift_undo_big [OF eight(2)]
        mult_undo_1 mult_undo_2 xor_shift_undo_7)
qed

lemma inj_scrambledAliasSlot: "inj scrambledAliasSlot"
  by (rule inj_on_inverseI [where g = unscrambledAliasSlot]) (simp add: unscramble_scramble)

subsection \<open>The shape of an alias\<close>

definition tier_suffix :: "int \<Rightarrow> string" where
  "tier_suffix t = (if 1 < t then '' '' @ format_int t else [])"

definition alias_slot :: "int \<Rightarrow> bool \<Rightarrow> 16 word" where
  "alias_slot ordinal scrambled =
     (let slot = word_of_int ((ordinal - 1) mod AliasPoolSize)
      in if scrambled then scrambledAliasSlot slot else slot)"

lemma syncSetAlias_shape:
  assumes "1 \<le> ordinal"
  shows "syncSetAlias ordinal scrambled =
    Inr (aliasAdjectives ! (unat (alias_slot ordinal scrambled) div 256) @ CHR '' '' #
         aliasNouns ! (unat (alias_slot ordinal scrambled) mod 256) @
         tier_suffix ((ordinal - 1) div AliasPoolSize + 1))"
  using assms
  by (simp add: syncSetAlias_def Let_def alias_slot_def tier_suffix_def unat_div unat_mod)

lemma takeWhile_alpha_word:
  assumes "alias_word w" "r = [] \<or> hd r = CHR '' ''"
  shows "takeWhile is_alpha (w @ r) = w" "dropWhile is_alpha (w @ r) = r"
  using assms by (cases r; simp add: alias_word_def list_all_iff takeWhile_append dropWhile_append)+

lemma tier_suffix_hd: "tier_suffix t = [] \<or> hd (tier_suffix t) = CHR '' ''"
  by (simp add: tier_suffix_def)

lemma alias_word_lower: "alias_word (map lower w) = alias_word w"
  by (simp add: alias_word_def list_all_iff)

text \<open>The three parts of an alias can be read back from it, also after lower-casing.\<close>

lemma alias_parts_inject:
  assumes "alias_word v" "alias_word w" "alias_word v'" "alias_word w'"
    and "r = [] \<or> hd r = CHR '' ''" "r' = [] \<or> hd r' = CHR '' ''"
    and eq: "v @ CHR '' '' # w @ r = v' @ CHR '' '' # w' @ r'"
  shows "v = v' \<and> w = w' \<and> r = r'"
proof -
  have "v = v'"
    using takeWhile_alpha_word(1) [OF assms(1), of "CHR '' '' # w @ r"]
      takeWhile_alpha_word(1) [OF assms(3), of "CHR '' '' # w' @ r'"] eq by simp
  with eq have tl: "w @ r = w' @ r'" by simp
  then have "w = w'"
    using takeWhile_alpha_word(1) [OF assms(2,5)] takeWhile_alpha_word(1) [OF assms(4,6)] by simp
  with tl \<open>v = v'\<close> show ?thesis by simp
qed

lemma tier_suffix_lower: "map lower (tier_suffix t) = tier_suffix t"
proof -
  have "map lower (format_int t) = format_int t" if "1 < t"
    using that digits10_digits [of "nat t"]
    by (auto simp: format_int_def list_all_iff lower_digit intro!: map_idI)
  then show ?thesis by (simp add: tier_suffix_def)
qed

lemma tier_suffix_inject:
  "1 \<le> s \<Longrightarrow> 1 \<le> t \<Longrightarrow> tier_suffix s = tier_suffix t \<longleftrightarrow> s = t"
  by (auto simp: tier_suffix_def format_int_def digits10_inject eq_nat_nat_iff split: if_splits)

lemma slot_inject:
  assumes "alias_slot i b = alias_slot j b"
  shows "(i - 1) mod AliasPoolSize = (j - 1) mod AliasPoolSize"
proof -
  have "(word_of_int ((i - 1) mod AliasPoolSize) :: 16 word) = word_of_int ((j - 1) mod AliasPoolSize)"
    using assms by (auto simp: alias_slot_def Let_def inj_eq [OF inj_scrambledAliasSlot] split: if_splits)
  then show ?thesis by (simp add: word_of_int_eq_iff take_bit_eq_mod AliasPoolSize_def)
qed

lemma lower_sp: "lower (CHR '' '') = CHR '' ''"
  by simp

lemma unat_slot_less: "unat (x :: 16 word) < 65536"
  using unsigned_less [of x, where ?'a = nat] by simp

lemma alias_lower_inject:
  assumes "1 \<le> i" "1 \<le> j" "syncSetAlias i b = Inr x" "syncSetAlias j b = Inr y"
    and eq: "map lower x = map lower y"
  shows "i = j"
proof -
  define si sj where "si = unat (alias_slot i b)" and "sj = unat (alias_slot j b)"
  have bound: "si div 256 < 256" "sj div 256 < 256"
    using unat_slot_less [of "alias_slot i b"] unat_slot_less [of "alias_slot j b"]
    by (simp_all add: si_def sj_def)
  define ti tj where "ti = (i - 1) div AliasPoolSize + 1" and "tj = (j - 1) div AliasPoolSize + 1"
  have x: "x = aliasAdjectives ! (si div 256) @ CHR '' '' # aliasNouns ! (si mod 256) @ tier_suffix ti"
    and y: "y = aliasAdjectives ! (sj div 256) @ CHR '' '' # aliasNouns ! (sj mod 256) @ tier_suffix tj"
    using assms(1-4) by (simp_all add: syncSetAlias_shape si_def sj_def ti_def tj_def)
  have words: "vocabulary_word (aliasAdjectives ! (si div 256))"
    "vocabulary_word (aliasAdjectives ! (sj div 256))"
    "vocabulary_word (aliasNouns ! (si mod 256))" "vocabulary_word (aliasNouns ! (sj mod 256))"
    using bound by (simp_all add: vocabulary_adjective vocabulary_noun)
  have "map lower (aliasAdjectives ! (si div 256)) = map lower (aliasAdjectives ! (sj div 256)) \<and>
      map lower (aliasNouns ! (si mod 256)) = map lower (aliasNouns ! (sj mod 256)) \<and>
      tier_suffix ti = tier_suffix tj"
    using eq words
    by (intro alias_parts_inject)
       (simp_all add: x y lower_sp alias_word_lower vocabulary_alias_word tier_suffix_hd tier_suffix_lower)
  then have adj: "map lower (aliasAdjectives ! (si div 256)) = map lower (aliasAdjectives ! (sj div 256))"
    and noun: "map lower (aliasNouns ! (si mod 256)) = map lower (aliasNouns ! (sj mod 256))"
    and tier: "tier_suffix ti = tier_suffix tj"
    by simp_all
  have "si div 256 = sj div 256"
    using vocabulary_lower_inject [OF words(1,2) adj] bound distinct_aliasAdjectives
    by (simp add: nth_eq_iff_index_eq length_aliasAdjectives)
  moreover have "si mod 256 = sj mod 256"
    using vocabulary_lower_inject [OF words(3,4) noun] distinct_aliasNouns
    by (simp add: nth_eq_iff_index_eq length_aliasNouns)
  ultimately have "si = sj" by (metis div_mult_mod_eq)
  then have "(i - 1) mod AliasPoolSize = (j - 1) mod AliasPoolSize"
    by (intro slot_inject) (simp add: si_def sj_def word_unat_eq_iff)
  moreover have "1 \<le> ti" "1 \<le> tj"
    using assms(1,2) by (simp_all add: ti_def tj_def AliasPoolSize_def)
  with tier have "ti = tj" by (simp add: tier_suffix_inject)
  then have "(i - 1) div AliasPoolSize = (j - 1) div AliasPoolSize"
    by (simp add: ti_def tj_def)
  ultimately have "i - 1 = j - 1" by (metis div_mult_mod_eq)
  then show ?thesis by simp
qed

subsection \<open>The grammar accepts what the generator issues\<close>

lemma alias_bodyI:
  assumes "alias_word v" "alias_word w" "r = [] \<or> (\<exists>ds. r = CHR '' '' # ds \<and> tier_ok ds)"
  shows "alias_body (v @ CHR '' '' # w @ r)"
proof -
  have "r = [] \<or> hd r = CHR '' ''" using assms(3) by auto
  note w = takeWhile_alpha_word [OF assms(2) this]
  have "CHR '' '' # w @ r = [] \<or> hd (CHR '' '' # w @ r) = CHR '' ''" by simp
  note v = takeWhile_alpha_word [OF assms(1) this]
  show ?thesis using assms v w by (auto simp: alias_body_def Let_def)
qed

lemma alias_bodyE:
  assumes "alias_body s"
  obtains v w r where "s = v @ CHR '' '' # w @ r" "alias_word v" "alias_word w"
    "r = [] \<or> (\<exists>ds. r = CHR '' '' # ds \<and> tier_ok ds)"
proof -
  obtain r2 where r2: "dropWhile is_alpha s = CHR '' '' # r2"
    using assms by (auto simp: alias_body_def Let_def split: list.splits)
  show ?thesis
  proof
    show "s = takeWhile is_alpha s @ CHR '' '' # takeWhile is_alpha r2 @ dropWhile is_alpha r2"
      using takeWhile_dropWhile_id [of is_alpha s] by (simp add: r2)
  qed (use assms r2 in \<open>auto simp: alias_body_def Let_def split: list.splits\<close>)
qed

lemma tier_ok_digits: "tier_ok ds \<Longrightarrow> list_all is_digit ds"
  by (auto simp: tier_ok_def split: list.splits if_splits)

lemma alias_body_chars:
  assumes "alias_body s" "c \<in> set s"
  shows "is_alpha c \<or> is_digit c \<or> c = CHR '' ''"
  using assms(1)
proof (rule alias_bodyE)
  fix v w r
  assume "s = v @ CHR '' '' # w @ r" "alias_word v" "alias_word w"
    "r = [] \<or> (\<exists>ds. r = CHR '' '' # ds \<and> tier_ok ds)"
  with assms(2) show ?thesis
    by (auto simp: alias_word_def list_all_iff dest: tier_ok_digits)
qed

lemma alias_body_no_special:
  assumes "alias_body s"
  shows "tok_close \<notin> set s" "CHR 0x7B \<notin> set s" "CHR 0x40 \<notin> set s"
  using alias_body_chars [OF assms, of tok_close] alias_body_chars [OF assms, of "CHR 0x7B"]
    alias_body_chars [OF assms, of "CHR 0x40"]
  by (auto simp: tok_close_def is_alpha_def is_upper_def is_lower_def is_digit_def byte_def)

lemma tier_ok_digits10:
  assumes "2 \<le> n" "n < 10 ^ 15"
  shows "tier_ok (digits10 n)"
proof (cases "n < 10")
  case True
  then have "digits10 n = [char_of (48 + n)]" by (subst digits10.simps) simp
  with True assms(1) show ?thesis by (simp add: tier_ok_def is_digit_def byte_char_of)
next
  case False
  then have "2 \<le> length (digits10 n)" by (simp add: length_digits10_ge2)
  then obtain d ds where ds: "digits10 n = d # ds" "ds \<noteq> []"
    by (cases "digits10 n"; cases "tl (digits10 n)") auto
  have "length (digits10 n) \<le> 15" using assms(2) by (intro length_digits10) simp_all
  moreover have "49 \<le> byte d" using digits10_hd [of n] assms(1) ds(1) by simp
  ultimately show ?thesis
    using digits10_digits [of n] ds by (simp add: tier_ok_def)
qed

lemma ParseAliasToken_Some:
  "ParseAliasToken t = Some a \<longleftrightarrow> t = tok_open @ a @ [tok_close] \<and> alias_body a"
proof
  assume p: "ParseAliasToken t = Some a"
  then have t: "has_prefix t tok_open" "3 \<le> length t" "last t = tok_close"
    "a = butlast (drop 2 t)" "alias_body a"
    by (auto simp: ParseAliasToken_def split: if_splits)
  have "t = tok_open @ drop 2 t"
    using has_prefix_split [OF t(1)] by (simp add: tok_open_def numeral_2_eq_2)
  moreover have "drop 2 t \<noteq> []" "last (drop 2 t) = tok_close"
    using t(2,3) by (simp_all add: last_drop)
  then have "drop 2 t = butlast (drop 2 t) @ [tok_close]"
    using append_butlast_last_id [of "drop 2 t"] by simp
  ultimately show "t = tok_open @ a @ [tok_close] \<and> alias_body a"
    using t(4,5) by (simp only: append_assoc [symmetric] simp_thms)
next
  assume "t = tok_open @ a @ [tok_close] \<and> alias_body a"
  moreover have "a \<noteq> []" if "alias_body a" using that by (rule alias_bodyE) simp
  ultimately show "ParseAliasToken t = Some a"
    by (auto simp: ParseAliasToken_def tok_open_def has_prefix_def neq_Nil_conv)
qed

lemma ValidAlias_iff: "ValidAlias a \<longleftrightarrow> alias_body a"
  using alias_body_no_special [of a] ParseAliasToken_Some [of "tok_open @ a @ [tok_close]"]
  by (auto simp: ValidAlias_def contains_any_def list_ex_iff tok_close_def)

lemma alias_valid:
  assumes "1 \<le> ordinal" "ordinal < 2 ^ 63" "syncSetAlias ordinal scrambled = Inr a"
  shows "ValidAlias a"
proof -
  define t where "t = (ordinal - 1) div AliasPoolSize + 1"
  define s where "s = unat (alias_slot ordinal scrambled)"
  have "s div 256 < 256" using unat_slot_less [of "alias_slot ordinal scrambled"] by (simp add: s_def)
  then have words: "alias_word (aliasAdjectives ! (s div 256))" "alias_word (aliasNouns ! (s mod 256))"
    by (simp_all add: vocabulary_adjective vocabulary_noun vocabulary_alias_word)
  have "t \<le> (2 ^ 63 - 2) div AliasPoolSize + 1"
    using assms(2) by (simp add: t_def AliasPoolSize_def zdiv_mono1)
  then have "nat t < 10 ^ 15" by (simp add: AliasPoolSize_def nat_less_iff)
  then have "tier_suffix t = [] \<or> (\<exists>ds. tier_suffix t = CHR '' '' # ds \<and> tier_ok ds)"
    by (auto simp: tier_suffix_def format_int_def intro!: tier_ok_digits10)
  then show ?thesis
    using assms words by (auto simp: ValidAlias_iff syncSetAlias_shape t_def s_def intro!: alias_bodyI)
qed

subsection \<open>What the scanner finds\<close>

lemma has_prefix_single: "has_prefix s [c] \<longleftrightarrow> (\<exists>r. s = c # r)"
  by (cases s) (auto simp: has_prefix_def)

lemma substr_length: "b \<le> e \<Longrightarrow> e \<le> length s \<Longrightarrow> length (substr s b e) = e - b"
  by (simp add: substr_def)

lemma spans_from_cases [case_names Stop Skip]:
  obtains "spans_from text start = []"
  | b c where "start \<le> b" "b + c + 1 \<le> length text" "start < length text"
      "spans_from text start =
         (if ParseAliasToken (substr text b (b + c + 1)) \<noteq> None \<and> even (backslashes_before text b)
          then [(b, b + c + 1)] else []) @ spans_from text (b + c + 1)"
proof (cases "start < length text")
  case False
  then show ?thesis using that(1) by (simp add: spans_from.simps)
next
  case lt: True
  show ?thesis
  proof (cases "index_of (drop start text) tok_open")
    case None
    then show ?thesis using that(1) by (simp add: spans_from.simps)
  next
    case (Some off)
    show ?thesis
    proof (cases "index_of (drop (start + off) text) [tok_close]")
      case None
      with Some show ?thesis using that(1) by (simp add: spans_from.simps Let_def)
    next
      case (Some c)
      from index_of_Some [OF this] have "start + off + c + 1 \<le> length text"
        using lt index_of_Some [OF \<open>index_of (drop start text) tok_open = Some off\<close>] by auto
      moreover have "spans_from text start =
         (if ParseAliasToken (substr text (start + off) (start + off + c + 1)) \<noteq> None \<and>
             even (backslashes_before text (start + off))
          then [(start + off, start + off + c + 1)] else []) @ spans_from text (start + off + c + 1)"
        using lt \<open>index_of (drop start text) tok_open = Some off\<close> Some
        by (subst spans_from.simps) (simp add: Let_def)
      ultimately show ?thesis using that(2) [of "start + off" c] lt by simp
    qed
  qed
qed

lemma spans_from_sound:
  "(b, e) \<in> set (spans_from text start) \<Longrightarrow>
     start \<le> b \<and> b < e \<and> e \<le> length text \<and> ParseAliasToken (substr text b e) \<noteq> None \<and>
     even (backslashes_before text b)"
proof (induction "length text - start" arbitrary: start rule: less_induct)
  case less
  show ?case
  proof (cases "text" start rule: spans_from_cases)
    case Stop
    with less.prems show ?thesis by simp
  next
    case (Skip b' c)
    then have "length text - (b' + c + 1) < length text - start" by simp
    note IH = less.hyps [OF this]
    from less.prems Skip(4) consider
        "(b, e) = (b', b' + c + 1)" "ParseAliasToken (substr text b' (b' + c + 1)) \<noteq> None"
        "even (backslashes_before text b')"
      | "(b, e) \<in> set (spans_from text (b' + c + 1))"
      by (auto split: if_splits)
    then show ?thesis
      by cases (use Skip(1,2) IH in auto)
  qed
qed

lemma spans_from_ordered:
  "sorted_wrt (\<lambda>p q. snd p \<le> fst q) (spans_from text start)"
proof (induction "length text - start" arbitrary: start rule: less_induct)
  case less
  show ?case
  proof (cases "text" start rule: spans_from_cases)
    case Stop
    then show ?thesis by simp
  next
    case (Skip b c)
    then have "length text - (b + c + 1) < length text - start" by simp
    note IH = less.hyps [OF this]
    have "\<forall>q \<in> set (spans_from text (b + c + 1)). b + c + 1 \<le> fst q"
      using spans_from_sound [of _ _ "text" "b + c + 1"] by fastforce
    with IH show ?thesis by (simp add: Skip(4))
  qed
qed

text \<open>
  A position inside \<open>u @ v\<close> behind \<open>u\<close> is scanned as in \<open>v\<close> alone, provided \<open>u\<close> does not end in a
  backslash that would escape the first byte of \<open>v\<close>.
\<close>

definition shift_span :: "nat \<Rightarrow> nat \<times> nat \<Rightarrow> nat \<times> nat" where
  "shift_span n p = (n + fst p, n + snd p)"

lemma takeWhile_append_stop: "takeWhile P ys = [] \<Longrightarrow> takeWhile P (xs @ ys) = takeWhile P xs"
  by (induction xs) auto

lemma backslashes_before_append:
  assumes "u = [] \<or> last u \<noteq> CHR 0x5C"
  shows "backslashes_before (u @ v) (length u + b) = backslashes_before v b"
proof -
  have "takeWhile (\<lambda>c. c = CHR 0x5C) (rev u) = []"
    using assms by (cases u rule: rev_cases) auto
  then show ?thesis by (simp add: backslashes_before_def takeWhile_append_stop)
qed

lemma substr_append: "substr (u @ v) (length u + b) (length u + e) = substr v b e"
  by (simp add: substr_def)

lemma spans_from_append:
  assumes "u = [] \<or> last u \<noteq> CHR 0x5C"
  shows "spans_from (u @ v) (length u + k) = map (shift_span (length u)) (spans_from v k)"
proof (induction "length v - k" arbitrary: k rule: less_induct)
  case less
  show ?case
  proof (cases "k < length v")
    case False
    then show ?thesis by (simp add: spans_from.simps)
  next
    case lt: True
    show ?thesis
    proof (cases "index_of (drop k v) tok_open")
      case None
      with lt show ?thesis by (simp add: spans_from.simps)
    next
      case (Some off)
      show ?thesis
      proof (cases "index_of (drop (k + off) v) [tok_close]")
        case None
        with lt Some show ?thesis by (simp add: spans_from.simps Let_def add.assoc)
      next
        case (Some c)
        define b e where "b = k + off" and "e = k + off + c + 1"
        have IH: "spans_from (u @ v) (length u + e) = map (shift_span (length u)) (spans_from v e)"
          using lt by (intro less.hyps) (simp add: e_def)
        have left: "spans_from (u @ v) (length u + k) =
          (let rest = spans_from (u @ v) (length u + e) in
           if ParseAliasToken (substr v b e) = None then rest
           else if even (backslashes_before v b) then (length u + b, length u + e) # rest else rest)"
          using lt \<open>index_of (drop k v) tok_open = Some off\<close> Some
            backslashes_before_append [OF assms, of v b] substr_append [of u v b e]
          by (subst spans_from.simps) (simp add: Let_def b_def e_def add.assoc)
        have right: "spans_from v k =
          (let rest = spans_from v e in
           if ParseAliasToken (substr v b e) = None then rest
           else if even (backslashes_before v b) then (b, e) # rest else rest)"
          using lt \<open>index_of (drop k v) tok_open = Some off\<close> Some
          by (subst spans_from.simps) (simp add: Let_def b_def e_def)
        show ?thesis by (simp add: left right IH Let_def shift_span_def)
      qed
    qed
  qed
qed

lemma index_of_close:
  assumes "tok_close \<notin> set s"
  shows "index_of (s @ tok_close # r) [tok_close] = Some (length s)"
proof (rule index_of_first)
  fix j assume "j < length s"
  moreover from this have "s ! j \<noteq> tok_close" using assms nth_mem by metis
  ultimately show "\<not> has_prefix (drop j (s @ tok_close # r)) [tok_close]"
    by (auto simp: has_prefix_single Cons_nth_drop_Suc [symmetric])
qed (simp_all add: has_prefix_def)

lemma index_of_open:
  assumes "index_of s tok_open = None"
  shows "index_of (s @ tok_open @ r) tok_open = Some (length s)"
proof (rule index_of_first)
  fix j assume j: "j < length s"
  have "\<not> has_prefix (drop j s) tok_open" using assms by (rule index_of_None)
  with j show "\<not> has_prefix (drop j (s @ tok_open @ r)) tok_open"
    by (cases "drop j s"; cases "tl (drop j s)")
       (auto simp: has_prefix_def tok_open_def take_Cons')
qed (simp_all add: has_prefix_def)

lemma scan_first_token:
  assumes "index_of pre tok_open = None" "alias_body a"
  defines "tok \<equiv> tok_open @ a @ [tok_close]"
  shows "AliasTokenSpans (pre @ tok @ post) =
    (if even (backslashes_before pre (length pre)) then [(length pre, length pre + length tok)] else [])
     @ map (shift_span (length pre + length tok)) (AliasTokenSpans post)"
proof -
  let ?t = "pre @ tok @ post"
  have open_: "index_of ?t tok_open = Some (length pre)"
    using index_of_open [OF assms(1)] by (simp add: tok_def)
  have "tok_close \<notin> set (tok_open @ a)"
    using alias_body_no_special [OF assms(2)] by (simp add: tok_open_def tok_close_def)
  from index_of_close [OF this] have close: "index_of (tok @ post) [tok_close] = Some (length a + 2)"
    by (simp add: tok_def tok_open_def)
  have parse: "ParseAliasToken (substr ?t (length pre) (length pre + length tok)) = Some a"
    using assms(2) by (simp add: substr_def ParseAliasToken_Some tok_def)
  have esc: "backslashes_before ?t (length pre) = backslashes_before pre (length pre)"
    by (simp add: backslashes_before_def)
  have len: "length tok = length a + 3" by (simp add: tok_def tok_open_def)
  have rest: "spans_from ?t (length pre + length tok) =
      map (shift_span (length pre + length tok)) (spans_from post 0)"
    using spans_from_append [of "pre @ tok" post 0] by (simp add: tok_def tok_close_def)
  have "spans_from ?t 0 =
      (let rest = spans_from ?t (length pre + length tok) in
       if ParseAliasToken (substr ?t (length pre) (length pre + length tok)) = None then rest
       else if even (backslashes_before ?t (length pre))
       then (length pre, length pre + length tok) # rest else rest)"
    using open_ close by (subst spans_from.simps) (simp add: Let_def len numeral_3_eq_3)
  then show ?thesis by (simp add: AliasTokenSpans_def parse esc rest Let_def)
qed

subsection \<open>Properties\<close>

text \<open>
  The scrambled slot order is a permutation of all 65536 slots; in particular two ordinals of
  one tier never share a slot.
\<close>

theorem scrambled_slot_bijective: "bij scrambledAliasSlot"
  by (simp add: bij_def inj_scrambledAliasSlot finite_UNIV_inj_surj)

text \<open>
  two different ordinals get aliases that differ even when case is ignored, in either order of
  the installation, so the case-insensitive unique column of the alias table never rejects one.
\<close>

theorem alias_nocase_injective:
  assumes "1 \<le> i" "1 \<le> j" "i \<noteq> j"
  shows "\<exists>x y. syncSetAlias i b = Inr x \<and> syncSetAlias j b = Inr y \<and> map lower x \<noteq> map lower y"
proof -
  obtain x y where "syncSetAlias i b = Inr x" "syncSetAlias j b = Inr y"
    using syncSetAlias_shape assms(1,2) by blast
  moreover from this have "map lower x \<noteq> map lower y"
    using alias_lower_inject [OF assms(1,2)] assms(3) by blast
  ultimately show ?thesis by blast
qed

theorem alias_nocase_injective_witness:
  "\<exists>x y. syncSetAlias 1 True = Inr x \<and> syncSetAlias 65537 True = Inr y \<and> map lower x \<noteq> map lower y"
  by (rule alias_nocase_injective) simp_all

text \<open>
  every alias issued for a positive \<^verbatim>\<open>int64\<close> ordinal is accepted by the token grammar, and a
  message that consists of the token of such an alias is scanned as exactly one reference.
\<close>

theorem issued_alias_is_referable:
  assumes "1 \<le> ordinal" "ordinal < 2 ^ 63"
  shows "\<exists>a. syncSetAlias ordinal scrambled = Inr a \<and> ValidAlias a \<and>
    ParseAliasToken (tok_open @ a @ [tok_close]) = Some a \<and>
    AliasTokenSpans (tok_open @ a @ [tok_close]) = [(0, length a + 3)]"
proof -
  obtain a where a: "syncSetAlias ordinal scrambled = Inr a"
    using assms(1) by (simp add: syncSetAlias_shape)
  with assms have "ValidAlias a" by (intro alias_valid)
  moreover from this have "alias_body a" by (simp add: ValidAlias_iff)
  moreover from scan_first_token [OF _ this, of "[]" "[]"]
  have "AliasTokenSpans (tok_open @ a @ [tok_close]) = [(0, length a + 3)]"
    by (simp add: tok_open_def backslashes_before_def AliasTokenSpans_def spans_from.simps)
  ultimately show ?thesis using a by (simp add: ParseAliasToken_Some)
qed

theorem issued_alias_is_referable_witness:
  "\<exists>a. syncSetAlias 9223372036854775807 True = Inr a \<and> ValidAlias a \<and>
    ParseAliasToken (tok_open @ a @ [tok_close]) = Some a \<and>
    AliasTokenSpans (tok_open @ a @ [tok_close]) = [(0, length a + 3)]"
  by (rule issued_alias_is_referable) simp_all

text \<open>
  every span the scanner reports lies inside the message, is a well-formed token and has an even
  number of backslashes before it; the spans are in order and do not overlap.
\<close>

theorem token_spans_sound:
  "(\<forall>(b, e) \<in> set (AliasTokenSpans text).
      b < e \<and> e \<le> length text \<and> (\<exists>a. substr text b e = tok_open @ a @ [tok_close] \<and> ValidAlias a) \<and>
      even (backslashes_before text b)) \<and>
   sorted_wrt (\<lambda>p q. snd p \<le> fst q) (AliasTokenSpans text)"
  using spans_from_sound [of _ _ "text" 0] spans_from_ordered [of "text" 0]
  by (fastforce simp: AliasTokenSpans_def ParseAliasToken_Some ValidAlias_iff)

text \<open>
  The scanner misses nothing: in a message whose first opening brace pair starts a well-formed
  token it reports that token exactly when it is not escaped, and goes on with the rest of the
  message as if it stood alone.
\<close>

theorem token_spans_compositional:
  assumes "index_of pre tok_open = None" "ValidAlias a"
  shows "AliasTokenSpans (pre @ (tok_open @ a @ [tok_close]) @ post) =
    (if even (backslashes_before pre (length pre))
     then [(length pre, length pre + length a + 3)] else [])
     @ map (shift_span (length pre + length a + 3)) (AliasTokenSpans post)"
proof -
  have len: "length (tok_open @ a @ [tok_close]) = length a + 3" by (simp add: tok_open_def)
  show ?thesis
    using scan_first_token [OF assms(1), of a post] assms(2) unfolding len
    by (simp only: ValidAlias_iff add.assoc simp_thms)
qed

text \<open>A message with an escaped token and one that is not, for the two statements above.\<close>

definition sample_message :: string where
  "sample_message =
     ''a'' @ [CHR 0x5C] @ tok_open @ ''Amber Badger'' @ [tok_close] @ '' b '' @
     tok_open @ ''Pale Poppy 2'' @ [tok_close]"

lemma sample_message_spans: "AliasTokenSpans sample_message = [(20, 35)]"
  by code_simp

theorem token_spans_sound_witness:
  "AliasTokenSpans sample_message = [(20, 35)] \<and> even (backslashes_before sample_message 20) \<and>
   (\<exists>a. substr sample_message 20 35 = tok_open @ a @ [tok_close] \<and> ValidAlias a)"
  using token_spans_sound [of sample_message] by (simp add: sample_message_spans)

theorem token_spans_compositional_witness:
  "AliasTokenSpans (''Hi '' @ (tok_open @ ''Amber Badger'' @ [tok_close]) @ '' and more'') = [(3, 18)]"
proof -
  have 1: "index_of ''Hi '' tok_open = None" "ValidAlias ''Amber Badger''" by code_simp+
  have 2: "even (backslashes_before ''Hi '' (length ''Hi ''))" "AliasTokenSpans '' and more'' = []"
    by code_simp+
  show ?thesis using token_spans_compositional [OF 1, of "'' and more''"] 2 by simp
qed

end
