(* ===== verification/Transport.thy ===== *)
theory Transport
  imports Identity "HOL-Library.List_Lexorder" "HOL-Library.Char_ord"
begin

text \<open>
  The types that cross the transport boundary (\<^verbatim>\<open>internal/transport/transport.go\<close>), the failure
  classes of \<^verbatim>\<open>failure.go\<close>, the rewriting of cross references of \<^verbatim>\<open>references.go\<close>, and the
  conversation commands of \<^verbatim>\<open>internal/commands/commands.go\<close>.

  Durations are \<^verbatim>\<open>int64\<close> nanoseconds; \<open>wrap64\<close> is the wrap-around of their arithmetic. Times are
  milliseconds since the epoch, \<open>None\<close> is the zero \<^verbatim>\<open>time.Time\<close>.
\<close>

definition wrap64 :: "int \<Rightarrow> int" where
  "wrap64 i = (i + 2 ^ 63) mod 2 ^ 64 - 2 ^ 63"

lemma wrap64_id: "- (2 ^ 63) \<le> i \<Longrightarrow> i < 2 ^ 63 \<Longrightarrow> wrap64 i = i"
  by (simp add: wrap64_def)

lemma wrap64_range: "- (2 ^ 63) \<le> wrap64 i \<and> wrap64 i < 2 ^ 63"
  unfolding wrap64_def using pos_mod_bound [of "2 ^ 64" "i + 2 ^ 63"] pos_mod_sign [of "2 ^ 64" "i + 2 ^ 63"]
  by simp

subsection \<open>Failures\<close>

type_synonym FailureClass = string

definition FailureTransient :: FailureClass where "FailureTransient = ''transient''"
definition FailureRateLimited :: FailureClass where "FailureRateLimited = ''rate_limited''"
definition FailurePermissionDenied :: FailureClass where "FailurePermissionDenied = ''permission_denied''"
definition FailureDestinationMissing :: FailureClass where "FailureDestinationMissing = ''destination_missing''"
definition FailurePayloadRejected :: FailureClass where "FailurePayloadRejected = ''payload_rejected''"
definition FailureUnsupported :: FailureClass where "FailureUnsupported = ''unsupported''"

lemmas failure_class_defs = FailureTransient_def FailureRateLimited_def FailurePermissionDenied_def
  FailureDestinationMissing_def FailurePayloadRejected_def FailureUnsupported_def

text \<open>
  An error value of the transport boundary: \<open>FailurePtr\<close> is a non-nil \<^verbatim>\<open>*Failure\<close> with its cause,
  \<open>NilFailure\<close> a nil one stored in an \<^verbatim>\<open>error\<close>, \<open>Wrapped\<close> any other error that unwraps to the
  given one, \<open>Plain\<close> an error that unwraps to nothing.
\<close>

datatype SendCertainty = SendDefinitelyNotSent | SendAccepted | SendUnknown

datatype terr =
    FailurePtr FailureClass bool int SendCertainty "terr option"
  | NilFailure
  | Wrapped string terr
  | Plain string

record Failure =
  Class :: FailureClass
  Retryable :: bool
  RetryAfter :: int
  Certainty :: SendCertainty
  Cause :: "terr option"

definition certainty_of :: "nat \<Rightarrow> SendCertainty" where
  "certainty_of n = (if n = 0 then SendDefinitelyNotSent else if n = 1 then SendAccepted else SendUnknown)"

definition failure_error :: "Failure option \<Rightarrow> string" where
  "failure_error f = (case f of None \<Rightarrow> FailureTransient | Some f \<Rightarrow> Class f)"

definition failure_unwrap :: "Failure option \<Rightarrow> terr option" where
  "failure_unwrap f = (case f of None \<Rightarrow> None | Some f \<Rightarrow> Cause f)"

definition validFailureClass :: "FailureClass \<Rightarrow> bool" where
  "validFailureClass class =
     (class \<in> {FailureTransient, FailureRateLimited, FailurePermissionDenied,
               FailureDestinationMissing, FailurePayloadRejected, FailureUnsupported})"

definition classRetryable :: "FailureClass \<Rightarrow> bool" where
  "classRetryable class = (class = FailureTransient \<or> class = FailureRateLimited)"

text \<open>\<open>certainty\<close> is the \<^verbatim>\<open>uint8\<close> the caller passes.\<close>

definition NewFailureWithCertainty :: "FailureClass \<Rightarrow> int \<Rightarrow> nat \<Rightarrow> terr option \<Rightarrow> terr option" where
  "NewFailureWithCertainty class retryAfter certainty cause =
     (case cause of
        None \<Rightarrow> None
      | Some _ \<Rightarrow>
          let class = (if validFailureClass class then class else FailureTransient);
              retryAfter = (if retryAfter < 0 then 0 else retryAfter);
              certainty = (if 2 < certainty then 2 else certainty)
          in Some (FailurePtr class (classRetryable class) retryAfter (certainty_of certainty) cause))"

definition NewFailure :: "FailureClass \<Rightarrow> int \<Rightarrow> terr option \<Rightarrow> terr option" where
  "NewFailure class retryAfter cause = NewFailureWithCertainty class retryAfter 0 cause"

text \<open>\<^verbatim>\<open>errors.As(err, &failure)\<close>: the first \<^verbatim>\<open>*Failure\<close> of the chain; \<open>Some None\<close> if that is nil.\<close>

fun as_failure :: "terr \<Rightarrow> Failure option option" where
  "as_failure (FailurePtr c r a ce e) =
     Some (Some \<lparr>Class = c, Retryable = r, RetryAfter = a, Certainty = ce, Cause = e\<rparr>)"
| "as_failure NilFailure = Some None"
| "as_failure (Wrapped m e) = as_failure e"
| "as_failure (Plain m) = None"

definition Classify :: "terr option \<Rightarrow> Failure" where
  "Classify err =
     (case err of
        None \<Rightarrow> \<lparr>Class = [], Retryable = False, RetryAfter = 0, Certainty = SendDefinitelyNotSent, Cause = None\<rparr>
      | Some e \<Rightarrow>
          (case as_failure e of
             Some (Some failure) \<Rightarrow> failure
           | _ \<Rightarrow> \<lparr>Class = FailureTransient, Retryable = True, RetryAfter = 0,
                  Certainty = SendDefinitelyNotSent, Cause = err\<rparr>))"

text \<open>The errors the constructors of the package can produce, wrapped or not.\<close>

fun built_error :: "terr \<Rightarrow> bool" where
  "built_error (FailurePtr c r a ce e) = (validFailureClass c \<and> r = classRetryable c \<and> 0 \<le> a \<and> e \<noteq> None)"
| "built_error NilFailure = True"
| "built_error (Wrapped m e) = built_error e"
| "built_error (Plain m) = True"

lemma classRetryable_transient [simp]: "classRetryable FailureTransient" "validFailureClass FailureTransient"
  by (simp_all add: classRetryable_def validFailureClass_def)

lemma built_NewFailure: "NewFailureWithCertainty c a n e = Some x \<Longrightarrow> built_error x"
  by (auto simp: NewFailureWithCertainty_def Let_def split: option.splits)

lemma as_failure_built:
  "built_error e \<Longrightarrow> as_failure e = Some (Some f) \<Longrightarrow>
     validFailureClass (Class f) \<and> Retryable f = classRetryable (Class f) \<and> 0 \<le> RetryAfter f"
  by (induction e) auto

lemma Classify_built:
  assumes "built_error e"
  shows "validFailureClass (Class (Classify (Some e)))"
    and "Retryable (Classify (Some e)) = classRetryable (Class (Classify (Some e)))"
    and "0 \<le> RetryAfter (Classify (Some e))"
  using as_failure_built [OF assms]
  by (auto simp: Classify_def split: option.splits)

subsection \<open>The records of the boundary\<close>

type_synonym EndpointID = string
type_synonym gtime = "int option"

record Checkpoint =
  StreamKey :: string
  Position :: int
  EventTimestamp :: gtime
  Valid :: bool

record ChildScope =
  cs_Kind :: string
  cs_RemoteID :: string
  cs_Label :: string

record MessageRef =
  mr_Endpoint :: EndpointID
  mr_RemoteMessageID :: string
  mr_IsTargetFromMe :: bool
  mr_Provider :: string
  mr_ProviderReference :: string
  mr_ChildScope :: "ChildScope option"

record Sender =
  sd_Alias :: string
  sd_Anonymized :: bool
  sd_IdentityUnavailable :: bool
  sd_DisplayName :: string
  sd_PhoneNumber :: string
  sd_OpaqueID :: string

definition NameWithAlias :: "Sender \<Rightarrow> string \<Rightarrow> string" where
  "NameWithAlias s name =
     (if sd_Anonymized s then sd_Alias s
      else if sd_Alias s = [] then name
      else if name = [] then sd_Alias s
      else name @ '' ('' @ sd_Alias s @ '')'')"

record Mention =
  mn_Alias :: string
  mn_ActorID :: string
  mn_RemoteID :: string
  mn_Name :: string

record CrossReference =
  cr_Token :: string
  cr_ActorID :: string
  cr_Alias :: string
  cr_Name :: string

text \<open>
  The media loader of an incoming event is kept as the bytes or the error a call of it yields.
  A poll snapshot is the map from option index to its count; a nil slice of option indexes is \<open>None\<close>.
\<close>

record Incoming =
  in_Endpoint :: EndpointID
  in_Checkpoint :: Checkpoint
  in_RemoteID :: string
  in_Sender :: Sender
  in_FromSelf :: bool
  in_Kind :: string
  in_Text :: string
  in_Mentions :: "Mention list"
  in_ReplyTo :: "MessageRef option"
  in_ChildScope :: "ChildScope option"
  in_QuotedMentions :: "Mention list"
  in_QuotedText :: string
  in_Timestamp :: gtime
  in_MediaLoader :: "(terr + string) option"
  in_PollOptions :: "string list"
  in_PollSelectableCount :: int
  in_PollDurationHours :: int
  in_PollOptionHashes :: "string list"
  in_PollOptionIndexes :: "int list option"
  in_PollSnapshot :: "(int \<times> int) list"
  in_PollProvider :: string
  in_PollProviderReference :: string
  in_PollSourceUnavailable :: bool

record Outgoing =
  out_Endpoint :: EndpointID
  out_OriginEndpoint :: EndpointID
  out_Sender :: Sender
  out_SenderLabel :: string
  out_SourceText :: string
  out_AttributionOnly :: bool
  out_ReplyFallback :: bool
  out_Text :: string
  out_RenderedText :: string
  out_PollAttribution :: string
  out_Mentions :: "Mention list"
  out_References :: "CrossReference list"
  out_ReferenceAnonymized :: bool
  out_ReplyTo :: "MessageRef option"
  out_ChildScope :: "ChildScope option"
  out_QuotedText :: string
  out_MediaBytes :: string
  out_Kind :: string
  out_PollOptions :: "string list"
  out_PollSelectableCount :: int
  out_PollDurationHours :: int

record Reaction =
  re_Endpoint :: EndpointID
  re_TargetRemoteID :: string
  re_IsTargetFromMe :: bool
  re_ChildScope :: "ChildScope option"
  re_Emoji :: string
  re_FallbackText :: string

subsection \<open>Cross references\<close>

text \<open>
  \<open>native\<close> is the callback of the adapter: \<open>None\<close> stands for a false second result. The map of
  authorized tokens keeps the lst reference of a token. The loop carries \<open>lst\<close> and the text
  written so far.
\<close>

definition authorized_refs :: "CrossReference list \<Rightarrow> string \<rightharpoonup> CrossReference" where
  "authorized_refs refs =
     foldl (\<lambda>m ref. if cr_Token ref \<noteq> [] \<and> cr_ActorID ref \<noteq> [] then m(cr_Token ref \<mapsto> ref) else m)
       Map.empty refs"

definition ref_replacement ::
  "CrossReference list \<Rightarrow> (CrossReference \<Rightarrow> string option) \<Rightarrow> string \<Rightarrow> string option" where
  "ref_replacement refs native token =
     (case authorized_refs refs token of
        None \<Rightarrow> None
      | Some ref \<Rightarrow>
          (case native ref of
             None \<Rightarrow> None
           | Some replacement \<Rightarrow> if replacement = [] then None else Some replacement))"

fun rewrite_spans ::
  "CrossReference list \<Rightarrow> (CrossReference \<Rightarrow> string option) \<Rightarrow> string \<Rightarrow>
   (nat \<times> nat) list \<Rightarrow> nat \<Rightarrow> string \<Rightarrow> nat \<times> string" where
  "rewrite_spans refs native text [] lst result = (lst, result)"
| "rewrite_spans refs native text ((b, e) # spans) lst result =
     (case ref_replacement refs native (substr text b e) of
        None \<Rightarrow> rewrite_spans refs native text spans lst result
      | Some replacement \<Rightarrow>
          rewrite_spans refs native text spans e (result @ substr text lst b @ replacement))"

definition RewriteCrossReferences ::
  "string \<Rightarrow> CrossReference list \<Rightarrow> (CrossReference \<Rightarrow> string option) option \<Rightarrow> string" where
  "RewriteCrossReferences text refs native =
     (case native of
        None \<Rightarrow> text
      | Some native \<Rightarrow>
          if refs = [] then text
          else
            (case rewrite_spans refs native text (AliasTokenSpans text) 0 [] of
               (lst, result) \<Rightarrow> if lst = 0 then text else result @ drop lst text))"

definition ReferenceDisplayLabel :: "CrossReference \<Rightarrow> bool \<Rightarrow> string" where
  "ReferenceDisplayLabel ref anonymized =
     (if \<not> anonymized \<and> trim_space (cr_Name ref) \<noteq> [] \<and> cr_Name ref \<noteq> cr_Alias ref
      then cr_Name ref @ '' ('' @ cr_Alias ref @ '')''
      else cr_Alias ref)"

text \<open>
  What the rewriting is meant to be: the message is cut at its tokens; the text between them is
  kept, each token is replaced by its native label or kept.
\<close>

fun cut_rewrite :: "(string \<Rightarrow> string option) \<Rightarrow> string \<Rightarrow> nat \<Rightarrow> (nat \<times> nat) list \<Rightarrow> string" where
  "cut_rewrite f text pos [] = drop pos text"
| "cut_rewrite f text pos ((b, e) # spans) =
     substr text pos b @
     (case f (substr text b e) of None \<Rightarrow> substr text b e | Some r \<Rightarrow> r) @
     cut_rewrite f text e spans"

lemma substr_drop: "b \<le> e \<Longrightarrow> substr s b e @ drop e s = drop b s"
proof -
  assume "b \<le> e"
  then have "drop e s = drop (e - b) (drop b s)" by simp
  then show ?thesis by (simp only: substr_def append_take_drop_id)
qed

lemma substr_join: "a \<le> b \<Longrightarrow> b \<le> c \<Longrightarrow> substr s a b @ substr s b c = substr s a c"
proof -
  assume "a \<le> b" "b \<le> c"
  then have "c - a = (b - a) + (c - b)" "drop b s = drop (b - a) (drop a s)" by simp_all
  then show ?thesis by (simp only: substr_def take_add)
qed

definition good_spans :: "string \<Rightarrow> nat \<Rightarrow> (nat \<times> nat) list \<Rightarrow> bool" where
  "good_spans text pos spans \<longleftrightarrow>
     (\<forall>(b, e) \<in> set spans. pos \<le> b \<and> b < e \<and> e \<le> length text) \<and> sorted_wrt (\<lambda>p q. snd p \<le> fst q) spans"

lemma good_spans_Cons [simp]:
  "good_spans text pos ((b, e) # spans) \<longleftrightarrow>
     pos \<le> b \<and> b < e \<and> e \<le> length text \<and> good_spans text e spans"
  by (fastforce simp: good_spans_def)

lemma rewrite_spans_cut:
  assumes "good_spans text pos spans" "lst \<le> pos"
  shows "(case rewrite_spans refs native text spans lst result of
            (l, res) \<Rightarrow> res @ drop l text) =
         result @ substr text lst pos @ cut_rewrite (ref_replacement refs native) text pos spans"
  using assms
proof (induction spans arbitrary: pos lst result)
  case Nil
  then show ?case by (simp add: substr_drop)
next
  case (Cons p spans)
  obtain b e where p: "p = (b, e)" by (cases p)
  with Cons.prems have b: "pos \<le> b" "b < e" "good_spans text e spans" by simp_all
  have 1: "substr text lst pos @ substr text pos b = substr text lst b"
    using b Cons.prems(2) by (simp add: substr_join)
  have 2: "substr text lst pos @ substr text pos b @ substr text b e = substr text lst e"
    using b Cons.prems(2) substr_join [of lst b e "text"] 1 by (simp add: append_assoc [symmetric] del: append_assoc)
  show ?case
  proof (cases "ref_replacement refs native (substr text b e)")
    case None
    have "lst \<le> e" using b Cons.prems(2) by simp
    with Cons.IH [OF b(3) this] None show ?thesis
      by (simp add: p 2 [symmetric])
  next
    case (Some r)
    with Cons.IH [OF b(3) order_refl] show ?thesis
      by (simp add: p append_assoc [symmetric] 1 del: append_assoc) (simp add: substr_def)
  qed
qed

lemma rewrite_spans_last:
  "good_spans text pos spans \<Longrightarrow>
     rewrite_spans refs native text spans lst result = (l, res) \<Longrightarrow>
     (l = lst \<and> res = result \<and> (\<forall>(b, e) \<in> set spans. ref_replacement refs native (substr text b e) = None)) \<or> 0 < l"
  by (induction spans arbitrary: pos lst result)
     (fastforce split: option.splits prod.splits)+

lemma cut_rewrite_id:
  "good_spans text pos spans \<Longrightarrow> (\<forall>(b, e) \<in> set spans. f (substr text b e) = None) \<Longrightarrow>
     cut_rewrite f text pos spans = drop pos text"
proof (induction spans arbitrary: pos)
  case (Cons p spans)
  obtain b e where "p = (b, e)" by (cases p)
  with Cons show ?case by (simp add: substr_drop)
qed simp

lemma good_AliasTokenSpans: "good_spans text 0 (AliasTokenSpans text)"
  using spans_from_sound [of _ _ "text" 0] spans_from_ordered [of "text" 0]
  by (fastforce simp: good_spans_def AliasTokenSpans_def)

subsection \<open>Properties\<close>



text \<open>
  C36: rewriting references cuts the message at its tokens, keeps every byte outside them, replaces an
  authorized token by its native label and keeps every other token.
\<close>

theorem rewrite_cross_references_spec:
  "RewriteCrossReferences text refs (Some native) =
     cut_rewrite (ref_replacement refs native) text 0 (AliasTokenSpans text)"
proof (cases "refs = []")
  case True
  then have "\<forall>(b, e) \<in> set (AliasTokenSpans text). ref_replacement refs native (substr text b e) = None"
    by (simp add: ref_replacement_def authorized_refs_def case_prod_beta)
  with True show ?thesis
    using cut_rewrite_id [OF good_AliasTokenSpans, of "text"] by (simp add: RewriteCrossReferences_def)
next
  case False
  obtain l res where run: "rewrite_spans refs native text (AliasTokenSpans text) 0 [] = (l, res)"
    by fastforce
  have cut: "res @ drop l text = cut_rewrite (ref_replacement refs native) text 0 (AliasTokenSpans text)"
    using rewrite_spans_cut [OF good_AliasTokenSpans, of 0 "text" refs native "[]"] run
    by (simp add: substr_def)
  have "l = 0 \<longrightarrow> res = []" using rewrite_spans_last [OF good_AliasTokenSpans run] by auto
  with False run cut show ?thesis by (auto simp: RewriteCrossReferences_def)
qed

end
