(* ===== verification/Lanes.thy ===== *)
theory Lanes
  imports Transport
begin

text \<open>
  The delivery lanes of \<^verbatim>\<open>internal/delivery/lanes.go\<close>: one bounded channel and one worker goroutine
  per endpoint, the manager that owns them, and the retry loop a queued job runs. The channel's
  content is a list, the worker a program counter; the scheduler's choices (which worker runs,
  which ready case of a \<^verbatim>\<open>select\<close> is taken) are the nondeterminism of the relation \<open>sys_step\<close>.
  The two logs of a lane are history: what was accepted and what was run.
\<close>

subsection \<open>The interface of a channel\<close>

text \<open>
  What the lanes rely on: a put appends, a take removes the oldest item, nothing else changes the
  content. From that alone follows that what was accepted is what was taken followed by what waits.
\<close>

locale fifo_channel =
  fixes put :: "'q \<Rightarrow> 'j \<Rightarrow> 'q option"
    and get :: "'q \<Rightarrow> ('j \<times> 'q) option"
    and items :: "'q \<Rightarrow> 'j list"
    and accepted :: "'q \<Rightarrow> 'j list"
    and taken :: "'q \<Rightarrow> 'j list"
    and room :: "'q \<Rightarrow> nat"
  assumes put_items: "put q j = Some q' \<Longrightarrow> items q' = items q @ [j]"
    and put_accepted: "put q j = Some q' \<Longrightarrow> accepted q' = accepted q @ [j] \<and> taken q' = taken q"
    and put_room: "put q j = None \<longleftrightarrow> room q \<le> length (items q)"
    and put_keeps_room: "put q j = Some q' \<Longrightarrow> room q' = room q"
    and get_items: "get q = Some (j, q') \<Longrightarrow> items q = j # items q'"
    and get_taken: "get q = Some (j, q') \<Longrightarrow> taken q' = taken q @ [j] \<and> accepted q' = accepted q"
    and get_keeps_room: "get q = Some (j, q') \<Longrightarrow> room q' = room q"
    and get_None: "get q = None \<longleftrightarrow> items q = []"
begin

definition consistent :: "'q \<Rightarrow> bool" where
  "consistent q \<longleftrightarrow> accepted q = taken q @ items q \<and> length (items q) \<le> room q"

lemma put_consistent: "consistent q \<Longrightarrow> put q j = Some q' \<Longrightarrow> consistent q'"
  using put_items put_accepted put_keeps_room put_room [of q j]
  by (simp add: consistent_def)

lemma get_consistent: "consistent q \<Longrightarrow> get q = Some (j, q') \<Longrightarrow> consistent q'"
  using get_items [of q j q'] get_taken [of q j q'] get_keeps_room [of q j q'] by (simp add: consistent_def)

lemma taken_is_prefix: "consistent q \<Longrightarrow> take (length (taken q)) (accepted q) = taken q"
  by (simp add: consistent_def)

end

subsection \<open>One lane\<close>

datatype lane_pc = Selecting | Draining | Exited

record 'job lane =
  jobs :: "'job list"
  lane_cap :: nat
  cancelled :: bool
  lane_pc :: lane_pc
  put_log :: "'job list"
  run_log :: "'job list"

definition newLane :: "nat \<Rightarrow> 'job lane" where
  "newLane capacity =
     \<lparr>jobs = [], lane_cap = capacity, cancelled = False, lane_pc = Selecting, put_log = [], run_log = []\<rparr>"

text \<open>The \<^verbatim>\<open>select\<close> with a default case of \<^verbatim>\<open>Enqueue\<close>, and the receive of the worker, which runs the job.\<close>

definition lane_put :: "'job lane \<Rightarrow> 'job \<Rightarrow> 'job lane option" where
  "lane_put l job =
     (if length (jobs l) < lane_cap l
      then Some (l\<lparr>jobs := jobs l @ [job], put_log := put_log l @ [job]\<rparr>) else None)"

definition lane_get :: "'job lane \<Rightarrow> ('job \<times> 'job lane) option" where
  "lane_get l =
     (case jobs l of
        [] \<Rightarrow> None
      | job # rest \<Rightarrow> Some (job, l\<lparr>jobs := rest, run_log := run_log l @ [job]\<rparr>))"

interpretation chan: fifo_channel lane_put lane_get jobs put_log run_log lane_cap
  by unfold_locales (auto simp: lane_put_def lane_get_def split: if_splits list.splits)

text \<open>
  The worker loop. \<open>parent\<close> says that the context the lane's context derives from is done. Only the
  draining loop looks at the empty channel and returns.
\<close>

inductive lane_run :: "bool \<Rightarrow> 'job lane \<Rightarrow> 'job lane \<Rightarrow> bool" for parent :: bool where
  run_job: "lane_pc l = Selecting \<Longrightarrow> lane_get l = Some (job, l') \<Longrightarrow> lane_run parent l l'"
| run_cancel: "lane_pc l = Selecting \<Longrightarrow> cancelled l \<or> parent \<Longrightarrow>
    lane_run parent l (l\<lparr>lane_pc := Draining\<rparr>)"
| run_drain: "lane_pc l = Draining \<Longrightarrow> lane_get l = Some (job, l') \<Longrightarrow> lane_run parent l l'"
| run_exit: "lane_pc l = Draining \<Longrightarrow> lane_get l = None \<Longrightarrow> lane_run parent l (l\<lparr>lane_pc := Exited\<rparr>)"

inductive_cases lane_runE: "lane_run parent l l'"

text \<open>\<^verbatim>\<open>l.stop()\<close>; the waiting of \<^verbatim>\<open>close\<close> is the lane's place in the list of closing lanes below.\<close>

definition lane_stop :: "'job lane \<Rightarrow> 'job lane" where
  "lane_stop l = l\<lparr>cancelled := True\<rparr>"

subsection \<open>The manager\<close>

definition ErrFull :: gerr where "ErrFull = ErrMsg ''delivery lane is full''"
definition ErrUnavailable :: gerr where "ErrUnavailable = ErrMsg ''delivery endpoint is unavailable''"

record RetryPolicy =
  MaxAttempts :: int
  MaxWindow :: int
  BaseDelay :: int
  MaxDelay :: int
  has_Wait :: bool
  has_OnExhausted :: bool

definition DefaultRetryPolicy :: RetryPolicy where
  "DefaultRetryPolicy =
     \<lparr>MaxAttempts = 4, MaxWindow = 10000000000, BaseDelay = 10000000, MaxDelay = 160000000,
      has_Wait = True, has_OnExhausted = True\<rparr>"

record 'job Manager =
  m_parent :: bool
  m_capacity :: nat
  m_lanes :: "(EndpointID \<times> 'job lane) list"
  m_closed :: bool
  m_policy :: RetryPolicy

definition mgr_SetRetryPolicy :: "'job Manager \<Rightarrow> RetryPolicy \<Rightarrow> gerr option \<times> 'job Manager" where
  "mgr_SetRetryPolicy m policy =
     (if MaxAttempts policy \<le> 0 \<or> MaxWindow policy \<le> 0 \<or> BaseDelay policy \<le> 0 \<or>
         MaxDelay policy < BaseDelay policy \<or> \<not> has_Wait policy \<or> \<not> has_OnExhausted policy
      then (Some (ErrMsg ''invalid delivery retry policy''), m)
      else if m_closed m then (Some (ErrMsg ''delivery manager is closed''), m)
      else (None, m\<lparr>m_policy := policy\<rparr>))"

text \<open>The third component is the list of removed lanes, stopped and still to be waited for.\<close>

definition mgr_Update ::
  "'job Manager \<Rightarrow> EndpointID list \<Rightarrow> gerr option \<times> 'job Manager \<times> (EndpointID \<times> 'job lane) list" where
  "mgr_Update m endpoints =
     (if m_closed m then (Some (ErrMsg ''delivery manager is closed''), m, [])
      else if [] \<in> set endpoints then (Some (ErrMsg ''delivery endpoint is required''), m, [])
      else
        let wanted = remdups endpoints;
            removed = filter (\<lambda>(e, l). e \<notin> set wanted) (m_lanes m);
            kept = filter (\<lambda>(e, l). e \<in> set wanted) (m_lanes m);
            added = map (\<lambda>e. (e, newLane (m_capacity m))) (filter (\<lambda>e. e \<notin> fst ` set kept) wanted)
        in (None, m\<lparr>m_lanes := kept @ added\<rparr>, map (\<lambda>(e, l). (e, lane_stop l)) removed))"

definition mgr_New :: "bool \<Rightarrow> bool \<Rightarrow> int \<Rightarrow> EndpointID list \<Rightarrow> 'job Manager result" where
  "mgr_New has_ctx ctx_done capacity endpoints =
     (if \<not> has_ctx then Inl (ErrMsg ''delivery context is required'')
      else if capacity \<le> 0 then Inl (ErrMsg ''delivery lane capacity must be positive'')
      else
        let m = \<lparr>m_parent = ctx_done, m_capacity = nat capacity, m_lanes = [], m_closed = False,
                 m_policy = DefaultRetryPolicy\<rparr>
        in (case mgr_Update m endpoints of (Some e, _, _) \<Rightarrow> Inl e | (None, m', _) \<Rightarrow> Inr m'))"

definition mgr_Enqueue ::
  "'job Manager \<Rightarrow> bool \<Rightarrow> EndpointID \<Rightarrow> 'job option \<Rightarrow> gerr option \<times> 'job Manager" where
  "mgr_Enqueue m has_ctx endpoint job =
     (case job of
        None \<Rightarrow> (Some (ErrMsg ''delivery job and context are required''), m)
      | Some job \<Rightarrow>
          if \<not> has_ctx then (Some (ErrMsg ''delivery job and context are required''), m)
          else if m_closed m then (Some ErrUnavailable, m)
          else
            (case map_of (m_lanes m) endpoint of
               None \<Rightarrow> (Some ErrUnavailable, m)
             | Some l \<Rightarrow>
                 (case lane_put l job of
                    None \<Rightarrow> (Some ErrFull, m)
                  | Some l' \<Rightarrow>
                      (None, m\<lparr>m_lanes := map (\<lambda>(e, k). if e = endpoint then (e, l') else (e, k)) (m_lanes m)\<rparr>))))"

definition mgr_Close :: "'job Manager \<Rightarrow> 'job Manager \<times> (EndpointID \<times> 'job lane) list" where
  "mgr_Close m =
     (if m_closed m then (m, [])
      else (m\<lparr>m_closed := True, m_lanes := []\<rparr>, map (\<lambda>(e, l). (e, lane_stop l)) (m_lanes m)))"

record EndpointStatus =
  es_EndpointID :: string
  es_QueueDepth :: int
  es_QueueCapacity :: int
  es_LaneState :: string
  es_Queued :: int
  es_Retrying :: int
  es_AwaitingReplay :: int
  es_Failed :: int
  es_OldestActiveAge :: int
  es_FailureClass :: string

definition mgr_Status :: "'job Manager \<Rightarrow> (EndpointID \<times> EndpointStatus) list" where
  "mgr_Status m =
     map (\<lambda>(e, l).
        (e, \<lparr>es_EndpointID = e, es_QueueDepth = int (length (jobs l)), es_QueueCapacity = int (lane_cap l),
             es_LaneState = (if m_closed m then ''stopped''
                             else if 0 < length (jobs l) then ''queued'' else ''healthy''),
             es_Queued = 0, es_Retrying = 0, es_AwaitingReplay = 0, es_Failed = 0,
             es_OldestActiveAge = 0, es_FailureClass = []\<rparr>))
       (m_lanes m)"

subsection \<open>The manager and its workers\<close>

record 'job sys =
  mgr :: "'job Manager"
  closing :: "(EndpointID \<times> 'job lane) list"

inductive sys_step :: "'job sys \<Rightarrow> 'job sys \<Rightarrow> bool" where
  step_enqueue: "mgr_Enqueue (mgr s) ctx e job = (r, m) \<Longrightarrow> sys_step s (s\<lparr>mgr := m\<rparr>)"
| step_update: "mgr_Update (mgr s) es = (r, m, removed) \<Longrightarrow>
    sys_step s (s\<lparr>mgr := m, closing := closing s @ removed\<rparr>)"
| step_close: "mgr_Close (mgr s) = (m, removed) \<Longrightarrow>
    sys_step s (s\<lparr>mgr := m, closing := closing s @ removed\<rparr>)"
| step_cancel: "sys_step s (s\<lparr>mgr := (mgr s)\<lparr>m_parent := True\<rparr>\<rparr>)"
| step_worker: "m_lanes (mgr s) = xs @ (e, l) # ys \<Longrightarrow> lane_run (m_parent (mgr s)) l l' \<Longrightarrow>
    sys_step s (s\<lparr>mgr := (mgr s)\<lparr>m_lanes := xs @ (e, l') # ys\<rparr>\<rparr>)"
| step_closing: "closing s = xs @ (e, l) # ys \<Longrightarrow> lane_run (m_parent (mgr s)) l l' \<Longrightarrow>
    sys_step s (s\<lparr>closing := xs @ (e, l') # ys\<rparr>)"

inductive sys_reachable :: "int \<Rightarrow> EndpointID list \<Rightarrow> 'job sys \<Rightarrow> bool" for capacity endpoints where
  reach_new: "mgr_New True False capacity endpoints = Inr m \<Longrightarrow>
    sys_reachable capacity endpoints \<lparr>mgr = m, closing = []\<rparr>"
| reach_step: "sys_reachable capacity endpoints s \<Longrightarrow> sys_step s s' \<Longrightarrow> sys_reachable capacity endpoints s'"

definition lane_ok :: "bool \<Rightarrow> nat \<Rightarrow> 'job lane \<Rightarrow> bool" where
  "lane_ok parent capacity l \<longleftrightarrow> chan.consistent l \<and> lane_cap l = capacity \<and>
     (parent \<or> cancelled l \<or> lane_pc l = Selecting) \<and>
     (lane_pc l = Exited \<longrightarrow> parent \<or> jobs l = [])"

definition sys_ok :: "nat \<Rightarrow> 'job sys \<Rightarrow> bool" where
  "sys_ok capacity s \<longleftrightarrow>
     m_capacity (mgr s) = capacity \<and> distinct (map fst (m_lanes (mgr s))) \<and>
     (m_closed (mgr s) \<longrightarrow> m_lanes (mgr s) = []) \<and>
     (\<forall>(e, l) \<in> set (m_lanes (mgr s)). lane_ok (m_parent (mgr s)) capacity l \<and> \<not> cancelled l) \<and>
     (\<forall>(e, l) \<in> set (closing s). lane_ok (m_parent (mgr s)) capacity l \<and> cancelled l)"

lemma lane_get_keeps: "lane_get l = Some (j, l') \<Longrightarrow>
    lane_cap l' = lane_cap l \<and> cancelled l' = cancelled l \<and> lane_pc l' = lane_pc l"
  by (auto simp: lane_get_def split: list.splits)

lemma lane_put_keeps: "lane_put l j = Some l' \<Longrightarrow>
    lane_cap l' = lane_cap l \<and> cancelled l' = cancelled l \<and> lane_pc l' = lane_pc l"
  by (auto simp: lane_put_def split: if_splits)

lemma consistent_pc [simp]: "chan.consistent (l\<lparr>lane_pc := p\<rparr>) = chan.consistent l"
    "chan.consistent (l\<lparr>cancelled := b\<rparr>) = chan.consistent l"
  by (simp_all add: chan.consistent_def)

lemma lane_ok_run:
  assumes "lane_run parent l l'" "lane_ok parent capacity l"
  shows "lane_ok parent capacity l' \<and> cancelled l' = cancelled l"
  using assms
  by (cases rule: lane_run.cases)
     (auto simp: lane_ok_def chan.get_None dest: lane_get_keeps intro: chan.get_consistent)

lemma lane_ok_put:
  assumes "lane_put l j = Some l'" "lane_ok parent capacity l" "\<not> cancelled l"
  shows "lane_ok parent capacity l' \<and> \<not> cancelled l'"
  using assms lane_put_keeps [OF assms(1)] chan.put_consistent [OF _ assms(1)]
  by (auto simp: lane_ok_def)

lemma lane_ok_new: "lane_ok parent capacity (newLane capacity)" "\<not> cancelled (newLane capacity)"
  by (simp_all add: lane_ok_def newLane_def chan.consistent_def)

lemma lane_ok_stop: "lane_ok parent capacity l \<Longrightarrow> lane_ok parent capacity (lane_stop l) \<and> cancelled (lane_stop l)"
  by (auto simp: lane_ok_def lane_stop_def)

lemma lane_ok_parent: "lane_ok parent capacity l \<Longrightarrow> lane_ok True capacity l"
  by (simp add: lane_ok_def)

lemma map_of_filter_key: "map_of (filter (\<lambda>(k, v). P k) xs) k = (if P k then map_of xs k else None)"
  by (induction xs) auto

lemma map_fst_pair: "map fst (map (\<lambda>x. (x, f x)) xs) = xs"
  by (induction xs) simp_all

lemma sys_ok_update:
  assumes "sys_ok capacity s" "mgr_Update (mgr s) es = (r, m, removed)"
  shows "sys_ok capacity (s\<lparr>mgr := m, closing := closing s @ removed\<rparr>)"
proof (cases "m_closed (mgr s) \<or> [] \<in> set es")
  case True
  then have "m = mgr s \<and> removed = []"
    using assms(2) by (cases "m_closed (mgr s)") (simp_all add: mgr_Update_def)
  with assms(1) show ?thesis by simp
next
  case False
  let ?kept = "filter (\<lambda>(e, l). e \<in> set (remdups es)) (m_lanes (mgr s))"
  let ?new = "filter (\<lambda>e. e \<notin> fst ` set ?kept) (remdups es)"
  have m: "m = (mgr s)\<lparr>m_lanes := ?kept @ map (\<lambda>e. (e, newLane (m_capacity (mgr s)))) ?new\<rparr>"
    and rem: "removed = map (\<lambda>(e, l). (e, lane_stop l)) (filter (\<lambda>(e, l). e \<notin> set (remdups es)) (m_lanes (mgr s)))"
    using False assms(2) by (simp_all add: mgr_Update_def Let_def)
  have "distinct (map fst (m_lanes m))"
  proof -
    have lanes: "m_lanes m = ?kept @ map (\<lambda>e. (e, newLane (m_capacity (mgr s)))) ?new" by (simp add: m)
    have "distinct (map fst ?kept)" using assms(1) by (simp add: sys_ok_def distinct_map_filter)
    moreover have "set (map fst ?kept) \<inter> set ?new = {}" by (simp only: set_map set_filter) blast
    moreover have "distinct ?new" by simp
    ultimately show ?thesis
      by (simp only: lanes map_fst_pair map_append distinct_append simp_thms)
  qed
  moreover have "\<forall>(e, l) \<in> set (m_lanes m). lane_ok (m_parent m) capacity l \<and> \<not> cancelled l"
    using assms(1) by (auto simp: sys_ok_def m lane_ok_new)
  moreover have "\<forall>(e, l) \<in> set removed. lane_ok (m_parent m) capacity l \<and> cancelled l"
    using assms(1) lane_ok_stop by (fastforce simp: sys_ok_def m rem)
  ultimately show ?thesis using assms(1) False by (auto simp: sys_ok_def m)
qed

lemma sys_ok_enqueue:
  assumes "sys_ok capacity s" "mgr_Enqueue (mgr s) ctx e job = (r, m)"
  shows "sys_ok capacity (s\<lparr>mgr := m\<rparr>)"
proof (cases "m = mgr s")
  case True
  with assms show ?thesis by simp
next
  case False
  then obtain j l l' where l: "map_of (m_lanes (mgr s)) e = Some l" "lane_put l j = Some l'"
    and m: "m = (mgr s)\<lparr>m_lanes := map (\<lambda>(e', k). if e' = e then (e', l') else (e', k)) (m_lanes (mgr s))\<rparr>"
    using assms(2) by (auto simp: mgr_Enqueue_def split: option.splits if_splits)
  have "lane_ok (m_parent (mgr s)) capacity l \<and> \<not> cancelled l"
    using assms(1) map_of_SomeD [OF l(1)] by (auto simp: sys_ok_def)
  then have "lane_ok (m_parent (mgr s)) capacity l' \<and> \<not> cancelled l'"
    using lane_ok_put [OF l(2)] by blast
  then have "\<forall>(e, l) \<in> set (m_lanes m). lane_ok (m_parent (mgr s)) capacity l \<and> \<not> cancelled l"
    using assms(1) by (auto simp: sys_ok_def m split: if_splits)
  moreover have "map fst (m_lanes m) = map fst (m_lanes (mgr s))" by (auto simp: m)
  moreover have "m_capacity m = m_capacity (mgr s)" "m_parent m = m_parent (mgr s)"
    "m_closed m = m_closed (mgr s)" "m_lanes (mgr s) = [] \<Longrightarrow> m_lanes m = []" by (simp_all add: m)
  ultimately show ?thesis using assms(1) by (simp add: sys_ok_def)
qed

lemma sys_ok_step: "sys_step s s' \<Longrightarrow> sys_ok capacity s \<Longrightarrow> sys_ok capacity s'"
proof (induction rule: sys_step.induct)
  case (step_enqueue s ctx e job r m)
  then show ?case by (blast intro: sys_ok_enqueue)
next
  case (step_update s es r m removed)
  then show ?case by (blast intro: sys_ok_update)
next
  case (step_close s m removed)
  then show ?case
    using lane_ok_stop by (fastforce simp: mgr_Close_def sys_ok_def split: if_splits)
next
  case (step_cancel s)
  then show ?case using lane_ok_parent by (fastforce simp: sys_ok_def)
next
  case (step_worker s xs e l ys l')
  then have "lane_ok (m_parent (mgr s)) capacity l" "\<not> cancelled l" by (auto simp: sys_ok_def)
  with lane_ok_run [OF step_worker(2)] step_worker show ?case by (auto simp: sys_ok_def)
next
  case (step_closing s xs e l ys l')
  then have "lane_ok (m_parent (mgr s)) capacity l" "cancelled l" by (auto simp: sys_ok_def)
  with lane_ok_run [OF step_closing(2)] step_closing show ?case by (auto simp: sys_ok_def)
qed

lemma sys_ok_reachable: "sys_reachable capacity endpoints s \<Longrightarrow> sys_ok (nat capacity) s"
proof (induction rule: sys_reachable.induct)
  case (reach_new m)
  define m0 :: "'a Manager" where "m0 = \<lparr>m_parent = False, m_capacity = nat capacity, m_lanes = [],
    m_closed = False, m_policy = DefaultRetryPolicy\<rparr>"
  have "sys_ok (nat capacity) \<lparr>mgr = m0, closing = []\<rparr>" by (simp add: sys_ok_def m0_def)
  moreover from reach_new obtain rem where "mgr_Update m0 endpoints = (None, m, rem)" and "rem = []"
    by (auto simp: mgr_New_def m0_def mgr_Update_def Let_def split: if_splits)
  ultimately show ?case using sys_ok_update [of "nat capacity" "\<lparr>mgr = m0, closing = []\<rparr>"] by fastforce
next
  case (reach_step s s')
  then show ?case by (blast intro: sys_ok_step)
qed

subsection \<open>The retry loop\<close>

text \<open>
  The doubling loop of the delay runs \<open>n\<close> more times. Its product is an \<^verbatim>\<open>int64\<close>.
\<close>

fun double_delay :: "nat \<Rightarrow> int \<Rightarrow> int \<Rightarrow> int" where
  "double_delay 0 max_delay delay = delay"
| "double_delay (Suc n) max_delay delay =
     (let delay = wrap64 (delay * 2)
      in if max_delay \<le> delay then max_delay else double_delay n max_delay delay)"

definition retry_delay :: "RetryPolicy \<Rightarrow> nat \<Rightarrow> Failure \<Rightarrow> int" where
  "retry_delay policy attempt failure =
     (let delay = RetryAfter failure;
          delay = (if delay \<le> 0 then double_delay (attempt - 1) (MaxDelay policy) (BaseDelay policy) else delay)
      in if MaxDelay policy < delay then MaxDelay policy else delay)"

text \<open>
  What the job and the clock do: the result of each attempt, the time since the start after it,
  and the error of the wait that follows it. The result is the list of what the loop does.
\<close>

record retry_env =
  re_job :: "nat \<Rightarrow> terr option"
  re_since :: "nat \<Rightarrow> int"
  re_wait :: "nat \<Rightarrow> terr option"

datatype retry_event = Ran nat | Waited int | OnExhausted terr

function retry_from :: "RetryPolicy \<Rightarrow> retry_env \<Rightarrow> nat \<Rightarrow> retry_event list" where
  "retry_from policy env attempt =
     (if int attempt \<le> MaxAttempts policy then
        Ran attempt #
        (case re_job env attempt of
           None \<Rightarrow> []
         | Some err \<Rightarrow>
             let failure = Classify (Some err) in
             if \<not> Retryable failure \<or> int attempt = MaxAttempts policy \<or> MaxWindow policy \<le> re_since env attempt
             then [OnExhausted err]
             else
               Waited (retry_delay policy attempt failure) #
               (case re_wait env attempt of
                  Some e \<Rightarrow> [Ran (attempt + 1), OnExhausted e]
                | None \<Rightarrow> retry_from policy env (attempt + 1)))
      else [])"
  by pat_completeness auto
termination
  by (relation "measure (\<lambda>(policy, env, attempt). nat (MaxAttempts policy + 1 - int attempt))") auto

declare retry_from.simps [simp del]

text \<open>The job that \<^verbatim>\<open>EnqueueRetry\<close> puts on the lane.\<close>

definition retry_run :: "RetryPolicy \<Rightarrow> retry_env \<Rightarrow> retry_event list" where
  "retry_run policy env = retry_from policy env 1"

definition mgr_EnqueueRetry ::
  "(RetryPolicy \<times> 'rj) Manager \<Rightarrow> bool \<Rightarrow> EndpointID \<Rightarrow> 'rj option \<Rightarrow>
   gerr option \<times> (RetryPolicy \<times> 'rj) Manager" where
  "mgr_EnqueueRetry m has_ctx endpoint job =
     (case job of
        None \<Rightarrow> (Some (ErrMsg ''delivery retry job is required''), m)
      | Some job \<Rightarrow> mgr_Enqueue m has_ctx endpoint (Some (m_policy m, job)))"

fun attempts_of :: "retry_event list \<Rightarrow> nat list" where
  "attempts_of [] = []"
| "attempts_of (Ran n # es) = n # attempts_of es"
| "attempts_of (Waited d # es) = attempts_of es"
| "attempts_of (OnExhausted e # es) = attempts_of es"

fun exhausted_of :: "retry_event list \<Rightarrow> terr list" where
  "exhausted_of [] = []"
| "exhausted_of (Ran n # es) = exhausted_of es"
| "exhausted_of (Waited d # es) = exhausted_of es"
| "exhausted_of (OnExhausted e # es) = e # exhausted_of es"

lemma double_delay_closed:
  assumes "0 < b" "b \<le> m" "m < 2 ^ 62"
  shows "double_delay n m b = min m (b * 2 ^ n)"
  using assms
proof (induction n arbitrary: b)
  case 0
  then show ?case by simp
next
  case (Suc n)
  have w: "wrap64 (b * 2) = b * 2" using Suc.prems by (intro wrap64_id) simp_all
  show ?case
  proof (cases "m \<le> b * 2")
    case True
    have "b * 2 \<le> b * 2 * 2 ^ n" using Suc.prems(1) by (intro mult_le_cancel_left1 [THEN iffD2]) simp
    with True have "m \<le> b * 2 ^ Suc n" by simp
    with True w show ?thesis by simp
  next
    case False
    then have "double_delay n m (b * 2) = min m (b * 2 * 2 ^ n)"
      using Suc.prems by (intro Suc.IH) simp_all
    with False w show ?thesis by (simp add: mult.assoc)
  qed
qed

lemma retry_from_shape:
  assumes "1 \<le> attempt" "int attempt \<le> MaxAttempts policy"
  shows "\<exists>n \<ge> attempt. int n \<le> MaxAttempts policy \<and>
     attempts_of (retry_from policy env attempt) = [attempt..<Suc n] \<and>
     (exhausted_of (retry_from policy env attempt) = [] \<longrightarrow> re_job env n = None) \<and>
     length (exhausted_of (retry_from policy env attempt)) \<le> 1 \<and>
     (\<forall>k. attempt \<le> k \<and> k < n \<longrightarrow> (\<exists>err. re_job env k = Some err \<and> Retryable (Classify (Some err))))"
  using assms
proof (induction policy env attempt rule: retry_from.induct)
  case (1 policy env attempt)
  note unf = retry_from.simps [of policy env attempt]
  show ?case
  proof (cases "re_job env attempt")
    case None
    with "1.prems" show ?thesis by (intro exI [of _ attempt]) (auto simp: unf)
  next
    case (Some err)
    define stop where "stop \<longleftrightarrow> \<not> Retryable (Classify (Some err)) \<or> int attempt = MaxAttempts policy \<or>
      MaxWindow policy \<le> re_since env attempt"
    show ?thesis
    proof (cases stop)
      case True
      with Some "1.prems" show ?thesis by (intro exI [of _ attempt]) (auto simp: unf stop_def)
    next
      case go: False
      then have less: "int (attempt + 1) \<le> MaxAttempts policy" and r: "Retryable (Classify (Some err))"
        using "1.prems"(2) by (auto simp: stop_def)
      show ?thesis
      proof (cases "re_wait env attempt")
        case (Some e)
        have run: "retry_from policy env attempt =
            [Ran attempt, Waited (retry_delay policy attempt (Classify (Some err))), Ran (attempt + 1), OnExhausted e]"
          using Some \<open>re_job env attempt = Some err\<close> go "1.prems"(2)
          by (subst unf) (simp add: stop_def Let_def)
        from less r \<open>re_job env attempt = Some err\<close> show ?thesis
          by (intro exI [of _ "attempt + 1"]) (auto simp: run le_less_Suc_eq)
      next
        case None
        have run: "retry_from policy env attempt = Ran attempt #
            Waited (retry_delay policy attempt (Classify (Some err))) # retry_from policy env (attempt + 1)"
          using None \<open>re_job env attempt = Some err\<close> go "1.prems"(2)
          by (subst unf) (simp add: stop_def Let_def)
        obtain n where n: "attempt + 1 \<le> n" "int n \<le> MaxAttempts policy"
          "attempts_of (retry_from policy env (attempt + 1)) = [attempt + 1..<Suc n]"
          "exhausted_of (retry_from policy env (attempt + 1)) = [] \<longrightarrow> re_job env n = None"
          "length (exhausted_of (retry_from policy env (attempt + 1))) \<le> 1"
          "\<forall>k. attempt + 1 \<le> k \<and> k < n \<longrightarrow> (\<exists>err. re_job env k = Some err \<and> Retryable (Classify (Some err)))"
          using "1.IH" [OF _ \<open>re_job env attempt = Some err\<close> refl _ None] go less "1.prems"
          by (auto simp: stop_def)
        have "attempt # [Suc attempt..<Suc n] = [attempt..<Suc n]"
          using n(1) by (simp add: upt_conv_Cons del: upt_Suc)
        moreover have "\<exists>err. re_job env k = Some err \<and> Retryable (Classify (Some err))"
          if "attempt \<le> k" "k < n" for k
          using that n(6) r \<open>re_job env attempt = Some err\<close> by (cases "k = attempt") auto
        ultimately show ?thesis using n by (intro exI [of _ n]) (simp add: run del: upt_Suc)
      qed
    qed
  qed
qed

lemma retry_from_waits:
  "Waited d \<in> set (retry_from policy env attempt) \<Longrightarrow> d \<le> MaxDelay policy"
proof (induction policy env attempt rule: retry_from.induct)
  case (1 policy env attempt)
  have bound: "retry_delay policy attempt f \<le> MaxDelay policy" for f
    by (simp add: retry_delay_def Let_def)
  show ?case
  proof (cases "int attempt \<le> MaxAttempts policy \<and> re_job env attempt \<noteq> None")
    case False
    with "1.prems" show ?thesis by (auto simp: retry_from.simps [of policy env attempt] split: if_splits)
  next
    case True
    then obtain err where err: "re_job env attempt = Some err" by blast
    define go where "go \<longleftrightarrow> Retryable (Classify (Some err)) \<and> int attempt \<noteq> MaxAttempts policy \<and>
      re_since env attempt < MaxWindow policy"
    show ?thesis
    proof (cases "go \<and> d \<noteq> retry_delay policy attempt (Classify (Some err)) \<and> re_wait env attempt = None")
      case go_on: True
      with "1.prems" True err have "Waited d \<in> set (retry_from policy env (attempt + 1))"
        by (simp add: retry_from.simps [of policy env attempt] go_def Let_def split: if_splits)
      moreover have "re_wait env attempt = None" using go_on by simp
      ultimately show ?thesis using "1.IH" [OF _ err refl] go_on True by (simp add: go_def)
    next
      case no: False
      with "1.prems" True err bound show ?thesis
        by (simp add: retry_from.simps [of policy env attempt] go_def Let_def split: if_splits option.splits)
    qed
  qed
qed

text \<open>A lane that is being closed: every step of its worker counts down.\<close>

definition lane_work :: "'job lane \<Rightarrow> nat" where
  "lane_work l = length (jobs l) + (case lane_pc l of Selecting \<Rightarrow> 2 | Draining \<Rightarrow> 1 | Exited \<Rightarrow> 0)"

inductive lane_runs :: "bool \<Rightarrow> nat \<Rightarrow> 'job lane \<Rightarrow> 'job lane \<Rightarrow> bool" for parent :: bool where
  runs_refl: "lane_runs parent 0 l l"
| runs_step: "lane_run parent l l' \<Longrightarrow> lane_runs parent n l' l'' \<Longrightarrow> lane_runs parent (Suc n) l l''"

lemma lane_run_work:
  assumes "lane_run parent l l'"
  shows "lane_work l = Suc (lane_work l')"
    and "run_log l' @ jobs l' = run_log l @ jobs l"
    and "cancelled l' = cancelled l"
  using assms by (cases rule: lane_run.cases; auto simp: lane_work_def lane_get_def split: list.splits)+

lemma lane_runs_work:
  "lane_runs parent n l l' \<Longrightarrow> lane_work l = n + lane_work l' \<and> run_log l' @ jobs l' = run_log l @ jobs l
     \<and> cancelled l' = cancelled l"
  by (induction rule: lane_runs.induct) (auto dest: lane_run_work)

lemma lane_run_progress:
  assumes "cancelled l \<or> parent" "lane_pc l \<noteq> Exited"
  shows "\<exists>l'. lane_run parent l l'"
proof (cases "lane_pc l")
  case Selecting
  with assms(1) show ?thesis by (blast intro: run_cancel)
next
  case Draining
  then show ?thesis
  proof (cases "lane_get l")
    case None
    with Draining show ?thesis by (blast intro: run_exit)
  next
    case (Some p)
    with Draining show ?thesis by (cases p) (blast intro: run_drain)
  qed
next
  case Exited
  with assms(2) show ?thesis by simp
qed

lemma lane_run_exit_empty:
  "lane_run parent l l' \<Longrightarrow> lane_pc l' = Exited \<Longrightarrow> jobs l' = []"
  by (erule lane_run.cases) (auto simp: lane_get_def split: list.splits)

lemma lane_runs_exit_empty:
  "lane_runs parent n l l' \<Longrightarrow> lane_pc l' = Exited \<Longrightarrow> (lane_pc l = Exited \<longrightarrow> jobs l = []) \<Longrightarrow> jobs l' = []"
proof (induction rule: lane_runs.induct)
  case (runs_step l l' n l'')
  then show ?case using lane_run_exit_empty [OF runs_step(1)] by blast
qed simp

subsection \<open>Properties\<close>

text \<open>
  C9: in every reachable state of the manager and its workers, under every interleaving of enqueuing,
  reconfiguration, closing and worker steps, each lane has run a prefix of what it accepted, in
  order and exactly once, the rest waits in its channel, and never more than the capacity waits; a lane
  that was closed while the application context is alive has run everything it accepted when its
  worker is gone.
\<close>

theorem lanes_lose_nothing:
  assumes "sys_reachable capacity endpoints s" "(e, l) \<in> set (m_lanes (mgr s)) \<union> set (closing s)"
  shows "put_log l = run_log l @ jobs l \<and> length (jobs l) \<le> nat capacity \<and>
    (\<not> m_parent (mgr s) \<and> lane_pc l = Exited \<longrightarrow> run_log l = put_log l)"
  using sys_ok_reachable [OF assms(1)] assms(2)
  by (auto simp: sys_ok_def lane_ok_def chan.consistent_def)

text \<open>
  C39: closing a lane ends: once a lane's context is done, its worker makes exactly as many steps as
  there are waiting jobs plus the two that leave the loop, is never stuck before it has returned, and
  has then run every waiting job in order.
\<close>

theorem lane_close_terminates:
  assumes "lane_runs parent n (lane_stop l) l'" "lane_pc l = Selecting"
  shows "n \<le> length (jobs l) + 2 \<and> (lane_pc l' \<noteq> Exited \<longrightarrow> (\<exists>l''. lane_run parent l' l'')) \<and>
    (lane_pc l' = Exited \<longrightarrow> n = length (jobs l) + 2 \<and> run_log l' = run_log l @ jobs l)"
proof -
  have w: "lane_work (lane_stop l) = length (jobs l) + 2" using assms(2) by (simp add: lane_work_def lane_stop_def)
  note runs = lane_runs_work [OF assms(1)]
  have "lane_pc l' = Exited \<longrightarrow> jobs l' = []"
    using lane_runs_exit_empty [OF assms(1)] assms(2) by (simp add: lane_stop_def)
  moreover from this have "lane_pc l' = Exited \<longrightarrow> lane_work l' = 0" by (simp add: lane_work_def)
  moreover have "cancelled l'" using runs by (simp add: lane_stop_def)
  ultimately show ?thesis using runs w lane_run_progress [of l' parent] by (auto simp: lane_stop_def)
qed

text \<open>
  Reconfiguring gives every wanted endpoint exactly one lane, keeps the lane (and the waiting jobs)
  of an endpoint that stays, and stops exactly the lanes of the endpoints that go; an invalid request
  changes nothing.
\<close>

theorem update_exact:
  assumes "sys_reachable capacity endpoints s" "mgr_Update (mgr s) es = (r, m, removed)"
  shows "(r = None \<longleftrightarrow> \<not> m_closed (mgr s) \<and> [] \<notin> set es) \<and>
    (r \<noteq> None \<longrightarrow> m = mgr s \<and> removed = []) \<and>
    (r = None \<longrightarrow>
       (\<forall>e. map_of (m_lanes m) e =
          (if e \<in> set es then Some (case map_of (m_lanes (mgr s)) e of Some l \<Rightarrow> l | None \<Rightarrow> newLane (nat capacity))
           else None)) \<and>
       removed = map (\<lambda>(e, l). (e, lane_stop l)) (filter (\<lambda>(e, l). e \<notin> set es) (m_lanes (mgr s))))"
proof (cases "m_closed (mgr s) \<or> [] \<in> set es")
  case True
  then show ?thesis using assms(2) by (cases "m_closed (mgr s)") (simp_all add: mgr_Update_def, auto)
next
  case False
  let ?kept = "filter (\<lambda>(e, l). e \<in> set es) (m_lanes (mgr s))"
  let ?new = "filter (\<lambda>e. e \<notin> fst ` set ?kept) (remdups es)"
  have cap: "m_capacity (mgr s) = nat capacity"
    using sys_ok_reachable [OF assms(1)] by (simp add: sys_ok_def)
  have m: "r = None" "m = (mgr s)\<lparr>m_lanes := ?kept @ map (\<lambda>e. (e, newLane (nat capacity))) ?new\<rparr>"
    "removed = map (\<lambda>(e, l). (e, lane_stop l)) (filter (\<lambda>(e, l). e \<notin> set es) (m_lanes (mgr s)))"
    using False assms(2) by (simp_all add: mgr_Update_def Let_def cap)
  have kept: "map_of ?kept e = (if e \<in> set es then map_of (m_lanes (mgr s)) e else None)" for e
    by (rule map_of_filter_key)
  have new: "map_of (map (\<lambda>e. (e, newLane (nat capacity))) xs) e = (if e \<in> set xs then Some (newLane (nat capacity)) else None)"
    for e and xs :: "EndpointID list"
    by (induction xs) auto
  have "map_of (m_lanes m) e =
      (if e \<in> set es then Some (case map_of (m_lanes (mgr s)) e of Some l \<Rightarrow> l | None \<Rightarrow> newLane (nat capacity))
       else None)" for e
  proof -
    have "e \<in> fst ` set ?kept \<longleftrightarrow> e \<in> set es \<and> map_of (m_lanes (mgr s)) e \<noteq> None"
      using kept [of e] map_of_eq_None_iff [of ?kept e] by (auto simp only: split: if_splits)
    moreover have "e \<in> set ?new \<longleftrightarrow> e \<in> set es \<and> e \<notin> fst ` set ?kept" by (simp only: set_filter set_remdups) blast
    ultimately show ?thesis by (auto simp: m map_add_def kept new split: option.splits simp del: set_filter)
  qed
  with False m show ?thesis by auto
qed

text \<open>
  Enqueuing returns no error exactly when the endpoint has a lane with room, and then the job is the
  last one waiting there and nothing else changes; a full lane and a missing one are told apart, and
  a rejected job changes nothing.
\<close>

theorem enqueue_spec:
  assumes "sys_reachable capacity endpoints s" "mgr_Enqueue (mgr s) True e (Some job) = (r, m)"
  shows "case map_of (m_lanes (mgr s)) e of
      None \<Rightarrow> r = Some ErrUnavailable \<and> m = mgr s
    | Some l \<Rightarrow>
        if length (jobs l) < nat capacity
        then r = None \<and> (\<forall>e'. map_of (m_lanes m) e' =
          (if e' = e then Some (l\<lparr>jobs := jobs l @ [job], put_log := put_log l @ [job]\<rparr>)
           else map_of (m_lanes (mgr s)) e'))
        else r = Some ErrFull \<and> m = mgr s"
proof -
  have ok: "sys_ok (nat capacity) s" using assms(1) by (rule sys_ok_reachable)
  show ?thesis
  proof (cases "map_of (m_lanes (mgr s)) e")
    case None
    then show ?thesis using assms(2) by (cases "m_closed (mgr s)") (simp_all add: mgr_Enqueue_def)
  next
    case (Some l)
    then have "(e, l) \<in> set (m_lanes (mgr s))" by (rule map_of_SomeD)
    with ok have cap: "lane_cap l = nat capacity" and open_: "\<not> m_closed (mgr s)"
      by (auto simp: sys_ok_def lane_ok_def)
    have upd: "map_of (map (\<lambda>(e', k). if e' = e then (e', x) else (e', k)) xs) e' =
        (if e' = e then map_option (\<lambda>_. x) (map_of xs e) else map_of xs e')" for x e' and xs :: "(EndpointID \<times> 'a lane) list"
      by (induction xs) auto
    show ?thesis
      using assms(2) Some open_ by (auto simp: mgr_Enqueue_def lane_put_def cap upd)
  qed
qed

text \<open>
  with a valid policy the retry loop makes the attempts 1 to \<open>n\<close> once each, never more than the
  policy allows; it stops at the first success or at a failure that is not to be retried, reports
  exhaustion at most once and only if the last attempt was not a success that ended the loop, and
  never waits longer than the maximal delay.
\<close>

theorem retry_run_bounded:
  assumes "mgr_SetRetryPolicy m policy = (None, m')"
  shows "(\<exists>n \<ge> 1. int n \<le> MaxAttempts policy \<and> attempts_of (retry_run policy env) = [1..<Suc n] \<and>
      (exhausted_of (retry_run policy env) = [] \<longrightarrow> re_job env n = None) \<and>
      length (exhausted_of (retry_run policy env)) \<le> 1 \<and>
      (\<forall>k. 1 \<le> k \<and> k < n \<longrightarrow> (\<exists>err. re_job env k = Some err \<and> Retryable (Classify (Some err))))) \<and>
    (\<forall>d. Waited d \<in> set (retry_run policy env) \<longrightarrow> d \<le> MaxDelay policy)"
proof -
  have "0 < MaxAttempts policy" using assms by (auto simp: mgr_SetRetryPolicy_def split: if_splits)
  then have "int 1 \<le> MaxAttempts policy" by simp
  from retry_from_shape [OF order_refl this, of env] show ?thesis
    using retry_from_waits [of _ policy env 1] by (auto simp: retry_run_def)
qed

text \<open>
  Without a delay from the provider the wait after attempt \<open>n\<close> is the base delay doubled \<open>n - 1\<close>
  times and cut off at the maximum. The doubling must not leave the \<^verbatim>\<open>int64\<close> range, which a maximum
  below \<open>2 ^ 62\<close> nanoseconds (146 years) guarantees; the default is 160 milliseconds.
\<close>

theorem retry_delay_closed_form:
  assumes "0 < BaseDelay policy" "BaseDelay policy \<le> MaxDelay policy" "MaxDelay policy < 2 ^ 62"
    and "RetryAfter failure \<le> 0"
  shows "retry_delay policy attempt failure = min (MaxDelay policy) (BaseDelay policy * 2 ^ (attempt - 1))"
  using double_delay_closed [OF assms(1-3)] assms(4) by (simp add: retry_delay_def Let_def)

theorem retry_delay_closed_form_witness:
  "map (\<lambda>n. retry_delay DefaultRetryPolicy n (Classify None)) [1, 2, 3, 4, 5, 6] =
     [10000000, 20000000, 40000000, 80000000, 160000000, 160000000]"
proof -
  have "retry_delay DefaultRetryPolicy n (Classify None) = min 160000000 (10000000 * 2 ^ (n - 1))" for n
    using retry_delay_closed_form [of DefaultRetryPolicy "Classify None" n]
    by (simp add: DefaultRetryPolicy_def Classify_def)
  then show ?thesis by simp
qed

theorem retry_run_bounded_witness:
  "\<exists>n \<ge> 1. n \<le> 4 \<and> attempts_of (retry_run DefaultRetryPolicy
     \<lparr>re_job = \<lambda>n. Some (Plain ''x''), re_since = \<lambda>n. 0, re_wait = \<lambda>n. None\<rparr>) = [1..<Suc n]"
proof -
  obtain m :: "nat Manager" where "mgr_New True False 1 [] = Inr m"
    by (simp add: mgr_New_def mgr_Update_def Let_def)
  then have "mgr_SetRetryPolicy m DefaultRetryPolicy = (None, m\<lparr>m_policy := DefaultRetryPolicy\<rparr>)"
    by (auto simp: mgr_SetRetryPolicy_def DefaultRetryPolicy_def mgr_New_def mgr_Update_def Let_def)
  from retry_run_bounded [OF this, of "\<lparr>re_job = \<lambda>n. Some (Plain ''x''), re_since = \<lambda>n. 0, re_wait = \<lambda>n. None\<rparr>"]
  show ?thesis by (auto simp: DefaultRetryPolicy_def)
qed

text \<open>A small run of the system for the statements about reachable states.\<close>

definition sample_mgr :: "nat Manager" where
  "sample_mgr = \<lparr>m_parent = False, m_capacity = 1, m_lanes = [(''a'', newLane 1)], m_closed = False,
     m_policy = DefaultRetryPolicy\<rparr>"

definition sample_sys :: "nat sys" where
  "sample_sys = \<lparr>mgr = sample_mgr\<lparr>m_lanes := [(''a'', (newLane 1)\<lparr>jobs := [7], put_log := [7]\<rparr>)]\<rparr>, closing = []\<rparr>"

lemma sample_reachable: "sys_reachable 1 [''a''] sample_sys"
proof -
  have "mgr_New True False 1 [''a''] = Inr sample_mgr"
    by (simp add: mgr_New_def mgr_Update_def Let_def sample_mgr_def)
  from reach_new [OF this] have "sys_reachable 1 [''a''] \<lparr>mgr = sample_mgr, closing = []\<rparr>" .
  moreover have "mgr_Enqueue sample_mgr True ''a'' (Some 7) = (None, mgr sample_sys)"
    by (simp add: mgr_Enqueue_def sample_mgr_def sample_sys_def lane_put_def newLane_def)
  then have "sys_step \<lparr>mgr = sample_mgr, closing = []\<rparr> sample_sys"
    using step_enqueue [of "\<lparr>mgr = sample_mgr, closing = []\<rparr>" True "''a''" "Some 7" None "mgr sample_sys"]
    by (simp add: sample_sys_def)
  ultimately show ?thesis by (rule reach_step)
qed

theorem lanes_lose_nothing_witness:
  "\<exists>l. map_of (m_lanes (mgr sample_sys)) ''a'' = Some l \<and> put_log l = run_log l @ jobs l \<and> jobs l = [7]"
  using lanes_lose_nothing [OF sample_reachable, of "''a''"] by (simp add: sample_sys_def)

theorem update_exact_witness:
  "fst (mgr_Update (mgr sample_sys) [''b'']) = None \<and>
   map_of (m_lanes (fst (snd (mgr_Update (mgr sample_sys) [''b''])))) ''a'' = None"
proof -
  obtain r m removed where u: "mgr_Update (mgr sample_sys) [''b''] = (r, m, removed)" by (rule prod_cases3)
  from update_exact [OF sample_reachable u] show ?thesis
    by (simp add: u) (simp add: sample_sys_def sample_mgr_def)
qed

theorem enqueue_spec_witness:
  "fst (mgr_Enqueue (mgr sample_sys) True ''a'' (Some 8)) = Some ErrFull"
  using enqueue_spec [OF sample_reachable prod.collapse [symmetric], of "''a''" 8]
  by (simp add: sample_sys_def)

theorem lane_close_terminates_witness:
  "\<exists>l'. lane_runs False 2 (lane_stop (newLane 1 :: nat lane)) l' \<and> lane_pc l' = Exited \<and> run_log l' = []"
proof -
  define l0 l1 l2 where "l0 = lane_stop (newLane 1 :: nat lane)" and "l1 = l0\<lparr>lane_pc := Draining\<rparr>"
    and "l2 = l1\<lparr>lane_pc := Exited\<rparr>"
  have "lane_run False l0 l1" unfolding l1_def by (rule run_cancel) (simp_all add: l0_def lane_stop_def newLane_def)
  moreover have "lane_run False l1 l2" unfolding l2_def
    by (rule run_exit) (simp_all add: l1_def l0_def lane_stop_def newLane_def lane_get_def)
  ultimately have "lane_runs False (Suc (Suc 0)) l0 l2" by (blast intro: runs_refl runs_step)
  then have run: "lane_runs False 2 (lane_stop (newLane 1 :: nat lane)) l2" by (simp add: l0_def numeral_2_eq_2)
  have "lane_pc (newLane 1 :: nat lane) = Selecting" by (simp add: newLane_def)
  from lane_close_terminates [OF run this] run show ?thesis
    by (auto simp: l2_def newLane_def)
qed

end
