(* ===== verification/Tables.thy ===== *)
theory Tables
  imports Transport
begin

text \<open>
  Lists of rows as SQL tables: inserting, updating, deleting and looking up by a key. The locale
  \<open>keyed_table\<close> is the interface of a table with a key and an update on conflict; the theories of
  the store interpret it for each of their tables.
\<close>

definition has_key :: "('r \<Rightarrow> 'k) \<Rightarrow> 'k \<Rightarrow> 'r list \<Rightarrow> bool" where
  "has_key key k rows = list_ex (\<lambda>x. key x = k) rows"

definition update_where :: "('r \<Rightarrow> bool) \<Rightarrow> ('r \<Rightarrow> 'r) \<Rightarrow> 'r list \<Rightarrow> 'r list" where
  "update_where P f rows = map (\<lambda>x. if P x then f x else x) rows"

definition delete_where :: "('r \<Rightarrow> bool) \<Rightarrow> 'r list \<Rightarrow> 'r list" where
  "delete_where P rows = filter (\<lambda>x. \<not> P x) rows"

definition count_where :: "('r \<Rightarrow> bool) \<Rightarrow> 'r list \<Rightarrow> nat" where
  "count_where P rows = length (filter P rows)"

text \<open>\<open>INSERT ... ON CONFLICT(key) DO UPDATE\<close>: \<open>upd new old\<close> is the updated row.\<close>

definition upsert :: "('r \<Rightarrow> 'k) \<Rightarrow> ('r \<Rightarrow> 'r \<Rightarrow> 'r) \<Rightarrow> 'r \<Rightarrow> 'r list \<Rightarrow> 'r list" where
  "upsert key upd r rows =
     (if has_key key (key r) rows then update_where (\<lambda>x. key x = key r) (upd r) rows else rows @ [r])"

text \<open>\<open>INSERT ... ON CONFLICT(key) DO NOTHING\<close>.\<close>

definition insert_new :: "('r \<Rightarrow> 'k) \<Rightarrow> 'r \<Rightarrow> 'r list \<Rightarrow> 'r list" where
  "insert_new key r rows = (if has_key key (key r) rows then rows else rows @ [r])"

text \<open>The first row (the only one, where the condition is on a key) of a query.\<close>

definition query_row :: "('r \<Rightarrow> bool) \<Rightarrow> 'r list \<Rightarrow> 'r result" where
  "query_row P rows = (case find P rows of None \<Rightarrow> Inl ErrNoRows | Some r \<Rightarrow> Inr r)"

definition keys_ok :: "('r \<Rightarrow> 'k) \<Rightarrow> 'r list \<Rightarrow> bool" where
  "keys_ok key rows = distinct (map key rows)"

text \<open>What an update in place keeps.\<close>

lemma count_where_map: "(\<And>x. Q (f x) = Q x) \<Longrightarrow> count_where Q (update_where P f rows) = count_where Q rows"
  by (induction rows) (auto simp: count_where_def update_where_def)

lemma list_ex_map: "(\<And>x. Q (f x) = Q x) \<Longrightarrow> list_ex Q (update_where P f rows) = list_ex Q rows"
  by (induction rows) (auto simp: update_where_def)

lemma list_all_map: "(\<And>x. Q (f x) = Q x) \<Longrightarrow> list_all Q (update_where P f rows) = list_all Q rows"
  by (induction rows) (auto simp: update_where_def)

lemma has_key_iff [simp, go_table]: "has_key key k rows \<longleftrightarrow> k \<in> key ` set rows"
  by (auto simp: has_key_def list_ex_iff)

lemma set_update_where [simp]:
  "set (update_where P f rows) = f ` {x \<in> set rows. P x} \<union> {x \<in> set rows. \<not> P x}"
  by (auto simp: update_where_def)

lemma set_delete_where [simp]: "set (delete_where P rows) = {x \<in> set rows. \<not> P x}"
  by (auto simp: delete_where_def)

lemma delete_where_Nil [simp]: "delete_where P [] = []"
  by (simp add: delete_where_def)

lemma length_update_where [simp]: "length (update_where P f rows) = length rows"
  by (simp add: update_where_def)

lemma map_update_where:
  "(\<And>x. P x \<Longrightarrow> key (f x) = key x) \<Longrightarrow> map key (update_where P f rows) = map key rows"
  by (simp add: update_where_def)

lemma keys_ok_Nil [simp]: "keys_ok key []"
  by (simp add: keys_ok_def)

lemma keys_ok_append [simp]: "keys_ok key (rows @ [r]) \<longleftrightarrow> keys_ok key rows \<and> key r \<notin> key ` set rows"
  by (auto simp: keys_ok_def)

lemma keys_ok_Cons [simp]: "keys_ok key (r # rows) \<longleftrightarrow> keys_ok key rows \<and> key r \<notin> key ` set rows"
  by (auto simp: keys_ok_def)

lemma keys_ok_delete [simp]: "keys_ok key rows \<Longrightarrow> keys_ok key (delete_where P rows)"
  by (simp add: keys_ok_def delete_where_def distinct_map_filter)

lemma keys_ok_update:
  "keys_ok key rows \<Longrightarrow> (\<And>x. P x \<Longrightarrow> key (f x) = key x) \<Longrightarrow> keys_ok key (update_where P f rows)"
  by (simp add: keys_ok_def map_update_where)

lemma keys_ok_insert_new [simp]: "keys_ok key rows \<Longrightarrow> keys_ok key (insert_new key r rows)"
  by (simp add: insert_new_def)

lemma set_insert_new: "set (insert_new key r rows) =
    (if key r \<in> key ` set rows then set rows else insert r (set rows))"
  by (simp add: insert_new_def)

lemma keys_ok_unique: "keys_ok key rows \<Longrightarrow> x \<in> set rows \<Longrightarrow> y \<in> set rows \<Longrightarrow> key x = key y \<Longrightarrow> x = y"
  by (auto simp: keys_ok_def distinct_map inj_on_def)

lemma query_row_Inr: "query_row P rows = Inr r \<Longrightarrow> r \<in> set rows \<and> P r"
  by (auto simp: query_row_def find_Some_iff split: option.splits)

lemma query_row_Inl: "query_row P rows = Inl e \<longleftrightarrow> e = ErrNoRows \<and> (\<forall>r \<in> set rows. \<not> P r)"
  by (auto simp: query_row_def find_None_iff find_None_iff2 split: option.splits)
     (metis find_None_iff option.distinct(1))

lemma query_row_key:
  assumes "keys_ok key rows"
  shows "query_row (\<lambda>x. key x = k) rows = Inr r \<longleftrightarrow> r \<in> set rows \<and> key r = k"
proof
  assume r: "r \<in> set rows \<and> key r = k"
  show "query_row (\<lambda>x. key x = k) rows = Inr r"
  proof (cases "query_row (\<lambda>x. key x = k) rows")
    case (Inl e)
    with r show ?thesis by (auto simp: query_row_Inl)
  next
    case (Inr q)
    with query_row_Inr [OF this] r keys_ok_unique [OF assms] show ?thesis by blast
  qed
qed (rule query_row_Inr)

lemma query_row_append_new:
  "key r \<notin> key ` set rows \<Longrightarrow> query_row (\<lambda>x. key x = key r) (rows @ [r]) = Inr r"
  by (induction rows) (auto simp: query_row_def)

lemma length_delete_where: "length (delete_where P rows) + count_where P rows = length rows"
  by (induction rows) (auto simp: delete_where_def count_where_def)

lemma count_where_zero: "count_where P rows = 0 \<longleftrightarrow> (\<forall>r \<in> set rows. \<not> P r)"
  by (auto simp: count_where_def filter_empty_conv)

lemma delete_where_none: "(\<And>r. r \<in> set rows \<Longrightarrow> \<not> P r) \<Longrightarrow> delete_where P rows = rows"
  by (simp add: delete_where_def)

lemma delete_where_twice: "delete_where P (delete_where Q rows) = delete_where (\<lambda>x. Q x \<or> P x) rows"
  by (induction rows) (auto simp: delete_where_def)

text \<open>
  A table with a key and the update its upsert makes on conflict, which does not touch the key.
\<close>

locale keyed_table =
  fixes key :: "'r \<Rightarrow> 'k"
    and upd :: "'r \<Rightarrow> 'r \<Rightarrow> 'r"
  assumes upd_key: "key new = key old \<Longrightarrow> key (upd new old) = key old"
begin

lemma upsert_keys: "keys_ok key rows \<Longrightarrow> keys_ok key (upsert key upd r rows)"
  by (auto simp: upsert_def intro!: keys_ok_update upd_key)

lemma upsert_dom: "key ` set (upsert key upd r rows) = insert (key r) (key ` set rows)"
proof (cases "key r \<in> key ` set rows")
  case True
  have "map key (update_where (\<lambda>x. key x = key r) (upd r) rows) = map key rows"
    by (rule map_update_where) (simp add: upd_key)
  with True show ?thesis by (simp add: upsert_def insert_absorb del: set_update_where flip: set_map)
qed (simp add: upsert_def)

lemma upsert_same:
  assumes "keys_ok key rows"
  shows "query_row (\<lambda>x. key x = key r) (upsert key upd r rows) =
    (case query_row (\<lambda>x. key x = key r) rows of Inl _ \<Rightarrow> Inr r | Inr old \<Rightarrow> Inr (upd r old))"
proof (cases "query_row (\<lambda>x. key x = key r) rows")
  case (Inl e)
  then have "key r \<notin> key ` set rows" by (auto simp: query_row_Inl)
  with Inl show ?thesis by (simp add: upsert_def query_row_append_new)
next
  case (Inr old)
  then have old: "old \<in> set rows" "key old = key r" by (auto dest: query_row_Inr)
  then have "key r \<in> key ` set rows" by (metis imageI)
  with old have "upd r old \<in> set (upsert key upd r rows)" "key (upd r old) = key r"
    by (simp_all add: upsert_def upd_key)
  then have "query_row (\<lambda>x. key x = key r) (upsert key upd r rows) = Inr (upd r old)"
    using query_row_key [OF upsert_keys [OF assms], of "key r"] by simp
  with Inr show ?thesis by simp
qed

lemma upsert_others:
  assumes "k \<noteq> key r"
  shows "filter (\<lambda>x. key x = k) (upsert key upd r rows) = filter (\<lambda>x. key x = k) rows"
proof -
  have "filter (\<lambda>x. key x = k) (update_where (\<lambda>x. key x = key r) (upd r) rows) = filter (\<lambda>x. key x = k) rows"
    using assms by (induction rows) (auto simp: update_where_def upd_key)
  with assms show ?thesis by (simp add: upsert_def)
qed

lemma upsert_set: "x \<in> set (upsert key upd r rows) \<Longrightarrow>
    x = r \<or> x \<in> set rows \<or> (\<exists>old \<in> set rows. key old = key r \<and> x = upd r old)"
  by (auto simp: upsert_def split: if_splits)

end

end
