(* ===== verification/Store.thy ===== *)
theory Store
  imports Tables
begin

text \<open>
  The message store of \<^verbatim>\<open>internal/store/store.go\<close>, first part: the tables of \<^verbatim>\<open>schema.sql\<close>, the
  handle, the validators, and the operations on canonical messages, their copies, child scopes,
  scope labels, reactions, suppressed echoes and recovery cursors.

  A table is the list of its rows in insertion order; a row is the Go struct a query reads it into
  (a \<^verbatim>\<open>NULL\<close> time is \<open>None\<close>, a \<^verbatim>\<open>NULL\<close> string the empty string, as the scans make them). A statement or a
  transaction is a function on the tables that fails without effect, as SQLite rolls it back. Any
  failing handle behaves as \<open>ClosedDB\<close>; \<open>NilDB\<close> is a missing store. \<open>now\<close> is the value of \<^verbatim>\<open>time.Now()\<close>.
\<close>

subsection \<open>Rows and tables\<close>

record CanonicalMessage =
  cm_ID :: string
  cm_SyncSetID :: "string option"
  cm_CreatedAt :: int
  cm_TombstonedAt :: "int option"

record MessageCopy =
  mc_CanonicalID :: string
  mc_EndpointID :: string
  mc_RemoteMessageID :: string
  mc_CreatedAt :: gtime
  mc_FromSelf :: bool

record CanonicalScopeRow =
  sc_CanonicalID :: string
  sc_EndpointID :: string
  sc_ScopeKind :: string
  sc_RemoteScopeID :: string
  sc_CreatedAt :: gtime

record ChildScopeLabel =
  lb_EndpointID :: string
  lb_ScopeKind :: string
  lb_RemoteScopeID :: string
  lb_DisplayName :: string
  lb_UpdatedAt :: gtime

record ReactionRow =
  rx_CanonicalID :: string
  rx_SourceEndpointID :: string
  rx_ActorHash :: string
  rx_Emoji :: string
  rx_UpdatedAt :: gtime

record RecoveryCursor =
  rc_StreamKey :: string
  rc_Position :: int
  rc_EventTimestamp :: gtime
  rc_UpdatedAt :: gtime

record DeliveryOperation =
  do_CanonicalID :: string
  do_EndpointID :: string
  do_OperationKind :: string
  do_OperationRevision :: int
  do_State :: string
  do_AttemptCount :: int
  do_NextAttemptAt :: gtime
  do_FailureClass :: string
  do_CreatedAt :: gtime
  do_UpdatedAt :: gtime

record CreateStep =
  st_CanonicalID :: string
  st_EndpointID :: string
  st_OperationRevision :: int
  st_StepKind :: string
  st_State :: string
  st_RemoteMessageID :: string
  st_CreatedAt :: gtime
  st_UpdatedAt :: gtime

record PollOptionRow =
  po_CanonicalID :: string
  po_Index :: int
  po_WhatsAppHash :: string

record PollSourceHash =
  ps_CanonicalID :: string
  ps_EndpointID :: string
  ps_Index :: int
  ps_Hash :: string

record PollEndpointSource =
  pe_CanonicalID :: string
  pe_EndpointID :: string
  pe_SourceKind :: string

record PollActorSelection =
  pa_CanonicalID :: string
  pa_EndpointID :: string
  pa_ActorHash :: string
  pa_Index :: int
  pa_UpdatedAt :: int

record PollEndpointSnapshot =
  pn_CanonicalID :: string
  pn_EndpointID :: string
  pn_Index :: int
  pn_Count :: int
  pn_UpdatedAt :: int

record PollProviderRef =
  pr_CanonicalID :: string
  pr_EndpointID :: string
  pr_Provider :: string
  pr_Reference :: string

record PollResultCompanion =
  pc_CanonicalID :: string
  pc_EndpointID :: string
  pc_RemoteMessageID :: string
  pc_CreatedAt :: gtime
  pc_UpdatedAt :: gtime

record SuppressedRow =
  su_EndpointID :: string
  su_RemoteMessageID :: string
  su_Emoji :: string
  su_CreatedAt :: int

record EndpointRow =
  ep_Alias :: string
  ep_SyncSetID :: "string option"

record ParticipantRow =
  pt_EndpointID :: string
  pt_ActorID :: string
  pt_Ordinal :: int

record AliasRecord =
  ar_SyncSetID :: string
  ar_ActorID :: string
  ar_Ordinal :: int
  ar_Alias :: string

text \<open>
  Suppressed local messages use the row type of the suppressed reactions, with an empty emoji.
  \<open>t_alias_next\<close> and \<open>t_alias_exhausted\<close> are the columns of the one row of \<^verbatim>\<open>alias_sequence\<close>.
\<close>

record tables =
  t_canonical :: "CanonicalMessage list"
  t_copies :: "MessageCopy list"
  t_scopes :: "CanonicalScopeRow list"
  t_labels :: "ChildScopeLabel list"
  t_reactions :: "ReactionRow list"
  t_cursors :: "RecoveryCursor list"
  t_operations :: "DeliveryOperation list"
  t_steps :: "CreateStep list"
  t_poll_options :: "PollOptionRow list"
  t_poll_hashes :: "PollSourceHash list"
  t_poll_sources :: "PollEndpointSource list"
  t_poll_selections :: "PollActorSelection list"
  t_poll_snapshots :: "PollEndpointSnapshot list"
  t_poll_refs :: "PollProviderRef list"
  t_companions :: "PollResultCompanion list"
  t_sup_reactions :: "SuppressedRow list"
  t_sup_local :: "SuppressedRow list"
  t_sync_sets :: "string list"
  t_endpoints :: "EndpointRow list"
  t_participants :: "ParticipantRow list"
  t_actors :: "AliasRecord list"
  t_alias_next :: int
  t_alias_exhausted :: bool
  t_alias_order :: "string option"

datatype handle = NilDB | ClosedDB | OpenDB

record Store =
  st_handle :: handle
  st_sequential :: bool
  st_tables :: tables

subsection \<open>Keys\<close>

definition key_copy :: "MessageCopy \<Rightarrow> string \<times> string" where
  "key_copy c = (mc_EndpointID c, mc_RemoteMessageID c)"
definition key_copy2 :: "MessageCopy \<Rightarrow> string \<times> string" where
  "key_copy2 c = (mc_CanonicalID c, mc_EndpointID c)"
definition key_scope :: "CanonicalScopeRow \<Rightarrow> string \<times> string" where
  "key_scope s = (sc_CanonicalID s, sc_EndpointID s)"
definition key_label :: "ChildScopeLabel \<Rightarrow> string \<times> string \<times> string" where
  "key_label l = (lb_EndpointID l, lb_ScopeKind l, lb_RemoteScopeID l)"
definition key_reaction :: "ReactionRow \<Rightarrow> string \<times> string \<times> string" where
  "key_reaction r = (rx_CanonicalID r, rx_SourceEndpointID r, rx_ActorHash r)"
definition key_operation :: "DeliveryOperation \<Rightarrow> string \<times> string \<times> string \<times> int" where
  "key_operation d = (do_CanonicalID d, do_EndpointID d, do_OperationKind d, do_OperationRevision d)"
definition key_step :: "CreateStep \<Rightarrow> string \<times> string \<times> int \<times> string" where
  "key_step s = (st_CanonicalID s, st_EndpointID s, st_OperationRevision s, st_StepKind s)"
definition key_option :: "PollOptionRow \<Rightarrow> string \<times> int" where
  "key_option p = (po_CanonicalID p, po_Index p)"
definition key_hash :: "PollSourceHash \<Rightarrow> string \<times> string \<times> int" where
  "key_hash p = (ps_CanonicalID p, ps_EndpointID p, ps_Index p)"
definition key_source :: "PollEndpointSource \<Rightarrow> string \<times> string" where
  "key_source p = (pe_CanonicalID p, pe_EndpointID p)"
definition key_selection :: "PollActorSelection \<Rightarrow> string \<times> string \<times> string \<times> int" where
  "key_selection p = (pa_CanonicalID p, pa_EndpointID p, pa_ActorHash p, pa_Index p)"
definition key_snapshot :: "PollEndpointSnapshot \<Rightarrow> string \<times> string \<times> int" where
  "key_snapshot p = (pn_CanonicalID p, pn_EndpointID p, pn_Index p)"
definition key_ref :: "PollProviderRef \<Rightarrow> string \<times> string \<times> string" where
  "key_ref p = (pr_CanonicalID p, pr_EndpointID p, pr_Provider p)"
definition key_ref2 :: "PollProviderRef \<Rightarrow> string \<times> string \<times> string" where
  "key_ref2 p = (pr_EndpointID p, pr_Provider p, pr_Reference p)"
definition key_companion :: "PollResultCompanion \<Rightarrow> string \<times> string" where
  "key_companion p = (pc_CanonicalID p, pc_EndpointID p)"
definition key_companion2 :: "PollResultCompanion \<Rightarrow> string \<times> string" where
  "key_companion2 p = (pc_EndpointID p, pc_RemoteMessageID p)"
definition key_suppressed :: "SuppressedRow \<Rightarrow> string \<times> string \<times> string" where
  "key_suppressed s = (su_EndpointID s, su_RemoteMessageID s, su_Emoji s)"
definition key_participant :: "ParticipantRow \<Rightarrow> string \<times> string" where
  "key_participant p = (pt_EndpointID p, pt_ActorID p)"
definition key_participant2 :: "ParticipantRow \<Rightarrow> string \<times> int" where
  "key_participant2 p = (pt_EndpointID p, pt_Ordinal p)"
definition key_actor :: "AliasRecord \<Rightarrow> string \<times> string" where
  "key_actor r = (ar_SyncSetID r, ar_ActorID r)"

text \<open>A column with \<^verbatim>\<open>COLLATE NOCASE\<close> is compared after lower-casing the ASCII letters.\<close>

definition key_alias :: "AliasRecord \<Rightarrow> string" where
  "key_alias r = map lower (ar_Alias r)"

lemmas key_defs = key_copy_def key_copy2_def key_scope_def key_label_def key_reaction_def key_operation_def
  key_step_def key_option_def key_hash_def key_source_def key_selection_def key_snapshot_def key_ref_def
  key_ref2_def key_companion_def key_companion2_def key_suppressed_def key_participant_def
  key_participant2_def key_actor_def

subsection \<open>Statements and transactions\<close>

definition exec :: "Store \<Rightarrow> (tables \<Rightarrow> ('a \<times> tables) result) \<Rightarrow> 'a result \<times> Store" where
  "exec s f =
     (case st_handle s of
        NilDB \<Rightarrow> (Inl (ErrMsg ''panic: nil database handle''), s)
      | ClosedDB \<Rightarrow> (Inl ErrConnDone, s)
      | OpenDB \<Rightarrow>
          (case f (st_tables s) of
             Inl e \<Rightarrow> (Inl e, s)
           | Inr (x, t) \<Rightarrow> (Inr x, s\<lparr>st_tables := t\<rparr>)))"

definition query :: "Store \<Rightarrow> (tables \<Rightarrow> 'a result) \<Rightarrow> 'a result" where
  "query s f =
     (case st_handle s of
        NilDB \<Rightarrow> Inl (ErrMsg ''panic: nil database handle'')
      | ClosedDB \<Rightarrow> Inl ErrConnDone
      | OpenDB \<Rightarrow> f (st_tables s))"

text \<open>A transaction, whose failing \<^verbatim>\<open>BeginTx\<close> has a message of its own.\<close>

definition exec_tx :: "string \<Rightarrow> Store \<Rightarrow> (tables \<Rightarrow> ('a \<times> tables) result) \<Rightarrow> 'a result \<times> Store" where
  "exec_tx m s f =
     (if st_handle s = OpenDB then exec s f else (wrap_res m (fst (exec s f)), snd (exec s f)))"

text \<open>An early return of an error, and the wrapping of the error of an operation.\<close>

definition check :: "gerr option \<Rightarrow> Store \<Rightarrow> 'a result \<times> Store \<Rightarrow> 'a result \<times> Store" where
  "check v s k = (case v of Some e \<Rightarrow> (Inl e, s) | None \<Rightarrow> k)"

definition wrapDB :: "string \<Rightarrow> 'a result \<times> Store \<Rightarrow> 'a result \<times> Store" where
  "wrapDB m r = (wrap_res m (fst r), snd r)"

definition requireStore :: "Store \<Rightarrow> gerr option" where
  "requireStore s = (if st_handle s = NilDB then Some (ErrMsg ''sync store is required'') else None)"

definition constraint :: "bool \<Rightarrow> string \<Rightarrow> 'a result \<Rightarrow> 'a result" where
  "constraint holds kind k = (if holds then k else Inl (ErrConstraint kind))"

lemma check_simps [simp]: "check None s k = k" "check (Some e) s k = (Inl e, s)"
  by (simp_all add: check_def)

lemma constraint_simps [simp]: "constraint True m k = k" "constraint False m k = Inl (ErrConstraint m)"
  by (simp_all add: constraint_def)

lemma constraint_Inr: "constraint b m k = Inr x \<longleftrightarrow> b \<and> k = Inr x"
  by (simp add: constraint_def)

text \<open>Whatever an operation does, it either leaves the tables alone or makes one committed change.\<close>

lemma exec_cases [case_names Fail Done]:
  obtains e where "exec s f = (Inl e, s)"
  | x t where "st_handle s = OpenDB" "f (st_tables s) = Inr (x, t)" "exec s f = (Inr x, s\<lparr>st_tables := t\<rparr>)"
  by (cases "st_handle s"; cases "f (st_tables s)") (auto simp: exec_def)

lemma exec_Inr: "exec s f = (Inr x, s') \<longleftrightarrow>
    (\<exists>t. st_handle s = OpenDB \<and> f (st_tables s) = Inr (x, t) \<and> s' = s\<lparr>st_tables := t\<rparr>)"
  by (cases "f (st_tables s)") (auto simp: exec_def split: handle.splits prod.splits)

lemma exec_tx_Inr: "exec_tx m s f = (Inr x, s') \<longleftrightarrow> exec s f = (Inr x, s')"
  by (cases "exec s f") (auto simp: exec_tx_def exec_Inr)

lemma wrapDB_Inr: "wrapDB m r = (Inr x, s') \<longleftrightarrow> r = (Inr x, s')"
  by (cases r) (auto simp: wrapDB_def)

lemma check_Inr: "check v s k = (Inr x, s') \<longleftrightarrow> v = None \<and> k = (Inr x, s')"
  by (cases v) auto

lemma query_Inr: "query s f = Inr x \<longleftrightarrow> st_handle s = OpenDB \<and> f (st_tables s) = Inr x"
  by (auto simp: query_def split: handle.splits)

lemmas op_simps = exec_Inr exec_tx_Inr wrapDB_Inr check_Inr query_Inr constraint_Inr try_err_Inr bind_res_Inr

subsection \<open>Validators\<close>

definition is_alnum :: "char \<Rightarrow> bool" where
  "is_alnum c = (is_alpha c \<or> is_digit c)"

definition match_endpoint :: "string \<Rightarrow> bool" where
  "match_endpoint s =
     (case s of
        [] \<Rightarrow> False
      | c # cs \<Rightarrow> is_alnum c \<and> length cs \<le> 63 \<and>
          list_all (\<lambda>d. is_alnum d \<or> d = CHR ''_'' \<or> d = CHR ''-'') cs)"

definition match_stream_key :: "string \<Rightarrow> bool" where
  "match_stream_key s =
     (case s of
        [] \<Rightarrow> False
      | c # cs \<Rightarrow> is_alnum c \<and> length cs \<le> 63 \<and>
          list_all (\<lambda>d. is_alnum d \<or> d = CHR ''_'' \<or> d = CHR '':'' \<or> d = CHR ''-'') cs)"

definition match_actor :: "string \<Rightarrow> bool" where
  "match_actor s =
     (take 2 s = ''u_'' \<and> length s = 12 \<and>
      list_all (\<lambda>c. is_lower c \<or> (50 \<le> byte c \<and> byte c \<le> 55)) (drop 2 s))"

definition requireOpaque :: "string \<Rightarrow> string \<Rightarrow> gerr option" where
  "requireOpaque name v =
     (if trim_space v = [] then Some (ErrMsg (name @ '' is required''))
      else if contains_any v ctl_chars then Some (ErrMsg (name @ '' contains invalid control characters''))
      else None)"

definition validateEndpoint :: "string \<Rightarrow> gerr option" where
  "validateEndpoint endpointID =
     (if match_endpoint endpointID then None else Some (ErrMsg ''endpoint id must be a configured alias''))"

definition validateActor :: "string \<Rightarrow> gerr option" where
  "validateActor actorHash =
     (if match_actor actorHash then None else Some (ErrMsg ''actor hash must be an HMAC-derived user id''))"

definition or_else :: "gerr option \<Rightarrow> gerr option \<Rightarrow> gerr option" where
  "or_else a b = (case a of Some e \<Rightarrow> Some e | None \<Rightarrow> b)"

lemma or_else_None [simp]: "or_else a b = None \<longleftrightarrow> a = None \<and> b = None"
  by (cases a) (simp_all add: or_else_def)

definition validateCopy :: "MessageCopy \<Rightarrow> gerr option" where
  "validateCopy c =
     or_else (requireOpaque ''canonical id'' (mc_CanonicalID c))
       (or_else (validateEndpoint (mc_EndpointID c))
          (requireOpaque ''remote message id'' (mc_RemoteMessageID c)))"

definition unixMillis :: "int \<Rightarrow> gtime \<Rightarrow> int" where
  "unixMillis now v = (case v of None \<Rightarrow> now | Some m \<Rightarrow> m)"

definition has_canonical :: "tables \<Rightarrow> string \<Rightarrow> bool" where
  "has_canonical t cid = has_key cm_ID cid (t_canonical t)"

end
