(* ===== verification/Messages.thy ===== *)
theory Messages
  imports Store
begin

text \<open>
  The store's operations on canonical messages, copies, child scopes, scope labels, reactions,
  suppressed echoes and recovery cursors (\<^verbatim>\<open>internal/store/store.go\<close>).
\<close>

subsection \<open>Canonical messages and their copies\<close>

definition CreateCanonical :: "int \<Rightarrow> Store \<Rightarrow> string \<Rightarrow> gtime \<Rightarrow> unit result \<times> Store" where
  "CreateCanonical now s canonicalID createdAt =
     check (requireOpaque ''canonical id'' canonicalID) s
      (wrapDB ''create canonical message''
        (exec s (\<lambda>t.
          constraint (\<not> has_canonical t canonicalID) ''primary key''
            (Inr ((), t\<lparr>t_canonical := t_canonical t @
               [\<lparr>cm_ID = canonicalID, cm_SyncSetID = None, cm_CreatedAt = unixMillis now createdAt,
                 cm_TombstonedAt = None\<rparr>]\<rparr>)))))"

definition TombstoneCanonical :: "int \<Rightarrow> Store \<Rightarrow> string \<Rightarrow> gtime \<Rightarrow> unit result \<times> Store" where
  "TombstoneCanonical now s canonicalID at =
     check (requireOpaque ''canonical id'' canonicalID) s
      (wrapDB ''tombstone canonical message''
        (exec s (\<lambda>t.
          if \<not> has_canonical t canonicalID then Inl ErrNoRows
          else Inr ((), t\<lparr>t_canonical :=
            update_where (\<lambda>c. cm_ID c = canonicalID)
              (\<lambda>c. c\<lparr>cm_TombstonedAt := Some (unixMillis now at)\<rparr>) (t_canonical t)\<rparr>))))"

definition IsTombstoned :: "Store \<Rightarrow> string \<Rightarrow> bool result" where
  "IsTombstoned s canonicalID =
     try_err (requireOpaque ''canonical id'' canonicalID)
      (wrap_res ''check tombstone''
        (query s (\<lambda>t. bind_res (query_row (\<lambda>c. cm_ID c = canonicalID) (t_canonical t))
           (\<lambda>c. Inr (cm_TombstonedAt c \<noteq> None)))))"

definition insert_copy :: "MessageCopy \<Rightarrow> tables \<Rightarrow> (unit \<times> tables) result" where
  "insert_copy c t =
     constraint (\<not> has_key key_copy (key_copy c) (t_copies t)) ''primary key''
      (constraint (\<not> has_key key_copy2 (key_copy2 c) (t_copies t)) ''unique''
        (constraint (has_canonical t (mc_CanonicalID c)) ''foreign key''
          (Inr ((), t\<lparr>t_copies := t_copies t @ [c]\<rparr>))))"

definition AddMessageCopy :: "int \<Rightarrow> Store \<Rightarrow> MessageCopy \<Rightarrow> unit result \<times> Store" where
  "AddMessageCopy now s c =
     check (validateCopy c) s
      (wrapDB ''add message copy''
        (exec s (insert_copy (c\<lparr>mc_CreatedAt := Some (unixMillis now (mc_CreatedAt c))\<rparr>))))"

definition endpoint_sync_set :: "tables \<Rightarrow> string \<Rightarrow> string option" where
  "endpoint_sync_set t endpointID =
     (case find (\<lambda>e. ep_Alias e = endpointID) (t_endpoints t) of None \<Rightarrow> None | Some e \<Rightarrow> ep_SyncSetID e)"

definition ResolveOrCreateCanonical ::
  "int \<Rightarrow> Store \<Rightarrow> string \<Rightarrow> MessageCopy \<Rightarrow> (string \<times> bool) result \<times> Store" where
  "ResolveOrCreateCanonical now s candidate source =
     check (requireStore s) s
     (check (requireOpaque ''canonical id'' candidate) s
     (check (validateEndpoint (mc_EndpointID source)) s
     (check (requireOpaque ''remote message id'' (mc_RemoteMessageID source)) s
      (exec_tx ''begin canonical resolution'' s (\<lambda>t.
        case query_row (\<lambda>c. key_copy c = key_copy source) (t_copies t) of
          Inr existing \<Rightarrow> Inr ((mc_CanonicalID existing, False), t)
        | Inl _ \<Rightarrow>
            let createdAt = unixMillis now (mc_CreatedAt source);
                row = \<lparr>cm_ID = candidate, cm_SyncSetID = endpoint_sync_set t (mc_EndpointID source),
                       cm_CreatedAt = createdAt, cm_TombstonedAt = None\<rparr>
            in bind_res
              (wrap_res ''create canonical message''
                (constraint (\<not> has_canonical t candidate) ''primary key''
                  (Inr (t\<lparr>t_canonical := t_canonical t @ [row]\<rparr>))))
              (\<lambda>t. bind_res
                (wrap_res ''add source message copy''
                  (insert_copy (source\<lparr>mc_CanonicalID := candidate, mc_CreatedAt := Some createdAt\<rparr>) t))
                (\<lambda>(_, t). Inr ((candidate, True), t))))))))"

definition CanonicalForRemote :: "Store \<Rightarrow> string \<Rightarrow> string \<Rightarrow> string result" where
  "CanonicalForRemote s endpointID remoteMessageID =
     try_err (validateEndpoint endpointID)
     (try_err (requireOpaque ''remote message id'' remoteMessageID)
      (wrap_res ''find canonical message''
        (query s (\<lambda>t. bind_res (query_row (\<lambda>c. key_copy c = (endpointID, remoteMessageID)) (t_copies t))
          (\<lambda>c. Inr (mc_CanonicalID c))))))"

definition MessageCopyForEndpoint :: "Store \<Rightarrow> string \<Rightarrow> string \<Rightarrow> MessageCopy result" where
  "MessageCopyForEndpoint s canonicalID endpointID =
     try_err (requireOpaque ''canonical id'' canonicalID)
     (try_err (validateEndpoint endpointID)
      (wrap_res ''find message copy''
        (query s (\<lambda>t. query_row (\<lambda>c. key_copy2 c = (canonicalID, endpointID)) (t_copies t)))))"

subsection \<open>Suppressed echoes\<close>

definition SuppressedLocalMessage :: "int \<Rightarrow> Store \<Rightarrow> string \<Rightarrow> string \<Rightarrow> gtime \<Rightarrow> unit result \<times> Store" where
  "SuppressedLocalMessage now s endpointID remoteMessageID createdAt =
     check (validateEndpoint endpointID) s
     (check (requireOpaque ''remote message id'' remoteMessageID) s
      (wrapDB ''record suppressed local message''
        (exec s (\<lambda>t. Inr ((), t\<lparr>t_sup_local := insert_new key_suppressed
           \<lparr>su_EndpointID = endpointID, su_RemoteMessageID = remoteMessageID, su_Emoji = [],
             su_CreatedAt = unixMillis now createdAt\<rparr> (t_sup_local t)\<rparr>)))))"

definition IsSuppressedLocalMessage :: "Store \<Rightarrow> string \<Rightarrow> string \<Rightarrow> bool result" where
  "IsSuppressedLocalMessage s endpointID remoteMessageID =
     try_err (validateEndpoint endpointID)
     (try_err (requireOpaque ''remote message id'' remoteMessageID)
      (wrap_res ''check suppressed local message''
        (query s (\<lambda>t. Inr (has_key key_suppressed (endpointID, remoteMessageID, []) (t_sup_local t))))))"

text \<open>\<^verbatim>\<open>INSERT OR REPLACE\<close>: the conflicting row goes, the new one comes last.\<close>

definition RecordSuppressedReaction ::
  "int \<Rightarrow> Store \<Rightarrow> string \<Rightarrow> string \<Rightarrow> string \<Rightarrow> gtime \<Rightarrow> unit result \<times> Store" where
  "RecordSuppressedReaction now s endpointID remoteMessageID emoji createdAt =
     check (requireStore s) s
      (wrapDB ''record suppressed reaction''
        (exec s (\<lambda>t. Inr ((), t\<lparr>t_sup_reactions :=
           delete_where (\<lambda>r. key_suppressed r = (endpointID, remoteMessageID, emoji)) (t_sup_reactions t) @
           [\<lparr>su_EndpointID = endpointID, su_RemoteMessageID = remoteMessageID, su_Emoji = emoji,
             su_CreatedAt = unixMillis now createdAt\<rparr>]\<rparr>))))"

definition CheckAndClearSuppressedReaction ::
  "Store \<Rightarrow> string \<Rightarrow> string \<Rightarrow> string \<Rightarrow> bool result \<times> Store" where
  "CheckAndClearSuppressedReaction s endpointID remoteMessageID emoji =
     check (requireStore s) s
      (wrapDB ''check suppressed reaction''
        (exec s (\<lambda>t.
           let P = (\<lambda>r. key_suppressed r = (endpointID, remoteMessageID, emoji)) in
           Inr (0 < count_where P (t_sup_reactions t),
                t\<lparr>t_sup_reactions := delete_where P (t_sup_reactions t)\<rparr>))))"

subsection \<open>Child scopes and their labels\<close>

definition valid_scope_kind :: "string \<Rightarrow> bool" where
  "valid_scope_kind k = (k = ''discord_thread'' \<or> k = ''telegram_topic'')"

interpretation scopes: keyed_table key_scope "\<lambda>new old. new"
  by unfold_locales

definition UpsertCanonicalScope :: "int \<Rightarrow> Store \<Rightarrow> CanonicalScopeRow \<Rightarrow> unit result \<times> Store" where
  "UpsertCanonicalScope now s scope =
     check (requireOpaque ''canonical id'' (sc_CanonicalID scope)) s
     (check (validateEndpoint (sc_EndpointID scope)) s
     (check (if valid_scope_kind (sc_ScopeKind scope) then None
             else Some (ErrMsg ''child scope kind is invalid'')) s
     (check (requireOpaque ''child scope id'' (sc_RemoteScopeID scope)) s
      (wrapDB ''upsert canonical child scope''
        (exec s (\<lambda>t.
          constraint (has_canonical t (sc_CanonicalID scope)) ''foreign key''
            (Inr ((), t\<lparr>t_scopes := upsert key_scope (\<lambda>new old. new)
               (scope\<lparr>sc_CreatedAt := Some (unixMillis now (sc_CreatedAt scope))\<rparr>) (t_scopes t)\<rparr>))))))))"

definition CanonicalScope :: "Store \<Rightarrow> string \<Rightarrow> string \<Rightarrow> CanonicalScopeRow result" where
  "CanonicalScope s canonicalID endpointID =
     try_err (requireOpaque ''canonical id'' canonicalID)
     (try_err (validateEndpoint endpointID)
      (wrap_res ''find canonical child scope''
        (query s (\<lambda>t. query_row (\<lambda>c. key_scope c = (canonicalID, endpointID)) (t_scopes t)))))"

definition CanonicalScopes :: "Store \<Rightarrow> string \<Rightarrow> CanonicalScopeRow list result" where
  "CanonicalScopes s canonicalID =
     try_err (requireOpaque ''canonical id'' canonicalID)
      (wrap_res ''find canonical child scopes''
        (query s (\<lambda>t. Inr (filter (\<lambda>c. sc_CanonicalID c = canonicalID) (t_scopes t)))))"

text \<open>
  Runes: the number of bytes of a valid UTF-8 encoding at the start of a string, 0 if there is none,
  and the runes of a string, where an invalid byte reads as the replacement character.
\<close>

definition is_cont :: "char \<Rightarrow> bool" where
  "is_cont c = (128 \<le> byte c \<and> byte c \<le> 191)"

definition rune_width :: "string \<Rightarrow> nat" where
  "rune_width s =
     (case s of
        [] \<Rightarrow> 0
      | c # cs \<Rightarrow>
          let b = byte c; n = (if b < 128 then 1 else if b < 194 then 0 else if b < 224 then 2
                               else if b < 240 then 3 else if b < 245 then 4 else 0) in
          if n \<le> 1 then n
          else if length cs < n - 1 \<or> \<not> list_all is_cont (take (n - 1) cs) then 0
          else
            let d = byte (hd cs) in
            if b = 224 \<and> d < 160 \<or> b = 237 \<and> 159 < d \<or> b = 240 \<and> d < 144 \<or> b = 244 \<and> 143 < d then 0
            else n)"

definition rune_error :: string where
  "rune_error = [CHR 0xEF, CHR 0xBF, CHR 0xBD]"

function runes :: "string \<Rightarrow> string list" where
  "runes s =
     (case s of
        [] \<Rightarrow> []
      | c # cs \<Rightarrow>
          if rune_width s = 0 then rune_error # runes cs
          else take (rune_width s) s # runes (drop (rune_width s) s))"
  by pat_completeness auto
termination
  by (relation "measure length") (auto simp: less_Suc_eq_le)

declare runes.simps [simp del]

definition blank_control :: "string \<Rightarrow> string" where
  "blank_control r =
     (case r of [c] \<Rightarrow> if byte c < 32 \<or> byte c = 127 then '' '' else r | _ \<Rightarrow> r)"

definition normalizeChildScopeLabel ::
  "int \<Rightarrow> string \<Rightarrow> string \<Rightarrow> string \<Rightarrow> string \<Rightarrow> ChildScopeLabel option result" where
  "normalizeChildScopeLabel now endpointID scopeKind remoteScopeID displayName =
     try_err (validateEndpoint endpointID)
     (if \<not> valid_scope_kind scopeKind then Inl (ErrMsg ''child scope kind is invalid'')
      else
        let remoteScopeID = trim_space remoteScopeID in
        if remoteScopeID = [] \<or> contains_any remoteScopeID ctl_chars
        then Inl (ErrMsg ''child scope id is invalid'')
        else
          let displayName = join '' '' (go_fields (concat (map blank_control (runes displayName)))) in
          if displayName = [] then Inr None
          else
            let rs = runes displayName;
                displayName = (if 80 < length rs then concat (take 80 rs) else displayName)
            in Inr (Some \<lparr>lb_EndpointID = endpointID, lb_ScopeKind = scopeKind,
                 lb_RemoteScopeID = remoteScopeID, lb_DisplayName = displayName, lb_UpdatedAt = Some now\<rparr>))"

definition has_endpoint :: "tables \<Rightarrow> string \<Rightarrow> bool" where
  "has_endpoint t alias = has_key ep_Alias alias (t_endpoints t)"

interpretation labels: keyed_table key_label "\<lambda>new old. new"
  by unfold_locales

definition UpsertChildScopeLabel ::
  "int \<Rightarrow> Store \<Rightarrow> string \<Rightarrow> string \<Rightarrow> string \<Rightarrow> string \<Rightarrow> unit result \<times> Store" where
  "UpsertChildScopeLabel now s endpointID scopeKind remoteScopeID displayName =
     (case normalizeChildScopeLabel now endpointID scopeKind remoteScopeID displayName of
        Inl e \<Rightarrow> (Inl e, s)
      | Inr None \<Rightarrow> (Inr (), s)
      | Inr (Some label) \<Rightarrow>
          wrapDB ''upsert child scope label''
            (exec s (\<lambda>t. constraint (has_endpoint t endpointID) ''foreign key''
               (Inr ((), t\<lparr>t_labels := upsert key_label (\<lambda>new old. new) label (t_labels t)\<rparr>)))))"

definition FindChildScopeLabel :: "int \<Rightarrow> Store \<Rightarrow> string \<Rightarrow> string \<Rightarrow> string \<Rightarrow> ChildScopeLabel result" where
  "FindChildScopeLabel now s endpointID scopeKind remoteScopeID =
     bind_res (normalizeChildScopeLabel now endpointID scopeKind remoteScopeID ''label'')
      (\<lambda>_. wrap_res ''find child scope label''
        (query s (\<lambda>t. query_row (\<lambda>l. key_label l = (endpointID, scopeKind, remoteScopeID)) (t_labels t))))"

definition ClearChildScopeLabels :: "Store \<Rightarrow> unit result \<times> Store" where
  "ClearChildScopeLabels s =
     wrapDB ''clear child scope labels'' (exec s (\<lambda>t. Inr ((), t\<lparr>t_labels := []\<rparr>)))"

definition ClearChildScopeLabelsForEndpoint :: "Store \<Rightarrow> string \<Rightarrow> unit result \<times> Store" where
  "ClearChildScopeLabelsForEndpoint s endpointID =
     check (validateEndpoint endpointID) s
      (wrapDB ''clear endpoint child scope labels''
        (exec s (\<lambda>t. Inr ((), t\<lparr>t_labels := delete_where (\<lambda>l. lb_EndpointID l = endpointID) (t_labels t)\<rparr>))))"

subsection \<open>Reactions\<close>

interpretation reactions: keyed_table key_reaction "\<lambda>new old. new"
  by unfold_locales

definition UpsertReaction :: "int \<Rightarrow> Store \<Rightarrow> ReactionRow \<Rightarrow> unit result \<times> Store" where
  "UpsertReaction now s reaction =
     check (requireOpaque ''canonical id'' (rx_CanonicalID reaction)) s
     (check (validateEndpoint (rx_SourceEndpointID reaction)) s
     (check (validateActor (rx_ActorHash reaction)) s
     (check (if trim_space (rx_Emoji reaction) = [] then Some (ErrMsg ''reaction emoji is required'') else None) s
      (wrapDB ''upsert reaction''
        (exec s (\<lambda>t. constraint (has_canonical t (rx_CanonicalID reaction)) ''foreign key''
          (Inr ((), t\<lparr>t_reactions := upsert key_reaction (\<lambda>new old. new)
             (reaction\<lparr>rx_UpdatedAt := Some (unixMillis now (rx_UpdatedAt reaction))\<rparr>) (t_reactions t)\<rparr>))))))))"

definition DeleteReaction :: "Store \<Rightarrow> string \<Rightarrow> string \<Rightarrow> string \<Rightarrow> unit result \<times> Store" where
  "DeleteReaction s canonicalID sourceEndpointID actorHash =
     check (requireOpaque ''canonical id'' canonicalID) s
     (check (validateEndpoint sourceEndpointID) s
     (check (validateActor actorHash) s
      (wrapDB ''delete reaction''
        (exec s (\<lambda>t. Inr ((), t\<lparr>t_reactions :=
           delete_where (\<lambda>r. key_reaction r = (canonicalID, sourceEndpointID, actorHash)) (t_reactions t)\<rparr>))))))"

subsection \<open>Recovery cursors\<close>

definition later_cursor :: "RecoveryCursor \<Rightarrow> RecoveryCursor \<Rightarrow> RecoveryCursor" where
  "later_cursor new old = (if rc_Position old < rc_Position new then new else old)"

interpretation cursors: keyed_table rc_StreamKey later_cursor
  by unfold_locales (simp add: later_cursor_def)

definition PutRecoveryCursor :: "int \<Rightarrow> Store \<Rightarrow> RecoveryCursor \<Rightarrow> unit result \<times> Store" where
  "PutRecoveryCursor now s cursor =
     check (if match_stream_key (rc_StreamKey cursor) then None
            else Some (ErrMsg ''recovery stream key is required'')) s
     (check (if rc_Position cursor < 0 then Some (ErrMsg ''recovery cursor position must not be negative'') else None) s
      (wrapDB ''put recovery cursor''
        (exec s (\<lambda>t. Inr ((), t\<lparr>t_cursors := upsert rc_StreamKey later_cursor
           (cursor\<lparr>rc_UpdatedAt := Some (unixMillis now (rc_UpdatedAt cursor))\<rparr>) (t_cursors t)\<rparr>)))))"

definition FindRecoveryCursor :: "Store \<Rightarrow> string \<Rightarrow> RecoveryCursor result" where
  "FindRecoveryCursor s streamKey =
     try_err (if match_stream_key streamKey then None else Some (ErrMsg ''recovery stream key is required''))
      (wrap_res ''get recovery cursor''
        (query s (\<lambda>t. query_row (\<lambda>c. rc_StreamKey c = streamKey) (t_cursors t))))"

end
