(* ===== verification/Ledger.thy ===== *)
theory Ledger
  imports Messages
begin

text \<open>
  The delivery ledger of \<^verbatim>\<open>internal/store/store.go\<close>: the operations that wait for delivery to an
  endpoint, and the sub-steps of a create. The ledger holds no payload.
\<close>

definition DeliveryQueued :: string where "DeliveryQueued = ''queued''"
definition DeliveryRetrying :: string where "DeliveryRetrying = ''retrying''"
definition DeliveryAwaitingReplay :: string where "DeliveryAwaitingReplay = ''awaiting_replay''"
definition DeliveryFailed :: string where "DeliveryFailed = ''failed''"

lemmas delivery_defs = DeliveryQueued_def DeliveryRetrying_def DeliveryAwaitingReplay_def DeliveryFailed_def

definition validDeliveryState :: "string \<Rightarrow> bool" where
  "validDeliveryState state =
     (state = DeliveryQueued \<or> state = DeliveryRetrying \<or> state = DeliveryAwaitingReplay \<or> state = DeliveryFailed)"

definition validDeliveryFailureClass :: "string \<Rightarrow> bool" where
  "validDeliveryFailureClass class =
     (class \<in> {''transient'', ''rate_limited'', ''permission_denied'', ''destination_missing'',
               ''payload_rejected'', ''unsupported''})"

definition validateDeliveryIdentity :: "DeliveryOperation \<Rightarrow> gerr option" where
  "validateDeliveryIdentity d =
     or_else (requireOpaque ''canonical id'' (do_CanonicalID d))
      (or_else (validateEndpoint (do_EndpointID d))
        (if trim_space (do_OperationKind d) = [] \<or> contains_any (do_OperationKind d) ctl_chars
         then Some (ErrMsg ''delivery operation kind is required'')
         else if do_OperationRevision d < 0
         then Some (ErrMsg ''delivery operation revision must not be negative'')
         else None))"

definition validateDeliveryOperation :: "DeliveryOperation \<Rightarrow> gerr option" where
  "validateDeliveryOperation d =
     or_else (validateDeliveryIdentity d)
      (if \<not> validDeliveryState (do_State d) then Some (ErrMsg ''invalid delivery operation state'')
       else if do_AttemptCount d < 0 then Some (ErrMsg ''delivery attempt count must not be negative'')
       else if do_FailureClass d \<noteq> [] \<and> \<not> validDeliveryFailureClass (do_FailureClass d)
       then Some (ErrMsg ''invalid delivery failure class'')
       else None)"

definition await_replay :: "int \<Rightarrow> DeliveryOperation \<Rightarrow> DeliveryOperation" where
  "await_replay now d = d\<lparr>do_State := DeliveryAwaitingReplay, do_UpdatedAt := Some now\<rparr>"

definition in_flight :: "DeliveryOperation \<Rightarrow> bool" where
  "in_flight d = (do_State d = DeliveryQueued \<or> do_State d = DeliveryRetrying)"

text \<open>The statement of \<^verbatim>\<open>markDeliveryOperationsAwaitingReplay\<close>, which \<^verbatim>\<open>Open\<close> also runs.\<close>

definition mark_awaiting :: "int \<Rightarrow> tables \<Rightarrow> (int \<times> tables) result" where
  "mark_awaiting now t =
     Inr (int (count_where in_flight (t_operations t)),
          t\<lparr>t_operations := update_where in_flight (await_replay now) (t_operations t)\<rparr>)"

definition MarkDeliveryOperationsAwaitingReplay :: "int \<Rightarrow> Store \<Rightarrow> int result \<times> Store" where
  "MarkDeliveryOperationsAwaitingReplay now s =
     check (requireStore s) s
      (wrapDB ''mark delivery operations awaiting replay'' (exec s (mark_awaiting now)))"

definition UpsertDeliveryOperation :: "int \<Rightarrow> Store \<Rightarrow> DeliveryOperation \<Rightarrow> unit result \<times> Store" where
  "UpsertDeliveryOperation now s d =
     check (validateDeliveryOperation d) s
      (wrapDB ''upsert delivery operation''
        (exec s (\<lambda>t.
          if has_key key_operation (key_operation d) (t_operations t) then Inr ((), t)
          else constraint (has_canonical t (do_CanonicalID d)) ''foreign key''
            (Inr ((), t\<lparr>t_operations := t_operations t @
              [d\<lparr>do_CreatedAt := Some (unixMillis now (do_CreatedAt d)),
                 do_UpdatedAt := Some (unixMillis now (do_UpdatedAt d))\<rparr>]\<rparr>)))))"

definition FindDeliveryOperation :: "Store \<Rightarrow> DeliveryOperation \<Rightarrow> DeliveryOperation result" where
  "FindDeliveryOperation s d =
     wrap_res ''get delivery operation''
      (query s (\<lambda>t. query_row (\<lambda>x. key_operation x = key_operation d) (t_operations t)))"

definition ClaimDeliveryOperation :: "int \<Rightarrow> Store \<Rightarrow> DeliveryOperation \<Rightarrow> gtime \<Rightarrow> bool result \<times> Store" where
  "ClaimDeliveryOperation now s d at =
     check (validateDeliveryIdentity d) s
      (wrapDB ''claim delivery operation''
        (exec s (\<lambda>t.
          let P = (\<lambda>x. key_operation x = key_operation d \<and> do_State x = DeliveryQueued) in
          Inr (count_where P (t_operations t) = 1,
               t\<lparr>t_operations := update_where P
                 (\<lambda>x. x\<lparr>do_State := DeliveryRetrying, do_AttemptCount := do_AttemptCount x + 1,
                        do_UpdatedAt := Some (unixMillis now at)\<rparr>) (t_operations t)\<rparr>))))"

definition BeginDeliveryAttempt :: "int \<Rightarrow> Store \<Rightarrow> DeliveryOperation \<Rightarrow> gtime \<Rightarrow> unit result \<times> Store" where
  "BeginDeliveryAttempt now s d at =
     check (validateDeliveryIdentity d) s
      (wrapDB ''begin delivery attempt''
        (exec s (\<lambda>t. Inr ((), t\<lparr>t_operations :=
          update_where (\<lambda>x. key_operation x = key_operation d)
            (\<lambda>x. x\<lparr>do_State := DeliveryRetrying, do_AttemptCount := do_AttemptCount x + 1,
                   do_UpdatedAt := Some (unixMillis now at)\<rparr>) (t_operations t)\<rparr>))))"

definition SetDeliveryOperationState ::
  "int \<Rightarrow> Store \<Rightarrow> DeliveryOperation \<Rightarrow> string \<Rightarrow> gtime \<Rightarrow> string \<Rightarrow> gtime \<Rightarrow> unit result \<times> Store" where
  "SetDeliveryOperationState now s d state nextAttemptAt failureClass updatedAt =
     check (validateDeliveryIdentity d) s
     (check (if \<not> validDeliveryState state then Some (ErrMsg ''invalid delivery operation state'') else None) s
     (check (if failureClass \<noteq> [] \<and> \<not> validDeliveryFailureClass failureClass
             then Some (ErrMsg ''invalid delivery failure class'') else None) s
      (wrapDB ''set delivery operation state''
        (exec s (\<lambda>t. Inr ((), t\<lparr>t_operations :=
          update_where (\<lambda>x. key_operation x = key_operation d)
            (\<lambda>x. x\<lparr>do_State := state, do_NextAttemptAt := nextAttemptAt, do_FailureClass := failureClass,
                   do_UpdatedAt := Some (unixMillis now updatedAt)\<rparr>) (t_operations t)\<rparr>))))))"

definition MarkDeliveryOperationAwaitingReplay ::
  "int \<Rightarrow> Store \<Rightarrow> DeliveryOperation \<Rightarrow> gtime \<Rightarrow> unit result \<times> Store" where
  "MarkDeliveryOperationAwaitingReplay now s d updatedAt =
     SetDeliveryOperationState now s d DeliveryAwaitingReplay None [] updatedAt"

definition MarkDeliveryOperationFailed ::
  "int \<Rightarrow> Store \<Rightarrow> DeliveryOperation \<Rightarrow> string \<Rightarrow> gtime \<Rightarrow> unit result \<times> Store" where
  "MarkDeliveryOperationFailed now s d failureClass updatedAt =
     SetDeliveryOperationState now s d DeliveryFailed None failureClass updatedAt"

definition DeleteDeliveryOperation :: "Store \<Rightarrow> DeliveryOperation \<Rightarrow> unit result \<times> Store" where
  "DeleteDeliveryOperation s d =
     check (validateDeliveryIdentity d) s
      (wrapDB ''delete delivery operation''
        (exec s (\<lambda>t. Inr ((), t\<lparr>t_operations :=
          delete_where (\<lambda>x. key_operation x = key_operation d) (t_operations t)\<rparr>))))"

subsection \<open>The steps of a create\<close>

definition step_identity :: "CreateStep \<Rightarrow> DeliveryOperation" where
  "step_identity step =
     \<lparr>do_CanonicalID = st_CanonicalID step, do_EndpointID = st_EndpointID step, do_OperationKind = ''create'',
      do_OperationRevision = st_OperationRevision step, do_State = [], do_AttemptCount = 0,
      do_NextAttemptAt = None, do_FailureClass = [], do_CreatedAt = None, do_UpdatedAt = None\<rparr>"

definition UpsertCreateStep :: "int \<Rightarrow> Store \<Rightarrow> CreateStep \<Rightarrow> unit result \<times> Store" where
  "UpsertCreateStep now s step =
     check (validateDeliveryIdentity (step_identity step)) s
     (check (if st_StepKind step \<noteq> ''primary'' \<and> st_StepKind step \<noteq> ''companion''
             then Some (ErrMsg ''invalid create step'') else None) s
     (check (if st_State step \<noteq> ''pending'' \<and> st_State step \<noteq> ''complete'' \<and> st_State step \<noteq> ''ambiguous''
             then Some (ErrMsg ''invalid create step state'') else None) s
      (wrapDB ''upsert create step''
        (exec s (\<lambda>t.
          if has_key key_step (key_step step) (t_steps t) then Inr ((), t)
          else constraint (has_canonical t (st_CanonicalID step)) ''foreign key''
            (Inr ((), t\<lparr>t_steps := t_steps t @
              [step\<lparr>st_CreatedAt := Some (unixMillis now (st_CreatedAt step)),
                    st_UpdatedAt := Some (unixMillis now (st_UpdatedAt step))\<rparr>]\<rparr>)))))))"

definition FindCreateStep :: "Store \<Rightarrow> string \<Rightarrow> string \<Rightarrow> int \<Rightarrow> string \<Rightarrow> CreateStep result" where
  "FindCreateStep s canonicalID endpointID revision kind =
     wrap_res ''get create step''
      (query s (\<lambda>t. query_row (\<lambda>x. key_step x = (canonicalID, endpointID, revision, kind)) (t_steps t)))"

definition CompleteCreateStep ::
  "int \<Rightarrow> Store \<Rightarrow> CreateStep \<Rightarrow> string \<Rightarrow> bool \<Rightarrow> gtime \<Rightarrow> unit result \<times> Store" where
  "CompleteCreateStep now s step remoteID ambiguous updatedAt =
     (let state = (if ambiguous then ''ambiguous'' else ''complete'') in
      wrapDB ''complete create step''
        (exec s (\<lambda>t. Inr ((), t\<lparr>t_steps :=
          update_where (\<lambda>x. key_step x = key_step step)
            (\<lambda>x. x\<lparr>st_State := state, st_RemoteMessageID := remoteID,
                   st_UpdatedAt := Some (unixMillis now updatedAt)\<rparr>) (t_steps t)\<rparr>))))"

subsection \<open>What waits, and the summaries\<close>

text \<open>The join of the operations with the copies of the source message, counted.\<close>

definition pending_count :: "tables \<Rightarrow> string \<Rightarrow> string \<Rightarrow> nat" where
  "pending_count t endpointID remoteID =
     length (filter
       (\<lambda>(d, c). mc_CanonicalID c = do_CanonicalID d \<and> mc_EndpointID c = endpointID \<and>
          mc_RemoteMessageID c = remoteID \<and>
          (do_State d = DeliveryQueued \<or> do_State d = DeliveryRetrying \<or> do_State d = DeliveryAwaitingReplay))
       (List.product (t_operations t) (t_copies t)))"

definition PendingDeliveryForRemote :: "Store \<Rightarrow> string \<Rightarrow> string \<Rightarrow> bool result" where
  "PendingDeliveryForRemote s endpointID remoteID =
     wrap_res ''check pending delivery''
      (query s (\<lambda>t. Inr (0 < pending_count t endpointID remoteID)))"

record DeliverySummary =
  ds_EndpointID :: string
  ds_Queued :: int
  ds_Retrying :: int
  ds_AwaitingReplay :: int
  ds_Failed :: int
  ds_OldestActiveAge :: int
  ds_FailureClass :: string

definition empty_summary :: DeliverySummary where
  "empty_summary = \<lparr>ds_EndpointID = [], ds_Queued = 0, ds_Retrying = 0, ds_AwaitingReplay = 0, ds_Failed = 0,
     ds_OldestActiveAge = 0, ds_FailureClass = []\<rparr>"

text \<open>
  One row of the loop of \<^verbatim>\<open>DeliverySummaries\<close>. The result is a map; ages are in milliseconds.
\<close>

definition add_to_summary :: "int \<Rightarrow> DeliveryOperation \<Rightarrow> DeliverySummary \<Rightarrow> DeliverySummary" where
  "add_to_summary now d summary =
     (let summary = summary\<lparr>ds_EndpointID := do_EndpointID d\<rparr>;
          summary =
            (if do_State d = DeliveryQueued then summary\<lparr>ds_Queued := ds_Queued summary + 1\<rparr>
             else if do_State d = DeliveryRetrying then summary\<lparr>ds_Retrying := ds_Retrying summary + 1\<rparr>
             else if do_State d = DeliveryAwaitingReplay
             then summary\<lparr>ds_AwaitingReplay := ds_AwaitingReplay summary + 1\<rparr>
             else if do_State d = DeliveryFailed then summary\<lparr>ds_Failed := ds_Failed summary + 1\<rparr>
             else summary);
          summary =
            (if do_State d \<noteq> DeliveryFailed then
               let age = now - unixMillis now (do_UpdatedAt d); age = (if age < 0 then 0 else age)
               in if ds_OldestActiveAge summary < age then summary\<lparr>ds_OldestActiveAge := age\<rparr> else summary
             else summary)
      in if do_State d = DeliveryFailed \<and> do_FailureClass d \<noteq> []
         then summary\<lparr>ds_FailureClass := do_FailureClass d\<rparr> else summary)"

definition summarize :: "int \<Rightarrow> DeliveryOperation list \<Rightarrow> string \<rightharpoonup> DeliverySummary" where
  "summarize now rows =
     foldl (\<lambda>m d. m(do_EndpointID d \<mapsto>
              add_to_summary now d (case m (do_EndpointID d) of None \<Rightarrow> empty_summary | Some x \<Rightarrow> x)))
       Map.empty rows"

text \<open>\<^verbatim>\<open>ORDER BY endpoint_id ASC, updated_at ASC\<close>: a stable sort by the last key, then by the first.\<close>

definition DeliverySummaries :: "Store \<Rightarrow> int \<Rightarrow> (string \<rightharpoonup> DeliverySummary) result" where
  "DeliverySummaries s now =
     try_err (requireStore s)
      (wrap_res ''query delivery summaries''
        (query s (\<lambda>t. Inr (summarize now
          (sort_key do_EndpointID (sort_key (\<lambda>d. unixMillis now (do_UpdatedAt d)) (t_operations t)))))))"

end
