(* ===== verification/Polls.thy ===== *)
theory Polls
  imports Messages
begin

text \<open>
  Polls in the store (\<^verbatim>\<open>internal/store/store.go\<close> and \<^verbatim>\<open>poll_source_hashes.go\<close>): options and their
  provider hashes, the contributions of the endpoints (the selections of actors or an absolute
  snapshot), the aggregate, provider references and result companions. A Go map from option
  indexes to counts is given as the list of its entries.
\<close>

record PollOption =
  opt_Index :: int
  opt_WhatsAppHash :: string

subsection \<open>Options\<close>

definition insert_option :: "PollOptionRow \<Rightarrow> tables \<Rightarrow> tables result" where
  "insert_option r t =
     constraint (\<not> has_key key_option (key_option r) (t_poll_options t)) ''primary key''
      (constraint (has_canonical t (po_CanonicalID r)) ''foreign key''
        (Inr (t\<lparr>t_poll_options := t_poll_options t @ [r]\<rparr>)))"

fun insert_hash_options :: "string \<Rightarrow> int \<Rightarrow> string list \<Rightarrow> tables \<Rightarrow> tables result" where
  "insert_hash_options canonicalID i [] t = Inr t"
| "insert_hash_options canonicalID i (hash # hashes) t =
     (if trim_space hash = [] then Inl (ErrMsg ''option hash is required'')
      else bind_res
        (wrap_res ''insert poll option''
          (insert_option \<lparr>po_CanonicalID = canonicalID, po_Index = i, po_WhatsAppHash = hash\<rparr> t))
        (insert_hash_options canonicalID (i + 1) hashes))"

definition SavePollOptions :: "Store \<Rightarrow> string \<Rightarrow> string list \<Rightarrow> unit result \<times> Store" where
  "SavePollOptions s canonicalID optionHashes =
     check (requireOpaque ''canonical id'' canonicalID) s
     (check (if length optionHashes = 0 then Some (ErrMsg ''poll options are required'') else None) s
      (exec_tx ''begin save poll options'' s
        (\<lambda>t. bind_res (insert_hash_options canonicalID 0 optionHashes t) (\<lambda>t. Inr ((), t)))))"

fun insert_options :: "string \<Rightarrow> int \<Rightarrow> PollOption list \<Rightarrow> tables \<Rightarrow> tables result" where
  "insert_options canonicalID expected [] t = Inr t"
| "insert_options canonicalID expected (opt # options) t =
     (if opt_Index opt \<noteq> expected \<or> opt_Index opt < 0 \<or> contains_any (opt_WhatsAppHash opt) ctl_chars
      then Inl (ErrMsg ''poll option indexes must be contiguous and non-negative'')
      else bind_res
        (wrap_res ''insert poll option metadata''
          (insert_option \<lparr>po_CanonicalID = canonicalID, po_Index = opt_Index opt,
             po_WhatsAppHash = opt_WhatsAppHash opt\<rparr> t))
        (insert_options canonicalID (expected + 1) options))"

definition SavePollOptionMetadata :: "Store \<Rightarrow> string \<Rightarrow> PollOption list \<Rightarrow> unit result \<times> Store" where
  "SavePollOptionMetadata s canonicalID options =
     check (requireOpaque ''canonical id'' canonicalID) s
     (check (if length options = 0 then Some (ErrMsg ''poll options are required'') else None) s
      (exec_tx ''begin save poll option metadata'' s
        (\<lambda>t. bind_res (insert_options canonicalID 0 options t) (\<lambda>t. Inr ((), t)))))"

definition options_of :: "tables \<Rightarrow> string \<Rightarrow> PollOptionRow list" where
  "options_of t canonicalID =
     sort_key po_Index (filter (\<lambda>r. po_CanonicalID r = canonicalID) (t_poll_options t))"

definition GetPollOptionMetadata :: "Store \<Rightarrow> string \<Rightarrow> PollOption list result" where
  "GetPollOptionMetadata s canonicalID =
     try_err (requireOpaque ''canonical id'' canonicalID)
      (wrap_res ''get poll option metadata''
        (query s (\<lambda>t. Inr (map (\<lambda>r. \<lparr>opt_Index = po_Index r, opt_WhatsAppHash = po_WhatsAppHash r\<rparr>)
          (options_of t canonicalID)))))"

definition GetPollOptions :: "Store \<Rightarrow> string \<Rightarrow> string list result" where
  "GetPollOptions s canonicalID =
     try_err (requireOpaque ''canonical id'' canonicalID)
      (wrap_res ''get poll options''
        (query s (\<lambda>t. Inr (map po_WhatsAppHash (options_of t canonicalID)))))"

definition IsPoll :: "Store \<Rightarrow> string \<Rightarrow> bool result" where
  "IsPoll s canonicalID =
     try_err (requireOpaque ''canonical id'' canonicalID)
      (wrap_res ''check is poll''
        (query s (\<lambda>t. Inr (0 < count_where (\<lambda>r. po_CanonicalID r = canonicalID) (t_poll_options t)))))"

definition PollOptionIndexForWhatsAppHash :: "Store \<Rightarrow> string \<Rightarrow> string \<Rightarrow> int result" where
  "PollOptionIndexForWhatsAppHash s canonicalID optionHash =
     try_err (requireOpaque ''canonical id'' canonicalID)
     (if trim_space optionHash = [] then Inl (ErrMsg ''option hash is required'')
      else wrap_res ''resolve WhatsApp poll option''
        (query s (\<lambda>t. bind_res
          (query_row (\<lambda>r. po_CanonicalID r = canonicalID \<and> po_WhatsAppHash r = optionHash) (t_poll_options t))
          (\<lambda>r. Inr (po_Index r)))))"

subsection \<open>Hashes of the source labels\<close>

definition is_hex :: "char \<Rightarrow> bool" where
  "is_hex c = (is_digit c \<or> (97 \<le> byte c \<and> byte c \<le> 102) \<or> (65 \<le> byte c \<and> byte c \<le> 70))"

text \<open>\<^verbatim>\<open>hex.DecodeString\<close> yields 32 bytes.\<close>

definition hex32 :: "string \<Rightarrow> bool" where
  "hex32 h = (length h = 64 \<and> list_all is_hex h)"

interpretation hashes: keyed_table key_hash "\<lambda>new old. new"
  by unfold_locales

fun insert_source_hashes :: "string \<Rightarrow> string \<Rightarrow> int \<Rightarrow> string list \<Rightarrow> tables \<Rightarrow> tables result" where
  "insert_source_hashes canonicalID endpointID i [] t = Inr t"
| "insert_source_hashes canonicalID endpointID i (hash # hashes) t =
     bind_res
       (wrap_res ''save poll source hash''
         (constraint (has_key key_option (canonicalID, i) (t_poll_options t)) ''foreign key''
           (Inr (t\<lparr>t_poll_hashes := upsert key_hash (\<lambda>new old. new)
             \<lparr>ps_CanonicalID = canonicalID, ps_EndpointID = endpointID, ps_Index = i, ps_Hash = hash\<rparr>
             (t_poll_hashes t)\<rparr>))))
       (insert_source_hashes canonicalID endpointID (i + 1) hashes)"

definition SavePollSourceOptionHashes :: "Store \<Rightarrow> string \<Rightarrow> string \<Rightarrow> string list \<Rightarrow> unit result \<times> Store" where
  "SavePollSourceOptionHashes s canonicalID endpointID hs =
     check (requireOpaque ''canonical id'' canonicalID) s
     (check (validateEndpoint endpointID) s
     (check (if list_all hex32 hs then None else Some (ErrMsg ''invalid poll source option hash'')) s
      (exec_tx ''begin poll source hashes'' s
        (\<lambda>t. bind_res (insert_source_hashes canonicalID endpointID 0 hs t) (\<lambda>t. Inr ((), t))))))"

definition pollVoteOptionIndex :: "Store \<Rightarrow> string \<Rightarrow> string \<Rightarrow> string \<Rightarrow> int result" where
  "pollVoteOptionIndex s canonicalID endpointID hash =
     bind_res
       (wrap_res ''read poll source mapping''
         (query s (\<lambda>t. Inr (list_ex (\<lambda>r. ps_CanonicalID r = canonicalID \<and> ps_EndpointID r = endpointID)
            (t_poll_hashes t)))))
       (\<lambda>hasSource.
         if \<not> hasSource then PollOptionIndexForWhatsAppHash s canonicalID hash
         else wrap_res ''resolve source poll option''
           (query s (\<lambda>t. bind_res
             (query_row (\<lambda>r. ps_CanonicalID r = canonicalID \<and> ps_EndpointID r = endpointID \<and> ps_Hash r = hash)
               (t_poll_hashes t))
             (\<lambda>r. Inr (ps_Index r)))))"

subsection \<open>Contributions\<close>

interpretation sources: keyed_table key_source "\<lambda>new old. new"
  by unfold_locales

definition set_source :: "string \<Rightarrow> string \<Rightarrow> string \<Rightarrow> tables \<Rightarrow> tables result" where
  "set_source kind canonicalID endpointID t =
     constraint (has_canonical t canonicalID) ''foreign key''
      (Inr (t\<lparr>t_poll_sources := upsert key_source (\<lambda>new old. new)
        \<lparr>pe_CanonicalID = canonicalID, pe_EndpointID = endpointID, pe_SourceKind = kind\<rparr> (t_poll_sources t)\<rparr>))"

fun validatePollIndexes_from :: "int list \<Rightarrow> int list \<Rightarrow> gerr option" where
  "validatePollIndexes_from seen [] = None"
| "validatePollIndexes_from seen (i # is) =
     (if i < 0 then Some (ErrMsg ''poll option index must not be negative'')
      else if i \<in> set seen then Some (ErrMsg ''poll option indexes must be unique'')
      else validatePollIndexes_from (i # seen) is)"

definition validatePollIndexes :: "int list \<Rightarrow> gerr option" where
  "validatePollIndexes indexes = validatePollIndexes_from [] indexes"

fun insert_selections ::
  "string \<Rightarrow> string \<Rightarrow> string \<Rightarrow> int \<Rightarrow> int list \<Rightarrow> tables \<Rightarrow> tables result" where
  "insert_selections canonicalID endpointID actorHash updated [] t = Inr t"
| "insert_selections canonicalID endpointID actorHash updated (i # is) t =
     bind_res
       (wrap_res ''insert poll actor selection''
         (constraint (\<not> has_key key_selection (canonicalID, endpointID, actorHash, i) (t_poll_selections t))
           ''primary key''
           (constraint (has_canonical t canonicalID) ''foreign key''
             (Inr (t\<lparr>t_poll_selections := t_poll_selections t @
               [\<lparr>pa_CanonicalID = canonicalID, pa_EndpointID = endpointID, pa_ActorHash = actorHash,
                 pa_Index = i, pa_UpdatedAt = updated\<rparr>]\<rparr>)))))
       (insert_selections canonicalID endpointID actorHash updated is)"

definition actor_row :: "string \<Rightarrow> string \<Rightarrow> string \<Rightarrow> PollActorSelection \<Rightarrow> bool" where
  "actor_row canonicalID endpointID actorHash r =
     (pa_CanonicalID r = canonicalID \<and> pa_EndpointID r = endpointID \<and> pa_ActorHash r = actorHash)"

definition ReplacePollActorSelections ::
  "int \<Rightarrow> Store \<Rightarrow> string \<Rightarrow> string \<Rightarrow> string \<Rightarrow> int list \<Rightarrow> gtime \<Rightarrow> unit result \<times> Store" where
  "ReplacePollActorSelections now s canonicalID endpointID actorHash optionIndexes updatedAt =
     check (requireOpaque ''canonical id'' canonicalID) s
     (check (validateEndpoint endpointID) s
     (check (validateActor actorHash) s
     (check (validatePollIndexes optionIndexes) s
      (exec_tx ''begin replace poll actor selections'' s
        (\<lambda>t. bind_res (wrap_res ''set actor poll source'' (set_source ''actor'' canonicalID endpointID t))
          (\<lambda>t. bind_res
            (insert_selections canonicalID endpointID actorHash (unixMillis now updatedAt) optionIndexes
              (t\<lparr>t_poll_selections :=
                delete_where (actor_row canonicalID endpointID actorHash) (t_poll_selections t)\<rparr>))
            (\<lambda>t. Inr ((), t))))))))"

fun vote_indexes :: "Store \<Rightarrow> string \<Rightarrow> string \<Rightarrow> string list \<Rightarrow> int list result" where
  "vote_indexes s canonicalID endpointID [] = Inr []"
| "vote_indexes s canonicalID endpointID (h # hs) =
     bind_res (pollVoteOptionIndex s canonicalID endpointID h)
       (\<lambda>i. bind_res (vote_indexes s canonicalID endpointID hs) (\<lambda>is. Inr (i # is)))"

definition RecordPollVote ::
  "int \<Rightarrow> Store \<Rightarrow> string \<Rightarrow> string \<Rightarrow> string \<Rightarrow> string list \<Rightarrow> gtime \<Rightarrow> unit result \<times> Store" where
  "RecordPollVote now s canonicalID endpointID actorHash optionHashes updatedAt =
     check (requireOpaque ''canonical id'' canonicalID) s
     (check (validateEndpoint endpointID) s
     (check (validateActor actorHash) s
      (case vote_indexes s canonicalID endpointID optionHashes of
         Inl e \<Rightarrow> (Inl e, s)
       | Inr indexes \<Rightarrow>
           ReplacePollActorSelections now s canonicalID endpointID actorHash indexes updatedAt)))"

fun insert_snapshots :: "string \<Rightarrow> string \<Rightarrow> int \<Rightarrow> (int \<times> int) list \<Rightarrow> tables \<Rightarrow> tables result" where
  "insert_snapshots canonicalID endpointID updated [] t = Inr t"
| "insert_snapshots canonicalID endpointID updated ((i, n) # counts) t =
     bind_res
       (wrap_res ''insert poll endpoint snapshot''
         (constraint (\<not> has_key key_snapshot (canonicalID, endpointID, i) (t_poll_snapshots t)) ''primary key''
           (constraint (has_canonical t canonicalID) ''foreign key''
             (Inr (t\<lparr>t_poll_snapshots := t_poll_snapshots t @
               [\<lparr>pn_CanonicalID = canonicalID, pn_EndpointID = endpointID, pn_Index = i, pn_Count = n,
                 pn_UpdatedAt = updated\<rparr>]\<rparr>)))))
       (insert_snapshots canonicalID endpointID updated counts)"

definition ReplacePollEndpointSnapshot ::
  "int \<Rightarrow> Store \<Rightarrow> string \<Rightarrow> string \<Rightarrow> (int \<times> int) list \<Rightarrow> gtime \<Rightarrow> unit result \<times> Store" where
  "ReplacePollEndpointSnapshot now s canonicalID endpointID counts updatedAt =
     check (requireOpaque ''canonical id'' canonicalID) s
     (check (validateEndpoint endpointID) s
     (check (if list_ex (\<lambda>(i, n). i < 0 \<or> n < 0) counts
             then Some (ErrMsg ''poll snapshot indexes and counts must not be negative'') else None) s
      (exec_tx ''begin replace poll endpoint snapshot'' s
        (\<lambda>t. bind_res (wrap_res ''set snapshot poll source'' (set_source ''snapshot'' canonicalID endpointID t))
          (\<lambda>t. bind_res
            (insert_snapshots canonicalID endpointID (unixMillis now updatedAt) counts
              (t\<lparr>t_poll_snapshots := delete_where
                 (\<lambda>r. pn_CanonicalID r = canonicalID \<and> pn_EndpointID r = endpointID) (t_poll_snapshots t)\<rparr>))
            (\<lambda>t. Inr ((), t)))))))"

definition MarkPollEndpointUnavailable :: "Store \<Rightarrow> string \<Rightarrow> string \<Rightarrow> unit result \<times> Store" where
  "MarkPollEndpointUnavailable s canonicalID endpointID =
     check (requireOpaque ''canonical id'' canonicalID) s
     (check (validateEndpoint endpointID) s
      (wrapDB ''mark poll endpoint unavailable''
        (exec s (\<lambda>t. bind_res (set_source ''unavailable'' canonicalID endpointID t) (\<lambda>t. Inr ((), t))))))"

definition HasUnavailablePollEndpoint :: "Store \<Rightarrow> string \<Rightarrow> bool result" where
  "HasUnavailablePollEndpoint s canonicalID =
     try_err (requireOpaque ''canonical id'' canonicalID)
      (wrap_res ''check unavailable poll endpoint''
        (query s (\<lambda>t. Inr (0 < count_where
          (\<lambda>p. pe_CanonicalID p = canonicalID \<and> pe_SourceKind p = ''unavailable'') (t_poll_sources t)))))"

subsection \<open>The aggregate\<close>

text \<open>
  The two halves of the \<^verbatim>\<open>UNION ALL\<close> (a joined selection row counts one), and the sums by option.
\<close>

definition actor_part :: "tables \<Rightarrow> string \<Rightarrow> (int \<times> int) list" where
  "actor_part t canonicalID =
     map (\<lambda>(p, r). (pa_Index r, 1))
       (filter (\<lambda>(p, r). pa_CanonicalID r = pe_CanonicalID p \<and> pa_EndpointID r = pe_EndpointID p \<and>
           pe_CanonicalID p = canonicalID \<and> pe_SourceKind p = ''actor'')
         (List.product (t_poll_sources t) (t_poll_selections t)))"

definition snapshot_part :: "tables \<Rightarrow> string \<Rightarrow> (int \<times> int) list" where
  "snapshot_part t canonicalID =
     map (\<lambda>(p, r). (pn_Index r, pn_Count r))
       (filter (\<lambda>(p, r). pn_CanonicalID r = pe_CanonicalID p \<and> pn_EndpointID r = pe_EndpointID p \<and>
           pe_CanonicalID p = canonicalID \<and> pe_SourceKind p = ''snapshot'')
         (List.product (t_poll_sources t) (t_poll_snapshots t)))"

definition sum_by_option :: "(int \<times> int) list \<Rightarrow> (int \<times> int) list" where
  "sum_by_option rows =
     map (\<lambda>i. (i, sum_list (map snd (filter (\<lambda>r. fst r = i) rows)))) (remdups (map fst rows))"

definition GetPollAggregateCounts :: "Store \<Rightarrow> string \<Rightarrow> (int \<times> int) list result" where
  "GetPollAggregateCounts s canonicalID =
     try_err (requireOpaque ''canonical id'' canonicalID)
      (wrap_res ''get poll aggregate counts''
        (query s (\<lambda>t. Inr (sum_by_option (actor_part t canonicalID @ snapshot_part t canonicalID)))))"

definition count_of :: "(int \<times> int) list \<Rightarrow> int \<Rightarrow> int" where
  "count_of counts i = (case map_of counts i of None \<Rightarrow> 0 | Some n \<Rightarrow> n)"

definition GetPollVoteCounts :: "Store \<Rightarrow> string \<Rightarrow> (string \<rightharpoonup> int) result" where
  "GetPollVoteCounts s canonicalID =
     bind_res (GetPollOptionMetadata s canonicalID)
      (\<lambda>options. bind_res (GetPollAggregateCounts s canonicalID)
        (\<lambda>indexes. Inr
          (foldl (\<lambda>m opt. if opt_WhatsAppHash opt \<noteq> []
                then m(opt_WhatsAppHash opt \<mapsto> count_of indexes (opt_Index opt)) else m)
             Map.empty options)))"

subsection \<open>Provider references and result companions\<close>

interpretation refs: keyed_table key_ref "\<lambda>new old. new"
  by unfold_locales

definition SavePollProviderRef :: "Store \<Rightarrow> PollProviderRef \<Rightarrow> unit result \<times> Store" where
  "SavePollProviderRef s r =
     check (requireOpaque ''canonical id'' (pr_CanonicalID r)) s
     (check (validateEndpoint (pr_EndpointID r)) s
     (check (if trim_space (pr_Provider r) = [] \<or> contains_any (pr_Provider r) ctl_chars
             then Some (ErrMsg ''poll provider is required'') else None) s
     (check (requireOpaque ''poll provider reference'' (pr_Reference r)) s
      (wrapDB ''save poll provider reference''
        (exec s (\<lambda>t.
          constraint (\<not> list_ex (\<lambda>x. key_ref2 x = key_ref2 r \<and> key_ref x \<noteq> key_ref r) (t_poll_refs t)) ''unique''
           (constraint (has_canonical t (pr_CanonicalID r)) ''foreign key''
             (Inr ((), t\<lparr>t_poll_refs := upsert key_ref (\<lambda>new old. new) r (t_poll_refs t)\<rparr>)))))))))"

definition PollCanonicalForProviderRef :: "Store \<Rightarrow> string \<Rightarrow> string \<Rightarrow> string \<Rightarrow> string result" where
  "PollCanonicalForProviderRef s endpointID provider reference =
     try_err (validateEndpoint endpointID)
     (if trim_space provider = [] then Inl (ErrMsg ''poll provider is required'')
      else try_err (requireOpaque ''poll provider reference'' reference)
       (wrap_res ''resolve poll provider reference''
         (query s (\<lambda>t. bind_res (query_row (\<lambda>r. key_ref2 r = (endpointID, provider, reference)) (t_poll_refs t))
           (\<lambda>r. Inr (pr_CanonicalID r))))))"

definition PollEndpointForProviderRef :: "Store \<Rightarrow> string \<Rightarrow> string \<Rightarrow> string result" where
  "PollEndpointForProviderRef s provider reference =
     (if trim_space provider = [] then Inl (ErrMsg ''poll provider is required'')
      else try_err (requireOpaque ''poll provider reference'' reference)
       (wrap_res ''resolve poll provider endpoint''
         (query s (\<lambda>t. bind_res
           (query_row (\<lambda>r. pr_Provider r = provider \<and> pr_Reference r = reference) (t_poll_refs t))
           (\<lambda>r. Inr (pr_EndpointID r))))))"

definition touch_companion :: "PollResultCompanion \<Rightarrow> PollResultCompanion \<Rightarrow> PollResultCompanion" where
  "touch_companion new old = old\<lparr>pc_UpdatedAt := pc_UpdatedAt new\<rparr>"

interpretation companions: keyed_table key_companion touch_companion
  by unfold_locales (simp add: touch_companion_def key_companion_def)

definition FindPollResultCompanion :: "Store \<Rightarrow> string \<Rightarrow> string \<Rightarrow> PollResultCompanion result" where
  "FindPollResultCompanion s canonicalID endpointID =
     try_err (requireOpaque ''canonical id'' canonicalID)
     (try_err (validateEndpoint endpointID)
      (wrap_res ''find poll result companion''
        (query s (\<lambda>t. query_row (\<lambda>c. key_companion c = (canonicalID, endpointID)) (t_companions t)))))"

definition SavePollResultCompanion :: "int \<Rightarrow> Store \<Rightarrow> PollResultCompanion \<Rightarrow> unit result \<times> Store" where
  "SavePollResultCompanion now s c =
     check (requireOpaque ''canonical id'' (pc_CanonicalID c)) s
     (check (validateEndpoint (pc_EndpointID c)) s
     (check (requireOpaque ''remote message id'' (pc_RemoteMessageID c)) s
      (wrapDB ''save poll result companion''
        (exec s (\<lambda>t.
          let c = c\<lparr>pc_CreatedAt := Some (unixMillis now (pc_CreatedAt c)),
                    pc_UpdatedAt := Some (unixMillis now (pc_UpdatedAt c))\<rparr> in
          if has_key key_companion (key_companion c) (t_companions t)
          then Inr ((), t\<lparr>t_companions := upsert key_companion touch_companion c (t_companions t)\<rparr>)
          else constraint (\<not> has_key key_companion2 (key_companion2 c) (t_companions t)) ''unique''
           (constraint (has_canonical t (pc_CanonicalID c)) ''foreign key''
             (Inr ((), t\<lparr>t_companions := upsert key_companion touch_companion c (t_companions t)\<rparr>))))))))"

definition DeletePollResultCompanion :: "Store \<Rightarrow> string \<Rightarrow> string \<Rightarrow> unit result \<times> Store" where
  "DeletePollResultCompanion s canonicalID endpointID =
     check (requireOpaque ''canonical id'' canonicalID) s
     (check (validateEndpoint endpointID) s
      (wrapDB ''delete poll result companion''
        (exec s (\<lambda>t. Inr ((), t\<lparr>t_companions :=
          delete_where (\<lambda>c. key_companion c = (canonicalID, endpointID)) (t_companions t)\<rparr>)))))"

end
