(* ===== verification/Aliases.thy ===== *)
theory Aliases
  imports Messages
begin

text \<open>
  The permanent aliases of the actors of a sync set (\<^verbatim>\<open>internal/store/aliases.go\<close>) and the older
  endpoint-scoped participant handles (\<^verbatim>\<open>participants.go\<close>).
\<close>

definition MaxInt64 :: int where "MaxInt64 = 2 ^ 63 - 1"

definition ErrAliasExhausted :: gerr where
  "ErrAliasExhausted = ErrMsg ''alias ordinal namespace exhausted''"

definition aliasForOrdinal :: "Store \<Rightarrow> int \<Rightarrow> string result" where
  "aliasForOrdinal s ordinal =
     (if st_sequential s then SequentialSyncSetAlias ordinal else SyncSetAlias ordinal)"

text \<open>The consistency check every row goes through when it is read.\<close>

definition scanAlias :: "Store \<Rightarrow> AliasRecord result \<Rightarrow> AliasRecord result" where
  "scanAlias s row =
     bind_res row (\<lambda>record.
       if aliasForOrdinal s (ar_Ordinal record) = Inr (ar_Alias record) \<and> match_actor (ar_ActorID record) \<and>
          trim_space (ar_SyncSetID record) \<noteq> []
       then Inr record else Inl (ErrMsg ''inconsistent alias assignment''))"

definition select_actor :: "tables \<Rightarrow> string \<Rightarrow> string \<Rightarrow> AliasRecord result" where
  "select_actor t setID actorID = query_row (\<lambda>r. key_actor r = (setID, actorID)) (t_actors t)"

text \<open>The body of the \<^verbatim>\<open>BEGIN IMMEDIATE\<close> transaction.\<close>

definition allocate_tx :: "Store \<Rightarrow> string \<Rightarrow> string \<Rightarrow> tables \<Rightarrow> (AliasRecord \<times> tables) result" where
  "allocate_tx s setID actorID t =
     (case scanAlias s (select_actor t setID actorID) of
        Inr record \<Rightarrow> Inr (record, t)
      | Inl e \<Rightarrow>
          if \<not> is_no_rows e then Inl e
          else if t_alias_exhausted t then Inl ErrAliasExhausted
          else bind_res (aliasForOrdinal s (t_alias_next t)) (\<lambda>alias.
            let ordinal = t_alias_next t;
                record = \<lparr>ar_SyncSetID = setID, ar_ActorID = actorID, ar_Ordinal = ordinal, ar_Alias = alias\<rparr>
            in
              constraint (0 < ordinal) ''check''
              (constraint (\<not> has_key key_actor (key_actor record) (t_actors t)) ''primary key''
              (constraint (\<not> has_key ar_Ordinal ordinal (t_actors t)) ''unique''
              (constraint (\<not> has_key key_alias (key_alias record) (t_actors t)) ''unique''
              (constraint (setID \<in> set (t_sync_sets t)) ''foreign key''
                (let t = t\<lparr>t_actors := t_actors t @ [record]\<rparr> in
                 Inr (record,
                   if ordinal = MaxInt64 then t\<lparr>t_alias_exhausted := True\<rparr>
                   else t\<lparr>t_alias_next := ordinal + 1\<rparr>))))))))"

definition allocateAlias :: "Store \<Rightarrow> string \<Rightarrow> string \<Rightarrow> AliasRecord result \<times> Store" where
  "allocateAlias s setID actorID = exec s (allocate_tx s setID actorID)"

text \<open>Busy, locked, and unique or primary-key violations are retried.\<close>

fun alias_retryable :: "gerr \<Rightarrow> bool" where
  "alias_retryable (ErrWrap m e) = alias_retryable e"
| "alias_retryable (ErrConstraint k) = (k = ''busy'' \<or> k = ''unique'' \<or> k = ''primary key'')"
| "alias_retryable _ = False"

text \<open>
  One turn of the loop: the writer lock may be held by another process, and before the turn other
  processes may have changed the tables. The turns end when the five seconds are over.
\<close>

type_synonym alias_turn = "bool \<times> (tables \<Rightarrow> tables)"

fun allocate_loop :: "alias_turn list \<Rightarrow> Store \<Rightarrow> string \<Rightarrow> string \<Rightarrow> AliasRecord result \<times> Store" where
  "allocate_loop [] s setID actorID = (Inl (ErrWrap ''allocate actor alias'' ErrCtx), s)"
| "allocate_loop ((busy, others) # turns) s setID actorID =
     (let s = s\<lparr>st_tables := others (st_tables s)\<rparr>;
          r = (if busy then (Inl (ErrConstraint ''busy''), s) else allocateAlias s setID actorID)
      in case r of
           (Inr record, s) \<Rightarrow> (Inr record, s)
         | (Inl e, s) \<Rightarrow>
             if \<not> alias_retryable e then (Inl (ErrWrap ''allocate actor alias'' e), s)
             else allocate_loop turns s setID actorID)"

definition ObserveSyncSetActor ::
  "alias_turn list \<Rightarrow> Store \<Rightarrow> string \<Rightarrow> string \<Rightarrow> AliasRecord result \<times> Store" where
  "ObserveSyncSetActor turns s setID actorID =
     check (requireStore s) s
     (if setID = [] \<or> trim_space setID \<noteq> setID \<or> \<not> match_actor actorID
      then (Inl (ErrMsg ''invalid alias identity''), s)
      else
        (case scanAlias s (query s (\<lambda>t. select_actor t setID actorID)) of
           Inr record \<Rightarrow> (Inr record, s)
         | Inl e \<Rightarrow>
             if \<not> is_no_rows e then (Inl e, s) else allocate_loop turns s setID actorID))"

definition AliasByActor :: "Store \<Rightarrow> string \<Rightarrow> string \<Rightarrow> string result" where
  "AliasByActor s setID actorID =
     try_err (requireStore s)
      (bind_res (scanAlias s (query s (\<lambda>t. select_actor t setID actorID))) (\<lambda>record. Inr (ar_Alias record)))"

definition ActorByAlias :: "Store \<Rightarrow> string \<Rightarrow> AliasRecord result" where
  "ActorByAlias s alias =
     try_err (requireStore s)
     (if \<not> ValidAlias alias then Inl ErrNoRows
      else scanAlias s (query s (\<lambda>t. query_row (\<lambda>r. key_alias r = map lower alias) (t_actors t))))"

definition ActorInSyncSetByAlias :: "Store \<Rightarrow> string \<Rightarrow> string \<Rightarrow> AliasRecord result" where
  "ActorInSyncSetByAlias s setID alias =
     bind_res (ActorByAlias s alias)
      (\<lambda>record. if ar_SyncSetID record \<noteq> setID then Inl ErrNoRows else Inr record)"

definition ActorEndpoints :: "Store \<Rightarrow> string \<Rightarrow> string \<Rightarrow> string list result" where
  "ActorEndpoints s setID actorID =
     try_err (requireStore s)
      (wrap_res ''find actor endpoints''
        (query s (\<lambda>t. Inr (sort (map (\<lambda>(p, e). pt_EndpointID p)
          (filter (\<lambda>(p, e). ep_Alias e = pt_EndpointID p \<and> ep_SyncSetID e = Some setID \<and> pt_ActorID p = actorID)
            (List.product (t_participants t) (t_endpoints t))))))))"

subsection \<open>The order of an installation\<close>

definition initializeAliasOrder :: "tables \<Rightarrow> tables result" where
  "initializeAliasOrder t =
     (case t_alias_order t of
        Some _ \<Rightarrow> Inr t
      | None \<Rightarrow>
          let sequential = list_all (\<lambda>r. SequentialSyncSetAlias (ar_Ordinal r) = Inr (ar_Alias r)) (t_actors t);
              scrambled = list_all (\<lambda>r. SyncSetAlias (ar_Ordinal r) = Inr (ar_Alias r)) (t_actors t)
          in if \<not> sequential \<and> \<not> scrambled then Inl (ErrMsg ''inconsistent alias ordering'')
             else Inr (t\<lparr>t_alias_order :=
               Some (if sequential \<and> (\<not> scrambled \<or> 1 < t_alias_next t) then ''sequential'' else ''scrambled'')\<rparr>))"

subsection \<open>Participant handles\<close>

record ParticipantAddress =
  pad_Endpoint :: string
  pad_Handle :: string
  pad_ActorID :: string

definition handle_of :: "int \<Rightarrow> string" where
  "handle_of ordinal = CHR ''P'' # format_int ordinal"

definition max_ordinal :: "tables \<Rightarrow> string \<Rightarrow> int" where
  "max_ordinal t endpoint =
     foldl max 0 (map pt_Ordinal (filter (\<lambda>p. pt_EndpointID p = endpoint) (t_participants t)))"

definition ObserveParticipant :: "Store \<Rightarrow> string \<Rightarrow> string \<Rightarrow> ParticipantAddress result \<times> Store" where
  "ObserveParticipant s endpoint actorID =
     check (requireStore s) s
     (if \<not> match_endpoint endpoint \<or> \<not> match_actor actorID
      then (Inl (ErrMsg ''invalid participant address''), s)
      else exec_tx ''begin participant observation'' s (\<lambda>t.
        case query_row (\<lambda>p. key_participant p = (endpoint, actorID)) (t_participants t) of
          Inr p \<Rightarrow>
            Inr (\<lparr>pad_Endpoint = endpoint, pad_Handle = handle_of (pt_Ordinal p), pad_ActorID = actorID\<rparr>, t)
        | Inl _ \<Rightarrow>
            let ordinal = max_ordinal t endpoint + 1 in
            wrap_res ''observe participant''
              (constraint (0 < ordinal) ''check''
              (constraint (\<not> has_key key_participant2 (endpoint, ordinal) (t_participants t)) ''unique''
              (constraint (has_endpoint t endpoint) ''foreign key''
                (Inr (\<lparr>pad_Endpoint = endpoint, pad_Handle = handle_of ordinal, pad_ActorID = actorID\<rparr>,
                  t\<lparr>t_participants := t_participants t @
                    [\<lparr>pt_EndpointID = endpoint, pt_ActorID = actorID, pt_Ordinal = ordinal\<rparr>]\<rparr>)))))))"

text \<open>\<^verbatim>\<open>strconv.ParseInt(s, 10, 64)\<close>.\<close>

definition parse_int64 :: "string \<Rightarrow> int option" where
  "parse_int64 s =
     (let negative = (case s of c # _ \<Rightarrow> c = CHR ''-'' | [] \<Rightarrow> False);
          ds = (case s of c # cs \<Rightarrow> if c = CHR ''-'' \<or> c = CHR ''+'' then cs else s | [] \<Rightarrow> []);
          n = int (digits_value ds);
          v = (if negative then - n else n)
      in if ds = [] \<or> \<not> list_all is_digit ds \<or> v < - (2 ^ 63) \<or> 2 ^ 63 \<le> v then None else Some v)"

definition ParticipantByHandle :: "Store \<Rightarrow> string \<Rightarrow> string \<Rightarrow> ParticipantAddress result" where
  "ParticipantByHandle s endpoint h =
     try_err (requireStore s)
     (if \<not> match_endpoint endpoint \<or> length h < 2 \<or> h ! 0 \<noteq> CHR ''P'' \<or> h ! 1 = CHR ''0''
      then Inl (ErrMsg ''invalid participant address'')
      else
        (case parse_int64 (drop 1 h) of
           None \<Rightarrow> Inl (ErrMsg ''invalid participant address'')
         | Some ordinal \<Rightarrow>
             if ordinal < 1 \<or> handle_of ordinal \<noteq> h then Inl (ErrMsg ''invalid participant address'')
             else query s (\<lambda>t. bind_res
               (query_row (\<lambda>p. key_participant2 p = (endpoint, ordinal)) (t_participants t))
               (\<lambda>p. Inr \<lparr>pad_Endpoint = endpoint, pad_Handle = h, pad_ActorID = pt_ActorID p\<rparr>))))"

definition ParticipantByActor :: "Store \<Rightarrow> string \<Rightarrow> string \<Rightarrow> ParticipantAddress result" where
  "ParticipantByActor s endpoint actorID =
     try_err (requireStore s)
     (if \<not> match_endpoint endpoint \<or> \<not> match_actor actorID
      then Inl (ErrMsg ''invalid participant address'')
      else query s (\<lambda>t. bind_res
        (query_row (\<lambda>p. key_participant p = (endpoint, actorID)) (t_participants t))
        (\<lambda>p. Inr \<lparr>pad_Endpoint = endpoint, pad_Handle = handle_of (pt_Ordinal p), pad_ActorID = actorID\<rparr>)))"

definition ParticipantsForEndpoint :: "Store \<Rightarrow> string \<Rightarrow> ParticipantAddress list result" where
  "ParticipantsForEndpoint s endpoint =
     try_err (requireStore s)
     (if \<not> match_endpoint endpoint then Inl (ErrMsg ''invalid participant endpoint'')
      else wrap_res ''list participant addresses''
        (query s (\<lambda>t. Inr (map
          (\<lambda>p. \<lparr>pad_Endpoint = endpoint, pad_Handle = handle_of (pt_Ordinal p), pad_ActorID = pt_ActorID p\<rparr>)
          (sort_key pt_Ordinal (filter (\<lambda>p. pt_EndpointID p = endpoint) (t_participants t)))))))"

end
