(* ===== verification/Retention.thy ===== *)
theory Retention
  imports Ledger Polls Aliases
begin

text \<open>
  Deleting old messages (\<^verbatim>\<open>PruneOlderThan\<close>, \<^verbatim>\<open>PruneRetention\<close> of \<^verbatim>\<open>internal/store/store.go\<close> and
  \<^verbatim>\<open>sync_set_retention.go\<close>), the storage metrics, and what opening the database does to the tables.
\<close>

text \<open>The foreign keys with \<^verbatim>\<open>ON DELETE CASCADE\<close> that start at a canonical message.\<close>

definition delete_canonicals :: "(string \<Rightarrow> bool) \<Rightarrow> tables \<Rightarrow> tables" where
  "delete_canonicals gone t =
     t\<lparr>t_canonical := delete_where (\<lambda>r. gone (cm_ID r)) (t_canonical t),
       t_copies := delete_where (\<lambda>r. gone (mc_CanonicalID r)) (t_copies t),
       t_scopes := delete_where (\<lambda>r. gone (sc_CanonicalID r)) (t_scopes t),
       t_reactions := delete_where (\<lambda>r. gone (rx_CanonicalID r)) (t_reactions t),
       t_operations := delete_where (\<lambda>r. gone (do_CanonicalID r)) (t_operations t),
       t_steps := delete_where (\<lambda>r. gone (st_CanonicalID r)) (t_steps t),
       t_poll_options := delete_where (\<lambda>r. gone (po_CanonicalID r)) (t_poll_options t),
       t_poll_hashes := delete_where (\<lambda>r. gone (ps_CanonicalID r)) (t_poll_hashes t),
       t_poll_sources := delete_where (\<lambda>r. gone (pe_CanonicalID r)) (t_poll_sources t),
       t_poll_selections := delete_where (\<lambda>r. gone (pa_CanonicalID r)) (t_poll_selections t),
       t_poll_snapshots := delete_where (\<lambda>r. gone (pn_CanonicalID r)) (t_poll_snapshots t),
       t_poll_refs := delete_where (\<lambda>r. gone (pr_CanonicalID r)) (t_poll_refs t),
       t_companions := delete_where (\<lambda>r. gone (pc_CanonicalID r)) (t_companions t)\<rparr>"

text \<open>One batch: the oldest \<open>batch\<close> messages that satisfy the condition, and their number.\<close>

definition batch_ids :: "(CanonicalMessage \<Rightarrow> bool) \<Rightarrow> nat \<Rightarrow> tables \<Rightarrow> string list" where
  "batch_ids P batch t = map cm_ID (take batch (sort_key cm_CreatedAt (filter P (t_canonical t))))"

definition prune_batch :: "(CanonicalMessage \<Rightarrow> bool) \<Rightarrow> nat \<Rightarrow> tables \<Rightarrow> nat \<times> tables" where
  "prune_batch P batch t =
     (let ids = batch_ids P batch t
      in (count_where (\<lambda>c. cm_ID c \<in> set ids) (t_canonical t), delete_canonicals (\<lambda>i. i \<in> set ids) t))"

text \<open>
  The loop over the batches. \<open>ctx n\<close> is the error of the context before the batch \<open>n\<close>. A batch of at
  least one message that is full deletes something, so the loop ends; \<open>batch = 0\<close> is never passed.
\<close>

lemma prune_batch_less:
  assumes "0 < batch" "\<not> fst (prune_batch P batch t) < batch"
  shows "length (t_canonical (snd (prune_batch P batch t))) < length (t_canonical t)"
proof -
  let ?Q = "\<lambda>c. cm_ID c \<in> set (batch_ids P batch t)"
  have "0 < count_where ?Q (t_canonical t)" using assms by (simp add: prune_batch_def Let_def)
  moreover have "length (delete_where ?Q (t_canonical t)) + count_where ?Q (t_canonical t) = length (t_canonical t)"
    by (rule length_delete_where)
  ultimately show ?thesis by (simp add: prune_batch_def Let_def delete_canonicals_def)
qed

function prune_loop ::
  "(nat \<Rightarrow> gerr option) \<Rightarrow> (CanonicalMessage \<Rightarrow> bool) \<Rightarrow> nat \<Rightarrow> nat \<Rightarrow> int \<Rightarrow> tables \<Rightarrow> gerr option \<times> int \<times> tables" where
  "prune_loop ctx P batch n acc t =
     (case ctx n of
        Some e \<Rightarrow> (Some e, acc, t)
      | None \<Rightarrow>
          let r = prune_batch P batch t; acc = acc + int (fst r) in
          if fst r < batch \<or> batch = 0 then (None, acc, snd r)
          else prune_loop ctx P batch (n + 1) acc (snd r))"
  by pat_completeness auto
termination
  by (relation "measure (\<lambda>(ctx, P, batch, n, acc, t). length (t_canonical t))")
     (auto intro!: prune_batch_less)

declare prune_loop.simps [simp del]

definition prune_suppressed :: "(SuppressedRow \<Rightarrow> bool) \<Rightarrow> tables \<Rightarrow> tables" where
  "prune_suppressed P t =
     t\<lparr>t_sup_reactions := delete_where P (t_sup_reactions t), t_sup_local := delete_where P (t_sup_local t)\<rparr>"

text \<open>The total is also returned with an error.\<close>

definition PruneOlderThan ::
  "(nat \<Rightarrow> gerr option) \<Rightarrow> int \<Rightarrow> Store \<Rightarrow> gtime \<Rightarrow> int \<Rightarrow> (int \<times> gerr option) \<times> Store" where
  "PruneOlderThan ctx now s cutoff batchSize =
     (case st_handle s of
        NilDB \<Rightarrow> ((0, Some (ErrMsg ''sync store is required'')), s)
      | ClosedDB \<Rightarrow> ((0, Some (ErrWrap ''prune suppressed reactions'' ErrConnDone)), s)
      | OpenDB \<Rightarrow>
          let batchSize = (if batchSize \<le> 0 then 1000 else batchSize);
              cutoffMillis = unixMillis now cutoff;
              t = prune_suppressed (\<lambda>r. su_CreatedAt r < cutoffMillis) (st_tables s)
          in (case prune_loop ctx (\<lambda>c. cm_CreatedAt c < cutoffMillis) (nat batchSize) 0 0 t of
                (err, acc, t) \<Rightarrow> ((acc, err), s\<lparr>st_tables := t\<rparr>)))"

definition day_millis :: int where "day_millis = 86400000"

definition PruneRetention ::
  "(nat \<Rightarrow> gerr option) \<Rightarrow> int \<Rightarrow> Store \<Rightarrow> int \<Rightarrow> int \<Rightarrow> (int \<times> gerr option) \<times> Store" where
  "PruneRetention ctx now s retentionDays batchSize =
     (if retentionDays \<le> 0 then ((0, Some (ErrMsg ''retention days must be positive'')), s)
      else PruneOlderThan ctx now s (Some (now - retentionDays * day_millis)) batchSize)"

subsection \<open>Retention by sync set\<close>

definition in_sync_set :: "tables \<Rightarrow> string \<Rightarrow> string \<Rightarrow> bool" where
  "in_sync_set t setID endpointID =
     list_ex (\<lambda>e. ep_Alias e = endpointID \<and> ep_SyncSetID e = Some setID) (t_endpoints t)"

definition in_some_sync_set :: "tables \<Rightarrow> string \<Rightarrow> bool" where
  "in_some_sync_set t endpointID =
     list_ex (\<lambda>e. ep_Alias e = endpointID \<and>
        (case ep_SyncSetID e of None \<Rightarrow> False | Some i \<Rightarrow> i \<in> set (t_sync_sets t))) (t_endpoints t)"

definition orphan_message :: "tables \<Rightarrow> CanonicalMessage \<Rightarrow> bool" where
  "orphan_message t c = (case cm_SyncSetID c of None \<Rightarrow> True | Some i \<Rightarrow> i \<notin> set (t_sync_sets t))"

definition prune_policy :: "int \<Rightarrow> nat \<Rightarrow> string \<Rightarrow> int \<Rightarrow> tables \<Rightarrow> int \<times> tables" where
  "prune_policy now batch setID days t =
     (let cutoff = now - days * day_millis;
          t = prune_suppressed (\<lambda>r. su_CreatedAt r < cutoff \<and> in_sync_set t setID (su_EndpointID r)) t
      in snd (prune_loop (\<lambda>_. None) (\<lambda>c. cm_SyncSetID c = Some setID \<and> cm_CreatedAt c < cutoff) batch 0 0 t))"

fun prune_policies :: "int \<Rightarrow> nat \<Rightarrow> (string \<times> int) list \<Rightarrow> int \<Rightarrow> tables \<Rightarrow> gerr option \<times> int \<times> tables" where
  "prune_policies now batch [] acc t = (None, acc, t)"
| "prune_policies now batch ((setID, days) # policies) acc t =
     (if days < 1 then (Some (ErrMsg ''retention days must be positive''), acc, t)
      else
        let r = prune_policy now batch setID days t
        in prune_policies now batch policies (acc + fst r) (snd r))"

definition prune_orphans :: "int \<Rightarrow> nat \<Rightarrow> tables \<Rightarrow> int \<times> tables" where
  "prune_orphans now batch t =
     (let cutoff = now - 90 * day_millis;
          t = prune_suppressed (\<lambda>r. su_CreatedAt r < cutoff \<and> \<not> in_some_sync_set t (su_EndpointID r)) t
      in snd (prune_loop (\<lambda>_. None) (\<lambda>c. cm_CreatedAt c < cutoff \<and> orphan_message t c) batch 0 0 t))"

text \<open>\<open>policies\<close> is the Go map in the order its iteration takes.\<close>

definition PruneSyncSetRetention ::
  "int \<Rightarrow> Store \<Rightarrow> (string \<times> int) list \<Rightarrow> int \<Rightarrow> (int \<times> gerr option) \<times> Store" where
  "PruneSyncSetRetention now s policies batchSize =
     (if st_handle s \<noteq> OpenDB then
        ((0, Some (case policies of
             [] \<Rightarrow> ErrWrap ''prune orphan suppression'' ErrConnDone
           | (setID, days) # _ \<Rightarrow>
               if days < 1 then ErrMsg ''retention days must be positive''
               else ErrWrap ''prune sync-set suppression'' ErrConnDone)), s)
      else
        let batch = nat (if batchSize \<le> 0 then 1000 else batchSize) in
        (case prune_policies now batch policies 0 (st_tables s) of
           (Some e, acc, t) \<Rightarrow> ((acc, Some e), s\<lparr>st_tables := t\<rparr>)
         | (None, acc, t) \<Rightarrow>
             let r = prune_orphans now batch t
             in ((acc + fst r, None), s\<lparr>st_tables := snd r\<rparr>)))"

subsection \<open>Metrics and opening\<close>

record StorageMetrics =
  sm_CanonicalMessages :: int
  sm_MessageCopies :: int
  sm_Reactions :: int
  sm_DatabaseSizeBytes :: int

text \<open>\<open>file_size\<close> is the size the file system reports, \<open>None\<close> if there is no path or no file.\<close>

definition Metrics :: "Store \<Rightarrow> int option \<Rightarrow> StorageMetrics result" where
  "Metrics s file_size =
     try_err (requireStore s)
      (wrap_res ''count canonical messages''
        (query s (\<lambda>t. Inr
          \<lparr>sm_CanonicalMessages = int (length (t_canonical t)), sm_MessageCopies = int (length (t_copies t)),
           sm_Reactions = int (length (t_reactions t)),
           sm_DatabaseSizeBytes = (case file_size of None \<Rightarrow> 0 | Some n \<Rightarrow> n)\<rparr>)))"

text \<open>
  Opening a database whose schema is up to date: the order of the aliases is fixed, the operations in
  flight wait for a replay, and the handle remembers the order.
\<close>

definition OpenStore :: "int \<Rightarrow> tables \<Rightarrow> Store result" where
  "OpenStore now t =
     bind_res (wrap_res ''initialize alias ordering'' (initializeAliasOrder t)) (\<lambda>t.
     bind_res (mark_awaiting now t) (\<lambda>(_, t).
       (case t_alias_order t of
          None \<Rightarrow> Inl (ErrMsg ''read alias ordering'')
        | Some order \<Rightarrow>
            Inr \<lparr>st_handle = OpenDB, st_sequential = (order = ''sequential''), st_tables = t\<rparr>)))"

definition empty_tables :: tables where
  "empty_tables =
     \<lparr>t_canonical = [], t_copies = [], t_scopes = [], t_labels = [], t_reactions = [], t_cursors = [],
      t_operations = [], t_steps = [], t_poll_options = [], t_poll_hashes = [], t_poll_sources = [],
      t_poll_selections = [], t_poll_snapshots = [], t_poll_refs = [], t_companions = [], t_sup_reactions = [],
      t_sup_local = [], t_sync_sets = [], t_endpoints = [], t_participants = [], t_actors = [],
      t_alias_next = 1, t_alias_exhausted = False, t_alias_order = None\<rparr>"

definition CloseStore :: "Store \<Rightarrow> Store" where
  "CloseStore s = (if st_handle s = NilDB then s else s\<lparr>st_handle := ClosedDB\<rparr>)"

end
