(* ===== verification/StoreInvariant.thy ===== *)
theory StoreInvariant
  imports Retention
begin

text \<open>
  The integrity of the database: keys, foreign keys and checks hold in every state that the store's
  operations reach. \<open>store_step\<close> has one rule per operation that writes.
\<close>

subsection \<open>Integrity\<close>

definition pk_ok :: "tables \<Rightarrow> bool" where
  "pk_ok t \<longleftrightarrow>
     keys_ok cm_ID (t_canonical t) \<and> keys_ok key_copy (t_copies t) \<and> keys_ok key_copy2 (t_copies t) \<and>
     keys_ok key_scope (t_scopes t) \<and> keys_ok key_label (t_labels t) \<and> keys_ok key_reaction (t_reactions t) \<and>
     keys_ok rc_StreamKey (t_cursors t) \<and> keys_ok key_operation (t_operations t) \<and> keys_ok key_step (t_steps t) \<and>
     keys_ok key_option (t_poll_options t) \<and> keys_ok key_hash (t_poll_hashes t) \<and>
     keys_ok key_source (t_poll_sources t) \<and> keys_ok key_selection (t_poll_selections t) \<and>
     keys_ok key_snapshot (t_poll_snapshots t) \<and> keys_ok key_ref (t_poll_refs t) \<and> keys_ok key_ref2 (t_poll_refs t) \<and>
     keys_ok key_companion (t_companions t) \<and> keys_ok key_companion2 (t_companions t) \<and>
     keys_ok key_suppressed (t_sup_reactions t) \<and> keys_ok key_suppressed (t_sup_local t) \<and>
     keys_ok key_participant (t_participants t) \<and> keys_ok key_participant2 (t_participants t) \<and>
     keys_ok key_actor (t_actors t) \<and> keys_ok ar_Ordinal (t_actors t) \<and> keys_ok key_alias (t_actors t)"

text \<open>\<open>refer f rows ids\<close>: the column \<open>f\<close> of every row holds one of the given identifiers.\<close>

definition refer :: "('r \<Rightarrow> 'k) \<Rightarrow> 'r list \<Rightarrow> 'k set \<Rightarrow> bool" where
  "refer f rows ids \<longleftrightarrow> f ` set rows \<subseteq> ids"

lemma refer_simps [simp]:
  "refer f [] ids"
  "refer f (rows @ [r]) ids \<longleftrightarrow> refer f rows ids \<and> f r \<in> ids"
  by (auto simp: refer_def)

lemma refer_mono: "refer f rows ids \<Longrightarrow> ids \<subseteq> ids' \<Longrightarrow> refer f rows ids'"
  by (auto simp: refer_def)

definition fk_ok :: "tables \<Rightarrow> bool" where
  "fk_ok t \<longleftrightarrow>
     refer mc_CanonicalID (t_copies t) (cm_ID ` set (t_canonical t)) \<and>
     refer sc_CanonicalID (t_scopes t) (cm_ID ` set (t_canonical t)) \<and>
     refer rx_CanonicalID (t_reactions t) (cm_ID ` set (t_canonical t)) \<and>
     refer do_CanonicalID (t_operations t) (cm_ID ` set (t_canonical t)) \<and>
     refer st_CanonicalID (t_steps t) (cm_ID ` set (t_canonical t)) \<and>
     refer po_CanonicalID (t_poll_options t) (cm_ID ` set (t_canonical t)) \<and>
     refer (\<lambda>r. (ps_CanonicalID r, ps_Index r)) (t_poll_hashes t) (key_option ` set (t_poll_options t)) \<and>
     refer pe_CanonicalID (t_poll_sources t) (cm_ID ` set (t_canonical t)) \<and>
     refer pa_CanonicalID (t_poll_selections t) (cm_ID ` set (t_canonical t)) \<and>
     refer pn_CanonicalID (t_poll_snapshots t) (cm_ID ` set (t_canonical t)) \<and>
     refer pr_CanonicalID (t_poll_refs t) (cm_ID ` set (t_canonical t)) \<and>
     refer pc_CanonicalID (t_companions t) (cm_ID ` set (t_canonical t)) \<and>
     refer lb_EndpointID (t_labels t) (ep_Alias ` set (t_endpoints t)) \<and>
     refer pt_EndpointID (t_participants t) (ep_Alias ` set (t_endpoints t)) \<and>
     refer ar_SyncSetID (t_actors t) (set (t_sync_sets t))"

definition operation_ok :: "DeliveryOperation \<Rightarrow> bool" where
  "operation_ok d \<longleftrightarrow> validDeliveryState (do_State d) \<and> 0 \<le> do_AttemptCount d \<and> 0 \<le> do_OperationRevision d \<and>
     do_OperationKind d \<noteq> [] \<and> (do_FailureClass d = [] \<or> validDeliveryFailureClass (do_FailureClass d))"

definition step_ok :: "CreateStep \<Rightarrow> bool" where
  "step_ok x \<longleftrightarrow> 0 \<le> st_OperationRevision x \<and> st_StepKind x \<in> {''primary'', ''companion''} \<and>
     st_State x \<in> {''pending'', ''complete'', ''ambiguous''}"

definition alias_ok :: "tables \<Rightarrow> bool" where
  "alias_ok t \<longleftrightarrow> 1 \<le> t_alias_next t \<and> t_alias_next t \<le> MaxInt64 \<and>
     (t_alias_exhausted t \<longrightarrow> t_alias_next t = MaxInt64) \<and>
     (\<forall>r \<in> set (t_actors t). 1 \<le> ar_Ordinal r \<and>
        (ar_Ordinal r < t_alias_next t \<or> t_alias_exhausted t \<and> ar_Ordinal r = MaxInt64))"

definition checks_ok :: "tables \<Rightarrow> bool" where
  "checks_ok t \<longleftrightarrow>
     (\<forall>d \<in> set (t_operations t). operation_ok d) \<and> (\<forall>x \<in> set (t_steps t). step_ok x) \<and>
     (\<forall>x \<in> set (t_scopes t). valid_scope_kind (sc_ScopeKind x)) \<and>
     (\<forall>x \<in> set (t_labels t). valid_scope_kind (lb_ScopeKind x)) \<and>
     (\<forall>x \<in> set (t_cursors t). 0 \<le> rc_Position x) \<and>
     (\<forall>x \<in> set (t_poll_snapshots t). 0 \<le> pn_Count x) \<and>
     (\<forall>x \<in> set (t_poll_sources t). pe_SourceKind x \<in> {''actor'', ''snapshot'', ''unavailable''}) \<and>
     (\<forall>x \<in> set (t_participants t). 0 < pt_Ordinal x) \<and> alias_ok t"

definition db_ok :: "tables \<Rightarrow> bool" where
  "db_ok t \<longleftrightarrow> pk_ok t \<and> fk_ok t \<and> checks_ok t"

definition store_ok :: "Store \<Rightarrow> bool" where
  "store_ok s \<longleftrightarrow> db_ok (st_tables s)"

lemma ok_exec:
  "store_ok s \<Longrightarrow> (\<And>x t'. f (st_tables s) = Inr (x, t') \<Longrightarrow> db_ok (st_tables s) \<Longrightarrow> db_ok t') \<Longrightarrow>
     store_ok (snd (exec s f))"
  by (rule exec_cases [of s f]) (auto simp: store_ok_def)

lemma ok_exec_tx:
  "store_ok s \<Longrightarrow> (\<And>x t'. f (st_tables s) = Inr (x, t') \<Longrightarrow> db_ok (st_tables s) \<Longrightarrow> db_ok t') \<Longrightarrow>
     store_ok (snd (exec_tx m s f))"
  using ok_exec [of s f] by (auto simp: exec_tx_def)

lemma ok_wrapDB: "store_ok (snd r) \<Longrightarrow> store_ok (snd (wrapDB m r))"
  by (simp add: wrapDB_def)

lemma ok_check: "store_ok s \<Longrightarrow> (v = None \<Longrightarrow> store_ok (snd k)) \<Longrightarrow> store_ok (snd (check v s k))"
  by (cases v) simp_all

lemmas ok_intros = ok_check ok_wrapDB ok_exec ok_exec_tx

text \<open>
  Replacing the rows of one table: what has to hold of the new rows. Of the canonical messages and the
  poll options, to which others refer, none may go.
\<close>

lemma db_set_canonical:
  "db_ok t \<Longrightarrow> keys_ok cm_ID rows \<Longrightarrow> cm_ID ` set (t_canonical t) \<subseteq> cm_ID ` set rows \<Longrightarrow>
     db_ok (t\<lparr>t_canonical := rows\<rparr>)"
  by (simp add: db_ok_def pk_ok_def fk_ok_def checks_ok_def alias_ok_def, elim conjE, (intro conjI)?; rule refer_mono; assumption)

lemma db_set_copies:
  "db_ok t \<Longrightarrow> keys_ok key_copy rows \<Longrightarrow> keys_ok key_copy2 rows \<Longrightarrow>
     refer mc_CanonicalID rows (cm_ID ` set (t_canonical t)) \<Longrightarrow>
     db_ok (t\<lparr>t_copies := rows\<rparr>)"
  by (simp add: db_ok_def pk_ok_def fk_ok_def checks_ok_def alias_ok_def)

lemma db_set_scopes:
  "db_ok t \<Longrightarrow> keys_ok key_scope rows \<Longrightarrow> refer sc_CanonicalID rows (cm_ID ` set (t_canonical t)) \<Longrightarrow>
     (\<And>x. x \<in> set rows \<Longrightarrow> valid_scope_kind (sc_ScopeKind x)) \<Longrightarrow>
     db_ok (t\<lparr>t_scopes := rows\<rparr>)"
  by (simp add: db_ok_def pk_ok_def fk_ok_def checks_ok_def alias_ok_def)

lemma db_set_labels:
  "db_ok t \<Longrightarrow> keys_ok key_label rows \<Longrightarrow> refer lb_EndpointID rows (ep_Alias ` set (t_endpoints t)) \<Longrightarrow>
     (\<And>x. x \<in> set rows \<Longrightarrow> valid_scope_kind (lb_ScopeKind x)) \<Longrightarrow>
     db_ok (t\<lparr>t_labels := rows\<rparr>)"
  by (simp add: db_ok_def pk_ok_def fk_ok_def checks_ok_def alias_ok_def)

lemma db_set_reactions:
  "db_ok t \<Longrightarrow> keys_ok key_reaction rows \<Longrightarrow> refer rx_CanonicalID rows (cm_ID ` set (t_canonical t)) \<Longrightarrow>
     db_ok (t\<lparr>t_reactions := rows\<rparr>)"
  by (simp add: db_ok_def pk_ok_def fk_ok_def checks_ok_def alias_ok_def)

lemma db_set_cursors:
  "db_ok t \<Longrightarrow> keys_ok rc_StreamKey rows \<Longrightarrow> (\<And>x. x \<in> set rows \<Longrightarrow> 0 \<le> rc_Position x) \<Longrightarrow>
     db_ok (t\<lparr>t_cursors := rows\<rparr>)"
  by (simp add: db_ok_def pk_ok_def fk_ok_def checks_ok_def alias_ok_def)

lemma db_set_operations:
  "db_ok t \<Longrightarrow> keys_ok key_operation rows \<Longrightarrow> refer do_CanonicalID rows (cm_ID ` set (t_canonical t)) \<Longrightarrow>
     (\<And>x. x \<in> set rows \<Longrightarrow> operation_ok x) \<Longrightarrow>
     db_ok (t\<lparr>t_operations := rows\<rparr>)"
  by (simp add: db_ok_def pk_ok_def fk_ok_def checks_ok_def alias_ok_def)

lemma db_set_steps:
  "db_ok t \<Longrightarrow> keys_ok key_step rows \<Longrightarrow> refer st_CanonicalID rows (cm_ID ` set (t_canonical t)) \<Longrightarrow>
     (\<And>x. x \<in> set rows \<Longrightarrow> step_ok x) \<Longrightarrow>
     db_ok (t\<lparr>t_steps := rows\<rparr>)"
  by (simp add: db_ok_def pk_ok_def fk_ok_def checks_ok_def alias_ok_def)

lemma db_set_poll_options:
  "db_ok t \<Longrightarrow> keys_ok key_option rows \<Longrightarrow> refer po_CanonicalID rows (cm_ID ` set (t_canonical t)) \<Longrightarrow>
     key_option ` set (t_poll_options t) \<subseteq> key_option ` set rows \<Longrightarrow>
     db_ok (t\<lparr>t_poll_options := rows\<rparr>)"
  by (simp add: db_ok_def pk_ok_def fk_ok_def checks_ok_def alias_ok_def, elim conjE, (intro conjI)?; rule refer_mono; assumption)

lemma db_set_poll_hashes:
  "db_ok t \<Longrightarrow> keys_ok key_hash rows \<Longrightarrow> refer (\<lambda>r. (ps_CanonicalID r, ps_Index r)) rows (key_option ` set (t_poll_options t)) \<Longrightarrow>
     db_ok (t\<lparr>t_poll_hashes := rows\<rparr>)"
  by (simp add: db_ok_def pk_ok_def fk_ok_def checks_ok_def alias_ok_def)

lemma db_set_poll_sources:
  "db_ok t \<Longrightarrow> keys_ok key_source rows \<Longrightarrow> refer pe_CanonicalID rows (cm_ID ` set (t_canonical t)) \<Longrightarrow>
     (\<And>x. x \<in> set rows \<Longrightarrow> pe_SourceKind x \<in> {''actor'', ''snapshot'', ''unavailable''}) \<Longrightarrow>
     db_ok (t\<lparr>t_poll_sources := rows\<rparr>)"
  by (simp add: db_ok_def pk_ok_def fk_ok_def checks_ok_def alias_ok_def)

lemma db_set_poll_selections:
  "db_ok t \<Longrightarrow> keys_ok key_selection rows \<Longrightarrow> refer pa_CanonicalID rows (cm_ID ` set (t_canonical t)) \<Longrightarrow>
     db_ok (t\<lparr>t_poll_selections := rows\<rparr>)"
  by (simp add: db_ok_def pk_ok_def fk_ok_def checks_ok_def alias_ok_def)

lemma db_set_poll_snapshots:
  "db_ok t \<Longrightarrow> keys_ok key_snapshot rows \<Longrightarrow> refer pn_CanonicalID rows (cm_ID ` set (t_canonical t)) \<Longrightarrow>
     (\<And>x. x \<in> set rows \<Longrightarrow> 0 \<le> pn_Count x) \<Longrightarrow>
     db_ok (t\<lparr>t_poll_snapshots := rows\<rparr>)"
  by (simp add: db_ok_def pk_ok_def fk_ok_def checks_ok_def alias_ok_def)

lemma db_set_poll_refs:
  "db_ok t \<Longrightarrow> keys_ok key_ref rows \<Longrightarrow> keys_ok key_ref2 rows \<Longrightarrow>
     refer pr_CanonicalID rows (cm_ID ` set (t_canonical t)) \<Longrightarrow>
     db_ok (t\<lparr>t_poll_refs := rows\<rparr>)"
  by (simp add: db_ok_def pk_ok_def fk_ok_def checks_ok_def alias_ok_def)

lemma db_set_companions:
  "db_ok t \<Longrightarrow> keys_ok key_companion rows \<Longrightarrow> keys_ok key_companion2 rows \<Longrightarrow>
     refer pc_CanonicalID rows (cm_ID ` set (t_canonical t)) \<Longrightarrow>
     db_ok (t\<lparr>t_companions := rows\<rparr>)"
  by (simp add: db_ok_def pk_ok_def fk_ok_def checks_ok_def alias_ok_def)

lemma db_set_sup_reactions:
  "db_ok t \<Longrightarrow> keys_ok key_suppressed rows \<Longrightarrow>
     db_ok (t\<lparr>t_sup_reactions := rows\<rparr>)"
  by (simp add: db_ok_def pk_ok_def fk_ok_def checks_ok_def alias_ok_def)

lemma db_set_sup_local:
  "db_ok t \<Longrightarrow> keys_ok key_suppressed rows \<Longrightarrow>
     db_ok (t\<lparr>t_sup_local := rows\<rparr>)"
  by (simp add: db_ok_def pk_ok_def fk_ok_def checks_ok_def alias_ok_def)

lemma db_set_participants:
  "db_ok t \<Longrightarrow> keys_ok key_participant rows \<Longrightarrow> keys_ok key_participant2 rows \<Longrightarrow>
     refer pt_EndpointID rows (ep_Alias ` set (t_endpoints t)) \<Longrightarrow> (\<And>x. x \<in> set rows \<Longrightarrow> 0 < pt_Ordinal x) \<Longrightarrow>
     db_ok (t\<lparr>t_participants := rows\<rparr>)"
  by (simp add: db_ok_def pk_ok_def fk_ok_def checks_ok_def alias_ok_def)

lemmas db_set = db_set_canonical db_set_copies db_set_scopes db_set_labels db_set_reactions db_set_cursors
  db_set_operations db_set_steps db_set_poll_options db_set_poll_hashes db_set_poll_sources db_set_poll_selections
  db_set_poll_snapshots db_set_poll_refs db_set_companions db_set_sup_reactions db_set_sup_local db_set_participants

text \<open>What integrity says of each table.\<close>

lemma db_ok_keys:
  assumes "db_ok t"
  shows "keys_ok cm_ID (t_canonical t)"
    and "keys_ok key_copy (t_copies t)"
    and "keys_ok key_copy2 (t_copies t)"
    and "keys_ok key_scope (t_scopes t)"
    and "keys_ok key_label (t_labels t)"
    and "keys_ok key_reaction (t_reactions t)"
    and "keys_ok rc_StreamKey (t_cursors t)"
    and "keys_ok key_operation (t_operations t)"
    and "keys_ok key_step (t_steps t)"
    and "keys_ok key_option (t_poll_options t)"
    and "keys_ok key_hash (t_poll_hashes t)"
    and "keys_ok key_source (t_poll_sources t)"
    and "keys_ok key_selection (t_poll_selections t)"
    and "keys_ok key_snapshot (t_poll_snapshots t)"
    and "keys_ok key_ref (t_poll_refs t)"
    and "keys_ok key_ref2 (t_poll_refs t)"
    and "keys_ok key_companion (t_companions t)"
    and "keys_ok key_companion2 (t_companions t)"
    and "keys_ok key_suppressed (t_sup_reactions t)"
    and "keys_ok key_suppressed (t_sup_local t)"
    and "keys_ok key_participant (t_participants t)"
    and "keys_ok key_participant2 (t_participants t)"
  using assms by (simp_all add: db_ok_def pk_ok_def)

lemma db_ok_refs:
  assumes "db_ok t"
  shows "refer mc_CanonicalID (t_copies t) (cm_ID ` set (t_canonical t))"
    and "refer sc_CanonicalID (t_scopes t) (cm_ID ` set (t_canonical t))"
    and "refer lb_EndpointID (t_labels t) (ep_Alias ` set (t_endpoints t))"
    and "refer rx_CanonicalID (t_reactions t) (cm_ID ` set (t_canonical t))"
    and "refer do_CanonicalID (t_operations t) (cm_ID ` set (t_canonical t))"
    and "refer st_CanonicalID (t_steps t) (cm_ID ` set (t_canonical t))"
    and "refer po_CanonicalID (t_poll_options t) (cm_ID ` set (t_canonical t))"
    and "refer (\<lambda>r. (ps_CanonicalID r, ps_Index r)) (t_poll_hashes t) (key_option ` set (t_poll_options t))"
    and "refer pe_CanonicalID (t_poll_sources t) (cm_ID ` set (t_canonical t))"
    and "refer pa_CanonicalID (t_poll_selections t) (cm_ID ` set (t_canonical t))"
    and "refer pn_CanonicalID (t_poll_snapshots t) (cm_ID ` set (t_canonical t))"
    and "refer pr_CanonicalID (t_poll_refs t) (cm_ID ` set (t_canonical t))"
    and "refer pc_CanonicalID (t_companions t) (cm_ID ` set (t_canonical t))"
    and "refer pt_EndpointID (t_participants t) (ep_Alias ` set (t_endpoints t))"
  using assms by (simp_all add: db_ok_def fk_ok_def)

lemma db_ok_checks:
  assumes "db_ok t"
  shows "x0 \<in> set (t_scopes t) \<Longrightarrow> valid_scope_kind (sc_ScopeKind x0)"
    and "x1 \<in> set (t_labels t) \<Longrightarrow> valid_scope_kind (lb_ScopeKind x1)"
    and "x2 \<in> set (t_cursors t) \<Longrightarrow> 0 \<le> rc_Position x2"
    and "x3 \<in> set (t_operations t) \<Longrightarrow> operation_ok x3"
    and "x4 \<in> set (t_steps t) \<Longrightarrow> step_ok x4"
    and "x5 \<in> set (t_poll_sources t) \<Longrightarrow> pe_SourceKind x5 \<in> {''actor'', ''snapshot'', ''unavailable''}"
    and "x6 \<in> set (t_poll_snapshots t) \<Longrightarrow> 0 \<le> pn_Count x6"
    and "x7 \<in> set (t_participants t) \<Longrightarrow> 0 < pt_Ordinal x7"
  using assms by (simp_all add: db_ok_def checks_ok_def)

lemmas db_facts = db_ok_keys db_ok_refs db_ok_checks

subsection \<open>Every operation keeps it\<close>

declare set_delete_where [simp del] set_update_where [simp del]

lemma in_delete [simp]: "x \<in> set (delete_where P rows) \<longleftrightarrow> x \<in> set rows \<and> \<not> P x"
  by (simp add: set_delete_where)

lemma in_update: "x \<in> set (update_where P f rows) \<longleftrightarrow> (\<exists>y \<in> set rows. x = (if P y then f y else y))"
  by (auto simp: set_update_where)

lemma in_upsert: "x \<in> set (upsert key (\<lambda>new old. new) r rows) \<Longrightarrow> x = r \<or> x \<in> set rows"
  by (auto simp: upsert_def in_update split: if_splits)

lemma refs_delete: "refer f rows C \<Longrightarrow> refer f (delete_where P rows) C"
  by (auto simp: refer_def)

lemma refs_update:
  "refer f rows C \<Longrightarrow> (\<And>x. P x \<Longrightarrow> f (g x) = f x) \<Longrightarrow> refer f (update_where P g rows) C"
  unfolding refer_def by (auto simp: in_update) (metis image_subset_iff)

lemma image_update: "(\<And>x. P x \<Longrightarrow> f (g x) = f x) \<Longrightarrow> f ` set (update_where P g rows) = f ` set rows"
  by (simp flip: set_map add: map_update_where)

lemma refs_upsert:
  "refer f rows C \<Longrightarrow> f r \<in> C \<Longrightarrow> refer f (upsert key (\<lambda>new old. new) r rows) C"
  by (auto simp: refer_def dest!: in_upsert)

lemmas refs_intros = refs_delete refs_update refs_upsert

lemma ok_CreateCanonical: "store_ok s \<Longrightarrow> store_ok (snd (CreateCanonical now s cid at))"
  unfolding CreateCanonical_def
  by (intro ok_intros) (auto simp: constraint_Inr has_canonical_def db_ok_keys intro!: db_set)

lemma ok_TombstoneCanonical: "store_ok s \<Longrightarrow> store_ok (snd (TombstoneCanonical now s cid at))"
  unfolding TombstoneCanonical_def
  by (intro ok_intros) (auto simp: db_ok_keys image_update split: if_splits intro!: db_set keys_ok_update)

lemma db_insert_copy: "insert_copy c t = Inr (u, t') \<Longrightarrow> db_ok t \<Longrightarrow> db_ok t'"
  by (auto simp: insert_copy_def constraint_Inr has_canonical_def db_ok_keys db_ok_refs intro!: db_set)

lemma ok_AddMessageCopy: "store_ok s \<Longrightarrow> store_ok (snd (AddMessageCopy now s c))"
  unfolding AddMessageCopy_def by (intro ok_intros) (auto elim: db_insert_copy)

lemma ok_ResolveOrCreateCanonical: "store_ok s \<Longrightarrow> store_ok (snd (ResolveOrCreateCanonical now s cid c))"
  unfolding ResolveOrCreateCanonical_def
proof (intro ok_intros)
  fix x t'
  assume "(case query_row (\<lambda>d. key_copy d = key_copy c) (t_copies (st_tables s)) of
      Inl _ \<Rightarrow> let createdAt = unixMillis now (mc_CreatedAt c);
                row = \<lparr>cm_ID = cid, cm_SyncSetID = endpoint_sync_set (st_tables s) (mc_EndpointID c),
                       cm_CreatedAt = createdAt, cm_TombstonedAt = None\<rparr>
            in bind_res
              (wrap_res ''create canonical message''
                (constraint (\<not> has_canonical (st_tables s) cid) ''primary key''
                  (Inr ((st_tables s)\<lparr>t_canonical := t_canonical (st_tables s) @ [row]\<rparr>))))
              (\<lambda>t. bind_res
                (wrap_res ''add source message copy''
                  (insert_copy (c\<lparr>mc_CanonicalID := cid, mc_CreatedAt := Some createdAt\<rparr>) t))
                (\<lambda>(_, t). Inr ((cid, True), t)))
    | Inr existing \<Rightarrow> Inr ((mc_CanonicalID existing, False), st_tables s)) = Inr (x, t')"
    and db: "db_ok (st_tables s)"
  then show "db_ok t'"
    by (auto simp: Let_def bind_res_Inr constraint_Inr has_canonical_def db_ok_keys
        intro!: db_set elim!: db_insert_copy split: sum.splits)
qed

lemma ok_SuppressedLocalMessage: "store_ok s \<Longrightarrow> store_ok (snd (SuppressedLocalMessage now s e r at))"
  unfolding SuppressedLocalMessage_def by (intro ok_intros) (auto simp: db_ok_keys intro!: db_set)

lemma ok_RecordSuppressedReaction: "store_ok s \<Longrightarrow> store_ok (snd (RecordSuppressedReaction now s e r j at))"
  unfolding RecordSuppressedReaction_def
  by (intro ok_intros) (auto simp: db_ok_keys key_suppressed_def intro!: db_set)

lemma ok_CheckAndClearSuppressedReaction:
  "store_ok s \<Longrightarrow> store_ok (snd (CheckAndClearSuppressedReaction s e r j))"
  unfolding CheckAndClearSuppressedReaction_def
  by (intro ok_intros) (auto simp: Let_def db_ok_keys intro!: db_set)

lemma ok_UpsertCanonicalScope: "store_ok s \<Longrightarrow> store_ok (snd (UpsertCanonicalScope now s sc))"
  unfolding UpsertCanonicalScope_def
  by (intro ok_intros)
     (auto simp: constraint_Inr has_canonical_def db_ok_keys db_ok_refs db_ok_checks
       intro!: db_set scopes.upsert_keys refs_intros dest!: in_upsert split: if_splits)

lemma ok_UpsertChildScopeLabel: "store_ok s \<Longrightarrow> store_ok (snd (UpsertChildScopeLabel now s e k r d))"
proof (cases "normalizeChildScopeLabel now e k r d")
  case (Inr l)
  assume "store_ok s"
  with Inr show ?thesis
  proof (cases l)
    case (Some label)
    with Inr have "lb_EndpointID label = e" "valid_scope_kind (lb_ScopeKind label)"
      by (auto simp: normalizeChildScopeLabel_def try_err_Inr Let_def split: if_splits)
    with Inr Some \<open>store_ok s\<close> show ?thesis
      by (auto simp: UpsertChildScopeLabel_def constraint_Inr has_endpoint_def db_ok_keys db_ok_refs db_ok_checks
          intro!: ok_intros db_set labels.upsert_keys refs_intros dest!: in_upsert)
  qed (simp add: UpsertChildScopeLabel_def)
qed (simp add: UpsertChildScopeLabel_def)

lemma ok_ClearChildScopeLabels: "store_ok s \<Longrightarrow> store_ok (snd (ClearChildScopeLabels s))"
  unfolding ClearChildScopeLabels_def by (intro ok_intros) (auto intro!: db_set)

lemma ok_ClearChildScopeLabelsForEndpoint:
  "store_ok s \<Longrightarrow> store_ok (snd (ClearChildScopeLabelsForEndpoint s e))"
  unfolding ClearChildScopeLabelsForEndpoint_def
  by (intro ok_intros) (auto simp: db_ok_keys db_ok_refs db_ok_checks intro!: db_set refs_intros)

lemma ok_UpsertReaction: "store_ok s \<Longrightarrow> store_ok (snd (UpsertReaction now s r))"
  unfolding UpsertReaction_def
  by (intro ok_intros)
     (auto simp: constraint_Inr has_canonical_def db_ok_keys db_ok_refs
       intro!: db_set reactions.upsert_keys refs_intros)

lemma ok_DeleteReaction: "store_ok s \<Longrightarrow> store_ok (snd (DeleteReaction s c e a))"
  unfolding DeleteReaction_def
  by (intro ok_intros) (auto simp: db_ok_keys db_ok_refs intro!: db_set refs_intros)

lemma ok_PutRecoveryCursor: "store_ok s \<Longrightarrow> store_ok (snd (PutRecoveryCursor now s c))"
  unfolding PutRecoveryCursor_def
  by (intro ok_intros)
     (auto simp: db_ok_keys db_ok_checks later_cursor_def intro!: db_set cursors.upsert_keys
       dest!: cursors.upsert_set split: if_splits)

subsubsection \<open>The ledger\<close>

lemma operation_ok_update [simp]:
  "operation_ok (await_replay now d) \<longleftrightarrow> operation_ok (d\<lparr>do_State := DeliveryAwaitingReplay\<rparr>)"
  by (simp add: operation_ok_def await_replay_def)

lemma ok_times [simp]:
  "operation_ok (d\<lparr>do_CreatedAt := a\<rparr>) = operation_ok d" "operation_ok (d\<lparr>do_UpdatedAt := a\<rparr>) = operation_ok d"
  "step_ok (x\<lparr>st_CreatedAt := a\<rparr>) = step_ok x" "step_ok (x\<lparr>st_UpdatedAt := a\<rparr>) = step_ok x"
  by (simp_all add: operation_ok_def step_ok_def)

lemma key_operation_update [simp]:
  "key_operation (d\<lparr>do_State := a\<rparr>) = key_operation d" "key_operation (d\<lparr>do_AttemptCount := n\<rparr>) = key_operation d"
  "key_operation (d\<lparr>do_NextAttemptAt := x\<rparr>) = key_operation d" "key_operation (d\<lparr>do_FailureClass := c\<rparr>) = key_operation d"
  "key_operation (d\<lparr>do_CreatedAt := y\<rparr>) = key_operation d" "key_operation (d\<lparr>do_UpdatedAt := z\<rparr>) = key_operation d"
  by (simp_all add: key_operation_def)

lemma key_step_update [simp]:
  "key_step (x\<lparr>st_State := a\<rparr>) = key_step x" "key_step (x\<lparr>st_RemoteMessageID := b\<rparr>) = key_step x"
  "key_step (x\<lparr>st_CreatedAt := c\<rparr>) = key_step x" "key_step (x\<lparr>st_UpdatedAt := d\<rparr>) = key_step x"
  by (simp_all add: key_step_def)

lemma valid_states [simp]:
  "validDeliveryState DeliveryQueued" "validDeliveryState DeliveryRetrying"
  "validDeliveryState DeliveryAwaitingReplay" "validDeliveryState DeliveryFailed"
  by (simp_all add: validDeliveryState_def)

text \<open>An update of the operations that keeps their keys and their well-formedness.\<close>

lemma db_update_operations:
  assumes "db_ok t" "\<And>x. P x \<Longrightarrow> key_operation (f x) = key_operation x \<and> do_CanonicalID (f x) = do_CanonicalID x"
    and "\<And>x. P x \<Longrightarrow> operation_ok x \<Longrightarrow> operation_ok (f x)"
  shows "db_ok (t\<lparr>t_operations := update_where P f (t_operations t)\<rparr>)"
proof (rule db_set_operations [OF assms(1)])
  show "keys_ok key_operation (update_where P f (t_operations t))"
    using assms by (intro keys_ok_update) (simp_all add: db_ok_keys)
  show "refer do_CanonicalID (update_where P f (t_operations t)) (cm_ID ` set (t_canonical t))"
    using assms by (intro refs_update) (simp_all add: db_ok_refs)
qed (use assms in \<open>auto simp: in_update db_ok_checks\<close>)

lemma db_update_steps:
  assumes "db_ok t" "\<And>x. P x \<Longrightarrow> key_step (f x) = key_step x \<and> st_CanonicalID (f x) = st_CanonicalID x"
    and "\<And>x. P x \<Longrightarrow> step_ok x \<Longrightarrow> step_ok (f x)"
  shows "db_ok (t\<lparr>t_steps := update_where P f (t_steps t)\<rparr>)"
proof (rule db_set_steps [OF assms(1)])
  show "keys_ok key_step (update_where P f (t_steps t))"
    using assms by (intro keys_ok_update) (simp_all add: db_ok_keys)
  show "refer st_CanonicalID (update_where P f (t_steps t)) (cm_ID ` set (t_canonical t))"
    using assms by (intro refs_update) (simp_all add: db_ok_refs)
qed (use assms in \<open>auto simp: in_update db_ok_checks\<close>)

lemma db_mark_awaiting: "mark_awaiting now t = Inr (n, t') \<Longrightarrow> db_ok t \<Longrightarrow> db_ok t'"
  by (auto simp: mark_awaiting_def await_replay_def key_operation_def operation_ok_def intro!: db_update_operations)

lemma ok_MarkDeliveryOperationsAwaitingReplay:
  "store_ok s \<Longrightarrow> store_ok (snd (MarkDeliveryOperationsAwaitingReplay now s))"
  unfolding MarkDeliveryOperationsAwaitingReplay_def by (intro ok_intros) (auto elim: db_mark_awaiting)

lemma trim_nonempty: "trim_space x \<noteq> [] \<Longrightarrow> x \<noteq> []"
proof -
  have "trim_space [] = []" by (simp add: trim_space_def trim_left.simps trim_right.simps space_end_len_def)
  then show "trim_space x \<noteq> [] \<Longrightarrow> x \<noteq> []" by blast
qed

lemma validated_operation: "validateDeliveryOperation d = None \<Longrightarrow> operation_ok d"
  by (auto simp: validateDeliveryOperation_def validateDeliveryIdentity_def operation_ok_def
      dest: trim_nonempty split: if_splits)

lemma ok_UpsertDeliveryOperation: "store_ok s \<Longrightarrow> store_ok (snd (UpsertDeliveryOperation now s d))"
  unfolding UpsertDeliveryOperation_def
  by (intro ok_intros)
     (auto simp: constraint_Inr has_canonical_def db_ok_keys db_ok_refs db_ok_checks
       intro!: db_set dest!: validated_operation split: if_splits)

lemma ok_ClaimDeliveryOperation: "store_ok s \<Longrightarrow> store_ok (snd (ClaimDeliveryOperation now s d at))"
  unfolding ClaimDeliveryOperation_def
  by (intro ok_intros) (auto simp: Let_def operation_ok_def intro!: db_update_operations)

lemma ok_BeginDeliveryAttempt: "store_ok s \<Longrightarrow> store_ok (snd (BeginDeliveryAttempt now s d at))"
  unfolding BeginDeliveryAttempt_def
  by (intro ok_intros) (auto simp: operation_ok_def intro!: db_update_operations)

lemma ok_SetDeliveryOperationState: "store_ok s \<Longrightarrow> store_ok (snd (SetDeliveryOperationState now s d st next cl at))"
  unfolding SetDeliveryOperationState_def
  by (intro ok_intros) (auto simp: operation_ok_def intro!: db_update_operations split: if_splits)

lemma ok_DeleteDeliveryOperation: "store_ok s \<Longrightarrow> store_ok (snd (DeleteDeliveryOperation s d))"
  unfolding DeleteDeliveryOperation_def
  by (intro ok_intros) (auto simp: db_ok_keys db_ok_refs db_ok_checks intro!: db_set refs_intros)

lemma validated_step:
  "validateDeliveryIdentity (step_identity x) = None \<Longrightarrow>
   \<not> (st_StepKind x \<noteq> ''primary'' \<and> st_StepKind x \<noteq> ''companion'') \<Longrightarrow>
   \<not> (st_State x \<noteq> ''pending'' \<and> st_State x \<noteq> ''complete'' \<and> st_State x \<noteq> ''ambiguous'') \<Longrightarrow> step_ok x"
  by (auto simp: validateDeliveryIdentity_def step_identity_def step_ok_def split: if_splits)

lemma ok_UpsertCreateStep: "store_ok s \<Longrightarrow> store_ok (snd (UpsertCreateStep now s x))"
  unfolding UpsertCreateStep_def
proof (intro ok_intros)
  fix u t'
  assume v: "validateDeliveryIdentity (step_identity x) = None"
    "(if st_StepKind x \<noteq> ''primary'' \<and> st_StepKind x \<noteq> ''companion''
      then Some (ErrMsg ''invalid create step'') else None) = None"
    "(if st_State x \<noteq> ''pending'' \<and> st_State x \<noteq> ''complete'' \<and> st_State x \<noteq> ''ambiguous''
      then Some (ErrMsg ''invalid create step state'') else None) = None"
    and db: "db_ok (st_tables s)"
    and run: "(if has_key key_step (key_step x) (t_steps (st_tables s)) then Inr ((), st_tables s)
       else constraint (has_canonical (st_tables s) (st_CanonicalID x)) ''foreign key''
         (Inr ((), (st_tables s)\<lparr>t_steps := t_steps (st_tables s) @
            [x\<lparr>st_CreatedAt := Some (unixMillis now (st_CreatedAt x)),
               st_UpdatedAt := Some (unixMillis now (st_UpdatedAt x))\<rparr>]\<rparr>))) = Inr (u, t')"
  have "step_ok x" by (rule validated_step) (use v in \<open>simp_all split: if_splits\<close>)
  with db run show "db_ok t'"
    by (auto simp: constraint_Inr has_canonical_def db_ok_keys db_ok_refs db_ok_checks
        intro!: db_set split: if_splits)
qed

lemma ok_CompleteCreateStep: "store_ok s \<Longrightarrow> store_ok (snd (CompleteCreateStep now s x r a at))"
  unfolding CompleteCreateStep_def Let_def
  by (intro ok_intros) (auto simp: step_ok_def intro!: db_update_steps)

subsubsection \<open>Polls\<close>

lemma db_insert_option: "insert_option r t = Inr t' \<Longrightarrow> db_ok t \<Longrightarrow> db_ok t'"
  by (auto simp: insert_option_def constraint_Inr has_canonical_def db_ok_keys db_ok_refs intro!: db_set)

lemma db_insert_hash_options: "insert_hash_options cid i hs t = Inr t' \<Longrightarrow> db_ok t \<Longrightarrow> db_ok t'"
  by (induction cid i hs t rule: insert_hash_options.induct)
     (auto simp: bind_res_Inr split: if_splits dest: db_insert_option)

lemma db_insert_options: "insert_options cid i os t = Inr t' \<Longrightarrow> db_ok t \<Longrightarrow> db_ok t'"
  by (induction cid i os t rule: insert_options.induct)
     (auto simp: bind_res_Inr split: if_splits dest: db_insert_option)

lemma ok_SavePollOptions: "store_ok s \<Longrightarrow> store_ok (snd (SavePollOptions s cid hs))"
  unfolding SavePollOptions_def by (intro ok_intros) (auto simp: bind_res_Inr elim: db_insert_hash_options)

lemma ok_SavePollOptionMetadata: "store_ok s \<Longrightarrow> store_ok (snd (SavePollOptionMetadata s cid os))"
  unfolding SavePollOptionMetadata_def by (intro ok_intros) (auto simp: bind_res_Inr elim: db_insert_options)

lemma db_insert_source_hashes: "insert_source_hashes cid e i hs t = Inr t' \<Longrightarrow> db_ok t \<Longrightarrow> db_ok t'"
proof (induction cid e i hs t rule: insert_source_hashes.induct)
  case (2 cid e i h hs t)
  let ?r = "\<lparr>ps_CanonicalID = cid, ps_EndpointID = e, ps_Index = i, ps_Hash = h\<rparr>"
  let ?t = "t\<lparr>t_poll_hashes := upsert key_hash (\<lambda>new old. new) ?r (t_poll_hashes t)\<rparr>"
  from "2.prems"(1) have ref: "(cid, i) \<in> key_option ` set (t_poll_options t)"
    and rest: "insert_source_hashes cid e (i + 1) hs ?t = Inr t'"
    by (auto simp: bind_res_Inr constraint_Inr)
  have "db_ok ?t"
    using "2.prems"(2) ref
    by (intro db_set) (auto simp: db_ok_keys db_ok_refs intro!: hashes.upsert_keys refs_intros)
  then show ?case using "2.IH" rest by blast
qed simp

lemma ok_SavePollSourceOptionHashes: "store_ok s \<Longrightarrow> store_ok (snd (SavePollSourceOptionHashes s cid e hs))"
  unfolding SavePollSourceOptionHashes_def
  by (intro ok_intros) (auto simp: bind_res_Inr elim: db_insert_source_hashes)

lemma db_set_source:
  "set_source k cid e t = Inr t' \<Longrightarrow> k \<in> {''actor'', ''snapshot'', ''unavailable''} \<Longrightarrow> db_ok t \<Longrightarrow> db_ok t'"
  by (auto simp: set_source_def constraint_Inr has_canonical_def db_ok_keys db_ok_refs
      intro!: db_set sources.upsert_keys refs_intros dest!: in_upsert dest: db_ok_checks)

lemma db_insert_selections: "insert_selections cid e a u is t = Inr t' \<Longrightarrow> db_ok t \<Longrightarrow> db_ok t'"
proof (induction cid e a u "is" t rule: insert_selections.induct)
  case (2 cid e a u i "is" t)
  let ?r = "\<lparr>pa_CanonicalID = cid, pa_EndpointID = e, pa_ActorHash = a, pa_Index = i, pa_UpdatedAt = u\<rparr>"
  let ?t = "t\<lparr>t_poll_selections := t_poll_selections t @ [?r]\<rparr>"
  from "2.prems"(1) have r: "(cid, e, a, i) \<notin> key_selection ` set (t_poll_selections t)"
      "cid \<in> cm_ID ` set (t_canonical t)"
    and rest: "insert_selections cid e a u is ?t = Inr t'"
    by (auto simp: bind_res_Inr constraint_Inr has_canonical_def)
  have "key_selection ?r = (cid, e, a, i)" by (simp add: key_selection_def)
  with r have "db_ok ?t"
    using "2.prems"(2) by (intro db_set) (simp_all add: db_ok_keys db_ok_refs)
  then show ?case using "2.IH" rest by blast
qed simp

lemma db_delete_selections:
  "db_ok t \<Longrightarrow> db_ok (t\<lparr>t_poll_selections := delete_where P (t_poll_selections t)\<rparr>)"
  by (intro db_set) (auto simp: db_ok_keys db_ok_refs intro!: refs_intros)

lemma ok_ReplacePollActorSelections:
  "store_ok s \<Longrightarrow> store_ok (snd (ReplacePollActorSelections now s cid e a is at))"
  unfolding ReplacePollActorSelections_def
  by (intro ok_intros)
     (auto simp: bind_res_Inr dest!: db_set_source elim!: db_insert_selections intro: db_delete_selections)

lemma ok_RecordPollVote: "store_ok s \<Longrightarrow> store_ok (snd (RecordPollVote now s cid e a hs at))"
  unfolding RecordPollVote_def
  by (intro ok_intros) (auto split: sum.splits intro: ok_ReplacePollActorSelections)

lemma db_insert_snapshots:
  "insert_snapshots cid e u cs t = Inr t' \<Longrightarrow> list_all (\<lambda>(i, n). 0 \<le> n) cs \<Longrightarrow> db_ok t \<Longrightarrow> db_ok t'"
proof (induction cid e u cs t rule: insert_snapshots.induct)
  case (2 cid e u i n cs t)
  let ?r = "\<lparr>pn_CanonicalID = cid, pn_EndpointID = e, pn_Index = i, pn_Count = n, pn_UpdatedAt = u\<rparr>"
  let ?t = "t\<lparr>t_poll_snapshots := t_poll_snapshots t @ [?r]\<rparr>"
  from "2.prems"(1) have r: "(cid, e, i) \<notin> key_snapshot ` set (t_poll_snapshots t)"
      "cid \<in> cm_ID ` set (t_canonical t)"
    and rest: "insert_snapshots cid e u cs ?t = Inr t'"
    by (auto simp: bind_res_Inr constraint_Inr has_canonical_def)
  have "key_snapshot ?r = (cid, e, i)" by (simp add: key_snapshot_def)
  with r have "db_ok ?t"
    using "2.prems" by (intro db_set) (auto simp: db_ok_keys db_ok_refs db_ok_checks)
  then show ?case using "2.IH" "2.prems"(2) rest by simp
qed simp

lemma db_delete_snapshots:
  "db_ok t \<Longrightarrow> db_ok (t\<lparr>t_poll_snapshots := delete_where P (t_poll_snapshots t)\<rparr>)"
  by (intro db_set) (auto simp: db_ok_keys db_ok_refs db_ok_checks intro!: refs_intros)

lemma ok_ReplacePollEndpointSnapshot:
  "store_ok s \<Longrightarrow> store_ok (snd (ReplacePollEndpointSnapshot now s cid e cs at))"
  unfolding ReplacePollEndpointSnapshot_def
proof (intro ok_intros)
  fix x t'
  assume "(if list_ex (\<lambda>(i, n). i < 0 \<or> n < 0) cs
      then Some (ErrMsg ''poll snapshot indexes and counts must not be negative'') else None) = None"
    and db: "db_ok (st_tables s)"
    and run: "bind_res (wrap_res ''set snapshot poll source'' (set_source ''snapshot'' cid e (st_tables s)))
          (\<lambda>t. bind_res
            (insert_snapshots cid e (unixMillis now at) cs
              (t\<lparr>t_poll_snapshots := delete_where
                 (\<lambda>r. pn_CanonicalID r = cid \<and> pn_EndpointID r = e) (t_poll_snapshots t)\<rparr>))
            (\<lambda>t. Inr ((), t))) = Inr (x, t')"
  then have pos: "list_all (\<lambda>(i, n). 0 \<le> n) cs" by (force simp: list_all_iff list_ex_iff split: if_splits)
  with run db show "db_ok t'"
    by (auto simp: bind_res_Inr dest!: db_set_source elim!: db_insert_snapshots intro: db_delete_snapshots)
qed

lemma ok_MarkPollEndpointUnavailable: "store_ok s \<Longrightarrow> store_ok (snd (MarkPollEndpointUnavailable s cid e))"
  unfolding MarkPollEndpointUnavailable_def
  by (intro ok_intros) (auto simp: bind_res_Inr elim: db_set_source)

text \<open>A second key survives an upsert if only the row that is replaced may hold its new value.\<close>

lemma keys_ok_replace_other:
  assumes "keys_ok key rows" "keys_ok key' rows" "\<And>x. x \<in> set rows \<Longrightarrow> key' x = key' r \<Longrightarrow> key x = key r"
  shows "keys_ok key' (update_where (\<lambda>x. key x = key r) (\<lambda>_. r) rows)"
  using assms
proof (induction rows)
  case Nil
  then show ?case by (simp add: update_where_def)
next
  case (Cons x rows)
  define new where "new = update_where (\<lambda>x. key x = key r) (\<lambda>_. r) rows"
  have IH: "keys_ok key' new" unfolding new_def
    by (rule Cons.IH) (use Cons.prems in \<open>simp_all\<close>)
  have step: "update_where (\<lambda>x. key x = key r) (\<lambda>_. r) (x # rows) = (if key x = key r then r else x) # new"
    by (simp add: update_where_def new_def)
  have tail: "y \<in> set rows \<or> y = r" if "y \<in> set new" for y
    using that by (auto simp: new_def in_update split: if_splits)
  have fresh: "key y \<noteq> key x" if "y \<in> set rows" for y
    using that Cons.prems(1) by (auto simp: rev_image_eqI)
  have "key' (if key x = key r then r else x) \<notin> key' ` set new"
  proof
    assume "key' (if key x = key r then r else x) \<in> key' ` set new"
    then obtain y where y: "y \<in> set new" "key' y = key' (if key x = key r then r else x)" by auto
    show False
    proof (cases "key x = key r")
      case True
      have "new = rows" using fresh True by (auto simp: new_def update_where_def intro!: map_idI)
      with y True have "y \<in> set rows" "key' y = key' r" by simp_all
      then have "key y = key r" by (intro Cons.prems(3)) simp_all
      with fresh [OF \<open>y \<in> set rows\<close>] True show False by simp
    next
      case False
      with y have eq: "key' y = key' x" by simp
      have "y \<noteq> r" using Cons.prems(3) [of x] False eq by auto
      with tail [OF y(1)] have "y \<in> set rows" by simp
      with eq Cons.prems(2) show False by (simp add: rev_image_eqI)
    qed
  qed
  with IH show ?case by (simp add: step)
qed

lemma keys_ok_upsert_other:
  assumes "keys_ok key rows" "keys_ok key' rows" "\<And>x. x \<in> set rows \<Longrightarrow> key' x = key' r \<Longrightarrow> key x = key r"
  shows "keys_ok key' (upsert key (\<lambda>new old. new) r rows)"
proof (cases "key r \<in> key ` set rows")
  case False
  have "key' r \<notin> key' ` set rows"
  proof
    assume "key' r \<in> key' ` set rows"
    then obtain y where y: "y \<in> set rows" "key' y = key' r" by auto
    then have "key y = key r" by (rule assms(3))
    with y(1) False show False by (simp add: rev_image_eqI)
  qed
  with assms(2) False show ?thesis by (simp add: upsert_def)
next
  case True
  with keys_ok_replace_other [of key rows key' r] assms show ?thesis by (simp add: upsert_def)
qed

lemma ok_SavePollProviderRef: "store_ok s \<Longrightarrow> store_ok (snd (SavePollProviderRef s r))"
  unfolding SavePollProviderRef_def
  by (intro ok_intros)
     (auto simp: constraint_Inr has_canonical_def list_ex_iff db_ok_keys db_ok_refs
       intro!: db_set refs.upsert_keys refs_intros keys_ok_upsert_other)

lemma key_companion_update [simp]:
  "key_companion (c\<lparr>pc_CreatedAt := a\<rparr>) = key_companion c" "key_companion (c\<lparr>pc_UpdatedAt := a\<rparr>) = key_companion c"
  "key_companion2 (c\<lparr>pc_CreatedAt := a\<rparr>) = key_companion2 c" "key_companion2 (c\<lparr>pc_UpdatedAt := a\<rparr>) = key_companion2 c"
  by (simp_all add: key_companion_def key_companion2_def)

lemma db_upsert_companion:
  assumes "db_ok t" "key_companion c \<in> key_companion ` set (t_companions t) \<or>
    key_companion2 c \<notin> key_companion2 ` set (t_companions t) \<and> pc_CanonicalID c \<in> cm_ID ` set (t_canonical t)"
  shows "db_ok (t\<lparr>t_companions := upsert key_companion touch_companion c (t_companions t)\<rparr>)"
proof (rule db_set_companions [OF assms(1)])
  show "keys_ok key_companion (upsert key_companion touch_companion c (t_companions t))"
    using assms(1) by (intro companions.upsert_keys) (simp add: db_ok_keys)
  show "keys_ok key_companion2 (upsert key_companion touch_companion c (t_companions t))"
    using assms by (auto simp: upsert_def db_ok_keys touch_companion_def intro!: keys_ok_update)
  show "refer pc_CanonicalID (upsert key_companion touch_companion c (t_companions t)) (cm_ID ` set (t_canonical t))"
    using assms by (auto simp: upsert_def db_ok_refs touch_companion_def intro!: refs_update)
qed

lemma ok_SavePollResultCompanion: "store_ok s \<Longrightarrow> store_ok (snd (SavePollResultCompanion now s c))"
  unfolding SavePollResultCompanion_def Let_def
  by (intro ok_intros)
     (auto simp: constraint_Inr has_canonical_def intro!: db_upsert_companion split: if_splits)

lemma ok_DeletePollResultCompanion: "store_ok s \<Longrightarrow> store_ok (snd (DeletePollResultCompanion s cid e))"
  unfolding DeletePollResultCompanion_def
  by (intro ok_intros) (auto simp: db_ok_keys db_ok_refs intro!: db_set refs_intros)

subsubsection \<open>Aliases and participants\<close>

lemma db_append_actor:
  assumes "db_ok t" "key_actor r \<notin> key_actor ` set (t_actors t)" "ar_Ordinal r \<notin> ar_Ordinal ` set (t_actors t)"
    "key_alias r \<notin> key_alias ` set (t_actors t)" "ar_SyncSetID r \<in> set (t_sync_sets t)"
    "ar_Ordinal r = t_alias_next t" "\<not> t_alias_exhausted t"
  shows "db_ok (let t = t\<lparr>t_actors := t_actors t @ [r]\<rparr> in
    if ar_Ordinal r = MaxInt64 then t\<lparr>t_alias_exhausted := True\<rparr> else t\<lparr>t_alias_next := ar_Ordinal r + 1\<rparr>)"
  using assms by (auto simp: db_ok_def pk_ok_def fk_ok_def checks_ok_def alias_ok_def Let_def)

text \<open>A committed allocation either found the row or appended the row of the next ordinal.\<close>

definition advance_alias :: "AliasRecord \<Rightarrow> tables \<Rightarrow> tables" where
  "advance_alias r t =
     (let t = t\<lparr>t_actors := t_actors t @ [r]\<rparr> in
      if ar_Ordinal r = MaxInt64 then t\<lparr>t_alias_exhausted := True\<rparr> else t\<lparr>t_alias_next := ar_Ordinal r + 1\<rparr>)"

lemma allocate_tx_cases [consumes 1, case_names Found New]:
  assumes "allocate_tx s setID a t = Inr (r, t')"
  obtains "scanAlias s (select_actor t setID a) = Inr r" "t' = t"
  | e where "scanAlias s (select_actor t setID a) = Inl e" "is_no_rows e"
      "aliasForOrdinal s (t_alias_next t) = Inr (ar_Alias r)" "ar_SyncSetID r = setID" "ar_ActorID r = a"
      "ar_Ordinal r = t_alias_next t" "\<not> t_alias_exhausted t" "key_actor r \<notin> key_actor ` set (t_actors t)"
      "ar_Ordinal r \<notin> ar_Ordinal ` set (t_actors t)" "key_alias r \<notin> key_alias ` set (t_actors t)"
      "setID \<in> set (t_sync_sets t)" "t' = advance_alias r t"
proof (cases "scanAlias s (select_actor t setID a)")
  case (Inl e)
  from assms Inl obtain al where al: "aliasForOrdinal s (t_alias_next t) = Inr al"
    and r: "r = \<lparr>ar_SyncSetID = setID, ar_ActorID = a, ar_Ordinal = t_alias_next t, ar_Alias = al\<rparr>"
    by (auto simp: allocate_tx_def bind_res_Inr constraint_Inr Let_def split: if_splits)
  with assms Inl have new: "is_no_rows e" "\<not> t_alias_exhausted t" "key_actor r \<notin> key_actor ` set (t_actors t)"
    "ar_Ordinal r \<notin> ar_Ordinal ` set (t_actors t)" "key_alias r \<notin> key_alias ` set (t_actors t)"
    "setID \<in> set (t_sync_sets t)" "t' = advance_alias r t"
    by (simp_all add: allocate_tx_def bind_res_Inr constraint_Inr Let_def advance_alias_def split: if_splits)
  show ?thesis
    by (rule that(2) [OF Inl new(1) _ _ _ _ new(2-7)]) (simp_all add: al r)
next
  case (Inr rec)
  with assms have "rec = r" "t' = t" by (simp_all add: allocate_tx_def)
  with that(1) Inr show ?thesis by blast
qed

lemma db_allocate_tx:
  assumes "allocate_tx s setID a t = Inr (r, t')" "db_ok t"
  shows "db_ok t'"
  using assms(1)
proof (cases rule: allocate_tx_cases)
  case Found
  with assms(2) show ?thesis by simp
next
  case (New e)
  show ?thesis
    unfolding New(12) advance_alias_def
    by (rule db_append_actor [OF assms(2) New(8,9,10) _ New(6,7)]) (simp only: New(4,11))
qed

lemma ok_allocateAlias: "store_ok s \<Longrightarrow> store_ok (snd (allocateAlias s setID a))"
  unfolding allocateAlias_def by (intro ok_intros) (auto elim: db_allocate_tx)

lemma ok_allocate_loop:
  "(\<And>b f t. (b, f) \<in> set turns \<Longrightarrow> db_ok t \<Longrightarrow> db_ok (f t)) \<Longrightarrow> store_ok s \<Longrightarrow>
     store_ok (snd (allocate_loop turns s setID a))"
proof (induction turns s setID a rule: allocate_loop.induct)
  case (2 busy others turns s setID a)
  let ?s = "s\<lparr>st_tables := others (st_tables s)\<rparr>"
  let ?r = "if busy then (Inl (ErrConstraint ''busy''), ?s) else allocateAlias ?s setID a"
  have "store_ok ?s" using "2.prems"(1) [of busy others] "2.prems"(2) by (simp add: store_ok_def)
  then have ok: "store_ok (snd ?r)" by (simp add: ok_allocateAlias)
  obtain x s' where r: "?r = (x, s')" by (cases ?r)
  show ?case
  proof (cases x)
    case (Inl e)
    have "store_ok (snd (allocate_loop turns s' setID a))" if "alias_retryable e"
      using "2.IH" [OF refl refl r [symmetric] Inl] that "2.prems"(1) ok r by auto
    with Inl r ok show ?thesis by (simp add: Let_def)
  next
    case (Inr rec)
    with r ok show ?thesis by (simp add: Let_def)
  qed
qed simp

lemma ok_ObserveSyncSetActor:
  "(\<And>b f t. (b, f) \<in> set turns \<Longrightarrow> db_ok t \<Longrightarrow> db_ok (f t)) \<Longrightarrow> store_ok s \<Longrightarrow>
     store_ok (snd (ObserveSyncSetActor turns s setID a))"
  unfolding ObserveSyncSetActor_def
  by (intro ok_intros) (auto split: sum.splits intro: ok_allocate_loop)

lemma ok_ObserveParticipant: "store_ok s \<Longrightarrow> store_ok (snd (ObserveParticipant s e a))"
proof -
  assume s: "store_ok s"
  define f where "f = (\<lambda>t.
        case query_row (\<lambda>p. key_participant p = (e, a)) (t_participants t) of
          Inr p \<Rightarrow> Inr (\<lparr>pad_Endpoint = e, pad_Handle = handle_of (pt_Ordinal p), pad_ActorID = a\<rparr>, t)
        | Inl _ \<Rightarrow>
            let ordinal = max_ordinal t e + 1 in
            wrap_res ''observe participant''
              (constraint (0 < ordinal) ''check''
              (constraint (\<not> has_key key_participant2 (e, ordinal) (t_participants t)) ''unique''
              (constraint (has_endpoint t e) ''foreign key''
                (Inr (\<lparr>pad_Endpoint = e, pad_Handle = handle_of ordinal, pad_ActorID = a\<rparr>,
                  t\<lparr>t_participants := t_participants t @
                    [\<lparr>pt_EndpointID = e, pt_ActorID = a, pt_Ordinal = ordinal\<rparr>]\<rparr>))))))"
  have "db_ok t'" if run: "f t = Inr (x, t')" and db: "db_ok t" for t x t'
  proof (cases "query_row (\<lambda>p. key_participant p = (e, a)) (t_participants t)")
    case (Inl err)
    let ?r = "\<lparr>pt_EndpointID = e, pt_ActorID = a, pt_Ordinal = max_ordinal t e + 1\<rparr>"
    have "key_participant ?r \<notin> key_participant ` set (t_participants t)"
      using Inl by (auto simp: query_row_Inl key_participant_def)
    moreover from Inl run have "0 < max_ordinal t e + 1"
      "key_participant2 ?r \<notin> key_participant2 ` set (t_participants t)" "e \<in> ep_Alias ` set (t_endpoints t)"
      "t' = t\<lparr>t_participants := t_participants t @ [?r]\<rparr>"
      by (auto simp: f_def Let_def constraint_Inr has_endpoint_def key_participant2_def)
    ultimately show ?thesis using db by (auto simp: db_ok_keys db_ok_refs db_ok_checks intro!: db_set)
  next
    case (Inr p)
    with run db show ?thesis by (simp add: f_def)
  qed
  then show ?thesis
    unfolding ObserveParticipant_def f_def [symmetric] using s by (intro ok_intros) (auto intro: ok_exec_tx)
qed

subsubsection \<open>Retention, opening\<close>

lemma refer_delete_gone:
  "refer f rows (g ` set cs) \<Longrightarrow> (\<And>r c. f r = g c \<Longrightarrow> P r = Q c) \<Longrightarrow>
     refer f (delete_where P rows) (g ` set (delete_where Q cs))"
  by (fastforce simp: refer_def)

lemma db_delete_canonicals: "db_ok t \<Longrightarrow> db_ok (delete_canonicals gone t)"
proof -
  assume t: "db_ok t"
  have "pk_ok (delete_canonicals gone t)"
    using t by (simp add: delete_canonicals_def db_ok_def pk_ok_def)
  moreover have "refer (\<lambda>r. (ps_CanonicalID r, ps_Index r))
      (delete_where (\<lambda>r. gone (ps_CanonicalID r)) (t_poll_hashes t))
      (key_option ` set (delete_where (\<lambda>r. gone (po_CanonicalID r)) (t_poll_options t)))"
    by (rule refer_delete_gone [OF db_ok_refs(8) [OF t]]) (simp add: key_option_def)
  then have "fk_ok (delete_canonicals gone t)"
    using t by (simp add: delete_canonicals_def db_ok_def fk_ok_def refer_delete_gone)
  moreover have "checks_ok (delete_canonicals gone t)"
    using t by (simp add: delete_canonicals_def db_ok_def checks_ok_def alias_ok_def)
  ultimately show ?thesis by (simp add: db_ok_def)
qed

lemma db_prune_suppressed: "db_ok t \<Longrightarrow> db_ok (prune_suppressed P t)"
  by (simp add: prune_suppressed_def db_ok_def pk_ok_def fk_ok_def checks_ok_def alias_ok_def)

lemma db_prune_loop: "db_ok t \<Longrightarrow> db_ok (snd (snd (prune_loop ctx P batch n acc t)))"
proof (induction ctx P batch n acc t rule: prune_loop.induct)
  case (1 ctx P batch n acc t)
  have "db_ok (snd (prune_batch P batch t))"
    using "1.prems" by (simp add: prune_batch_def Let_def db_delete_canonicals)
  with "1.IH" "1.prems" show ?case
    by (subst prune_loop.simps) (simp add: Let_def split: option.splits)
qed

lemma ok_PruneOlderThan: "store_ok s \<Longrightarrow> store_ok (snd (PruneOlderThan ctx now s c b))"
proof (cases "st_handle s")
  case OpenDB
  assume "store_ok s"
  then have "db_ok (snd (snd (prune_loop ctx P (nat n) 0 0 (prune_suppressed Q (st_tables s)))))" for P Q n
    by (simp add: store_ok_def db_prune_loop db_prune_suppressed)
  with OpenDB show ?thesis
    by (simp add: PruneOlderThan_def store_ok_def Let_def split_beta)
qed (simp_all add: PruneOlderThan_def)

lemma ok_PruneRetention: "store_ok s \<Longrightarrow> store_ok (snd (PruneRetention ctx now s d b))"
  by (simp add: PruneRetention_def ok_PruneOlderThan)

lemma db_prune_policy: "db_ok t \<Longrightarrow> db_ok (snd (prune_policy now b i d t))"
  by (simp add: prune_policy_def Let_def db_prune_loop db_prune_suppressed)

lemma db_prune_policies: "db_ok t \<Longrightarrow> db_ok (snd (snd (prune_policies now b ps acc t)))"
  by (induction now b ps acc t rule: prune_policies.induct) (simp_all add: Let_def db_prune_policy)

lemma db_prune_orphans: "db_ok t \<Longrightarrow> db_ok (snd (prune_orphans now b t))"
  by (simp add: prune_orphans_def Let_def db_prune_loop db_prune_suppressed)

lemma ok_PruneSyncSetRetention: "store_ok s \<Longrightarrow> store_ok (snd (PruneSyncSetRetention now s ps b))"
  using db_prune_policies [of "st_tables s" now "nat (if b \<le> 0 then 1000 else b)" ps 0]
  by (auto simp: PruneSyncSetRetention_def store_ok_def Let_def db_prune_orphans split: prod.splits option.splits)

lemma db_ok_order: "db_ok (t\<lparr>t_alias_order := x\<rparr>) = db_ok t"
  by (simp add: db_ok_def pk_ok_def fk_ok_def checks_ok_def alias_ok_def)

lemma db_initializeAliasOrder: "initializeAliasOrder t = Inr t' \<Longrightarrow> db_ok t \<Longrightarrow> db_ok t'"
  unfolding initializeAliasOrder_def Let_def
  by (cases "t_alias_order t") (auto simp: db_ok_order split: if_split_asm)

lemma ok_OpenStore: "OpenStore now t = Inr s \<Longrightarrow> db_ok t \<Longrightarrow> store_ok s"
  by (auto simp: OpenStore_def bind_res_Inr store_ok_def split: option.splits
      dest!: db_initializeAliasOrder db_mark_awaiting)

lemma ok_CloseStore: "store_ok s \<Longrightarrow> store_ok (CloseStore s)"
  by (simp add: CloseStore_def store_ok_def)

lemma db_empty: "db_ok empty_tables"
  by (simp add: empty_tables_def db_ok_def pk_ok_def fk_ok_def checks_ok_def alias_ok_def MaxInt64_def)

subsection \<open>Reachable states\<close>

text \<open>
  The edits of the routing rows by which the configuration changes, with the actions of their foreign
  keys: a removed sync set takes the aliases of its actors along and leaves its endpoints without a
  set, a removed endpoint takes its labels and participants along.
\<close>

definition add_sync_set :: "string \<Rightarrow> tables \<Rightarrow> tables" where
  "add_sync_set i t = (if i \<in> set (t_sync_sets t) then t else t\<lparr>t_sync_sets := t_sync_sets t @ [i]\<rparr>)"

definition remove_sync_set :: "string \<Rightarrow> tables \<Rightarrow> tables" where
  "remove_sync_set i t =
     t\<lparr>t_sync_sets := filter (\<lambda>j. j \<noteq> i) (t_sync_sets t),
       t_actors := delete_where (\<lambda>r. ar_SyncSetID r = i) (t_actors t),
       t_endpoints := update_where (\<lambda>e. ep_SyncSetID e = Some i) (\<lambda>e. e\<lparr>ep_SyncSetID := None\<rparr>) (t_endpoints t)\<rparr>"

definition put_endpoint :: "EndpointRow \<Rightarrow> tables \<Rightarrow> tables" where
  "put_endpoint e t = t\<lparr>t_endpoints := upsert ep_Alias (\<lambda>new old. new) e (t_endpoints t)\<rparr>"

definition remove_endpoint :: "string \<Rightarrow> tables \<Rightarrow> tables" where
  "remove_endpoint a t =
     t\<lparr>t_endpoints := delete_where (\<lambda>e. ep_Alias e = a) (t_endpoints t),
       t_labels := delete_where (\<lambda>l. lb_EndpointID l = a) (t_labels t),
       t_participants := delete_where (\<lambda>p. pt_EndpointID p = a) (t_participants t)\<rparr>"

lemma db_add_sync_set: "db_ok t \<Longrightarrow> db_ok (add_sync_set i t)"
  by (auto simp: add_sync_set_def db_ok_def pk_ok_def fk_ok_def checks_ok_def alias_ok_def elim: refer_mono)

lemma db_remove_sync_set: "db_ok t \<Longrightarrow> db_ok (remove_sync_set i t)"
proof -
  assume t: "db_ok t"
  have "ep_Alias ` set (update_where (\<lambda>e. ep_SyncSetID e = Some i) (\<lambda>e. e\<lparr>ep_SyncSetID := None\<rparr>) (t_endpoints t))
      = ep_Alias ` set (t_endpoints t)" by (rule image_update) simp
  moreover have "refer ar_SyncSetID (delete_where (\<lambda>r. ar_SyncSetID r = i) (t_actors t))
      (set (filter (\<lambda>j. j \<noteq> i) (t_sync_sets t)))"
    using t by (fastforce simp: db_ok_def fk_ok_def refer_def)
  ultimately show ?thesis
    using t by (simp add: remove_sync_set_def db_ok_def pk_ok_def fk_ok_def checks_ok_def alias_ok_def)
qed

interpretation endpoints: keyed_table ep_Alias "\<lambda>new old. new"
  by unfold_locales

lemma db_put_endpoint: "db_ok t \<Longrightarrow> db_ok (put_endpoint e t)"
  using endpoints.upsert_dom [of e "t_endpoints t"]
  by (auto simp: put_endpoint_def db_ok_def pk_ok_def fk_ok_def checks_ok_def alias_ok_def elim: refer_mono)

lemma db_remove_endpoint: "db_ok t \<Longrightarrow> db_ok (remove_endpoint a t)"
proof -
  assume t: "db_ok t"
  have "refer lb_EndpointID (delete_where (\<lambda>l. lb_EndpointID l = a) (t_labels t))
      (ep_Alias ` set (delete_where (\<lambda>e. ep_Alias e = a) (t_endpoints t)))"
    using t by (intro refer_delete_gone) (simp_all add: db_ok_refs)
  moreover have "refer pt_EndpointID (delete_where (\<lambda>p. pt_EndpointID p = a) (t_participants t))
      (ep_Alias ` set (delete_where (\<lambda>e. ep_Alias e = a) (t_endpoints t)))"
    using t by (intro refer_delete_gone) (simp_all add: db_ok_refs)
  ultimately show ?thesis
    using t by (simp add: remove_endpoint_def db_ok_def pk_ok_def fk_ok_def checks_ok_def alias_ok_def)
qed

inductive store_step :: "Store \<Rightarrow> Store \<Rightarrow> bool" where
  s_CreateCanonical: "store_step s (snd (CreateCanonical now s a b))"
| s_TombstoneCanonical: "store_step s (snd (TombstoneCanonical now s a b))"
| s_AddMessageCopy: "store_step s (snd (AddMessageCopy now s c))"
| s_ResolveOrCreateCanonical: "store_step s (snd (ResolveOrCreateCanonical now s a c))"
| s_SuppressedLocalMessage: "store_step s (snd (SuppressedLocalMessage now s a b d))"
| s_RecordSuppressedReaction: "store_step s (snd (RecordSuppressedReaction now s a b e d))"
| s_CheckAndClearSuppressedReaction: "store_step s (snd (CheckAndClearSuppressedReaction s a b e))"
| s_UpsertCanonicalScope: "store_step s (snd (UpsertCanonicalScope now s c))"
| s_UpsertChildScopeLabel: "store_step s (snd (UpsertChildScopeLabel now s a b d e))"
| s_ClearChildScopeLabels: "store_step s (snd (ClearChildScopeLabels s))"
| s_ClearChildScopeLabelsForEndpoint: "store_step s (snd (ClearChildScopeLabelsForEndpoint s a))"
| s_UpsertReaction: "store_step s (snd (UpsertReaction now s c))"
| s_DeleteReaction: "store_step s (snd (DeleteReaction s a b d))"
| s_PutRecoveryCursor: "store_step s (snd (PutRecoveryCursor now s c))"
| s_MarkDeliveryOperationsAwaitingReplay: "store_step s (snd (MarkDeliveryOperationsAwaitingReplay now s))"
| s_UpsertDeliveryOperation: "store_step s (snd (UpsertDeliveryOperation now s c))"
| s_ClaimDeliveryOperation: "store_step s (snd (ClaimDeliveryOperation now s c d))"
| s_BeginDeliveryAttempt: "store_step s (snd (BeginDeliveryAttempt now s c d))"
| s_SetDeliveryOperationState: "store_step s (snd (SetDeliveryOperationState now s c a d b e))"
| s_DeleteDeliveryOperation: "store_step s (snd (DeleteDeliveryOperation s c))"
| s_UpsertCreateStep: "store_step s (snd (UpsertCreateStep now s c))"
| s_CompleteCreateStep: "store_step s (snd (CompleteCreateStep now s c a b d))"
| s_SavePollOptions: "store_step s (snd (SavePollOptions s a b))"
| s_SavePollOptionMetadata: "store_step s (snd (SavePollOptionMetadata s a b))"
| s_SavePollSourceOptionHashes: "store_step s (snd (SavePollSourceOptionHashes s a b c))"
| s_ReplacePollActorSelections: "store_step s (snd (ReplacePollActorSelections now s a b c d e))"
| s_RecordPollVote: "store_step s (snd (RecordPollVote now s a b c d e))"
| s_ReplacePollEndpointSnapshot: "store_step s (snd (ReplacePollEndpointSnapshot now s a b c d))"
| s_MarkPollEndpointUnavailable: "store_step s (snd (MarkPollEndpointUnavailable s a b))"
| s_SavePollProviderRef: "store_step s (snd (SavePollProviderRef s c))"
| s_SavePollResultCompanion: "store_step s (snd (SavePollResultCompanion now s c))"
| s_DeletePollResultCompanion: "store_step s (snd (DeletePollResultCompanion s a b))"
| s_ObserveParticipant: "store_step s (snd (ObserveParticipant s a b))"
| s_allocateAlias: "a \<noteq> [] \<Longrightarrow> trim_space a = a \<Longrightarrow> match_actor b \<Longrightarrow>
    store_step s (snd (allocateAlias s a b))"
| s_PruneOlderThan: "store_step s (snd (PruneOlderThan ctx now s c b))"
| s_PruneRetention: "store_step s (snd (PruneRetention ctx now s d b))"
| s_PruneSyncSetRetention: "store_step s (snd (PruneSyncSetRetention now s c b))"
| s_add_sync_set: "store_step s (s\<lparr>st_tables := add_sync_set a (st_tables s)\<rparr>)"
| s_remove_sync_set: "store_step s (s\<lparr>st_tables := remove_sync_set a (st_tables s)\<rparr>)"
| s_put_endpoint: "store_step s (s\<lparr>st_tables := put_endpoint e (st_tables s)\<rparr>)"
| s_remove_endpoint: "store_step s (s\<lparr>st_tables := remove_endpoint a (st_tables s)\<rparr>)"
| s_CloseStore: "store_step s (CloseStore s)"
| s_OpenStore: "OpenStore now (st_tables s) = Inr s' \<Longrightarrow> store_step s s'"

inductive store_reachable :: "Store \<Rightarrow> bool" where
  store_new: "OpenStore now empty_tables = Inr s \<Longrightarrow> store_reachable s"
| store_next: "store_reachable s \<Longrightarrow> store_step s s' \<Longrightarrow> store_reachable s'"

lemmas store_ok_ops = ok_CreateCanonical
  ok_TombstoneCanonical
  ok_AddMessageCopy
  ok_ResolveOrCreateCanonical
  ok_SuppressedLocalMessage
  ok_RecordSuppressedReaction
  ok_CheckAndClearSuppressedReaction
  ok_UpsertCanonicalScope
  ok_UpsertChildScopeLabel
  ok_ClearChildScopeLabels
  ok_ClearChildScopeLabelsForEndpoint
  ok_UpsertReaction
  ok_DeleteReaction
  ok_PutRecoveryCursor
  ok_MarkDeliveryOperationsAwaitingReplay
  ok_UpsertDeliveryOperation
  ok_ClaimDeliveryOperation
  ok_BeginDeliveryAttempt
  ok_SetDeliveryOperationState
  ok_DeleteDeliveryOperation
  ok_UpsertCreateStep
  ok_CompleteCreateStep
  ok_SavePollOptions
  ok_SavePollOptionMetadata
  ok_SavePollSourceOptionHashes
  ok_ReplacePollActorSelections
  ok_RecordPollVote
  ok_ReplacePollEndpointSnapshot
  ok_MarkPollEndpointUnavailable
  ok_SavePollProviderRef
  ok_SavePollResultCompanion
  ok_DeletePollResultCompanion
  ok_ObserveParticipant
  ok_allocateAlias
  ok_PruneOlderThan
  ok_PruneRetention
  ok_PruneSyncSetRetention

lemma store_ok_routing:
  "store_ok s \<Longrightarrow> store_ok (s\<lparr>st_tables := add_sync_set a (st_tables s)\<rparr>)"
  "store_ok s \<Longrightarrow> store_ok (s\<lparr>st_tables := remove_sync_set a (st_tables s)\<rparr>)"
  "store_ok s \<Longrightarrow> store_ok (s\<lparr>st_tables := put_endpoint e (st_tables s)\<rparr>)"
  "store_ok s \<Longrightarrow> store_ok (s\<lparr>st_tables := remove_endpoint a (st_tables s)\<rparr>)"
  by (simp_all add: store_ok_def db_add_sync_set db_remove_sync_set db_put_endpoint db_remove_endpoint)

lemma ok_reopen: "OpenStore now (st_tables s) = Inr s' \<Longrightarrow> store_ok s \<Longrightarrow> store_ok s'"
  unfolding store_ok_def [of s] by (rule ok_OpenStore)

lemma store_ok_step: "store_step s s' \<Longrightarrow> store_ok s \<Longrightarrow> store_ok s'"
  by (erule store_step.cases)
     (simp_all only: store_ok_ops store_ok_routing ok_CloseStore ok_reopen)

lemma store_ok_reachable: "store_reachable s \<Longrightarrow> store_ok s"
proof (induction rule: store_reachable.induct)
  case (store_new now s)
  then show ?case using db_empty by (rule ok_OpenStore)
next
  case (store_next s s')
  then show ?case by (blast intro: store_ok_step)
qed

subsection \<open>Properties\<close>


lemma reachable_sample:
  "\<exists>s. OpenStore 0 empty_tables = Inr s \<and> store_reachable s \<and> st_handle s = OpenDB"
proof -
  obtain s where s: "OpenStore 0 empty_tables = Inr s"
    by (simp add: OpenStore_def initializeAliasOrder_def empty_tables_def mark_awaiting_def Let_def)
  then have "st_handle s = OpenDB" by (auto simp: OpenStore_def bind_res_Inr split: option.splits)
  with s show ?thesis by (blast intro: store_new)
qed


end
