(* ===== verification/StoreFrame.thy ===== *)
theory StoreFrame
  imports StoreInvariant
begin

text \<open>
  What the operations of the store leave alone: the recovery cursors and the issued aliases change only
  by the operations made for them, and a handle, once open, stays as it is until it is closed. On top of
  it, the invariants of the aliases and the cursors over all reachable states.
\<close>

definition frame :: "tables \<Rightarrow> RecoveryCursor list \<times> AliasRecord list \<times> int \<times> bool \<times> string option \<times> string list" where
  "frame t = (t_cursors t, t_actors t, t_alias_next t, t_alias_exhausted t, t_alias_order t, t_sync_sets t)"

lemma frame_update [simp]:
  "frame (t\<lparr>t_canonical := x0\<rparr>) = frame t"
  "frame (t\<lparr>t_copies := x1\<rparr>) = frame t"
  "frame (t\<lparr>t_scopes := x2\<rparr>) = frame t"
  "frame (t\<lparr>t_labels := x3\<rparr>) = frame t"
  "frame (t\<lparr>t_reactions := x4\<rparr>) = frame t"
  "frame (t\<lparr>t_operations := x5\<rparr>) = frame t"
  "frame (t\<lparr>t_steps := x6\<rparr>) = frame t"
  "frame (t\<lparr>t_poll_options := x7\<rparr>) = frame t"
  "frame (t\<lparr>t_poll_hashes := x8\<rparr>) = frame t"
  "frame (t\<lparr>t_poll_sources := x9\<rparr>) = frame t"
  "frame (t\<lparr>t_poll_selections := x10\<rparr>) = frame t"
  "frame (t\<lparr>t_poll_snapshots := x11\<rparr>) = frame t"
  "frame (t\<lparr>t_poll_refs := x12\<rparr>) = frame t"
  "frame (t\<lparr>t_companions := x13\<rparr>) = frame t"
  "frame (t\<lparr>t_sup_reactions := x14\<rparr>) = frame t"
  "frame (t\<lparr>t_sup_local := x15\<rparr>) = frame t"
  "frame (t\<lparr>t_participants := x16\<rparr>) = frame t"
  by (simp_all add: frame_def)

definition same_frame :: "Store \<Rightarrow> Store \<Rightarrow> bool" where
  "same_frame s s' \<longleftrightarrow> frame (st_tables s') = frame (st_tables s) \<and> st_handle s' = st_handle s \<and>
     st_sequential s' = st_sequential s"

lemma same_frame_refl [simp]: "same_frame s s"
  by (simp add: same_frame_def)

lemma fr_exec: "(\<And>x t'. f (st_tables s) = Inr (x, t') \<Longrightarrow> frame t' = frame (st_tables s)) \<Longrightarrow> same_frame s (snd (exec s f))"
  by (rule exec_cases [of s f]) (auto simp: same_frame_def)

lemma fr_exec_tx:
  "(\<And>x t'. f (st_tables s) = Inr (x, t') \<Longrightarrow> frame t' = frame (st_tables s)) \<Longrightarrow> same_frame s (snd (exec_tx m s f))"
  using fr_exec [of f s] by (simp add: exec_tx_def)

lemma fr_wrapDB: "same_frame s (snd r) \<Longrightarrow> same_frame s (snd (wrapDB m r))"
  by (simp add: wrapDB_def)

lemma fr_check: "same_frame s (snd k) \<Longrightarrow> same_frame s (snd (check v s k))"
  by (cases v) simp_all

lemmas fr_intros = fr_check fr_wrapDB fr_exec fr_exec_tx

lemma frame_insert_hash_options: "insert_hash_options cid i hs t = Inr t' \<Longrightarrow> frame t' = frame t"
  by (induction cid i hs t rule: insert_hash_options.induct)
     (auto simp: bind_res_Inr insert_option_def constraint_Inr split: if_splits)

lemma frame_insert_options: "insert_options cid i os t = Inr t' \<Longrightarrow> frame t' = frame t"
  by (induction cid i os t rule: insert_options.induct)
     (auto simp: bind_res_Inr insert_option_def constraint_Inr split: if_splits)

lemma frame_insert_source_hashes: "insert_source_hashes cid e i hs t = Inr t' \<Longrightarrow> frame t' = frame t"
  by (induction cid e i hs t rule: insert_source_hashes.induct) (auto simp: bind_res_Inr constraint_Inr)

lemma frame_insert_selections: "insert_selections cid e a u is t = Inr t' \<Longrightarrow> frame t' = frame t"
  by (induction cid e a u "is" t rule: insert_selections.induct) (auto simp: bind_res_Inr constraint_Inr)

lemma frame_insert_snapshots: "insert_snapshots cid e u cs t = Inr t' \<Longrightarrow> frame t' = frame t"
  by (induction cid e u cs t rule: insert_snapshots.induct) (auto simp: bind_res_Inr constraint_Inr)

lemmas frame_inserts = frame_insert_hash_options frame_insert_options frame_insert_source_hashes
  frame_insert_selections frame_insert_snapshots

lemma frame_prune_loop: "frame (snd (snd (prune_loop ctx P batch n acc t))) = frame t"
proof (induction ctx P batch n acc t rule: prune_loop.induct)
  case (1 ctx P batch n acc t)
  have "frame (snd (prune_batch P batch t)) = frame t"
    by (simp add: prune_batch_def Let_def delete_canonicals_def)
  with "1.IH" show ?case by (subst prune_loop.simps) (simp add: Let_def split: option.splits)
qed

lemma frame_prune_suppressed: "frame (prune_suppressed P t) = frame t"
  by (simp add: prune_suppressed_def)

lemma frame_prune_policy: "frame (snd (prune_policy now b i d t)) = frame t"
  by (simp add: prune_policy_def Let_def frame_prune_loop frame_prune_suppressed)

lemma frame_prune_policies: "frame (snd (snd (prune_policies now b ps acc t))) = frame t"
  by (induction now b ps acc t rule: prune_policies.induct) (simp_all add: Let_def frame_prune_policy)

lemma frame_prune_orphans: "frame (snd (prune_orphans now b t)) = frame t"
  by (simp add: prune_orphans_def Let_def frame_prune_loop frame_prune_suppressed)

lemma fr_CreateCanonical: "same_frame s (snd (CreateCanonical now s a b))"
  unfolding CreateCanonical_def
  by (intro fr_intros) (auto simp: constraint_Inr bind_res_Inr 
      split: if_splits sum.splits)

lemma fr_TombstoneCanonical: "same_frame s (snd (TombstoneCanonical now s a b))"
  unfolding TombstoneCanonical_def
  by (intro fr_intros) (auto simp: constraint_Inr bind_res_Inr 
      split: if_splits sum.splits)

lemma fr_AddMessageCopy: "same_frame s (snd (AddMessageCopy now s c))"
  unfolding AddMessageCopy_def
  by (intro fr_intros) (auto simp: constraint_Inr bind_res_Inr insert_copy_def
      split: if_splits sum.splits)

lemma fr_ResolveOrCreateCanonical: "same_frame s (snd (ResolveOrCreateCanonical now s a c))"
  unfolding ResolveOrCreateCanonical_def
  by (intro fr_intros) (auto simp: constraint_Inr bind_res_Inr insert_copy_def Let_def
      split: if_splits sum.splits)

lemma fr_SuppressedLocalMessage: "same_frame s (snd (SuppressedLocalMessage now s a b d))"
  unfolding SuppressedLocalMessage_def
  by (intro fr_intros) (auto simp: constraint_Inr bind_res_Inr 
      split: if_splits sum.splits)

lemma fr_RecordSuppressedReaction: "same_frame s (snd (RecordSuppressedReaction now s a b e d))"
  unfolding RecordSuppressedReaction_def
  by (intro fr_intros) (auto simp: constraint_Inr bind_res_Inr 
      split: if_splits sum.splits)

lemma fr_CheckAndClearSuppressedReaction: "same_frame s (snd (CheckAndClearSuppressedReaction s a b e))"
  unfolding CheckAndClearSuppressedReaction_def
  by (intro fr_intros) (auto simp: constraint_Inr bind_res_Inr Let_def
      split: if_splits sum.splits)

lemma fr_UpsertCanonicalScope: "same_frame s (snd (UpsertCanonicalScope now s c))"
  unfolding UpsertCanonicalScope_def
  by (intro fr_intros) (auto simp: constraint_Inr bind_res_Inr 
      split: if_splits sum.splits)

lemma fr_UpsertChildScopeLabel: "same_frame s (snd (UpsertChildScopeLabel now s a b d e))"
  unfolding UpsertChildScopeLabel_def
  by (auto split: sum.splits option.splits simp: constraint_Inr intro!: fr_intros)

lemma fr_ClearChildScopeLabels: "same_frame s (snd (ClearChildScopeLabels s))"
  unfolding ClearChildScopeLabels_def
  by (intro fr_intros) (auto simp: constraint_Inr bind_res_Inr 
      split: if_splits sum.splits)

lemma fr_ClearChildScopeLabelsForEndpoint: "same_frame s (snd (ClearChildScopeLabelsForEndpoint s a))"
  unfolding ClearChildScopeLabelsForEndpoint_def
  by (intro fr_intros) (auto simp: constraint_Inr bind_res_Inr 
      split: if_splits sum.splits)

lemma fr_UpsertReaction: "same_frame s (snd (UpsertReaction now s c))"
  unfolding UpsertReaction_def
  by (intro fr_intros) (auto simp: constraint_Inr bind_res_Inr 
      split: if_splits sum.splits)

lemma fr_DeleteReaction: "same_frame s (snd (DeleteReaction s a b d))"
  unfolding DeleteReaction_def
  by (intro fr_intros) (auto simp: constraint_Inr bind_res_Inr 
      split: if_splits sum.splits)

lemma fr_MarkDeliveryOperationsAwaitingReplay: "same_frame s (snd (MarkDeliveryOperationsAwaitingReplay now s))"
  unfolding MarkDeliveryOperationsAwaitingReplay_def
  by (intro fr_intros) (auto simp: constraint_Inr bind_res_Inr mark_awaiting_def
      split: if_splits sum.splits)

lemma fr_UpsertDeliveryOperation: "same_frame s (snd (UpsertDeliveryOperation now s c))"
  unfolding UpsertDeliveryOperation_def
  by (intro fr_intros) (auto simp: constraint_Inr bind_res_Inr 
      split: if_splits sum.splits)

lemma fr_ClaimDeliveryOperation: "same_frame s (snd (ClaimDeliveryOperation now s c d))"
  unfolding ClaimDeliveryOperation_def
  by (intro fr_intros) (auto simp: constraint_Inr bind_res_Inr Let_def
      split: if_splits sum.splits)

lemma fr_BeginDeliveryAttempt: "same_frame s (snd (BeginDeliveryAttempt now s c d))"
  unfolding BeginDeliveryAttempt_def
  by (intro fr_intros) (auto simp: constraint_Inr bind_res_Inr 
      split: if_splits sum.splits)

lemma fr_SetDeliveryOperationState: "same_frame s (snd (SetDeliveryOperationState now s c a d b e))"
  unfolding SetDeliveryOperationState_def
  by (intro fr_intros) (auto simp: constraint_Inr bind_res_Inr 
      split: if_splits sum.splits)

lemma fr_DeleteDeliveryOperation: "same_frame s (snd (DeleteDeliveryOperation s c))"
  unfolding DeleteDeliveryOperation_def
  by (intro fr_intros) (auto simp: constraint_Inr bind_res_Inr 
      split: if_splits sum.splits)

lemma fr_UpsertCreateStep: "same_frame s (snd (UpsertCreateStep now s c))"
  unfolding UpsertCreateStep_def
  by (intro fr_intros) (auto simp: constraint_Inr bind_res_Inr 
      split: if_splits sum.splits)

lemma fr_CompleteCreateStep: "same_frame s (snd (CompleteCreateStep now s c a b d))"
  unfolding CompleteCreateStep_def Let_def
  by (intro fr_intros) (auto simp: constraint_Inr bind_res_Inr Let_def
      split: if_splits sum.splits)

lemma fr_SavePollOptions: "same_frame s (snd (SavePollOptions s a b))"
  unfolding SavePollOptions_def
  by (intro fr_intros) (auto simp: constraint_Inr bind_res_Inr 
      dest!: frame_inserts split: if_splits sum.splits)

lemma fr_SavePollOptionMetadata: "same_frame s (snd (SavePollOptionMetadata s a b))"
  unfolding SavePollOptionMetadata_def
  by (intro fr_intros) (auto simp: constraint_Inr bind_res_Inr 
      dest!: frame_inserts split: if_splits sum.splits)

lemma fr_SavePollSourceOptionHashes: "same_frame s (snd (SavePollSourceOptionHashes s a b c))"
  unfolding SavePollSourceOptionHashes_def
  by (intro fr_intros) (auto simp: constraint_Inr bind_res_Inr 
      dest!: frame_inserts split: if_splits sum.splits)

lemma fr_ReplacePollActorSelections: "same_frame s (snd (ReplacePollActorSelections now s a b c d e))"
  unfolding ReplacePollActorSelections_def
  by (intro fr_intros) (auto simp: constraint_Inr bind_res_Inr set_source_def
      dest!: frame_inserts split: if_splits sum.splits)

lemma fr_RecordPollVote: "same_frame s (snd (RecordPollVote now s a b c d e))"
  unfolding RecordPollVote_def by (intro fr_intros) (auto split: sum.splits intro: fr_ReplacePollActorSelections)

lemma fr_ReplacePollEndpointSnapshot: "same_frame s (snd (ReplacePollEndpointSnapshot now s a b c d))"
  unfolding ReplacePollEndpointSnapshot_def
  by (intro fr_intros) (auto simp: constraint_Inr bind_res_Inr set_source_def
      dest!: frame_inserts split: if_splits sum.splits)

lemma fr_MarkPollEndpointUnavailable: "same_frame s (snd (MarkPollEndpointUnavailable s a b))"
  unfolding MarkPollEndpointUnavailable_def
  by (intro fr_intros) (auto simp: constraint_Inr bind_res_Inr set_source_def
      split: if_splits sum.splits)

lemma fr_SavePollProviderRef: "same_frame s (snd (SavePollProviderRef s c))"
  unfolding SavePollProviderRef_def
  by (intro fr_intros) (auto simp: constraint_Inr bind_res_Inr 
      split: if_splits sum.splits)

lemma fr_SavePollResultCompanion: "same_frame s (snd (SavePollResultCompanion now s c))"
  unfolding SavePollResultCompanion_def
  by (intro fr_intros) (auto simp: constraint_Inr bind_res_Inr Let_def
      split: if_splits sum.splits)

lemma fr_DeletePollResultCompanion: "same_frame s (snd (DeletePollResultCompanion s a b))"
  unfolding DeletePollResultCompanion_def
  by (intro fr_intros) (auto simp: constraint_Inr bind_res_Inr 
      split: if_splits sum.splits)

lemma fr_ObserveParticipant: "same_frame s (snd (ObserveParticipant s a b))"
  unfolding ObserveParticipant_def
  by (intro fr_intros) (auto simp: constraint_Inr Let_def intro!: fr_exec_tx split: sum.splits)

lemma fr_PruneOlderThan: "same_frame s (snd (PruneOlderThan ctx now s c b))"
  by (simp add: PruneOlderThan_def Let_def same_frame_def split_beta frame_prune_loop frame_prune_suppressed
      split: handle.splits)

lemma fr_PruneRetention: "same_frame s (snd (PruneRetention ctx now s d b))"
  by (simp add: PruneRetention_def fr_PruneOlderThan)

lemma fr_PruneSyncSetRetention: "same_frame s (snd (PruneSyncSetRetention now s ps b))"
  using frame_prune_policies [of now "nat (if b \<le> 0 then 1000 else b)" ps 0 "st_tables s"]
  by (auto simp: PruneSyncSetRetention_def same_frame_def Let_def frame_prune_orphans
      split: prod.splits option.splits)

lemmas same_frame_ops = fr_CreateCanonical
  fr_TombstoneCanonical
  fr_AddMessageCopy
  fr_ResolveOrCreateCanonical
  fr_SuppressedLocalMessage
  fr_RecordSuppressedReaction
  fr_CheckAndClearSuppressedReaction
  fr_UpsertCanonicalScope
  fr_UpsertChildScopeLabel
  fr_ClearChildScopeLabels
  fr_ClearChildScopeLabelsForEndpoint
  fr_UpsertReaction
  fr_DeleteReaction
  fr_MarkDeliveryOperationsAwaitingReplay
  fr_UpsertDeliveryOperation
  fr_ClaimDeliveryOperation
  fr_BeginDeliveryAttempt
  fr_SetDeliveryOperationState
  fr_DeleteDeliveryOperation
  fr_UpsertCreateStep
  fr_CompleteCreateStep
  fr_SavePollOptions
  fr_SavePollOptionMetadata
  fr_SavePollSourceOptionHashes
  fr_ReplacePollActorSelections
  fr_RecordPollVote
  fr_ReplacePollEndpointSnapshot
  fr_MarkPollEndpointUnavailable
  fr_SavePollProviderRef
  fr_SavePollResultCompanion
  fr_DeletePollResultCompanion
  fr_ObserveParticipant
  fr_PruneOlderThan
  fr_PruneRetention
  fr_PruneSyncSetRetention

subsection \<open>Cursors only move forward\<close>

definition cursor_of :: "Store \<Rightarrow> string \<Rightarrow> RecoveryCursor option" where
  "cursor_of s k = find (\<lambda>c. rc_StreamKey c = k) (t_cursors (st_tables s))"

definition cursors_le :: "Store \<Rightarrow> Store \<Rightarrow> bool" where
  "cursors_le s s' \<longleftrightarrow>
     (\<forall>k c. cursor_of s k = Some c \<longrightarrow> (\<exists>c'. cursor_of s' k = Some c' \<and> rc_Position c \<le> rc_Position c'))"

lemma cursors_le_frame: "same_frame s s' \<Longrightarrow> cursors_le s s'"
  by (auto simp: same_frame_def frame_def cursors_le_def cursor_of_def)

lemma cursors_le_refl: "cursors_le s s"
  by (simp add: cursors_le_def)

lemma cursors_le_trans: "cursors_le s s' \<Longrightarrow> cursors_le s' s'' \<Longrightarrow> cursors_le s s''"
  unfolding cursors_le_def by (meson order_trans)

lemma find_update_where:
  assumes "\<And>x. P x \<Longrightarrow> key (f x) = key x"
  shows "find (\<lambda>x. key x = k) (update_where P f rows) =
    map_option (\<lambda>x. if P x then f x else x) (find (\<lambda>x. key x = k) rows)"
  using assms by (induction rows) (auto simp: update_where_def)

lemma find_append_other: "key r \<noteq> k \<or> k \<in> key ` set rows \<Longrightarrow>
    find (\<lambda>x. key x = k) (rows @ [r]) = find (\<lambda>x. key x = k) rows"
  by (induction rows) auto

lemma cursors_le_Put: "cursors_le s (snd (PutRecoveryCursor now s c))"
proof -
  let ?r = "c\<lparr>rc_UpdatedAt := Some (unixMillis now (rc_UpdatedAt c))\<rparr>"
  have le: "\<exists>y. find (\<lambda>c. rc_StreamKey c = k) (upsert rc_StreamKey later_cursor ?r rows) = Some y \<and>
      rc_Position x \<le> rc_Position y"
    if "find (\<lambda>c. rc_StreamKey c = k) rows = Some x" for k x rows
  proof (cases "has_key rc_StreamKey (rc_StreamKey ?r) rows")
    case True
    with that show ?thesis
      by (simp add: upsert_def find_update_where later_cursor_def)
  next
    case False
    have "k \<in> rc_StreamKey ` set rows" using that by (auto simp: find_Some_iff)
    with False that show ?thesis by (simp add: upsert_def find_append_other)
  qed
  show ?thesis
    unfolding PutRecoveryCursor_def cursors_le_def cursor_of_def
    by (auto simp: exec_def wrapDB_def check_def le split: handle.splits option.splits)
qed

subsection \<open>Aliases\<close>

text \<open>
  Every stored alias is the alias of its ordinal in the order the installation has fixed, and belongs
  to a validated identity.
\<close>

definition alias_rows_ok :: "bool \<Rightarrow> tables \<Rightarrow> bool" where
  "alias_rows_ok sequential t \<longleftrightarrow>
     (\<forall>r \<in> set (t_actors t). syncSetAlias (ar_Ordinal r) (\<not> sequential) = Inr (ar_Alias r) \<and>
        match_actor (ar_ActorID r) \<and> ar_SyncSetID r \<noteq> [] \<and> trim_space (ar_SyncSetID r) = ar_SyncSetID r)"

definition alias_inv :: "Store \<Rightarrow> bool" where
  "alias_inv s \<longleftrightarrow>
     (\<exists>ord. t_alias_order (st_tables s) = Some ord \<and> st_sequential s = (ord = ''sequential'')) \<and>
     alias_rows_ok (st_sequential s) (st_tables s)"

lemma aliasForOrdinal_eq: "aliasForOrdinal s n = syncSetAlias n (\<not> st_sequential s)"
  by (simp add: aliasForOrdinal_def SequentialSyncSetAlias_def SyncSetAlias_def)

lemma alias_inv_frame: "same_frame s s' \<Longrightarrow> alias_inv s \<Longrightarrow> alias_inv s'"
  by (simp add: same_frame_def frame_def alias_inv_def alias_rows_ok_def)

lemma allocate_tx_rows:
  assumes "allocate_tx s a b t = Inr (r, t')" "alias_rows_ok (st_sequential s) t"
    and "a \<noteq> []" "trim_space a = a" "match_actor b"
  shows "alias_rows_ok (st_sequential s) t' \<and> t_alias_order t' = t_alias_order t \<and>
    t_cursors t' = t_cursors t"
  using assms(1)
proof (cases rule: allocate_tx_cases)
  case Found
  with assms(2) show ?thesis by simp
next
  case (New e)
  have "syncSetAlias (ar_Ordinal r) (\<not> st_sequential s) = Inr (ar_Alias r)"
    using New(3) by (simp add: New(6) aliasForOrdinal_eq)
  with New(4,5) assms(2-5) show ?thesis
    by (auto simp: New(12) advance_alias_def Let_def alias_rows_ok_def)
qed

lemma alias_inv_allocate:
  assumes "alias_inv s" "a \<noteq> []" "trim_space a = a" "match_actor b"
  shows "alias_inv (snd (allocateAlias s a b)) \<and> cursors_le s (snd (allocateAlias s a b))"
proof (cases "exec s (allocate_tx s a b)")
  case (Pair x s')
  show ?thesis
  proof (cases x)
    case (Inl e)
    with Pair have "s' = s" by (rule_tac exec_cases [of s "allocate_tx s a b"]) auto
    with Pair assms(1) show ?thesis by (simp add: allocateAlias_def cursors_le_refl)
  next
    case (Inr r)
    with Pair obtain t where t: "allocate_tx s a b (st_tables s) = Inr (r, t)" "s' = s\<lparr>st_tables := t\<rparr>"
      by (auto simp: exec_Inr)
    from allocate_tx_rows [OF t(1) _ assms(2-4)] assms(1)
    show ?thesis
      by (auto simp: allocateAlias_def Pair t(2) alias_inv_def cursors_le_def cursor_of_def)
  qed
qed

lemma initialize_keeps:
  "initializeAliasOrder t = Inr t' \<Longrightarrow>
     t_cursors t' = t_cursors t \<and> t_actors t' = t_actors t \<and> t_alias_next t' = t_alias_next t \<and>
     t_alias_exhausted t' = t_alias_exhausted t \<and> t_sync_sets t' = t_sync_sets t \<and> t_alias_order t' \<noteq> None"
  unfolding initializeAliasOrder_def Let_def
  by (cases "t_alias_order t") (auto split: if_split_asm)

lemma OpenStore_cases:
  assumes "OpenStore now t = Inr s"
  obtains t1 ord where "initializeAliasOrder t = Inr t1" "t_alias_order t1 = Some ord"
    "s = \<lparr>st_handle = OpenDB, st_sequential = (ord = ''sequential''),
          st_tables = t1\<lparr>t_operations := update_where in_flight (await_replay now) (t_operations t1)\<rparr>\<rparr>"
  using assms by (auto simp: OpenStore_def bind_res_Inr mark_awaiting_def split: option.splits)

lemma initialize_fixed: "t_alias_order t = Some x \<Longrightarrow> initializeAliasOrder t = Inr t"
  by (simp add: initializeAliasOrder_def)

lemma alias_inv_reopen: "OpenStore now (st_tables s) = Inr s' \<Longrightarrow> alias_inv s \<Longrightarrow> alias_inv s' \<and> cursors_le s s'"
  by (erule OpenStore_cases)
     (auto simp: alias_inv_def initialize_fixed alias_rows_ok_def cursors_le_def cursor_of_def)

lemma alias_inv_routing:
  "alias_inv s \<Longrightarrow> alias_inv (s\<lparr>st_tables := add_sync_set a (st_tables s)\<rparr>)"
  "alias_inv s \<Longrightarrow> alias_inv (s\<lparr>st_tables := remove_sync_set a (st_tables s)\<rparr>)"
  "alias_inv s \<Longrightarrow> alias_inv (s\<lparr>st_tables := put_endpoint e (st_tables s)\<rparr>)"
  "alias_inv s \<Longrightarrow> alias_inv (s\<lparr>st_tables := remove_endpoint a (st_tables s)\<rparr>)"
  by (auto simp: alias_inv_def alias_rows_ok_def add_sync_set_def remove_sync_set_def put_endpoint_def
      remove_endpoint_def)

lemma alias_inv_Put: "alias_inv s \<Longrightarrow> alias_inv (snd (PutRecoveryCursor now s c))"
  unfolding PutRecoveryCursor_def
  by (auto simp: exec_def wrapDB_def check_def alias_inv_def alias_rows_ok_def split: handle.splits option.splits)

lemma cursors_le_routing:
  "cursors_le s (s\<lparr>st_tables := add_sync_set a (st_tables s)\<rparr>)"
  "cursors_le s (s\<lparr>st_tables := remove_sync_set a (st_tables s)\<rparr>)"
  "cursors_le s (s\<lparr>st_tables := put_endpoint e (st_tables s)\<rparr>)"
  "cursors_le s (s\<lparr>st_tables := remove_endpoint a (st_tables s)\<rparr>)"
  "cursors_le s (CloseStore s)"
  by (simp_all add: cursors_le_def cursor_of_def add_sync_set_def remove_sync_set_def put_endpoint_def
      remove_endpoint_def CloseStore_def)

lemma alias_inv_close: "alias_inv s \<Longrightarrow> alias_inv (CloseStore s)"
  by (simp add: alias_inv_def CloseStore_def alias_rows_ok_def)

text \<open>
  The issued aliases only grow: a new row has an ordinal that was not issued before, and no ordinal
  becomes free again.
\<close>

definition actors_le :: "tables \<Rightarrow> tables \<Rightarrow> bool" where
  "actors_le t t' \<longleftrightarrow> t_alias_order t' = t_alias_order t \<and> t_alias_next t \<le> t_alias_next t' \<and>
     (t_alias_exhausted t \<longrightarrow> t_alias_exhausted t') \<and>
     (\<forall>r \<in> set (t_actors t'). r \<in> set (t_actors t) \<or> t_alias_next t \<le> ar_Ordinal r \<and> \<not> t_alias_exhausted t)"

lemma actors_le_refl: "actors_le t t"
  by (simp add: actors_le_def)

lemma actors_le_trans: "actors_le t t' \<Longrightarrow> actors_le t' t'' \<Longrightarrow> actors_le t t''"
  unfolding actors_le_def by (auto intro: order_trans)

lemma actors_le_frame: "frame t' = frame t \<Longrightarrow> actors_le t t'"
  by (simp add: frame_def actors_le_def)

lemma actors_le_allocate: "actors_le (st_tables s) (st_tables (snd (allocateAlias s a b)))"
proof (cases rule: exec_cases [of s "allocate_tx s a b"])
  case (Fail e)
  then show ?thesis by (simp add: allocateAlias_def actors_le_refl)
next
  case (Done r t)
  from Done(2) have "actors_le (st_tables s) t"
  proof (cases rule: allocate_tx_cases)
    case Found
    then show ?thesis by (simp add: actors_le_refl)
  next
    case (New e)
    then show ?thesis by (auto simp: New(12) actors_le_def advance_alias_def Let_def)
  qed
  with Done show ?thesis by (simp add: allocateAlias_def)
qed

lemma actors_le_routing:
  "actors_le t (add_sync_set i t)" "actors_le t (remove_sync_set i t)"
  "actors_le t (put_endpoint e t)" "actors_le t (remove_endpoint i t)"
  by (simp_all add: actors_le_def add_sync_set_def remove_sync_set_def put_endpoint_def remove_endpoint_def)

lemma actors_le_Put: "actors_le (st_tables s) (st_tables (snd (PutRecoveryCursor now s c)))"
  unfolding PutRecoveryCursor_def
  by (auto simp: exec_def wrapDB_def check_def actors_le_def split: handle.splits option.splits)

lemma actors_le_reopen: "OpenStore now (st_tables s) = Inr s' \<Longrightarrow> alias_inv s \<Longrightarrow> actors_le (st_tables s) (st_tables s')"
  by (erule OpenStore_cases) (auto simp: alias_inv_def initialize_fixed actors_le_def)

definition good_step :: "Store \<Rightarrow> Store \<Rightarrow> bool" where
  "good_step s s' \<longleftrightarrow> alias_inv s' \<and> cursors_le s s' \<and> actors_le (st_tables s) (st_tables s')"

lemma good_frame: "same_frame s s' \<Longrightarrow> alias_inv s \<Longrightarrow> good_step s s'"
  by (simp add: good_step_def alias_inv_frame cursors_le_frame) (simp add: same_frame_def actors_le_frame)

lemma good_other:
  "alias_inv s \<Longrightarrow> good_step s (snd (PutRecoveryCursor now s c))"
  "alias_inv s \<Longrightarrow> good_step s (s\<lparr>st_tables := add_sync_set a (st_tables s)\<rparr>)"
  "alias_inv s \<Longrightarrow> good_step s (s\<lparr>st_tables := remove_sync_set a (st_tables s)\<rparr>)"
  "alias_inv s \<Longrightarrow> good_step s (s\<lparr>st_tables := put_endpoint e (st_tables s)\<rparr>)"
  "alias_inv s \<Longrightarrow> good_step s (s\<lparr>st_tables := remove_endpoint a (st_tables s)\<rparr>)"
  "alias_inv s \<Longrightarrow> good_step s (CloseStore s)"
  by (simp_all add: good_step_def alias_inv_Put cursors_le_Put alias_inv_routing cursors_le_routing alias_inv_close
      actors_le_routing actors_le_Put) (simp add: CloseStore_def actors_le_refl)

lemma good_allocate:
  "a \<noteq> [] \<Longrightarrow> trim_space a = a \<Longrightarrow> match_actor b \<Longrightarrow> alias_inv s \<Longrightarrow> good_step s (snd (allocateAlias s a b))"
  by (simp add: good_step_def alias_inv_allocate actors_le_allocate)

lemma good_reopen: "OpenStore now (st_tables s) = Inr s' \<Longrightarrow> alias_inv s \<Longrightarrow> good_step s s'"
  by (simp add: good_step_def alias_inv_reopen actors_le_reopen)

lemmas good_ops = same_frame_ops [THEN good_frame] good_other

lemma good_store_step: "store_step s s' \<Longrightarrow> alias_inv s \<Longrightarrow> good_step s s'"
  by (erule store_step.cases) (simp_all only: good_ops good_allocate good_reopen simp_thms)

lemma alias_inv_step: "store_step s s' \<Longrightarrow> alias_inv s \<Longrightarrow> alias_inv s'"
  using good_store_step [of s s'] by (simp add: good_step_def)

text \<open>Over any number of steps.\<close>

definition store_steps :: "Store \<Rightarrow> Store \<Rightarrow> bool" where
  "store_steps = store_step\<^sup>*\<^sup>*"

lemma good_steps: "store_steps s s' \<Longrightarrow> alias_inv s \<Longrightarrow> good_step s s'"
  unfolding store_steps_def
proof (induction rule: rtranclp_induct)
  case base
  then show ?case by (simp add: good_step_def cursors_le_refl actors_le_refl)
next
  case (step s1 s2)
  then have "good_step s s1" by simp
  moreover from this have "good_step s1 s2" using step(2) by (intro good_store_step) (simp_all add: good_step_def)
  ultimately show ?case
    unfolding good_step_def by (blast intro: cursors_le_trans actors_le_trans)
qed

lemma steps_reachable: "store_steps s s' \<Longrightarrow> store_reachable s \<Longrightarrow> store_reachable s'"
  unfolding store_steps_def by (induction rule: rtranclp_induct) (auto intro: store_next)

lemma alias_inv_reachable: "store_reachable s \<Longrightarrow> alias_inv s"
proof (induction rule: store_reachable.induct)
  case (store_new now s)
  then show ?case
    by (rule OpenStore_cases)
       (auto simp: alias_inv_def alias_rows_ok_def empty_tables_def dest!: initialize_keeps)
next
  case (store_next s s')
  then show ?case by (blast dest: alias_inv_step)
qed

text \<open>A freshly opened store, for the examples.\<close>

definition sample_store :: Store where
  "sample_store = \<lparr>st_handle = OpenDB, st_sequential = False,
     st_tables = empty_tables\<lparr>t_alias_order := Some ''scrambled''\<rparr>\<rparr>"

lemma sample_open: "OpenStore 0 empty_tables = Inr sample_store"
  by (simp add: OpenStore_def initializeAliasOrder_def empty_tables_def mark_awaiting_def Let_def
      sample_store_def update_where_def)

lemma sample_reachable_store: "store_reachable sample_store"
  using sample_open by (rule store_new)

definition sample_set_store :: Store where
  "sample_set_store = sample_store\<lparr>st_tables := add_sync_set ''fam'' (st_tables sample_store)\<rparr>"

lemma sample_set_reachable: "store_reachable sample_set_store"
  unfolding sample_set_store_def by (rule store_next [OF sample_reachable_store]) (rule s_add_sync_set)

lemma sample_set_parts:
  "st_handle sample_set_store = OpenDB" "\<not> t_alias_exhausted (st_tables sample_set_store)"
  "t_sync_sets (st_tables sample_set_store) = [''fam'']" "t_actors (st_tables sample_set_store) = []"
  by (simp_all add: sample_set_store_def sample_store_def add_sync_set_def empty_tables_def)

text \<open>The sample store with one canonical message.\<close>

definition sample_message_store :: Store where
  "sample_message_store = snd (CreateCanonical 0 sample_store ''m1'' (Some 0))"

lemma sample_message_reachable: "store_reachable sample_message_store"
  unfolding sample_message_store_def by (rule store_next [OF sample_reachable_store]) (rule s_CreateCanonical)

lemma sample_message_eq:
  "sample_message_store = sample_store\<lparr>st_tables := (st_tables sample_store)\<lparr>t_canonical :=
     [\<lparr>cm_ID = ''m1'', cm_SyncSetID = None, cm_CreatedAt = 0, cm_TombstonedAt = None\<rparr>]\<rparr>\<rparr>"
proof -
  have "requireOpaque ''canonical id'' ''m1'' = None" by code_simp
  then show ?thesis
    by (simp add: sample_message_store_def CreateCanonical_def wrapDB_def exec_def sample_store_def
        empty_tables_def has_canonical_def has_key_def unixMillis_def)
qed

end
