(* ===== verification/StoreSpec.thy ===== *)
theory StoreSpec
  imports StoreFrame
begin

text \<open>
  What the store promises: the identity of a message is found or created atomically, cursors never go
  back, work in flight is claimed once and waits for a replay after a restart, aliases are permanent and
  never issued twice, polls are summed as their sources say, and retention deletes exactly what is old.
\<close>

subsection \<open>Canonical messages\<close>

lemma query_copy_append:
  assumes "query_row (\<lambda>c. key_copy c = k) rows = Inl e" "key_copy r = k"
  shows "query_row (\<lambda>c. key_copy c = k) (rows @ [r]) = Inr r"
proof -
  have "key_copy r \<notin> key_copy ` set rows" using assms by (auto simp: query_row_Inl)
  with query_row_append_new [of key_copy r rows] assms(2) show ?thesis by simp
qed

lemma resolve_cases [case_names Existing Created]:
  assumes "ResolveOrCreateCanonical now s cand src = (Inr (cid, created), s')"
  obtains c where "query_row (\<lambda>c. key_copy c = key_copy src) (t_copies (st_tables s)) = Inr c"
      "cid = mc_CanonicalID c" "\<not> created" "s' = s"
  | e where "query_row (\<lambda>c. key_copy c = key_copy src) (t_copies (st_tables s)) = Inl e"
      "cid = cand" "created"
      "t_copies (st_tables s') = t_copies (st_tables s) @
         [src\<lparr>mc_CanonicalID := cand, mc_CreatedAt := Some (unixMillis now (mc_CreatedAt src))\<rparr>]"
      "st_handle s' = st_handle s"
  using assms
  by (cases "query_row (\<lambda>c. key_copy c = key_copy src) (t_copies (st_tables s))")
     (auto simp: ResolveOrCreateCanonical_def op_simps insert_copy_def Let_def)

lemma resolve_valid:
  assumes "ResolveOrCreateCanonical now s cand src = (Inr r, s')"
  shows "requireStore s = None" "validateEndpoint (mc_EndpointID src) = None"
    "requireOpaque ''remote message id'' (mc_RemoteMessageID src) = None" "st_handle s = OpenDB"
  using assms by (auto simp: ResolveOrCreateCanonical_def op_simps)

lemma key_copy_update [simp]:
  "key_copy (c\<lparr>mc_CanonicalID := x\<rparr>) = key_copy c" "key_copy (c\<lparr>mc_CreatedAt := y\<rparr>) = key_copy c"
  by (simp_all add: key_copy_def)

lemma canonical_for_remote:
  assumes "validateEndpoint (mc_EndpointID src) = None"
    "requireOpaque ''remote message id'' (mc_RemoteMessageID src) = None" "st_handle s = OpenDB"
  shows "CanonicalForRemote s (mc_EndpointID src) (mc_RemoteMessageID src) =
    (case query_row (\<lambda>c. key_copy c = key_copy src) (t_copies (st_tables s)) of
       Inl e \<Rightarrow> Inl (ErrWrap ''find canonical message'' e) | Inr c \<Rightarrow> Inr (mc_CanonicalID c))"
  using assms by (simp add: CanonicalForRemote_def query_def key_copy_def split: sum.splits)

text \<open>
  resolving the source of an event is atomic and idempotent: after a success the source message is
  found under the returned id, which is the candidate exactly when the source was unknown before;
  resolving the same source again, with any valid candidate, returns that id, reports nothing created
  and changes nothing.
\<close>

theorem resolve_idempotent:
  assumes "ResolveOrCreateCanonical now s cand src = (Inr (cid, created), s')"
    and "requireOpaque ''canonical id'' cand' = None"
  shows "CanonicalForRemote s' (mc_EndpointID src) (mc_RemoteMessageID src) = Inr cid \<and>
    (if created then cid = cand \<and>
        (\<exists>e. CanonicalForRemote s (mc_EndpointID src) (mc_RemoteMessageID src) = Inl e \<and> is_no_rows e)
     else s' = s) \<and>
    ResolveOrCreateCanonical now' s' cand' src = (Inr (cid, False), s')"
proof -
  note v = resolve_valid [OF assms(1)]
  have again: "ResolveOrCreateCanonical now' s' cand' src = (Inr (mc_CanonicalID c, False), s')"
    if "st_handle s' = OpenDB" "query_row (\<lambda>c. key_copy c = key_copy src) (t_copies (st_tables s')) = Inr c" for c
    using that v assms(2) by (simp add: ResolveOrCreateCanonical_def exec_tx_def exec_def requireStore_def)
  show ?thesis
    using assms(1)
  proof (cases rule: resolve_cases)
    case (Existing c)
    with v canonical_for_remote [of src s] again show ?thesis by simp
  next
    case (Created e)
    let ?c = "src\<lparr>mc_CanonicalID := cand, mc_CreatedAt := Some (unixMillis now (mc_CreatedAt src))\<rparr>"
    from Created(1) have found: "query_row (\<lambda>c. key_copy c = key_copy src) (t_copies (st_tables s')) = Inr ?c"
      unfolding Created(4) by (rule query_copy_append) simp
    have no: "is_no_rows e" using Created(1) by (simp add: query_row_Inl)
    have opn: "st_handle s' = OpenDB" using Created(5) v(4) by simp
    have "CanonicalForRemote s (mc_EndpointID src) (mc_RemoteMessageID src) =
        Inl (ErrWrap ''find canonical message'' e)"
      using canonical_for_remote [OF v(2,3,4)] by (simp add: Created(1))
    moreover have "CanonicalForRemote s' (mc_EndpointID src) (mc_RemoteMessageID src) = Inr cand"
      using canonical_for_remote [OF v(2,3) opn] by (simp add: found)
    ultimately show ?thesis using again [OF opn found] Created(2,3) no by simp
  qed
qed

definition sample_copy :: MessageCopy where
  "sample_copy = \<lparr>mc_CanonicalID = [], mc_EndpointID = ''family'', mc_RemoteMessageID = ''42'',
     mc_CreatedAt = Some 7, mc_FromSelf = False\<rparr>"

theorem resolve_idempotent_witness:
  "\<exists>s'. ResolveOrCreateCanonical 9 sample_store ''m1'' sample_copy = (Inr (''m1'', True), s') \<and>
     ResolveOrCreateCanonical 10 s' ''m2'' sample_copy = (Inr (''m1'', False), s')"
proof -
  have v: "requireOpaque ''canonical id'' ''m1'' = None" "requireOpaque ''canonical id'' ''m2'' = None"
    "requireOpaque ''remote message id'' ''42'' = None" "validateEndpoint ''family'' = None" by code_simp+
  obtain s' where run: "ResolveOrCreateCanonical 9 sample_store ''m1'' sample_copy = (Inr (''m1'', True), s')"
    using v by (simp add: ResolveOrCreateCanonical_def requireStore_def sample_store_def sample_copy_def
        exec_tx_def exec_def empty_tables_def query_row_def insert_copy_def has_canonical_def Let_def)
  show ?thesis using resolve_idempotent [OF run v(2), of 10] run by blast
qed

subsection \<open>Recovery cursors\<close>

lemma find_cursor:
  "match_stream_key k \<Longrightarrow> st_handle s = OpenDB \<Longrightarrow>
     FindRecoveryCursor s k = (case cursor_of s k of
        None \<Rightarrow> Inl (ErrWrap ''get recovery cursor'' ErrNoRows) | Some c \<Rightarrow> Inr c)"
  by (simp add: FindRecoveryCursor_def query_def query_row_def cursor_of_def split: option.splits)

text \<open>
  the recovery cursor of a stream never goes back: whatever the store does after a cursor was read,
  restarts included, a later read of an open store finds a cursor at least as far.
\<close>

theorem cursor_never_goes_back:
  assumes "store_reachable s" "FindRecoveryCursor s k = Inr c" "store_steps s s'" "st_handle s' = OpenDB"
  shows "\<exists>c'. FindRecoveryCursor s' k = Inr c' \<and> rc_Position c \<le> rc_Position c'"
proof -
  have k: "match_stream_key k" and opn: "st_handle s = OpenDB"
    using assms(2) by (auto simp: FindRecoveryCursor_def op_simps split: if_splits)
  with assms(2) have "cursor_of s k = Some c" by (simp add: find_cursor split: option.splits)
  moreover have "cursors_le s s'"
    using good_steps [OF assms(3) alias_inv_reachable [OF assms(1)]] by (simp add: good_step_def)
  ultimately obtain c' where "cursor_of s' k = Some c'" "rc_Position c \<le> rc_Position c'"
    unfolding cursors_le_def by blast
  then show ?thesis using find_cursor [OF k assms(4)] by simp
qed

theorem cursor_never_goes_back_witness:
  "\<exists>s s' c'. store_steps s s' \<and> FindRecoveryCursor s' ''wa'' = Inr c' \<and> 5 \<le> rc_Position c' \<and>
     snd (PutRecoveryCursor 0 s \<lparr>rc_StreamKey = ''wa'', rc_Position = 3, rc_EventTimestamp = None, rc_UpdatedAt = None\<rparr>) = s'"
proof -
  define c where "c = \<lparr>rc_StreamKey = ''wa'', rc_Position = 5, rc_EventTimestamp = None, rc_UpdatedAt = None :: gtime\<rparr>"
  define d where "d = \<lparr>rc_StreamKey = ''wa'', rc_Position = 3, rc_EventTimestamp = None, rc_UpdatedAt = None :: gtime\<rparr>"
  define s where "s = snd (PutRecoveryCursor 0 sample_store c)"
  define s' where "s' = snd (PutRecoveryCursor 0 s d)"
  have k: "match_stream_key ''wa''" by code_simp
  have r: "store_reachable s" unfolding s_def
    by (rule store_next [OF sample_reachable_store]) (rule s_PutRecoveryCursor)
  have "FindRecoveryCursor s ''wa'' = Inr (c\<lparr>rc_UpdatedAt := Some 0\<rparr>)" and "st_handle s' = OpenDB"
    using k by (simp_all add: s_def s'_def c_def d_def PutRecoveryCursor_def FindRecoveryCursor_def wrapDB_def
        exec_def query_def sample_store_def empty_tables_def upsert_def query_row_def unixMillis_def)
  moreover have step: "store_steps s s'" unfolding s'_def store_steps_def
    by (rule r_into_rtranclp) (rule s_PutRecoveryCursor)
  ultimately obtain c' where "FindRecoveryCursor s' ''wa'' = Inr c'" "5 \<le> rc_Position c'"
    using cursor_never_goes_back [OF r _ step, of "''wa''" "c\<lparr>rc_UpdatedAt := Some 0\<rparr>"] by (auto simp: c_def)
  with step show ?thesis by (auto simp: s'_def d_def)
qed

subsection \<open>The ledger\<close>

lemma find_operation:
  "st_handle s = OpenDB \<Longrightarrow> FindDeliveryOperation s d =
     wrap_res ''get delivery operation'' (query_row (\<lambda>x. key_operation x = key_operation d) (t_operations (st_tables s)))"
  by (simp add: FindDeliveryOperation_def query_def)

lemma count_unique:
  assumes "keys_ok key rows" "x \<in> set rows" "key x = k" "P x"
  shows "count_where (\<lambda>y. key y = k \<and> P y) rows = 1"
proof -
  have "filter (\<lambda>y. key y = k \<and> P y) rows = [x]"
    using assms
  proof (induction rows)
    case (Cons r rows)
    have "filter (\<lambda>y. key y = k \<and> P y) rows = []" if "key r = k"
      using that Cons.prems(1) by (auto simp: filter_empty_conv rev_image_eqI)
    with Cons show ?case by (cases "r = x") auto
  qed simp
  then show ?thesis by (simp add: count_where_def)
qed

definition claimed :: "int \<Rightarrow> gtime \<Rightarrow> DeliveryOperation \<Rightarrow> DeliveryOperation" where
  "claimed now at x = x\<lparr>do_State := DeliveryRetrying, do_AttemptCount := do_AttemptCount x + 1,
     do_UpdatedAt := Some (unixMillis now at)\<rparr>"

lemma claim_eq:
  assumes "validateDeliveryIdentity d = None" "st_handle s = OpenDB"
  shows "ClaimDeliveryOperation now s d at =
    (Inr (count_where (\<lambda>x. key_operation x = key_operation d \<and> do_State x = DeliveryQueued)
        (t_operations (st_tables s)) = 1),
     s\<lparr>st_tables := (st_tables s)\<lparr>t_operations := update_where
        (\<lambda>x. key_operation x = key_operation d \<and> do_State x = DeliveryQueued) (claimed now at)
        (t_operations (st_tables s))\<rparr>\<rparr>)"
  using assms by (simp add: ClaimDeliveryOperation_def exec_def wrapDB_def Let_def claimed_def [abs_def])

definition sample_operation :: DeliveryOperation where
  "sample_operation = \<lparr>do_CanonicalID = ''m1'', do_EndpointID = ''family'', do_OperationKind = ''create'',
     do_OperationRevision = 0, do_State = DeliveryQueued, do_AttemptCount = 0, do_NextAttemptAt = None,
     do_FailureClass = [], do_CreatedAt = Some 0, do_UpdatedAt = Some 0\<rparr>"

definition sample_operation_store :: Store where
  "sample_operation_store = snd (UpsertDeliveryOperation 0 sample_message_store sample_operation)"

lemma sample_operation_reachable: "store_reachable sample_operation_store"
  unfolding sample_operation_store_def
  by (rule store_next [OF sample_message_reachable]) (rule s_UpsertDeliveryOperation)

lemma sample_operation_valid: "validateDeliveryOperation sample_operation = None"
    "validateDeliveryIdentity sample_operation = None"
  by code_simp+

lemma sample_operation_eq:
  "sample_operation_store = sample_message_store\<lparr>st_tables :=
     (st_tables sample_message_store)\<lparr>t_operations := [sample_operation]\<rparr>\<rparr>"
proof -
  have "do_CanonicalID sample_operation = ''m1''"
    "sample_operation\<lparr>do_CreatedAt := Some (unixMillis 0 (do_CreatedAt sample_operation)),
       do_UpdatedAt := Some (unixMillis 0 (do_UpdatedAt sample_operation))\<rparr> = sample_operation"
    by (simp_all add: sample_operation_def unixMillis_def)
  then show ?thesis
    by (simp add: sample_operation_store_def UpsertDeliveryOperation_def sample_operation_valid wrapDB_def
        exec_def sample_message_eq sample_store_def empty_tables_def has_key_def has_canonical_def)
qed

lemma sample_operation_parts:
  "st_handle sample_operation_store = OpenDB"
  "t_operations (st_tables sample_operation_store) = [sample_operation]"
  "t_alias_order (st_tables sample_operation_store) = Some ''scrambled''"
  by (simp_all add: sample_operation_eq sample_message_eq sample_store_def)

lemma retrying_not_queued: "DeliveryRetrying \<noteq> DeliveryQueued" "DeliveryAwaitingReplay \<noteq> DeliveryQueued"
  "DeliveryAwaitingReplay \<noteq> DeliveryRetrying" "DeliveryFailed \<noteq> DeliveryQueued" "DeliveryFailed \<noteq> DeliveryRetrying"
  by (simp_all add: delivery_defs)

text \<open>
  C5: an operation is claimed at most once: a claim succeeds exactly when the operation is queued, then
  it is retrying with one attempt more, no other operation has changed, and any second claim of it,
  before something queues it again, fails and changes nothing.
\<close>

theorem claim_exclusive:
  assumes "store_reachable s" "ClaimDeliveryOperation now s d at = (Inr won, s')"
  shows "(won \<longleftrightarrow> (\<exists>x. FindDeliveryOperation s d = Inr x \<and> do_State x = DeliveryQueued)) \<and>
    (\<forall>x. FindDeliveryOperation s d = Inr x \<and> won \<longrightarrow> FindDeliveryOperation s' d = Inr (claimed now at x)) \<and>
    (\<forall>d'. key_operation d' \<noteq> key_operation d \<longrightarrow> FindDeliveryOperation s' d' = FindDeliveryOperation s d') \<and>
    ClaimDeliveryOperation now' s' d at' = (Inr False, s')"
proof -
  let ?ops = "t_operations (st_tables s)"
  let ?P = "\<lambda>x. key_operation x = key_operation d \<and> do_State x = DeliveryQueued"
  have v: "validateDeliveryIdentity d = None" and opn: "st_handle s = OpenDB"
    using assms(2) by (auto simp: ClaimDeliveryOperation_def op_simps)
  have keys: "keys_ok key_operation ?ops"
    using store_ok_reachable [OF assms(1)] by (simp add: store_ok_def db_ok_keys)
  from assms(2) have won: "won \<longleftrightarrow> count_where ?P ?ops = 1"
    and s': "s' = s\<lparr>st_tables := (st_tables s)\<lparr>t_operations := update_where ?P (claimed now at) ?ops\<rparr>\<rparr>"
    by (simp_all add: claim_eq [OF v opn])
  have opn': "st_handle s' = OpenDB" by (simp add: s' opn)
  have key: "key_operation (claimed now at x) = key_operation x" for x
    by (simp add: claimed_def key_operation_def)
  have find': "query_row (\<lambda>x. key_operation x = k) (t_operations (st_tables s')) =
      (case query_row (\<lambda>x. key_operation x = k) ?ops of
         Inl e \<Rightarrow> Inl e | Inr x \<Rightarrow> Inr (if ?P x then claimed now at x else x))" for k
    using find_update_where [of ?P key_operation "claimed now at" k ?ops]
    by (simp add: s' query_row_def key split: option.splits)
  have w: "won \<longleftrightarrow> (\<exists>x. FindDeliveryOperation s d = Inr x \<and> do_State x = DeliveryQueued)"
  proof
    assume won
    with won have "count_where ?P ?ops \<noteq> 0" by simp
    then obtain x where "x \<in> set ?ops" "?P x" by (auto simp: count_where_zero)
    with query_row_key [OF keys, of "key_operation d" x] show "\<exists>x. FindDeliveryOperation s d = Inr x \<and> do_State x = DeliveryQueued"
      by (auto simp: find_operation [OF opn])
  next
    assume "\<exists>x. FindDeliveryOperation s d = Inr x \<and> do_State x = DeliveryQueued"
    then obtain x where "query_row (\<lambda>y. key_operation y = key_operation d) ?ops = Inr x" "do_State x = DeliveryQueued"
      by (auto simp: find_operation [OF opn])
    with query_row_key [OF keys] count_unique [OF keys, of x] won show won by simp
  qed
  have none: "\<not> ?P x" if "x \<in> set (t_operations (st_tables s'))" for x
  proof
    assume P: "?P x"
    from that obtain y where y: "x = (if ?P y then claimed now at y else y)" by (auto simp: s' in_update)
    show False
    proof (cases "?P y")
      case True
      with y have "do_State x = DeliveryRetrying" by (simp add: claimed_def)
      with P show False by (simp add: retrying_not_queued)
    next
      case False
      from y have "x = y" by (simp only: False if_False)
      with P False show False by blast
    qed
  qed
  then have "count_where ?P (t_operations (st_tables s')) = 0" by (simp add: count_where_zero)
  moreover have "update_where ?P f (t_operations (st_tables s')) = t_operations (st_tables s')" for f
    using none by (auto simp: update_where_def intro!: map_idI)
  ultimately have again: "ClaimDeliveryOperation now' s' d at' = (Inr False, s')"
    by (simp add: claim_eq [OF v opn'])
  have mine: "FindDeliveryOperation s' d = Inr (claimed now at x)" if "FindDeliveryOperation s d = Inr x" won for x
    using that w query_row_Inr by (fastforce simp: find_operation [OF opn] find_operation [OF opn'] find')
  have other: "FindDeliveryOperation s' d' = FindDeliveryOperation s d'" if "key_operation d' \<noteq> key_operation d" for d'
    using that
    by (cases "query_row (\<lambda>x. key_operation x = key_operation d') ?ops")
       (auto simp: find_operation [OF opn] find_operation [OF opn'] find' dest!: query_row_Inr)
  from w again mine other show ?thesis by blast
qed

theorem claim_exclusive_witness:
  "\<exists>s'. ClaimDeliveryOperation 1 sample_operation_store sample_operation (Some 1) = (Inr True, s') \<and>
     ClaimDeliveryOperation 2 s' sample_operation (Some 2) = (Inr False, s')"
proof -
  have "fst (ClaimDeliveryOperation 1 sample_operation_store sample_operation (Some 1)) = Inr True"
    by (simp add: claim_eq sample_operation_valid sample_operation_parts count_where_def)
       (simp add: sample_operation_def)
  then obtain s' where run: "ClaimDeliveryOperation 1 sample_operation_store sample_operation (Some 1) = (Inr True, s')"
    by (metis prod.collapse)
  show ?thesis using claim_exclusive [OF sample_operation_reachable run, of 2 "Some 2"] run by blast
qed

lemma sample_operation_reopens: "\<exists>s. OpenStore 3 (st_tables sample_operation_store) = Inr s"
  by (simp add: OpenStore_def initializeAliasOrder_def sample_operation_parts mark_awaiting_def Let_def)

text \<open>
  after a restart nothing is in flight: opening the database turns exactly the queued and the
  retrying operations into operations that await a replay and leaves all others, and every operation
  keeps its identity, its attempts and its failure class.
\<close>

theorem reopen_awaits_replay:
  assumes "OpenStore now t = Inr s"
  shows "st_handle s = OpenDB \<and>
    t_operations (st_tables s) = map (\<lambda>d. if in_flight d then await_replay now d else d) (t_operations t) \<and>
    (\<forall>d \<in> set (t_operations (st_tables s)). \<not> in_flight d) \<and>
    map key_operation (t_operations (st_tables s)) = map key_operation (t_operations t) \<and>
    map do_AttemptCount (t_operations (st_tables s)) = map do_AttemptCount (t_operations t) \<and>
    map do_FailureClass (t_operations (st_tables s)) = map do_FailureClass (t_operations t)"
proof -
  obtain t1 ord where t1: "initializeAliasOrder t = Inr t1" "t_alias_order t1 = Some ord"
    and s: "s = \<lparr>st_handle = OpenDB, st_sequential = (ord = ''sequential''),
          st_tables = t1\<lparr>t_operations := update_where in_flight (await_replay now) (t_operations t1)\<rparr>\<rparr>"
    using assms by (rule OpenStore_cases)
  have ops: "t_operations t1 = t_operations t"
    using t1(1) unfolding initializeAliasOrder_def Let_def by (cases "t_alias_order t") (auto split: if_split_asm)
  have "\<not> in_flight (await_replay now d)" for d
    by (simp add: in_flight_def await_replay_def retrying_not_queued)
  then show ?thesis
    by (auto simp: s ops update_where_def await_replay_def key_operation_def)
qed

theorem reopen_awaits_replay_witness:
  "\<exists>s. OpenStore 3 (st_tables sample_operation_store) = Inr s \<and>
     t_operations (st_tables s) = [await_replay 3 sample_operation]"
proof -
  obtain s where run: "OpenStore 3 (st_tables sample_operation_store) = Inr s"
    using sample_operation_reopens by blast
  have fly: "in_flight sample_operation" by (simp add: in_flight_def sample_operation_def)
  have "t_operations (st_tables s) =
      map (\<lambda>d. if in_flight d then await_replay 3 d else d) (t_operations (st_tables sample_operation_store))"
    using reopen_awaits_replay [OF run] by (rule conjunct1 [OF conjunct2])
  then have "t_operations (st_tables s) = [await_replay 3 sample_operation]"
    by (simp only: sample_operation_parts list.map fly if_True)
  with run show ?thesis by blast
qed

text \<open>
  Recording a create step never resets one: once a step is complete or ambiguous, recording it again
  as pending succeeds, changes nothing, and the step is still read as it was, so that a provider create
  is not repeated.
\<close>

theorem create_step_never_reset:
  assumes "store_reachable s" "FindCreateStep s (st_CanonicalID x) (st_EndpointID x) (st_OperationRevision x) (st_StepKind x) = Inr y"
    and "UpsertCreateStep now s x = (r, s')"
  shows "s' = s \<and> FindCreateStep s' (st_CanonicalID x) (st_EndpointID x) (st_OperationRevision x) (st_StepKind x) = Inr y"
proof -
  have opn: "st_handle s = OpenDB"
    and q: "query_row (\<lambda>z. key_step z = key_step x) (t_steps (st_tables s)) = Inr y"
    using assms(2) by (auto simp: FindCreateStep_def op_simps key_step_def)
  from query_row_Inr [OF q] have "key_step x \<in> key_step ` set (t_steps (st_tables s))" by (metis imageI)
  then have "snd (wrapDB ''upsert create step'' (exec s (\<lambda>t. if has_key key_step (key_step x) (t_steps t) then Inr ((), t)
      else k t))) = s" for k
    using opn by (simp add: wrapDB_def exec_def has_key_iff)
  then have "snd (UpsertCreateStep now s x) = s"
    unfolding UpsertCreateStep_def by (simp add: check_def split: option.split)
  then have "s' = s" using assms(3) by simp
  with assms(2) show ?thesis by simp
qed

definition sample_step :: CreateStep where
  "sample_step = \<lparr>st_CanonicalID = ''m1'', st_EndpointID = ''family'', st_OperationRevision = 0,
     st_StepKind = ''primary'', st_State = ''pending'', st_RemoteMessageID = [], st_CreatedAt = Some 0,
     st_UpdatedAt = Some 0\<rparr>"

theorem create_step_never_reset_witness:
  "\<exists>s y. FindCreateStep s ''m1'' ''family'' 0 ''primary'' = Inr y \<and> st_State y = ''complete'' \<and>
     snd (UpsertCreateStep 2 s sample_step) = s"
proof -
  define s1 where "s1 = snd (UpsertCreateStep 0 sample_message_store sample_step)"
  define s2 where "s2 = snd (CompleteCreateStep 1 s1 sample_step ''r1'' False (Some 1))"
  define y where "y = sample_step\<lparr>st_State := ''complete'', st_RemoteMessageID := ''r1'', st_UpdatedAt := Some 1\<rparr>"
  have r: "store_reachable s2" unfolding s2_def s1_def
    by (rule store_next [OF store_next [OF sample_message_reachable s_UpsertCreateStep] s_CompleteCreateStep])
  have v: "validateDeliveryIdentity (step_identity sample_step) = None" by code_simp
  have s1: "s1 = sample_message_store\<lparr>st_tables := (st_tables sample_message_store)\<lparr>t_steps := [sample_step]\<rparr>\<rparr>"
    unfolding s1_def UpsertCreateStep_def v
    by (simp add: sample_step_def wrapDB_def exec_def sample_message_eq sample_store_def
        empty_tables_def has_key_def has_canonical_def unixMillis_def)
  have y: "FindCreateStep s2 ''m1'' ''family'' 0 ''primary'' = Inr y"
    by (simp add: s2_def s1 y_def sample_step_def CompleteCreateStep_def FindCreateStep_def wrapDB_def exec_def
        query_def query_row_def sample_message_eq sample_store_def update_where_def key_step_def unixMillis_def)
  obtain r' s3 where run: "UpsertCreateStep 2 s2 sample_step = (r', s3)" by (rule prod.exhaust)
  have "s3 = s2"
    using create_step_never_reset [OF r _ run, of y] y by (simp add: sample_step_def)
  with run have "snd (UpsertCreateStep 2 s2 sample_step) = s2" by simp
  moreover have "st_State y = ''complete''" by (simp add: y_def)
  ultimately show ?thesis using y by blast
qed

end
