(* ===== verification/AliasSpec.thy ===== *)
theory AliasSpec
  imports StoreFrame
begin

text \<open>
  What the store promises about aliases and participant handles: an actor of a sync set gets one alias,
  keeps it, is found by it, and no alias is ever given to a second actor, also not after its sync set
  is gone; participant handles round-trip.
\<close>

lemma requireStore_open: "st_handle s = OpenDB \<Longrightarrow> requireStore s = None"
  by (simp add: requireStore_def)

lemma inv_parts:
  assumes "store_ok s" "alias_inv s" "r \<in> set (t_actors (st_tables s))"
  shows "syncSetAlias (ar_Ordinal r) (\<not> st_sequential s) = Inr (ar_Alias r)" "1 \<le> ar_Ordinal r"
    "ar_Ordinal r < 2 ^ 63" "match_actor (ar_ActorID r)" "trim_space (ar_SyncSetID r) \<noteq> []"
  using assms
  by (auto simp: alias_inv_def alias_rows_ok_def store_ok_def db_ok_def checks_ok_def alias_ok_def MaxInt64_def)

lemma scan_ok:
  assumes "store_ok s" "alias_inv s" "r \<in> set (t_actors (st_tables s))"
  shows "scanAlias s (Inr r) = Inr r"
  using inv_parts [OF assms] by (simp add: scanAlias_def aliasForOrdinal_eq)

lemma select_actor_iff:
  assumes "db_ok t"
  shows "select_actor t setID a = Inr r \<longleftrightarrow> r \<in> set (t_actors t) \<and> key_actor r = (setID, a)"
  unfolding select_actor_def using assms by (intro query_row_key) (simp add: db_ok_def pk_ok_def)

lemma select_actor_none: "select_actor t setID a = Inl e \<longleftrightarrow> e = ErrNoRows \<and> (\<forall>r \<in> set (t_actors t). key_actor r \<noteq> (setID, a))"
  by (simp add: select_actor_def query_row_Inl)

text \<open>A row of a consistent store is found by its actor and by its alias, whatever its letter case.\<close>

lemma found_by_actor:
  assumes "store_ok s" "alias_inv s" "st_handle s = OpenDB" "r \<in> set (t_actors (st_tables s))"
  shows "scanAlias s (query s (\<lambda>t. select_actor t (ar_SyncSetID r) (ar_ActorID r))) = Inr r"
proof -
  have "select_actor (st_tables s) (ar_SyncSetID r) (ar_ActorID r) = Inr r"
    using assms(1,4) by (simp add: store_ok_def select_actor_iff key_actor_def)
  with scan_ok [OF assms(1,2,4)] assms(3) show ?thesis by (simp add: query_def)
qed

lemma alias_body_lower: "map lower a = map lower b \<Longrightarrow> alias_body a \<Longrightarrow> alias_body b"
proof -
  have low: "is_alpha (lower c) = is_alpha c" for c by simp
  have tw: "map lower (takeWhile is_alpha s) = takeWhile is_alpha (map lower s)"
    "map lower (dropWhile is_alpha s) = dropWhile is_alpha (map lower s)" for s
    by (induction s) (simp_all)
  have digits: "tier_ok ds = tier_ok es" if "map lower ds = map lower es" for ds es
  proof -
    have d: "is_digit (lower c) = is_digit c" for c
      by (auto simp: is_digit_def byte_lower is_upper_def)
    have b: "is_digit c \<Longrightarrow> byte (lower c) = byte c" for c by (simp add: lower_digit)
    have same: "list_all is_digit xs = list_all is_digit ys" if "map lower xs = map lower ys" for xs ys
    proof -
      have "list_all is_digit xs = list_all is_digit (map lower xs)" for xs by (simp add: list_all_iff d)
      with that show ?thesis by metis
    qed
    have head: "is_digit c = is_digit e \<and> (is_digit c \<longrightarrow> byte c = byte e)" if "lower c = lower e" for c e
      using that d [of c] d [of e] b [of c] b [of e] by auto
    show ?thesis
    proof (cases ds)
      case Nil
      with that show ?thesis by simp
    next
      case (Cons c cs)
      with that obtain e es' where es: "es = e # es'" "lower c = lower e" "map lower cs = map lower es'"
        by (cases es) auto
      moreover have "length cs = length es'" using es(3) by (metis length_map)
      ultimately show ?thesis
        using Cons head [OF es(2)] same [OF es(3)] by (cases cs; cases es') (auto simp: tier_ok_def)
    qed
  qed
  assume eq: "map lower a = map lower b" and a: "alias_body a"
  from a obtain v w r where s: "a = v @ CHR '' '' # w @ r" "alias_word v" "alias_word w"
    "r = [] \<or> (\<exists>ds. r = CHR '' '' # ds \<and> tier_ok ds)" by (rule alias_bodyE)
  from eq s(1) have "map lower b = map lower v @ CHR '' '' # map lower w @ map lower r"
    by (simp add: lower_sp)
  then obtain v' rest where b1: "b = v' @ rest" "map lower v' = map lower v"
      "map lower rest = CHR '' '' # map lower w @ map lower r"
    by (auto simp: map_eq_append_conv)
  from b1(3) obtain rest2 where b2: "rest = CHR '' '' # rest2" "map lower rest2 = map lower w @ map lower r"
    by (cases rest) auto
  from b2(2) obtain w' r' where b3: "rest2 = w' @ r'" "map lower w' = map lower w" "map lower r' = map lower r"
    by (auto simp: map_eq_append_conv)
  have b: "b = v' @ CHR '' '' # w' @ r'" by (simp add: b1(1) b2(1) b3(1))
  moreover have "alias_word v'" "alias_word w'"
    using s(2,3) b1(2) b3(2) by (metis alias_word_lower)+
  moreover have "r' = [] \<or> (\<exists>ds. r' = CHR '' '' # ds \<and> tier_ok ds)"
  proof (cases r')
    case (Cons c ds')
    with b3(3) have "r \<noteq> []" by auto
    with s(4) obtain ds where ds: "r = CHR '' '' # ds" "tier_ok ds" by blast
    with b3(3) Cons have "c = CHR '' ''" "map lower ds' = map lower ds" by (simp_all add: lower_sp)
    with digits [of ds' ds] ds(2) Cons show ?thesis by simp
  qed simp
  ultimately show ?thesis by (simp add: alias_bodyI b)
qed

lemma found_by_alias:
  assumes "store_ok s" "alias_inv s" "st_handle s = OpenDB" "r \<in> set (t_actors (st_tables s))"
    and "map lower written = map lower (ar_Alias r)"
  shows "ActorByAlias s written = Inr r"
proof -
  note r = inv_parts [OF assms(1,2,4)]
  have "ValidAlias (ar_Alias r)" using r(2,3,1) by (rule alias_valid)
  then have valid: "ValidAlias written" using alias_body_lower [of "ar_Alias r" written] assms(5) by (simp add: ValidAlias_iff)
  have "query_row (\<lambda>x. key_alias x = map lower written) (t_actors (st_tables s)) = Inr r"
    using assms(1,4,5) query_row_key [of key_alias "t_actors (st_tables s)" "map lower written" r]
    by (simp add: store_ok_def db_ok_def pk_ok_def key_alias_def)
  with valid scan_ok [OF assms(1,2,4)] assms(3) show ?thesis
    by (simp add: ActorByAlias_def requireStore_open query_def)
qed

lemma allocate_result:
  assumes "allocateAlias s a b = (Inr r, s')" "store_ok s" "alias_inv s" "a \<noteq> []" "trim_space a = a" "match_actor b"
  shows "r \<in> set (t_actors (st_tables s')) \<and> key_actor r = (a, b) \<and> store_ok s' \<and> alias_inv s' \<and> st_handle s' = OpenDB"
proof -
  from assms(1) obtain t where t: "allocate_tx s a b (st_tables s) = Inr (r, t)" "s' = s\<lparr>st_tables := t\<rparr>"
    and opn: "st_handle s = OpenDB" by (auto simp: allocateAlias_def exec_Inr)
  have s': "s' = snd (allocateAlias s a b)" by (simp add: assms(1))
  have "store_ok s'" "alias_inv s'"
    unfolding s' using ok_allocateAlias [OF assms(2)] alias_inv_allocate [OF assms(3-6)] by simp_all
  moreover from t(1) have "r \<in> set (t_actors t) \<and> key_actor r = (a, b)"
  proof (cases rule: allocate_tx_cases)
    case Found
    then have "select_actor (st_tables s) a b = Inr r" by (auto simp: scanAlias_def bind_res_Inr split: if_splits)
    with Found(2) assms(2) show ?thesis by (simp add: store_ok_def select_actor_iff)
  next
    case (New e)
    show ?thesis by (simp add: New(4,5,12) advance_alias_def Let_def key_actor_def)
  qed
  ultimately show ?thesis using opn by (simp add: t(2))
qed

lemma loop_result:
  "allocate_loop turns s a b = (Inr r, s') \<Longrightarrow>
   (\<And>b f s. (b, f) \<in> set turns \<Longrightarrow> store_ok s \<and> alias_inv s \<Longrightarrow>
      store_ok (s\<lparr>st_tables := f (st_tables s)\<rparr>) \<and> alias_inv (s\<lparr>st_tables := f (st_tables s)\<rparr>)) \<Longrightarrow>
   store_ok s \<Longrightarrow> alias_inv s \<Longrightarrow> a \<noteq> [] \<Longrightarrow> trim_space a = a \<Longrightarrow> match_actor b \<Longrightarrow>
   r \<in> set (t_actors (st_tables s')) \<and> key_actor r = (a, b) \<and> store_ok s' \<and> alias_inv s' \<and> st_handle s' = OpenDB"
proof (induction turns s a b rule: allocate_loop.induct)
  case (2 busy others turns s a b)
  let ?s = "s\<lparr>st_tables := others (st_tables s)\<rparr>"
  let ?r = "if busy then (Inl (ErrConstraint ''busy''), ?s) else allocateAlias ?s a b"
  have ok: "store_ok ?s" "alias_inv ?s" using "2.prems"(2) [of busy others s] "2.prems"(3,4) by simp_all
  obtain x s1 where r: "?r = (x, s1)" by (cases ?r)
  show ?case
  proof (cases x)
    case (Inr rec)
    with r "2.prems"(1) have "allocateAlias ?s a b = (Inr r, s')" by (auto simp: Let_def split: if_splits)
    then show ?thesis using ok "2.prems"(5-7) by (rule allocate_result)
  next
    case (Inl e)
    with r "2.prems"(1) have "alias_retryable e" "allocate_loop turns s1 a b = (Inr r, s')"
      by (auto simp: Let_def split: if_splits)
    moreover have "s1 = ?s"
    proof (cases busy)
      case False
      with r Inl have "exec ?s (allocate_tx ?s a b) = (Inl e, s1)" by (simp add: allocateAlias_def)
      then show ?thesis by (rule_tac exec_cases [of ?s "allocate_tx ?s a b"]) auto
    qed (use r in simp)
    ultimately show ?thesis
      using "2.IH" [OF refl refl r [symmetric] Inl] "2.prems"(2,5-7) ok by auto
  qed
qed simp

text \<open>What other processes may do between the turns: any steps of a store on the same database.\<close>

definition fair_turns :: "alias_turn list \<Rightarrow> bool" where
  "fair_turns turns \<longleftrightarrow>
     (\<forall>(busy, f) \<in> set turns. \<forall>s. store_ok s \<and> alias_inv s \<longrightarrow>
        store_ok (s\<lparr>st_tables := f (st_tables s)\<rparr>) \<and> alias_inv (s\<lparr>st_tables := f (st_tables s)\<rparr>))"

lemma fair_idle: "fair_turns [(busy, \<lambda>t. t)]" "fair_turns []"
  by (simp_all add: fair_turns_def)

lemma observe_result:
  assumes "ObserveSyncSetActor turns s a b = (Inr r, s')" "fair_turns turns" "store_ok s" "alias_inv s"
  shows "r \<in> set (t_actors (st_tables s')) \<and> key_actor r = (a, b) \<and> store_ok s' \<and> alias_inv s' \<and>
    st_handle s' = OpenDB \<and> a \<noteq> [] \<and> trim_space a = a \<and> match_actor b"
proof -
  from assms(1) have v: "a \<noteq> []" "trim_space a = a" "match_actor b" "st_handle s \<noteq> NilDB"
    by (auto simp: ObserveSyncSetActor_def requireStore_def check_def split: if_splits)
  show ?thesis
  proof (cases "scanAlias s (query s (\<lambda>t. select_actor t a b))")
    case (Inl e)
    with assms(1) v have "allocate_loop turns s a b = (Inr r, s')"
      by (auto simp: ObserveSyncSetActor_def requireStore_def split: if_splits)
    from loop_result [OF this _ assms(3,4) v(1-3)] assms(2) v show ?thesis
      by (auto simp: fair_turns_def)
  next
    case (Inr r')
    with assms(1) v have "r' = r" "s' = s" by (simp_all add: ObserveSyncSetActor_def requireStore_def)
    moreover from Inr have "st_handle s = OpenDB" "select_actor (st_tables s) a b = Inr r'"
      by (auto simp: scanAlias_def op_simps split: if_splits)
    ultimately show ?thesis using assms(3,4) v by (simp add: store_ok_def select_actor_iff)
  qed
qed

lemma allocation_possible:
  assumes "store_reachable s" "st_handle s = OpenDB" "\<not> t_alias_exhausted (st_tables s)"
    and "setID \<in> set (t_sync_sets (st_tables s))" "setID \<noteq> []" "trim_space setID = setID" "match_actor actor"
  shows "\<exists>r s'. ObserveSyncSetActor (replicate n (True, \<lambda>t. t) @ (False, \<lambda>t. t) # turns) s setID actor = (Inr r, s')"
proof -
  note ok = store_ok_reachable [OF assms(1)] and inv = alias_inv_reachable [OF assms(1)]
  have alloc: "\<exists>r s'. allocateAlias s setID actor = (Inr r, s')"
    if none: "select_actor (st_tables s) setID actor = Inl ErrNoRows"
  proof -
    let ?t = "st_tables s"
    have next_: "1 \<le> t_alias_next ?t" and old: "\<forall>r \<in> set (t_actors ?t). ar_Ordinal r < t_alias_next ?t"
      using ok assms(3) by (auto simp: store_ok_def db_ok_def checks_ok_def alias_ok_def)
    obtain al where al: "syncSetAlias (t_alias_next ?t) (\<not> st_sequential s) = Inr al"
      using syncSetAlias_shape [OF next_] by blast
    have fresh: "map lower al \<noteq> map lower (ar_Alias r)" if "r \<in> set (t_actors ?t)" for r
      using alias_lower_inject [OF next_ inv_parts(2) [OF ok inv that] al inv_parts(1) [OF ok inv that]] old that
      by fastforce
    have "\<forall>r \<in> set (t_actors ?t). key_actor r \<noteq> (setID, actor)" using none by (simp add: select_actor_none)
    then have "\<exists>r t. allocate_tx s setID actor ?t = Inr (r, t)"
      using none next_ old al fresh assms(3,4)
      by (auto simp: allocate_tx_def scanAlias_def aliasForOrdinal_eq constraint_def Let_def key_alias_def key_actor_def)
    then show ?thesis using assms(2) by (auto simp: allocateAlias_def exec_def)
  qed
  have idle: "s\<lparr>st_tables := st_tables s\<rparr> = s" by simp
  have loop: "\<exists>r s'. allocate_loop (replicate n (True, \<lambda>t. t) @ (False, \<lambda>t. t) # turns) s setID actor = (Inr r, s')"
    if "select_actor (st_tables s) setID actor = Inl ErrNoRows"
    using alloc [OF that] by (induction n) (auto simp: Let_def)
  show ?thesis
  proof (cases "select_actor (st_tables s) setID actor")
    case (Inl e)
    then have e: "e = ErrNoRows" by (simp add: select_actor_none)
    with Inl have "scanAlias s (query s (\<lambda>t. select_actor t setID actor)) = Inl ErrNoRows"
      using assms(2) by (simp add: query_def scanAlias_def)
    with loop Inl e assms(2,5-7) show ?thesis
      by (simp add: ObserveSyncSetActor_def requireStore_open)
  next
    case (Inr r)
    then have "r \<in> set (t_actors (st_tables s))" using ok by (simp add: store_ok_def select_actor_iff)
    from scan_ok [OF ok inv this] Inr assms(2,5-7) show ?thesis
      by (simp add: ObserveSyncSetActor_def requireStore_open query_def)
  qed
qed

subsection \<open>Properties\<close>

text \<open>
  Observing an actor is stable: once it has returned a record, also against competing processes, the
  actor's alias is the recorded one, the alias leads back to the record in every letter case, and
  observing the actor again returns the same record and changes nothing.
\<close>

theorem observe_stable:
  assumes "store_reachable s" "fair_turns turns" "ObserveSyncSetActor turns s setID actor = (Inr r, s')"
  shows "AliasByActor s' setID actor = Inr (ar_Alias r) \<and>
    (\<forall>written. map lower written = map lower (ar_Alias r) \<longrightarrow>
       ActorByAlias s' written = Inr r \<and> ActorInSyncSetByAlias s' setID written = Inr r) \<and>
    ObserveSyncSetActor turns' s' setID actor = (Inr r, s')"
proof -
  from observe_result [OF assms(3,2) store_ok_reachable [OF assms(1)] alias_inv_reachable [OF assms(1)]]
  have r: "r \<in> set (t_actors (st_tables s'))" "ar_SyncSetID r = setID" "ar_ActorID r = actor"
    and ok: "store_ok s'" "alias_inv s'" "st_handle s' = OpenDB"
    and v: "setID \<noteq> []" "trim_space setID = setID" "match_actor actor"
    by (simp_all add: key_actor_def)
  have found: "scanAlias s' (query s' (\<lambda>t. select_actor t setID actor)) = Inr r"
    using found_by_actor [OF ok r(1)] by (simp add: r(2,3))
  have "ActorByAlias s' written = Inr r" if "map lower written = map lower (ar_Alias r)" for written
    using found_by_alias [OF ok r(1) that] .
  then show ?thesis
    using found v ok(3) r(2)
    by (auto simp: AliasByActor_def ActorInSyncSetByAlias_def ObserveSyncSetActor_def requireStore_open)
qed

text \<open>
  C34: an alias is never issued twice: if an actor has an alias at one time and any later state, after any
  steps and restarts, has a row with the same alias up to case, it is the same row, even if the sync
  set of the actor was deleted in between.
\<close>

theorem alias_never_reissued:
  assumes "store_reachable s" "store_steps s s'"
    and "r \<in> set (t_actors (st_tables s))" "r' \<in> set (t_actors (st_tables s'))"
    and "map lower (ar_Alias r') = map lower (ar_Alias r)"
  shows "r' = r"
proof -
  note ok = store_ok_reachable [OF assms(1)] and inv = alias_inv_reachable [OF assms(1)]
  have reach': "store_reachable s'" using steps_reachable [OF assms(2,1)] .
  note ok' = store_ok_reachable [OF reach'] and inv' = alias_inv_reachable [OF reach']
  have le: "actors_le (st_tables s) (st_tables s')"
    using good_steps [OF assms(2) inv] by (simp add: good_step_def)
  then have seq: "st_sequential s' = st_sequential s"
    using inv inv' by (auto simp: actors_le_def alias_inv_def)
  note p = inv_parts [OF ok inv assms(3)] and p' = inv_parts [OF ok' inv' assms(4)]
  have ord: "ar_Ordinal r' = ar_Ordinal r"
    using alias_lower_inject [OF p'(2) p(2), of "\<not> st_sequential s"] p'(1) p(1) assms(5) by (simp add: seq)
  have "r' \<in> set (t_actors (st_tables s))"
  proof (rule ccontr)
    assume "r' \<notin> set (t_actors (st_tables s))"
    with le assms(4) have "t_alias_next (st_tables s) \<le> ar_Ordinal r'" "\<not> t_alias_exhausted (st_tables s)"
      by (auto simp: actors_le_def)
    moreover have "ar_Ordinal r < t_alias_next (st_tables s) \<or> t_alias_exhausted (st_tables s)"
      using ok assms(3) by (auto simp: store_ok_def db_ok_def checks_ok_def alias_ok_def)
    ultimately show False using ord by simp
  qed
  moreover have "keys_ok ar_Ordinal (t_actors (st_tables s))"
    using ok by (simp add: store_ok_def db_ok_def pk_ok_def)
  ultimately show ?thesis using keys_ok_unique assms(3) ord by metis
qed

text \<open>
  an allocation succeeds when it can: in an open store that has not run out of ordinals, observing a
  valid actor of an existing sync set returns an alias at the first turn that is not blocked by another
  writer; no uniqueness constraint can fail.
\<close>

theorem observe_succeeds:
  assumes "store_reachable s" "st_handle s = OpenDB" "\<not> t_alias_exhausted (st_tables s)"
    and "setID \<in> set (t_sync_sets (st_tables s))" "setID \<noteq> []" "trim_space setID = setID" "match_actor actor"
  shows "\<exists>r s'. ObserveSyncSetActor (replicate n (True, \<lambda>t. t) @ (False, \<lambda>t. t) # turns) s setID actor = (Inr r, s')"
  using assms by (rule allocation_possible)

text \<open>
  Fixing the order of an installation accepts exactly the databases whose rows all follow one order, and
  afterwards every stored alias is the alias of its ordinal in the fixed order; a database without
  an issued alias gets the scrambled order.
\<close>

theorem alias_order_consistent:
  assumes "t_alias_order t = None"
  shows "(\<forall>t'. initializeAliasOrder t = Inr t' \<longrightarrow>
      (\<exists>ord. t_alias_order t' = Some ord \<and>
         (\<forall>r \<in> set (t_actors t). syncSetAlias (ar_Ordinal r) (ord \<noteq> ''sequential'') = Inr (ar_Alias r)) \<and>
         (t_actors t = [] \<and> t_alias_next t \<le> 1 \<longrightarrow> ord = ''scrambled''))) \<and>
    (is_ok (initializeAliasOrder t) \<longleftrightarrow>
       (\<exists>scrambled. \<forall>r \<in> set (t_actors t). syncSetAlias (ar_Ordinal r) scrambled = Inr (ar_Alias r)))"
proof -
  define seqs where "seqs \<longleftrightarrow> (\<forall>r \<in> set (t_actors t). syncSetAlias (ar_Ordinal r) False = Inr (ar_Alias r))"
  define scrs where "scrs \<longleftrightarrow> (\<forall>r \<in> set (t_actors t). syncSetAlias (ar_Ordinal r) True = Inr (ar_Alias r))"
  have eq: "initializeAliasOrder t =
     (if \<not> seqs \<and> \<not> scrs then Inl (ErrMsg ''inconsistent alias ordering'')
      else Inr (t\<lparr>t_alias_order := Some (if seqs \<and> (\<not> scrs \<or> 1 < t_alias_next t) then ''sequential'' else ''scrambled'')\<rparr>))"
    using assms by (simp add: initializeAliasOrder_def list_all_iff SequentialSyncSetAlias_def SyncSetAlias_def
        seqs_def scrs_def Let_def)
  have "(\<exists>scrambled. \<forall>r \<in> set (t_actors t). syncSetAlias (ar_Ordinal r) scrambled = Inr (ar_Alias r)) \<longleftrightarrow> seqs \<or> scrs"
    by (metis (full_types) seqs_def scrs_def)
  moreover have "t_actors t = [] \<Longrightarrow> seqs \<and> scrs" by (simp add: seqs_def scrs_def)
  ultimately show ?thesis by (auto simp: eq seqs_def [symmetric] scrs_def [symmetric])
qed

subsection \<open>Examples\<close>

lemma sample_identity: "match_actor ''u_abcdefghij''" "trim_space ''fam'' = ''fam''"
  by code_simp+

lemma sample_observed:
  "\<exists>r s'. ObserveSyncSetActor [(False, \<lambda>t. t)] sample_set_store ''fam'' ''u_abcdefghij'' = (Inr r, s')"
  using allocation_possible [OF sample_set_reachable sample_set_parts(1,2), of "''fam''" "''u_abcdefghij''" 0 "[]"]
    sample_identity by (simp add: sample_set_parts)

theorem observe_succeeds_witness:
  "\<exists>r s'. ObserveSyncSetActor [(True, \<lambda>t. t), (False, \<lambda>t. t)] sample_set_store ''fam'' ''u_abcdefghij'' = (Inr r, s')"
  using observe_succeeds [OF sample_set_reachable sample_set_parts(1,2), of "''fam''" "''u_abcdefghij''" 1 "[]"]
    sample_identity by (simp add: sample_set_parts)

theorem observe_stable_witness:
  "\<exists>r s'. ObserveSyncSetActor [(False, \<lambda>t. t)] sample_set_store ''fam'' ''u_abcdefghij'' = (Inr r, s') \<and>
     AliasByActor s' ''fam'' ''u_abcdefghij'' = Inr (ar_Alias r) \<and> ActorByAlias s' (ar_Alias r) = Inr r"
proof -
  obtain r s' where o: "ObserveSyncSetActor [(False, \<lambda>t. t)] sample_set_store ''fam'' ''u_abcdefghij'' = (Inr r, s')"
    using sample_observed by blast
  from observe_stable [OF sample_set_reachable fair_idle(1) o, of "[]"] o show ?thesis by blast
qed

theorem alias_never_reissued_witness:
  "\<exists>s r. store_reachable s \<and> r \<in> set (t_actors (st_tables s)) \<and>
     (\<forall>r' \<in> set (t_actors (st_tables (CloseStore s))). map lower (ar_Alias r') = map lower (ar_Alias r) \<longrightarrow> r' = r)"
proof -
  obtain r s where o: "ObserveSyncSetActor [(False, \<lambda>t. t)] sample_set_store ''fam'' ''u_abcdefghij'' = (Inr r, s)"
    using sample_observed by blast
  have "query_row P [] = Inl ErrNoRows" for P :: "AliasRecord \<Rightarrow> bool" by (simp add: query_row_Inl)
  then have "scanAlias sample_set_store (query sample_set_store (\<lambda>t. select_actor t ''fam'' ''u_abcdefghij'')) = Inl ErrNoRows"
    by (simp add: scanAlias_def query_def select_actor_def sample_set_parts)
  with o have "allocateAlias sample_set_store ''fam'' ''u_abcdefghij'' = (Inr r, s)"
    using sample_identity
    by (auto simp: ObserveSyncSetActor_def requireStore_open sample_set_parts Let_def split: prod.splits sum.splits if_splits)
  then have "s = snd (allocateAlias sample_set_store ''fam'' ''u_abcdefghij'')" by simp
  then have reach: "store_reachable s"
    using store_next [OF sample_set_reachable s_allocateAlias [OF _ sample_identity(2,1)]] by simp
  have r: "r \<in> set (t_actors (st_tables s))"
    using observe_result [OF o fair_idle(1) store_ok_reachable [OF sample_set_reachable]
        alias_inv_reachable [OF sample_set_reachable]] by simp
  have "store_steps s (CloseStore s)"
    unfolding store_steps_def by (rule r_into_rtranclp) (rule s_CloseStore)
  from alias_never_reissued [OF reach this r] reach r show ?thesis by blast
qed

theorem alias_order_consistent_witness:
  "\<exists>t'. initializeAliasOrder empty_tables = Inr t' \<and> t_alias_order t' = Some ''scrambled''"
proof -
  have n: "t_alias_order empty_tables = None" "t_actors empty_tables = []" "t_alias_next empty_tables = 1"
    by (simp_all add: empty_tables_def)
  from alias_order_consistent [OF n(1)] have "is_ok (initializeAliasOrder empty_tables)" by (simp add: n)
  then obtain t' where "initializeAliasOrder empty_tables = Inr t'" by (cases "initializeAliasOrder empty_tables") auto
  with alias_order_consistent [OF n(1)] show ?thesis by (auto simp: n)
qed

end
