(* ===== verification/PollSpec.thy ===== *)
theory PollSpec
  imports StoreFrame
begin

text \<open>
  Polls, suppressed echoes and participant handles: the aggregate of a poll is what its sources say, a
  vote replaces exactly one actor's selections, an echo is suppressed exactly once, and a handle leads
  back to its actor.
\<close>

subsection \<open>Sums\<close>

lemma map_of_map_key: "map_of (map (\<lambda>i. (i, f i)) xs) i = (if i \<in> set xs then Some (f i) else None)"
  by (induction xs) auto

lemma count_sum_by_option: "count_of (sum_by_option rows) i = sum_list (map snd (filter (\<lambda>r. fst r = i) rows))"
proof (cases "i \<in> fst ` set rows")
  case True
  then show ?thesis by (simp add: count_of_def sum_by_option_def map_of_map_key)
next
  case False
  then have "filter (\<lambda>r. fst r = i) rows = []" by (auto simp: filter_empty_conv rev_image_eqI)
  with False show ?thesis by (simp add: count_of_def sum_by_option_def map_of_map_key)
qed

lemma keys_ok_distinct: "keys_ok key rows \<Longrightarrow> distinct rows"
  by (simp add: keys_ok_def distinct_map)

lemma sum_product_filter:
  assumes "distinct xs" "distinct ys"
  shows "sum_list (map f (filter Q (List.product xs ys))) = sum f {x \<in> set xs \<times> set ys. Q x}"
proof -
  have "distinct (filter Q (List.product xs ys))" using assms by (simp add: distinct_product)
  then have "sum_list (map f (filter Q (List.product xs ys))) = sum f (set (filter Q (List.product xs ys)))"
    by (rule sum_list_distinct_conv_sum_set)
  moreover have "set (filter Q (List.product xs ys)) = {x \<in> set xs \<times> set ys. Q x}" by auto
  ultimately show ?thesis by simp
qed

text \<open>The kind of source an endpoint is for a poll.\<close>

definition has_source :: "tables \<Rightarrow> string \<Rightarrow> string \<Rightarrow> string \<Rightarrow> bool" where
  "has_source t cid kind e \<longleftrightarrow>
     (\<exists>p \<in> set (t_poll_sources t). pe_CanonicalID p = cid \<and> pe_EndpointID p = e \<and> pe_SourceKind p = kind)"

definition voters :: "tables \<Rightarrow> string \<Rightarrow> int \<Rightarrow> (string \<times> string) set" where
  "voters t cid i =
     {(e, a). has_source t cid ''actor'' e \<and>
        (\<exists>r \<in> set (t_poll_selections t). actor_row cid e a r \<and> pa_Index r = i)}"

definition snapshot_rows :: "tables \<Rightarrow> string \<Rightarrow> int \<Rightarrow> PollEndpointSnapshot set" where
  "snapshot_rows t cid i =
     {r \<in> set (t_poll_snapshots t). pn_CanonicalID r = cid \<and> pn_Index r = i \<and> has_source t cid ''snapshot'' (pn_EndpointID r)}"

lemma source_unique:
  assumes "db_ok t" "p \<in> set (t_poll_sources t)" "q \<in> set (t_poll_sources t)"
    "pe_CanonicalID p = pe_CanonicalID q" "pe_EndpointID p = pe_EndpointID q"
  shows "p = q"
  using keys_ok_unique [of key_source "t_poll_sources t" p q] assms by (simp add: db_ok_keys key_source_def)

text \<open>The joined rows that the two halves of the query add up for an option.\<close>

definition actor_join :: "string \<Rightarrow> int \<Rightarrow> PollEndpointSource \<times> PollActorSelection \<Rightarrow> bool" where
  "actor_join cid i = (\<lambda>(p, r). pa_Index r = i \<and> pa_CanonicalID r = pe_CanonicalID p \<and>
     pa_EndpointID r = pe_EndpointID p \<and> pe_CanonicalID p = cid \<and> pe_SourceKind p = ''actor'')"

definition snapshot_join :: "string \<Rightarrow> int \<Rightarrow> PollEndpointSource \<times> PollEndpointSnapshot \<Rightarrow> bool" where
  "snapshot_join cid i = (\<lambda>(p, r). pn_Index r = i \<and> pn_CanonicalID r = pe_CanonicalID p \<and>
     pn_EndpointID r = pe_EndpointID p \<and> pe_CanonicalID p = cid \<and> pe_SourceKind p = ''snapshot'')"

definition actor_pairs :: "tables \<Rightarrow> string \<Rightarrow> int \<Rightarrow> (PollEndpointSource \<times> PollActorSelection) set" where
  "actor_pairs t cid i = {x \<in> set (t_poll_sources t) \<times> set (t_poll_selections t). actor_join cid i x}"

definition snapshot_pairs :: "tables \<Rightarrow> string \<Rightarrow> int \<Rightarrow> (PollEndpointSource \<times> PollEndpointSnapshot) set" where
  "snapshot_pairs t cid i = {x \<in> set (t_poll_sources t) \<times> set (t_poll_snapshots t). snapshot_join cid i x}"

definition voter_of :: "PollEndpointSource \<times> PollActorSelection \<Rightarrow> string \<times> string" where
  "voter_of x = (pa_EndpointID (snd x), pa_ActorHash (snd x))"

lemma actor_filter:
  "map snd (filter (\<lambda>r. fst r = i) (actor_part t cid)) =
     map (\<lambda>_. 1) (filter (actor_join cid i) (List.product (t_poll_sources t) (t_poll_selections t)))"
  by (simp add: actor_part_def filter_map comp_def case_prod_unfold conj_ac actor_join_def)

lemma snapshot_filter:
  "map snd (filter (\<lambda>r. fst r = i) (snapshot_part t cid)) =
     map (\<lambda>x. pn_Count (snd x)) (filter (snapshot_join cid i) (List.product (t_poll_sources t) (t_poll_snapshots t)))"
  by (simp add: snapshot_part_def filter_map comp_def case_prod_unfold conj_ac snapshot_join_def)

lemma in_actor_pairs: "(p, r) \<in> actor_pairs t cid i \<longleftrightarrow>
    p \<in> set (t_poll_sources t) \<and> r \<in> set (t_poll_selections t) \<and> actor_row cid (pe_EndpointID p) (pa_ActorHash r) r \<and>
    pa_Index r = i \<and> pe_CanonicalID p = cid \<and> pe_SourceKind p = ''actor''"
  by (auto simp: actor_pairs_def actor_join_def actor_row_def)

lemma in_snapshot_pairs: "(p, r) \<in> snapshot_pairs t cid i \<longleftrightarrow>
    p \<in> set (t_poll_sources t) \<and> r \<in> set (t_poll_snapshots t) \<and> pn_EndpointID r = pe_EndpointID p \<and>
    pn_CanonicalID r = cid \<and> pn_Index r = i \<and> pe_CanonicalID p = cid \<and> pe_SourceKind p = ''snapshot''"
  by (auto simp: snapshot_pairs_def snapshot_join_def)

lemma inj_voter_of:
  assumes "db_ok t"
  shows "inj_on voter_of (actor_pairs t cid i)"
proof (rule inj_onI)
  fix v w assume vw: "v \<in> actor_pairs t cid i" "w \<in> actor_pairs t cid i" "voter_of v = voter_of w"
  obtain p r q u where pq: "v = (p, r)" "w = (q, u)" by (cases v; cases w)
  with vw have x: "(p, r) \<in> actor_pairs t cid i" and y: "(q, u) \<in> actor_pairs t cid i"
    and eq: "voter_of (p, r) = voter_of (q, u)" by blast+
  from x y eq have "key_selection r = key_selection u"
    by (simp only: in_actor_pairs actor_row_def voter_of_def key_selection_def snd_conv prod.inject simp_thms)
  moreover have "r \<in> set (t_poll_selections t)" "u \<in> set (t_poll_selections t)"
    using x y by (simp_all only: in_actor_pairs)
  ultimately have "r = u" using keys_ok_unique [OF db_ok_keys(13) [OF assms]] by blast
  moreover have "pe_EndpointID p = pa_EndpointID r" "pe_EndpointID q = pa_EndpointID u"
    "pe_CanonicalID p = cid" "pe_CanonicalID q = cid"
    using x y by (simp_all only: in_actor_pairs actor_row_def)
  moreover have "p \<in> set (t_poll_sources t)" "q \<in> set (t_poll_sources t)"
    using x y by (simp_all only: in_actor_pairs)
  ultimately show "v = w" unfolding pq using source_unique [OF assms] by metis
qed

lemma inj_snapshot:
  assumes "db_ok t"
  shows "inj_on snd (snapshot_pairs t cid i)"
proof (rule inj_onI)
  fix v w assume vw: "v \<in> snapshot_pairs t cid i" "w \<in> snapshot_pairs t cid i" "snd v = snd w"
  obtain p r q u where pq: "v = (p, r)" "w = (q, u)" by (cases v; cases w)
  with vw have x: "(p, r) \<in> snapshot_pairs t cid i" and y: "(q, u) \<in> snapshot_pairs t cid i"
    and eq: "snd (p, r) = snd (q, u)" by blast+
  have "r = u" using eq by simp
  moreover have "pe_EndpointID p = pn_EndpointID r" "pe_EndpointID q = pn_EndpointID u"
    "pe_CanonicalID p = cid" "pe_CanonicalID q = cid"
    using x y by (simp_all only: in_snapshot_pairs)
  moreover have "p \<in> set (t_poll_sources t)" "q \<in> set (t_poll_sources t)"
    using x y by (simp_all only: in_snapshot_pairs)
  ultimately show "v = w" unfolding pq using source_unique [OF assms] by metis
qed

lemma voters_image: "voter_of ` actor_pairs t cid i = voters t cid i"
proof (intro equalityI subsetI)
  fix x assume "x \<in> voter_of ` actor_pairs t cid i"
  then obtain p r where pr: "(p, r) \<in> actor_pairs t cid i" and x: "x = voter_of (p, r)" by (metis imageE surj_pair)
  from pr have "has_source t cid ''actor'' (pe_EndpointID p)" unfolding in_actor_pairs has_source_def by blast
  moreover from pr have "pa_EndpointID r = pe_EndpointID p" "pa_Index r = i" "r \<in> set (t_poll_selections t)"
    "actor_row cid (pe_EndpointID p) (pa_ActorHash r) r"
    by (simp_all only: in_actor_pairs actor_row_def)
  ultimately show "x \<in> voters t cid i" unfolding x voter_of_def voters_def by auto
next
  fix x assume "x \<in> voters t cid i"
  then obtain p r where "p \<in> set (t_poll_sources t)" "r \<in> set (t_poll_selections t)"
    "pe_CanonicalID p = cid" "pe_EndpointID p = fst x" "pe_SourceKind p = ''actor''"
    and row: "actor_row cid (fst x) (snd x) r" and "pa_Index r = i"
    by (cases x) (auto simp: voters_def has_source_def)
  moreover from row have "pa_ActorHash r = snd x" "pa_EndpointID r = fst x" by (simp_all only: actor_row_def)
  ultimately have "(p, r) \<in> actor_pairs t cid i" "x = voter_of (p, r)"
    by (simp_all add: in_actor_pairs voter_of_def)
  then show "x \<in> voter_of ` actor_pairs t cid i" by blast
qed

lemma snapshots_image: "snd ` snapshot_pairs t cid i = snapshot_rows t cid i"
proof (intro equalityI subsetI)
  fix r assume "r \<in> snd ` snapshot_pairs t cid i"
  then obtain p where "(p, r) \<in> snapshot_pairs t cid i" by auto
  then show "r \<in> snapshot_rows t cid i" unfolding in_snapshot_pairs snapshot_rows_def has_source_def by auto
next
  fix r assume "r \<in> snapshot_rows t cid i"
  then obtain p where "p \<in> set (t_poll_sources t)" "pe_CanonicalID p = cid" "pe_EndpointID p = pn_EndpointID r"
      "pe_SourceKind p = ''snapshot''" "r \<in> set (t_poll_snapshots t)" "pn_CanonicalID r = cid" "pn_Index r = i"
    unfolding snapshot_rows_def has_source_def by blast
  then have "(p, r) \<in> snapshot_pairs t cid i" by (simp only: in_snapshot_pairs simp_thms)
  then show "r \<in> snd ` snapshot_pairs t cid i" by force
qed

lemma actor_sum:
  assumes "db_ok t"
  shows "sum_list (map snd (filter (\<lambda>r. fst r = i) (actor_part t cid))) = int (card (voters t cid i))"
proof -
  have "distinct (t_poll_sources t)" "distinct (t_poll_selections t)"
    using assms by (auto intro: keys_ok_distinct db_ok_keys)
  then have "sum_list (map snd (filter (\<lambda>r. fst r = i) (actor_part t cid))) = (\<Sum>x \<in> actor_pairs t cid i. 1)"
    unfolding actor_filter actor_pairs_def by (rule sum_product_filter)
  also have "\<dots> = int (card (voter_of ` actor_pairs t cid i))"
    by (simp only: card_image [OF inj_voter_of [OF assms]] sum_constant mult_1_right of_nat_id)
  finally show ?thesis by (simp only: voters_image)
qed

lemma snapshot_sum:
  assumes "db_ok t"
  shows "sum_list (map snd (filter (\<lambda>r. fst r = i) (snapshot_part t cid))) = (\<Sum>r \<in> snapshot_rows t cid i. pn_Count r)"
proof -
  have "distinct (t_poll_sources t)" "distinct (t_poll_snapshots t)"
    using assms by (auto intro: keys_ok_distinct db_ok_keys)
  then have "sum_list (map snd (filter (\<lambda>r. fst r = i) (snapshot_part t cid))) =
      (\<Sum>x \<in> snapshot_pairs t cid i. pn_Count (snd x))"
    unfolding snapshot_filter snapshot_pairs_def by (rule sum_product_filter)
  also have "\<dots> = (\<Sum>r \<in> snd ` snapshot_pairs t cid i. pn_Count r)"
    by (simp only: sum.reindex [OF inj_snapshot [OF assms]] comp_def)
  finally show ?thesis by (simp only: snapshots_image)
qed

subsection \<open>Replacing selections\<close>

definition selection_row :: "string \<Rightarrow> string \<Rightarrow> string \<Rightarrow> int \<Rightarrow> int \<Rightarrow> PollActorSelection" where
  "selection_row cid e a u i =
     \<lparr>pa_CanonicalID = cid, pa_EndpointID = e, pa_ActorHash = a, pa_Index = i, pa_UpdatedAt = u\<rparr>"

lemma insert_selections_result:
  "insert_selections cid e a u is t = Inr t' \<Longrightarrow>
     t' = t\<lparr>t_poll_selections := t_poll_selections t @ map (selection_row cid e a u) is\<rparr>"
proof (induction cid e a u "is" t rule: insert_selections.induct)
  case (2 cid e a u i "is" t)
  let ?r = "\<lparr>pa_CanonicalID = cid, pa_EndpointID = e, pa_ActorHash = a, pa_Index = i, pa_UpdatedAt = u\<rparr>"
  let ?t = "t\<lparr>t_poll_selections := t_poll_selections t @ [?r]\<rparr>"
  from "2.prems" have "insert_selections cid e a u is ?t = Inr t'"
    by (auto simp: bind_res_Inr constraint_Inr)
  then have "t' = ?t\<lparr>t_poll_selections := t_poll_selections ?t @ map (selection_row cid e a u) is\<rparr>"
    by (rule "2.IH")
  moreover have "selection_row cid e a u i = ?r" by (simp add: selection_row_def)
  ultimately show ?case by simp
qed simp

lemma upsert_in: "r \<in> set (upsert key (\<lambda>new old. new) r rows)"
proof (cases "key r \<in> key ` set rows")
  case True
  then obtain x where "x \<in> set rows" "key x = key r" by force
  with True show ?thesis by (auto simp: upsert_def in_update)
qed (simp add: upsert_def)

lemma set_source_result:
  assumes "set_source k cid e t = Inr t'"
  shows "has_source t' cid k e" "t_poll_selections t' = t_poll_selections t"
    "t_poll_snapshots t' = t_poll_snapshots t"
proof -
  let ?p = "\<lparr>pe_CanonicalID = cid, pe_EndpointID = e, pe_SourceKind = k\<rparr>"
  have t': "t' = t\<lparr>t_poll_sources := upsert key_source (\<lambda>new old. new) ?p (t_poll_sources t)\<rparr>"
    using assms by (simp add: set_source_def constraint_Inr)
  have "?p \<in> set (t_poll_sources t')" by (simp add: t' upsert_in)
  then show "has_source t' cid k e" unfolding has_source_def by (intro bexI [of _ ?p]) simp_all
qed (use assms in \<open>auto simp: set_source_def constraint_Inr\<close>)

lemma replace_result:
  assumes "ReplacePollActorSelections now s cid e a is at = (Inr u, s')"
  shows "t_poll_selections (st_tables s') = delete_where (actor_row cid e a) (t_poll_selections (st_tables s)) @
      map (selection_row cid e a (unixMillis now at)) is \<and>
    has_source (st_tables s') cid ''actor'' e \<and> st_handle s' = OpenDB"
proof -
  from assms obtain t1 where opn: "st_handle s = OpenDB"
    and t1: "set_source ''actor'' cid e (st_tables s) = Inr t1"
    and ins: "insert_selections cid e a (unixMillis now at) is
       (t1\<lparr>t_poll_selections := delete_where (actor_row cid e a) (t_poll_selections t1)\<rparr>) = Inr (st_tables s')"
    and s': "s' = s\<lparr>st_tables := st_tables s'\<rparr>"
    by (auto simp: ReplacePollActorSelections_def op_simps)
  have "st_handle s' = OpenDB" using opn by (subst s') simp
  moreover have "has_source (st_tables s') cid ''actor'' e"
    using set_source_result(1) [OF t1] insert_selections_result [OF ins] by (simp add: has_source_def)
  ultimately show ?thesis
    using insert_selections_result [OF ins] set_source_result(2) [OF t1] by simp
qed

subsection \<open>Properties\<close>

text \<open>
  C38: the aggregate of a poll counts, for every option, each voter (an actor at an endpoint whose votes
  are known one by one) that selected it once, and adds the absolute counts of the endpoints that
  report only totals; the selections and totals of an endpoint that is now of another kind do not count.
\<close>

theorem poll_aggregate_exact:
  assumes "store_reachable s" "GetPollAggregateCounts s cid = Inr counts"
  shows "count_of counts i =
    int (card (voters (st_tables s) cid i)) + (\<Sum>r \<in> snapshot_rows (st_tables s) cid i. pn_Count r)"
proof -
  have ok: "db_ok (st_tables s)" using store_ok_reachable [OF assms(1)] by (simp add: store_ok_def)
  have "counts = sum_by_option (actor_part (st_tables s) cid @ snapshot_part (st_tables s) cid)"
    using assms(2) by (simp add: GetPollAggregateCounts_def op_simps)
  then show ?thesis by (simp add: count_sum_by_option actor_sum [OF ok] snapshot_sum [OF ok])
qed

definition sample_vote_store :: Store where
  "sample_vote_store =
     snd (ReplacePollActorSelections 1 sample_message_store ''m1'' ''family'' ''u_aaaaaaaaaa'' [1] (Some 1))"

lemma sample_vote:
  "ReplacePollActorSelections 1 sample_message_store ''m1'' ''family'' ''u_aaaaaaaaaa'' [1] (Some 1) =
     (Inr (), sample_vote_store)"
  "st_handle sample_vote_store = OpenDB"
  "t_poll_sources (st_tables sample_vote_store) =
     [\<lparr>pe_CanonicalID = ''m1'', pe_EndpointID = ''family'', pe_SourceKind = ''actor''\<rparr>]"
  "t_poll_selections (st_tables sample_vote_store) = [selection_row ''m1'' ''family'' ''u_aaaaaaaaaa'' 1 1]"
  "t_poll_snapshots (st_tables sample_vote_store) = []"
proof -
  have "requireOpaque ''canonical id'' ''m1'' = None" "validateEndpoint ''family'' = None"
    "validateActor ''u_aaaaaaaaaa'' = None" "validatePollIndexes [1] = None" by code_simp+
  note v = this ReplacePollActorSelections_def sample_message_eq sample_store_def empty_tables_def exec_tx_def exec_def
    set_source_def has_canonical_def has_key_def upsert_def delete_where_def unixMillis_def selection_row_def
  show "ReplacePollActorSelections 1 sample_message_store ''m1'' ''family'' ''u_aaaaaaaaaa'' [1] (Some 1) =
     (Inr (), sample_vote_store)"
    "st_handle sample_vote_store = OpenDB"
    "t_poll_sources (st_tables sample_vote_store) =
       [\<lparr>pe_CanonicalID = ''m1'', pe_EndpointID = ''family'', pe_SourceKind = ''actor''\<rparr>]"
    "t_poll_selections (st_tables sample_vote_store) = [selection_row ''m1'' ''family'' ''u_aaaaaaaaaa'' 1 1]"
    "t_poll_snapshots (st_tables sample_vote_store) = []"
    by (simp_all add: sample_vote_store_def v)
qed

theorem poll_aggregate_exact_witness:
  "\<exists>counts. GetPollAggregateCounts sample_vote_store ''m1'' = Inr counts \<and>
     count_of counts 1 = int (card (voters (st_tables sample_vote_store) ''m1'' 1)) \<and>
     (''family'', ''u_aaaaaaaaaa'') \<in> voters (st_tables sample_vote_store) ''m1'' 1"
proof -
  have r: "store_reachable sample_vote_store" unfolding sample_vote_store_def
    by (rule store_next [OF sample_message_reachable]) (rule s_ReplacePollActorSelections)
  have "requireOpaque ''canonical id'' ''m1'' = None" by code_simp
  then obtain counts where run: "GetPollAggregateCounts sample_vote_store ''m1'' = Inr counts"
    by (simp add: GetPollAggregateCounts_def query_def sample_vote)
  moreover have "snapshot_rows (st_tables sample_vote_store) ''m1'' 1 = {}"
    by (simp add: snapshot_rows_def sample_vote)
  moreover have "(''family'', ''u_aaaaaaaaaa'') \<in> voters (st_tables sample_vote_store) ''m1'' 1"
    by (simp add: voters_def has_source_def sample_vote selection_row_def actor_row_def)
  ultimately show ?thesis using poll_aggregate_exact [OF r run, of 1] by simp
qed

text \<open>
  A vote replaces exactly one actor's selections at one endpoint: afterwards the actor has selected
  exactly the given options, the endpoint's votes are known one by one, and the selections of everybody
  else and of the same actor at other endpoints are unchanged.
\<close>

theorem vote_replaces_selections:
  assumes "ReplacePollActorSelections now s cid e a is at = (Inr u, s')"
  shows "{i. (e, a) \<in> voters (st_tables s') cid i} = set is \<and>
    filter (\<lambda>r. \<not> actor_row cid e a r) (t_poll_selections (st_tables s')) =
    filter (\<lambda>r. \<not> actor_row cid e a r) (t_poll_selections (st_tables s))"
proof -
  note r = replace_result [OF assms]
  have row: "actor_row cid e a (selection_row cid e a v i)" "pa_Index (selection_row cid e a v i) = i" for v i
    by (simp_all add: actor_row_def selection_row_def)
  have "(e, a) \<in> voters (st_tables s') cid i \<longleftrightarrow> i \<in> set is" for i
  proof
    assume "i \<in> set is"
    then have "selection_row cid e a (unixMillis now at) i \<in> set (t_poll_selections (st_tables s'))"
      using r by simp
    with row r show "(e, a) \<in> voters (st_tables s') cid i" unfolding voters_def by blast
  qed (use r row in \<open>auto simp: voters_def\<close>)
  moreover have "filter (\<lambda>r. \<not> actor_row cid e a r) (map (selection_row cid e a v) is) = []" for v
    by (simp add: filter_empty_conv row)
  ultimately show ?thesis using r by (auto simp: delete_where_def)
qed

theorem vote_replaces_selections_witness:
  "{i. (''family'', ''u_aaaaaaaaaa'') \<in> voters (st_tables sample_vote_store) ''m1'' i} = {1}"
  using vote_replaces_selections [OF sample_vote(1)] by simp

text \<open>
  the echo of a reaction the bridge has sent is suppressed exactly once: after it was recorded the
  first check finds and clears it, the next one does not, and no other marker is touched.
\<close>

theorem echo_suppressed_once:
  assumes "RecordSuppressedReaction now s e m emoji at = (Inr u, s1)"
  shows "\<exists>s2. CheckAndClearSuppressedReaction s1 e m emoji = (Inr True, s2) \<and>
    CheckAndClearSuppressedReaction s2 e m emoji = (Inr False, s2) \<and>
    t_sup_reactions (st_tables s2) = filter (\<lambda>r. key_suppressed r \<noteq> (e, m, emoji)) (t_sup_reactions (st_tables s))"
proof -
  let ?P = "\<lambda>r. key_suppressed r = (e, m, emoji)"
  let ?old = "delete_where ?P (t_sup_reactions (st_tables s))"
  let ?r = "\<lparr>su_EndpointID = e, su_RemoteMessageID = m, su_Emoji = emoji, su_CreatedAt = unixMillis now at\<rparr>"
  have opn: "st_handle s = OpenDB" and s1: "s1 = s\<lparr>st_tables := (st_tables s)\<lparr>t_sup_reactions := ?old @ [?r]\<rparr>\<rparr>"
    using assms by (auto simp: RecordSuppressedReaction_def op_simps)
  let ?s2 = "s\<lparr>st_tables := (st_tables s)\<lparr>t_sup_reactions := ?old\<rparr>\<rparr>"
  have key: "?P ?r" by (simp add: key_suppressed_def)
  have none: "count_where ?P ?old = 0" "delete_where ?P ?old = ?old"
    by (auto simp: count_where_zero delete_where_def)
  have "count_where ?P (?old @ [?r]) = 1" "delete_where ?P (?old @ [?r]) = ?old"
    using none key by (simp_all add: count_where_def delete_where_def)
  then have "CheckAndClearSuppressedReaction s1 e m emoji = (Inr True, ?s2)"
    using opn by (simp add: CheckAndClearSuppressedReaction_def requireStore_def exec_def wrapDB_def Let_def s1)
  moreover have "CheckAndClearSuppressedReaction ?s2 e m emoji = (Inr False, ?s2)"
    using opn none by (simp add: CheckAndClearSuppressedReaction_def requireStore_def exec_def wrapDB_def Let_def)
  ultimately show ?thesis by (fastforce simp: delete_where_def)
qed

theorem echo_suppressed_once_witness:
  "\<exists>s1 s2. RecordSuppressedReaction 1 sample_store ''family'' ''42'' ''x'' (Some 1) = (Inr (), s1) \<and>
     CheckAndClearSuppressedReaction s1 ''family'' ''42'' ''x'' = (Inr True, s2) \<and>
     CheckAndClearSuppressedReaction s2 ''family'' ''42'' ''x'' = (Inr False, s2)"
proof -
  obtain s1 where run: "RecordSuppressedReaction 1 sample_store ''family'' ''42'' ''x'' (Some 1) = (Inr (), s1)"
    by (simp add: RecordSuppressedReaction_def requireStore_def wrapDB_def exec_def sample_store_def)
  show ?thesis using echo_suppressed_once [OF run] run by blast
qed

end
