(* ===== verification/RetentionSpec.thy ===== *)
theory RetentionSpec
  imports StoreFrame
begin

text \<open>
  Retention deletes exactly what is too old, whatever the batch size: the loop over the batches is one
  deletion of all messages that satisfy its condition.
\<close>

lemma count_in_ids:
  assumes "keys_ok cm_ID rows" "set cs \<subseteq> set rows" "distinct cs"
  shows "count_where (\<lambda>c. cm_ID c \<in> cm_ID ` set cs) rows = length cs"
proof -
  have "{c. cm_ID c \<in> cm_ID ` set cs} \<inter> set rows = set cs"
    using keys_ok_unique [OF assms(1)] assms(2) by blast
  moreover have "distinct rows" using assms(1) by (simp add: keys_ok_def distinct_map)
  ultimately show ?thesis
    using assms(3) by (simp add: count_where_def distinct_length_filter distinct_card)
qed

definition batch_of :: "(CanonicalMessage \<Rightarrow> bool) \<Rightarrow> nat \<Rightarrow> tables \<Rightarrow> CanonicalMessage list" where
  "batch_of P batch t = take batch (sort_key cm_CreatedAt (filter P (t_canonical t)))"

lemma batch_of_facts:
  assumes "keys_ok cm_ID (t_canonical t)"
  shows "set (batch_of P batch t) \<subseteq> {c \<in> set (t_canonical t). P c}" "distinct (batch_of P batch t)"
    "length (batch_of P batch t) = min batch (count_where P (t_canonical t))"
    "count_where P (t_canonical t) \<le> batch \<Longrightarrow> set (batch_of P batch t) = {c \<in> set (t_canonical t). P c}"
proof -
  have "distinct (t_canonical t)" using assms by (simp add: keys_ok_def distinct_map)
  then show "distinct (batch_of P batch t)" by (simp add: batch_of_def)
  show "set (batch_of P batch t) \<subseteq> {c \<in> set (t_canonical t). P c}"
    unfolding batch_of_def by (rule subset_trans [OF set_take_subset]) auto
  show "length (batch_of P batch t) = min batch (count_where P (t_canonical t))"
    by (simp add: batch_of_def count_where_def)
  show "set (batch_of P batch t) = {c \<in> set (t_canonical t). P c}" if "count_where P (t_canonical t) \<le> batch"
    using that by (auto simp: batch_of_def count_where_def)
qed

lemma prune_batch_eq:
  assumes "keys_ok cm_ID (t_canonical t)"
  shows "prune_batch P batch t =
    (min batch (count_where P (t_canonical t)), delete_canonicals (\<lambda>i. i \<in> cm_ID ` set (batch_of P batch t)) t)"
proof -
  have "batch_ids P batch t = map cm_ID (batch_of P batch t)" by (simp add: batch_ids_def batch_of_def)
  then show ?thesis
    using count_in_ids [OF assms, of "batch_of P batch t"] batch_of_facts [OF assms]
    by (auto simp: prune_batch_def Let_def)
qed

lemma delete_canonicals_twice:
  "delete_canonicals g (delete_canonicals h t) = delete_canonicals (\<lambda>i. h i \<or> g i) t"
  by (simp add: delete_canonicals_def delete_where_twice)

lemma delete_canonicals_cong:
  assumes "fk_ok t" "\<And>c. c \<in> set (t_canonical t) \<Longrightarrow> g (cm_ID c) = h (cm_ID c)"
  shows "delete_canonicals g t = delete_canonicals h t"
proof -
  have same: "delete_where (\<lambda>r. g (f r)) rows = delete_where (\<lambda>r. h (f r)) rows"
    if "refer f rows (cm_ID ` set (t_canonical t))" for f :: "'r \<Rightarrow> string" and rows
    unfolding delete_where_def
  proof (rule filter_cong [OF refl])
    fix r assume "r \<in> set rows"
    with that obtain c where c: "c \<in> set (t_canonical t)" "f r = cm_ID c" unfolding refer_def by blast
    show "(\<not> g (f r)) = (\<not> h (f r))" unfolding c(2) assms(2) [OF c(1)] ..
  qed
  have hashes: "refer ps_CanonicalID (t_poll_hashes t) (cm_ID ` set (t_canonical t))"
  proof -
    have "refer (\<lambda>r. (ps_CanonicalID r, ps_Index r)) (t_poll_hashes t) (key_option ` set (t_poll_options t))"
      and po: "refer po_CanonicalID (t_poll_options t) (cm_ID ` set (t_canonical t))"
      using assms(1) unfolding fk_ok_def by blast+
    then have "(ps_CanonicalID r, ps_Index r) \<in> key_option ` set (t_poll_options t)" if "r \<in> set (t_poll_hashes t)" for r
      using that unfolding refer_def by blast
    then have "ps_CanonicalID r \<in> po_CanonicalID ` set (t_poll_options t)" if "r \<in> set (t_poll_hashes t)" for r
      using that by (fastforce simp: key_option_def)
    with po show ?thesis unfolding refer_def by blast
  qed
  have ids: "refer cm_ID (t_canonical t) (cm_ID ` set (t_canonical t))" by (simp add: refer_def)
  have refs: "refer mc_CanonicalID (t_copies t) (cm_ID ` set (t_canonical t))"
    "refer sc_CanonicalID (t_scopes t) (cm_ID ` set (t_canonical t))"
    "refer rx_CanonicalID (t_reactions t) (cm_ID ` set (t_canonical t))"
    "refer do_CanonicalID (t_operations t) (cm_ID ` set (t_canonical t))"
    "refer st_CanonicalID (t_steps t) (cm_ID ` set (t_canonical t))"
    "refer po_CanonicalID (t_poll_options t) (cm_ID ` set (t_canonical t))"
    "refer pe_CanonicalID (t_poll_sources t) (cm_ID ` set (t_canonical t))"
    "refer pa_CanonicalID (t_poll_selections t) (cm_ID ` set (t_canonical t))"
    "refer pn_CanonicalID (t_poll_snapshots t) (cm_ID ` set (t_canonical t))"
    "refer pr_CanonicalID (t_poll_refs t) (cm_ID ` set (t_canonical t))"
    "refer pc_CanonicalID (t_companions t) (cm_ID ` set (t_canonical t))"
    using assms(1) unfolding fk_ok_def by blast+
  show ?thesis
    unfolding delete_canonicals_def same [OF hashes] same [OF ids] refs [THEN same] ..
qed

lemma canonical_delete: "t_canonical (delete_canonicals g t) = filter (\<lambda>c. \<not> g (cm_ID c)) (t_canonical t)"
  by (simp add: delete_canonicals_def delete_where_def)

definition expired_ids :: "(CanonicalMessage \<Rightarrow> bool) \<Rightarrow> tables \<Rightarrow> string \<Rightarrow> bool" where
  "expired_ids P t i \<longleftrightarrow> (\<exists>c \<in> set (t_canonical t). cm_ID c = i \<and> P c)"

lemma expired_ids_row: "keys_ok cm_ID (t_canonical t) \<Longrightarrow> c \<in> set (t_canonical t) \<Longrightarrow> expired_ids P t (cm_ID c) = P c"
  unfolding expired_ids_def by (metis keys_ok_unique)

text \<open>The loop, if the context is never done, in one step.\<close>

lemma prune_loop_exact:
  assumes "db_ok t" "0 < batch"
  shows "prune_loop (\<lambda>_. None) P batch n acc t =
    (None, acc + int (count_where P (t_canonical t)), delete_canonicals (expired_ids P t) t)"
  using assms
proof (induction "length (t_canonical t)" arbitrary: n acc t rule: less_induct)
  case less
  have keys: "keys_ok cm_ID (t_canonical t)" and fk: "fk_ok t"
    using less.prems(1) by (simp_all add: db_ok_keys db_ok_def)
  define m where "m = count_where P (t_canonical t)"
  define g where "g = (\<lambda>i. i \<in> cm_ID ` set (batch_of P batch t))"
  have pb: "prune_batch P batch t = (min batch m, delete_canonicals g t)"
    using prune_batch_eq [OF keys] by (simp add: m_def g_def)
  have g_row: "g (cm_ID c) \<longleftrightarrow> c \<in> set (batch_of P batch t)" if "c \<in> set (t_canonical t)" for c
    using that batch_of_facts(1) [OF keys] keys_ok_unique [OF keys] unfolding g_def by blast
  show ?case
  proof (cases "min batch m < batch")
    case True
    then have all: "set (batch_of P batch t) = {c \<in> set (t_canonical t). P c}"
      using batch_of_facts(4) [OF keys] by (simp add: m_def)
    have "delete_canonicals g t = delete_canonicals (expired_ids P t) t"
      using fk by (rule delete_canonicals_cong) (simp add: g_row all expired_ids_row [OF keys])
    with True show ?thesis
      by (subst prune_loop.simps) (simp add: pb m_def [symmetric] min_def split: if_splits)
  next
    case False
    let ?t = "delete_canonicals g t"
    have db: "db_ok ?t" using less.prems(1) by (rule db_delete_canonicals)
    have "length (t_canonical ?t) < length (t_canonical t)"
      using prune_batch_less [OF assms(2), of P t] False by (simp add: pb)
    note rest = less.hyps [OF this db assms(2), of "n + 1" "acc + int batch"]
    have gone: "count_where P (t_canonical ?t) + batch = m"
    proof -
      have cnt: "count_where (\<lambda>c. g (cm_ID c)) (t_canonical t) = batch"
        using count_in_ids [OF keys, of "batch_of P batch t"] batch_of_facts [OF keys, of P batch] False
        unfolding g_def m_def by (simp add: subset_iff)
      have sub: "filter (\<lambda>c. g (cm_ID c)) (t_canonical t) = filter (\<lambda>c. P c \<and> g (cm_ID c)) (t_canonical t)"
        using batch_of_facts(1) [OF keys, of P batch] by (intro filter_cong) (auto simp: g_row)
      have rest: "filter P (t_canonical ?t) = filter (\<lambda>c. P c \<and> \<not> g (cm_ID c)) (t_canonical t)"
        by (simp add: canonical_delete conj_commute)
      have split: "length (filter (\<lambda>c. P c \<and> \<not> g (cm_ID c)) xs) + length (filter (\<lambda>c. P c \<and> g (cm_ID c)) xs) =
          length (filter P xs)" for xs
        by (induction xs) auto
      show ?thesis
        using split [of "t_canonical t"] cnt by (simp add: count_where_def m_def sub rest)
    qed
    have "delete_canonicals (expired_ids P ?t) ?t = delete_canonicals (expired_ids P t) t"
      unfolding delete_canonicals_twice
      by (rule delete_canonicals_cong [OF fk])
         (use batch_of_facts(1) [OF keys] keys_ok_unique [OF keys] in
           \<open>auto simp: expired_ids_row [OF keys] g_row canonical_delete expired_ids_def\<close>)
    with rest gone False show ?thesis
      using assms(2) by (subst prune_loop.simps) (simp add: pb m_def [symmetric] min_def split: if_splits)
  qed
qed

subsection \<open>Properties\<close>

text \<open>
  pruning by age deletes exactly the messages created before the cutoff, with every row that belongs to
  them, and the suppression markers from before it, and returns how many messages went, for every batch size.
\<close>

theorem prune_older_exact:
  assumes "store_reachable s" "st_handle s = OpenDB"
  shows "PruneOlderThan (\<lambda>_. None) now s (Some cutoff) batchSize =
    ((int (count_where (\<lambda>c. cm_CreatedAt c < cutoff) (t_canonical (st_tables s))), None),
     s\<lparr>st_tables := delete_canonicals (expired_ids (\<lambda>c. cm_CreatedAt c < cutoff) (st_tables s))
       (prune_suppressed (\<lambda>r. su_CreatedAt r < cutoff) (st_tables s))\<rparr>)"
proof -
  let ?t = "prune_suppressed (\<lambda>r. su_CreatedAt r < cutoff) (st_tables s)"
  have "db_ok ?t" using store_ok_reachable [OF assms(1)] by (simp add: store_ok_def db_prune_suppressed)
  moreover have "t_canonical ?t = t_canonical (st_tables s)" by (simp add: prune_suppressed_def)
  ultimately show ?thesis
    using assms(2) prune_loop_exact [of ?t "nat (if batchSize \<le> 0 then 1000 else batchSize)" _ 0 0]
    by (simp add: PruneOlderThan_def Let_def unixMillis_def expired_ids_def [abs_def])
qed

definition sample_old_store :: Store where
  "sample_old_store = snd (CreateCanonical 0 sample_message_store ''m2'' (Some (100 * day_millis)))"

lemma sample_old_reachable: "store_reachable sample_old_store"
  unfolding sample_old_store_def by (rule store_next [OF sample_message_reachable]) (rule s_CreateCanonical)

lemma sample_old_parts:
  "st_handle sample_old_store = OpenDB"
  "map cm_ID (t_canonical (st_tables sample_old_store)) = [''m1'', ''m2'']"
  "map cm_CreatedAt (t_canonical (st_tables sample_old_store)) = [0, 100 * day_millis]"
  "map cm_SyncSetID (t_canonical (st_tables sample_old_store)) = [None, None]"
proof -
  have "requireOpaque ''canonical id'' ''m2'' = None" by code_simp
  note defs = this sample_old_store_def CreateCanonical_def wrapDB_def exec_def sample_message_eq sample_store_def
    has_canonical_def has_key_def unixMillis_def
  show "st_handle sample_old_store = OpenDB"
    "map cm_ID (t_canonical (st_tables sample_old_store)) = [''m1'', ''m2'']"
    "map cm_CreatedAt (t_canonical (st_tables sample_old_store)) = [0, 100 * day_millis]"
    "map cm_SyncSetID (t_canonical (st_tables sample_old_store)) = [None, None]"
    by (simp_all add: defs)
qed

theorem prune_older_exact_witness:
  "fst (PruneOlderThan (\<lambda>_. None) 0 sample_old_store (Some 1) 1) = (1, None)"
proof -
  have "count_where (\<lambda>c. cm_CreatedAt c < 1) (t_canonical (st_tables sample_old_store)) =
      length (filter (\<lambda>n. n < 1) (map cm_CreatedAt (t_canonical (st_tables sample_old_store))))"
    by (simp add: count_where_def filter_map comp_def)
  also have "\<dots> = 1" by (simp add: sample_old_parts day_millis_def)
  finally show ?thesis
    using prune_older_exact [OF sample_old_reachable sample_old_parts(1), of 0 1 1] by simp
qed

lemma prune_policy_canonical:
  assumes "db_ok t" "0 < batch"
  shows "t_canonical (snd (prune_policy now batch i d t)) =
      filter (\<lambda>c. \<not> (cm_SyncSetID c = Some i \<and> cm_CreatedAt c < now - d * day_millis)) (t_canonical t)"
    and "t_sync_sets (snd (prune_policy now batch i d t)) = t_sync_sets t"
proof -
  let ?t = "prune_suppressed (\<lambda>r. su_CreatedAt r < now - d * day_millis \<and> in_sync_set t i (su_EndpointID r)) t"
  have "db_ok ?t" using assms(1) by (rule db_prune_suppressed)
  moreover have "t_canonical ?t = t_canonical t" by (simp add: prune_suppressed_def)
  ultimately show "t_canonical (snd (prune_policy now batch i d t)) =
      filter (\<lambda>c. \<not> (cm_SyncSetID c = Some i \<and> cm_CreatedAt c < now - d * day_millis)) (t_canonical t)"
    using prune_loop_exact [of ?t batch _ 0 0] assms
    by (auto simp: prune_policy_def Let_def canonical_delete expired_ids_row db_ok_keys intro!: filter_cong)
  show "t_sync_sets (snd (prune_policy now batch i d t)) = t_sync_sets t"
    using frame_prune_policy [of now batch i d t] by (simp add: frame_def)
qed

definition policy_expired :: "int \<Rightarrow> (string \<times> int) list \<Rightarrow> CanonicalMessage \<Rightarrow> bool" where
  "policy_expired now policies c \<longleftrightarrow>
     (\<exists>(i, d) \<in> set policies. cm_SyncSetID c = Some i \<and> cm_CreatedAt c < now - d * day_millis)"

lemma prune_policies_canonical:
  "db_ok t \<Longrightarrow> 0 < batch \<Longrightarrow> list_all (\<lambda>(i, d). 1 \<le> d) policies \<Longrightarrow>
     fst (prune_policies now batch policies acc t) = None \<and>
     t_canonical (snd (snd (prune_policies now batch policies acc t))) =
       filter (\<lambda>c. \<not> policy_expired now policies c) (t_canonical t) \<and>
     t_sync_sets (snd (snd (prune_policies now batch policies acc t))) = t_sync_sets t"
proof (induction now batch policies acc t rule: prune_policies.induct)
  case (1 now batch acc t)
  then show ?case by (simp add: policy_expired_def)
next
  case (2 now batch i d policies acc t)
  let ?t = "snd (prune_policy now batch i d t)"
  have days: "\<not> d < 1" "list_all (\<lambda>(i, d). 1 \<le> d) policies" using "2.prems"(3) by auto
  have "db_ok ?t" using "2.prems"(1) by (rule db_prune_policy)
  with "2.IH" [OF days(1) refl] "2.prems"(2) days(2)
  have IH: "fst (prune_policies now batch policies (acc + fst (prune_policy now batch i d t)) ?t) = None"
    "t_canonical (snd (snd (prune_policies now batch policies (acc + fst (prune_policy now batch i d t)) ?t))) =
       filter (\<lambda>c. \<not> policy_expired now policies c) (t_canonical ?t)"
    "t_sync_sets (snd (snd (prune_policies now batch policies (acc + fst (prune_policy now batch i d t)) ?t))) =
       t_sync_sets ?t" by blast+
  show ?case
    using days(1) "2.prems"(1,2)
    by (auto simp: Let_def IH prune_policy_canonical policy_expired_def intro!: filter_cong)
qed

text \<open>
  retention by sync set keeps exactly the messages that are younger than the policy of the set they
  were routed in, and among the orphans, whose set no longer exists, those younger than 90 days, in
  whatever order the policies are taken and for every batch size.
\<close>

theorem prune_sync_sets_exact:
  assumes "store_reachable s" "st_handle s = OpenDB" "list_all (\<lambda>(i, d). 1 \<le> d) policies"
    and "PruneSyncSetRetention now s policies batchSize = ((n, err), s')"
  shows "err = None \<and>
    t_canonical (st_tables s') =
      filter (\<lambda>c. \<not> policy_expired now policies c \<and>
        \<not> (cm_CreatedAt c < now - 90 * day_millis \<and> orphan_message (st_tables s) c)) (t_canonical (st_tables s))"
proof -
  define batch where "batch = nat (if batchSize \<le> 0 then 1000 else batchSize)"
  have pos: "0 < batch" by (simp add: batch_def)
  have db: "db_ok (st_tables s)" using store_ok_reachable [OF assms(1)] by (simp add: store_ok_def)
  obtain e acc t where run: "prune_policies now batch policies 0 (st_tables s) = (e, acc, t)"
    by (rule prod_cases3)
  from prune_policies_canonical [OF db pos assms(3), of now 0]
  have t: "e = None" "t_canonical t = filter (\<lambda>c. \<not> policy_expired now policies c) (t_canonical (st_tables s))"
    "t_sync_sets t = t_sync_sets (st_tables s)" by (simp_all add: run)
  have dbt: "db_ok t" using db_prune_policies [OF db, of now batch policies 0] by (simp add: run)
  let ?t = "prune_suppressed (\<lambda>r. su_CreatedAt r < now - 90 * day_millis \<and> \<not> in_some_sync_set t (su_EndpointID r)) t"
  have "db_ok ?t" using dbt by (rule db_prune_suppressed)
  moreover have "t_canonical ?t = t_canonical t" "orphan_message ?t = orphan_message t"
    by (simp_all add: prune_suppressed_def orphan_message_def fun_eq_iff split: option.splits)
  ultimately have "t_canonical (snd (prune_orphans now batch t)) =
      filter (\<lambda>c. \<not> (cm_CreatedAt c < now - 90 * day_millis \<and> orphan_message t c)) (t_canonical t)"
    using prune_loop_exact [of ?t batch _ 0 0] pos dbt
    by (auto simp: prune_orphans_def Let_def canonical_delete expired_ids_row db_ok_keys intro!: filter_cong)
  moreover have "orphan_message t = orphan_message (st_tables s)"
    by (simp add: orphan_message_def fun_eq_iff t(3) split: option.split)
  moreover have "err = None" "s' = s\<lparr>st_tables := snd (prune_orphans now batch t)\<rparr>"
    using assms(2,4) run t(1) by (simp_all add: PruneSyncSetRetention_def Let_def batch_def)
  ultimately show ?thesis by (simp add: t(2) conj_commute)
qed

theorem prune_sync_sets_exact_witness:
  "\<exists>n s'. PruneSyncSetRetention (120 * day_millis) sample_old_store [(''fam'', 30)] 1 = ((n, None), s') \<and>
     map cm_ID (t_canonical (st_tables s')) = [''m2'']"
proof -
  obtain n err s' where run:
    "PruneSyncSetRetention (120 * day_millis) sample_old_store [(''fam'', 30)] 1 = ((n, err), s')"
    by (metis prod.collapse)
  obtain a b where rows: "t_canonical (st_tables sample_old_store) = [a, b]" "cm_ID b = ''m2''"
      "cm_CreatedAt a = 0" "cm_CreatedAt b = 100 * day_millis" "cm_SyncSetID a = None" "cm_SyncSetID b = None"
    using sample_old_parts by (auto simp: map_eq_Cons_conv)
  have "err = None" and "t_canonical (st_tables s') = [b]"
    using prune_sync_sets_exact [OF sample_old_reachable sample_old_parts(1) _ run]
    by (simp_all add: rows policy_expired_def orphan_message_def day_millis_def)
  with run rows(2) show ?thesis by simp
qed

end
