(* ===== verification/Config.thy ===== *)
theory Config
  imports StoreInvariant
begin

text \<open>
  The configuration (\<^verbatim>\<open>internal/config/config.go\<close>, \<^verbatim>\<open>sync_set_settings.go\<close>, \<^verbatim>\<open>save_routing.go\<close>): its
  validation and defaults, and how it is loaded from and saved to the routing tables. A Go map from
  aliases to endpoints is the list of its entries, in the order an iteration takes. The messages of
  errors leave out the values they quote. The structs \<^verbatim>\<open>Storage\<close> and \<^verbatim>\<open>Polls\<close> are their only field. The JSON text of a column of settings is the settings it encodes.
\<close>

record Media =
  md_Enabled :: bool
  md_MaxSizeMB :: int

record Recovery =
  rv_Enabled :: bool
  rv_MaxAgeHours :: int
  rv_MaxMessagesPerGroup :: int

record WhatsAppCleanup =
  wc_Enabled :: bool
  wc_RetentionDays :: int

record SyncSetSettings =
  ss_MembershipReviewEnabled :: bool
  ss_PrivateDMRelayEnabled :: bool
  ss_ChildContextDisplayMode :: string
  ss_Media :: Media
  ss_Recovery :: Recovery
  ss_MessageRetentionDays :: int
  ss_AggregationTrigger :: string
  ss_WhatsAppCleanup :: WhatsAppCleanup
  ss_LocalPrefix :: string

record Endpoint =
  ce_AnonymizeIncoming :: bool
  ce_AnonymizeOutgoing :: bool
  ce_Transport :: string
  ce_ConnectionID :: string
  ce_RemoteID :: string

record SyncSet =
  set_ID :: string
  set_Endpoints :: "string list"
  set_AnonymizeToDiscord :: bool
  set_Settings :: "SyncSetSettings option"

record Config =
  cfg_PrivateDMRelayEnabled :: bool
  cfg_Endpoints :: "(string \<times> Endpoint) list"
  cfg_SyncSets :: "SyncSet list"
  cfg_Media :: Media
  cfg_Recovery :: Recovery
  cfg_MessageRetentionDays :: int
  cfg_AggregationTrigger :: string
  cfg_WhatsAppCleanup :: WhatsAppCleanup
  cfg_LocalPrefix :: string
  cfg_WhatsAppDeviceName :: string
  cfg_ChildContextDisplayMode :: string

subsection \<open>Validation\<close>

definition ChildContextDisplayOpaque :: string where "ChildContextDisplayOpaque = ''opaque''"
definition ChildContextDisplayFriendly :: string where "ChildContextDisplayFriendly = ''friendly''"

definition mode_IsValid :: "string \<Rightarrow> bool" where
  "mode_IsValid m = (m = ChildContextDisplayOpaque \<or> m = ChildContextDisplayFriendly)"

definition transport_IsValid :: "string \<Rightarrow> bool" where
  "transport_IsValid t = (t = ''whatsapp'' \<or> t = ''discord'' \<or> t = ''telegram'')"

definition fail_if :: "bool \<Rightarrow> string \<Rightarrow> gerr option" where
  "fail_if b m = (if b then Some (ErrMsg m) else None)"

lemma fail_if_None [simp]: "fail_if b m = None \<longleftrightarrow> \<not> b"
  by (simp add: fail_if_def)

definition ValidateWhatsAppDeviceName :: "string \<Rightarrow> gerr option" where
  "ValidateWhatsAppDeviceName name =
     (let name = trim_space name in
      or_else (fail_if (name = []) ''WhatsApp device name cannot be empty'')
     (or_else (fail_if (contains_any name ctl_chars) ''WhatsApp device name contains invalid control characters'')
      (fail_if (64 < length name) ''WhatsApp device name must be at most 64 UTF-8 bytes'')))"

definition ValidateLocalPrefix :: "string \<Rightarrow> gerr option" where
  "ValidateLocalPrefix prefix =
      or_else (fail_if (contains_any prefix ctl_chars) ''local message prefix contains invalid control characters'')
     (or_else (fail_if (prefix \<noteq> [] \<and> trim_space prefix = [])
                 ''local message prefix must contain a non-whitespace character'')
      (fail_if (256 < length prefix) ''local message prefix must be at most 256 UTF-8 bytes''))"

definition ValidateAggregationTrigger :: "string \<Rightarrow> gerr option" where
  "ValidateAggregationTrigger trigger =
      or_else (fail_if (contains_any trigger ctl_chars) ''poll aggregation trigger contains invalid control characters'')
      (fail_if (256 < length trigger) ''poll aggregation trigger must be at most 256 UTF-8 bytes'')"

definition ValidateAlias :: "string \<Rightarrow> gerr option" where
  "ValidateAlias alias = fail_if (\<not> match_endpoint alias) ''endpoint alias must match''"

definition ValidateConnectionID :: "string \<Rightarrow> gerr option" where
  "ValidateConnectionID ident =
     (let ident = trim_space ident in
      or_else (fail_if (ident = []) ''endpoint connection id is required'')
      (fail_if (\<not> match_endpoint ident) ''endpoint connection id must match''))"

definition ValidateSyncSetID :: "string \<Rightarrow> gerr option" where
  "ValidateSyncSetID ident = fail_if (\<not> match_endpoint ident) ''sync set id must match''"

text \<open>\<^verbatim>\<open>^[0-9A-Za-z._-]+@g\.us$\<close>, \<^verbatim>\<open>^[0-9]{1,20}$\<close> and \<^verbatim>\<open>^-[1-9][0-9]{0,18}$\<close>.\<close>

definition match_jid :: "string \<Rightarrow> bool" where
  "match_jid s =
     (has_suffix s ''@g.us'' \<and> 5 < length s \<and>
      list_all (\<lambda>c. is_alnum c \<or> c = CHR ''.'' \<or> c = CHR ''_'' \<or> c = CHR ''-'') (take (length s - 5) s))"

definition match_discord_id :: "string \<Rightarrow> bool" where
  "match_discord_id s = (1 \<le> length s \<and> length s \<le> 20 \<and> list_all is_digit s)"

definition match_telegram_id :: "string \<Rightarrow> bool" where
  "match_telegram_id s =
     (case s of
        m # d # ds \<Rightarrow> m = CHR ''-'' \<and> is_digit d \<and> d \<noteq> CHR ''0'' \<and> length ds \<le> 18 \<and> list_all is_digit ds
      | _ \<Rightarrow> False)"

definition ValidateGroupJID :: "string \<Rightarrow> gerr option" where
  "ValidateGroupJID jid =
     (let jid = trim_space jid in
      or_else (fail_if (jid = []) ''group jid is required'')
      (fail_if (\<not> match_jid jid) ''group jid is invalid WhatsApp group JID''))"

text \<open>A number that does not fit \<^verbatim>\<open>uint64\<close> or \<^verbatim>\<open>int64\<close> is an error of the parser.\<close>

definition ValidateEndpointRemoteID :: "string \<Rightarrow> string \<Rightarrow> gerr option" where
  "ValidateEndpointRemoteID transport remoteID =
     (let remoteID = trim_space remoteID in
      or_else (fail_if (\<not> transport_IsValid transport) ''endpoint transport must be whatsapp, discord, or telegram'')
     (or_else (fail_if (remoteID = []) ''endpoint remote id is required'')
     (or_else (fail_if (contains_any remoteID ctl_chars) ''endpoint remote id contains invalid control characters'')
     (or_else (fail_if (transport = ''whatsapp'' \<and> \<not> match_jid remoteID)
                 ''endpoint remote id is invalid WhatsApp group JID'')
     (or_else (fail_if (transport = ''discord'' \<and>
                    (\<not> match_discord_id remoteID \<or> 2 ^ 64 \<le> int (digits_value remoteID) \<or> digits_value remoteID = 0))
                 ''endpoint remote id is invalid Discord channel ID'')
      (fail_if (transport = ''telegram'' \<and>
                    (\<not> match_telegram_id remoteID \<or> 2 ^ 63 < int (digits_value (tl remoteID))))
                 ''endpoint remote id is invalid Telegram group/supergroup chat ID''))))))"

definition settings_Validate :: "SyncSetSettings \<Rightarrow> gerr option" where
  "settings_Validate s =
      or_else (fail_if (\<not> mode_IsValid (ss_ChildContextDisplayMode s)) ''childContextDisplayMode must be opaque or friendly'')
     (or_else (fail_if (md_MaxSizeMB (ss_Media s) < 1) ''media.maxSizeMB must be positive'')
     (or_else (fail_if (rv_MaxAgeHours (ss_Recovery s) < 1) ''recovery.maxAgeHours must be positive'')
     (or_else (fail_if (rv_MaxMessagesPerGroup (ss_Recovery s) < 1) ''recovery.maxMessagesPerGroup must be positive'')
     (or_else (fail_if (ss_MessageRetentionDays s < 1) ''storage.messageRetentionDays must be positive'')
     (or_else (fail_if (wc_RetentionDays (ss_WhatsAppCleanup s) < 1) ''whatsappCleanup.retentionDays must be positive'')
     (or_else (ValidateLocalPrefix (ss_LocalPrefix s))
      (ValidateAggregationTrigger (ss_AggregationTrigger s))))))))"

definition settings_Normalize :: "SyncSetSettings \<Rightarrow> SyncSetSettings" where
  "settings_Normalize s =
     (let trigger = join '' '' (go_fields (ss_AggregationTrigger s))
      in s\<lparr>ss_LocalPrefix := join '' '' (go_fields (ss_LocalPrefix s)),
           ss_AggregationTrigger := (if trigger = [] then ''aggregate-response'' else trigger)\<rparr>)"

text \<open>
  The loops of \<^verbatim>\<open>Config.Validate\<close>: over the endpoints with the map of remote targets, over the
  endpoints of a set with its own aliases and the map of memberships, and over the sets.
\<close>

definition remote_key :: "Endpoint \<Rightarrow> string" where
  "remote_key e = ce_Transport e @ CHR 0x00 # trim_space (ce_RemoteID e)"

fun validate_endpoints :: "string list \<Rightarrow> (string \<times> Endpoint) list \<Rightarrow> gerr option" where
  "validate_endpoints targets [] = None"
| "validate_endpoints targets ((alias, e) # es) =
      or_else (ValidateAlias alias)
     (or_else (map_option (ErrWrap ''endpoint'') (ValidateConnectionID (ce_ConnectionID e)))
     (or_else (map_option (ErrWrap ''endpoint'') (ValidateEndpointRemoteID (ce_Transport e) (ce_RemoteID e)))
     (or_else (fail_if (remote_key e \<in> set targets) ''endpoints use the same remote target'')
      (validate_endpoints (remote_key e # targets) es))))"

fun validate_members ::
  "(string \<times> Endpoint) list \<Rightarrow> string list \<Rightarrow> string list \<Rightarrow> string list \<Rightarrow> gerr + string list" where
  "validate_members eps seen membership [] = Inr membership"
| "validate_members eps seen membership (alias # as) =
     (if map_of eps alias = None then Inl (ErrMsg ''sync set references unknown endpoint'')
      else if alias \<in> set seen then Inl (ErrMsg ''sync set repeats endpoint'')
      else if alias \<in> set membership then Inl (ErrMsg ''endpoint belongs to both'')
      else validate_members eps (alias # seen) (alias # membership) as)"

fun validate_sets :: "(string \<times> Endpoint) list \<Rightarrow> string list \<Rightarrow> SyncSet list \<Rightarrow> gerr + string list" where
  "validate_sets eps membership [] = Inr membership"
| "validate_sets eps membership (s # sets) =
     (case or_else (case set_Settings s of None \<Rightarrow> None
                     | Some settings \<Rightarrow> map_option (ErrWrap ''sync set'') (settings_Validate settings))
            (or_else (ValidateSyncSetID (set_ID s))
              (fail_if (length (set_Endpoints s) < 2) ''sync set must contain at least two endpoints'')) of
        Some e \<Rightarrow> Inl e
      | None \<Rightarrow> bind_res (validate_members eps [] membership (set_Endpoints s))
                 (\<lambda>membership. validate_sets eps membership sets))"

definition cfg_Validate :: "Config \<Rightarrow> gerr option" where
  "cfg_Validate c =
      or_else (fail_if (length (cfg_Endpoints c) < 2) ''at least two endpoints are required'')
     (or_else (fail_if (length (cfg_SyncSets c) = 0) ''at least one sync set is required'')
     (or_else (fail_if (cfg_ChildContextDisplayMode c \<noteq> [] \<and> \<not> mode_IsValid (cfg_ChildContextDisplayMode c))
                 ''childContextDisplayMode must be opaque or friendly'')
     (or_else (ValidateLocalPrefix (cfg_LocalPrefix c))
     (or_else (ValidateAggregationTrigger (cfg_AggregationTrigger c))
     (or_else (ValidateWhatsAppDeviceName (cfg_WhatsAppDeviceName c))
     (or_else (fail_if (md_MaxSizeMB (cfg_Media c) < 1) ''media.maxSizeMB must be positive'')
     (or_else (fail_if (rv_MaxAgeHours (cfg_Recovery c) < 1) ''recovery.maxAgeHours must be positive'')
     (or_else (fail_if (rv_MaxMessagesPerGroup (cfg_Recovery c) < 1) ''recovery.maxMessagesPerGroup must be positive'')
     (or_else (fail_if (cfg_MessageRetentionDays c < 1) ''storage.messageRetentionDays must be positive'')
     (or_else (fail_if (wc_Enabled (cfg_WhatsAppCleanup c) \<and> wc_RetentionDays (cfg_WhatsAppCleanup c) < 1)
                 ''whatsappCleanup.retentionDays must be positive'')
     (or_else (validate_endpoints [] (cfg_Endpoints c))
      (case validate_sets (cfg_Endpoints c) [] (cfg_SyncSets c) of
         Inl e \<Rightarrow> Some e
       | Inr membership \<Rightarrow>
           fail_if (list_ex (\<lambda>(alias, e). alias \<notin> set membership) (cfg_Endpoints c))
             ''endpoint is not assigned to a sync set''))))))))))))"

subsection \<open>Defaults and settings\<close>

definition or_default :: "int \<Rightarrow> int \<Rightarrow> int" where
  "or_default n d = (if n = 0 then d else n)"

definition applyDefaults :: "Config \<Rightarrow> Config" where
  "applyDefaults c =
     (let trigger = join '' '' (go_fields (cfg_AggregationTrigger c))
      in c\<lparr>cfg_Media := (cfg_Media c)\<lparr>md_MaxSizeMB := or_default (md_MaxSizeMB (cfg_Media c)) 100\<rparr>,
           cfg_Recovery := (cfg_Recovery c)
             \<lparr>rv_MaxAgeHours := or_default (rv_MaxAgeHours (cfg_Recovery c)) 24,
              rv_MaxMessagesPerGroup := or_default (rv_MaxMessagesPerGroup (cfg_Recovery c)) 200\<rparr>,
           cfg_MessageRetentionDays := or_default (cfg_MessageRetentionDays c) 90,
           cfg_AggregationTrigger := (if trigger = [] then ''aggregate-response'' else trigger),
           cfg_LocalPrefix := join '' '' (go_fields (cfg_LocalPrefix c)),
           cfg_WhatsAppCleanup := (cfg_WhatsAppCleanup c)
             \<lparr>wc_RetentionDays := or_default (wc_RetentionDays (cfg_WhatsAppCleanup c)) 30\<rparr>,
           cfg_WhatsAppDeviceName :=
             (if trim_space (cfg_WhatsAppDeviceName c) = [] then ''message-sync'' else cfg_WhatsAppDeviceName c),
           cfg_ChildContextDisplayMode :=
             (if cfg_ChildContextDisplayMode c = [] then ChildContextDisplayOpaque
              else cfg_ChildContextDisplayMode c)\<rparr>)"

definition DefaultSyncSetSettings :: SyncSetSettings where
  "DefaultSyncSetSettings =
     \<lparr>ss_MembershipReviewEnabled = False, ss_PrivateDMRelayEnabled = False,
      ss_ChildContextDisplayMode = ChildContextDisplayOpaque,
      ss_Media = \<lparr>md_Enabled = True, md_MaxSizeMB = 100\<rparr>,
      ss_Recovery = \<lparr>rv_Enabled = True, rv_MaxAgeHours = 24, rv_MaxMessagesPerGroup = 200\<rparr>,
      ss_MessageRetentionDays = 90, ss_AggregationTrigger = ''aggregate-response'',
      ss_WhatsAppCleanup = \<lparr>wc_Enabled = False, wc_RetentionDays = 30\<rparr>, ss_LocalPrefix = []\<rparr>"

definition LegacySettings :: "Config \<Rightarrow> SyncSetSettings" where
  "LegacySettings c =
     (let copy = applyDefaults c
      in \<lparr>ss_MembershipReviewEnabled = False, ss_PrivateDMRelayEnabled = False,
          ss_ChildContextDisplayMode = cfg_ChildContextDisplayMode copy, ss_Media = cfg_Media copy,
          ss_Recovery = cfg_Recovery copy, ss_MessageRetentionDays = cfg_MessageRetentionDays copy,
          ss_AggregationTrigger = cfg_AggregationTrigger copy, ss_WhatsAppCleanup = cfg_WhatsAppCleanup copy,
          ss_LocalPrefix = cfg_LocalPrefix copy\<rparr>)"

definition SettingsForSet :: "Config \<Rightarrow> SyncSet \<Rightarrow> SyncSetSettings" where
  "SettingsForSet c s = (case set_Settings s of Some settings \<Rightarrow> settings | None \<Rightarrow> LegacySettings c)"

definition SettingsForEndpoint :: "Config \<Rightarrow> string \<Rightarrow> SyncSetSettings" where
  "SettingsForEndpoint c alias =
     (case find (\<lambda>s. alias \<in> set (set_Endpoints s)) (cfg_SyncSets c) of
        Some s \<Rightarrow> SettingsForSet c s
      | None \<Rightarrow> DefaultSyncSetSettings)"

definition EndpointSettings :: "Config \<Rightarrow> string \<Rightarrow> (string \<times> SyncSetSettings) list" where
  "EndpointSettings c connectionID =
     map (\<lambda>(alias, e). (alias, SettingsForEndpoint c alias))
       (filter (\<lambda>(alias, e). ce_ConnectionID e = connectionID) (cfg_Endpoints c))"

definition PrivateDMConnectionEnabled :: "Config \<Rightarrow> string \<Rightarrow> bool" where
  "PrivateDMConnectionEnabled c connectionID =
     (cfg_PrivateDMRelayEnabled c \<and>
      list_ex (\<lambda>(alias, e). ce_ConnectionID e = connectionID \<and>
        ss_PrivateDMRelayEnabled (SettingsForEndpoint c alias)) (cfg_Endpoints c))"

subsection \<open>The routing tables\<close>

text \<open>
  The columns of \<^verbatim>\<open>global_config\<close>, \<^verbatim>\<open>endpoints\<close> and \<^verbatim>\<open>sync_sets\<close>. \<open>rd_tables\<close> are the other tables, with the keys
  of endpoints and sets that foreign keys refer to.
\<close>

record GlobalRow =
  gl_Media :: Media
  gl_Recovery :: Recovery
  gl_MessageRetentionDays :: int
  gl_AggregationTrigger :: string
  gl_WhatsAppCleanup :: WhatsAppCleanup
  gl_LocalPrefix :: string
  gl_WhatsAppDeviceName :: string
  gl_ChildContextDisplayMode :: string
  gl_PrivateDMRelayEnabled :: bool

record BindingRow =
  br_Alias :: string
  br_Transport :: string
  br_ConnectionID :: string
  br_RemoteID :: string
  br_SyncSetID :: "string option"
  br_AnonymizeIncoming :: bool
  br_AnonymizeOutgoing :: bool

record SyncSetRow =
  sr_ID :: string
  sr_AnonymizeToDiscord :: bool
  sr_Settings :: "SyncSetSettings option"

record RoutingDB =
  rd_global :: "GlobalRow option"
  rd_endpoints :: "BindingRow list"
  rd_sets :: "SyncSetRow list"
  rd_tables :: tables

text \<open>The statements on the routing rows, with the actions of the foreign keys.\<close>

definition delete_binding :: "string \<Rightarrow> RoutingDB \<Rightarrow> RoutingDB" where
  "delete_binding alias d =
     d\<lparr>rd_endpoints := delete_where (\<lambda>r. br_Alias r = alias) (rd_endpoints d),
       rd_tables := remove_endpoint alias (rd_tables d)\<rparr>"

definition put_set :: "SyncSetRow \<Rightarrow> RoutingDB \<Rightarrow> RoutingDB" where
  "put_set row d =
     d\<lparr>rd_sets := upsert sr_ID (\<lambda>new old. new) row (rd_sets d), rd_tables := add_sync_set (sr_ID row) (rd_tables d)\<rparr>"

definition update_binding :: "BindingRow \<Rightarrow> BindingRow \<Rightarrow> BindingRow" where
  "update_binding new old =
     old\<lparr>br_SyncSetID := br_SyncSetID new, br_AnonymizeIncoming := br_AnonymizeIncoming new,
         br_AnonymizeOutgoing := br_AnonymizeOutgoing new\<rparr>"

definition put_binding :: "BindingRow \<Rightarrow> RoutingDB \<Rightarrow> RoutingDB result" where
  "put_binding row d =
     constraint (transport_IsValid (br_Transport row)) ''check''
     (constraint (\<not> list_ex (\<lambda>r. br_Alias r \<noteq> br_Alias row \<and> br_Transport r = br_Transport row \<and>
                       br_RemoteID r = br_RemoteID row) (rd_endpoints d)) ''unique''
     (constraint (case br_SyncSetID row of None \<Rightarrow> True | Some i \<Rightarrow> i \<in> sr_ID ` set (rd_sets d)) ''foreign key''
       (Inr (d\<lparr>rd_endpoints := upsert br_Alias update_binding row (rd_endpoints d),
               rd_tables := put_endpoint \<lparr>ep_Alias = br_Alias row, ep_SyncSetID = br_SyncSetID row\<rparr> (rd_tables d)\<rparr>))))"

definition delete_set :: "string \<Rightarrow> RoutingDB \<Rightarrow> RoutingDB" where
  "delete_set i d =
     d\<lparr>rd_sets := delete_where (\<lambda>r. sr_ID r = i) (rd_sets d),
       rd_endpoints := update_where (\<lambda>r. br_SyncSetID r = Some i) (\<lambda>r. r\<lparr>br_SyncSetID := None\<rparr>) (rd_endpoints d),
       rd_tables := remove_sync_set i (rd_tables d)\<rparr>"

subsection \<open>Loading\<close>

definition zero_config :: Config where
  "zero_config =
     \<lparr>cfg_PrivateDMRelayEnabled = False, cfg_Endpoints = [], cfg_SyncSets = [],
      cfg_Media = \<lparr>md_Enabled = False, md_MaxSizeMB = 0\<rparr>,
      cfg_Recovery = \<lparr>rv_Enabled = False, rv_MaxAgeHours = 0, rv_MaxMessagesPerGroup = 0\<rparr>,
      cfg_MessageRetentionDays = 0, cfg_AggregationTrigger = [],
      cfg_WhatsAppCleanup = \<lparr>wc_Enabled = False, wc_RetentionDays = 0\<rparr>, cfg_LocalPrefix = [],
      cfg_WhatsAppDeviceName = [], cfg_ChildContextDisplayMode = []\<rparr>"

definition load_global :: "GlobalRow option \<Rightarrow> Config" where
  "load_global g =
     applyDefaults (case g of None \<Rightarrow> zero_config
      | Some row \<Rightarrow> zero_config\<lparr>cfg_Media := gl_Media row, cfg_Recovery := gl_Recovery row,
          cfg_MessageRetentionDays := gl_MessageRetentionDays row,
          cfg_AggregationTrigger := gl_AggregationTrigger row, cfg_WhatsAppCleanup := gl_WhatsAppCleanup row,
          cfg_LocalPrefix := gl_LocalPrefix row, cfg_WhatsAppDeviceName := gl_WhatsAppDeviceName row,
          cfg_ChildContextDisplayMode := gl_ChildContextDisplayMode row,
          cfg_PrivateDMRelayEnabled := gl_PrivateDMRelayEnabled row\<rparr>)"

definition binding_endpoint :: "BindingRow \<Rightarrow> Endpoint" where
  "binding_endpoint r =
     \<lparr>ce_AnonymizeIncoming = br_AnonymizeIncoming r, ce_AnonymizeOutgoing = br_AnonymizeOutgoing r,
      ce_Transport = br_Transport r, ce_ConnectionID = br_ConnectionID r, ce_RemoteID = br_RemoteID r\<rparr>"

definition members_of :: "BindingRow list \<Rightarrow> string \<Rightarrow> string list" where
  "members_of rows i =
     map br_Alias (filter (\<lambda>r. case br_SyncSetID r of None \<Rightarrow> False | Some j \<Rightarrow> trim_space j \<noteq> [] \<and> j = i) rows)"

definition LoadRaw :: "RoutingDB \<Rightarrow> Config" where
  "LoadRaw d =
     (let c = load_global (rd_global d); rows = sort_key br_Alias (rd_endpoints d);
          c = c\<lparr>cfg_Endpoints := map (\<lambda>r. (br_Alias r, binding_endpoint r)) rows\<rparr>
      in c\<lparr>cfg_SyncSets := map (\<lambda>s.
           \<lparr>set_ID = sr_ID s, set_Endpoints = members_of rows (sr_ID s),
            set_AnonymizeToDiscord = sr_AnonymizeToDiscord s,
            set_Settings = Some (case sr_Settings s of None \<Rightarrow> LegacySettings c | Some settings \<Rightarrow> settings)\<rparr>)
           (sort_key sr_ID (rd_sets d))\<rparr>)"

definition Load :: "RoutingDB \<Rightarrow> Config result" where
  "Load d = (let c = LoadRaw d in try_err (cfg_Validate c) (Inr c))"

subsection \<open>Saving\<close>

definition retired_bindings :: "Config \<Rightarrow> RoutingDB \<Rightarrow> string list" where
  "retired_bindings c d =
     map br_Alias (filter (\<lambda>r.
       case map_of (cfg_Endpoints c) (br_Alias r) of
         None \<Rightarrow> True
       | Some e \<Rightarrow> ce_Transport e \<noteq> br_Transport r \<or> ce_ConnectionID e \<noteq> br_ConnectionID r \<or>
                   ce_RemoteID e \<noteq> br_RemoteID r) (rd_endpoints d))"

definition endpoint_sets :: "Config \<Rightarrow> string \<rightharpoonup> string" where
  "endpoint_sets c =
     foldl (\<lambda>m s. foldl (\<lambda>m alias. m(alias \<mapsto> set_ID s)) m (set_Endpoints s)) Map.empty (cfg_SyncSets c)"

text \<open>A missing key of the Go map of sets reads as the empty string.\<close>

definition binding_row :: "Config \<Rightarrow> string \<times> Endpoint \<Rightarrow> BindingRow" where
  "binding_row c p =
     \<lparr>br_Alias = fst p, br_Transport = ce_Transport (snd p), br_ConnectionID = ce_ConnectionID (snd p),
      br_RemoteID = ce_RemoteID (snd p),
      br_SyncSetID = Some (case endpoint_sets c (fst p) of None \<Rightarrow> [] | Some i \<Rightarrow> i),
      br_AnonymizeIncoming = ce_AnonymizeIncoming (snd p), br_AnonymizeOutgoing = ce_AnonymizeOutgoing (snd p)\<rparr>"

definition set_row :: "Config \<Rightarrow> SyncSet \<Rightarrow> SyncSetRow" where
  "set_row c s = \<lparr>sr_ID = set_ID s, sr_AnonymizeToDiscord = set_AnonymizeToDiscord s,
     sr_Settings = Some (SettingsForSet c s)\<rparr>"

fun put_bindings :: "BindingRow list \<Rightarrow> RoutingDB \<Rightarrow> RoutingDB result" where
  "put_bindings [] d = Inr d"
| "put_bindings (row # rows) d = bind_res (wrap_res ''save endpoint'' (put_binding row d)) (put_bindings rows)"

definition saveRoutingRows :: "Config \<Rightarrow> RoutingDB \<Rightarrow> RoutingDB result" where
  "saveRoutingRows c d =
     (let d = foldl (\<lambda>d alias. delete_binding alias d) d (retired_bindings c d);
          d = foldl (\<lambda>d s. put_set (set_row c s) d) d (cfg_SyncSets c)
      in bind_res (put_bindings (map (binding_row c) (cfg_Endpoints c)) d) (\<lambda>d.
           Inr (foldl (\<lambda>d i. delete_set i d) d
             (filter (\<lambda>i. i \<notin> set_ID ` set (cfg_SyncSets c)) (map sr_ID (rd_sets d))))))"

text \<open>The labels read before the routing rows change: with the transport and the remote ID of their endpoint.\<close>

definition saved_labels :: "RoutingDB \<Rightarrow> (ChildScopeLabel \<times> string \<times> string) list" where
  "saved_labels d =
     concat (map (\<lambda>l. map (\<lambda>r. (l, br_Transport r, br_RemoteID r))
       (filter (\<lambda>r. br_Alias r = lb_EndpointID l) (rd_endpoints d))) (t_labels (rd_tables d)))"

definition is_friendly :: "Config \<Rightarrow> string \<Rightarrow> bool" where
  "is_friendly c alias = (ss_ChildContextDisplayMode (SettingsForEndpoint c alias) = ChildContextDisplayFriendly)"

definition restored_label :: "Config \<Rightarrow> ChildScopeLabel \<times> string \<times> string \<Rightarrow> bool" where
  "restored_label c p =
     (case p of (l, transport, remoteID) \<Rightarrow>
        is_friendly c (lb_EndpointID l) \<and>
        (case map_of (cfg_Endpoints c) (lb_EndpointID l) of
           None \<Rightarrow> False | Some e \<Rightarrow> ce_Transport e = transport \<and> ce_RemoteID e = remoteID))"

definition restore_labels :: "Config \<Rightarrow> (ChildScopeLabel \<times> string \<times> string) list \<Rightarrow> tables \<Rightarrow> tables" where
  "restore_labels c saved t =
     t\<lparr>t_labels := foldl (\<lambda>rows p. insert_new key_label (fst p) rows)
        (delete_where (\<lambda>l. lb_EndpointID l \<in> fst ` set (cfg_Endpoints c) \<and> \<not> is_friendly c (lb_EndpointID l)) (t_labels t))
        (filter (restored_label c) saved)\<rparr>"

definition global_row :: "Config \<Rightarrow> GlobalRow" where
  "global_row c =
     \<lparr>gl_Media = cfg_Media c, gl_Recovery = cfg_Recovery c, gl_MessageRetentionDays = cfg_MessageRetentionDays c,
      gl_AggregationTrigger = cfg_AggregationTrigger c, gl_WhatsAppCleanup = cfg_WhatsAppCleanup c,
      gl_LocalPrefix = cfg_LocalPrefix c, gl_WhatsAppDeviceName = cfg_WhatsAppDeviceName c,
      gl_ChildContextDisplayMode = cfg_ChildContextDisplayMode c,
      gl_PrivateDMRelayEnabled = cfg_PrivateDMRelayEnabled c\<rparr>"

text \<open>The transaction: nothing is committed if a statement fails.\<close>

definition cfg_Save :: "RoutingDB \<Rightarrow> Config \<Rightarrow> gerr option \<times> RoutingDB" where
  "cfg_Save d c =
     (let c = applyDefaults c in
      (case cfg_Validate c of
         Some e \<Rightarrow> (Some e, d)
       | None \<Rightarrow>
           (case saveRoutingRows c (d\<lparr>rd_global := Some (global_row c)\<rparr>) of
              Inl e \<Rightarrow> (Some e, d)
            | Inr d' \<Rightarrow> (None, d'\<lparr>rd_tables := restore_labels c (saved_labels d) (rd_tables d')\<rparr>))))"

definition MigrateTelegramEndpoint ::
  "RoutingDB \<Rightarrow> string \<Rightarrow> string \<Rightarrow> string \<Rightarrow> string \<Rightarrow> gerr option \<times> RoutingDB" where
  "MigrateTelegramEndpoint d alias connectionID oldRemoteID newRemoteID =
     (let connectionID' = trim_space connectionID; old = trim_space oldRemoteID; new = trim_space newRemoteID;
          mine = (\<lambda>r. br_Alias r = alias \<and> br_Transport r = ''telegram'' \<and> br_ConnectionID r = connectionID')
      in (case or_else (ValidateAlias alias)
              (or_else (ValidateConnectionID connectionID')
              (or_else (fail_if (ValidateEndpointRemoteID ''telegram'' old \<noteq> None) ''old Telegram endpoint remote id is invalid'')
               (fail_if (ValidateEndpointRemoteID ''telegram'' new \<noteq> None) ''new Telegram endpoint remote id is invalid''))) of
            Some e \<Rightarrow> (Some e, d)
          | None \<Rightarrow>
              (case query_row mine (rd_endpoints d) of
                 Inl e \<Rightarrow> (Some (ErrMsg ''Telegram endpoint is not configured''), d)
               | Inr r \<Rightarrow>
                   if br_RemoteID r = new then (None, d)
                   else if br_RemoteID r \<noteq> old then (Some (ErrMsg ''Telegram endpoint addressing changed concurrently''), d)
                   else if list_ex (\<lambda>q. br_Alias q \<noteq> alias \<and> br_Transport q = ''telegram'' \<and> br_RemoteID q = new) (rd_endpoints d)
                   then (Some (ErrMsg ''update Telegram endpoint addressing''), d)
                   else (None, d\<lparr>rd_endpoints :=
                     update_where (\<lambda>r. mine r \<and> br_RemoteID r = old) (\<lambda>r. r\<lparr>br_RemoteID := new\<rparr>) (rd_endpoints d)\<rparr>))))"

end
