(* ===== verification/ConfigSave.thy ===== *)
theory ConfigSave
  imports Config StoreFrame
begin

text \<open>
  What a validated configuration is, and the steps of saving one: the statements of the transaction never
  violate a constraint, and what they leave in the routing tables is what loading reads back.
\<close>

subsection \<open>Validation\<close>

lemma validate_members_Inr:
  "validate_members eps seen m as = Inr m' \<Longrightarrow>
     set as \<subseteq> fst ` set eps \<and> distinct as \<and> set as \<inter> set seen = {} \<and> set as \<inter> set m = {} \<and> set m' = set as \<union> set m"
proof (induction eps seen m as rule: validate_members.induct)
  case (2 eps seen m a as)
  then show ?case by (auto simp: map_of_eq_None_iff split: if_splits)
qed simp

lemma validate_sets_Inr:
  "validate_sets eps m sets = Inr m' \<Longrightarrow>
     distinct (concat (map set_Endpoints sets)) \<and> set (concat (map set_Endpoints sets)) \<subseteq> fst ` set eps \<and>
     set (concat (map set_Endpoints sets)) \<inter> set m = {} \<and> set m' = set (concat (map set_Endpoints sets)) \<union> set m \<and>
     (\<forall>s \<in> set sets. 2 \<le> length (set_Endpoints s) \<and> match_endpoint (set_ID s))"
proof (induction eps m sets rule: validate_sets.induct)
  case (2 eps m s sets)
  from "2.prems" have local: "2 \<le> length (set_Endpoints s)" "match_endpoint (set_ID s)"
    and ok: "or_else (case set_Settings s of None \<Rightarrow> None
           | Some settings \<Rightarrow> map_option (ErrWrap ''sync set'') (settings_Validate settings))
        (or_else (ValidateSyncSetID (set_ID s))
          (fail_if (length (set_Endpoints s) < 2) ''sync set must contain at least two endpoints'')) = None"
    by (auto simp: ValidateSyncSetID_def split: option.split_asm)
  from "2.prems" ok obtain m1 where m1: "validate_members eps [] m (set_Endpoints s) = Inr m1"
    and rest: "validate_sets eps m1 sets = Inr m'" by (auto simp: bind_res_Inr)
  note M = validate_members_Inr [OF m1] and R = "2.IH" [OF ok rest]
  have "set (concat (map set_Endpoints sets)) \<inter> set (set_Endpoints s) = {}" using M R by blast
  with M R local show ?case by auto
qed simp

lemma validate_endpoints_None:
  "validate_endpoints ts es = None \<Longrightarrow>
     distinct (map (remote_key \<circ> snd) es) \<and> (\<forall>p \<in> set es. remote_key (snd p) \<notin> set ts \<and>
       match_endpoint (fst p) \<and> ValidateConnectionID (ce_ConnectionID (snd p)) = None \<and>
       ValidateEndpointRemoteID (ce_Transport (snd p)) (ce_RemoteID (snd p)) = None)"
proof (induction ts es rule: validate_endpoints.induct)
  case (2 ts a e es)
  then have "validate_endpoints (remote_key e # ts) es = None" by simp
  with "2.IH" "2.prems" show ?case by (force simp: ValidateAlias_def)
qed simp

text \<open>What the router and the saving rely on.\<close>

definition well_formed :: "Config \<Rightarrow> bool" where
  "well_formed c \<longleftrightarrow>
     distinct (concat (map set_Endpoints (cfg_SyncSets c))) \<and>
     set (concat (map set_Endpoints (cfg_SyncSets c))) = fst ` set (cfg_Endpoints c) \<and>
     (\<forall>s \<in> set (cfg_SyncSets c). 2 \<le> length (set_Endpoints s) \<and> match_endpoint (set_ID s)) \<and>
     distinct (map (remote_key \<circ> snd) (cfg_Endpoints c)) \<and>
     (\<forall>(a, e) \<in> set (cfg_Endpoints c). match_endpoint a \<and> transport_IsValid (ce_Transport e))"

lemma validate_well_formed:
  assumes "cfg_Validate c = None"
  shows "well_formed c"
proof -
  from assms have eps: "validate_endpoints [] (cfg_Endpoints c) = None"
    and s: "(case validate_sets (cfg_Endpoints c) [] (cfg_SyncSets c) of Inl e \<Rightarrow> Some e
       | Inr membership \<Rightarrow>
           fail_if (list_ex (\<lambda>(alias, e). alias \<notin> set membership) (cfg_Endpoints c))
             ''endpoint is not assigned to a sync set'') = None"
    by (simp_all add: cfg_Validate_def)
  from s obtain m where m: "validate_sets (cfg_Endpoints c) [] (cfg_SyncSets c) = Inr m"
    and all: "fst ` set (cfg_Endpoints c) \<subseteq> set m"
    by (force simp: list_ex_iff split: sum.split_asm)
  have "transport_IsValid t" if "ValidateEndpointRemoteID t r = None" for t r
    using that by (simp add: ValidateEndpointRemoteID_def Let_def)
  with validate_endpoints_None [OF eps] validate_sets_Inr [OF m] all show ?thesis
    unfolding well_formed_def by auto
qed

subsection \<open>Idempotent defaults\<close>

lemma default_trigger_fields: "go_fields ''aggregate-response'' = [''aggregate-response'']"
  by code_simp

lemma applyDefaults_twice: "applyDefaults (applyDefaults c) = applyDefaults c"
proof -
  have "trim_space ''message-sync'' \<noteq> []" by code_simp
  moreover have "ChildContextDisplayOpaque \<noteq> []" by (simp add: ChildContextDisplayOpaque_def)
  moreover have "or_default (or_default n d) d = or_default n d" for n d by (simp add: or_default_def)
  ultimately show ?thesis
    by (simp add: applyDefaults_def Let_def go_fields_twice default_trigger_fields)
qed

lemma applyDefaults_routing [simp]:
  "cfg_Endpoints (applyDefaults c) = cfg_Endpoints c" "cfg_SyncSets (applyDefaults c) = cfg_SyncSets c"
  by (simp_all add: applyDefaults_def Let_def)

subsection \<open>Saving\<close>

lemma set_upsert_replace:
  assumes "\<And>old. old \<in> set rows \<Longrightarrow> key old = key r \<Longrightarrow> upd r old = r"
  shows "set (upsert key upd r rows) = insert r {x \<in> set rows. key x \<noteq> key r}"
  using assms by (force simp: upsert_def update_where_def image_iff)

lemma set_upsert_all:
  "distinct (map key rs) \<Longrightarrow>
     set (foldl (\<lambda>rows r. upsert key (\<lambda>new old. new) r rows) rows rs) =
       set rs \<union> {x \<in> set rows. key x \<notin> key ` set rs}"
proof (induction rs arbitrary: rows)
  case (Cons r rs)
  then show ?case by (auto simp: set_upsert_replace rev_image_eqI)
qed simp

lemma keys_ok_upsert_same:
  assumes "keys_ok key rows" "\<And>old. old \<in> set rows \<Longrightarrow> key old = key r \<Longrightarrow> key (upd r old) = key r"
  shows "keys_ok key (upsert key upd r rows)"
proof (cases "key r \<in> key ` set rows")
  case True
  have "map key (update_where (\<lambda>x. key x = key r) (upd r) rows) = map key rows"
    using assms(2) by (auto simp: update_where_def)
  with True assms(1) show ?thesis by (simp add: upsert_def keys_ok_def)
qed (use assms(1) in \<open>simp add: upsert_def\<close>)

lemma keys_ok_upsert_all:
  "keys_ok key rows \<Longrightarrow> keys_ok key (foldl (\<lambda>rows r. upsert key (\<lambda>new old. new) r rows) rows rs)"
  by (induction rs arbitrary: rows) (simp_all add: keys_ok_upsert_same)

text \<open>The rows of the two routing tables and the keys that the other tables refer to agree.\<close>

definition endpoint_key :: "BindingRow \<Rightarrow> EndpointRow" where
  "endpoint_key r = \<lparr>ep_Alias = br_Alias r, ep_SyncSetID = br_SyncSetID r\<rparr>"

definition routing_ok :: "RoutingDB \<Rightarrow> bool" where
  "routing_ok d \<longleftrightarrow>
     keys_ok br_Alias (rd_endpoints d) \<and> keys_ok sr_ID (rd_sets d) \<and>
     map sr_ID (rd_sets d) = t_sync_sets (rd_tables d) \<and>
     map endpoint_key (rd_endpoints d) = t_endpoints (rd_tables d) \<and> db_ok (rd_tables d)"

lemma map_delete_where:
  "(\<And>x. x \<in> set rows \<Longrightarrow> P x = Q (f x)) \<Longrightarrow> map f (delete_where P rows) = delete_where Q (map f rows)"
  by (induction rows) (auto simp: delete_where_def)

lemma map_update_commute:
  "(\<And>x. x \<in> set rows \<Longrightarrow> P x = Q (f x)) \<Longrightarrow> (\<And>x. x \<in> set rows \<Longrightarrow> P x \<Longrightarrow> f (u x) = v (f x)) \<Longrightarrow>
     map f (update_where P u rows) = update_where Q v (map f rows)"
  by (induction rows) (auto simp: update_where_def)

lemma routing_delete_binding: "routing_ok d \<Longrightarrow> routing_ok (delete_binding a d)"
proof -
  assume ok: "routing_ok d"
  have "map endpoint_key (delete_where (\<lambda>r. br_Alias r = a) (rd_endpoints d)) =
      delete_where (\<lambda>e. ep_Alias e = a) (map endpoint_key (rd_endpoints d))"
    by (rule map_delete_where) (simp add: endpoint_key_def)
  moreover have "t_sync_sets (remove_endpoint a t) = t_sync_sets t"
    "t_endpoints (remove_endpoint a t) = delete_where (\<lambda>e. ep_Alias e = a) (t_endpoints t)" for t
    by (simp_all add: remove_endpoint_def)
  ultimately show ?thesis
    using ok by (simp add: routing_ok_def delete_binding_def db_remove_endpoint)
qed

lemma routing_put_set: "routing_ok d \<Longrightarrow> routing_ok (put_set row d)"
proof -
  assume ok: "routing_ok d"
  have "map sr_ID (upsert sr_ID (\<lambda>new old. new) row (rd_sets d)) = t_sync_sets (add_sync_set (sr_ID row) (rd_tables d))"
  proof (cases "sr_ID row \<in> sr_ID ` set (rd_sets d)")
    case True
    have "map sr_ID (update_where (\<lambda>x. sr_ID x = sr_ID row) (\<lambda>old. row) (rd_sets d)) = map sr_ID (rd_sets d)"
      by (auto simp: update_where_def)
    moreover from True ok have "sr_ID row \<in> set (t_sync_sets (rd_tables d))" unfolding routing_ok_def by (metis set_map)
    ultimately show ?thesis using True ok by (simp add: upsert_def add_sync_set_def routing_ok_def)
  next
    case False
    with ok have "sr_ID row \<notin> set (t_sync_sets (rd_tables d))" unfolding routing_ok_def by (metis set_map)
    with False ok show ?thesis by (simp add: upsert_def add_sync_set_def routing_ok_def)
  qed
  moreover have "t_endpoints (add_sync_set i t) = t_endpoints t" for i t by (simp add: add_sync_set_def)
  ultimately show ?thesis
    using ok by (simp add: routing_ok_def put_set_def keys_ok_upsert_same db_add_sync_set)
qed

lemma routing_put_binding: "put_binding row d = Inr d' \<Longrightarrow> routing_ok d \<Longrightarrow> routing_ok d'"
proof -
  assume p: "put_binding row d = Inr d'" and ok: "routing_ok d"
  let ?e = "\<lparr>ep_Alias = br_Alias row, ep_SyncSetID = br_SyncSetID row\<rparr>"
  have d': "d' = d\<lparr>rd_endpoints := upsert br_Alias update_binding row (rd_endpoints d),
      rd_tables := put_endpoint ?e (rd_tables d)\<rparr>"
    using p by (simp add: put_binding_def constraint_Inr)
  have "map endpoint_key (upsert br_Alias update_binding row (rd_endpoints d)) =
      upsert ep_Alias (\<lambda>new old. new) ?e (map endpoint_key (rd_endpoints d))"
  proof (cases "br_Alias row \<in> br_Alias ` set (rd_endpoints d)")
    case True
    have "map endpoint_key (update_where (\<lambda>x. br_Alias x = br_Alias row) (update_binding row) (rd_endpoints d)) =
        update_where (\<lambda>x. ep_Alias x = br_Alias row) (\<lambda>old. ?e) (map endpoint_key (rd_endpoints d))"
      by (rule map_update_commute) (simp_all add: endpoint_key_def update_binding_def)
    with True show ?thesis by (simp add: upsert_def image_image endpoint_key_def)
  next
    case False
    then show ?thesis by (simp add: upsert_def image_image endpoint_key_def)
  qed
  moreover have "t_sync_sets (put_endpoint e t) = t_sync_sets t"
    "t_endpoints (put_endpoint e t) = upsert ep_Alias (\<lambda>new old. new) e (t_endpoints t)" for e t
    by (simp_all add: put_endpoint_def)
  ultimately show ?thesis
    using ok by (simp add: routing_ok_def d' keys_ok_upsert_same update_binding_def db_put_endpoint)
qed

lemma routing_delete_set: "routing_ok d \<Longrightarrow> routing_ok (delete_set i d)"
proof -
  assume ok: "routing_ok d"
  have "map endpoint_key (update_where (\<lambda>r. br_SyncSetID r = Some i) (\<lambda>r. r\<lparr>br_SyncSetID := None\<rparr>) (rd_endpoints d)) =
      update_where (\<lambda>e. ep_SyncSetID e = Some i) (\<lambda>e. e\<lparr>ep_SyncSetID := None\<rparr>) (map endpoint_key (rd_endpoints d))"
    by (rule map_update_commute) (simp_all add: endpoint_key_def)
  moreover have "map sr_ID (delete_where (\<lambda>r. sr_ID r = i) (rd_sets d)) = filter (\<lambda>j. j \<noteq> i) (map sr_ID (rd_sets d))"
    by (simp add: delete_where_def filter_map comp_def)
  moreover have "t_sync_sets (remove_sync_set i t) = filter (\<lambda>j. j \<noteq> i) (t_sync_sets t)"
    "t_endpoints (remove_sync_set i t) =
       update_where (\<lambda>e. ep_SyncSetID e = Some i) (\<lambda>e. e\<lparr>ep_SyncSetID := None\<rparr>) (t_endpoints t)" for t
    by (simp_all add: remove_sync_set_def)
  ultimately show ?thesis
    using ok by (simp add: routing_ok_def delete_set_def db_remove_sync_set keys_ok_update)
qed

subsection \<open>The steps of saving\<close>

lemma fold_delete_binding:
  "foldl (\<lambda>d a. delete_binding a d) d as =
     d\<lparr>rd_endpoints := delete_where (\<lambda>r. br_Alias r \<in> set as) (rd_endpoints d),
       rd_tables := (rd_tables d)
         \<lparr>t_endpoints := delete_where (\<lambda>e. ep_Alias e \<in> set as) (t_endpoints (rd_tables d)),
          t_labels := delete_where (\<lambda>l. lb_EndpointID l \<in> set as) (t_labels (rd_tables d)),
          t_participants := delete_where (\<lambda>p. pt_EndpointID p \<in> set as) (t_participants (rd_tables d))\<rparr>\<rparr>"
proof (induction as arbitrary: d)
  case Nil
  then show ?case by (simp add: delete_where_def)
next
  case (Cons a as)
  then show ?case by (simp add: delete_binding_def remove_endpoint_def delete_where_twice)
qed

lemma fold_put_set:
  "foldl (\<lambda>d s. put_set (f s) d) d ss =
     d\<lparr>rd_sets := foldl (\<lambda>rows r. upsert sr_ID (\<lambda>new old. new) r rows) (rd_sets d) (map f ss),
       rd_tables := (rd_tables d)\<lparr>t_sync_sets :=
         foldl (\<lambda>is i. if i \<in> set is then is else is @ [i]) (t_sync_sets (rd_tables d)) (map (sr_ID \<circ> f) ss)\<rparr>\<rparr>"
proof (induction ss arbitrary: d)
  case (Cons s ss)
  then show ?case by (simp add: put_set_def add_sync_set_def)
qed simp

lemma update_where_False [simp]: "update_where (\<lambda>r. False) f rows = rows"
  by (simp add: update_where_def)

lemma update_where_twice:
  "(\<And>x. f (f x) = f x) \<Longrightarrow> (\<And>x. \<not> P (f x)) \<Longrightarrow>
     update_where P f (update_where Q f rows) = update_where (\<lambda>x. Q x \<or> P x) f rows"
  by (auto simp: update_where_def)

lemma fold_delete_set:
  "foldl (\<lambda>d i. delete_set i d) d is =
     d\<lparr>rd_sets := delete_where (\<lambda>r. sr_ID r \<in> set is) (rd_sets d),
       rd_endpoints := update_where (\<lambda>r. br_SyncSetID r \<in> Some ` set is) (\<lambda>r. r\<lparr>br_SyncSetID := None\<rparr>) (rd_endpoints d),
       rd_tables := (rd_tables d)
         \<lparr>t_sync_sets := filter (\<lambda>j. j \<notin> set is) (t_sync_sets (rd_tables d)),
          t_actors := delete_where (\<lambda>r. ar_SyncSetID r \<in> set is) (t_actors (rd_tables d)),
          t_endpoints := update_where (\<lambda>e. ep_SyncSetID e \<in> Some ` set is) (\<lambda>e. e\<lparr>ep_SyncSetID := None\<rparr>)
            (t_endpoints (rd_tables d))\<rparr>\<rparr>"
proof (induction "is" arbitrary: d)
  case Nil
  show ?case by (simp add: delete_where_def)
next
  case (Cons i "is")
  show ?case
    by (simp only: foldl.simps Cons.IH)
       (simp add: delete_set_def remove_sync_set_def delete_where_twice update_where_twice conj_commute image_iff disj_commute)
qed

text \<open>Rows that carry the provider address the configuration gives their alias.\<close>

definition matches :: "Config \<Rightarrow> BindingRow \<Rightarrow> bool" where
  "matches c r \<longleftrightarrow>
     (case map_of (cfg_Endpoints c) (br_Alias r) of
        None \<Rightarrow> False
      | Some e \<Rightarrow> ce_Transport e = br_Transport r \<and> ce_ConnectionID e = br_ConnectionID r \<and> ce_RemoteID e = br_RemoteID r)"

lemma retired_iff: "r \<in> set (rd_endpoints d) \<Longrightarrow> keys_ok br_Alias (rd_endpoints d) \<Longrightarrow>
    br_Alias r \<in> set (retired_bindings c d) \<longleftrightarrow> \<not> matches c r"
proof -
  assume r: "r \<in> set (rd_endpoints d)" and k: "keys_ok br_Alias (rd_endpoints d)"
  have "retired_bindings c d = map br_Alias (filter (\<lambda>r. \<not> matches c r) (rd_endpoints d))"
    unfolding retired_bindings_def matches_def by (intro arg_cong [where f = "map br_Alias"] filter_cong) (auto split: option.split)
  then show ?thesis using r keys_ok_unique [OF k] by auto
qed

lemma binding_row_simps [simp]:
  "br_Alias (binding_row c p) = fst p" "br_Transport (binding_row c p) = ce_Transport (snd p)"
  "br_ConnectionID (binding_row c p) = ce_ConnectionID (snd p)" "br_RemoteID (binding_row c p) = ce_RemoteID (snd p)"
  "binding_endpoint (binding_row c p) = snd p"
  by (simp_all add: binding_row_def binding_endpoint_def)

lemma matches_update:
  assumes "distinct (map fst (cfg_Endpoints c))" "p \<in> set (cfg_Endpoints c)" "matches c old" "br_Alias old = fst p"
  shows "update_binding (binding_row c p) old = binding_row c p"
proof -
  have "map_of (cfg_Endpoints c) (fst p) = Some (snd p)" using assms(1,2) by simp
  with assms(3,4) show ?thesis
    by (cases old) (simp add: matches_def update_binding_def binding_row_def)
qed

lemma remote_key_inj: "ce_Transport e = ce_Transport e' \<Longrightarrow> ce_RemoteID e = ce_RemoteID e' \<Longrightarrow> remote_key e = remote_key e'"
  by (simp add: remote_key_def)

lemma matches_no_conflict:
  assumes "well_formed c" "distinct (map fst (cfg_Endpoints c))" "p \<in> set (cfg_Endpoints c)" "matches c r"
    and "br_Transport r = ce_Transport (snd p)" "br_RemoteID r = ce_RemoteID (snd p)"
  shows "br_Alias r = fst p"
proof -
  from assms(4) obtain e where m: "map_of (cfg_Endpoints c) (br_Alias r) = Some e"
      and e: "ce_Transport e = br_Transport r" "ce_RemoteID e = br_RemoteID r"
    unfolding matches_def by (cases "map_of (cfg_Endpoints c) (br_Alias r)") simp_all
  note mem = map_of_SomeD [OF m]
  have "ce_Transport e = ce_Transport (snd p)" "ce_RemoteID e = ce_RemoteID (snd p)" using e assms(5,6) by simp_all
  then have "(remote_key \<circ> snd) (br_Alias r, e) = (remote_key \<circ> snd) p"
    unfolding comp_def snd_conv by (rule remote_key_inj)
  moreover have "inj_on (remote_key \<circ> snd) (set (cfg_Endpoints c))"
    using assms(1) by (simp add: well_formed_def distinct_map)
  ultimately have "(br_Alias r, e) = p" using mem assms(3) by (meson inj_onD)
  then show ?thesis by auto
qed

text \<open>Saving the endpoints never violates a constraint, and leaves exactly the rows of the configuration.\<close>

lemma put_bindings_ok:
  assumes "well_formed c" "distinct (map fst (cfg_Endpoints c))" "set ps \<subseteq> set (cfg_Endpoints c)" "distinct (map fst ps)"
    and "routing_ok d" "\<forall>r \<in> set (rd_endpoints d). matches c r"
    and "\<forall>p \<in> set (cfg_Endpoints c). the (br_SyncSetID (binding_row c p)) \<in> sr_ID ` set (rd_sets d)"
  shows "\<exists>rows t. put_bindings (map (binding_row c) ps) d =
      Inr (d\<lparr>rd_endpoints := rows, rd_tables := (rd_tables d)\<lparr>t_endpoints := t\<rparr>\<rparr>) \<and>
    routing_ok (d\<lparr>rd_endpoints := rows, rd_tables := (rd_tables d)\<lparr>t_endpoints := t\<rparr>\<rparr>) \<and>
    set rows = binding_row c ` set ps \<union> {r \<in> set (rd_endpoints d). br_Alias r \<notin> fst ` set ps}"
  using assms(3-)
proof (induction ps arbitrary: d)
  case Nil
  then show ?case by (intro exI [of _ "rd_endpoints d"] exI [of _ "t_endpoints (rd_tables d)"]) simp
next
  case (Cons p ps)
  let ?row = "binding_row c p"
  let ?rows = "upsert br_Alias update_binding ?row (rd_endpoints d)"
  have p: "p \<in> set (cfg_Endpoints c)" using Cons.prems(1) by simp
  have "transport_IsValid (ce_Transport (snd p))" using assms(1) p by (auto simp: well_formed_def)
  moreover have "\<not> list_ex (\<lambda>r. br_Alias r \<noteq> br_Alias ?row \<and> br_Transport r = br_Transport ?row \<and>
      br_RemoteID r = br_RemoteID ?row) (rd_endpoints d)"
    using matches_no_conflict [OF assms(1,2) p] Cons.prems(4) by (auto simp: list_ex_iff)
  moreover have "case br_SyncSetID ?row of None \<Rightarrow> True | Some i \<Rightarrow> i \<in> sr_ID ` set (rd_sets d)"
    using Cons.prems(5) p by (auto simp: binding_row_def split: option.split)
  ultimately obtain t where put: "put_binding ?row d =
      Inr (d\<lparr>rd_endpoints := ?rows, rd_tables := (rd_tables d)\<lparr>t_endpoints := t\<rparr>\<rparr>)"
    by (simp add: put_binding_def put_endpoint_def)
  let ?d = "d\<lparr>rd_endpoints := ?rows, rd_tables := (rd_tables d)\<lparr>t_endpoints := t\<rparr>\<rparr>"
  have ok: "routing_ok ?d" using put Cons.prems(3) by (rule routing_put_binding)
  have rows: "set ?rows = insert ?row {r \<in> set (rd_endpoints d). br_Alias r \<noteq> fst p}"
    using matches_update [OF assms(2) p] Cons.prems(4) by (subst set_upsert_replace) auto
  have "map_of (cfg_Endpoints c) (fst p) = Some (snd p)" using assms(2) p by simp
  then have "matches c ?row" by (simp add: matches_def)
  with rows Cons.prems(4) have "\<forall>r \<in> set (rd_endpoints ?d). matches c r" by simp
  from Cons.IH [OF _ _ ok this] Cons.prems obtain rows t' where IH:
    "put_bindings (map (binding_row c) ps) ?d =
       Inr (d\<lparr>rd_endpoints := rows, rd_tables := (rd_tables d)\<lparr>t_endpoints := t'\<rparr>\<rparr>)"
    "routing_ok (d\<lparr>rd_endpoints := rows, rd_tables := (rd_tables d)\<lparr>t_endpoints := t'\<rparr>\<rparr>)"
    "set rows = binding_row c ` set ps \<union> {r \<in> set ?rows. br_Alias r \<notin> fst ` set ps}"
    by auto
  have "set rows = binding_row c ` set (p # ps) \<union> {r \<in> set (rd_endpoints d). br_Alias r \<notin> fst ` set (p # ps)}"
  proof -
    have "fst p \<notin> fst ` set ps" using Cons.prems(2) by simp
    then show ?thesis unfolding IH(3) rows by (auto simp: image_iff)
  qed
  with IH(1,2) put show ?case by auto
qed

lemma endpoint_sets_fold:
  "foldl (\<lambda>m alias. m(alias \<mapsto> i)) m as a = (if a \<in> set as then Some i else m a)"
  by (induction as arbitrary: m) auto

lemma endpoint_sets_other:
  "\<forall>s \<in> set sets. a \<notin> set (set_Endpoints s) \<Longrightarrow>
     foldl (\<lambda>m s. foldl (\<lambda>m alias. m(alias \<mapsto> set_ID s)) m (set_Endpoints s)) m sets a = m a"
  by (induction sets arbitrary: m) (simp_all add: endpoint_sets_fold)

lemma endpoint_sets_unique:
  "distinct (concat (map set_Endpoints sets)) \<Longrightarrow> s \<in> set sets \<Longrightarrow> a \<in> set (set_Endpoints s) \<Longrightarrow>
     foldl (\<lambda>m s. foldl (\<lambda>m alias. m(alias \<mapsto> set_ID s)) m (set_Endpoints s)) m sets a = Some (set_ID s)"
proof (induction sets arbitrary: m)
  case (Cons s' sets)
  show ?case
  proof (cases "s \<in> set sets")
    case False
    with Cons.prems have "s = s'" "\<forall>s \<in> set sets. a \<notin> set (set_Endpoints s)" by auto
    note same = this
    have "foldl (\<lambda>m alias. m(alias \<mapsto> set_ID s')) m (set_Endpoints s') a = Some (set_ID s)"
      using Cons.prems(3) same(1) by (simp only: endpoint_sets_fold if_True)
    then show ?thesis using endpoint_sets_other [OF same(2)] by (simp only: foldl.simps)
  qed (use Cons in simp)
qed simp

lemma endpoint_sets_well_formed:
  "well_formed c \<Longrightarrow> s \<in> set (cfg_SyncSets c) \<Longrightarrow> a \<in> set (set_Endpoints s) \<Longrightarrow> endpoint_sets c a = Some (set_ID s)"
  unfolding endpoint_sets_def well_formed_def by (blast intro: endpoint_sets_unique)

text \<open>What saving leaves in the routing tables.\<close>

lemma fold_sets_keep:
  "set (foldl (\<lambda>is i. if i \<in> set is then is else is @ [i]) xs ys) = set xs \<union> set ys"
  by (induction ys arbitrary: xs) auto

definition saved_db ::
  "Config \<Rightarrow> RoutingDB \<Rightarrow> BindingRow list \<Rightarrow> SyncSetRow list \<Rightarrow> EndpointRow list \<Rightarrow> string list \<Rightarrow> RoutingDB" where
  "saved_db c d rows sets t s = d\<lparr>rd_endpoints := rows, rd_sets := sets,
      rd_tables := (rd_tables d)\<lparr>t_endpoints := t, t_sync_sets := s,
        t_labels := delete_where (\<lambda>l. lb_EndpointID l \<in> set (retired_bindings c d)) (t_labels (rd_tables d)),
        t_participants := delete_where (\<lambda>p. pt_EndpointID p \<in> set (retired_bindings c d)) (t_participants (rd_tables d)),
        t_actors := filter (\<lambda>r. ar_SyncSetID r \<in> set_ID ` set (cfg_SyncSets c)) (t_actors (rd_tables d))\<rparr>\<rparr>"

lemma well_formed_member:
  assumes "well_formed c" "p \<in> set (cfg_Endpoints c)"
  shows "\<exists>s \<in> set (cfg_SyncSets c). fst p \<in> set (set_Endpoints s)"
proof -
  have "set (concat (map set_Endpoints (cfg_SyncSets c))) = fst ` set (cfg_Endpoints c)"
    using assms(1) unfolding well_formed_def by blast
  with assms(2) have "fst p \<in> set (concat (map set_Endpoints (cfg_SyncSets c)))" by simp
  then show ?thesis by simp
qed

lemma saveRoutingRows_ok:
  assumes "routing_ok d" "well_formed c" "distinct (map fst (cfg_Endpoints c))" "distinct (map set_ID (cfg_SyncSets c))"
  shows "\<exists>rows sets t s. saveRoutingRows c d = Inr (saved_db c d rows sets t s) \<and>
    routing_ok (saved_db c d rows sets t s) \<and>
    set rows = binding_row c ` set (cfg_Endpoints c) \<and> set sets = set_row c ` set (cfg_SyncSets c)"
proof -
  let ?as = "retired_bindings c d" and ?ids = "set_ID ` set (cfg_SyncSets c)"
  define d1 where "d1 = foldl (\<lambda>d a. delete_binding a d) d ?as"
  define d2 where "d2 = foldl (\<lambda>d s. put_set (set_row c s) d) d1 (cfg_SyncSets c)"
  have "routing_ok (foldl (\<lambda>d a. delete_binding a d) d' as)" if "routing_ok d'" for as d'
    using that by (induction as arbitrary: d') (simp_all add: routing_delete_binding)
  then have ok1: "routing_ok d1" using assms(1) by (simp add: d1_def)
  have "routing_ok (foldl (\<lambda>d s. put_set (set_row c s) d) d' ss)" if "routing_ok d'" for ss d'
    using that by (induction ss arbitrary: d') (simp_all add: routing_put_set)
  then have ok2: "routing_ok d2" using ok1 by (simp add: d2_def)
  have keys: "keys_ok br_Alias (rd_endpoints d)" using assms(1) by (simp add: routing_ok_def)
  have e2: "rd_endpoints d2 = delete_where (\<lambda>r. br_Alias r \<in> set ?as) (rd_endpoints d)"
    by (simp add: d2_def d1_def fold_put_set fold_delete_binding)
  have match2: "\<forall>r \<in> set (rd_endpoints d2). matches c r" using retired_iff [OF _ keys, of _ c] by (auto simp: e2)
  have ids: "map sr_ID (map (set_row c) (cfg_SyncSets c)) = map set_ID (cfg_SyncSets c)" by (simp add: set_row_def)
  have s2: "set (rd_sets d2) = set_row c ` set (cfg_SyncSets c) \<union> {x \<in> set (rd_sets d). sr_ID x \<notin> ?ids}"
  proof -
    have "rd_sets d2 = foldl (\<lambda>rows r. upsert sr_ID (\<lambda>new old. new) r rows) (rd_sets d) (map (set_row c) (cfg_SyncSets c))"
      by (simp add: d2_def d1_def fold_put_set fold_delete_binding)
    moreover have "sr_ID ` set (map (set_row c) (cfg_SyncSets c)) = ?ids" by (simp add: set_row_def image_image)
    moreover have "distinct (map sr_ID (map (set_row c) (cfg_SyncSets c)))" unfolding ids by (rule assms(4))
    note set_upsert_all [OF this, of "rd_sets d"]
    ultimately show ?thesis by (simp only: set_map)
  qed
  have ref: "\<forall>p \<in> set (cfg_Endpoints c). the (br_SyncSetID (binding_row c p)) \<in> ?ids"
  proof
    fix p assume "p \<in> set (cfg_Endpoints c)"
    with well_formed_member [OF assms(2)] obtain s where "s \<in> set (cfg_SyncSets c)" "fst p \<in> set (set_Endpoints s)"
      by blast
    then show "the (br_SyncSetID (binding_row c p)) \<in> ?ids"
      using endpoint_sets_well_formed [OF assms(2)] by (simp add: binding_row_def)
  qed
  moreover have "?ids \<subseteq> sr_ID ` set (rd_sets d2)" 
  proof -
    have "?ids = sr_ID ` set_row c ` set (cfg_SyncSets c)" by (simp add: set_row_def image_image)
    then show ?thesis unfolding s2 by blast
  qed
  ultimately have "\<forall>p \<in> set (cfg_Endpoints c). the (br_SyncSetID (binding_row c p)) \<in> sr_ID ` set (rd_sets d2)" by blast
  from put_bindings_ok [OF assms(2,3) _ assms(3) ok2 match2 this] obtain rows t where
    put: "put_bindings (map (binding_row c) (cfg_Endpoints c)) d2 =
       Inr (d2\<lparr>rd_endpoints := rows, rd_tables := (rd_tables d2)\<lparr>t_endpoints := t\<rparr>\<rparr>)"
    and ok3: "routing_ok (d2\<lparr>rd_endpoints := rows, rd_tables := (rd_tables d2)\<lparr>t_endpoints := t\<rparr>\<rparr>)"
    and rows: "set rows = binding_row c ` set (cfg_Endpoints c) \<union>
       {r \<in> set (rd_endpoints d2). br_Alias r \<notin> fst ` set (cfg_Endpoints c)}"
    by blast
  have rows': "set rows = binding_row c ` set (cfg_Endpoints c)"
  proof -
    have "br_Alias r \<in> fst ` set (cfg_Endpoints c)" if "matches c r" for r
      using that unfolding matches_def by (cases "map_of (cfg_Endpoints c) (br_Alias r)") (auto dest!: map_of_SomeD intro: rev_image_eqI)
    with match2 show ?thesis unfolding rows by blast
  qed
  let ?d3 = "d2\<lparr>rd_endpoints := rows, rd_tables := (rd_tables d2)\<lparr>t_endpoints := t\<rparr>\<rparr>"
  define gone where "gone = filter (\<lambda>i. i \<notin> ?ids) (map sr_ID (rd_sets d2))"
  have "routing_ok (foldl (\<lambda>d i. delete_set i d) d' is)" if "routing_ok d'" for "is" d'
    using that by (induction "is" arbitrary: d') (simp_all add: routing_delete_set)
  then have ok4: "routing_ok (foldl (\<lambda>d i. delete_set i d) ?d3 gone)" using ok3 by simp
  have no_ref: "update_where (\<lambda>r. br_SyncSetID r \<in> Some ` set gone) f rows = rows" for f
  proof -
    have "br_SyncSetID r \<notin> Some ` set gone" if "r \<in> set rows" for r
    proof -
      from that obtain p where "p \<in> set (cfg_Endpoints c)" "r = binding_row c p" unfolding rows' by blast
      with ref show ?thesis by (auto simp: gone_def binding_row_def)
    qed
    then show ?thesis by (simp add: update_where_def map_idI)
  qed
  have acts: "delete_where (\<lambda>r. ar_SyncSetID r \<in> set gone) (t_actors (rd_tables d)) =
      filter (\<lambda>r. ar_SyncSetID r \<in> ?ids) (t_actors (rd_tables d))"
  proof -
    have "ar_SyncSetID r \<in> sr_ID ` set (rd_sets d)" if "r \<in> set (t_actors (rd_tables d))" for r
    proof -
      have "refer ar_SyncSetID (t_actors (rd_tables d)) (set (t_sync_sets (rd_tables d)))"
        using assms(1) by (simp add: routing_ok_def db_ok_def fk_ok_def)
      moreover have "set (t_sync_sets (rd_tables d)) = sr_ID ` set (rd_sets d)"
        using assms(1) unfolding routing_ok_def by (metis set_map)
      ultimately show ?thesis using that unfolding refer_def by blast
    qed
    moreover have "sr_ID ` set (rd_sets d) \<subseteq> sr_ID ` set (rd_sets d2) \<union> ?ids" unfolding s2 by blast
    ultimately show ?thesis unfolding delete_where_def gone_def by (intro filter_cong) auto
  qed
  define sets where "sets = delete_where (\<lambda>r. sr_ID r \<in> set gone) (rd_sets d2)"
  have sets: "set sets = set_row c ` set (cfg_SyncSets c)"
  proof -
    have "sr_ID x \<notin> set gone \<longleftrightarrow> sr_ID x \<in> ?ids" if "x \<in> set (rd_sets d2)" for x
      using that by (auto simp: gone_def)
    moreover have "x \<in> set_row c ` set (cfg_SyncSets c) \<Longrightarrow> sr_ID x \<in> ?ids" for x by (auto simp: set_row_def)
    ultimately show ?thesis unfolding sets_def set_delete_where using s2 by blast
  qed
  have run: "saveRoutingRows c d = Inr (foldl (\<lambda>d i. delete_set i d) ?d3 gone)"
    by (simp add: saveRoutingRows_def Let_def d1_def [symmetric] d2_def [symmetric] put gone_def)
  have tabs: "rd_tables d2 = (rd_tables d)\<lparr>t_endpoints := t_endpoints (rd_tables d2), t_sync_sets := t_sync_sets (rd_tables d2),
        t_labels := delete_where (\<lambda>l. lb_EndpointID l \<in> set ?as) (t_labels (rd_tables d)),
        t_participants := delete_where (\<lambda>p. pt_EndpointID p \<in> set ?as) (t_participants (rd_tables d))\<rparr>"
    and glob: "rd_global d2 = rd_global d"
    by (simp_all add: d2_def d1_def fold_put_set fold_delete_binding)
  have acts2: "t_actors (rd_tables d2) = t_actors (rd_tables d)"
    by (simp add: d2_def d1_def fold_put_set fold_delete_binding)
  obtain t' s' where final: "foldl (\<lambda>d i. delete_set i d) ?d3 gone = saved_db c d rows sets t' s'"
  proof
    show "foldl (\<lambda>d i. delete_set i d) ?d3 gone = saved_db c d rows sets
        (update_where (\<lambda>e. ep_SyncSetID e \<in> Some ` set gone) (\<lambda>e. e\<lparr>ep_SyncSetID := None\<rparr>) t)
        (filter (\<lambda>j. j \<notin> set gone) (t_sync_sets (rd_tables d2)))"
      unfolding fold_delete_set saved_db_def
      by (subst tabs) (simp add: no_ref sets_def acts2 acts glob)
  qed
  from run ok4 show ?thesis unfolding final using rows' sets by blast
qed

subsection \<open>Loading what was saved\<close>

lemma sort_unique:
  assumes "inj_on f (set xs)" "distinct xs" "sorted (map f ys)" "distinct ys" "set xs = set ys"
  shows "sort_key f xs = ys"
  by (rule map_sorted_distinct_set_unique [of f])
     (use assms in \<open>simp_all add: distinct_map distinct_sort\<close>)

lemma keys_ok_inj: "keys_ok key rows \<Longrightarrow> inj_on key (set rows) \<and> distinct rows"
  by (simp add: keys_ok_def distinct_map)

lemma sorted_rows:
  assumes "keys_ok key rows" "set rows = f ` set xs" "distinct (map g xs)" "\<And>x. key (f x) = g x"
  shows "sort_key key rows = map f (sort_key g xs)"
proof (rule sort_unique)
  have "map key (map f (sort_key g xs)) = map g (sort_key g xs)" by (simp add: assms(4))
  moreover have "distinct (map g (sort_key g xs))" using assms(3) by (simp add: distinct_map distinct_sort)
  ultimately show "sorted (map key (map f (sort_key g xs)))" "distinct (map f (sort_key g xs))"
    by (simp_all only: sorted_sort_key) (metis distinct_map)
qed (use keys_ok_inj [OF assms(1)] assms(2) in simp_all)

definition normal_config :: "Config \<Rightarrow> Config" where
  "normal_config c =
     c\<lparr>cfg_Endpoints := sort_key fst (cfg_Endpoints c),
       cfg_SyncSets := map (\<lambda>s. s\<lparr>set_Endpoints := sort (set_Endpoints s), set_Settings := Some (SettingsForSet c s)\<rparr>)
         (sort_key set_ID (cfg_SyncSets c))\<rparr>"

lemma applyDefaults_update:
  "applyDefaults (c\<lparr>cfg_Endpoints := es, cfg_SyncSets := ss\<rparr>) = (applyDefaults c)\<lparr>cfg_Endpoints := es, cfg_SyncSets := ss\<rparr>"
  by (simp add: applyDefaults_def Let_def)

lemma load_global_row:
  assumes "applyDefaults c = c"
  shows "load_global (Some (global_row c)) = c\<lparr>cfg_Endpoints := [], cfg_SyncSets := []\<rparr>"
proof -
  have "load_global (Some (global_row c)) = applyDefaults (c\<lparr>cfg_Endpoints := [], cfg_SyncSets := []\<rparr>)"
    by (cases c) (simp add: load_global_def global_row_def zero_config_def)
  then show ?thesis by (simp only: applyDefaults_update assms)
qed

lemma match_endpoint_trim: "match_endpoint i \<Longrightarrow> trim_space i \<noteq> []"
proof -
  assume m: "match_endpoint i"
  have "33 \<le> byte c \<and> byte c < 127" if "c \<in> set i" for c
    using m that by (auto simp: match_endpoint_def is_alnum_def is_alpha_def is_upper_def is_lower_def is_digit_def
        byte_def list_all_iff split: list.split_asm)
  then have "trim_space i = i" by (intro trim_space_printable) blast
  with m show ?thesis by (auto simp: match_endpoint_def)
qed

lemma map_insort: "map f (insort_key f x xs) = insort (f x) (map f xs)"
  by (induction xs) simp_all

lemma sort_map_key: "sort (map f xs) = map f (sort_key f xs)"
  by (induction xs) (simp_all add: map_insort)

lemma members_of_saved:
  assumes "well_formed c" "distinct (map fst (cfg_Endpoints c))" "distinct (map set_ID (cfg_SyncSets c))"
    and "s \<in> set (cfg_SyncSets c)" "rows = map (binding_row c) (sort_key fst (cfg_Endpoints c))"
  shows "members_of rows (set_ID s) = sort (set_Endpoints s)"
proof -
  let ?P = "\<lambda>r. case br_SyncSetID r of None \<Rightarrow> False | Some j \<Rightarrow> trim_space j \<noteq> [] \<and> j = set_ID s"
  have map: "map br_Alias rows = sort (map fst (cfg_Endpoints c))"
    by (simp add: assms(5) comp_def sort_map_key)
  have mem: "?P (binding_row c p) \<longleftrightarrow> fst p \<in> set (set_Endpoints s)" if "p \<in> set (cfg_Endpoints c)" for p
  proof -
    from well_formed_member [OF assms(1) that]
    obtain s' where s': "s' \<in> set (cfg_SyncSets c)" "fst p \<in> set (set_Endpoints s')" by blast
    have "endpoint_sets c (fst p) = Some (set_ID s')" using assms(1) s' by (rule endpoint_sets_well_formed)
    moreover have "trim_space (set_ID s') \<noteq> []"
      using assms(1) s'(1) by (intro match_endpoint_trim) (simp add: well_formed_def)
    moreover have "set_ID s' = set_ID s \<longleftrightarrow> s' = s"
      using assms(3,4) s'(1) by (auto simp: distinct_map inj_on_def)
    moreover have "fst p \<in> set (set_Endpoints s) \<Longrightarrow> endpoint_sets c (fst p) = Some (set_ID s)"
      using assms(1,4) by (rule endpoint_sets_well_formed)
    ultimately show ?thesis using s'(2) by (auto simp: binding_row_def)
  qed
  have fils: "filter ?P rows = map (binding_row c) (filter (\<lambda>p. fst p \<in> set (set_Endpoints s)) (sort_key fst (cfg_Endpoints c)))"
    unfolding assms(5) filter_map comp_def by (rule arg_cong [where f = "map (binding_row c)"], rule filter_cong) (use mem in auto)
  have eq: "members_of rows (set_ID s) = filter (\<lambda>a. a \<in> set (set_Endpoints s)) (sort (map fst (cfg_Endpoints c)))"
    unfolding members_of_def fils by (simp add: comp_def filter_map sort_map_key)
  have "set (set_Endpoints s) \<subseteq> fst ` set (cfg_Endpoints c)" and dist: "distinct (set_Endpoints s)"
    using assms(1,4) by (auto simp: well_formed_def distinct_concat_iff)
  then have "set (members_of rows (set_ID s)) = set (set_Endpoints s)" unfolding eq by auto
  moreover have "sorted (members_of rows (set_ID s))" "distinct (members_of rows (set_ID s))"
    unfolding eq using assms(2) by (simp_all add: sorted_wrt_filter)
  ultimately show ?thesis
    using dist by (intro sorted_distinct_set_unique) simp_all
qed

lemma load_saved:
  assumes "well_formed c" "distinct (map fst (cfg_Endpoints c))" "distinct (map set_ID (cfg_SyncSets c))"
    and "applyDefaults c = c" "routing_ok d" "rd_global d = Some (global_row c)"
    and "set (rd_endpoints d) = binding_row c ` set (cfg_Endpoints c)" "set (rd_sets d) = set_row c ` set (cfg_SyncSets c)"
  shows "LoadRaw d = normal_config c"
proof -
  let ?rows = "map (binding_row c) (sort_key fst (cfg_Endpoints c))"
  have rows: "sort_key br_Alias (rd_endpoints d) = ?rows"
    using assms(2,5,7) by (intro sorted_rows) (simp_all add: routing_ok_def)
  have sets: "sort_key sr_ID (rd_sets d) = map (set_row c) (sort_key set_ID (cfg_SyncSets c))"
    using assms(3,5,8) by (intro sorted_rows) (simp_all add: routing_ok_def set_row_def)
  have eps: "map (\<lambda>r. (br_Alias r, binding_endpoint r)) ?rows = sort_key fst (cfg_Endpoints c)"
    by (simp add: comp_def)
  have sync: "map (\<lambda>x. \<lparr>set_ID = sr_ID x, set_Endpoints = members_of ?rows (sr_ID x),
        set_AnonymizeToDiscord = sr_AnonymizeToDiscord x,
        set_Settings = Some (case sr_Settings x of None \<Rightarrow> L | Some settings \<Rightarrow> settings)\<rparr>)
      (map (set_row c) (sort_key set_ID (cfg_SyncSets c))) = cfg_SyncSets (normal_config c)" for L
  proof -
    have "\<lparr>set_ID = sr_ID (set_row c x), set_Endpoints = members_of ?rows (sr_ID (set_row c x)),
        set_AnonymizeToDiscord = sr_AnonymizeToDiscord (set_row c x),
        set_Settings = Some (case sr_Settings (set_row c x) of None \<Rightarrow> L | Some settings \<Rightarrow> settings)\<rparr> =
      x\<lparr>set_Endpoints := sort (set_Endpoints x), set_Settings := Some (SettingsForSet c x)\<rparr>"
      if "x \<in> set (cfg_SyncSets c)" for x
      using members_of_saved [OF assms(1-3) that refl] by (cases x) (simp add: set_row_def)
    then show ?thesis by (simp add: normal_config_def)
  qed
  show ?thesis
    by (simp only: LoadRaw_def Let_def assms(6) load_global_row [OF assms(4)] rows sets eps sync)
       (simp add: normal_config_def)
qed

lemma saved_global [simp]:
  "saved_db c (d\<lparr>rd_global := g\<rparr>) rows sets t s = (saved_db c d rows sets t s)\<lparr>rd_global := g\<rparr>"
  "rd_endpoints (saved_db c d rows sets t s) = rows" "rd_sets (saved_db c d rows sets t s) = sets"
  "retired_bindings c (d\<lparr>rd_global := g\<rparr>) = retired_bindings c d"
  by (simp_all add: saved_db_def retired_bindings_def)

lemma routing_ok_global [simp]: "routing_ok (d\<lparr>rd_global := g\<rparr>) = routing_ok d"
  by (simp add: routing_ok_def)

text \<open>Restoring the labels keeps the tables well-formed.\<close>

lemma fold_insert_new:
  "keys_ok key rows \<Longrightarrow> keys_ok key (foldl (\<lambda>rows p. insert_new key (f p) rows) rows ps) \<and>
     set (foldl (\<lambda>rows p. insert_new key (f p) rows) rows ps) \<subseteq> set rows \<union> f ` set ps \<and>
     set rows \<subseteq> set (foldl (\<lambda>rows p. insert_new key (f p) rows) rows ps) \<and>
     (\<forall>p \<in> set ps. key (f p) \<in> key ` set (foldl (\<lambda>rows p. insert_new key (f p) rows) rows ps))"
proof (induction ps arbitrary: rows)
  case (Cons p ps)
  let ?rows = "insert_new key (f p) rows"
  have "set rows \<subseteq> set ?rows" "set ?rows \<subseteq> insert (f p) (set rows)" "key (f p) \<in> key ` set ?rows"
    by (auto simp: insert_new_def)
  with Cons.IH [of ?rows] Cons.prems show ?case by (auto 0 3)
qed simp

lemma db_ok_labels:
  assumes "db_ok t" "keys_ok key_label rows" "lb_EndpointID ` set rows \<subseteq> ep_Alias ` set (t_endpoints t)"
    and "\<forall>l \<in> set rows. valid_scope_kind (lb_ScopeKind l)"
  shows "db_ok (t\<lparr>t_labels := rows\<rparr>)"
  using assms by (simp add: db_ok_def pk_ok_def fk_ok_def checks_ok_def alias_ok_def refer_def)

definition kept :: "Config \<Rightarrow> RoutingDB \<Rightarrow> string \<Rightarrow> bool" where
  "kept c d a \<longleftrightarrow> (\<exists>r \<in> set (rd_endpoints d). br_Alias r = a \<and> matches c r)"

text \<open>The label of an endpoint that stays friendly and keeps its transport and remote ID.\<close>

definition label_kept :: "Config \<Rightarrow> RoutingDB \<Rightarrow> ChildScopeLabel \<Rightarrow> bool" where
  "label_kept c d l \<longleftrightarrow>
     (\<exists>r \<in> set (rd_endpoints d). br_Alias r = lb_EndpointID l \<and> restored_label c (l, br_Transport r, br_RemoteID r))"

lemma label_kept_alias: "label_kept c d l \<Longrightarrow> lb_EndpointID l \<in> fst ` set (cfg_Endpoints c)"
  unfolding label_kept_def restored_label_def
  by (cases "map_of (cfg_Endpoints c) (lb_EndpointID l)") (auto dest!: map_of_SomeD intro: rev_image_eqI)

lemma in_saved_labels: "(l, a, b) \<in> set (saved_labels d) \<longleftrightarrow> l \<in> set (t_labels (rd_tables d)) \<and>
    (\<exists>r \<in> set (rd_endpoints d). br_Alias r = lb_EndpointID l \<and> a = br_Transport r \<and> b = br_RemoteID r)"
  by (auto simp: saved_labels_def)

lemma saved_restored: "l \<in> fst ` set (filter (restored_label c) (saved_labels d)) \<longleftrightarrow>
    l \<in> set (t_labels (rd_tables d)) \<and> label_kept c d l"
proof -
  have "l \<in> fst ` set (filter (restored_label c) (saved_labels d)) \<longleftrightarrow>
      (\<exists>a b. (l, a, b) \<in> set (saved_labels d) \<and> restored_label c (l, a, b))" by force
  also have "\<dots> \<longleftrightarrow> l \<in> set (t_labels (rd_tables d)) \<and> label_kept c d l"
    unfolding in_saved_labels label_kept_def by blast
  finally show ?thesis .
qed

lemma routing_aliases: "routing_ok d \<Longrightarrow> ep_Alias ` set (t_endpoints (rd_tables d)) = br_Alias ` set (rd_endpoints d)"
proof -
  assume "routing_ok d"
  then have "set (t_endpoints (rd_tables d)) = endpoint_key ` set (rd_endpoints d)"
    unfolding routing_ok_def by (metis set_map)
  then show ?thesis by (simp add: image_image endpoint_key_def)
qed

lemma restored_labels:
  assumes "routing_ok d" "routing_ok d1" "t_labels (rd_tables d1) = delete_where (\<lambda>l. lb_EndpointID l \<in> set (retired_bindings c d)) (t_labels (rd_tables d))"
  shows "set (t_labels (restore_labels c (saved_labels d) (rd_tables d1))) = {l \<in> set (t_labels (rd_tables d)). label_kept c d l}"
    (is "set ?new = ?kept")
    and "keys_ok key_label (t_labels (restore_labels c (saved_labels d) (rd_tables d1)))"
proof -
  let ?old = "t_labels (rd_tables d)"
  let ?base = "delete_where (\<lambda>l. lb_EndpointID l \<in> fst ` set (cfg_Endpoints c) \<and> \<not> is_friendly c (lb_EndpointID l)) (t_labels (rd_tables d1))"
  let ?saved = "filter (restored_label c) (saved_labels d)"
  have new: "?new = foldl (\<lambda>rows p. insert_new key_label (fst p) rows) ?base ?saved" by (simp add: restore_labels_def)
  have keys: "keys_ok key_label ?old" using assms(1) by (simp add: routing_ok_def db_ok_keys)
  then have base: "keys_ok key_label ?base" by (simp add: assms(3))
  note F = fold_insert_new [OF base, of fst ?saved]
  show "keys_ok key_label ?new" unfolding new using F by blast
  have base_kept: "set ?base \<subseteq> ?kept"
  proof
    fix l assume l: "l \<in> set ?base"
    then have old: "l \<in> set ?old" and not_ret: "lb_EndpointID l \<notin> set (retired_bindings c d)"
      and fr: "lb_EndpointID l \<in> fst ` set (cfg_Endpoints c) \<Longrightarrow> is_friendly c (lb_EndpointID l)"
      by (auto simp: assms(3))
    have "refer lb_EndpointID ?old (ep_Alias ` set (t_endpoints (rd_tables d)))"
      using assms(1) by (simp add: routing_ok_def db_ok_refs)
    moreover note routing_aliases [OF assms(1)]
    ultimately have "lb_EndpointID l \<in> br_Alias ` set (rd_endpoints d)"
      using old unfolding refer_def by blast
    then obtain r where r: "br_Alias r = lb_EndpointID l" "r \<in> set (rd_endpoints d)"
      by (rule imageE) (rule that, rule sym)
    have "keys_ok br_Alias (rd_endpoints d)" using assms(1) by (simp add: routing_ok_def)
    with r not_ret have m: "matches c r" using retired_iff [OF r(2), of c] by simp
    then obtain e where e: "map_of (cfg_Endpoints c) (br_Alias r) = Some e"
        "ce_Transport e = br_Transport r" "ce_RemoteID e = br_RemoteID r"
      unfolding matches_def by (cases "map_of (cfg_Endpoints c) (br_Alias r)") simp_all
    from map_of_SomeD [OF e(1)] have "lb_EndpointID l \<in> fst ` set (cfg_Endpoints c)"
      unfolding r(1) by (rule rev_image_eqI) simp
    from fr [OF this] e have "restored_label c (l, br_Transport r, br_RemoteID r)"
      by (simp add: restored_label_def r(1))
    with r old show "l \<in> ?kept" unfolding label_kept_def by blast
  qed
  have "set ?new \<subseteq> ?kept" 
  proof -
    have "fst ` set ?saved \<subseteq> ?kept" using saved_restored by blast
    moreover have "set ?new \<subseteq> set ?base \<union> fst ` set ?saved" using F unfolding new by blast
    ultimately show ?thesis using base_kept by blast
  qed
  moreover have "?kept \<subseteq> set ?new"
  proof
    fix l assume l: "l \<in> ?kept"
    then have "l \<in> fst ` set ?saved" by (simp only: saved_restored mem_Collect_eq)
    then have "key_label l \<in> key_label ` set ?new" using F unfolding new by blast
    then obtain l' where "l' \<in> set ?new" "key_label l' = key_label l" by auto
    moreover from this \<open>set ?new \<subseteq> ?kept\<close> have "l' \<in> set ?old" by blast
    ultimately show "l \<in> set ?new" using keys_ok_unique [OF keys] l by blast
  qed
  ultimately show "set ?new = ?kept" by (rule equalityI)
qed

text \<open>The state that saving leaves, as far as the properties need it.\<close>

definition saved_result :: "Config \<Rightarrow> RoutingDB \<Rightarrow> RoutingDB \<Rightarrow> bool" where
  "saved_result c d d' \<longleftrightarrow>
     routing_ok d' \<and> rd_global d' = Some (global_row c) \<and>
     set (rd_endpoints d') = binding_row c ` set (cfg_Endpoints c) \<and> set (rd_sets d') = set_row c ` set (cfg_SyncSets c) \<and>
     set (t_labels (rd_tables d')) = {l \<in> set (t_labels (rd_tables d)). label_kept c d l} \<and>
     rd_tables d' = (rd_tables d)\<lparr>t_endpoints := t_endpoints (rd_tables d'), t_sync_sets := t_sync_sets (rd_tables d'),
       t_labels := t_labels (rd_tables d'),
       t_participants := delete_where (\<lambda>p. pt_EndpointID p \<in> set (retired_bindings c d)) (t_participants (rd_tables d)),
       t_actors := filter (\<lambda>r. ar_SyncSetID r \<in> set_ID ` set (cfg_SyncSets c)) (t_actors (rd_tables d))\<rparr>"

lemma save_result:
  assumes "routing_ok d" "distinct (map fst (cfg_Endpoints c))" "distinct (map set_ID (cfg_SyncSets c))"
    and "cfg_Validate (applyDefaults c) = None"
  shows "\<exists>d'. cfg_Save d c = (None, d') \<and> saved_result (applyDefaults c) d d'"
proof -
  let ?c = "applyDefaults c"
  let ?d = "d\<lparr>rd_global := Some (global_row ?c)\<rparr>"
  have wf: "well_formed ?c" using assms(4) by (rule validate_well_formed)
  have "routing_ok ?d" using assms(1) by simp
  from saveRoutingRows_ok [OF this wf] assms(2,3) obtain rows sets t s where
    save: "saveRoutingRows ?c ?d = Inr (saved_db ?c ?d rows sets t s)"
    and ok: "routing_ok (saved_db ?c ?d rows sets t s)"
    and rows: "set rows = binding_row ?c ` set (cfg_Endpoints ?c)" "set sets = set_row ?c ` set (cfg_SyncSets ?c)"
    by auto
  let ?d1 = "saved_db ?c ?d rows sets t s"
  let ?d' = "?d1\<lparr>rd_tables := restore_labels ?c (saved_labels d) (rd_tables ?d1)\<rparr>"
  have labels: "t_labels (rd_tables ?d1) = delete_where (\<lambda>l. lb_EndpointID l \<in> set (retired_bindings ?c d)) (t_labels (rd_tables d))"
    by (simp add: saved_db_def)
  note R = restored_labels [OF assms(1) ok labels]
  have "routing_ok ?d'"
  proof -
    have "restore_labels ?c (saved_labels d) (rd_tables ?d1) =
        (rd_tables ?d1)\<lparr>t_labels := t_labels (restore_labels ?c (saved_labels d) (rd_tables ?d1))\<rparr>"
      by (simp add: restore_labels_def)
    moreover have "db_ok ((rd_tables ?d1)\<lparr>t_labels := t_labels (restore_labels ?c (saved_labels d) (rd_tables ?d1))\<rparr>)"
    proof (rule db_ok_labels [OF _ R(2)])
      show "db_ok (rd_tables ?d1)" using ok by (simp add: routing_ok_def)
      show "\<forall>l \<in> set (t_labels (restore_labels ?c (saved_labels d) (rd_tables ?d1))). valid_scope_kind (lb_ScopeKind l)"
        using assms(1) unfolding R(1) by (simp add: routing_ok_def db_ok_def checks_ok_def list_all_iff)
      have "ep_Alias ` set (t_endpoints (rd_tables ?d1)) = br_Alias ` set rows"
        using routing_aliases [OF ok] by simp
      also have "\<dots> = fst ` set (cfg_Endpoints ?c)" unfolding rows(1) by (simp add: image_image)
      finally show "lb_EndpointID ` set (t_labels (restore_labels ?c (saved_labels d) (rd_tables ?d1)))
          \<subseteq> ep_Alias ` set (t_endpoints (rd_tables ?d1))"
        unfolding R(1) using label_kept_alias [of ?c] by auto
    qed
    ultimately show ?thesis using ok by (simp add: routing_ok_def) (simp add: restore_labels_def)
  qed
  moreover have "cfg_Save d c = (None, ?d')"
    using assms(4) save by (simp add: cfg_Save_def Let_def)
  moreover have "t_labels (rd_tables ?d') = t_labels (restore_labels ?c (saved_labels d) (rd_tables ?d1))" by simp
  ultimately show ?thesis using R rows unfolding saved_result_def by (auto simp: saved_db_def restore_labels_def)
qed

end
