(* ===== verification/ConfigSpec.thy ===== *)
theory ConfigSpec
  imports ConfigSave
begin

text \<open>
  What saving a configuration does to the routing tables: it is loaded back as it was saved, and
  everything that belongs to an unchanged endpoint or a kept sync set survives.
\<close>


definition sample_endpoint :: "string \<Rightarrow> string \<Rightarrow> Endpoint" where
  "sample_endpoint transport remote = \<lparr>ce_AnonymizeIncoming = False, ce_AnonymizeOutgoing = False,
     ce_Transport = transport, ce_ConnectionID = ''c1'', ce_RemoteID = remote\<rparr>"

lemma sample_endpoints_valid:
  "ValidateEndpointRemoteID ''discord'' ''77'' = None" "ValidateEndpointRemoteID ''telegram'' ''-5'' = None"
proof -
  have "trim_space ''77'' = ''77''" "trim_space ''-5'' = ''-5''" "\<not> contains_any ''77'' ctl_chars"
    "\<not> contains_any ''-5'' ctl_chars" "match_discord_id ''77''" "match_telegram_id ''-5''"
    "digits_value ''77'' = 77" "digits_value ''5'' = 5" by code_simp+
  then show "ValidateEndpointRemoteID ''discord'' ''77'' = None" "ValidateEndpointRemoteID ''telegram'' ''-5'' = None"
    by (simp_all add: ValidateEndpointRemoteID_def transport_IsValid_def fail_if_def)
qed

definition sample_settings :: SyncSetSettings where
  "sample_settings = DefaultSyncSetSettings\<lparr>ss_ChildContextDisplayMode := ChildContextDisplayFriendly\<rparr>"

definition sample_config :: Config where
  "sample_config = zero_config
     \<lparr>cfg_Endpoints := [(''work'', sample_endpoint ''discord'' ''77''), (''family'', sample_endpoint ''telegram'' ''-5'')],
      cfg_SyncSets := [\<lparr>set_ID = ''fam'', set_Endpoints = [''work'', ''family''], set_AnonymizeToDiscord = False,
        set_Settings = Some sample_settings\<rparr>]\<rparr>"

definition empty_routing :: RoutingDB where
  "empty_routing = \<lparr>rd_global = None, rd_endpoints = [], rd_sets = [], rd_tables = empty_tables\<rparr>"

lemma sample_config_valid:
  "cfg_Validate (applyDefaults sample_config) = None"
  "distinct (map fst (cfg_Endpoints sample_config))" "distinct (map set_ID (cfg_SyncSets sample_config))"
proof -
  have "ValidateAlias ''work'' = None" "ValidateAlias ''family'' = None" "ValidateConnectionID ''c1'' = None" by code_simp+
  moreover have "remote_key (sample_endpoint ''discord'' ''77'') \<noteq> remote_key (sample_endpoint ''telegram'' ''-5'')"
    by (simp add: remote_key_def sample_endpoint_def)
  ultimately have eps: "validate_endpoints [] (cfg_Endpoints sample_config) = None"
    using sample_endpoints_valid by (simp add: sample_config_def sample_endpoint_def)
  have "settings_Validate sample_settings = None" "ValidateSyncSetID ''fam'' = None" by code_simp+
  then have sets: "validate_sets (cfg_Endpoints sample_config) [] (cfg_SyncSets sample_config) = Inr [''family'', ''work'']"
    by (simp add: sample_config_def bind_res_def fail_if_def or_else_def)
  have "ValidateLocalPrefix [] = None" "ValidateAggregationTrigger ''aggregate-response'' = None"
    "ValidateWhatsAppDeviceName ''message-sync'' = None" by code_simp+
  moreover have "join '' '' (go_fields []) = []" "trim_space [] = []" by code_simp+
  ultimately show "cfg_Validate (applyDefaults sample_config) = None"
    using eps sets
    by (simp add: cfg_Validate_def applyDefaults_def sample_config_def zero_config_def or_default_def Let_def mode_IsValid_def)
  show "distinct (map fst (cfg_Endpoints sample_config))" "distinct (map set_ID (cfg_SyncSets sample_config))"
    by (simp_all add: sample_config_def)
qed

lemma empty_routing_ok: "routing_ok empty_routing"
  using db_empty by (simp add: routing_ok_def empty_routing_def) (simp add: empty_tables_def)


text \<open>
  saving a configuration keeps what belongs to what stays: the participant addresses of exactly the
  endpoints whose alias, transport, connection and remote ID are unchanged, the actor aliases of exactly the
  sync sets that are kept, the child-scope labels of exactly the endpoints that are friendly and keep
  their transport and remote ID; no message, delivery, poll or cursor changes, and all keys still hold.
\<close>

theorem config_save_keeps:
  assumes "routing_ok d" "distinct (map fst (cfg_Endpoints c))" "distinct (map set_ID (cfg_SyncSets c))"
    and "cfg_Save d c = (None, d')"
  shows "t_participants (rd_tables d') =
      filter (\<lambda>p. kept (applyDefaults c) d (pt_EndpointID p)) (t_participants (rd_tables d)) \<and>
    t_actors (rd_tables d') = filter (\<lambda>r. ar_SyncSetID r \<in> set_ID ` set (cfg_SyncSets c)) (t_actors (rd_tables d)) \<and>
    set (t_labels (rd_tables d')) = {l \<in> set (t_labels (rd_tables d)). label_kept (applyDefaults c) d l} \<and>
    (\<exists>e s l p a. rd_tables d' = (rd_tables d)
      \<lparr>t_endpoints := e, t_sync_sets := s, t_labels := l, t_participants := p, t_actors := a\<rparr>) \<and>
    db_ok (rd_tables d')"
proof -
  have "cfg_Validate (applyDefaults c) = None"
    using assms(4) by (simp add: cfg_Save_def Let_def split: option.split_asm)
  from save_result [OF assms(1-3) this] assms(4) have R: "saved_result (applyDefaults c) d d'" by auto
  have keys: "keys_ok br_Alias (rd_endpoints d)" using assms(1) by (simp add: routing_ok_def)
  have part: "pt_EndpointID p \<notin> set (retired_bindings (applyDefaults c) d) \<longleftrightarrow> kept (applyDefaults c) d (pt_EndpointID p)"
    if "p \<in> set (t_participants (rd_tables d))" for p
  proof -
    have "refer pt_EndpointID (t_participants (rd_tables d)) (ep_Alias ` set (t_endpoints (rd_tables d)))"
      using assms(1) by (simp add: routing_ok_def db_ok_refs)
    then have "pt_EndpointID p \<in> br_Alias ` set (rd_endpoints d)"
      using that unfolding refer_def routing_aliases [OF assms(1)] by blast
    then obtain r where r: "pt_EndpointID p = br_Alias r" "r \<in> set (rd_endpoints d)" by (rule imageE)
    have "kept (applyDefaults c) d (br_Alias r) \<longleftrightarrow> matches (applyDefaults c) r"
      using keys_ok_unique [OF keys _ r(2)] r(2) unfolding kept_def by blast
    with retired_iff [OF r(2) keys] show ?thesis unfolding r(1) by simp
  qed
  have "t_participants (rd_tables d') =
      filter (\<lambda>p. kept (applyDefaults c) d (pt_EndpointID p)) (t_participants (rd_tables d))"
  proof -
    have "t_participants (rd_tables d') =
        delete_where (\<lambda>p. pt_EndpointID p \<in> set (retired_bindings (applyDefaults c) d)) (t_participants (rd_tables d))"
      using R unfolding saved_result_def by (elim conjE) (drule arg_cong [where f = t_participants], simp)
    then show ?thesis unfolding delete_where_def using part by (simp cong: filter_cong)
  qed
  moreover have "t_actors (rd_tables d') = filter (\<lambda>r. ar_SyncSetID r \<in> set_ID ` set (cfg_SyncSets c)) (t_actors (rd_tables d))"
    using R unfolding saved_result_def by (elim conjE) (drule arg_cong [where f = t_actors], simp)
  moreover have "\<exists>e s l p a. rd_tables d' = (rd_tables d)
      \<lparr>t_endpoints := e, t_sync_sets := s, t_labels := l, t_participants := p, t_actors := a\<rparr>"
    using R unfolding saved_result_def by (elim conjE) (intro exI, assumption)
  moreover have "set (t_labels (rd_tables d')) = {l \<in> set (t_labels (rd_tables d)). label_kept (applyDefaults c) d l}"
    using R unfolding saved_result_def by (elim conjE)
  moreover have "db_ok (rd_tables d')" using R unfolding saved_result_def routing_ok_def by (elim conjE)
  ultimately show ?thesis by (intro conjI)
qed

text \<open>The same configuration saved twice.\<close>

theorem config_save_keeps_witness:
  "\<exists>d d'. cfg_Save empty_routing sample_config = (None, d) \<and> cfg_Save d sample_config = (None, d') \<and>
     t_actors (rd_tables d') = [] \<and> db_ok (rd_tables d')"
proof -
  from save_result [OF empty_routing_ok sample_config_valid(2,3,1)] obtain d where
    d: "cfg_Save empty_routing sample_config = (None, d)" "saved_result (applyDefaults sample_config) empty_routing d"
    by (elim exE conjE)
  from d(2) have ok: "routing_ok d" unfolding saved_result_def by (elim conjE)
  from save_result [OF ok sample_config_valid(2,3,1)] obtain d' where
    d': "cfg_Save d sample_config = (None, d')" by (elim exE conjE)
  have "t_actors (rd_tables d) = []"
    using d(2) unfolding saved_result_def
    by (elim conjE) (drule arg_cong [where f = t_actors], simp add: empty_routing_def empty_tables_def)
  with config_save_keeps [OF ok sample_config_valid(2,3) d'] have "t_actors (rd_tables d') = []" "db_ok (rd_tables d')"
    by simp_all
  with d(1) d' show ?thesis by (intro exI conjI)
qed

end
