(* ===== verification/Routes.thy ===== *)
theory Routes
  imports ConfigSave
begin

text \<open>
  The routing part of a router (\<^verbatim>\<open>internal/router/router.go\<close>): what \<^verbatim>\<open>newRouter\<close> and \<^verbatim>\<open>UpdateConfig\<close> compute from
  a configuration. A Go map is a partial function; a missing endpoint of the configuration reads as
  the zero value.
\<close>

record routeTarget =
  rt_SyncSetID :: string
  rt_Endpoint :: EndpointID
  rt_Anonymized :: bool

definition endpointIDs :: "routeTarget list \<Rightarrow> EndpointID list" where
  "endpointIDs targets = map rt_Endpoint targets"

record routing =
  rg_routes :: "EndpointID \<rightharpoonup> routeTarget list"
  rg_endpointTransports :: "EndpointID \<rightharpoonup> string"
  rg_endpointSettings :: "EndpointID \<rightharpoonup> SyncSetSettings"
  rg_endpointSets :: "EndpointID \<rightharpoonup> string"
  rg_childContextMode :: string
  rg_aggTrigger :: string
  rg_localPrefix :: string

definition zero_endpoint :: Endpoint where
  "zero_endpoint = \<lparr>ce_AnonymizeIncoming = False, ce_AnonymizeOutgoing = False, ce_Transport = [],
     ce_ConnectionID = [], ce_RemoteID = []\<rparr>"

definition endpoint_of :: "Config \<Rightarrow> string \<Rightarrow> Endpoint" where
  "endpoint_of c alias = (case map_of (cfg_Endpoints c) alias of Some e \<Rightarrow> e | None \<Rightarrow> zero_endpoint)"

definition set_targets :: "Config \<Rightarrow> SyncSet \<Rightarrow> routeTarget list" where
  "set_targets c s =
     map (\<lambda>alias. let e = endpoint_of c alias in
            \<lparr>rt_SyncSetID = set_ID s, rt_Endpoint = alias,
             rt_Anonymized = (ce_AnonymizeIncoming e \<or> set_AnonymizeToDiscord s \<and> ce_Transport e = ''discord'')\<rparr>)
       (set_Endpoints s)"

definition source_targets :: "Config \<Rightarrow> routeTarget list \<Rightarrow> EndpointID \<Rightarrow> routeTarget list" where
  "source_targets c targets source =
     (if ce_AnonymizeOutgoing (endpoint_of c source) then map (\<lambda>t. t\<lparr>rt_Anonymized := True\<rparr>) targets else targets)"

definition build_routes :: "Config \<Rightarrow> EndpointID \<rightharpoonup> routeTarget list" where
  "build_routes c =
     foldl (\<lambda>m s. let targets = set_targets c s in
         foldl (\<lambda>m t. m(rt_Endpoint t \<mapsto> source_targets c targets (rt_Endpoint t))) m targets)
       Map.empty (cfg_SyncSets c)"

definition routerEndpointSettings :: "Config \<Rightarrow> EndpointID \<rightharpoonup> SyncSetSettings" where
  "routerEndpointSettings c =
     foldl (\<lambda>m s. foldl (\<lambda>m alias. m(alias \<mapsto> SettingsForSet c s)) m (set_Endpoints s)) Map.empty (cfg_SyncSets c)"

definition routerEndpointSets :: "Config \<Rightarrow> EndpointID \<rightharpoonup> string" where
  "routerEndpointSets c =
     foldl (\<lambda>m s. foldl (\<lambda>m alias. m(alias \<mapsto> set_ID s)) m (set_Endpoints s)) Map.empty (cfg_SyncSets c)"

text \<open>Without a hasher no endpoint and no set may ask for anonymisation; the order of the checks differs.\<close>

definition hasher_error :: "bool \<Rightarrow> Config \<Rightarrow> gerr option" where
  "hasher_error has_hasher c =
     or_else (fail_if (\<not> has_hasher \<and> list_ex (\<lambda>(alias, e). ce_AnonymizeIncoming e \<or> ce_AnonymizeOutgoing e) (cfg_Endpoints c))
       ''identity hasher is required for anonymization'')
     (fail_if (\<not> has_hasher \<and> list_ex set_AnonymizeToDiscord (cfg_SyncSets c))
       ''identity hasher is required when anonymizeToDiscord is enabled'')"

definition hasher_error_update :: "bool \<Rightarrow> Config \<Rightarrow> gerr option" where
  "hasher_error_update has_hasher c =
     or_else (fail_if (\<not> has_hasher \<and> list_ex set_AnonymizeToDiscord (cfg_SyncSets c))
       ''identity hasher is required when anonymizeToDiscord is enabled'')
     (fail_if (\<not> has_hasher \<and> list_ex (\<lambda>(alias, e). ce_AnonymizeIncoming e \<or> ce_AnonymizeOutgoing e) (cfg_Endpoints c))
       ''identity hasher is required for anonymization'')"

definition routing_of :: "Config \<Rightarrow> routing" where
  "routing_of c =
     \<lparr>rg_routes = build_routes c,
      rg_endpointTransports = map_of (map (\<lambda>(alias, e). (alias, ce_Transport e)) (cfg_Endpoints c)),
      rg_endpointSettings = routerEndpointSettings c, rg_endpointSets = routerEndpointSets c,
      rg_childContextMode = cfg_ChildContextDisplayMode c, rg_aggTrigger = cfg_AggregationTrigger c,
      rg_localPrefix = cfg_LocalPrefix c\<rparr>"

subsection \<open>Look-ups\<close>

text \<open>The settings of an unknown endpoint are zero, apart from the display mode.\<close>

definition zero_settings :: SyncSetSettings where
  "zero_settings =
     \<lparr>ss_MembershipReviewEnabled = False, ss_PrivateDMRelayEnabled = False, ss_ChildContextDisplayMode = [],
      ss_Media = \<lparr>md_Enabled = False, md_MaxSizeMB = 0\<rparr>,
      ss_Recovery = \<lparr>rv_Enabled = False, rv_MaxAgeHours = 0, rv_MaxMessagesPerGroup = 0\<rparr>,
      ss_MessageRetentionDays = 0, ss_AggregationTrigger = [],
      ss_WhatsAppCleanup = \<lparr>wc_Enabled = False, wc_RetentionDays = 0\<rparr>, ss_LocalPrefix = []\<rparr>"

definition settingsFor :: "'a routing_scheme \<Rightarrow> EndpointID \<Rightarrow> SyncSetSettings" where
  "settingsFor r endpoint =
     (case rg_endpointSettings r endpoint of
        Some settings \<Rightarrow> settings
      | None \<Rightarrow> zero_settings\<lparr>ss_ChildContextDisplayMode := rg_childContextMode r\<rparr>)"

definition presentationEndpoint :: "EndpointID list \<Rightarrow> EndpointID" where
  "presentationEndpoint endpoints = (case endpoints of e # _ \<Rightarrow> e | [] \<Rightarrow> [])"

definition getChildContextMode :: "'a routing_scheme \<Rightarrow> EndpointID list \<Rightarrow> string" where
  "getChildContextMode r endpoints = ss_ChildContextDisplayMode (settingsFor r (presentationEndpoint endpoints))"

definition syncSetFor :: "'a routing_scheme \<Rightarrow> EndpointID \<Rightarrow> string" where
  "syncSetFor r endpoint = (case rg_endpointSets r endpoint of Some i \<Rightarrow> i | None \<Rightarrow> [])"

definition local_prefix_of :: "'a routing_scheme \<Rightarrow> EndpointID \<Rightarrow> string" where
  "local_prefix_of r endpoint =
     (case rg_endpointSettings r endpoint of Some settings \<Rightarrow> ss_LocalPrefix settings | None \<Rightarrow> rg_localPrefix r)"

definition agg_trigger_of :: "'a routing_scheme \<Rightarrow> EndpointID \<Rightarrow> string" where
  "agg_trigger_of r endpoint =
     (case rg_endpointSettings r endpoint of Some settings \<Rightarrow> ss_AggregationTrigger settings | None \<Rightarrow> rg_aggTrigger r)"

subsection \<open>The mesh of a sync set\<close>

text \<open>A map filled set by set, member by member, by disjoint sets.\<close>

lemma fill_members:
  "foldl (\<lambda>m a. m(a \<mapsto> f a)) m as b = (if b \<in> set as then Some (f b) else m b)"
  by (induction as arbitrary: m) auto

lemma fill_sets_other:
  "\<forall>s \<in> set ss. b \<notin> set (g s) \<Longrightarrow> foldl (\<lambda>m s. foldl (\<lambda>m a. m(a \<mapsto> f s a)) m (g s)) m ss b = m b"
  by (induction ss arbitrary: m) (simp_all add: fill_members)

lemma fill_sets:
  "distinct (concat (map g ss)) \<Longrightarrow> s \<in> set ss \<Longrightarrow> b \<in> set (g s) \<Longrightarrow>
     foldl (\<lambda>m s. foldl (\<lambda>m a. m(a \<mapsto> f s a)) m (g s)) m ss b = Some (f s b)"
proof (induction ss arbitrary: m)
  case (Cons s' ss)
  show ?case
  proof (cases "s \<in> set ss")
    case False
    with Cons.prems have same: "s = s'" and other: "\<forall>t \<in> set ss. b \<notin> set (g t)" by auto
    have "foldl (\<lambda>m a. m(a \<mapsto> f s' a)) m (g s') b = Some (f s b)"
      using Cons.prems(3) by (simp only: fill_members same if_True)
    then show ?thesis by (simp only: foldl.simps fill_sets_other [OF other])
  qed (use Cons in simp)
qed simp

lemma set_targets_endpoints [simp]: "map rt_Endpoint (set_targets c s) = set_Endpoints s"
  by (simp add: set_targets_def comp_def Let_def)

lemma build_routes_fill:
  "build_routes c = foldl (\<lambda>m s. foldl (\<lambda>m a. m(a \<mapsto> source_targets c (set_targets c s) a)) m (set_Endpoints s))
     Map.empty (cfg_SyncSets c)"
  by (simp only: build_routes_def Let_def set_targets_endpoints [of c, symmetric] foldl_map)

definition anonymised_route :: "Config \<Rightarrow> SyncSet \<Rightarrow> EndpointID \<Rightarrow> EndpointID \<Rightarrow> bool" where
  "anonymised_route c s source destination \<longleftrightarrow>
     ce_AnonymizeOutgoing (endpoint_of c source) \<or> ce_AnonymizeIncoming (endpoint_of c destination) \<or>
     set_AnonymizeToDiscord s \<and> ce_Transport (endpoint_of c destination) = ''discord''"

lemma source_targets_eq:
  "source_targets c (set_targets c s) a =
     map (\<lambda>b. \<lparr>rt_SyncSetID = set_ID s, rt_Endpoint = b, rt_Anonymized = anonymised_route c s a b\<rparr>) (set_Endpoints s)"
  by (simp add: source_targets_def set_targets_def anonymised_route_def Let_def)

lemma routes_of_member:
  assumes "well_formed c" "s \<in> set (cfg_SyncSets c)" "a \<in> set (set_Endpoints s)"
  shows "build_routes c a =
      Some (map (\<lambda>b. \<lparr>rt_SyncSetID = set_ID s, rt_Endpoint = b, rt_Anonymized = anonymised_route c s a b\<rparr>) (set_Endpoints s))"
    and "routerEndpointSettings c a = Some (SettingsForSet c s)"
    and "routerEndpointSets c a = Some (set_ID s)"
proof -
  have dist: "distinct (concat (map set_Endpoints (cfg_SyncSets c)))" using assms(1) unfolding well_formed_def by blast
  note F = fill_sets [OF dist assms(2,3)]
  show "build_routes c a =
      Some (map (\<lambda>b. \<lparr>rt_SyncSetID = set_ID s, rt_Endpoint = b, rt_Anonymized = anonymised_route c s a b\<rparr>) (set_Endpoints s))"
    unfolding build_routes_fill F source_targets_eq by (rule refl)
  show "routerEndpointSettings c a = Some (SettingsForSet c s)"
    unfolding routerEndpointSettings_def by (rule F)
  show "routerEndpointSets c a = Some (set_ID s)" unfolding routerEndpointSets_def by (rule F)
qed

lemma routes_of_none:
  assumes "well_formed c" "a \<notin> fst ` set (cfg_Endpoints c)"
  shows "build_routes c a = None"
proof -
  have "set (concat (map set_Endpoints (cfg_SyncSets c))) = fst ` set (cfg_Endpoints c)"
    using assms(1) unfolding well_formed_def by blast
  with assms(2) have "\<forall>s \<in> set (cfg_SyncSets c). a \<notin> set (set_Endpoints s)" by auto
  then show ?thesis unfolding build_routes_fill by (simp only: fill_sets_other)
qed

end
