(* ===== verification/Registry.thy ===== *)
theory Registry
  imports Config
begin

text \<open>
  The adapters of a router (\<^verbatim>\<open>internal/router/registry.go\<close>): which adapter answers a call for an endpoint. An
  adapter is what it answers: a function from the call to the error or the reference it returns (a call
  that only returns an error answers with any reference), and its private messenger if it has one. The
  checks for a nil receiver are left out: a registry is made by \<^verbatim>\<open>NewAdapterRegistry\<close>.
\<close>

subsection \<open>What a provider is asked and answers\<close>

datatype provider_call =
    CallSend Outgoing
  | CallReact Reaction
  | CallEdit MessageRef string
  | CallEditRendered MessageRef string
  | CallDelete MessageRef

record PrivateInbox =
  pi_ConnectionID :: string
  pi_Transport :: string
  pi_OwnerID :: string
  pi_ChatID :: string
  pi_Token :: string

record PrivateCopy =
  px_ConnectionID :: string
  px_Transport :: string
  px_OwnerID :: string
  px_Token :: string

record PrivateSendOptions =
  ps_ReplyToMessageID :: string
  ps_Attribution :: string

record PrivateSendResult =
  pr_RemoteMessageID :: string
  pr_LocalCopy :: PrivateCopy

record PrivateMessenger =
  pm_VerifyPrivateMember :: "EndpointID \<Rightarrow> string \<Rightarrow> bool"
  pm_VerifyPrivateInboxMember :: "EndpointID \<Rightarrow> string \<Rightarrow> PrivateInbox \<Rightarrow> bool"
  pm_ResolvePrivateInbox :: "EndpointID \<Rightarrow> string \<Rightarrow> PrivateInbox option"
  pm_SendPrivate :: "PrivateInbox \<Rightarrow> string \<Rightarrow> PrivateSendOptions list \<Rightarrow> terr + PrivateSendResult"
  pm_DeletePrivateCopyForMe :: "PrivateCopy \<Rightarrow> terr option"

record OutboundAdapter =
  ad_call :: "provider_call \<Rightarrow> terr + MessageRef"
  ad_private :: "PrivateMessenger option"

record AdapterRegistry =
  reg_adapters :: "string \<rightharpoonup> OutboundAdapter"
  reg_endpoints :: "EndpointID \<rightharpoonup> string"

subsection \<open>Construction\<close>

fun registry_endpoints :: "(string \<times> Endpoint) list \<Rightarrow> (EndpointID \<rightharpoonup> string) result" where
  "registry_endpoints [] = Inr Map.empty"
| "registry_endpoints ((alias, e) # es) =
     (if \<not> transport_IsValid (ce_Transport e) then Inl (ErrMsg ''configured endpoint has unknown transport'')
      else try_err (ValidateConnectionID (ce_ConnectionID e))
        (bind_res (registry_endpoints es) (\<lambda>m. Inr (m(alias \<mapsto> ce_ConnectionID e)))))"

definition registry_UpdateConfig :: "AdapterRegistry \<Rightarrow> Config \<Rightarrow> gerr option \<times> AdapterRegistry" where
  "registry_UpdateConfig r c =
     (case registry_endpoints (cfg_Endpoints c) of
        Inl e \<Rightarrow> (Some e, r)
      | Inr m \<Rightarrow> (None, r\<lparr>reg_endpoints := m\<rparr>))"

fun registry_adapters :: "(string \<times> OutboundAdapter option) list \<Rightarrow> (string \<rightharpoonup> OutboundAdapter) result" where
  "registry_adapters [] = Inr Map.empty"
| "registry_adapters ((conn, ad) # ads) =
     try_err (ValidateConnectionID conn)
       (case ad of
          None \<Rightarrow> Inl (ErrMsg ''connection adapter is unavailable'')
        | Some a \<Rightarrow> bind_res (registry_adapters ads) (\<lambda>m. Inr (m(conn \<mapsto> a))))"

definition NewAdapterRegistry :: "Config option \<Rightarrow> (string \<times> OutboundAdapter option) list \<Rightarrow> AdapterRegistry result" where
  "NewAdapterRegistry cfg adapters =
     (case cfg of
        None \<Rightarrow> Inl (ErrMsg ''config is required'')
      | Some c \<Rightarrow>
          bind_res (registry_adapters adapters) (\<lambda>m.
            case registry_UpdateConfig \<lparr>reg_adapters = m, reg_endpoints = Map.empty\<rparr> c of
              (Some e, _) \<Rightarrow> Inl e
            | (None, r) \<Rightarrow> Inr r))"

definition RegisterAdapter :: "AdapterRegistry \<Rightarrow> string \<Rightarrow> OutboundAdapter option \<Rightarrow> gerr option \<times> AdapterRegistry" where
  "RegisterAdapter r connectionID adapter =
     (case ValidateConnectionID connectionID of
        Some e \<Rightarrow> (Some e, r)
      | None \<Rightarrow>
          (case adapter of
             None \<Rightarrow> (Some (ErrMsg ''adapter is required''), r)
           | Some a \<Rightarrow> (None, r\<lparr>reg_adapters := (reg_adapters r)(connectionID \<mapsto> a)\<rparr>)))"

definition UnregisterAdapter :: "AdapterRegistry \<Rightarrow> string \<Rightarrow> AdapterRegistry" where
  "UnregisterAdapter r connectionID = r\<lparr>reg_adapters := (reg_adapters r)(connectionID := None)\<rparr>"

subsection \<open>Dispatch\<close>

definition new_failure :: "FailureClass \<Rightarrow> string \<Rightarrow> terr" where
  "new_failure class cause = the (NewFailure class 0 (Some (Plain cause)))"

definition adapterFor :: "AdapterRegistry \<Rightarrow> EndpointID \<Rightarrow> terr + OutboundAdapter" where
  "adapterFor r endpoint =
     (case reg_endpoints r endpoint of
        None \<Rightarrow> Inl (new_failure FailureDestinationMissing ''destination endpoint is not configured'')
      | Some connID \<Rightarrow>
          (case reg_adapters r connID of
             None \<Rightarrow> Inl (new_failure FailureTransient ''connection is stopped or unavailable'')
           | Some adapter \<Rightarrow> Inr adapter))"

definition call_endpoint :: "provider_call \<Rightarrow> EndpointID" where
  "call_endpoint c =
     (case c of
        CallSend out \<Rightarrow> out_Endpoint out
      | CallReact re \<Rightarrow> re_Endpoint re
      | CallEdit ref text \<Rightarrow> mr_Endpoint ref
      | CallEditRendered ref text \<Rightarrow> mr_Endpoint ref
      | CallDelete ref \<Rightarrow> mr_Endpoint ref)"

definition registry_dispatch :: "AdapterRegistry \<Rightarrow> provider_call \<Rightarrow> terr + MessageRef" where
  "registry_dispatch r c =
     (case adapterFor r (call_endpoint c) of Inl e \<Rightarrow> Inl e | Inr adapter \<Rightarrow> ad_call adapter c)"

definition err_of :: "'e + 'a \<Rightarrow> 'e option" where
  "err_of x = (case x of Inl e \<Rightarrow> Some e | Inr _ \<Rightarrow> None)"

definition registry_Send :: "AdapterRegistry \<Rightarrow> Outgoing \<Rightarrow> terr + MessageRef" where
  "registry_Send r outgoing = registry_dispatch r (CallSend outgoing)"

definition registry_React :: "AdapterRegistry \<Rightarrow> Reaction \<Rightarrow> terr option" where
  "registry_React r reaction = err_of (registry_dispatch r (CallReact reaction))"

definition registry_Edit :: "AdapterRegistry \<Rightarrow> MessageRef \<Rightarrow> string \<Rightarrow> terr option" where
  "registry_Edit r ref text = err_of (registry_dispatch r (CallEdit ref text))"

definition registry_Delete :: "AdapterRegistry \<Rightarrow> MessageRef \<Rightarrow> terr option" where
  "registry_Delete r ref = err_of (registry_dispatch r (CallDelete ref))"

subsection \<open>Private messages\<close>

definition privateMessengerForEndpoint :: "AdapterRegistry \<Rightarrow> EndpointID \<Rightarrow> terr + PrivateMessenger" where
  "privateMessengerForEndpoint r endpoint =
     (case adapterFor r endpoint of
        Inl e \<Rightarrow> Inl e
      | Inr adapter \<Rightarrow>
          (case ad_private adapter of
             None \<Rightarrow> Inl (Plain ''private messaging is unsupported by this connection'')
           | Some m \<Rightarrow> Inr m))"

definition privateMessengerForConnection :: "AdapterRegistry \<Rightarrow> string \<Rightarrow> terr + PrivateMessenger" where
  "privateMessengerForConnection r connectionID =
     (if connectionID = [] then Inl (Plain ''private messaging connection is unavailable'')
      else case reg_adapters r connectionID of
        None \<Rightarrow> Inl (Plain ''private messaging connection is unavailable'')
      | Some adapter \<Rightarrow>
          (case ad_private adapter of
             None \<Rightarrow> Inl (Plain ''private messaging is unsupported by this connection'')
           | Some m \<Rightarrow> Inr m))"

definition VerifyPrivateMember :: "AdapterRegistry \<Rightarrow> EndpointID \<Rightarrow> string \<Rightarrow> bool" where
  "VerifyPrivateMember r endpoint actorID =
     (case privateMessengerForEndpoint r endpoint of
        Inl _ \<Rightarrow> False | Inr m \<Rightarrow> pm_VerifyPrivateMember m endpoint actorID)"

text \<open>A missing key of the map of endpoints reads as the empty string.\<close>

definition owner_of :: "AdapterRegistry \<Rightarrow> EndpointID \<Rightarrow> string" where
  "owner_of r endpoint = (case reg_endpoints r endpoint of None \<Rightarrow> [] | Some conn \<Rightarrow> conn)"

definition VerifyPrivateInboxMember :: "AdapterRegistry \<Rightarrow> EndpointID \<Rightarrow> string \<Rightarrow> PrivateInbox \<Rightarrow> bool" where
  "VerifyPrivateInboxMember r endpoint actorID inbox =
     (if owner_of r endpoint \<noteq> pi_ConnectionID inbox then False
      else case privateMessengerForEndpoint r endpoint of
        Inl _ \<Rightarrow> False | Inr m \<Rightarrow> pm_VerifyPrivateInboxMember m endpoint actorID inbox)"

definition ResolvePrivateInbox :: "AdapterRegistry \<Rightarrow> EndpointID \<Rightarrow> string \<Rightarrow> PrivateInbox option" where
  "ResolvePrivateInbox r endpoint actorID =
     (case privateMessengerForEndpoint r endpoint of
        Inl _ \<Rightarrow> None
      | Inr m \<Rightarrow>
          (case pm_ResolvePrivateInbox m endpoint actorID of
             None \<Rightarrow> None
           | Some inbox \<Rightarrow>
               if pi_ConnectionID inbox = [] \<or> pi_Transport inbox = [] \<or> pi_OwnerID inbox = [] \<or>
                  pi_ChatID inbox = [] \<or> length (pi_Token inbox) = 0 then None
               else if pi_ConnectionID inbox \<noteq> owner_of r endpoint then None
               else Some inbox))"

definition SendPrivate ::
  "AdapterRegistry \<Rightarrow> PrivateInbox \<Rightarrow> string \<Rightarrow> PrivateSendOptions list \<Rightarrow> terr + PrivateSendResult" where
  "SendPrivate r inbox text options =
     (case privateMessengerForConnection r (pi_ConnectionID inbox) of
        Inl e \<Rightarrow> Inl e | Inr m \<Rightarrow> pm_SendPrivate m inbox text options)"

definition DeletePrivateCopyForMe :: "AdapterRegistry \<Rightarrow> PrivateCopy \<Rightarrow> terr option" where
  "DeletePrivateCopyForMe r copy =
     (case privateMessengerForConnection r (px_ConnectionID copy) of
        Inl e \<Rightarrow> Some e | Inr m \<Rightarrow> pm_DeletePrivateCopyForMe m copy)"

subsection \<open>Failures of the dispatch\<close>

lemma new_failure_simps [simp]:
  "validFailureClass class \<Longrightarrow> Class (Classify (Some (new_failure class m))) = class"
  "validFailureClass class \<Longrightarrow> Retryable (Classify (Some (new_failure class m))) = classRetryable class"
  "Certainty (Classify (Some (new_failure class m))) = SendDefinitelyNotSent"
  by (simp_all add: new_failure_def NewFailure_def NewFailureWithCertainty_def Let_def Classify_def certainty_of_def)

lemma failure_classes_valid [simp]:
  "validFailureClass FailureDestinationMissing" "\<not> classRetryable FailureDestinationMissing"
  by (simp_all add: validFailureClass_def classRetryable_def failure_class_defs)

lemma registry_endpoints_Inr:
  "registry_endpoints es = Inr m \<Longrightarrow> m = map_of (map (\<lambda>(a, e). (a, ce_ConnectionID e)) es) \<and>
     (\<forall>(a, e) \<in> set es. transport_IsValid (ce_Transport e) \<and> ValidateConnectionID (ce_ConnectionID e) = None)"
  by (induction es arbitrary: m rule: registry_endpoints.induct) (auto simp: try_err_Inr bind_res_Inr split: if_splits)

lemma registry_endpoints_ok:
  "(\<forall>(a, e) \<in> set es. transport_IsValid (ce_Transport e) \<and> ValidateConnectionID (ce_ConnectionID e) = None) \<Longrightarrow>
     registry_endpoints es = Inr (map_of (map (\<lambda>(a, e). (a, ce_ConnectionID e)) es))"
  by (induction es rule: registry_endpoints.induct) auto

end
