(* ===== verification/Presentation.thy ===== *)
theory Presentation
  imports Routes Registry
begin

text \<open>
  How the router words what it forwards (\<^verbatim>\<open>internal/router/router.go\<close>, \<^verbatim>\<open>aliases.go\<close>, \<^verbatim>\<open>references.go\<close>): the
  attribution of a sender, the names of mentions and of quoted senders, with and without anonymisation,
  the references of a message and the check that two endpoints still share a sync set.
\<close>

subsection \<open>Names\<close>

definition isOpaqueActorID :: "string \<Rightarrow> bool" where
  "isOpaqueActorID v =
     (let v = trim_space v in
      length v = 12 \<and> has_prefix v ''u_'' \<and>
      list_all (\<lambda>c. is_lower c \<or> (50 \<le> byte c \<and> byte c \<le> 55)) (drop 2 v))"

definition normalizeDisplayName :: "string \<Rightarrow> string" where
  "normalizeDisplayName v = join '' '' (go_fields v)"

definition escape_char :: "char \<Rightarrow> string \<Rightarrow> string" where
  "escape_char c v = replace_all v [c] [CHR 0x5C, c]"

definition escapePresentation :: "string \<Rightarrow> string" where
  "escapePresentation v =
     foldl (\<lambda>v c. escape_char c v) (escape_char (CHR 0x5C) v) ''*_`[]()''"

definition senderPresentationUsername :: "Sender \<Rightarrow> string" where
  "senderPresentationUsername sender =
     (let displayName = normalizeDisplayName (sd_DisplayName sender);
          name = (if displayName \<noteq> [] then displayName
                  else if sd_PhoneNumber sender \<noteq> [] then sd_PhoneNumber sender
                  else sd_OpaqueID sender)
      in NameWithAlias sender name)"

text \<open>The sender with an alias only, on which \<^verbatim>\<open>presentMentions\<close> calls \<^verbatim>\<open>NameWithAlias\<close>.\<close>

definition alias_sender :: "string \<Rightarrow> Sender" where
  "alias_sender alias = \<lparr>sd_Alias = alias, sd_Anonymized = False, sd_IdentityUnavailable = False,
     sd_DisplayName = [], sd_PhoneNumber = [], sd_OpaqueID = []\<rparr>"

definition presentMentions :: "Mention list \<Rightarrow> bool \<Rightarrow> Mention list" where
  "presentMentions mentions anonymized =
     map (\<lambda>m. let alias = mn_Alias m in
        if anonymized then m\<lparr>mn_Name := (if alias = [] then ''participant'' else alias)\<rparr>
        else if alias \<noteq> [] then m\<lparr>mn_Name := NameWithAlias (alias_sender alias) (mn_Name m)\<rparr>
        else m) mentions"

definition sanitize_mention :: "string \<Rightarrow> Mention \<Rightarrow> string" where
  "sanitize_mention content m =
     (let remoteID = trim_space (mn_RemoteID m) in
      if remoteID = [] then content
      else
        let name = join '' '' (go_fields (mn_Name m));
            name = (if name = [] \<or> name = remoteID then ''participant'' else name);
            content = replace_all content (CHR ''@'' # remoteID) (CHR ''@'' # name)
        in (case index_of remoteID ''@'' of
              None \<Rightarrow> content
            | Some atIdx \<Rightarrow>
                if 0 < atIdx then replace_all content (CHR ''@'' # take atIdx remoteID) (CHR ''@'' # name)
                else content))"

definition sanitizeMentionsText :: "string \<Rightarrow> Mention list \<Rightarrow> string" where
  "sanitizeMentionsText content mentions = foldl sanitize_mention content mentions"

subsection \<open>Quoted attributions\<close>

definition trim_left_ascii :: "string \<Rightarrow> string" where
  "trim_left_ascii s = dropWhile (\<lambda>c. c \<in> set [CHR '' '', CHR 0x09, CHR 0x0D, CHR 0x0A]) s"

definition strip_header :: "string \<Rightarrow> string" where
  "strip_header quotedText =
     (let trimmed = trim_left_ascii quotedText in
      if has_prefix trimmed ''*_'' then
        let inner = drop 2 trimmed in
        (case index_of inner ''_*: '' of
           Some idx \<Rightarrow> drop (idx + 4) inner
         | None \<Rightarrow> if inner = ''_*:'' \<or> has_suffix inner ''_*:'' then [] else quotedText)
      else quotedText)"

definition sanitizeQuotedAttribution :: "'a routing_scheme \<Rightarrow> string \<Rightarrow> string" where
  "sanitizeQuotedAttribution r quotedText =
     (let stripped = strip_header quotedText in
      if stripped \<noteq> quotedText then stripped
      else
        let trimmed = trim_left_ascii quotedText in
        (case index_of trimmed '': '' of
           None \<Rightarrow> quotedText
         | Some idx \<Rightarrow>
             if idx = 0 then quotedText
             else
               let senderPart = take idx trimmed in
               (case index_of senderPart ''/'' of
                  None \<Rightarrow> quotedText
                | Some slash \<Rightarrow>
                    if slash = 0 then quotedText
                    else if rg_endpointTransports r (take slash senderPart) = None then quotedText
                    else drop (idx + 2) trimmed)))"

subsection \<open>Aliases of senders and mentions\<close>

text \<open>An absent alias reads as the empty string.\<close>

definition alias_or_empty :: "Store \<Rightarrow> string \<Rightarrow> string \<Rightarrow> string result" where
  "alias_or_empty s setID actor =
     (case AliasByActor s setID actor of
        Inr alias \<Rightarrow> Inr alias
      | Inl e \<Rightarrow> if is_no_rows e then Inr [] else Inl (ErrWrap ''load mention alias'' e))"

definition mention_alias :: "Store \<Rightarrow> string \<Rightarrow> Mention \<Rightarrow> string result" where
  "mention_alias s setID m =
     (let actor = (if mn_ActorID m = [] \<and> isOpaqueActorID (mn_RemoteID m) then mn_RemoteID m else mn_ActorID m)
      in if isOpaqueActorID actor then alias_or_empty s setID actor else Inr [])"

fun prepareMentionAliases :: "Store \<Rightarrow> string \<Rightarrow> Mention list \<Rightarrow> Mention list result" where
  "prepareMentionAliases s setID [] = Inr []"
| "prepareMentionAliases s setID (m # ms) =
     bind_res (mention_alias s setID m)
       (\<lambda>alias. bind_res (prepareMentionAliases s setID ms) (\<lambda>ms. Inr (m\<lparr>mn_Alias := alias\<rparr> # ms)))"

text \<open>An event whose sender has no alias yet gets its aliases from the store.\<close>

definition with_aliases :: "Store \<Rightarrow> string \<Rightarrow> Incoming \<Rightarrow> Incoming result" where
  "with_aliases s setID incoming =
     bind_res (wrap_res ''load author alias'' (AliasByActor s setID (sd_OpaqueID (in_Sender incoming))))
      (\<lambda>alias. bind_res (prepareMentionAliases s setID (in_Mentions incoming))
        (\<lambda>mentions. bind_res (prepareMentionAliases s setID (in_QuotedMentions incoming))
          (\<lambda>quoted. Inr (incoming\<lparr>in_Sender := (in_Sender incoming)\<lparr>sd_Alias := alias\<rparr>,
             in_Mentions := mentions, in_QuotedMentions := quoted\<rparr>))))"

text \<open>What \<^verbatim>\<open>presentationForTarget\<close> makes of an event with its aliases.\<close>

definition present :: "'a routing_scheme \<Rightarrow> bool \<Rightarrow> Incoming \<Rightarrow> Sender \<times> Mention list \<times> string \<times> string" where
  "present r anonymized incoming =
     (let sender = (in_Sender incoming)\<lparr>sd_Anonymized := anonymized\<rparr>;
          sender = (if anonymized then sender\<lparr>sd_DisplayName := sd_Alias sender, sd_PhoneNumber := []\<rparr> else sender);
          mentions = presentMentions (in_Mentions incoming) anonymized;
          quotedMentions = presentMentions (in_QuotedMentions incoming) anonymized;
          text' = sanitizeMentionsText (in_Text incoming) mentions;
          quote = (if anonymized then sanitizeQuotedAttribution r (in_QuotedText incoming) else in_QuotedText incoming);
          quote = sanitizeMentionsText quote quotedMentions;
          quote = sanitizeMentionsText quote mentions
      in (sender, mentions, text', quote))"

definition presentationForTarget ::
  "'a routing_scheme \<Rightarrow> Store \<Rightarrow> Incoming \<Rightarrow> routeTarget \<Rightarrow> (Sender \<times> Mention list \<times> string \<times> string) result" where
  "presentationForTarget r s incoming target =
     (if sd_Alias (in_Sender incoming) = [] then
        let setID = (if rt_SyncSetID target = [] then syncSetFor r (in_Endpoint incoming) else rt_SyncSetID target)
        in bind_res (with_aliases s setID incoming) (\<lambda>incoming. Inr (present r (rt_Anonymized target) incoming))
      else Inr (present r (rt_Anonymized target) incoming))"

subsection \<open>Attribution\<close>

definition child_label :: "int \<Rightarrow> 'a routing_scheme \<Rightarrow> Store \<Rightarrow> EndpointID \<Rightarrow> ChildScope \<Rightarrow> string" where
  "child_label now r s endpoint scope =
     (let label = normalizeDisplayName (cs_Label scope);
          label = (if label = [] \<and> getChildContextMode r [endpoint] = ChildContextDisplayFriendly
                   then (case FindChildScopeLabel now s endpoint (cs_Kind scope) (cs_RemoteID scope) of
                           Inr stored \<Rightarrow> normalizeDisplayName (lb_DisplayName stored) | Inl _ \<Rightarrow> label)
                   else label)
      in if label \<noteq> [] then label
         else if cs_Kind scope = ''discord_thread'' then ''thread''
         else if cs_Kind scope = ''telegram_topic'' then ''topic''
         else [])"

definition senderLabelFor :: "int \<Rightarrow> 'a routing_scheme \<Rightarrow> Store \<Rightarrow> Incoming \<Rightarrow> Sender \<Rightarrow> string result" where
  "senderLabelFor now r s incoming sender =
     bind_res
       (if sd_Alias sender = []
        then bind_res (wrap_res ''load attribution alias''
               (AliasByActor s (syncSetFor r (in_Endpoint incoming)) (sd_OpaqueID sender)))
             (\<lambda>alias. Inr (sender\<lparr>sd_Alias := alias\<rparr>))
        else Inr sender)
       (\<lambda>sender.
          let username = senderPresentationUsername sender in
          if trim_space username = [] then Inl (ErrMsg ''incoming sender identity is required'')
          else
            let prefix = in_Endpoint incoming;
                prefix = (case in_ChildScope incoming of
                    None \<Rightarrow> prefix
                  | Some scope \<Rightarrow>
                      let label = child_label now r s (in_Endpoint incoming) scope
                      in if label \<noteq> [] then prefix @ ''/'' @ escapePresentation label else prefix)
            in Inr (prefix @ ''/'' @ username))"

definition forwardedTextFor :: "int \<Rightarrow> 'a routing_scheme \<Rightarrow> Store \<Rightarrow> Incoming \<Rightarrow> Sender \<Rightarrow> string result" where
  "forwardedTextFor now r s incoming sender =
     bind_res (senderLabelFor now r s incoming sender)
       (\<lambda>label. Inr (''*_'' @ label @ ''_*: '' @ in_Text incoming))"

definition childAwareRenderedText :: "string \<Rightarrow> ChildScope option \<Rightarrow> string \<Rightarrow> string" where
  "childAwareRenderedText mode childScope body =
     (if mode = ChildContextDisplayFriendly \<or> childScope \<noteq> None then body else [])"

definition childAwarePollAttributionFor ::
  "int \<Rightarrow> 'a routing_scheme \<Rightarrow> Store \<Rightarrow> string \<Rightarrow> Incoming \<Rightarrow> ChildScope option \<Rightarrow> Sender \<Rightarrow> string" where
  "childAwarePollAttributionFor now r s mode incoming childScope sender =
     (if mode \<noteq> ChildContextDisplayFriendly \<and> childScope = None then []
      else case senderLabelFor now r s incoming sender of
        Inl _ \<Rightarrow> [] | Inr label \<Rightarrow> ''*_'' @ label @ ''_*:'')"

subsection \<open>References and ownership of a route\<close>

definition maxCrossReferences :: nat where "maxCrossReferences = 32"

definition ResolveParticipantReference :: "Store \<Rightarrow> string \<Rightarrow> AliasRecord result" where
  "ResolveParticipantReference s token =
     (case ParseAliasToken token of None \<Rightarrow> Inl ErrNoRows | Some alias \<Rightarrow> ActorByAlias s alias)"

fun reference_loop ::
  "Store \<Rightarrow> string \<Rightarrow> string \<Rightarrow> (nat \<times> nat) list \<Rightarrow> CrossReference list \<Rightarrow> CrossReference list result" where
  "reference_loop s setID body [] refs = Inr refs"
| "reference_loop s setID body ((b, e) # spans) refs =
     (if maxCrossReferences \<le> length refs then Inr refs
      else
        let token = substr body b e;
            alias = (case ParseAliasToken token of None \<Rightarrow> [] | Some a \<Rightarrow> a)
        in (case ActorInSyncSetByAlias s setID alias of
              Inl err \<Rightarrow>
                if is_no_rows err then reference_loop s setID body spans refs
                else Inl (ErrWrap ''resolve alias reference'' err)
            | Inr record \<Rightarrow>
                reference_loop s setID body spans (refs @
                  [\<lparr>cr_Token = token, cr_ActorID = ar_ActorID record, cr_Alias = ar_Alias record, cr_Name = []\<rparr>])))"

definition referencesForSet :: "Store \<Rightarrow> string \<Rightarrow> string \<Rightarrow> CrossReference list result" where
  "referencesForSet s setID body =
     (if setID = [] then Inr [] else reference_loop s setID body (AliasTokenSpans body) [])"

definition crossReferences :: "'a routing_scheme \<Rightarrow> Store \<Rightarrow> EndpointID \<Rightarrow> string \<Rightarrow> CrossReference list result" where
  "crossReferences r s source body = referencesForSet s (syncSetFor r source) body"

text \<open>Errors of the store as errors of the transport boundary: none of them is a \<^verbatim>\<open>*Failure\<close>.\<close>

fun terr_of :: "gerr \<Rightarrow> terr" where
  "terr_of (ErrWrap m e) = Wrapped m (terr_of e)"
| "terr_of (ErrMsg m) = Plain m"
| "terr_of ErrNoRows = Plain ''sql: no rows in result set''"
| "terr_of (ErrConstraint m) = Plain m"
| "terr_of ErrConnDone = Plain ''sql: database is closed''"
| "terr_of ErrCtx = Plain ''context canceled''"

definition assertRouteSet :: "Store \<Rightarrow> EndpointID \<Rightarrow> EndpointID \<Rightarrow> string \<Rightarrow> terr option" where
  "assertRouteSet s source destination setID =
     (case query s (\<lambda>t. Inr (count_where
           (\<lambda>e. ep_SyncSetID e = Some setID \<and> (ep_Alias e = source \<or> ep_Alias e = destination)) (t_endpoints t))) of
        Inl e \<Rightarrow> Some (Wrapped ''verify route ownership'' (terr_of e))
      | Inr count \<Rightarrow>
          let want = (if source = destination then 1 else 2)
          in if count \<noteq> want then Some (new_failure FailureDestinationMissing ''route ownership changed'') else None)"

lemma as_failure_store [simp]: "as_failure (terr_of e) = None"
  by (induction e) simp_all

lemma Classify_store [simp]:
  "Class (Classify (Some (terr_of e))) = FailureTransient" "Retryable (Classify (Some (terr_of e)))"
  "Certainty (Classify (Some (terr_of e))) = SendDefinitelyNotSent"
  by (simp_all add: Classify_def)

end
