(* ===== verification/PresentationSpec.thy ===== *)
theory PresentationSpec
  imports Presentation ConfigSpec
begin

text \<open>
  Where messages go and what a destination may learn: the mesh of a sync set, the dispatch to adapters,
  anonymised presentations, escaped labels and quoted attributions.
\<close>

subsection \<open>Escaping\<close>

lemma replace_all_char: "replace_all s [c] new = concat (map (\<lambda>x. if x = c then new else [x]) s)"
proof (induction s)
  case Nil
  then show ?case by (subst replace_all.simps) simp
next
  case (Cons x s)
  then show ?case by (subst replace_all.simps) (simp add: has_prefix_def)
qed

definition escaped :: "string \<Rightarrow> string \<Rightarrow> string" where
  "escaped special v = concat (map (\<lambda>x. if x \<in> set special then [CHR 0x5C, x] else [x]) v)"

lemma escape_char_escaped:
  assumes "c \<notin> set special" "c \<noteq> CHR 0x5C"
  shows "escape_char c (escaped special v) = escaped (special @ [c]) v"
proof (induction v)
  case Nil
  then show ?case by (simp add: escape_char_def escaped_def replace_all_char)
next
  case (Cons x v)
  have "escape_char c (escaped special (x # v)) =
      concat (map (\<lambda>x. if x = c then [CHR 0x5C, c] else [x]) (if x \<in> set special then [CHR 0x5C, x] else [x])) @
      escape_char c (escaped special v)"
    by (simp add: escape_char_def escaped_def replace_all_char)
  with Cons assms show ?case by (auto simp: escaped_def)
qed

lemma fold_escape:
  "distinct (special @ cs) \<Longrightarrow> CHR 0x5C \<notin> set cs \<Longrightarrow>
     foldl (\<lambda>v c. escape_char c v) (escaped special v) cs = escaped (special @ cs) v"
proof (induction cs arbitrary: special)
  case (Cons c cs)
  have "escape_char c (escaped special v) = escaped (special @ [c]) v"
    using Cons.prems by (intro escape_char_escaped) auto
  with Cons.IH [of "special @ [c]"] Cons.prems show ?case by simp
qed simp

abbreviation "special_chars \<equiv> [CHR 0x5C] @ ''*_`[]()''"

lemma escapePresentation_escaped: "escapePresentation v = escaped special_chars v"
proof -
  have "escape_char (CHR 0x5C) v = escaped [CHR 0x5C] v" by (auto simp: escape_char_def escaped_def replace_all_char intro!: arg_cong [where f = concat])
  with fold_escape [of "[CHR 0x5C]" "''*_`[]()''" v] show ?thesis by (simp add: escapePresentation_def)
qed

text \<open>The reader of the escaped text: a backslash stands for the character that follows it.\<close>

fun unescape :: "string \<Rightarrow> string" where
  "unescape [] = []"
| "unescape [c] = [c]"
| "unescape (c # d # cs) = (if c = CHR 0x5C then d # unescape cs else c # unescape (d # cs))"

lemma unescape_plain: "c \<noteq> CHR 0x5C \<Longrightarrow> unescape (c # cs) = c # unescape cs"
  by (cases cs) simp_all

lemma unescape_escaped: "CHR 0x5C \<in> set special \<Longrightarrow> unescape (escaped special v) = v"
proof (induction v)
  case (Cons x v)
  then have "x \<notin> set special \<Longrightarrow> x \<noteq> CHR 0x5C" by auto
  with Cons show ?case by (simp add: escaped_def unescape_plain)
qed (simp add: escaped_def)

text \<open>Every special character of the escaped text is preceded by its backslash.\<close>

fun active_chars :: "string \<Rightarrow> string" where
  "active_chars [] = []"
| "active_chars [c] = [c]"
| "active_chars (c # d # cs) = (if c = CHR 0x5C then active_chars cs else c # active_chars (d # cs))"

lemma active_plain: "c \<noteq> CHR 0x5C \<Longrightarrow> active_chars (c # cs) = c # active_chars cs"
  by (cases cs) simp_all

lemma active_escaped:
  "CHR 0x5C \<in> set special \<Longrightarrow> active_chars (escaped special v) = filter (\<lambda>x. x \<notin> set special) v"
proof (induction v)
  case (Cons x v)
  then have "x \<notin> set special \<Longrightarrow> x \<noteq> CHR 0x5C" by auto
  with Cons show ?case by (simp add: escaped_def active_plain)
qed (simp add: escaped_def)

text \<open>
  Escaping a label loses nothing and leaves no active markup: reading it back gives the label, and the
  characters that are not escaped are exactly its harmless ones.
\<close>

theorem escape_presentation_exact:
  "unescape (escapePresentation v) = v \<and>
   active_chars (escapePresentation v) = filter (\<lambda>c. c \<notin> set (CHR 0x5C # ''*_`[]()'')) v"
  using unescape_escaped [of special_chars v] active_escaped [of special_chars v]
  by (simp add: escapePresentation_escaped)

subsection \<open>Quoted attributions\<close>

lemma index_of_prefix: "has_prefix s p \<Longrightarrow> index_of s p = Some 0"
  by (cases s) (auto simp: has_prefix_def)

lemma index_of_at:
  "\<forall>i < length a. \<not> has_prefix (drop i (a @ p @ b)) p \<Longrightarrow> index_of (a @ p @ b) p = Some (length a)"
proof (induction a)
  case Nil
  then show ?case by (simp add: index_of_prefix)
next
  case (Cons x a)
  have "\<not> has_prefix (x # a @ p @ b) p" "\<forall>i < length a. \<not> has_prefix (drop i (a @ p @ b)) p"
    using Cons.prems by (force dest: spec [of _ 0], force dest: spec [of _ "Suc i" for i])
  with Cons.IH show ?case by simp
qed

lemma header_end:
  assumes "index_of label ''_*: '' = None"
  shows "index_of (label @ ''_*: '' @ body) ''_*: '' = Some (length label)"
proof (rule index_of_at, intro allI impI)
  fix i assume i: "i < length label"
  then have no: "\<not> has_prefix (drop i label) ''_*: ''" using index_of_None [OF assms] by simp
  obtain l where l: "l = drop i label" "l \<noteq> []" using i by simp
  have "\<not> has_prefix (l @ ''_*: '' @ body) ''_*: ''"
  proof (cases "length l < 4")
    case True
    then consider a where "l = [a]" | a b where "l = [a, b]" | a b c where "l = [a, b, c]"
      using l(2) by (auto simp: neq_Nil_conv length_Suc_conv less_Suc_eq numeral_eq_Suc)
    then show ?thesis by cases (simp_all add: has_prefix_def)
  next
    case False
    with no l(1) show ?thesis by (simp add: has_prefix_def)
  qed
  with i l(1) show "\<not> has_prefix (drop i (label @ ''_*: '' @ body)) ''_*: ''" by simp
qed

text \<open>
  when a forwarded message is quoted back, the quote that an anonymised destination sees is the text the
  author wrote, without the attribution, provided the label does not contain the end mark of the header.
\<close>

theorem quoted_attribution_removed:
  assumes "senderLabelFor now r s incoming sender = Inr label" "index_of label ''_*: '' = None"
  shows "map_option (sanitizeQuotedAttribution q) (case forwardedTextFor now r s incoming sender of Inl _ \<Rightarrow> None | Inr t \<Rightarrow> Some t)
      = Some (in_Text incoming)"
proof -
  let ?t = "''*_'' @ label @ ''_*: '' @ in_Text incoming"
  have "trim_left_ascii ?t = ?t" by (simp add: trim_left_ascii_def)
  then have strip: "strip_header ?t = in_Text incoming"
    using header_end [OF assms(2), of "in_Text incoming"] by (simp add: strip_header_def has_prefix_def)
  have "length (in_Text incoming) \<noteq> length ?t" by simp
  then have "strip_header ?t \<noteq> ?t" unfolding strip by metis
  then have "sanitizeQuotedAttribution q ?t = in_Text incoming"
    unfolding sanitizeQuotedAttribution_def Let_def strip by (simp only: if_True not_False_eq_True simp_thms)
  with assms(1) show ?thesis by (simp add: forwardedTextFor_def)
qed

definition sample_sender :: Sender where
  "sample_sender = \<lparr>sd_Alias = ''calm-fox'', sd_Anonymized = False, sd_IdentityUnavailable = False,
     sd_DisplayName = ''Ann'', sd_PhoneNumber = ''+49'', sd_OpaqueID = ''u_aaaaaaaaaa''\<rparr>"

definition sample_incoming :: Incoming where
  "sample_incoming = \<lparr>in_Endpoint = ''work'',
     in_Checkpoint = \<lparr>StreamKey = [], Position = 0, EventTimestamp = None, Valid = False\<rparr>, in_RemoteID = ''m1'',
     in_Sender = sample_sender, in_FromSelf = False, in_Kind = ''text'', in_Text = ''hi'', in_Mentions = [],
     in_ReplyTo = None, in_ChildScope = None, in_QuotedMentions = [], in_QuotedText = [], in_Timestamp = Some 5,
     in_MediaLoader = None, in_PollOptions = [], in_PollSelectableCount = 0, in_PollDurationHours = 0,
     in_PollOptionHashes = [], in_PollOptionIndexes = None, in_PollSnapshot = [], in_PollProvider = [],
     in_PollProviderReference = [], in_PollSourceUnavailable = False\<rparr>"

definition sample_routing :: routing where
  "sample_routing = routing_of zero_config"

theorem quoted_attribution_removed_witness:
  "map_option (sanitizeQuotedAttribution sample_routing)
     (case forwardedTextFor 0 sample_routing sample_store sample_incoming sample_sender of
        Inl _ \<Rightarrow> None | Inr t \<Rightarrow> Some t) = Some ''hi''"
proof -
  have "senderLabelFor 0 sample_routing sample_store sample_incoming sample_sender = Inr ''work/Ann (calm-fox)''"
    by code_simp
  moreover have "index_of ''work/Ann (calm-fox)'' ''_*: '' = None" by code_simp
  ultimately show ?thesis
    using quoted_attribution_removed [of 0 sample_routing sample_store sample_incoming sample_sender "''work/Ann (calm-fox)''"]
    by (simp add: sample_incoming_def)
qed

subsection \<open>The mesh\<close>

text \<open>
  C35: routing follows the configuration: exactly the configured endpoints have a route; the route of an
  endpoint lists the members of its sync set in order, every one under the id of that set; every member has
  a route to the same endpoints; and a destination is anonymised exactly if its source hides outgoing
  messages, it hides incoming ones, or its set hides them from Discord.
\<close>

theorem routes_mesh:
  assumes "well_formed c"
  shows "(build_routes c a = None \<longleftrightarrow> a \<notin> fst ` set (cfg_Endpoints c)) \<and>
    (\<forall>ts. build_routes c a = Some ts \<longrightarrow>
      (\<exists>s \<in> set (cfg_SyncSets c). a \<in> set (set_Endpoints s) \<and> endpointIDs ts = set_Endpoints s \<and>
        (\<forall>t \<in> set ts. rt_SyncSetID t = set_ID s \<and> rt_Anonymized t = anonymised_route c s a (rt_Endpoint t) \<and>
          map_option endpointIDs (build_routes c (rt_Endpoint t)) = Some (endpointIDs ts))))"
proof -
  have all: "set (concat (map set_Endpoints (cfg_SyncSets c))) = fst ` set (cfg_Endpoints c)"
    using assms unfolding well_formed_def by blast
  have member: "\<exists>s \<in> set (cfg_SyncSets c). a \<in> set (set_Endpoints s)" if "a \<in> fst ` set (cfg_Endpoints c)" for a
    using that unfolding all [symmetric] by auto
  have none: "build_routes c a = None \<longleftrightarrow> a \<notin> fst ` set (cfg_Endpoints c)"
  proof
    assume "build_routes c a = None"
    show "a \<notin> fst ` set (cfg_Endpoints c)"
    proof
      assume "a \<in> fst ` set (cfg_Endpoints c)"
      from member [OF this] obtain s where "s \<in> set (cfg_SyncSets c)" "a \<in> set (set_Endpoints s)" ..
      from routes_of_member(1) [OF assms this] \<open>build_routes c a = None\<close> show False by simp
    qed
  qed (rule routes_of_none [OF assms])
  moreover have "\<exists>s \<in> set (cfg_SyncSets c). a \<in> set (set_Endpoints s) \<and> endpointIDs ts = set_Endpoints s \<and>
        (\<forall>t \<in> set ts. rt_SyncSetID t = set_ID s \<and> rt_Anonymized t = anonymised_route c s a (rt_Endpoint t) \<and>
          map_option endpointIDs (build_routes c (rt_Endpoint t)) = Some (endpointIDs ts))"
    if ts: "build_routes c a = Some ts" for ts
  proof -
    from ts none member obtain s where s: "s \<in> set (cfg_SyncSets c)" "a \<in> set (set_Endpoints s)" by auto
    note R = routes_of_member(1) [OF assms s(1)]
    have ids: "endpointIDs ts = set_Endpoints s"
      using ts R [OF s(2)] by (auto simp: endpointIDs_def comp_def)
    have "map_option endpointIDs (build_routes c b) = Some (set_Endpoints s)" if "b \<in> set (set_Endpoints s)" for b
      unfolding R [OF that] by (simp add: endpointIDs_def comp_def)
    moreover have "rt_SyncSetID t = set_ID s \<and> rt_Anonymized t = anonymised_route c s a (rt_Endpoint t) \<and>
        rt_Endpoint t \<in> set (set_Endpoints s)" if "t \<in> set ts" for t
      using that ts R [OF s(2)] by auto
    ultimately show ?thesis using s ids by (intro bexI [of _ s]) auto
  qed
  ultimately show ?thesis by blast
qed

theorem routes_mesh_witness:
  "map_option endpointIDs (build_routes (applyDefaults sample_config) ''work'') = Some [''work'', ''family'']"
proof -
  have wf: "well_formed (applyDefaults sample_config)"
    using sample_config_valid(1) by (rule validate_well_formed)
  have "''work'' \<in> fst ` set (cfg_Endpoints (applyDefaults sample_config))" by (simp add: sample_config_def)
  with routes_mesh [OF wf, of "''work''"] obtain ts where ts: "build_routes (applyDefaults sample_config) ''work'' = Some ts"
    by (cases "build_routes (applyDefaults sample_config) ''work''") simp_all
  with routes_mesh [OF wf, of "''work''"] obtain s where
    "s \<in> set (cfg_SyncSets (applyDefaults sample_config))" "endpointIDs ts = set_Endpoints s" by (elim conjE allE impE bexE)
  then have "endpointIDs ts = [''work'', ''family'']" by (simp add: sample_config_def)
  with ts show ?thesis by simp
qed

subsection \<open>Dispatch\<close>

text \<open>
  A call is answered by the adapter registered for the connection that the configuration gives its
  endpoint, whatever else is registered; without a configured endpoint the failure is permanent, without a
  running connection it is retryable, and in both cases nothing was sent.
\<close>

theorem registry_dispatch_exact:
  assumes "registry_UpdateConfig r0 c = (None, r)" "distinct (map fst (cfg_Endpoints c))"
  shows "case map_of (cfg_Endpoints c) (call_endpoint call) of
      None \<Rightarrow> (\<exists>e. registry_dispatch r call = Inl e \<and> Class (Classify (Some e)) = FailureDestinationMissing \<and>
        \<not> Retryable (Classify (Some e)) \<and> Certainty (Classify (Some e)) = SendDefinitelyNotSent)
    | Some endpoint \<Rightarrow>
        (case reg_adapters r0 (ce_ConnectionID endpoint) of
           None \<Rightarrow> (\<exists>e. registry_dispatch r call = Inl e \<and> Retryable (Classify (Some e)) \<and>
             Certainty (Classify (Some e)) = SendDefinitelyNotSent)
         | Some adapter \<Rightarrow> registry_dispatch r call = ad_call adapter call)"
proof -
  from assms(1) obtain m where m: "registry_endpoints (cfg_Endpoints c) = Inr m" "r = r0\<lparr>reg_endpoints := m\<rparr>"
    by (auto simp: registry_UpdateConfig_def split: sum.split_asm)
  have "m a = map_option ce_ConnectionID (map_of (cfg_Endpoints c) a)" for a
    using registry_endpoints_Inr [OF m(1)] by (simp add: map_of_map)
  then have conn: "reg_endpoints r a = map_option ce_ConnectionID (map_of (cfg_Endpoints c) a)"
    "reg_adapters r = reg_adapters r0" for a
    by (simp_all add: m(2))
  show ?thesis by (auto simp: registry_dispatch_def adapterFor_def conn split: option.split)
qed

theorem registry_dispatch_exact_witness:
  "\<exists>r e. registry_UpdateConfig \<lparr>reg_adapters = Map.empty, reg_endpoints = Map.empty\<rparr> sample_config = (None, r) \<and>
     registry_dispatch r (CallReact \<lparr>re_Endpoint = ''work'', re_TargetRemoteID = ''m'', re_IsTargetFromMe = False,
       re_ChildScope = None, re_Emoji = ''x'', re_FallbackText = []\<rparr>) = Inl e \<and> Retryable (Classify (Some e))"
proof -
  let ?r0 = "\<lparr>reg_adapters = Map.empty, reg_endpoints = Map.empty\<rparr> :: AdapterRegistry"
  let ?call = "CallReact \<lparr>re_Endpoint = ''work'', re_TargetRemoteID = ''m'', re_IsTargetFromMe = False,
       re_ChildScope = None, re_Emoji = ''x'', re_FallbackText = []\<rparr>"
  have "ValidateConnectionID ''c1'' = None" by code_simp
  then obtain r where r: "registry_UpdateConfig ?r0 sample_config = (None, r)"
    by (simp add: registry_UpdateConfig_def sample_config_def sample_endpoint_def transport_IsValid_def)
  have "map_of (cfg_Endpoints sample_config) (call_endpoint ?call) = Some (sample_endpoint ''discord'' ''77'')"
    by (simp add: sample_config_def call_endpoint_def)
  with registry_dispatch_exact [OF r sample_config_valid(2), of ?call] r show ?thesis by auto
qed

subsection \<open>Anonymity\<close>

text \<open>Two events that differ only in names and phone numbers of people.\<close>

definition forget_names :: "Incoming \<Rightarrow> Incoming" where
  "forget_names incoming = incoming
     \<lparr>in_Sender := (in_Sender incoming)\<lparr>sd_DisplayName := [], sd_PhoneNumber := [], sd_Anonymized := False\<rparr>,
      in_Mentions := map (\<lambda>m. m\<lparr>mn_Name := []\<rparr>) (in_Mentions incoming),
      in_QuotedMentions := map (\<lambda>m. m\<lparr>mn_Name := []\<rparr>) (in_QuotedMentions incoming)\<rparr>"

lemma present_forget: "present r True incoming = present r True (forget_names incoming)"
proof -
  have mentions: "presentMentions (map (\<lambda>m. m\<lparr>mn_Name := []\<rparr>) ms) True = presentMentions ms True" for ms
    by (simp add: presentMentions_def Let_def)
  show ?thesis by (simp add: present_def Let_def forget_names_def mentions)
qed

lemma prepare_forget:
  "bind_res (prepareMentionAliases s i ms) (\<lambda>ms. Inr (map (\<lambda>m. m\<lparr>mn_Name := []\<rparr>) ms)) =
     prepareMentionAliases s i (map (\<lambda>m. m\<lparr>mn_Name := []\<rparr>) ms)"
proof (induction ms)
  case (Cons m ms)
  have "mention_alias s i (m\<lparr>mn_Name := []\<rparr>) = mention_alias s i m" by (simp add: mention_alias_def)
  then show ?case
    by (simp add: Cons.IH [symmetric]) (simp add: bind_res_def split: sum.split)
qed simp

lemma with_aliases_forget:
  "bind_res (with_aliases s i incoming) (\<lambda>x. Inr (forget_names x)) = with_aliases s i (forget_names incoming)"
proof -
  let ?f = "map (\<lambda>m. m\<lparr>mn_Name := []\<rparr>)"
  have "with_aliases s i (forget_names incoming) =
     bind_res (wrap_res ''load author alias'' (AliasByActor s i (sd_OpaqueID (in_Sender incoming))))
      (\<lambda>alias. bind_res (bind_res (prepareMentionAliases s i (in_Mentions incoming)) (\<lambda>ms. Inr (?f ms)))
        (\<lambda>mentions. bind_res (bind_res (prepareMentionAliases s i (in_QuotedMentions incoming)) (\<lambda>ms. Inr (?f ms)))
          (\<lambda>quoted. Inr ((forget_names incoming)\<lparr>in_Sender := (in_Sender (forget_names incoming))\<lparr>sd_Alias := alias\<rparr>,
             in_Mentions := mentions, in_QuotedMentions := quoted\<rparr>))))"
    by (simp add: with_aliases_def prepare_forget) (simp add: forget_names_def)
  also have "\<dots> = bind_res (with_aliases s i incoming) (\<lambda>x. Inr (forget_names x))"
    by (simp add: with_aliases_def bind_res_def forget_names_def split: sum.split)
  finally show ?thesis by (rule sym)
qed



end
