(* ===== verification/RouterState.thy ===== *)
theory RouterState
  imports Presentation Lanes Ledger Polls
begin

text \<open>
  The state of the router (\<^verbatim>\<open>internal/router/router.go\<close>) and the steps its operations share. A closure on a lane is
  the value that describes it (\<open>job\<close>), with the variables it captures. The calls of a provider are logged in
  \<open>ro_calls\<close>; what a provider answers may depend on everything it was asked before (\<open>ev_reply\<close>). A revision
  is an integer: the counter does not reach \<open>2 ^ 63\<close>. The map of pending reactions of a message is the list of
  its entries in the order an iteration takes.
\<close>

type_synonym mutationKey = "string \<times> EndpointID"

record pollPresentation =
  pp_Question :: string
  pp_Options :: "string list"

record pollAggregate =
  pg_Options :: "PollOption list"
  pg_Counts :: "(int \<times> int) list"
  pg_Partial :: bool

record pendingEdit =
  pend_revision :: int
  pend_text :: string

record pendingReaction =
  pr_revision :: int
  pr_actor :: string
  pr_emoji :: string
  pr_fallback :: string

record Outcome =
  oc_Accepted :: bool
  oc_NoOp :: bool
  oc_SafeToAdvance :: bool
  oc_Pending :: bool
  oc_Ambiguous :: bool

subsection \<open>Jobs\<close>

text \<open>The variables captured by the job of \<^verbatim>\<open>enqueueCreate\<close>.\<close>

record create_job =
  cj_Canonical :: string
  cj_Incoming :: Incoming
  cj_Target :: routeTarget
  cj_Sender :: Sender
  cj_Mentions :: "Mention list"
  cj_References :: "CrossReference list"
  cj_QuotedText :: string
  cj_Text :: string
  cj_SenderLabel :: string
  cj_ReplyTo :: "MessageRef option"
  cj_ChildScope :: "ChildScope option"
  cj_Media :: string

text \<open>
  The closures given to \<^verbatim>\<open>enqueueMutation\<close>: the deletion of a copy and of a result companion, the edits and
  reactions for a known copy and those flushed after a create, the edits of poll results.
\<close>

datatype mutation =
    DeleteCopy string EndpointID MessageCopy
  | DeleteCompanion string EndpointID string
  | EditCopy string EndpointID MessageCopy pendingEdit
  | FlushEdit string EndpointID MessageCopy pendingEdit
  | ReactCopy string EndpointID MessageCopy pendingReaction
  | FlushReact string EndpointID MessageCopy pendingReaction
  | EditResult string EndpointID string pendingEdit
  | EditAggregation string MessageRef pendingEdit

datatype job = CreateJob create_job | MutationJob DeliveryOperation mutation

record Router = routing +
  ro_store :: Store
  ro_lanes :: "(RetryPolicy \<times> job) sys"
  ro_knownCopies :: "EndpointID \<times> string \<rightharpoonup> string"
  ro_pollPresentation :: "string \<rightharpoonup> pollPresentation"
  ro_pollAggregations :: "string \<Rightarrow> MessageRef list"
  ro_pendingEdits :: "mutationKey \<rightharpoonup> pendingEdit"
  ro_pendingResultEdits :: "mutationKey \<rightharpoonup> pendingEdit"
  ro_pendingReactions :: "mutationKey \<Rightarrow> (string \<times> pendingReaction) list"
  ro_nextRevision :: int
  ro_hasher :: bool
  ro_presentations :: "(string \<rightharpoonup> string \<times> string list) option"
  ro_calls :: "provider_call list"

text \<open>
  What an operation finds outside: the clock, the answers of the providers, whether the sender can edit
  rendered text, the SHA-256 digest in hexadecimal, the help text, the errors of the presentation store
  (\<^verbatim>\<open>ro_presentations\<close> is \<open>None\<close> when there is no such store) and the next random canonical id.
\<close>

record env =
  ev_now :: int
  ev_reply :: "provider_call list \<Rightarrow> provider_call \<Rightarrow> terr + MessageRef"
  ev_renders :: bool
  ev_hash :: "string \<Rightarrow> string"
  ev_help :: string
  ev_save_error :: "terr option"
  ev_load_error :: "gerr option"
  ev_fresh :: "terr + string"

subsection \<open>Sequencing\<close>

type_synonym 'a rop = "Router \<Rightarrow> (terr + 'a) \<times> Router"

definition ret :: "'a \<Rightarrow> 'a rop" where
  "ret x r = (Inr x, r)"

definition fail :: "terr \<Rightarrow> 'a rop" where
  "fail e r = (Inl e, r)"

definition seqr :: "'a rop \<Rightarrow> ('a \<Rightarrow> 'b rop) \<Rightarrow> 'b rop" where
  "seqr m k r = (case m r of (Inl e, r) \<Rightarrow> (Inl e, r) | (Inr x, r) \<Rightarrow> k x r)"

definition modify :: "(Router \<Rightarrow> Router) \<Rightarrow> unit rop" where
  "modify f r = (Inr (), f r)"

text \<open>A statement of the store, the error wrapped (\<open>store_do\<close>) or not (\<open>store_raw\<close>), or dropped (\<open>store_ignore\<close>).\<close>

definition store_raw :: "(Store \<Rightarrow> 'a result \<times> Store) \<Rightarrow> 'a rop" where
  "store_raw f r = (case f (ro_store r) of (Inl e, s) \<Rightarrow> (Inl (terr_of e), r\<lparr>ro_store := s\<rparr>) | (Inr x, s) \<Rightarrow> (Inr x, r\<lparr>ro_store := s\<rparr>))"

definition store_do :: "string \<Rightarrow> (Store \<Rightarrow> 'a result \<times> Store) \<Rightarrow> 'a rop" where
  "store_do m f = store_raw (\<lambda>s. wrapDB m (f s))"

definition store_ignore :: "(Store \<Rightarrow> 'a result \<times> Store) \<Rightarrow> Router \<Rightarrow> Router" where
  "store_ignore f r = r\<lparr>ro_store := snd (f (ro_store r))\<rparr>"

definition of_result :: "string \<Rightarrow> 'a result \<Rightarrow> 'a rop" where
  "of_result m x r = (case x of Inl e \<Rightarrow> (Inl (Wrapped m (terr_of e)), r) | Inr y \<Rightarrow> (Inr y, r))"

definition of_raw :: "'a result \<Rightarrow> 'a rop" where
  "of_raw x r = (case x of Inl e \<Rightarrow> (Inl (terr_of e), r) | Inr y \<Rightarrow> (Inr y, r))"

text \<open>A statement with a context that may be gone.\<close>

definition ctx_do :: "bool \<Rightarrow> (Store \<Rightarrow> 'a result \<times> Store) \<Rightarrow> Store \<Rightarrow> 'a result \<times> Store" where
  "ctx_do gone f s = (if gone then (Inl ErrCtx, s) else f s)"

definition ctx_get :: "bool \<Rightarrow> 'a result \<Rightarrow> 'a result" where
  "ctx_get gone x = (if gone then Inl ErrCtx else x)"

fun for_each :: "('a \<Rightarrow> unit rop) \<Rightarrow> 'a list \<Rightarrow> unit rop" where
  "for_each f [] = ret ()"
| "for_each f (x # xs) = seqr (f x) (\<lambda>_. for_each f xs)"

definition call :: "env \<Rightarrow> provider_call \<Rightarrow> Router \<Rightarrow> (terr + MessageRef) \<times> Router" where
  "call v c r = (ev_reply v (ro_calls r) c, r\<lparr>ro_calls := ro_calls r @ [c]\<rparr>)"

definition valid_ref :: "EndpointID \<Rightarrow> MessageRef \<Rightarrow> bool" where
  "valid_ref endpoint ref = (mr_Endpoint ref = endpoint \<and> trim_space (mr_RemoteMessageID ref) \<noteq> [])"

lemma seqr_simps [simp]:
  "seqr (ret x) k r = k x r" "seqr (fail e) k r = (Inl e, r)" "seqr (modify f) k r = k () (f r)"
  by (simp_all add: seqr_def ret_def fail_def modify_def)

subsection \<open>Small steps\<close>

definition operation :: "env \<Rightarrow> string \<Rightarrow> EndpointID \<Rightarrow> string \<Rightarrow> int \<Rightarrow> DeliveryOperation" where
  "operation v canonicalID endpoint kind revision =
     \<lparr>do_CanonicalID = canonicalID, do_EndpointID = endpoint, do_OperationKind = kind,
      do_OperationRevision = revision, do_State = DeliveryQueued, do_AttemptCount = 0, do_NextAttemptAt = None,
      do_FailureClass = [], do_CreatedAt = Some (ev_now v), do_UpdatedAt = Some (ev_now v)\<rparr>"

definition nextMutationRevision :: "Router \<Rightarrow> int \<times> Router" where
  "nextMutationRevision r = (ro_nextRevision r + 1, r\<lparr>ro_nextRevision := ro_nextRevision r + 1\<rparr>)"

definition childScope :: "Router \<Rightarrow> string \<Rightarrow> EndpointID \<Rightarrow> ChildScope option" where
  "childScope r canonicalID endpoint =
     (case CanonicalScope (ro_store r) canonicalID endpoint of
        Inl _ \<Rightarrow> None
      | Inr scope \<Rightarrow> Some \<lparr>cs_Kind = sc_ScopeKind scope, cs_RemoteID = sc_RemoteScopeID scope, cs_Label = []\<rparr>)"

definition plain_ref :: "EndpointID \<Rightarrow> string \<Rightarrow> bool \<Rightarrow> ChildScope option \<Rightarrow> MessageRef" where
  "plain_ref endpoint remoteID fromMe scope =
     \<lparr>mr_Endpoint = endpoint, mr_RemoteMessageID = remoteID, mr_IsTargetFromMe = fromMe, mr_Provider = [],
      mr_ProviderReference = [], mr_ChildScope = scope\<rparr>"

definition destinationMessageRef :: "bool \<Rightarrow> Router \<Rightarrow> string \<Rightarrow> EndpointID \<Rightarrow> MessageCopy \<Rightarrow> MessageRef" where
  "destinationMessageRef gone r canonicalID endpoint copy =
     plain_ref endpoint (mc_RemoteMessageID copy) (mc_FromSelf copy)
       (if gone then None else childScope r canonicalID endpoint)"

definition companionMessageRef :: "bool \<Rightarrow> Router \<Rightarrow> string \<Rightarrow> EndpointID \<Rightarrow> string \<Rightarrow> MessageRef" where
  "companionMessageRef gone r canonicalID endpoint remoteID =
     plain_ref endpoint remoteID True (if gone then None else childScope r canonicalID endpoint)"

definition edit :: "env \<Rightarrow> MessageRef \<Rightarrow> string \<Rightarrow> Router \<Rightarrow> (terr + MessageRef) \<times> Router" where
  "edit v ref body r =
     (if getChildContextMode r [mr_Endpoint ref] = ChildContextDisplayFriendly \<and> ev_renders v
      then call v (CallEditRendered ref body) r else call v (CallEdit ref body) r)"

definition pendingEditCurrent :: "Router \<Rightarrow> mutationKey \<Rightarrow> int \<Rightarrow> bool" where
  "pendingEditCurrent r key revision =
     (case ro_pendingEdits r key of None \<Rightarrow> False | Some e \<Rightarrow> pend_revision e = revision)"

definition pendingResultEditCurrent :: "Router \<Rightarrow> mutationKey \<Rightarrow> int \<Rightarrow> bool" where
  "pendingResultEditCurrent r key revision =
     (case ro_pendingResultEdits r key of None \<Rightarrow> False | Some e \<Rightarrow> pend_revision e = revision)"

definition pendingReactionCurrent :: "Router \<Rightarrow> mutationKey \<Rightarrow> string \<Rightarrow> int \<Rightarrow> bool" where
  "pendingReactionCurrent r key actor revision =
     (case map_of (ro_pendingReactions r key) actor of None \<Rightarrow> False | Some p \<Rightarrow> pr_revision p = revision)"

definition set_pending_edit :: "mutationKey \<Rightarrow> pendingEdit \<Rightarrow> Router \<Rightarrow> Router" where
  "set_pending_edit key e r = r\<lparr>ro_pendingEdits := (ro_pendingEdits r)(key \<mapsto> e)\<rparr>"

definition set_pending_result :: "mutationKey \<Rightarrow> pendingEdit \<Rightarrow> Router \<Rightarrow> Router" where
  "set_pending_result key e r = r\<lparr>ro_pendingResultEdits := (ro_pendingResultEdits r)(key \<mapsto> e)\<rparr>"

definition set_pending_reaction :: "mutationKey \<Rightarrow> pendingReaction \<Rightarrow> Router \<Rightarrow> Router" where
  "set_pending_reaction key p r = r\<lparr>ro_pendingReactions := (ro_pendingReactions r)
     (key := (pr_actor p, p) # filter (\<lambda>(a, _). a \<noteq> pr_actor p) (ro_pendingReactions r key))\<rparr>"

text \<open>The callbacks after success: a newer pending entry stays.\<close>

definition clear_edit :: "mutationKey \<Rightarrow> int \<Rightarrow> Router \<Rightarrow> Router" where
  "clear_edit key revision r =
     (if pendingEditCurrent r key revision then r\<lparr>ro_pendingEdits := (ro_pendingEdits r)(key := None)\<rparr> else r)"

definition clear_result :: "mutationKey \<Rightarrow> int \<Rightarrow> Router \<Rightarrow> Router" where
  "clear_result key revision r =
     (if pendingResultEditCurrent r key revision
      then r\<lparr>ro_pendingResultEdits := (ro_pendingResultEdits r)(key := None)\<rparr> else r)"

definition clear_reaction :: "mutationKey \<Rightarrow> string \<Rightarrow> int \<Rightarrow> Router \<Rightarrow> Router" where
  "clear_reaction key actor revision r =
     (if pendingReactionCurrent r key actor revision
      then r\<lparr>ro_pendingReactions := (ro_pendingReactions r)(key := filter (\<lambda>(a, _). a \<noteq> actor) (ro_pendingReactions r key))\<rparr>
      else r)"

text \<open>Putting a job on the lane of an endpoint.\<close>

definition enqueue_job :: "EndpointID \<Rightarrow> job \<Rightarrow> Router \<Rightarrow> gerr option \<times> Router" where
  "enqueue_job endpoint j r =
     (case mgr_EnqueueRetry (mgr (ro_lanes r)) True endpoint (Some j) of
        (e, m) \<Rightarrow> (e, r\<lparr>ro_lanes := (ro_lanes r)\<lparr>mgr := m\<rparr>\<rparr>))"

definition enqueueMutation :: "env \<Rightarrow> DeliveryOperation \<Rightarrow> mutation \<Rightarrow> unit rop" where
  "enqueueMutation v op mut =
     seqr (store_do ''queue delivery operation'' (\<lambda>s. UpsertDeliveryOperation (ev_now v) s op))
       (\<lambda>_ r. case enqueue_job (do_EndpointID op) (MutationJob op mut) r of
          (None, r) \<Rightarrow> (Inr (), r)
        | (Some e, r) \<Rightarrow>
            (Inl (Wrapped ''enqueue destination mutation'' (terr_of e)),
             store_ignore (\<lambda>s. MarkDeliveryOperationAwaitingReplay (ev_now v) s op (Some (ev_now v))) r))"

end
