(* ===== verification/RouterJobs.thy ===== *)
theory RouterJobs
  imports RouterState
begin

text \<open>
  Poll results and the jobs that run on the lanes (\<^verbatim>\<open>internal/router/router.go\<close>): the create job with its steps and
  the mutation jobs. \<open>cx i\<close> says whether the context of the job is done at its \<open>i\<close>-th use (in the order of the
  text); a statement with such a context fails. The look-ups of the attribution inside a job use a live
  context. The hook \<^verbatim>\<open>afterPersist\<close>, which only tests set, is left out.
\<close>

subsection \<open>Poll results\<close>

text \<open>The texts are UTF-8: a chart and a question mark, a circle, a dash.\<close>

definition results_header :: string where
  "results_header =
     [CHR 0xF0, CHR 0x9F, CHR 0x93, CHR 0x8A] @ '' ***LIVE POLL RESULTS ACROSS ALL GROUPS***'' @ [CHR 0x0A] @
     [CHR 0xE2, CHR 0x9D, CHR 0x93] @ '' ''"

definition options_header :: string where
  "options_header = [CHR 0x0A, CHR 0x0A] @ ''**Options**''"

definition option_line :: "string \<Rightarrow> int \<Rightarrow> string" where
  "option_line label votes =
     [CHR 0x0A, CHR 0xE2, CHR 0x97, CHR 0x8B] @ '' *'' @ label @ ''* '' @ [CHR 0xE2, CHR 0x80, CHR 0x94] @ '' '' @
     format_int votes @ '' votes''"

definition readPollAggregate :: "Store \<Rightarrow> string \<Rightarrow> pollAggregate result" where
  "readPollAggregate s canonicalID =
     bind_res (GetPollOptionMetadata s canonicalID) (\<lambda>options.
     bind_res (GetPollAggregateCounts s canonicalID) (\<lambda>counts.
     bind_res (HasUnavailablePollEndpoint s canonicalID) (\<lambda>unavailable.
       Inr \<lparr>pg_Options = options, pg_Counts = counts, pg_Partial = unavailable\<rparr>)))"

definition option_label :: "pollPresentation option \<Rightarrow> int \<Rightarrow> string" where
  "option_label presentation index =
     (case presentation of
        None \<Rightarrow> ''Option '' @ format_int (index + 1)
      | Some p \<Rightarrow>
          if nat index < length (pp_Options p) \<and> pp_Options p ! nat index \<noteq> [] then pp_Options p ! nat index
          else ''Option '' @ format_int (index + 1))"

definition results_text :: "pollPresentation option \<Rightarrow> pollAggregate \<Rightarrow> string" where
  "results_text presentation aggregate =
     results_header @ (case presentation of None \<Rightarrow> [] | Some p \<Rightarrow> pp_Question p) @ options_header @
     concat (map (\<lambda>option. option_line (option_label presentation (opt_Index option))
       (count_of (pg_Counts aggregate) (opt_Index option))) (pg_Options aggregate))"

definition load_presentation :: "env \<Rightarrow> Router \<Rightarrow> string \<Rightarrow> (string \<times> string list) result" where
  "load_presentation v r canonicalID =
     (case ev_load_error v of
        Some e \<Rightarrow> Inl e
      | None \<Rightarrow>
          (case ro_presentations r of
             None \<Rightarrow> Inl ErrNoRows
           | Some m \<Rightarrow> (case m canonicalID of None \<Rightarrow> Inl ErrNoRows | Some p \<Rightarrow> Inr p)))"

definition poll_presentation_of :: "env \<Rightarrow> string \<Rightarrow> pollPresentation option rop" where
  "poll_presentation_of v canonicalID r =
     (case ro_pollPresentation r canonicalID of
        Some p \<Rightarrow> (Inr (Some p), r)
      | None \<Rightarrow>
          if ro_presentations r = None then (Inr None, r)
          else case load_presentation v r canonicalID of
            Inl e \<Rightarrow>
              if is_no_rows e then (Inr None, r) else (Inl (Wrapped ''load poll presentation'' (terr_of e)), r)
          | Inr (question, options) \<Rightarrow>
              if trim_space question \<noteq> [] \<and> 0 < length options then
                let p = \<lparr>pp_Question = question, pp_Options = options\<rparr>
                in (Inr (Some p), r\<lparr>ro_pollPresentation := (ro_pollPresentation r)(canonicalID \<mapsto> p)\<rparr>)
              else (Inr None, r))"

definition renderPollResults :: "env \<Rightarrow> string \<Rightarrow> string rop" where
  "renderPollResults v canonicalID r =
     (case readPollAggregate (ro_store r) canonicalID of
        Inl e \<Rightarrow> (Inl (terr_of e), r)
      | Inr aggregate \<Rightarrow>
          seqr (poll_presentation_of v canonicalID) (\<lambda>presentation. ret (results_text presentation aggregate)) r)"

definition rememberPollPresentation :: "env \<Rightarrow> string \<Rightarrow> Incoming \<Rightarrow> unit rop" where
  "rememberPollPresentation v canonicalID incoming r =
     (if trim_space (in_Text incoming) = [] \<or> length (in_PollOptions incoming) = 0 then (Inr (), r)
      else
        let r = r\<lparr>ro_pollPresentation := (ro_pollPresentation r)
              (canonicalID \<mapsto> \<lparr>pp_Question = in_Text incoming, pp_Options = in_PollOptions incoming\<rparr>)\<rparr>
        in (case ro_presentations r of
              None \<Rightarrow> (Inr (), r)
            | Some m \<Rightarrow>
                (case ev_save_error v of
                   Some e \<Rightarrow> (Inl e, r)
                 | None \<Rightarrow> (Inr (), r\<lparr>ro_presentations :=
                     Some (m(canonicalID \<mapsto> (in_Text incoming, in_PollOptions incoming)))\<rparr>))))"

definition text_message :: "EndpointID \<Rightarrow> string \<Rightarrow> ChildScope option \<Rightarrow> MessageRef option \<Rightarrow> Outgoing" where
  "text_message endpoint body scope replyTo =
     \<lparr>out_Endpoint = endpoint, out_OriginEndpoint = [],
      out_Sender = \<lparr>sd_Alias = [], sd_Anonymized = False, sd_IdentityUnavailable = False, sd_DisplayName = [],
        sd_PhoneNumber = [], sd_OpaqueID = []\<rparr>,
      out_SenderLabel = [], out_SourceText = [], out_AttributionOnly = False, out_ReplyFallback = False,
      out_Text = body, out_RenderedText = [], out_PollAttribution = [], out_Mentions = [], out_References = [],
      out_ReferenceAnonymized = False, out_ReplyTo = replyTo, out_ChildScope = scope, out_QuotedText = [],
      out_MediaBytes = [], out_Kind = ''text'', out_PollOptions = [], out_PollSelectableCount = 0,
      out_PollDurationHours = 0\<rparr>"

definition ensurePollResultCompanion :: "env \<Rightarrow> string \<Rightarrow> EndpointID \<Rightarrow> unit rop" where
  "ensurePollResultCompanion v canonicalID endpoint r =
     (case FindPollResultCompanion (ro_store r) canonicalID endpoint of
        Inr _ \<Rightarrow> (Inr (), r)
      | Inl e \<Rightarrow>
          if \<not> is_no_rows e then (Inl (terr_of e), r)
          else
            seqr (renderPollResults v canonicalID) (\<lambda>body r.
              seqr (call v (CallSend (text_message endpoint body (childScope r canonicalID endpoint) None)))
                (\<lambda>ref. if \<not> valid_ref endpoint ref
                   then fail (Plain ''poll result transport returned invalid message reference'')
                   else store_raw (\<lambda>s. SavePollResultCompanion (ev_now v) s
                     \<lparr>pc_CanonicalID = canonicalID, pc_EndpointID = endpoint,
                      pc_RemoteMessageID = mr_RemoteMessageID ref, pc_CreatedAt = None, pc_UpdatedAt = None\<rparr>)) r) r)"

subsection \<open>Mutation jobs\<close>

definition mutation_current :: "Router \<Rightarrow> mutation \<Rightarrow> bool" where
  "mutation_current r mut =
     (case mut of
        DeleteCopy canonicalID endpoint copy \<Rightarrow> True
      | DeleteCompanion canonicalID endpoint remoteID \<Rightarrow> True
      | EditCopy canonicalID endpoint copy e \<Rightarrow> pendingEditCurrent r (canonicalID, endpoint) (pend_revision e)
      | FlushEdit canonicalID endpoint copy e \<Rightarrow> pendingEditCurrent r (canonicalID, endpoint) (pend_revision e)
      | ReactCopy canonicalID endpoint copy p \<Rightarrow>
          pendingReactionCurrent r (canonicalID, endpoint) (pr_actor p) (pr_revision p)
      | FlushReact canonicalID endpoint copy p \<Rightarrow>
          pendingReactionCurrent r (canonicalID, endpoint) (pr_actor p) (pr_revision p)
      | EditResult canonicalID endpoint remoteID e \<Rightarrow>
          pendingResultEditCurrent r (canonicalID, endpoint) (pend_revision e)
      | EditAggregation canonicalID ref e \<Rightarrow>
          pendingResultEditCurrent r (canonicalID @ CHR 0x00 # mr_RemoteMessageID ref, mr_Endpoint ref) (pend_revision e))"

definition react :: "env \<Rightarrow> EndpointID \<Rightarrow> MessageRef \<Rightarrow> string \<Rightarrow> pendingReaction \<Rightarrow> unit rop" where
  "react v endpoint ref remoteID p =
     seqr (call v (CallReact \<lparr>re_Endpoint = endpoint, re_TargetRemoteID = mr_RemoteMessageID ref,
         re_IsTargetFromMe = mr_IsTargetFromMe ref, re_ChildScope = mr_ChildScope ref, re_Emoji = pr_emoji p,
         re_FallbackText = pr_fallback p\<rparr>))
       (\<lambda>_. store_raw (\<lambda>s. RecordSuppressedReaction (ev_now v) s endpoint remoteID (pr_emoji p) (Some (ev_now v))))"

definition dropped :: "(Router \<Rightarrow> (terr + MessageRef) \<times> Router) \<Rightarrow> unit rop" where
  "dropped m = seqr m (\<lambda>_. ret ())"

definition mutation_execute :: "env \<Rightarrow> bool \<Rightarrow> mutation \<Rightarrow> unit rop" where
  "mutation_execute v gone mut r =
     (case mut of
        DeleteCopy canonicalID endpoint copy \<Rightarrow>
          dropped (call v (CallDelete (destinationMessageRef gone r canonicalID endpoint copy))) r
      | DeleteCompanion canonicalID endpoint remoteID \<Rightarrow>
          seqr (call v (CallDelete (companionMessageRef gone r canonicalID endpoint remoteID)))
            (\<lambda>_. store_raw (\<lambda>s. DeletePollResultCompanion s canonicalID endpoint)) r
      | EditCopy canonicalID endpoint copy e \<Rightarrow>
          dropped (edit v (destinationMessageRef gone r canonicalID endpoint copy) (pend_text e)) r
      | FlushEdit canonicalID endpoint copy e \<Rightarrow>
          dropped (edit v (plain_ref endpoint (mc_RemoteMessageID copy) (mc_FromSelf copy) None) (pend_text e)) r
      | ReactCopy canonicalID endpoint copy p \<Rightarrow>
          react v endpoint (destinationMessageRef gone r canonicalID endpoint copy) (mc_RemoteMessageID copy) p r
      | FlushReact canonicalID endpoint copy p \<Rightarrow>
          react v endpoint (plain_ref endpoint (mc_RemoteMessageID copy) (mc_FromSelf copy) None)
            (mc_RemoteMessageID copy) p r
      | EditResult canonicalID endpoint remoteID e \<Rightarrow>
          dropped (call v (CallEdit (companionMessageRef gone r canonicalID endpoint remoteID) (pend_text e))) r
      | EditAggregation canonicalID ref e \<Rightarrow> dropped (call v (CallEdit ref (pend_text e))) r)"

definition mutation_succeeded :: "mutation \<Rightarrow> Router \<Rightarrow> Router" where
  "mutation_succeeded mut r =
     (case mut of
        DeleteCopy canonicalID endpoint copy \<Rightarrow> r
      | DeleteCompanion canonicalID endpoint remoteID \<Rightarrow> r
      | EditCopy canonicalID endpoint copy e \<Rightarrow> clear_edit (canonicalID, endpoint) (pend_revision e) r
      | FlushEdit canonicalID endpoint copy e \<Rightarrow> clear_edit (canonicalID, endpoint) (pend_revision e) r
      | ReactCopy canonicalID endpoint copy p \<Rightarrow> clear_reaction (canonicalID, endpoint) (pr_actor p) (pr_revision p) r
      | FlushReact canonicalID endpoint copy p \<Rightarrow> clear_reaction (canonicalID, endpoint) (pr_actor p) (pr_revision p) r
      | EditResult canonicalID endpoint remoteID e \<Rightarrow> clear_result (canonicalID, endpoint) (pend_revision e) r
      | EditAggregation canonicalID ref e \<Rightarrow>
          clear_result (canonicalID @ CHR 0x00 # mr_RemoteMessageID ref, mr_Endpoint ref) (pend_revision e) r)"

definition last_attempt :: "nat \<Rightarrow> bool" where
  "last_attempt attempt = (MaxAttempts DefaultRetryPolicy \<le> int attempt)"

text \<open>The job of \<^verbatim>\<open>enqueueMutation\<close>: the error it returns to the retry loop.\<close>

definition mutation_attempt ::
  "env \<Rightarrow> (nat \<Rightarrow> bool) \<Rightarrow> DeliveryOperation \<Rightarrow> mutation \<Rightarrow> nat \<Rightarrow> Router \<Rightarrow> terr option \<times> Router" where
  "mutation_attempt v cx op mut attempt r =
     (if \<not> mutation_current r mut then (None, store_ignore (\<lambda>s. DeleteDeliveryOperation s op) r)
      else case store_raw (\<lambda>s. BeginDeliveryAttempt (ev_now v) s op (Some (ev_now v))) r of
        (Inl e, r) \<Rightarrow> (Some e, r)
      | (Inr _, r) \<Rightarrow>
          (case mutation_execute v (cx 0) mut r of
             (Inl e, r) \<Rightarrow>
               let failure = Classify (Some e) in
               if \<not> Retryable failure then
                 (None, store_ignore (\<lambda>s. MarkDeliveryOperationFailed (ev_now v) s op (Class failure) (Some (ev_now v))) r)
               else if last_attempt attempt \<or> cx 1 then
                 (None, store_ignore (\<lambda>s. MarkDeliveryOperationAwaitingReplay (ev_now v) s op (Some (ev_now v))) r)
               else (Some e, r)
           | (Inr _, r) \<Rightarrow>
               (None, mutation_succeeded mut (store_ignore (\<lambda>s. DeleteDeliveryOperation s op) r))))"

text \<open>What waited for the copy is put on the lane once it exists; errors are dropped.\<close>

definition flush_edit :: "env \<Rightarrow> string \<Rightarrow> EndpointID \<Rightarrow> Router \<Rightarrow> Router" where
  "flush_edit v canonicalID destination r =
     (case ro_pendingEdits r (canonicalID, destination) of
        None \<Rightarrow> r
      | Some e \<Rightarrow>
          (case MessageCopyForEndpoint (ro_store r) canonicalID destination of
             Inl _ \<Rightarrow> r
           | Inr copy \<Rightarrow>
               snd (enqueueMutation v (operation v canonicalID destination ''edit'' (pend_revision e))
                 (FlushEdit canonicalID destination copy e) r)))"

definition flush_reaction :: "env \<Rightarrow> string \<Rightarrow> EndpointID \<Rightarrow> Router \<Rightarrow> pendingReaction \<Rightarrow> Router" where
  "flush_reaction v canonicalID destination r p =
     (case MessageCopyForEndpoint (ro_store r) canonicalID destination of
        Inl _ \<Rightarrow> r
      | Inr copy \<Rightarrow>
          snd (enqueueMutation v (operation v canonicalID destination ''reaction'' (pr_revision p))
            (FlushReact canonicalID destination copy p) r))"

definition flushPendingMutations :: "env \<Rightarrow> string \<Rightarrow> EndpointID \<Rightarrow> Router \<Rightarrow> Router" where
  "flushPendingMutations v canonicalID destination r =
     (let reactions = map snd (ro_pendingReactions r (canonicalID, destination))
      in foldl (flush_reaction v canonicalID destination) (flush_edit v canonicalID destination r) reactions)"

subsection \<open>The create job\<close>

definition create_operation :: "env \<Rightarrow> create_job \<Rightarrow> DeliveryOperation" where
  "create_operation v j = operation v (cj_Canonical j) (rt_Endpoint (cj_Target j)) ''create'' 1"

definition has_companion_step :: "Incoming \<Rightarrow> string \<Rightarrow> bool" where
  "has_companion_step incoming mediaBytes =
     (0 < length mediaBytes \<and> (in_Kind incoming = ''audio'' \<or> in_Kind incoming = ''sticker''))"

definition poll_attribution_of :: "env \<Rightarrow> Router \<Rightarrow> create_job \<Rightarrow> string" where
  "poll_attribution_of v r j =
     (let incoming = cj_Incoming j in
      childAwarePollAttributionFor (ev_now v) r (ro_store r) (getChildContextMode r [in_Endpoint incoming]) incoming
        (in_ChildScope incoming) (cj_Sender j))"

definition companion_message :: "env \<Rightarrow> Router \<Rightarrow> create_job \<Rightarrow> Outgoing" where
  "companion_message v r j =
     (let incoming = cj_Incoming j in
      \<lparr>out_Endpoint = rt_Endpoint (cj_Target j), out_OriginEndpoint = in_Endpoint incoming, out_Sender = cj_Sender j,
       out_SenderLabel = cj_SenderLabel j, out_SourceText = in_Text incoming, out_AttributionOnly = True,
       out_ReplyFallback = (in_ReplyTo incoming \<noteq> None \<and> cj_ReplyTo j = None), out_Text = cj_Text j,
       out_RenderedText =
         childAwareRenderedText (getChildContextMode r [in_Endpoint incoming]) (in_ChildScope incoming) (cj_Text j),
       out_PollAttribution = poll_attribution_of v r j, out_Mentions = [], out_References = cj_References j,
       out_ReferenceAnonymized = rt_Anonymized (cj_Target j), out_ReplyTo = cj_ReplyTo j,
       out_ChildScope = cj_ChildScope j, out_QuotedText = cj_QuotedText j, out_MediaBytes = [], out_Kind = ''text'',
       out_PollOptions = [], out_PollSelectableCount = 0, out_PollDurationHours = 0\<rparr>)"

definition primary_message :: "env \<Rightarrow> Router \<Rightarrow> create_job \<Rightarrow> Outgoing" where
  "primary_message v r j =
     (let incoming = cj_Incoming j in
      \<lparr>out_Endpoint = rt_Endpoint (cj_Target j), out_OriginEndpoint = in_Endpoint incoming, out_Sender = cj_Sender j,
       out_SenderLabel = cj_SenderLabel j, out_SourceText = in_Text incoming, out_AttributionOnly = False,
       out_ReplyFallback = (in_ReplyTo incoming \<noteq> None \<and> cj_ReplyTo j = None), out_Text = cj_Text j,
       out_RenderedText =
         childAwareRenderedText (getChildContextMode r [in_Endpoint incoming]) (in_ChildScope incoming) (cj_Text j),
       out_PollAttribution = poll_attribution_of v r j, out_Mentions = cj_Mentions j,
       out_References = cj_References j, out_ReferenceAnonymized = rt_Anonymized (cj_Target j),
       out_ReplyTo = cj_ReplyTo j, out_ChildScope = cj_ChildScope j, out_QuotedText = cj_QuotedText j,
       out_MediaBytes = cj_Media j, out_Kind = in_Kind incoming, out_PollOptions = in_PollOptions incoming,
       out_PollSelectableCount = in_PollSelectableCount incoming,
       out_PollDurationHours = in_PollDurationHours incoming\<rparr>)"

text \<open>\<^verbatim>\<open>finishFailure\<close>: the error that the retry loop sees, if any.\<close>

definition finishFailure ::
  "env \<Rightarrow> (nat \<Rightarrow> bool) \<Rightarrow> DeliveryOperation \<Rightarrow> nat \<Rightarrow> terr \<Rightarrow> Router \<Rightarrow> terr option \<times> Router" where
  "finishFailure v cx op attempt err r =
     (let failure = Classify (Some err) in
      if Certainty failure = SendUnknown then
        (None, store_ignore (\<lambda>s. MarkDeliveryOperationAwaitingReplay (ev_now v) s op (Some (ev_now v))) r)
      else if \<not> Retryable failure \<or> last_attempt attempt \<or> cx 20 then
        (case (if Retryable failure
               then store_raw (ctx_do (cx 21) (\<lambda>s. MarkDeliveryOperationAwaitingReplay (ev_now v) s op (Some (ev_now v)))) r
               else store_raw (ctx_do (cx 21) (\<lambda>s. MarkDeliveryOperationFailed (ev_now v) s op (Class failure) (Some (ev_now v)))) r) of
           (Inl e, r) \<Rightarrow> (Some e, r)
         | (Inr _, r) \<Rightarrow> (None, r))
      else (Some err, r))"

datatype 'a outcome = Stop "terr option" | Failed terr | Go 'a

text \<open>A step of a create: the row of its state decides whether to send at all.\<close>

definition companion_step :: "env \<Rightarrow> (nat \<Rightarrow> bool) \<Rightarrow> create_job \<Rightarrow> Router \<Rightarrow> unit outcome \<times> Router" where
  "companion_step v cx j r =
     (if \<not> has_companion_step (cj_Incoming j) (cj_Media j) then (Go (), r)
      else case ctx_get (cx 2) (FindCreateStep (ro_store r) (cj_Canonical j) (rt_Endpoint (cj_Target j)) 1 ''companion'') of
        Inl e \<Rightarrow> (Failed (terr_of e), r)
      | Inr step \<Rightarrow>
          if st_State step = ''ambiguous'' then (Stop None, r)
          else if st_State step = ''complete'' then (Go (), r)
          else
            (case call v (CallSend (companion_message v r j)) r of
               (Inl e, r) \<Rightarrow>
                 (Failed e,
                  if Certainty (Classify (Some e)) = SendUnknown
                  then store_ignore (\<lambda>s. CompleteCreateStep (ev_now v) s step [] True (Some (ev_now v))) r else r)
             | (Inr _, r) \<Rightarrow>
                 (case store_raw (ctx_do (cx 3) (\<lambda>s. CompleteCreateStep (ev_now v) s step [] False (Some (ev_now v)))) r of
                    (Inl e, r) \<Rightarrow> (Failed e, r)
                  | (Inr _, r) \<Rightarrow> (Go (), r))))"

definition primary_step :: "env \<Rightarrow> (nat \<Rightarrow> bool) \<Rightarrow> create_job \<Rightarrow> Router \<Rightarrow> MessageRef outcome \<times> Router" where
  "primary_step v cx j r =
     (let destination = rt_Endpoint (cj_Target j) in
      case ctx_get (cx 4) (FindCreateStep (ro_store r) (cj_Canonical j) destination 1 ''primary'') of
        Inl e \<Rightarrow> (Failed (terr_of e), r)
      | Inr step \<Rightarrow>
          if st_State step = ''ambiguous'' then (Stop None, r)
          else if st_State step = ''complete'' then
            (Go (plain_ref destination (st_RemoteMessageID step) True None), r)
          else
            (case call v (CallSend (primary_message v r j)) r of
               (Inl e, r) \<Rightarrow>
                 (Failed e,
                  if Certainty (Classify (Some e)) = SendUnknown
                  then store_ignore (\<lambda>s. CompleteCreateStep (ev_now v) s step [] True (Some (ev_now v))) r else r)
             | (Inr ref, r) \<Rightarrow>
                 if \<not> valid_ref destination ref
                 then (Failed (Plain ''transport returned invalid destination message reference''), r)
                 else
                   (case store_raw (ctx_do (cx 5) (\<lambda>s. CompleteCreateStep (ev_now v) s step (mr_RemoteMessageID ref) False
                       (Some (ev_now v)))) r of
                      (Inl e, r) \<Rightarrow> (Failed e, r)
                    | (Inr _, r) \<Rightarrow> (Go ref, r))))"

text \<open>What follows a primary message that was sent: it is recorded, or taken back if it was deleted meanwhile.\<close>

definition record_copy :: "env \<Rightarrow> (nat \<Rightarrow> bool) \<Rightarrow> create_job \<Rightarrow> MessageRef \<Rightarrow> Router \<Rightarrow> unit outcome \<times> Router" where
  "record_copy v cx j ref r =
     (let canonicalID = cj_Canonical j; destination = rt_Endpoint (cj_Target j); op = create_operation v j in
      case ctx_get (cx 6) (IsTombstoned (ro_store r) canonicalID) of
        Inl e \<Rightarrow> (Failed (terr_of e), r)
      | Inr True \<Rightarrow> (Stop None, store_ignore (\<lambda>s. DeleteDeliveryOperation s op) (snd (call v (CallDelete ref) r)))
      | Inr False \<Rightarrow>
          (case store_raw (ctx_do (cx 7) (\<lambda>s. AddMessageCopy (ev_now v) s
              \<lparr>mc_CanonicalID = canonicalID, mc_EndpointID = destination, mc_RemoteMessageID = mr_RemoteMessageID ref,
               mc_CreatedAt = Some (ev_now v), mc_FromSelf = True\<rparr>)) r of
             (Inl e, r) \<Rightarrow> (Failed e, r)
           | (Inr _, r) \<Rightarrow>
               if in_Kind (cj_Incoming j) = ''poll'' \<and> mr_Provider ref \<noteq> [] \<and> mr_ProviderReference ref \<noteq> [] then
                 (case store_raw (ctx_do (cx 8) (\<lambda>s. SavePollProviderRef s
                     \<lparr>pr_CanonicalID = canonicalID, pr_EndpointID = destination, pr_Provider = mr_Provider ref,
                      pr_Reference = mr_ProviderReference ref\<rparr>)) r of
                    (Inl e, r) \<Rightarrow> (Failed e, r)
                  | (Inr _, r) \<Rightarrow> (Go (), r))
               else (Go (), r)))"

definition complete_create :: "env \<Rightarrow> (nat \<Rightarrow> bool) \<Rightarrow> create_job \<Rightarrow> MessageRef \<Rightarrow> Router \<Rightarrow> Router" where
  "complete_create v cx j ref r =
     (let canonicalID = cj_Canonical j; destination = rt_Endpoint (cj_Target j);
          r = r\<lparr>ro_knownCopies := (ro_knownCopies r)((destination, mr_RemoteMessageID ref) \<mapsto> canonicalID)\<rparr>;
          r = (if in_Kind (cj_Incoming j) = ''poll'' \<and> \<not> cx 9
               then snd (ensurePollResultCompanion v canonicalID destination r) else r);
          r = store_ignore (ctx_do (cx 10) (\<lambda>s. DeleteDeliveryOperation s (create_operation v j))) r
      in flushPendingMutations v canonicalID destination r)"

definition create_attempt ::
  "env \<Rightarrow> (nat \<Rightarrow> bool) \<Rightarrow> create_job \<Rightarrow> nat \<Rightarrow> Router \<Rightarrow> terr option \<times> Router" where
  "create_attempt v cx j attempt r =
     (let op = create_operation v j in
      case ctx_get (cx 0) (IsTombstoned (ro_store r) (cj_Canonical j)) of
        Inl e \<Rightarrow> (Some (terr_of e), r)
      | Inr True \<Rightarrow> (None, store_ignore (ctx_do (cx 11) (\<lambda>s. DeleteDeliveryOperation s op)) r)
      | Inr False \<Rightarrow>
          (case store_raw (\<lambda>s. BeginDeliveryAttempt (ev_now v) s op (Some (ev_now v))) r of
             (Inl e, r) \<Rightarrow> (Some e, r)
           | (Inr _, r) \<Rightarrow>
               (case (if cx 1 then Some (Wrapped ''verify route ownership'' (terr_of ErrCtx))
                      else assertRouteSet (ro_store r) (in_Endpoint (cj_Incoming j)) (rt_Endpoint (cj_Target j))
                        (rt_SyncSetID (cj_Target j))) of
                  Some e \<Rightarrow> finishFailure v cx op attempt e r
                | None \<Rightarrow>
                    (case companion_step v cx j r of
                       (Stop e, r) \<Rightarrow> (e, r)
                     | (Failed e, r) \<Rightarrow> finishFailure v cx op attempt e r
                     | (Go _, r) \<Rightarrow>
                         (case primary_step v cx j r of
                            (Stop e, r) \<Rightarrow> (e, r)
                          | (Failed e, r) \<Rightarrow> finishFailure v cx op attempt e r
                          | (Go ref, r) \<Rightarrow>
                              (case record_copy v cx j ref r of
                                 (Stop e, r) \<Rightarrow> (e, r)
                               | (Failed e, r) \<Rightarrow> finishFailure v cx op attempt e r
                               | (Go _, r) \<Rightarrow> (None, complete_create v cx j ref r)))))))"

text \<open>One attempt of a job.\<close>

definition job_attempt :: "env \<Rightarrow> (nat \<Rightarrow> bool) \<Rightarrow> job \<Rightarrow> nat \<Rightarrow> Router \<Rightarrow> terr option \<times> Router" where
  "job_attempt v cx j attempt r =
     (case j of
        CreateJob c \<Rightarrow> create_attempt v cx c attempt r
      | MutationJob op mut \<Rightarrow> mutation_attempt v cx op mut attempt r)"

end
