(* ===== verification/Router.thy ===== *)
theory Router
  imports RouterJobs Commands
begin

text \<open>
  The canonical router (\<^verbatim>\<open>internal/router/router.go\<close>): construction, configuration updates, and the handling of an
  event with one function per kind of event. An operation runs as one step; the jobs it puts on the lanes
  run later. Log lines are left out.
\<close>

subsection \<open>Construction and status\<close>

definition newRouter ::
  "Config option \<Rightarrow> Store option \<Rightarrow> bool \<Rightarrow> bool \<Rightarrow> (string \<rightharpoonup> string \<times> string list) option \<Rightarrow> Router result" where
  "newRouter cfg syncStore has_sender has_hasher presentations =
     (case cfg of
        None \<Rightarrow> Inl (ErrMsg ''config is required'')
      | Some c \<Rightarrow>
          (case syncStore of
             None \<Rightarrow> Inl (ErrMsg ''sync store is required'')
           | Some s \<Rightarrow>
               if \<not> has_sender then Inl (ErrMsg ''transport sender is required'')
               else try_err (hasher_error has_hasher c)
                 (bind_res (wrap_res ''create delivery lanes'' (mgr_New True False 32 (map fst (cfg_Endpoints c))))
                   (\<lambda>m. Inr (routing.extend (routing_of c)
                     (Router.fields s \<lparr>mgr = m, closing = []\<rparr> Map.empty Map.empty (\<lambda>_. []) Map.empty Map.empty (\<lambda>_. []) 0
                       has_hasher presentations []))))))"

definition New :: "Config option \<Rightarrow> Store option \<Rightarrow> bool \<Rightarrow> Router result" where
  "New cfg syncStore has_sender = newRouter cfg syncStore has_sender False None"

definition NewWithHasher :: "Config option \<Rightarrow> Store option \<Rightarrow> bool \<Rightarrow> bool \<Rightarrow> Router result" where
  "NewWithHasher cfg syncStore has_sender has_hasher =
     (if \<not> has_hasher then Inl (ErrMsg ''identity hasher is required'')
      else newRouter cfg syncStore has_sender True None)"

definition NewWithHasherAndPollPresentationStore ::
  "Config option \<Rightarrow> Store option \<Rightarrow> bool \<Rightarrow> bool \<Rightarrow> (string \<rightharpoonup> string \<times> string list) option \<Rightarrow> Router result" where
  "NewWithHasherAndPollPresentationStore cfg syncStore has_sender has_hasher presentations =
     (if \<not> has_hasher then Inl (ErrMsg ''identity hasher is required'')
      else newRouter cfg syncStore has_sender True presentations)"

definition set_routing :: "routing \<Rightarrow> Router \<Rightarrow> Router" where
  "set_routing g r = routing.extend g (routing.more r)"

definition UpdateConfig :: "Router \<Rightarrow> Config option \<Rightarrow> gerr option \<times> Router" where
  "UpdateConfig r cfg =
     (case cfg of
        None \<Rightarrow> (Some (ErrMsg ''config is required''), r)
      | Some c \<Rightarrow>
          (case hasher_error_update (ro_hasher r) c of
             Some e \<Rightarrow> (Some e, r)
           | None \<Rightarrow>
               (case mgr_Update (mgr (ro_lanes r)) (map fst (cfg_Endpoints c)) of
                  (Some e, m, removed) \<Rightarrow> (Some (ErrWrap ''update delivery lanes'' e), r)
                | (None, m, removed) \<Rightarrow>
                    (None, set_routing (routing_of c)
                      (r\<lparr>ro_lanes := \<lparr>mgr = m, closing = closing (ro_lanes r) @ removed\<rparr>\<rparr>)))))"

definition router_Close :: "Router \<Rightarrow> Router" where
  "router_Close r =
     (case mgr_Close (mgr (ro_lanes r)) of
        (m, removed) \<Rightarrow> r\<lparr>ro_lanes := \<lparr>mgr = m, closing = closing (ro_lanes r) @ removed\<rparr>\<rparr>)"

definition join_status :: "(string \<rightharpoonup> DeliverySummary) \<Rightarrow> EndpointID \<times> EndpointStatus \<Rightarrow> EndpointStatus" where
  "join_status ledger p =
     (case ledger (fst p) of
        None \<Rightarrow> snd p
      | Some summary \<Rightarrow> (snd p)
          \<lparr>es_Queued := ds_Queued summary, es_Retrying := ds_Retrying summary,
           es_AwaitingReplay := ds_AwaitingReplay summary, es_Failed := ds_Failed summary,
           es_OldestActiveAge := ds_OldestActiveAge summary, es_FailureClass := ds_FailureClass summary,
           es_LaneState :=
             (if 0 < ds_AwaitingReplay summary then DeliveryAwaitingReplay
              else if 0 < ds_Retrying summary then DeliveryRetrying
              else if 0 < ds_Queued summary then DeliveryQueued
              else ''healthy'')\<rparr>)"

definition DeliveryStatus :: "env \<Rightarrow> Router \<Rightarrow> EndpointStatus list result" where
  "DeliveryStatus v r =
     bind_res (DeliverySummaries (ro_store r) (ev_now v))
       (\<lambda>ledger. Inr (sort_key es_EndpointID (map (join_status ledger) (mgr_Status (mgr (ro_lanes r))))))"

subsection \<open>Commands and local messages\<close>

definition reply_id :: "Incoming \<Rightarrow> string" where
  "reply_id incoming = (case in_ReplyTo incoming of None \<Rightarrow> [] | Some ref \<Rightarrow> mr_RemoteMessageID ref)"

definition suppress_local :: "env \<Rightarrow> string \<Rightarrow> Incoming \<Rightarrow> unit rop" where
  "suppress_local v m incoming =
     store_do m (\<lambda>s. SuppressedLocalMessage (ev_now v) s (in_Endpoint incoming) (in_RemoteID incoming) (in_Timestamp incoming))"

definition handle_help :: "env \<Rightarrow> Incoming \<Rightarrow> unit rop" where
  "handle_help v incoming =
     seqr (suppress_local v ''mark local help command'' incoming) (\<lambda>_ r.
       let settings = (case rg_endpointSettings r (in_Endpoint incoming) of Some s \<Rightarrow> s | None \<Rightarrow> zero_settings);
           body = Describe (ev_help v) [\<lparr>LocalPrefixes = ss_LocalPrefix settings, AggregationTriggers = ss_AggregationTrigger settings\<rparr>]
       in (case call v (CallSend (text_message (in_Endpoint incoming) body (in_ChildScope incoming) None)) r of
             (Inl e, r) \<Rightarrow> (Inl (Wrapped ''send command help'' e), r)
           | (Inr ref, r) \<Rightarrow>
               if \<not> valid_ref (in_Endpoint incoming) ref
               then (Inl (Plain ''help transport returned invalid message reference''), r)
               else store_do ''mark local help response'' (\<lambda>s. SuppressedLocalMessage (ev_now v) s (mr_Endpoint ref)
                   (mr_RemoteMessageID ref) (Some (ev_now v))) r))"

subsection \<open>Poll results of all members\<close>

definition update_result :: "env \<Rightarrow> string \<Rightarrow> string \<Rightarrow> Router \<Rightarrow> EndpointID \<Rightarrow> Router" where
  "update_result v canonicalID body r endpoint =
     (let found = FindPollResultCompanion (ro_store r) canonicalID endpoint;
          (found, r) =
            (case found of
               Inr c \<Rightarrow> (Some c, r)
             | Inl e \<Rightarrow>
                 if \<not> is_no_rows e then (None, r)
                 else if \<not> is_ok (MessageCopyForEndpoint (ro_store r) canonicalID endpoint) then (None, r)
                 else case ensurePollResultCompanion v canonicalID endpoint r of
                   (Inl _, r) \<Rightarrow> (None, r)
                 | (Inr _, r) \<Rightarrow>
                     (case FindPollResultCompanion (ro_store r) canonicalID endpoint of
                        Inl _ \<Rightarrow> (None, r) | Inr c \<Rightarrow> (Some c, r)))
      in case found of
           None \<Rightarrow> r
         | Some companion \<Rightarrow>
             let (revision, r) = nextMutationRevision r;
                 e = \<lparr>pend_revision = revision, pend_text = body\<rparr>;
                 r = set_pending_result (canonicalID, endpoint) e r
             in snd (enqueueMutation v (operation v canonicalID endpoint ''poll_result_edit'' revision)
                  (EditResult canonicalID endpoint (pc_RemoteMessageID companion) e) r))"

definition update_aggregation :: "env \<Rightarrow> string \<Rightarrow> string \<Rightarrow> Router \<Rightarrow> MessageRef \<Rightarrow> Router" where
  "update_aggregation v canonicalID body r ref =
     (let (revision, r) = nextMutationRevision r;
          e = \<lparr>pend_revision = revision, pend_text = body\<rparr>;
          r = set_pending_result (canonicalID @ CHR 0x00 # mr_RemoteMessageID ref, mr_Endpoint ref) e r
      in snd (enqueueMutation v (operation v canonicalID (mr_Endpoint ref) ''poll_aggregation_edit'' revision)
           (EditAggregation canonicalID ref e) r))"

definition updatePollAggregations :: "env \<Rightarrow> string \<Rightarrow> string \<Rightarrow> Router \<Rightarrow> Router" where
  "updatePollAggregations v canonicalID body r =
     foldl (update_aggregation v canonicalID body) r (ro_pollAggregations r canonicalID)"

definition updatePollResults :: "env \<Rightarrow> string \<Rightarrow> EndpointID list \<Rightarrow> Router \<Rightarrow> Router" where
  "updatePollResults v canonicalID members r =
     (case IsTombstoned (ro_store r) canonicalID of
        Inl _ \<Rightarrow> r
      | Inr True \<Rightarrow> r
      | Inr False \<Rightarrow>
          (case renderPollResults v canonicalID r of
             (Inl _, r) \<Rightarrow> r
           | (Inr body, r) \<Rightarrow>
               updatePollAggregations v canonicalID body (foldl (update_result v canonicalID body) r members)))"

definition aggregate_to :: "env \<Rightarrow> string \<Rightarrow> string \<Rightarrow> EndpointID \<Rightarrow> unit rop" where
  "aggregate_to v canonicalID body destination r =
     (let replyTo = (case MessageCopyForEndpoint (ro_store r) canonicalID destination of
            Inl _ \<Rightarrow> None | Inr copy \<Rightarrow> Some (destinationMessageRef False r canonicalID destination copy))
      in case call v (CallSend (text_message destination body (childScope r canonicalID destination) replyTo)) r of
           (Inl e, r) \<Rightarrow> (Inl (Wrapped ''send aggregated poll results'' e), r)
         | (Inr ref, r) \<Rightarrow>
             if \<not> valid_ref destination ref
             then (Inl (Plain ''aggregated poll result transport returned invalid message reference''), r)
             else
               let ref = ref\<lparr>mr_ChildScope := childScope r canonicalID destination\<rparr>
               in (Inr (), r\<lparr>ro_pollAggregations := (ro_pollAggregations r)
                     (canonicalID := ro_pollAggregations r canonicalID @ [ref])\<rparr>))"

definition handlePollAggregation :: "env \<Rightarrow> string \<Rightarrow> EndpointID list \<Rightarrow> unit rop" where
  "handlePollAggregation v canonicalID members r =
     (case renderPollResults v canonicalID r of
        (Inl e, r) \<Rightarrow> (Inl (Wrapped ''render aggregated poll results'' e), r)
      | (Inr body, r) \<Rightarrow> for_each (aggregate_to v canonicalID body) members r)"

subsection \<open>Votes\<close>

definition handle_snapshot :: "env \<Rightarrow> Incoming \<Rightarrow> routeTarget list \<Rightarrow> unit rop" where
  "handle_snapshot v incoming targets r =
     (case PollCanonicalForProviderRef (ro_store r) (in_Endpoint incoming) (in_PollProvider incoming)
          (in_PollProviderReference incoming) of
        Inl e \<Rightarrow> if is_no_rows e then (Inr (), r) else (Inl (Wrapped ''resolve poll snapshot target'' (terr_of e)), r)
      | Inr canonicalID \<Rightarrow>
          seqr (of_result ''check poll snapshot tombstone'' (IsTombstoned (ro_store r) canonicalID)) (\<lambda>tombstoned.
            if tombstoned then ret ()
            else seqr (store_do ''record poll snapshot'' (\<lambda>s. ReplacePollEndpointSnapshot (ev_now v) s canonicalID
                   (in_Endpoint incoming) (in_PollSnapshot incoming) (in_Timestamp incoming)))
              (\<lambda>_. modify (updatePollResults v canonicalID (endpointIDs targets)))) r)"

definition handle_vote :: "env \<Rightarrow> Incoming \<Rightarrow> routeTarget list \<Rightarrow> unit rop" where
  "handle_vote v incoming targets r =
     (if reply_id incoming = [] then (Inr (), r)
      else case CanonicalForRemote (ro_store r) (in_Endpoint incoming) (reply_id incoming) of
        Inl e \<Rightarrow> if is_no_rows e then (Inr (), r) else (Inl (Wrapped ''resolve poll vote target'' (terr_of e)), r)
      | Inr target \<Rightarrow>
          seqr (of_result ''check poll vote target tombstone'' (IsTombstoned (ro_store r) target)) (\<lambda>tombstoned.
            if tombstoned then ret ()
            else seqr (store_do ''record poll vote'' (\<lambda>s.
                   case in_PollOptionIndexes incoming of
                     Some indexes \<Rightarrow> ReplacePollActorSelections (ev_now v) s target (in_Endpoint incoming)
                       (sd_OpaqueID (in_Sender incoming)) indexes (in_Timestamp incoming)
                   | None \<Rightarrow> RecordPollVote (ev_now v) s target (in_Endpoint incoming)
                       (sd_OpaqueID (in_Sender incoming)) (in_PollOptionHashes incoming) (in_Timestamp incoming)))
              (\<lambda>_. modify (updatePollResults v target (endpointIDs targets)))) r)"

subsection \<open>Deletions\<close>

definition enqueuePollResultCompanionDelete :: "env \<Rightarrow> string \<Rightarrow> EndpointID \<Rightarrow> unit rop" where
  "enqueuePollResultCompanionDelete v canonicalID endpoint r =
     (case FindPollResultCompanion (ro_store r) canonicalID endpoint of
        Inl e \<Rightarrow> if is_no_rows e then (Inr (), r) else (Inl (terr_of e), r)
      | Inr companion \<Rightarrow>
          let (revision, r) = nextMutationRevision r
          in enqueueMutation v (operation v canonicalID endpoint ''poll_result_delete'' revision)
               (DeleteCompanion canonicalID endpoint (pc_RemoteMessageID companion)) r)"

definition wrap_rop :: "string \<Rightarrow> 'a rop \<Rightarrow> 'a rop" where
  "wrap_rop m f r = (case f r of (Inl e, r) \<Rightarrow> (Inl (Wrapped m e), r) | (Inr x, r) \<Rightarrow> (Inr x, r))"

definition forget_aggregations :: "string \<Rightarrow> Router \<Rightarrow> Router" where
  "forget_aggregations canonicalID r =
     r\<lparr>ro_pollAggregations := (ro_pollAggregations r)(canonicalID := []),
       ro_pendingResultEdits := (\<lambda>key. if has_prefix (fst key) (canonicalID @ [CHR 0x00]) then None
         else ro_pendingResultEdits r key)\<rparr>"

definition forget_pending :: "mutationKey \<Rightarrow> Router \<Rightarrow> Router" where
  "forget_pending key r =
     r\<lparr>ro_pendingEdits := (ro_pendingEdits r)(key := None), ro_pendingReactions := (ro_pendingReactions r)(key := [])\<rparr>"

definition delete_at :: "env \<Rightarrow> Incoming \<Rightarrow> string \<Rightarrow> routeTarget \<Rightarrow> unit rop" where
  "delete_at v incoming canonicalID target =
     (let destination = rt_Endpoint target in
      seqr (wrap_rop ''delete poll result companion'' (enqueuePollResultCompanionDelete v canonicalID destination))
        (\<lambda>_ r.
          if destination = in_Endpoint incoming then (Inr (), r)
          else case MessageCopyForEndpoint (ro_store r) canonicalID destination of
            Inl _ \<Rightarrow> (Inr (), forget_pending (canonicalID, destination) r)
          | Inr copy \<Rightarrow>
              let (revision, r) = nextMutationRevision r
              in wrap_rop ''send destination delete''
                   (enqueueMutation v (operation v canonicalID destination ''delete'' revision)
                     (DeleteCopy canonicalID destination copy)) r))"

definition handle_delete :: "env \<Rightarrow> Incoming \<Rightarrow> routeTarget list \<Rightarrow> unit rop" where
  "handle_delete v incoming targets r =
     (if reply_id incoming = [] then (Inr (), r)
      else case CanonicalForRemote (ro_store r) (in_Endpoint incoming) (reply_id incoming) of
        Inl e \<Rightarrow> if is_no_rows e then (Inr (), r) else (Inl (Wrapped ''resolve delete target'' (terr_of e)), r)
      | Inr target \<Rightarrow>
          seqr (store_do ''tombstone canonical'' (\<lambda>s. TombstoneCanonical (ev_now v) s target (in_Timestamp incoming)))
            (\<lambda>_. seqr (modify (forget_aggregations target))
              (\<lambda>_. for_each (delete_at v incoming target) targets)) r)"

subsection \<open>Edits\<close>

definition edit_at :: "env \<Rightarrow> Incoming \<Rightarrow> string \<Rightarrow> routeTarget \<Rightarrow> unit rop" where
  "edit_at v incoming canonicalID target r =
     (let destination = rt_Endpoint target in
      if destination = in_Endpoint incoming then (Inr (), r)
      else case bind_res (presentationForTarget r (ro_store r) incoming target)
          (\<lambda>(sender, mentions, body, quote). forwardedTextFor (ev_now v) r (ro_store r)
             (incoming\<lparr>in_Text := body, in_QuotedText := quote\<rparr>) sender) of
        Inl e \<Rightarrow> (Inl (terr_of e), r)
      | Inr body \<Rightarrow>
          let copy = MessageCopyForEndpoint (ro_store r) canonicalID destination;
              (revision, r) = nextMutationRevision r;
              e = \<lparr>pend_revision = revision, pend_text = body\<rparr>;
              r = set_pending_edit (canonicalID, destination) e r
          in (case copy of
                Inl _ \<Rightarrow> (Inr (), r)
              | Inr copy \<Rightarrow>
                  wrap_rop ''send destination edit''
                    (enqueueMutation v (operation v canonicalID destination ''edit'' revision)
                      (EditCopy canonicalID destination copy e)) r))"

definition handle_edit :: "env \<Rightarrow> Incoming \<Rightarrow> routeTarget list \<Rightarrow> unit rop" where
  "handle_edit v incoming targets r =
     (if reply_id incoming = [] then (Inr (), r)
      else case CanonicalForRemote (ro_store r) (in_Endpoint incoming) (reply_id incoming) of
        Inl e \<Rightarrow> if is_no_rows e then (Inr (), r) else (Inl (Wrapped ''resolve edit target'' (terr_of e)), r)
      | Inr target \<Rightarrow>
          seqr (of_result ''check edit target tombstone'' (IsTombstoned (ro_store r) target)) (\<lambda>tombstoned.
            if tombstoned then ret () else for_each (edit_at v incoming target) targets) r)"

subsection \<open>Reactions\<close>

definition reaction_fallback :: "Incoming \<Rightarrow> Sender \<Rightarrow> string \<Rightarrow> string" where
  "reaction_fallback incoming sender emoji =
     (let who = in_Endpoint incoming @ ''/'' @ senderPresentationUsername sender
      in if emoji \<noteq> [] then who @ '' reacted '' @ emoji @ '' to a message''
         else who @ '' removed their reaction from a message'')"

definition reaction_at :: "env \<Rightarrow> Incoming \<Rightarrow> string \<Rightarrow> string \<Rightarrow> routeTarget \<Rightarrow> unit rop" where
  "reaction_at v incoming canonicalID emoji target r =
     (let destination = rt_Endpoint target in
      if destination = in_Endpoint incoming then (Inr (), r)
      else case presentationForTarget r (ro_store r) incoming target of
        Inl e \<Rightarrow> (Inl (terr_of e), r)
      | Inr (sender, _, _, _) \<Rightarrow>
          let copy = MessageCopyForEndpoint (ro_store r) canonicalID destination;
              (revision, r) = nextMutationRevision r;
              p = \<lparr>pr_revision = revision, pr_actor = sd_OpaqueID (in_Sender incoming), pr_emoji = emoji,
                   pr_fallback = reaction_fallback incoming sender emoji\<rparr>;
              r = set_pending_reaction (canonicalID, destination) p r
          in (case copy of
                Inl _ \<Rightarrow> (Inr (), r)
              | Inr copy \<Rightarrow>
                  wrap_rop ''send reaction copy''
                    (enqueueMutation v (operation v canonicalID destination ''reaction'' revision)
                      (ReactCopy canonicalID destination copy p)) r))"

definition record_reaction :: "env \<Rightarrow> Incoming \<Rightarrow> string \<Rightarrow> string \<Rightarrow> unit rop" where
  "record_reaction v incoming canonicalID emoji =
     store_raw (\<lambda>s.
       if emoji = [] then DeleteReaction s canonicalID (in_Endpoint incoming) (sd_OpaqueID (in_Sender incoming))
       else UpsertReaction (ev_now v) s
         \<lparr>rx_CanonicalID = canonicalID, rx_SourceEndpointID = in_Endpoint incoming,
          rx_ActorHash = sd_OpaqueID (in_Sender incoming), rx_Emoji = emoji, rx_UpdatedAt = in_Timestamp incoming\<rparr>)"

definition handle_reaction_target :: "env \<Rightarrow> Incoming \<Rightarrow> routeTarget list \<Rightarrow> unit rop" where
  "handle_reaction_target v incoming targets r =
     (case CanonicalForRemote (ro_store r) (in_Endpoint incoming) (reply_id incoming) of
        Inl e \<Rightarrow> if is_no_rows e then (Inr (), r) else (Inl (Wrapped ''resolve reaction target'' (terr_of e)), r)
      | Inr target \<Rightarrow>
          seqr (of_result ''check reaction target tombstone'' (IsTombstoned (ro_store r) target)) (\<lambda>tombstoned.
            if tombstoned then ret ()
            else
              let emoji = trim_space (in_Text incoming)
              in seqr (record_reaction v incoming target emoji)
                   (\<lambda>_. for_each (reaction_at v incoming target emoji) targets)) r)"

definition handle_reaction :: "env \<Rightarrow> Incoming \<Rightarrow> routeTarget list \<Rightarrow> unit rop" where
  "handle_reaction v incoming targets =
     (if reply_id incoming = [] then fail (Plain ''reaction target is required'')
      else if in_FromSelf incoming then
        seqr (store_do ''check suppressed reaction'' (\<lambda>s. CheckAndClearSuppressedReaction s (in_Endpoint incoming)
               (reply_id incoming) (trim_space (in_Text incoming))))
          (\<lambda>echoed. if echoed then ret () else handle_reaction_target v incoming targets)
      else handle_reaction_target v incoming targets)"

end
