(* ===== verification/RouterHandle.thy ===== *)
theory RouterHandle
  imports Router
begin

text \<open>
  The handling of new messages and the dispatch of events (\<^verbatim>\<open>Handle\<close> and \<^verbatim>\<open>HandleEvent\<close> of
  \<^verbatim>\<open>internal/router/router.go\<close>).
\<close>

subsection \<open>The author of a message\<close>

text \<open>The aliases of the people a message mentions, and the event with the author's alias.\<close>

definition name_people :: "string \<Rightarrow> string \<Rightarrow> Incoming \<Rightarrow> Incoming rop" where
  "name_people setID alias incoming r =
     (case bind_res (prepareMentionAliases (ro_store r) setID (in_Mentions incoming)) (\<lambda>mentions.
           bind_res (prepareMentionAliases (ro_store r) setID (in_QuotedMentions incoming)) (\<lambda>quoted.
             Inr (incoming\<lparr>in_Sender := (in_Sender incoming)\<lparr>sd_Alias := alias\<rparr>,
               in_Mentions := mentions, in_QuotedMentions := quoted\<rparr>))) of
        Inl e \<Rightarrow> (Inl (terr_of e), r)
      | Inr incoming \<Rightarrow> (Inr incoming, r))"

text \<open>A poll names people by their aliases; the digests of the original options are kept if that changed one.\<close>

definition name_poll :: "env \<Rightarrow> Incoming \<Rightarrow> Incoming \<times> string list" where
  "name_poll v incoming =
     (if in_Kind incoming \<noteq> ''poll'' then (incoming, [])
      else
        let labels = presentMentions (in_Mentions incoming) True;
            options = map (\<lambda>option. sanitizeMentionsText option labels) (in_PollOptions incoming);
            hashes = map (ev_hash v) (in_PollOptions incoming)
        in (incoming\<lparr>in_Text := sanitizeMentionsText (in_Text incoming) labels, in_PollOptions := options\<rparr>,
            if hashes = map (ev_hash v) options then [] else hashes))"

text \<open>What each attempt to allocate an alias finds (\<^verbatim>\<open>ObserveSyncSetActor\<close>).\<close>

definition observe_author ::
  "env \<Rightarrow> alias_turn list \<Rightarrow> string \<Rightarrow> Incoming \<Rightarrow> (Incoming \<times> CrossReference list \<times> string list) rop" where
  "observe_author v turns setID incoming r =
     (case assertRouteSet (ro_store r) (in_Endpoint incoming) (in_Endpoint incoming) setID of
        Some e \<Rightarrow> (Inl e, r)
      | None \<Rightarrow>
          if sd_IdentityUnavailable (in_Sender incoming) then
            (Inl (new_failure FailureTransient ''canonical author identity unavailable''), r)
          else if \<not> isOpaqueActorID (sd_OpaqueID (in_Sender incoming)) then
            (Inl (Plain ''canonical author identity is required''), r)
          else
            seqr (store_do ''observe author alias''
                (\<lambda>s. ObserveSyncSetActor turns s setID (sd_OpaqueID (in_Sender incoming)))) (\<lambda>record.
            seqr (name_people setID (ar_Alias record) incoming) (\<lambda>incoming.
              let (incoming, hashes) = name_poll v incoming in
              seqr (\<lambda>r. of_raw (referencesForSet (ro_store r) setID (in_Text incoming)) r) (\<lambda>references.
              seqr (store_do ''observe author endpoint''
                  (\<lambda>s. ObserveParticipant s (in_Endpoint incoming) (sd_OpaqueID (in_Sender incoming))))
                (\<lambda>_. ret (incoming, references, hashes))))) r)"

subsection \<open>The canonical message\<close>

definition resolveCanonical :: "env \<Rightarrow> Incoming \<Rightarrow> (string \<times> bool) rop" where
  "resolveCanonical v incoming r =
     (let key = (in_Endpoint incoming, in_RemoteID incoming) in
      case ro_knownCopies r key of
        Some canonicalID \<Rightarrow> (Inr (canonicalID, False), r)
      | None \<Rightarrow>
          (case ev_fresh v of
             Inl e \<Rightarrow> (Inl (Wrapped ''generate canonical id'' e), r)
           | Inr candidate \<Rightarrow>
               seqr (store_raw (\<lambda>s. ResolveOrCreateCanonical (ev_now v) s candidate
                   \<lparr>mc_CanonicalID = [], mc_EndpointID = in_Endpoint incoming, mc_RemoteMessageID = in_RemoteID incoming,
                    mc_CreatedAt = in_Timestamp incoming, mc_FromSelf = in_FromSelf incoming\<rparr>))
                 (\<lambda>(canonicalID, created). seqr (modify (\<lambda>r. r\<lparr>ro_knownCopies := (ro_knownCopies r)(key \<mapsto> canonicalID)\<rparr>))
                   (\<lambda>_. ret (canonicalID, created))) r))"

text \<open>What is kept of a poll: its options, its provider's reference, the original digests.\<close>

definition keep_poll :: "env \<Rightarrow> string \<Rightarrow> bool \<Rightarrow> Incoming \<Rightarrow> string list \<Rightarrow> unit rop" where
  "keep_poll v canonicalID created incoming sourceHashes =
     seqr (if created then
             seqr (store_do ''save poll options'' (\<lambda>s. SavePollOptions s canonicalID (map (ev_hash v) (in_PollOptions incoming))))
               (\<lambda>_. if in_PollProvider incoming \<noteq> [] \<and> in_PollProviderReference incoming \<noteq> [] then
                  seqr (store_do ''save source poll provider reference'' (\<lambda>s. SavePollProviderRef s
                      \<lparr>pr_CanonicalID = canonicalID, pr_EndpointID = in_Endpoint incoming,
                       pr_Provider = in_PollProvider incoming, pr_Reference = in_PollProviderReference incoming\<rparr>))
                    (\<lambda>_. if in_PollSourceUnavailable incoming
                       then store_do ''mark source poll unavailable'' (\<lambda>s. MarkPollEndpointUnavailable s canonicalID (in_Endpoint incoming))
                       else ret ())
                  else ret ())
           else ret ())
       (\<lambda>_. seqr (if 0 < length sourceHashes
                  then store_do ''save original poll vote keys''
                    (\<lambda>s. SavePollSourceOptionHashes s canonicalID (in_Endpoint incoming) sourceHashes)
                  else ret ())
         (\<lambda>_. wrap_rop ''persist poll presentation'' (rememberPollPresentation v canonicalID incoming)))"

subsection \<open>Replies and child scopes\<close>

text \<open>The canonical message replied to, if any, and whether the quoted text is dropped.\<close>

definition reply_target :: "Incoming \<Rightarrow> (string \<times> Incoming) rop" where
  "reply_target incoming r =
     (if reply_id incoming = [] then (Inr ([], incoming), r)
      else case CanonicalForRemote (ro_store r) (in_Endpoint incoming) (reply_id incoming) of
        Inr canonicalID \<Rightarrow> (Inr (canonicalID, incoming), r)
      | Inl e \<Rightarrow>
          if is_no_rows e then
            seqr (of_result ''check suppressed reply target''
                (IsSuppressedLocalMessage (ro_store r) (in_Endpoint incoming) (reply_id incoming)))
              (\<lambda>suppressed. ret ([], if suppressed then incoming\<lparr>in_QuotedText := []\<rparr> else incoming)) r
          else (Inr ([], incoming), r))"

definition inherit_scope :: "env \<Rightarrow> string \<Rightarrow> Incoming \<Rightarrow> CanonicalScopeRow \<Rightarrow> unit rop" where
  "inherit_scope v canonicalID incoming scope =
     (if sc_EndpointID scope = in_Endpoint incoming \<and> in_ChildScope incoming \<noteq> None then ret ()
      else store_do ''inherit child scope'' (\<lambda>s. UpsertCanonicalScope (ev_now v) s (scope\<lparr>sc_CanonicalID := canonicalID\<rparr>)))"

definition keep_scopes :: "env \<Rightarrow> string \<Rightarrow> string \<Rightarrow> Incoming \<Rightarrow> unit rop" where
  "keep_scopes v canonicalID replyTo incoming =
     seqr (if replyTo = [] then ret ()
           else (\<lambda>r. seqr (of_result ''load replied-to child scopes'' (CanonicalScopes (ro_store r) replyTo))
             (for_each (inherit_scope v canonicalID incoming)) r))
       (\<lambda>_. case in_ChildScope incoming of
          None \<Rightarrow> ret ()
        | Some scope \<Rightarrow>
            if trim_space (cs_RemoteID scope) = [] then ret ()
            else store_do ''persist incoming child scope'' (\<lambda>s. UpsertCanonicalScope (ev_now v) s
              \<lparr>sc_CanonicalID = canonicalID, sc_EndpointID = in_Endpoint incoming, sc_ScopeKind = cs_Kind scope,
               sc_RemoteScopeID = cs_RemoteID scope, sc_CreatedAt = in_Timestamp incoming\<rparr>))"

definition load_media :: "Incoming \<Rightarrow> string rop" where
  "load_media incoming =
     (case in_MediaLoader incoming of
        None \<Rightarrow> ret []
      | Some (Inl e) \<Rightarrow> fail (Wrapped ''load incoming media'' e)
      | Some (Inr b) \<Rightarrow> ret b)"

subsection \<open>Forwarding\<close>

text \<open>
  \<^verbatim>\<open>enqueueCreate\<close>: the operation and its steps are recorded before the job is put on the lane; a create that
  is queued or retrying already is not queued again.
\<close>

definition pending_step :: "env \<Rightarrow> create_job \<Rightarrow> string \<Rightarrow> CreateStep" where
  "pending_step v j kind =
     \<lparr>st_CanonicalID = cj_Canonical j, st_EndpointID = rt_Endpoint (cj_Target j), st_OperationRevision = 1,
      st_StepKind = kind, st_State = ''pending'', st_RemoteMessageID = [],
      st_CreatedAt = Some (ev_now v), st_UpdatedAt = Some (ev_now v)\<rparr>"

definition start_create :: "env \<Rightarrow> DeliveryOperation \<Rightarrow> create_job \<Rightarrow> unit rop" where
  "start_create v op j r =
     (case enqueue_job (rt_Endpoint (cj_Target j)) (CreateJob j) r of
        (None, r) \<Rightarrow> (Inr (), r)
      | (Some e, r) \<Rightarrow>
          (Inl (Wrapped ''enqueue destination delivery'' (terr_of e)),
           store_ignore (\<lambda>s. MarkDeliveryOperationAwaitingReplay (ev_now v) s op (Some (ev_now v))) r))"

definition queue_steps :: "env \<Rightarrow> DeliveryOperation \<Rightarrow> create_job \<Rightarrow> unit rop" where
  "queue_steps v op j =
     seqr (store_do ''queue create step'' (\<lambda>s. UpsertCreateStep (ev_now v) s (pending_step v j ''primary''))) (\<lambda>_.
     seqr (if has_companion_step (cj_Incoming j) (cj_Media j)
           then store_do ''queue create step'' (\<lambda>s. UpsertCreateStep (ev_now v) s (pending_step v j ''companion''))
           else ret ()) (\<lambda>_. start_create v op j))"

definition queue_create :: "env \<Rightarrow> DeliveryOperation \<Rightarrow> create_job \<Rightarrow> unit rop" where
  "queue_create v op j =
     seqr (store_do ''queue delivery operation'' (\<lambda>s. UpsertDeliveryOperation (ev_now v) s op))
       (\<lambda>_. queue_steps v op j)"

definition enqueueCreate :: "env \<Rightarrow> create_job \<Rightarrow> unit rop" where
  "enqueueCreate v j r =
     (let op = create_operation v j in
      case FindDeliveryOperation (ro_store r) op of
        Inr existing \<Rightarrow>
          if do_State existing = DeliveryQueued \<or> do_State existing = DeliveryRetrying then (Inr (), r)
          else queue_create v op j r
      | Inl e \<Rightarrow>
          if \<not> is_no_rows e then (Inl (Wrapped ''look up delivery operation'' (terr_of e)), r)
          else queue_create v op j r)"

text \<open>The scope of a message at an endpoint, and the message replied to at that endpoint.\<close>

definition stored_scope :: "string \<Rightarrow> string \<Rightarrow> EndpointID \<Rightarrow> ChildScope option rop" where
  "stored_scope m canonicalID endpoint r =
     (case CanonicalScope (ro_store r) canonicalID endpoint of
        Inr scope \<Rightarrow> (Inr (Some \<lparr>cs_Kind = sc_ScopeKind scope, cs_RemoteID = sc_RemoteScopeID scope, cs_Label = []\<rparr>), r)
      | Inl e \<Rightarrow> if is_no_rows e then (Inr None, r) else (Inl (Wrapped m (terr_of e)), r))"

definition outgoing_reply :: "string \<Rightarrow> EndpointID \<Rightarrow> MessageRef option rop" where
  "outgoing_reply replyTo destination r =
     (if replyTo = [] then (Inr None, r)
      else case MessageCopyForEndpoint (ro_store r) replyTo destination of
        Inl _ \<Rightarrow> (Inr None, r)
      | Inr copy \<Rightarrow>
          seqr (stored_scope ''look up reply child scope'' replyTo destination)
            (\<lambda>scope. ret (Some (plain_ref destination (mc_RemoteMessageID copy) (mc_FromSelf copy) scope))) r)"

definition forward_at ::
  "env \<Rightarrow> string \<Rightarrow> string \<Rightarrow> Incoming \<Rightarrow> CrossReference list \<Rightarrow> string \<Rightarrow> routeTarget \<Rightarrow> unit rop" where
  "forward_at v canonicalID replyTo incoming references mediaBytes target r =
     (let destination = rt_Endpoint target in
      if destination = in_Endpoint incoming then (Inr (), r)
      else case MessageCopyForEndpoint (ro_store r) canonicalID destination of
        Inr copy \<Rightarrow>
          (Inr (), r\<lparr>ro_knownCopies := (ro_knownCopies r)((destination, mc_RemoteMessageID copy) \<mapsto> canonicalID)\<rparr>)
      | Inl e \<Rightarrow>
          if \<not> is_no_rows e then (Inl (Wrapped ''look up destination copy'' (terr_of e)), r)
          else
            seqr (stored_scope ''look up destination child scope'' canonicalID destination) (\<lambda>scope.
            seqr (outgoing_reply replyTo destination) (\<lambda>reply r.
            seqr (of_raw (presentationForTarget r (ro_store r) incoming target)) (\<lambda>(sender, mentions, body, quote).
            seqr (of_raw (forwardedTextFor (ev_now v) r (ro_store r)
                (incoming\<lparr>in_Text := body, in_QuotedText := quote\<rparr>) sender)) (\<lambda>forwarded.
            seqr (of_result ''load presentation child scopes'' (CanonicalScopes (ro_store r) canonicalID)) (\<lambda>_.
            seqr (of_raw (senderLabelFor (ev_now v) r (ro_store r) incoming sender)) (\<lambda>label.
              enqueueCreate v
                \<lparr>cj_Canonical = canonicalID, cj_Incoming = incoming, cj_Target = target, cj_Sender = sender,
                 cj_Mentions = mentions, cj_References = references, cj_QuotedText = quote, cj_Text = forwarded,
                 cj_SenderLabel = label, cj_ReplyTo = reply, cj_ChildScope = scope, cj_Media = mediaBytes\<rparr>)))) r)) r)"

text \<open>After the canonical message is known and not deleted.\<close>

definition forward_message ::
  "env \<Rightarrow> string \<Rightarrow> bool \<Rightarrow> Incoming \<Rightarrow> CrossReference list \<Rightarrow> string list \<Rightarrow> routeTarget list \<Rightarrow> unit rop" where
  "forward_message v canonicalID created incoming references sourceHashes targets =
     seqr (if in_Kind incoming = ''poll''
           then wrap_rop ''persist poll presentation'' (rememberPollPresentation v canonicalID incoming) else ret ()) (\<lambda>_.
     if in_FromSelf incoming \<and> \<not> created then ret ()
     else
       seqr (if in_Kind incoming = ''poll'' then keep_poll v canonicalID created incoming sourceHashes else ret ()) (\<lambda>_.
       seqr (reply_target incoming) (\<lambda>(replyTo, incoming).
       seqr (keep_scopes v canonicalID replyTo incoming) (\<lambda>_.
       seqr (load_media incoming) (\<lambda>mediaBytes.
       seqr (for_each (forward_at v canonicalID replyTo incoming references mediaBytes) targets) (\<lambda>_.
         if in_Kind incoming = ''poll'' then modify (updatePollResults v canonicalID (endpointIDs targets))
         else ret ()))))))"

definition handle_message :: "env \<Rightarrow> alias_turn list \<Rightarrow> string \<Rightarrow> Incoming \<Rightarrow> routeTarget list \<Rightarrow> unit rop" where
  "handle_message v turns existing incoming targets =
     (let setID = (case targets of t # _ \<Rightarrow> rt_SyncSetID t | [] \<Rightarrow> []) in
      seqr (if in_FromSelf incoming \<and> existing \<noteq> [] then ret (incoming, [], [])
            else observe_author v turns setID incoming) (\<lambda>(incoming, references, sourceHashes).
      seqr (resolveCanonical v incoming) (\<lambda>(canonicalID, created).
      seqr (\<lambda>r. of_result ''check canonical tombstone'' (IsTombstoned (ro_store r) canonicalID) r) (\<lambda>tombstoned.
        if tombstoned then ret ()
        else forward_message v canonicalID created incoming references sourceHashes targets))))"

subsection \<open>Dispatch\<close>

text \<open>\<open>existing\<close> is the canonical message the event belongs to already, empty if there is none.\<close>

definition is_aggregation_request :: "Router \<Rightarrow> Incoming \<Rightarrow> string option" where
  "is_aggregation_request r incoming =
     (if MatchSummary (in_Text incoming) (agg_trigger_of r (in_Endpoint incoming)) \<and> reply_id incoming \<noteq> [] then
        (case CanonicalForRemote (ro_store r) (in_Endpoint incoming) (reply_id incoming) of
           Inl _ \<Rightarrow> None
         | Inr target \<Rightarrow>
             if target \<noteq> [] \<and> IsPoll (ro_store r) target = Inr True then Some target else None)
      else None)"

definition handle_kind :: "env \<Rightarrow> alias_turn list \<Rightarrow> string \<Rightarrow> Incoming \<Rightarrow> routeTarget list \<Rightarrow> unit rop" where
  "handle_kind v turns existing incoming targets r =
     (let kind = in_Kind incoming in
      if kind = ''text'' \<and> existing = [] \<and> trim_space (in_Text incoming) = ''/help'' then handle_help v incoming r
      else if kind \<noteq> ''edit'' \<and> kind \<noteq> ''delete'' \<and> kind \<noteq> ''revoke'' \<and> kind \<noteq> ''reaction'' \<and>
              MatchLocal (in_Text incoming) (local_prefix_of r (in_Endpoint incoming))
      then suppress_local v ''suppress local message'' incoming r
      else if kind = ''poll_snapshot'' then handle_snapshot v incoming targets r
      else if kind = ''poll_vote'' then handle_vote v incoming targets r
      else case is_aggregation_request r incoming of
        Some target \<Rightarrow> handlePollAggregation v target (endpointIDs targets) r
      | None \<Rightarrow>
          if kind = ''delete'' \<or> kind = ''revoke'' then handle_delete v incoming targets r
          else if kind = ''edit'' then handle_edit v incoming targets r
          else if kind = ''reaction'' then handle_reaction v incoming targets r
          else handle_message v turns existing incoming targets r)"

definition existing_canonical :: "Router \<Rightarrow> Incoming \<Rightarrow> string result" where
  "existing_canonical r incoming =
     (case CanonicalForRemote (ro_store r) (in_Endpoint incoming) (in_RemoteID incoming) of
        Inr existing \<Rightarrow> Inr existing
      | Inl e \<Rightarrow> if is_no_rows e then Inr [] else Inl e)"

definition is_suppressed :: "EndpointID \<Rightarrow> string \<Rightarrow> bool rop" where
  "is_suppressed endpoint remoteID r =
     of_result ''check local message suppression'' (IsSuppressedLocalMessage (ro_store r) endpoint remoteID) r"

text \<open>An edit of a suppressed message is suppressed as well.\<close>

definition suppressed_event :: "Incoming \<Rightarrow> bool rop" where
  "suppressed_event incoming =
     seqr (is_suppressed (in_Endpoint incoming) (in_RemoteID incoming)) (\<lambda>suppressed.
       if \<not> suppressed \<and> in_Kind incoming = ''edit'' \<and> reply_id incoming \<noteq> []
       then is_suppressed (in_Endpoint incoming) (reply_id incoming) else ret suppressed)"

definition Handle :: "env \<Rightarrow> alias_turn list \<Rightarrow> Incoming \<Rightarrow> unit rop" where
  "Handle v turns incoming r =
     (if in_Kind incoming = ''other'' then (Inr (), r)
      else case rg_routes r (in_Endpoint incoming) of
        None \<Rightarrow> (Inr (), r)
      | Some targets \<Rightarrow>
          if trim_space (in_RemoteID incoming) = [] then (Inl (Plain ''incoming remote message id is required''), r)
          else case existing_canonical r incoming of
            Inl e \<Rightarrow> (Inl (Wrapped ''check existing canonical message'' (terr_of e)), r)
          | Inr existing \<Rightarrow>
              seqr (suppressed_event incoming)
                (\<lambda>suppressed. if suppressed then ret () else handle_kind v turns existing incoming targets) r)"

definition HandleEvent :: "env \<Rightarrow> alias_turn list \<Rightarrow> Incoming \<Rightarrow> Outcome rop" where
  "HandleEvent v turns incoming =
     seqr (Handle v turns incoming) (\<lambda>_ r.
       if in_Kind incoming = ''other'' then
         (Inr \<lparr>oc_Accepted = True, oc_NoOp = True, oc_SafeToAdvance = True, oc_Pending = False, oc_Ambiguous = False\<rparr>, r)
       else
         let pendingRemoteID = (if in_Kind incoming = ''edit'' \<and> reply_id incoming \<noteq> [] then reply_id incoming
                                else in_RemoteID incoming)
         in (case PendingDeliveryForRemote (ro_store r) (in_Endpoint incoming) pendingRemoteID of
               Inl e \<Rightarrow> (Inl (terr_of e), r)
             | Inr pending \<Rightarrow>
                 (Inr \<lparr>oc_Accepted = True, oc_NoOp = False, oc_SafeToAdvance = (\<not> pending), oc_Pending = pending,
                    oc_Ambiguous = False\<rparr>, r)))"

end
