(* ===== verification/RouterFrame.thy ===== *)
theory RouterFrame
  imports RouterHandle StoreFrame
begin

text \<open>
  What the steps of the router leave alone. A relation between the state before and after that holds for the
  elementary steps holds for the operations built from them (\<open>router_relation\<close>); it is used for the
  ledger, which only grows while an event is handled, and for the steps of a create, which a job of
  another kind never touches.
\<close>

subsection \<open>Tables an operation does not touch\<close>

definition keeps :: "(tables \<Rightarrow> 'b) \<Rightarrow> Store \<Rightarrow> Store \<Rightarrow> bool" where
  "keeps g s s' \<longleftrightarrow> st_handle s' = st_handle s \<and> g (st_tables s') = g (st_tables s)"

lemma keeps_refl [simp]: "keeps g s s"
  by (simp add: keeps_def)

lemma keeps_trans: "keeps g s s' \<Longrightarrow> keeps g s' s'' \<Longrightarrow> keeps g s s''"
  by (simp add: keeps_def)

lemma keeps_exec: "(\<And>x t'. f (st_tables s) = Inr (x, t') \<Longrightarrow> g t' = g (st_tables s)) \<Longrightarrow> keeps g s (snd (exec s f))"
  by (rule exec_cases [of s f]) (auto simp: keeps_def)

lemma keeps_exec_tx:
  "(\<And>x t'. f (st_tables s) = Inr (x, t') \<Longrightarrow> g t' = g (st_tables s)) \<Longrightarrow> keeps g s (snd (exec_tx m s f))"
  using keeps_exec [of f s g] by (simp add: exec_tx_def)

lemma keeps_wrapDB: "keeps g s (snd r) \<Longrightarrow> keeps g s (snd (wrapDB m r))"
  by (simp add: wrapDB_def)

lemma keeps_check: "keeps g s (snd k) \<Longrightarrow> keeps g s (snd (check v s k))"
  by (cases v) simp_all

lemma keeps_ctx_do: "keeps g s (snd (f s)) \<Longrightarrow> keeps g s (snd (ctx_do gone f s))"
  by (simp add: ctx_do_def)

lemmas keeps_intros = keeps_check keeps_wrapDB keeps_exec_tx keeps_exec

lemma steps_SetState: "keeps t_steps s (snd (SetDeliveryOperationState now s d st na fc u))"
  unfolding SetDeliveryOperationState_def by (intro keeps_intros) auto

lemma steps_Begin: "keeps t_steps s (snd (BeginDeliveryAttempt now s d u))"
  unfolding BeginDeliveryAttempt_def by (intro keeps_intros) auto

lemma steps_DeleteOp: "keeps t_steps s (snd (DeleteDeliveryOperation s d))"
  unfolding DeleteDeliveryOperation_def by (intro keeps_intros) auto

lemma steps_UpsertOp: "keeps t_steps s (snd (UpsertDeliveryOperation now s d))"
  unfolding UpsertDeliveryOperation_def by (intro keeps_intros) (auto simp: constraint_Inr split: if_splits)

lemma steps_AddCopy: "keeps t_steps s (snd (AddMessageCopy now s c))"
  unfolding AddMessageCopy_def
  by (intro keeps_intros) (auto simp: insert_copy_def constraint_Inr Let_def split: if_splits)

lemma steps_ProviderRef: "keeps t_steps s (snd (SavePollProviderRef s c))"
  unfolding SavePollProviderRef_def by (intro keeps_intros) (auto simp: constraint_Inr)

lemma steps_Companion: "keeps t_steps s (snd (SavePollResultCompanion now s c))"
  unfolding SavePollResultCompanion_def by (intro keeps_intros) (auto simp: constraint_Inr Let_def split: if_splits)

lemmas steps_ops = steps_SetState steps_Begin steps_DeleteOp steps_UpsertOp steps_AddCopy steps_ProviderRef steps_Companion

subsection \<open>Relations kept by the shared steps\<close>

locale router_relation =
  fixes R :: "Router \<Rightarrow> Router \<Rightarrow> bool" and P :: "provider_call \<Rightarrow> bool"
  assumes refl: "R r r"
    and trans: "R r r' \<Longrightarrow> R r' r'' \<Longrightarrow> R r r''"
    and call_step: "P c \<Longrightarrow> R r (r\<lparr>ro_calls := ro_calls r @ [c]\<rparr>)"
    and text_call: "P (CallSend (text_message endpoint body scope replyTo))"
    and lanes: "R r (r\<lparr>ro_lanes := l\<rparr>)"
    and known: "R r (r\<lparr>ro_knownCopies := k\<rparr>)"
    and presentation: "R r (r\<lparr>ro_pollPresentation := p\<rparr>)"
    and results: "R r (r\<lparr>ro_pendingResultEdits := q\<rparr>)"
    and revision: "R r (r\<lparr>ro_nextRevision := n\<rparr>)"
    and upsert: "R r (r\<lparr>ro_store := snd (UpsertDeliveryOperation now (ro_store r) d)\<rparr>)"
    and set_state: "R r (r\<lparr>ro_store := snd (SetDeliveryOperationState now (ro_store r) d st na fc u)\<rparr>)"
    and companion: "R r (r\<lparr>ro_store := snd (SavePollResultCompanion now (ro_store r) row)\<rparr>)"
begin

definition pres :: "'a rop \<Rightarrow> bool" where
  "pres m \<longleftrightarrow> (\<forall>r. R r (snd (m r)))"

lemma presI: "(\<And>r. R r (snd (m r))) \<Longrightarrow> pres m"
  by (simp add: pres_def)

lemma presD: "pres m \<Longrightarrow> R r (snd (m r))"
  by (simp add: pres_def)

lemma pres_ret [intro!, simp]: "pres (ret x)" "pres (fail e)"
  by (simp_all add: pres_def ret_def fail_def refl)

lemma pres_seqr: "R r (snd (m r)) \<Longrightarrow> (\<And>x r'. R r' (snd (k x r'))) \<Longrightarrow> R r (snd (seqr m k r))"
  by (auto simp: seqr_def split: prod.split sum.split intro: trans)

lemma pres_store: "(R r (r\<lparr>ro_store := snd (f (ro_store r))\<rparr>)) \<Longrightarrow> R r (snd (store_raw f r))"
  by (auto simp: store_raw_def split: prod.split sum.split)

lemma pres_store_do: "(R r (r\<lparr>ro_store := snd (f (ro_store r))\<rparr>)) \<Longrightarrow> R r (snd (store_do m f r))"
  unfolding store_do_def by (rule pres_store) (simp add: wrapDB_def)

lemma pres_call: "P c \<Longrightarrow> R r (snd (call v c r))"
  by (simp add: call_def call_step)

lemma pres_of_result [simp]: "snd (of_result m x r) = r" "snd (of_raw x r) = r"
  by (simp_all add: of_result_def of_raw_def split: sum.split)

lemma pres_for_each: "(\<And>x r. R r (snd (f x r))) \<Longrightarrow> R r (snd (for_each f xs r))"
  by (induction xs arbitrary: r) (auto simp: ret_def refl intro: pres_seqr)

lemma fold_R: "(\<And>r x. R r (f r x)) \<Longrightarrow> R r (foldl f r xs)"
  by (induction xs arbitrary: r) (auto intro: refl trans)

lemma enqueue_job_R: "R r (snd (enqueue_job endpoint j r))"
  by (simp add: enqueue_job_def lanes split: prod.split)

lemma mark_awaiting_R: "R r (store_ignore (\<lambda>s. MarkDeliveryOperationAwaitingReplay now s op u) r)"
  by (simp add: store_ignore_def MarkDeliveryOperationAwaitingReplay_def set_state)

lemma mark_failed_R: "R r (store_ignore (\<lambda>s. MarkDeliveryOperationFailed now s op c u) r)"
  by (simp add: store_ignore_def MarkDeliveryOperationFailed_def set_state)

lemma enqueueMutation_R: "R r (snd (enqueueMutation v op mut r))"
  unfolding enqueueMutation_def
proof (rule pres_seqr)
  show "R r (snd (store_do ''queue delivery operation'' (\<lambda>s. UpsertDeliveryOperation (ev_now v) s op) r))"
    by (rule pres_store_do, rule upsert)
  fix x r'
  show "R r' (snd (case enqueue_job (do_EndpointID op) (MutationJob op mut) r' of
          (None, r) \<Rightarrow> (Inr (), r)
        | (Some e, r) \<Rightarrow>
            (Inl (Wrapped ''enqueue destination mutation'' (terr_of e)),
             store_ignore (\<lambda>s. MarkDeliveryOperationAwaitingReplay (ev_now v) s op (Some (ev_now v))) r)))"
    using enqueue_job_R [of r' "do_EndpointID op" "MutationJob op mut"] mark_awaiting_R trans
    by (cases "enqueue_job (do_EndpointID op) (MutationJob op mut) r'") (auto split: option.split)
qed

lemma poll_presentation_R: "R r (snd (poll_presentation_of v canonicalID r))"
  by (simp add: poll_presentation_of_def presentation refl Let_def split: option.split sum.split prod.split)

lemma renderPollResults_R: "R r (snd (renderPollResults v canonicalID r))"
  unfolding renderPollResults_def
  by (auto simp: refl ret_def split: sum.split intro!: pres_seqr poll_presentation_R)

lemma ensure_companion_R: "R r (snd (ensurePollResultCompanion v canonicalID endpoint r))"
proof -
  have "R r (snd (seqr (renderPollResults v canonicalID) (\<lambda>body r.
      seqr (call v (CallSend (text_message endpoint body (childScope r canonicalID endpoint) None)))
        (\<lambda>ref. if \<not> valid_ref endpoint ref
           then fail (Plain ''poll result transport returned invalid message reference'')
           else store_raw (\<lambda>s. SavePollResultCompanion (ev_now v) s
             \<lparr>pc_CanonicalID = canonicalID, pc_EndpointID = endpoint,
              pc_RemoteMessageID = mr_RemoteMessageID ref, pc_CreatedAt = None, pc_UpdatedAt = None\<rparr>)) r) r))"
    by (intro pres_seqr renderPollResults_R pres_call text_call)
       (auto simp: fail_def refl intro!: pres_store companion)
  then show ?thesis by (simp add: ensurePollResultCompanion_def refl split: sum.split)
qed

lemma next_revision_R: "R r (snd (nextMutationRevision r))"
  by (simp add: nextMutationRevision_def revision)

lemma set_pending_result_R: "R r (set_pending_result key e r)"
  by (simp add: set_pending_result_def results)

text \<open>A new revision is recorded as pending and its edit put on the lane.\<close>

lemma pending_result_R:
  "R r (let (n, r) = nextMutationRevision r; r = set_pending_result key (e n) r
        in snd (enqueueMutation v (op n) (mut n) r))"
  by (auto simp: Let_def split: prod.split
      intro!: trans [OF trans [OF next_revision_R [of r, simplified nextMutationRevision_def snd_conv] set_pending_result_R]
        enqueueMutation_R] simp: nextMutationRevision_def)

lemma update_result_R: "R r (update_result v canonicalID body r endpoint)"
proof -
  have put: "R r' (let (revision, r) = nextMutationRevision r'; e = \<lparr>pend_revision = revision, pend_text = body\<rparr>;
        r = set_pending_result (canonicalID, endpoint) e r
      in snd (enqueueMutation v (operation v canonicalID endpoint ''poll_result_edit'' revision)
           (EditResult canonicalID endpoint remoteID e) r))" for r' remoteID
    using pending_result_R [of r' "(canonicalID, endpoint)" "\<lambda>n. \<lparr>pend_revision = n, pend_text = body\<rparr>" v
        "\<lambda>n. operation v canonicalID endpoint ''poll_result_edit'' n"
        "\<lambda>n. EditResult canonicalID endpoint remoteID \<lparr>pend_revision = n, pend_text = body\<rparr>"]
    by (simp add: Let_def)
  obtain x r' where en: "ensurePollResultCompanion v canonicalID endpoint r = (x, r')" by fastforce
  with ensure_companion_R [of r v canonicalID endpoint] have R': "R r r'" by simp
  show ?thesis
    unfolding update_result_def
    using put R' trans refl
    by (auto simp: Let_def en split: sum.split option.split)
qed

lemma update_aggregation_R: "R r (update_aggregation v canonicalID body r ref)"
  using pending_result_R [of r "(canonicalID @ CHR 0x00 # mr_RemoteMessageID ref, mr_Endpoint ref)"
      "\<lambda>n. \<lparr>pend_revision = n, pend_text = body\<rparr>" v
      "\<lambda>n. operation v canonicalID (mr_Endpoint ref) ''poll_aggregation_edit'' n"
      "\<lambda>n. EditAggregation canonicalID ref \<lparr>pend_revision = n, pend_text = body\<rparr>"]
  by (simp add: update_aggregation_def Let_def)

lemma updatePollResults_R: "R r (updatePollResults v canonicalID members r)"
proof -
  obtain x r' where render: "renderPollResults v canonicalID r = (x, r')" by fastforce
  with renderPollResults_R [of r v canonicalID] have "R r r'" by simp
  moreover have "R r' (foldl (update_result v canonicalID body) r' members)" for body
    by (rule fold_R) (rule update_result_R)
  moreover have "R r'' (updatePollAggregations v canonicalID body r'')" for body r''
    unfolding updatePollAggregations_def by (rule fold_R) (rule update_aggregation_R)
  ultimately have "R r (updatePollAggregations v canonicalID body (foldl (update_result v canonicalID body) r' members))" for body
    by (blast intro: trans)
  with \<open>R r r'\<close> show ?thesis
    unfolding updatePollResults_def render by (auto split: sum.split bool.split intro: refl)
qed

lemma flush_edit_R: "R r (flush_edit v canonicalID destination r)"
  by (simp add: flush_edit_def refl enqueueMutation_R split: option.split sum.split)

lemma flush_reaction_R: "R r (flush_reaction v canonicalID destination r p)"
  by (simp add: flush_reaction_def refl enqueueMutation_R split: sum.split)

lemma flush_R: "R r (flushPendingMutations v canonicalID destination r)"
  unfolding flushPendingMutations_def Let_def
  by (rule trans [OF flush_edit_R fold_R]) (rule flush_reaction_R)

end

subsection \<open>Putting creates on the lanes\<close>

locale create_relation = router_relation R P for R P +
  assumes upsert_step: "R r (r\<lparr>ro_store := snd (UpsertCreateStep now (ro_store r) step)\<rparr>)"
begin

lemma start_create_R: "R r (snd (start_create v op j r))"
  using enqueue_job_R [of r "rt_Endpoint (cj_Target j)" "CreateJob j"] mark_awaiting_R trans
  by (cases "enqueue_job (rt_Endpoint (cj_Target j)) (CreateJob j) r") (auto simp: start_create_def split: option.split)

lemma queue_steps_R: "R r (snd (queue_steps v op j r))"
  unfolding queue_steps_def
  by (intro pres_seqr start_create_R) (auto simp: ret_def refl intro: pres_store_do upsert_step)

lemma queue_create_R: "R r (snd (queue_create v op j r))"
  unfolding queue_create_def by (intro pres_seqr queue_steps_R pres_store_do upsert)

lemma enqueueCreate_R: "R r (snd (enqueueCreate v j r))"
  by (simp add: enqueueCreate_def Let_def refl queue_create_R split: sum.split)

lemma stored_scope_R: "snd (stored_scope m canonicalID endpoint r) = r"
  by (simp add: stored_scope_def split: sum.split)

lemma outgoing_reply_R: "R r (snd (outgoing_reply replyTo destination r))"
  unfolding outgoing_reply_def
  by (auto simp: refl ret_def stored_scope_R split: sum.split intro!: pres_seqr)

lemma forward_at_R: "R r (snd (forward_at v canonicalID replyTo incoming references mediaBytes target r))"
  unfolding forward_at_def Let_def
  by (auto simp: refl known stored_scope_R split: sum.split prod.split
      intro!: pres_seqr outgoing_reply_R enqueueCreate_R)

end

end
