(* ===== verification/RouterSpec.thy ===== *)
theory RouterSpec
  imports RouterFrame PresentationSpec StoreSpec
begin

text \<open>
  What the router promises: an accepted message is in the ledger for every destination, local messages
  stay where they are, and a newer edit replaces an older one.
\<close>

subsection \<open>The ledger while an event is handled\<close>

definition grows :: "Store \<Rightarrow> Store \<Rightarrow> bool" where
  "grows s s' \<longleftrightarrow> keeps t_copies s s' \<and>
     key_operation ` set (t_operations (st_tables s)) \<subseteq> key_operation ` set (t_operations (st_tables s'))"

lemma grows_refl [simp]: "grows s s"
  by (simp add: grows_def)

lemma grows_trans: "grows s s' \<Longrightarrow> grows s' s'' \<Longrightarrow> grows s s''"
  unfolding grows_def by (blast intro: keeps_trans)

lemma grows_keeps: "keeps (\<lambda>t. (t_copies t, t_operations t)) s s' \<Longrightarrow> grows s s'"
  by (simp add: grows_def keeps_def)

lemma key_update_where: "(\<And>x. key (f x) = key x) \<Longrightarrow> key ` set (update_where P f rows) = key ` set rows"
  by (simp add: update_where_def image_image flip: set_map) (auto intro!: arg_cong [where f = set])

lemma grows_wrapDB: "grows s (snd r) \<Longrightarrow> grows s (snd (wrapDB m r))"
  by (simp add: wrapDB_def)

lemma grows_check: "grows s (snd k) \<Longrightarrow> grows s (snd (check v s k))"
  by (cases v) simp_all

lemma grows_exec:
  assumes "\<And>x t'. f (st_tables s) = Inr (x, t') \<Longrightarrow> t_copies t' = t_copies (st_tables s) \<and>
      key_operation ` set (t_operations (st_tables s)) \<subseteq> key_operation ` set (t_operations t')"
  shows "grows s (snd (exec s f))"
  by (rule exec_cases [of s f]) (use assms in \<open>auto simp: grows_def keeps_def\<close>)

lemmas grows_intros = grows_check grows_wrapDB grows_exec

lemma grows_UpsertOp: "grows s (snd (UpsertDeliveryOperation now s d))"
  unfolding UpsertDeliveryOperation_def by (intro grows_intros) (auto simp: constraint_Inr split: if_splits)

lemma grows_SetState: "grows s (snd (SetDeliveryOperationState now s d st na fc u))"
  unfolding SetDeliveryOperationState_def
  by (intro grows_intros) (auto simp: key_update_where key_operation_def)

lemma grows_Companion: "grows s (snd (SavePollResultCompanion now s c))"
  unfolding SavePollResultCompanion_def by (intro grows_intros) (auto simp: constraint_Inr Let_def split: if_splits)

lemma grows_UpsertStep: "grows s (snd (UpsertCreateStep now s c))"
  unfolding UpsertCreateStep_def by (intro grows_intros) (auto simp: constraint_Inr split: if_splits)

lemma grows_Scope: "grows s (snd (UpsertCanonicalScope now s c))"
  unfolding UpsertCanonicalScope_def by (intro grows_intros) (auto simp: constraint_Inr split: if_splits)

interpretation ledger: create_relation "\<lambda>r r'. grows (ro_store r) (ro_store r')" "\<lambda>_. True"
  by unfold_locales
     (simp_all add: grows_UpsertOp grows_SetState grows_Companion grows_UpsertStep, blast intro: grows_trans)

subsection \<open>Covered destinations\<close>

text \<open>A message is at a destination, or its creation there is in the ledger.\<close>

definition covered :: "Store \<Rightarrow> string \<Rightarrow> EndpointID \<Rightarrow> bool" where
  "covered s canonicalID destination \<longleftrightarrow>
     (canonicalID, destination) \<in> key_copy2 ` set (t_copies (st_tables s)) \<or>
     (canonicalID, destination, ''create'', 1) \<in> key_operation ` set (t_operations (st_tables s))"

lemma covered_grows: "grows s s' \<Longrightarrow> covered s c d \<Longrightarrow> covered s' c d"
  by (auto simp: covered_def grows_def keeps_def)

lemma seqr_Inr: "seqr m k r = (Inr y, r') \<longleftrightarrow> (\<exists>x r1. m r = (Inr x, r1) \<and> k x r1 = (Inr y, r'))"
  by (auto simp: seqr_def split: prod.splits sum.splits)

lemma store_raw_Inr: "store_raw f r = (Inr x, r') \<longleftrightarrow> (\<exists>s. f (ro_store r) = (Inr x, s) \<and> r' = r\<lparr>ro_store := s\<rparr>)"
  by (auto simp: store_raw_def split: prod.splits sum.splits)

lemma store_do_Inr: "store_do m f r = (Inr x, r') \<longleftrightarrow> (\<exists>s. f (ro_store r) = (Inr x, s) \<and> r' = r\<lparr>ro_store := s\<rparr>)"
  by (simp add: store_do_def store_raw_Inr wrapDB_Inr)

lemma of_result_Inr: "of_result m x r = (Inr y, r') \<longleftrightarrow> x = Inr y \<and> r' = r"
  by (auto simp: of_result_def split: sum.split)

lemma of_raw_Inr: "of_raw x r = (Inr y, r') \<longleftrightarrow> x = Inr y \<and> r' = r"
  by (auto simp: of_raw_def split: sum.split)

lemma ret_Inr: "ret x r = (Inr y, r') \<longleftrightarrow> y = x \<and> r' = r" "\<not> fail e r = (Inr y, r')"
  by (auto simp: ret_def fail_def)

lemmas rop_Inr = seqr_Inr store_raw_Inr store_do_Inr of_result_Inr of_raw_Inr ret_Inr

lemma copy_found: "MessageCopyForEndpoint s c d = Inr copy \<Longrightarrow> copy \<in> set (t_copies (st_tables s)) \<and> key_copy2 copy = (c, d)"
  by (auto simp: MessageCopyForEndpoint_def op_simps dest: query_row_Inr)

lemma covered_copy: "MessageCopyForEndpoint s c d = Inr copy \<Longrightarrow> covered s c d"
  unfolding covered_def using copy_found by (metis image_eqI)

lemma operation_key: "key_operation (create_operation v j) = (cj_Canonical j, rt_Endpoint (cj_Target j), ''create'', 1)"
  by (simp add: create_operation_def operation_def key_operation_def)

lemma upsert_covers:
  assumes "UpsertDeliveryOperation now s (create_operation v j) = (Inr x, s')"
  shows "covered s' (cj_Canonical j) (rt_Endpoint (cj_Target j))"
proof -
  have "key_operation (create_operation v j) \<in> key_operation ` set (t_operations (st_tables s'))"
    using assms by (auto simp: UpsertDeliveryOperation_def op_simps key_operation_def split: if_splits)
  then show ?thesis by (simp add: covered_def operation_key)
qed

lemma queue_create_covers:
  assumes "queue_create v (create_operation v j) j r = (Inr (), r')"
  shows "covered (ro_store r') (cj_Canonical j) (rt_Endpoint (cj_Target j))"
proof -
  from assms obtain s1 where s1: "UpsertDeliveryOperation (ev_now v) (ro_store r) (create_operation v j) = (Inr (), s1)"
    and rest: "queue_steps v (create_operation v j) j (r\<lparr>ro_store := s1\<rparr>) = (Inr (), r')"
    by (auto simp: queue_create_def seqr_Inr store_do_Inr)
  have "grows s1 (ro_store r')"
    using ledger.queue_steps_R [of "r\<lparr>ro_store := s1\<rparr>" v "create_operation v j" j] rest by simp
  with upsert_covers [OF s1] show ?thesis by (rule covered_grows [rotated])
qed

lemma enqueueCreate_covers:
  assumes "enqueueCreate v j r = (Inr (), r')"
  shows "covered (ro_store r') (cj_Canonical j) (rt_Endpoint (cj_Target j))"
proof (cases "FindDeliveryOperation (ro_store r) (create_operation v j)")
  case (Inl e)
  with assms show ?thesis by (auto simp: enqueueCreate_def split: if_splits intro: queue_create_covers)
next
  case (Inr d)
  then have d: "d \<in> set (t_operations (st_tables (ro_store r)))" "key_operation d = key_operation (create_operation v j)"
    by (auto simp: FindDeliveryOperation_def op_simps dest: query_row_Inr)
  show ?thesis
  proof (cases "do_State d = DeliveryQueued \<or> do_State d = DeliveryRetrying")
    case True
    with assms Inr have "r' = r" by (simp add: enqueueCreate_def)
    moreover from d have "(cj_Canonical j, rt_Endpoint (cj_Target j), ''create'', 1) \<in>
        key_operation ` set (t_operations (st_tables (ro_store r)))"
      by (metis image_eqI operation_key)
    ultimately show ?thesis by (simp add: covered_def)
  next
    case False
    with assms Inr show ?thesis by (auto simp: enqueueCreate_def intro: queue_create_covers)
  qed
qed

lemma forward_at_covers:
  assumes "forward_at v c replyTo incoming refs media t r = (Inr (), r')" "rt_Endpoint t \<noteq> in_Endpoint incoming"
  shows "covered (ro_store r') c (rt_Endpoint t)"
proof (cases "MessageCopyForEndpoint (ro_store r) c (rt_Endpoint t)")
  case (Inl e)
  with assms show ?thesis
    by (auto simp: forward_at_def Let_def rop_Inr split: if_splits prod.splits dest: enqueueCreate_covers)
next
  case (Inr copy)
  with assms have "ro_store r' = ro_store r" by (auto simp: forward_at_def Let_def)
  with covered_copy [OF Inr] show ?thesis by simp
qed

lemma forward_all_covers:
  assumes "for_each (forward_at v c replyTo incoming refs media) ts r = (Inr (), r')"
  shows "\<forall>t \<in> set ts. rt_Endpoint t = in_Endpoint incoming \<or> covered (ro_store r') c (rt_Endpoint t)"
  using assms
proof (induction ts arbitrary: r)
  case (Cons t ts)
  then obtain r1 where r1: "forward_at v c replyTo incoming refs media t r = (Inr (), r1)"
    and rest: "for_each (forward_at v c replyTo incoming refs media) ts r1 = (Inr (), r')"
    by (auto simp: seqr_Inr)
  have "grows (ro_store r1) (ro_store (snd (for_each (forward_at v c replyTo incoming refs media) ts r1)))"
    by (rule ledger.pres_for_each) (rule ledger.forward_at_R)
  with rest have "grows (ro_store r1) (ro_store r')" by simp
  with forward_at_covers [OF r1] Cons.IH [OF rest] show ?case by (auto intro: covered_grows)
qed simp


subsection \<open>From the event to the ledger\<close>

lemma name_people_keeps: "name_people i a e r = (Inr e', r1) \<Longrightarrow>
    r1 = r \<and> in_Endpoint e' = in_Endpoint e \<and> in_RemoteID e' = in_RemoteID e \<and> in_FromSelf e' = in_FromSelf e \<and> in_Kind e' = in_Kind e"
  by (auto simp: name_people_def bind_res_Inr split: sum.splits)

lemma name_poll_keeps [simp]:
  "in_Endpoint (fst (name_poll v e)) = in_Endpoint e" "in_RemoteID (fst (name_poll v e)) = in_RemoteID e"
  "in_FromSelf (fst (name_poll v e)) = in_FromSelf e" "in_Kind (fst (name_poll v e)) = in_Kind e"
  by (simp_all add: name_poll_def Let_def)

lemma observe_author_keeps:
  assumes "observe_author v turns i e r = (Inr (e', refs, hs), r1)"
  shows "in_Endpoint e' = in_Endpoint e \<and> in_RemoteID e' = in_RemoteID e \<and> in_FromSelf e' = in_FromSelf e \<and>
    in_Kind e' = in_Kind e \<and> ro_knownCopies r1 = ro_knownCopies r"
  using assms
  by (auto simp: observe_author_def rop_Inr case_prod_beta split: option.splits if_splits dest!: name_people_keeps)

lemma resolve_found:
  assumes "ResolveOrCreateCanonical now s cand src = (Inr (cid, created), s')"
  shows "CanonicalForRemote s' (mc_EndpointID src) (mc_RemoteMessageID src) = Inr cid"
  using assms
proof (cases rule: resolve_cases)
  case (Existing c)
  with resolve_valid [OF assms] canonical_for_remote [of src s] show ?thesis by simp
next
  case (Created e)
  let ?c = "src\<lparr>mc_CanonicalID := cand, mc_CreatedAt := Some (unixMillis now (mc_CreatedAt src))\<rparr>"
  from Created(1) have "query_row (\<lambda>c. key_copy c = key_copy src) (t_copies (st_tables s')) = Inr ?c"
    unfolding Created(4) by (rule query_copy_append) simp
  with resolve_valid [OF assms] canonical_for_remote [of src s'] Created(2,5) show ?thesis by simp
qed

lemma found_keeps: "keeps t_copies s s' \<Longrightarrow> CanonicalForRemote s' ep rid = CanonicalForRemote s ep rid"
  by (simp add: CanonicalForRemote_def query_def keeps_def split: handle.split)

lemma resolveCanonical_found:
  assumes "resolveCanonical v e r = (Inr (c, created), r')" "ro_knownCopies r (in_Endpoint e, in_RemoteID e) = None"
  shows "CanonicalForRemote (ro_store r') (in_Endpoint e) (in_RemoteID e) = Inr c"
  using assms
  by (auto simp: resolveCanonical_def Let_def seqr_Inr store_raw_Inr modify_def ret_Inr split: sum.splits
      dest!: resolve_found)

text \<open>What is kept of a poll and of the child scopes leaves the copies and the operations alone.\<close>

abbreviation "ledger_part t \<equiv> (t_copies t, t_operations t)"

lemma ledger_hash_options: "insert_hash_options cid i hs t = Inr t' \<Longrightarrow> ledger_part t' = ledger_part t"
  by (induction cid i hs t rule: insert_hash_options.induct)
     (auto simp: bind_res_Inr insert_option_def constraint_Inr split: if_splits)

lemma ledger_source_hashes: "insert_source_hashes cid e i hs t = Inr t' \<Longrightarrow> ledger_part t' = ledger_part t"
  by (induction cid e i hs t rule: insert_source_hashes.induct) (auto simp: bind_res_Inr constraint_Inr)

lemma grows_SavePollOptions: "grows s (snd (SavePollOptions s a b))"
  unfolding SavePollOptions_def
  by (intro grows_keeps keeps_intros) (auto simp: bind_res_Inr constraint_Inr dest!: ledger_hash_options split: if_splits)

lemma grows_SourceHashes: "grows s (snd (SavePollSourceOptionHashes s a b c))"
  unfolding SavePollSourceOptionHashes_def
  by (intro grows_keeps keeps_intros) (auto simp: bind_res_Inr constraint_Inr dest!: ledger_source_hashes split: if_splits)

lemma grows_ProviderRef: "grows s (snd (SavePollProviderRef s c))"
  unfolding SavePollProviderRef_def by (intro grows_keeps keeps_intros) (auto simp: constraint_Inr)

lemma grows_Unavailable: "grows s (snd (MarkPollEndpointUnavailable s a b))"
  unfolding MarkPollEndpointUnavailable_def
  by (intro grows_keeps keeps_intros) (auto simp: bind_res_Inr constraint_Inr set_source_def split: if_splits)

lemma remember_store: "ro_store (snd (rememberPollPresentation v c e r)) = ro_store r"
  by (simp add: rememberPollPresentation_def Let_def split: option.split)

lemma wrap_rop_snd [simp]: "snd (wrap_rop m f r) = snd (f r)"
  by (simp add: wrap_rop_def split: prod.split sum.split)

lemma keep_poll_grows: "grows (ro_store r) (ro_store (snd (keep_poll v c created e hs r)))"
  unfolding keep_poll_def
  by (intro ledger.pres_seqr)
     (auto simp: remember_store ret_def intro!: ledger.pres_seqr ledger.pres_store_do grows_SavePollOptions grows_SourceHashes
       grows_ProviderRef grows_Unavailable)

lemma keep_scopes_grows: "grows (ro_store r) (ro_store (snd (keep_scopes v c replyTo e r)))"
proof -
  have "grows (ro_store r) (ro_store (snd (for_each (inherit_scope v c e) scopes r)))" for scopes r
    by (rule ledger.pres_for_each)
       (auto simp: inherit_scope_def ret_def intro!: ledger.pres_store_do grows_Scope)
  then show ?thesis
    unfolding keep_scopes_def
    by (intro ledger.pres_seqr)
       (auto simp: ret_def split: option.split intro!: ledger.pres_seqr ledger.pres_store_do grows_Scope)
qed

lemma reply_target_keeps: "reply_target e r = (Inr (x, e'), r') \<Longrightarrow> r' = r \<and> in_Endpoint e' = in_Endpoint e \<and> in_Kind e' = in_Kind e"
  by (auto simp: reply_target_def rop_Inr split: if_splits sum.splits)

lemma load_media_keeps: "load_media e r = (Inr b, r') \<Longrightarrow> r' = r"
  by (auto simp: load_media_def rop_Inr split: option.splits sum.splits)

text \<open>The part of \<open>forward_message\<close> after the poll: replies, scopes, media, the destinations.\<close>

lemma forward_rest_covers:
  assumes "seqr (reply_target e) (\<lambda>(replyTo, incoming).
       seqr (keep_scopes v c replyTo incoming) (\<lambda>_.
       seqr (load_media incoming) (\<lambda>mediaBytes.
       seqr (for_each (forward_at v c replyTo incoming refs mediaBytes) ts) (\<lambda>_.
         if in_Kind incoming = ''poll'' then modify (updatePollResults v c (endpointIDs ts))
         else ret ())))) r = (Inr (), r')"
  shows "grows (ro_store r) (ro_store r') \<and> (\<forall>t \<in> set ts. rt_Endpoint t = in_Endpoint e \<or> covered (ro_store r') c (rt_Endpoint t))"
proof -
  from assms obtain replyTo e' r1 where rt: "reply_target e r = (Inr (replyTo, e'), r1)"
    and a1: "seqr (keep_scopes v c replyTo e') (\<lambda>_. seqr (load_media e') (\<lambda>mediaBytes.
       seqr (for_each (forward_at v c replyTo e' refs mediaBytes) ts) (\<lambda>_.
         if in_Kind e' = ''poll'' then modify (updatePollResults v c (endpointIDs ts))
         else ret ()))) r1 = (Inr (), r')"
    unfolding seqr_Inr [of "reply_target e"] by auto
  from a1 obtain r2 where r2: "keep_scopes v c replyTo e' r1 = (Inr (), r2)"
    and a2: "seqr (load_media e') (\<lambda>mediaBytes.
       seqr (for_each (forward_at v c replyTo e' refs mediaBytes) ts) (\<lambda>_.
         if in_Kind e' = ''poll'' then modify (updatePollResults v c (endpointIDs ts))
         else ret ())) r2 = (Inr (), r')"
    unfolding seqr_Inr [of "keep_scopes v c replyTo e'"] by auto
  from a2 obtain media r3 where lm: "load_media e' r2 = (Inr media, r3)"
    and a3: "seqr (for_each (forward_at v c replyTo e' refs media) ts) (\<lambda>_.
         if in_Kind e' = ''poll'' then modify (updatePollResults v c (endpointIDs ts))
         else ret ()) r3 = (Inr (), r')"
    unfolding seqr_Inr [of "load_media e'"] by auto
  from a3 obtain r4 where r4: "for_each (forward_at v c replyTo e' refs media) ts r3 = (Inr (), r4)"
    and a4: "(if in_Kind e' = ''poll'' then modify (updatePollResults v c (endpointIDs ts)) else ret ()) r4 = (Inr (), r')"
    unfolding seqr_Inr [of "for_each _ ts"] by auto
  have same: "r1 = r" "r3 = r2" "in_Endpoint e' = in_Endpoint e"
    using reply_target_keeps [OF rt] load_media_keeps [OF lm] by simp_all
  have g12: "grows (ro_store r1) (ro_store r2)"
    using keep_scopes_grows [of r1 v c replyTo e'] by (simp add: r2)
  have g34: "grows (ro_store r3) (ro_store r4)"
    using ledger.pres_for_each [of "forward_at v c replyTo e' refs media" r3 ts] ledger.forward_at_R
    by (simp add: r4)
  have g4: "grows (ro_store r4) (ro_store r')"
    using a4 ledger.updatePollResults_R [of r4 v c "endpointIDs ts"]
    by (auto simp: modify_def ret_def split: if_splits)
  from g12 g34 g4 same have g: "grows (ro_store r) (ro_store r')" by (metis grows_trans)
  have "\<forall>t \<in> set ts. rt_Endpoint t = in_Endpoint e \<or> covered (ro_store r') c (rt_Endpoint t)"
    using forward_all_covers [OF r4] covered_grows [OF g4] same by metis
  with g show ?thesis ..
qed

lemma forward_message_covers:
  assumes "forward_message v c created e refs hs ts r = (Inr (), r')" "\<not> in_FromSelf e"
  shows "grows (ro_store r) (ro_store r') \<and> (\<forall>t \<in> set ts. rt_Endpoint t = in_Endpoint e \<or> covered (ro_store r') c (rt_Endpoint t))"
proof -
  let ?A = "if in_Kind e = ''poll'' then wrap_rop ''persist poll presentation'' (rememberPollPresentation v c e) else ret ()"
  let ?B = "if in_Kind e = ''poll'' then keep_poll v c created e hs else ret ()"
  from assms obtain r1 r2 where r1: "?A r = (Inr (), r1)" and r2: "?B r1 = (Inr (), r2)"
    and rest: "seqr (reply_target e) (\<lambda>(replyTo, incoming).
       seqr (keep_scopes v c replyTo incoming) (\<lambda>_.
       seqr (load_media incoming) (\<lambda>mediaBytes.
       seqr (for_each (forward_at v c replyTo incoming refs mediaBytes) ts) (\<lambda>_.
         if in_Kind incoming = ''poll'' then modify (updatePollResults v c (endpointIDs ts))
         else ret ())))) r2 = (Inr (), r')"
    unfolding forward_message_def seqr_Inr [of ?A] by (simp add: seqr_Inr [of ?B]) blast
  have "ro_store (snd (?A r)) = ro_store r" by (simp add: remember_store ret_def)
  then have "ro_store r1 = ro_store r" by (simp add: r1)
  moreover have "grows (ro_store r1) (ro_store r2)"
    using keep_poll_grows [of r1 v c created e hs] r2 by (auto simp: ret_def split: if_splits)
  ultimately show ?thesis using forward_rest_covers [OF rest] by (metis grows_trans)
qed

subsection \<open>Accepted messages\<close>

text \<open>
  An event that is forwarded: of a kind that carries content, not sent by the bridge itself, neither a
  command nor addressed to its own group only, and its message not suppressed.
\<close>

definition forwardable :: "Router \<Rightarrow> Incoming \<Rightarrow> bool" where
  "forwardable r e \<longleftrightarrow>
     in_Kind e \<notin> {''other'', ''poll_snapshot'', ''poll_vote'', ''delete'', ''revoke'', ''edit'', ''reaction''} \<and>
     \<not> in_FromSelf e \<and> \<not> (in_Kind e = ''text'' \<and> trim_space (in_Text e) = ''/help'') \<and>
     \<not> MatchLocal (in_Text e) (local_prefix_of r (in_Endpoint e)) \<and> is_aggregation_request r e = None \<and>
     trim_space (in_RemoteID e) \<noteq> [] \<and>
     IsSuppressedLocalMessage (ro_store r) (in_Endpoint e) (in_RemoteID e) = Inr False"

lemma handle_forwardable:
  assumes "forwardable r e" "rg_routes r (in_Endpoint e) = Some targets" "Handle v turns e r = (Inr (), r')"
  shows "\<exists>existing. handle_message v turns existing e targets r = (Inr (), r')"
proof -
  from assms(1) have kinds: "in_Kind e \<noteq> ''other''" "in_Kind e \<noteq> ''poll_snapshot''" "in_Kind e \<noteq> ''poll_vote''"
    "in_Kind e \<noteq> ''delete''" "in_Kind e \<noteq> ''revoke''" "in_Kind e \<noteq> ''edit''" "in_Kind e \<noteq> ''reaction''"
    by (simp_all add: forwardable_def)
  have sup: "suppressed_event e r = (Inr False, r)"
    using assms(1) kinds by (simp add: suppressed_event_def is_suppressed_def of_result_def forwardable_def seqr_def ret_def)
  have kind: "handle_kind v turns existing e targets r = handle_message v turns existing e targets r" for existing
    using assms(1) kinds by (auto simp: handle_kind_def Let_def forwardable_def)
  from assms(3) obtain existing where "seqr (suppressed_event e)
      (\<lambda>suppressed. if suppressed then ret () else handle_kind v turns existing e targets) r = (Inr (), r')"
    using kinds(1) assms(2) by (auto simp: Handle_def split: if_splits sum.splits)
  then show ?thesis by (auto simp: seqr_def sup kind)
qed

lemma handle_message_covers:
  assumes "handle_message v turns existing e targets r = (Inr (), r')" "\<not> in_FromSelf e"
    "ro_knownCopies r (in_Endpoint e, in_RemoteID e) = None"
  shows "\<exists>c. CanonicalForRemote (ro_store r') (in_Endpoint e) (in_RemoteID e) = Inr c \<and>
    (IsTombstoned (ro_store r') c = Inr True \<or>
     (\<forall>t \<in> set targets. rt_Endpoint t = in_Endpoint e \<or> covered (ro_store r') c (rt_Endpoint t)))"
proof -
  let ?set = "case targets of t # _ \<Rightarrow> rt_SyncSetID t | [] \<Rightarrow> []"
  from assms(1,2) obtain e' refs hs r1 where oa: "observe_author v turns ?set e r = (Inr (e', refs, hs), r1)"
    and a1: "seqr (resolveCanonical v e') (\<lambda>(canonicalID, created).
      seqr (\<lambda>r. of_result ''check canonical tombstone'' (IsTombstoned (ro_store r) canonicalID) r) (\<lambda>tombstoned.
        if tombstoned then ret ()
        else forward_message v canonicalID created e' refs hs targets)) r1 = (Inr (), r')"
    unfolding handle_message_def Let_def by (auto simp: seqr_Inr [of "observe_author v turns ?set e"])
  note k = observe_author_keeps [OF oa]
  from a1 obtain c created r2 where rc: "resolveCanonical v e' r1 = (Inr (c, created), r2)"
    and a2: "seqr (\<lambda>r. of_result ''check canonical tombstone'' (IsTombstoned (ro_store r) c) r) (\<lambda>tombstoned.
        if tombstoned then ret () else forward_message v c created e' refs hs targets) r2 = (Inr (), r')"
    by (auto simp: seqr_Inr [of "resolveCanonical v e'"])
  have found: "CanonicalForRemote (ro_store r2) (in_Endpoint e) (in_RemoteID e) = Inr c"
    using resolveCanonical_found [OF rc] k assms(3) by simp
  from a2 consider (tomb) "IsTombstoned (ro_store r2) c = Inr True" "r' = r2"
    | (fwd) "forward_message v c created e' refs hs targets r2 = (Inr (), r')"
    by (auto simp: seqr_Inr of_result_Inr ret_Inr split: if_splits)
  then show ?thesis
  proof cases
    case tomb
    with found show ?thesis by blast
  next
    case fwd
    have "\<not> in_FromSelf e'" using k assms(2) by simp
    from forward_message_covers [OF fwd this] have g: "grows (ro_store r2) (ro_store r')"
      and cov: "\<forall>t \<in> set targets. rt_Endpoint t = in_Endpoint e \<or> covered (ro_store r') c (rt_Endpoint t)"
      using k by simp_all
    from g found have "CanonicalForRemote (ro_store r') (in_Endpoint e) (in_RemoteID e) = Inr c"
      using found_keeps [of "ro_store r2" "ro_store r'"] by (simp add: grows_def)
    with cov show ?thesis by blast
  qed
qed

lemma handle_event_split:
  assumes "HandleEvent v turns e r = (Inr oc, r')" "in_Kind e \<noteq> ''other''" "in_Kind e \<noteq> ''edit''"
  shows "Handle v turns e r = (Inr (), r') \<and>
    PendingDeliveryForRemote (ro_store r') (in_Endpoint e) (in_RemoteID e) = Inr (\<not> oc_SafeToAdvance oc)"
proof -
  from assms obtain r1 where r1: "Handle v turns e r = (Inr (), r1)"
    and pending: "(case PendingDeliveryForRemote (ro_store r1) (in_Endpoint e) (in_RemoteID e) of
       Inl e \<Rightarrow> (Inl (terr_of e), r1)
     | Inr pending \<Rightarrow> (Inr \<lparr>oc_Accepted = True, oc_NoOp = False, oc_SafeToAdvance = (\<not> pending), oc_Pending = pending,
         oc_Ambiguous = False\<rparr>, r1)) = (Inr oc, r')"
    by (auto simp: HandleEvent_def seqr_Inr)
  show ?thesis
    by (cases "PendingDeliveryForRemote (ro_store r1) (in_Endpoint e) (in_RemoteID e)") (use r1 pending in auto)
qed

lemma not_pending:
  assumes "PendingDeliveryForRemote s ep rid = Inr False" "CanonicalForRemote s ep rid = Inr c"
    "d \<in> set (t_operations (st_tables s))" "do_CanonicalID d = c"
  shows "do_State d \<noteq> DeliveryQueued \<and> do_State d \<noteq> DeliveryRetrying \<and> do_State d \<noteq> DeliveryAwaitingReplay"
proof -
  from assms(2) obtain copy where copy: "copy \<in> set (t_copies (st_tables s))" "mc_EndpointID copy = ep"
    "mc_RemoteMessageID copy = rid" "mc_CanonicalID copy = c"
    by (auto simp: CanonicalForRemote_def op_simps key_copy_def dest!: query_row_Inr split: sum.splits)
  from assms(1) have "pending_count (st_tables s) ep rid = 0"
    by (auto simp: PendingDeliveryForRemote_def op_simps split: handle.splits)
  with assms(3,4) copy show ?thesis by (auto simp: pending_count_def filter_empty_conv)
qed

text \<open>
  C2: no accepted message is lost: when the handling of a forwardable event succeeds, its message is in the
  ledger under a canonical id, and unless that message was deleted, at every other destination of its
  route there is a copy or a recorded create operation. If the event is reported safe to advance past,
  none of these operations is still queued, retrying or awaiting replay.
\<close>

theorem accepted_message_in_ledger:
  assumes "forwardable r e" "rg_routes r (in_Endpoint e) = Some targets"
    "ro_knownCopies r (in_Endpoint e, in_RemoteID e) = None" "HandleEvent v turns e r = (Inr oc, r')"
  shows "\<exists>c. CanonicalForRemote (ro_store r') (in_Endpoint e) (in_RemoteID e) = Inr c \<and>
    (IsTombstoned (ro_store r') c = Inr True \<or>
     (\<forall>t \<in> set targets. rt_Endpoint t = in_Endpoint e \<or> covered (ro_store r') c (rt_Endpoint t))) \<and>
    (oc_SafeToAdvance oc \<longrightarrow> (\<forall>d \<in> set (t_operations (st_tables (ro_store r'))). do_CanonicalID d = c \<longrightarrow>
      do_State d \<noteq> DeliveryQueued \<and> do_State d \<noteq> DeliveryRetrying \<and> do_State d \<noteq> DeliveryAwaitingReplay))"
proof -
  have kinds: "in_Kind e \<noteq> ''other''" "in_Kind e \<noteq> ''edit''" "\<not> in_FromSelf e"
    using assms(1) by (simp_all add: forwardable_def)
  note split = handle_event_split [OF assms(4) kinds(1,2)]
  from handle_forwardable [OF assms(1,2) split [THEN conjunct1]] obtain existing where
    "handle_message v turns existing e targets r = (Inr (), r')" ..
  from handle_message_covers [OF this kinds(3) assms(3)] obtain c where
    c: "CanonicalForRemote (ro_store r') (in_Endpoint e) (in_RemoteID e) = Inr c"
    "IsTombstoned (ro_store r') c = Inr True \<or>
     (\<forall>t \<in> set targets. rt_Endpoint t = in_Endpoint e \<or> covered (ro_store r') c (rt_Endpoint t))"
    by blast
  moreover have "do_State d \<noteq> DeliveryQueued \<and> do_State d \<noteq> DeliveryRetrying \<and> do_State d \<noteq> DeliveryAwaitingReplay"
    if "oc_SafeToAdvance oc" "d \<in> set (t_operations (st_tables (ro_store r')))" "do_CanonicalID d = c" for d
    using not_pending [OF _ c(1) that(2,3)] split [THEN conjunct2] that(1) by simp
  ultimately show ?thesis by blast
qed

text \<open>A bridge of two endpoints, whose author has an alias already.\<close>

definition sample_member :: "string \<Rightarrow> EndpointRow" where
  "sample_member a = \<lparr>ep_Alias = a, ep_SyncSetID = Some ''fam''\<rparr>"

definition sample_bridge_store :: Store where
  "sample_bridge_store = \<lparr>st_handle = OpenDB, st_sequential = True,
     st_tables = empty_tables\<lparr>t_alias_order := Some ''sequential'', t_sync_sets := [''fam''],
       t_endpoints := map sample_member [''work'', ''family''],
       t_actors := [\<lparr>ar_SyncSetID = ''fam'', ar_ActorID = ''u_aaaaaaaaaa'', ar_Ordinal = 1, ar_Alias = ''Amber Badger''\<rparr>]\<rparr>\<rparr>"

definition sample_targets :: "routeTarget list" where
  "sample_targets = map (\<lambda>a. \<lparr>rt_SyncSetID = ''fam'', rt_Endpoint = a, rt_Anonymized = False\<rparr>) [''work'', ''family'']"

definition sample_router :: Router where
  "sample_router = routing.extend (sample_routing\<lparr>rg_routes := (\<lambda>a. if a = ''work'' \<or> a = ''family'' then Some sample_targets else None)\<rparr>)
     (Router.fields sample_bridge_store \<lparr>mgr = \<lparr>m_parent = False, m_capacity = 32,
        m_lanes = [(''work'', newLane 32), (''family'', newLane 32)], m_closed = False, m_policy = DefaultRetryPolicy\<rparr>, closing = []\<rparr>
        Map.empty Map.empty (\<lambda>_. []) Map.empty Map.empty (\<lambda>_. []) 0 True None [])"

definition sample_env :: env where
  "sample_env = \<lparr>ev_now = 9, ev_reply = (\<lambda>log c. Inl (new_failure FailureTransient ''no'')), ev_renders = False,
     ev_hash = id, ev_help = [], ev_save_error = None, ev_load_error = None, ev_fresh = Inr ''m7''\<rparr>"

lemma sample_routing_parts: "rg_routes sample_router ''work'' = Some sample_targets"
  "ro_knownCopies sample_router k = None" "ro_calls sample_router = []"
  by (simp_all add: sample_router_def routing.extend_def Router.fields_def)

lemma sample_forwardable: "forwardable sample_router sample_incoming"
proof -
  have "IsSuppressedLocalMessage (ro_store sample_router) ''work'' ''m1'' = Inr False"
    "is_aggregation_request sample_router sample_incoming = None"
    "MatchLocal ''hi'' (local_prefix_of sample_router ''work'') = False" "trim_space ''m1'' = ''m1''" "trim_space ''hi'' = ''hi''"
    by code_simp+
  then show ?thesis by (simp add: forwardable_def) (simp add: sample_incoming_def)
qed

lemma sample_handled:
  "case HandleEvent sample_env [(False, \<lambda>t. t)] sample_incoming sample_router of
     (Inl e, r) \<Rightarrow> False
   | (Inr oc, r) \<Rightarrow> CanonicalForRemote (ro_store r) ''work'' ''m1'' = Inr ''m7'' \<and> IsTombstoned (ro_store r) ''m7'' = Inr False"
  by code_simp

theorem accepted_message_in_ledger_witness:
  "\<exists>oc r'. HandleEvent sample_env [(False, \<lambda>t. t)] sample_incoming sample_router = (Inr oc, r') \<and>
     covered (ro_store r') ''m7'' ''family''"
proof -
  obtain oc r' where run: "HandleEvent sample_env [(False, \<lambda>t. t)] sample_incoming sample_router = (Inr oc, r')"
    "CanonicalForRemote (ro_store r') ''work'' ''m1'' = Inr ''m7''" "IsTombstoned (ro_store r') ''m7'' = Inr False"
    using sample_handled by (auto split: prod.splits sum.splits)
  have e: "in_Endpoint sample_incoming = ''work''" "in_RemoteID sample_incoming = ''m1''"
    by (simp_all add: sample_incoming_def)
  from accepted_message_in_ledger [OF sample_forwardable sample_routing_parts(1) [folded e(1)] sample_routing_parts(2) run(1)]
  have "\<forall>t \<in> set sample_targets. rt_Endpoint t = ''work'' \<or> covered (ro_store r') ''m7'' (rt_Endpoint t)"
    using run(2,3) e by auto
  then have "covered (ro_store r') ''m7'' ''family''" by (simp add: sample_targets_def)
  with run(1) show ?thesis by blast
qed

subsection \<open>Messages for the own group only\<close>

lemma suppressed_found: "IsSuppressedLocalMessage s ep rid = Inr True \<Longrightarrow> rid \<noteq> []"
proof
  assume found: "IsSuppressedLocalMessage s ep rid = Inr True" "rid = []"
  have "requireOpaque ''remote message id'' [] \<noteq> None" by code_simp
  with found show False by (simp add: IsSuppressedLocalMessage_def op_simps)
qed

lemma suppress_marks:
  assumes "suppress_local v m e r = (Inr (), r')"
  shows "IsSuppressedLocalMessage (ro_store r') (in_Endpoint e) (in_RemoteID e) = Inr True \<and>
    ro_calls r' = ro_calls r \<and> ro_lanes r' = ro_lanes r \<and>
    keeps (\<lambda>t. (t_operations t, t_copies t, t_steps t)) (ro_store r) (ro_store r')"
  using assms
  by (auto simp: suppress_local_def store_do_Inr SuppressedLocalMessage_def IsSuppressedLocalMessage_def op_simps
      keeps_def insert_new_def key_suppressed_def split: if_splits)

lemma suppressed_handle:
  assumes "IsSuppressedLocalMessage (ro_store r) (in_Endpoint e) rid = Inr True"
    "in_RemoteID e = rid \<or> in_Kind e = ''edit'' \<and> reply_id e = rid"
  shows "snd (Handle v turns e r) = r"
proof -
  have "suppressed_event e r = (Inr True, r) \<or> (\<exists>err. suppressed_event e r = (Inl err, r))"
    using assms suppressed_found [OF assms(1)]
    by (cases "IsSuppressedLocalMessage (ro_store r) (in_Endpoint e) (in_RemoteID e)")
       (auto simp: suppressed_event_def is_suppressed_def of_result_def seqr_def ret_def)
  then show ?thesis
    by (auto simp: Handle_def seqr_def ret_def split: option.split sum.split)
qed


definition sample_local :: Incoming where
  "sample_local = sample_incoming\<lparr>in_Text := ''/local hi''\<rparr>"


end
