(* ===== verification/CreateSpec.thy ===== *)
theory CreateSpec
  imports RouterSpec
begin

text \<open>
  The create job sends its message at most once: a send that was accepted, or whose fate is unknown, is recorded
  in the step of the create, and a recorded step is never sent again.
\<close>

subsection \<open>The primary step of a create\<close>

definition primary_key :: "create_job \<Rightarrow> string \<times> string \<times> int \<times> string" where
  "primary_key j = (cj_Canonical j, rt_Endpoint (cj_Target j), 1, ''primary'')"

definition primary_rows :: "create_job \<Rightarrow> tables \<Rightarrow> CreateStep list" where
  "primary_rows j t = filter (\<lambda>x. key_step x = primary_key j) (t_steps t)"

text \<open>The call that carries the message itself, and not its attribution or the results of a poll.\<close>

definition primary_call :: "create_job \<Rightarrow> provider_call \<Rightarrow> bool" where
  "primary_call j c =
     (case c of
        CallSend out \<Rightarrow> out_Endpoint out = rt_Endpoint (cj_Target j) \<and> out_OriginEndpoint out \<noteq> [] \<and>
          \<not> out_AttributionOnly out
      | _ \<Rightarrow> False)"

text \<open>The provider accepted the message, or may have.\<close>

definition maybe_sent :: "create_job \<Rightarrow> terr + MessageRef \<Rightarrow> bool" where
  "maybe_sent j answer =
     (case answer of
        Inl e \<Rightarrow> Certainty (Classify (Some e)) = SendUnknown
      | Inr ref \<Rightarrow> valid_ref (rt_Endpoint (cj_Target j)) ref)"

definition settled :: "create_job \<Rightarrow> Router \<Rightarrow> bool" where
  "settled j r \<longleftrightarrow> (\<forall>step \<in> set (primary_rows j (st_tables (ro_store r))). st_State step = ''complete'' \<or> st_State step = ''ambiguous'')"

text \<open>Nothing happened to the primary step, and no primary message was sent.\<close>

definition aside :: "create_job \<Rightarrow> Router \<Rightarrow> Router \<Rightarrow> bool" where
  "aside j r r' \<longleftrightarrow> keeps (primary_rows j) (ro_store r) (ro_store r') \<and>
     (\<exists>cs. ro_calls r' = ro_calls r @ cs \<and> list_all (\<lambda>c. \<not> primary_call j c) cs)"

lemma aside_refl [simp]: "aside j r r"
  by (simp add: aside_def)

lemma aside_trans: "aside j r r' \<Longrightarrow> aside j r' r'' \<Longrightarrow> aside j r r''"
  unfolding aside_def by (auto intro: keeps_trans)

lemma aside_settled: "aside j r r' \<Longrightarrow> settled j r' = settled j r"
  by (simp add: aside_def settled_def keeps_def)

lemma keeps_steps_rows: "keeps t_steps s s' \<Longrightarrow> keeps (primary_rows j) s s'"
  by (simp add: keeps_def primary_rows_def)

lemma aside_store: "keeps t_steps (ro_store r) s \<Longrightarrow> aside j r (r\<lparr>ro_store := s\<rparr>)"
  by (simp add: aside_def keeps_steps_rows)

lemma aside_ignore: "keeps t_steps (ro_store r) (snd (f (ro_store r))) \<Longrightarrow> aside j r (store_ignore f r)"
  by (simp add: store_ignore_def aside_store)

lemma aside_delete_op: "aside j r (store_ignore (\<lambda>s. DeleteDeliveryOperation s op) r)"
  by (rule aside_ignore) (rule steps_DeleteOp)

lemma aside_raw: "keeps t_steps (ro_store r) (snd (f (ro_store r))) \<Longrightarrow> aside j r (snd (store_raw f r))"
  by (auto simp: store_raw_def aside_store split: prod.split sum.split)

lemma aside_call: "\<not> primary_call j c \<Longrightarrow> aside j r (snd (call v c r))"
  by (simp add: aside_def call_def)

interpretation create: router_relation "aside j" "\<lambda>c. \<not> primary_call j c" for j
  by unfold_locales
     (auto simp: aside_def keeps_steps_rows steps_UpsertOp steps_SetState steps_Companion primary_call_def text_message_def
       intro: keeps_trans)

lemma steps_reaction: "keeps t_steps s (snd (RecordSuppressedReaction now s e i m u))"
  unfolding RecordSuppressedReaction_def by (intro keeps_intros) auto

lemma steps_companion_delete: "keeps t_steps s (snd (DeletePollResultCompanion s c e))"
  unfolding DeletePollResultCompanion_def by (intro keeps_intros) auto

lemma steps_awaiting: "keeps t_steps s (snd (MarkDeliveryOperationAwaitingReplay now s d u))"
  by (simp add: MarkDeliveryOperationAwaitingReplay_def steps_SetState)

lemma steps_failed: "keeps t_steps s (snd (MarkDeliveryOperationFailed now s d c u))"
  by (simp add: MarkDeliveryOperationFailed_def steps_SetState)

subsection \<open>The other jobs\<close>

lemma aside_dropped: "aside j r (snd (m r)) \<Longrightarrow> aside j r (snd (dropped m r))"
  by (auto simp: dropped_def seqr_def ret_def split: prod.split sum.split)

lemma aside_edit: "aside j r (snd (edit v ref body r))"
  by (simp add: edit_def aside_call primary_call_def)

lemma aside_react: "aside j r (snd (react v e ref i p r))"
  unfolding react_def
  by (rule create.pres_seqr) (auto simp: aside_call primary_call_def intro!: aside_raw steps_reaction)

lemma aside_execute: "aside j r (snd (mutation_execute v gone mut r))"
proof (cases mut)
  case (DeleteCompanion canonicalID endpoint remoteID)
  then show ?thesis
    by (simp only: mutation_execute_def mutation.case, intro create.pres_seqr)
       (auto simp: aside_call primary_call_def intro!: aside_raw steps_companion_delete)
qed (auto simp: mutation_execute_def aside_react intro!: aside_dropped aside_edit aside_call simp: primary_call_def)

lemma aside_clear [simp]: "aside j r (clear_edit k n r)" "aside j r (clear_result k n r)" "aside j r (clear_reaction k a n r)"
  by (simp_all add: clear_edit_def clear_result_def clear_reaction_def aside_def)

lemma aside_mutation: "aside j r (snd (mutation_attempt v cx op mut n r))"
proof (cases "mutation_current r mut")
  case False
  then show ?thesis by (simp add: mutation_attempt_def aside_delete_op)
next
  case True
  obtain b r1 where b: "store_raw (\<lambda>s. BeginDeliveryAttempt (ev_now v) s op (Some (ev_now v))) r = (b, r1)" by fastforce
  have g1: "aside j r r1"
    using aside_raw [of r "\<lambda>s. BeginDeliveryAttempt (ev_now v) s op (Some (ev_now v))" j] b steps_Begin by simp
  obtain x r2 where x: "mutation_execute v (cx 0) mut r1 = (x, r2)" by fastforce
  have g2: "aside j r1 r2" using aside_execute [of j r1 v "cx 0" mut] x by simp
  have cleared: "aside j r2 (mutation_succeeded mut (store_ignore (\<lambda>s. DeleteDeliveryOperation s op) r2))"
    by (rule aside_trans [OF aside_delete_op [where op = op]]) (cases mut; simp add: mutation_succeeded_def)
  show ?thesis
    using True b x g1 g2 cleared
    by (auto simp: mutation_attempt_def Let_def split: sum.split
        intro: aside_trans [OF g1 aside_trans [OF g2]] aside_ignore steps_failed steps_awaiting)
qed

subsection \<open>One attempt\<close>

lemma find_primary:
  assumes "FindCreateStep (ro_store r) (cj_Canonical j) (rt_Endpoint (cj_Target j)) 1 ''primary'' = Inr step"
  shows "step \<in> set (primary_rows j (st_tables (ro_store r))) \<and> key_step step = primary_key j \<and>
    st_handle (ro_store r) = OpenDB"
  using assms by (auto simp: FindCreateStep_def op_simps primary_rows_def primary_key_def dest!: query_row_Inr)

lemma keeps_complete:
  assumes "key_step step \<noteq> primary_key j"
  shows "keeps (primary_rows j) s (snd (CompleteCreateStep now s step remoteID b u))"
proof -
  have "filter (\<lambda>x. key_step x = primary_key j) (update_where (\<lambda>x. key_step x = key_step step) f rows) =
      filter (\<lambda>x. key_step x = primary_key j) rows" if "\<And>x. key_step (f x) = key_step x" for f rows
    using assms that by (induction rows) (auto simp: update_where_def)
  then show ?thesis
    by (auto simp: CompleteCreateStep_def Let_def primary_rows_def key_step_def intro!: keeps_wrapDB keeps_exec)
qed

text \<open>Completing the primary step settles it.\<close>

lemma complete_settles:
  assumes "key_step step = primary_key j" "st_handle (ro_store r) = OpenDB"
  shows "settled j (store_ignore (\<lambda>s. CompleteCreateStep now s step remoteID b u) r)"
    "\<exists>r'. store_raw (\<lambda>s. CompleteCreateStep now s step remoteID b u) r = (Inr (), r') \<and> settled j r' \<and> ro_calls r' = ro_calls r"
proof -
  let ?f = "\<lambda>s. CompleteCreateStep now s step remoteID b u"
  let ?g = "\<lambda>x. x\<lparr>st_State := if b then ''ambiguous'' else ''complete'', st_RemoteMessageID := remoteID,
    st_UpdatedAt := Some (unixMillis now u)\<rparr>"
  define s where "s = (ro_store r)\<lparr>st_tables := (st_tables (ro_store r))\<lparr>t_steps :=
    update_where (\<lambda>x. key_step x = primary_key j) ?g (t_steps (st_tables (ro_store r)))\<rparr>\<rparr>"
  have s: "?f (ro_store r) = (Inr (), s)"
    using assms by (simp add: CompleteCreateStep_def Let_def wrapDB_def exec_def s_def)
  have "key_step (?g x) = key_step x" for x by (simp add: key_step_def)
  then have rows: "\<forall>x \<in> set (primary_rows j (st_tables s)). st_State x = ''complete'' \<or> st_State x = ''ambiguous''"
    by (auto simp: primary_rows_def s_def update_where_def)
  from s rows show "settled j (store_ignore ?f r)" by (simp add: store_ignore_def settled_def)
  from s rows show "\<exists>r'. store_raw ?f r = (Inr (), r') \<and> settled j r' \<and> ro_calls r' = ro_calls r"
    by (simp add: store_raw_def settled_def)
qed

lemma aside_finish: "aside j r (snd (finishFailure v cx op n err r))"
proof -
  let ?m = "if Retryable (Classify (Some err))
       then store_raw (ctx_do (cx 21) (\<lambda>s. MarkDeliveryOperationAwaitingReplay (ev_now v) s op (Some (ev_now v)))) r
       else store_raw (ctx_do (cx 21) (\<lambda>s. MarkDeliveryOperationFailed (ev_now v) s op (Class (Classify (Some err))) (Some (ev_now v)))) r"
  have "aside j r (snd ?m)" by (auto intro!: aside_raw keeps_ctx_do steps_awaiting steps_failed)
  moreover have "snd (case ?m of (Inl e, r) \<Rightarrow> (Some e, r) | (Inr _, r) \<Rightarrow> (None, r)) = snd ?m"
    by (auto split: prod.split sum.split)
  ultimately show ?thesis
    by (auto simp: finishFailure_def Let_def intro: aside_ignore steps_awaiting)
qed

lemma companion_not_primary: "\<not> primary_call j (CallSend (companion_message v r k))"
  by (simp add: primary_call_def companion_message_def Let_def)

lemma find_companion:
  "FindCreateStep s c d 1 ''companion'' = Inr step \<Longrightarrow> key_step step \<noteq> primary_key j"
  by (auto simp: FindCreateStep_def op_simps primary_key_def dest!: query_row_Inr)

lemma aside_complete_other:
  assumes "key_step step \<noteq> primary_key j"
  shows "aside j r (store_ignore (\<lambda>s. CompleteCreateStep now s step remoteID b u) r)"
    "aside j r (snd (store_raw (ctx_do gone (\<lambda>s. CompleteCreateStep now s step remoteID b u)) r))"
  using keeps_complete [OF assms, of "ro_store r" now remoteID b u]
  by (auto simp: store_ignore_def aside_def store_raw_def ctx_do_def split: prod.split sum.split)

lemma aside_companion: "aside j r (snd (companion_step v cx k r))"
proof (cases "has_companion_step (cj_Incoming k) (cj_Media k)")
  case True
  show ?thesis
  proof (cases "ctx_get (cx 2) (FindCreateStep (ro_store r) (cj_Canonical k) (rt_Endpoint (cj_Target k)) 1 ''companion'')")
    case (Inr step)
    then have "key_step step \<noteq> primary_key j" by (auto simp: ctx_get_def find_companion split: if_splits)
    note other = aside_complete_other [OF this]
    obtain x r1 where x: "call v (CallSend (companion_message v r k)) r = (x, r1)" by fastforce
    have g: "aside j r r1" using aside_call [OF companion_not_primary, of j r v v r k] x by simp
    show ?thesis
    proof (cases x)
      case (Inl e)
      with True Inr x g show ?thesis
        by (auto simp: companion_step_def intro: aside_trans [OF g] other)
    next
      case (Inr ref)
      obtain y r2 where y: "store_raw (ctx_do (cx 3) (\<lambda>s. CompleteCreateStep (ev_now v) s step [] False (Some (ev_now v)))) r1 = (y, r2)"
        by fastforce
      have "aside j r1 r2" using other(2) [of r1 "cx 3" "ev_now v" "[]" False "Some (ev_now v)"] y by simp
      with g have "aside j r r2" by (rule aside_trans)
      with True \<open>ctx_get _ _ = _\<close> Inr x y show ?thesis by (auto simp: companion_step_def split: sum.split)
    qed
  qed (use True in \<open>simp add: companion_step_def\<close>)
qed (simp add: companion_step_def)

lemma steps_record: "aside j r (snd (record_copy v cx k ref r))"
proof (cases "ctx_get (cx 6) (IsTombstoned (ro_store r) (cj_Canonical k))")
  case (Inr t)
  show ?thesis
  proof (cases t)
    case True
    have "aside j r (snd (call v (CallDelete ref) r))" by (simp add: aside_call primary_call_def)
    from aside_trans [OF this aside_delete_op] Inr True show ?thesis
      by (simp add: record_copy_def Let_def)
  next
    case False
    let ?copy = "\<lparr>mc_CanonicalID = cj_Canonical k, mc_EndpointID = rt_Endpoint (cj_Target k),
      mc_RemoteMessageID = mr_RemoteMessageID ref, mc_CreatedAt = Some (ev_now v), mc_FromSelf = True\<rparr>"
    obtain x r1 where x: "store_raw (ctx_do (cx 7) (\<lambda>s. AddMessageCopy (ev_now v) s ?copy)) r = (x, r1)" by fastforce
    have g: "aside j r r1"
      using aside_raw [of r "ctx_do (cx 7) (\<lambda>s. AddMessageCopy (ev_now v) s ?copy)" j] x
      by (simp add: keeps_ctx_do steps_AddCopy)
    let ?ref = "\<lparr>pr_CanonicalID = cj_Canonical k, pr_EndpointID = rt_Endpoint (cj_Target k),
      pr_Provider = mr_Provider ref, pr_Reference = mr_ProviderReference ref\<rparr>"
    obtain y r2 where y: "store_raw (ctx_do (cx 8) (\<lambda>s. SavePollProviderRef s ?ref)) r1 = (y, r2)" by fastforce
    have "aside j r1 r2"
      using aside_raw [of r1 "ctx_do (cx 8) (\<lambda>s. SavePollProviderRef s ?ref)" j] y
      by (simp add: keeps_ctx_do steps_ProviderRef)
    with g have "aside j r r2" by (rule aside_trans)
    with g Inr False x y show ?thesis by (auto simp: record_copy_def Let_def split: sum.split)
  qed
qed (simp add: record_copy_def Let_def)

lemma aside_done: "aside j r (complete_create v cx k ref r)"
proof -
  let ?r1 = "r\<lparr>ro_knownCopies := (ro_knownCopies r)((rt_Endpoint (cj_Target k), mr_RemoteMessageID ref) \<mapsto> cj_Canonical k)\<rparr>"
  have 1: "aside j r ?r1" by (simp add: aside_def)
  define r2 where "r2 = (if in_Kind (cj_Incoming k) = ''poll'' \<and> \<not> cx 9
     then snd (ensurePollResultCompanion v (cj_Canonical k) (rt_Endpoint (cj_Target k)) ?r1) else ?r1)"
  have 2: "aside j ?r1 r2" by (simp add: r2_def create.ensure_companion_R)
  have 3: "aside j r2 (store_ignore (ctx_do (cx 10) (\<lambda>s. DeleteDeliveryOperation s (create_operation v k))) r2)"
    by (intro aside_ignore keeps_ctx_do steps_DeleteOp)
  show ?thesis
    unfolding complete_create_def Let_def r2_def [symmetric]
    by (rule aside_trans [OF 1 aside_trans [OF 2 aside_trans [OF 3 create.flush_R]]])
qed

text \<open>A step is sent at most once per attempt, and only if it is not settled.\<close>

lemma primary_step_cases:
  assumes "primary_step v cx j r = (x, r')"
  shows "aside j r r' \<or> \<not> settled j r \<and>
    (\<exists>c. ro_calls r' = ro_calls r @ [c] \<and> (\<not> cx 5 \<and> maybe_sent j (ev_reply v (ro_calls r) c) \<longrightarrow> settled j r'))"
proof (cases "ctx_get (cx 4) (FindCreateStep (ro_store r) (cj_Canonical j) (rt_Endpoint (cj_Target j)) 1 ''primary'')")
  case (Inl e)
  with assms show ?thesis by (simp add: primary_step_def Let_def)
next
  case (Inr step)
  then have step: "step \<in> set (primary_rows j (st_tables (ro_store r)))" "key_step step = primary_key j"
    "st_handle (ro_store r) = OpenDB"
    using find_primary [of r j step] by (auto simp: ctx_get_def split: if_splits)
  show ?thesis
  proof (cases "st_State step = ''ambiguous'' \<or> st_State step = ''complete''")
    case True
    with assms Inr show ?thesis by (auto simp: primary_step_def Let_def)
  next
    case False
    with step(1) have unsettled: "\<not> settled j r" by (auto simp: settled_def)
    let ?c = "CallSend (primary_message v r j)"
    define r1 where "r1 = r\<lparr>ro_calls := ro_calls r @ [?c]\<rparr>"
    have call: "call v ?c r = (ev_reply v (ro_calls r) ?c, r1)" by (simp add: call_def r1_def)
    have open1: "st_handle (ro_store r1) = OpenDB" using step(3) by (simp add: r1_def)
    note settles = complete_settles [OF step(2) open1]
    have "ro_calls r' = ro_calls r @ [?c] \<and> (\<not> cx 5 \<and> maybe_sent j (ev_reply v (ro_calls r) ?c) \<longrightarrow> settled j r')"
    proof (cases "ev_reply v (ro_calls r) ?c")
      case err: (Inl e)
      with assms Inr False call settles(1) [of "ev_now v" "[]" True "Some (ev_now v)"] show ?thesis
        by (auto simp: primary_step_def Let_def maybe_sent_def store_ignore_def r1_def)
    next
      case ref: (Inr ref)
      show ?thesis
      proof (cases "valid_ref (rt_Endpoint (cj_Target j)) ref")
        case False
        with assms Inr \<open>\<not> (_ \<or> _)\<close> call ref show ?thesis
          by (simp add: primary_step_def Let_def maybe_sent_def) (auto simp: r1_def)
      next
        case valid: True
        obtain y r2 where y: "store_raw (ctx_do (cx 5) (\<lambda>s. CompleteCreateStep (ev_now v) s step (mr_RemoteMessageID ref) False
            (Some (ev_now v)))) r1 = (y, r2)" by fastforce
        have r': "r' = r2"
          using assms Inr False call ref valid y by (auto simp: primary_step_def Let_def split: sum.split_asm)
        have "ro_calls r2 = ro_calls r1" using y by (auto simp: store_raw_def split: prod.splits sum.splits)
        moreover have "settled j r2" if "\<not> cx 5"
        proof -
          have "ctx_do (cx 5) f = f" for f :: "Store \<Rightarrow> unit result \<times> Store" using that by (simp add: ctx_do_def fun_eq_iff)
          then show ?thesis
            using y settles(2) [of "ev_now v" "mr_RemoteMessageID ref" False "Some (ev_now v)"] by auto
        qed
        ultimately show ?thesis by (simp add: r' r1_def)
      qed
    qed
    with unsettled show ?thesis by blast
  qed
qed

lemma create_attempt_cases:
  obtains "aside j r (snd (create_attempt v cx j n r))"
  | r1 r2 c where "aside j r r1" "\<not> settled j r1" "ro_calls r2 = ro_calls r1 @ [c]"
    "\<not> cx 5 \<and> maybe_sent j (ev_reply v (ro_calls r1) c) \<longrightarrow> settled j r2" "aside j r2 (snd (create_attempt v cx j n r))"
proof -
  let ?op = "create_operation v j"
  obtain b r1 where b: "store_raw (\<lambda>s. BeginDeliveryAttempt (ev_now v) s ?op (Some (ev_now v))) r = (b, r1)" by fastforce
  have g1: "aside j r r1"
    using aside_raw [of r "\<lambda>s. BeginDeliveryAttempt (ev_now v) s ?op (Some (ev_now v))" j] b steps_Begin by simp
  obtain y r2 where y: "companion_step v cx j r1 = (y, r2)" by fastforce
  have g2: "aside j r r2" using aside_trans [OF g1, of r2] aside_companion [of j r1 v cx j] y by simp
  obtain z r3 where z: "primary_step v cx j r2 = (z, r3)" by fastforce
  obtain w r4 where w: "record_copy v cx j (case z of Go ref \<Rightarrow> ref | _ \<Rightarrow> undefined) r3 = (w, r4)" by fastforce
  have g4: "aside j r3 r4" using steps_record [of j r3 v cx j "case z of Go ref \<Rightarrow> ref | _ \<Rightarrow> undefined"] w by simp
  have fin: "aside j a b \<Longrightarrow> aside j a (snd (finishFailure v cx ?op n err b))" for a b err
    by (rule aside_trans [OF _ aside_finish])
  have dn: "aside j a b \<Longrightarrow> aside j a (complete_create v cx j ref b)" for a b ref
    by (rule aside_trans [OF _ aside_done])
  have after: "aside j r3 (snd (case z of (Stop e) \<Rightarrow> (e, r3) | Failed e \<Rightarrow> finishFailure v cx ?op n e r3
      | Go ref \<Rightarrow> (case record_copy v cx j ref r3 of (Stop e, r) \<Rightarrow> (e, r) | (Failed e, r) \<Rightarrow> finishFailure v cx ?op n e r
          | (Go _, r) \<Rightarrow> (None, complete_create v cx j ref r))))"
    using w g4 by (cases z) (auto simp: fin dn split: outcome.split)
  let ?r' = "snd (create_attempt v cx j n r)"
  consider (early) "aside j r ?r'" | (sent) "y = Go ()" "aside j r3 ?r'"
  proof -
    have tomb: "aside j r (store_ignore (ctx_do (cx 11) (\<lambda>s. DeleteDeliveryOperation s ?op)) r)"
      by (intro aside_ignore keeps_ctx_do steps_DeleteOp)
    have "aside j r ?r' \<or> y = Go () \<and> aside j r3 ?r'"
      using tomb g1 fin [OF g1] fin [OF g2] g2 after y b z
      by (cases y) (auto simp: create_attempt_def Let_def split: sum.split bool.split option.split)
    then show thesis using that by blast
  qed
  then show thesis
  proof cases
    case early
    then show thesis by (rule that(1))
  next
    case sent
    from primary_step_cases [OF z] show thesis
      using that(1) that(2) g2 sent(2) aside_trans by metis
  qed
qed

subsection \<open>Sequences of attempts\<close>

text \<open>
  Attempts one after the other, at given times, of the create job and of mutation jobs: each with what is
  left of its context and its number.
\<close>

type_synonym turn = "int \<times> (nat \<Rightarrow> bool) \<times> nat \<times> job"

definition run_turn :: "env \<Rightarrow> Router \<Rightarrow> turn \<Rightarrow> Router" where
  "run_turn v r = (\<lambda>(now, cx, n, jb). snd (job_attempt (v\<lparr>ev_now := now\<rparr>) cx jb n r))"

text \<open>The context of a create lasts until the result of a send is recorded.\<close>

definition fair_turn :: "create_job \<Rightarrow> turn \<Rightarrow> bool" where
  "fair_turn j = (\<lambda>(now, cx, n, jb). case jb of CreateJob k \<Rightarrow> k = j \<and> \<not> cx 5 | MutationJob op mut \<Rightarrow> True)"

text \<open>A primary message among the calls from \<open>base\<close> on was accepted or may have been.\<close>

definition sent_in :: "env \<Rightarrow> create_job \<Rightarrow> nat \<Rightarrow> provider_call list \<Rightarrow> bool" where
  "sent_in v j base log \<longleftrightarrow> (\<exists>i \<in> {base..<length log}. primary_call j (log ! i) \<and> maybe_sent j (ev_reply v (take i log) (log ! i)))"

definition sent_once :: "env \<Rightarrow> create_job \<Rightarrow> nat \<Rightarrow> provider_call list \<Rightarrow> bool" where
  "sent_once v j base log \<longleftrightarrow>
     (\<forall>i \<in> {base..<length log}. primary_call j (log ! i) \<and> maybe_sent j (ev_reply v (take i log) (log ! i)) \<longrightarrow>
        (\<forall>k \<in> {i<..<length log}. \<not> primary_call j (log ! k)))"

lemma sent_in_snoc:
  assumes "base \<le> length log"
  shows "sent_in v j base (log @ [c]) \<longleftrightarrow> sent_in v j base log \<or> primary_call j c \<and> maybe_sent j (ev_reply v log c)"
proof -
  have "{base..<length (log @ [c])} = insert (length log) {base..<length log}" using assms by auto
  then show ?thesis by (auto simp: sent_in_def nth_append)
qed

lemma sent_once_snoc:
  assumes "base \<le> length log"
  shows "sent_once v j base (log @ [c]) \<longleftrightarrow> sent_once v j base log \<and> (sent_in v j base log \<longrightarrow> \<not> primary_call j c)"
proof -
  have "{base..<length (log @ [c])} = insert (length log) {base..<length log}" using assms by auto
  moreover have "{i<..<length (log @ [c])} = insert (length log) {i<..<length log}" if "i < length log" for i
    using that by auto
  ultimately show ?thesis by (auto simp: sent_once_def sent_in_def nth_append)
qed

lemma sent_quiet:
  assumes "list_all (\<lambda>c. \<not> primary_call j c) cs" "base \<le> length log"
  shows "sent_in v j base (log @ cs) = sent_in v j base log \<and> sent_once v j base (log @ cs) = sent_once v j base log"
  using assms
proof (induction cs rule: rev_induct)
  case (snoc c cs)
  have "base \<le> length (log @ cs)" using snoc.prems by simp
  from sent_in_snoc [OF this] sent_once_snoc [OF this] snoc show ?case by simp
qed simp

text \<open>The invariant of such a sequence.\<close>

definition create_inv :: "env \<Rightarrow> create_job \<Rightarrow> nat \<Rightarrow> Router \<Rightarrow> bool" where
  "create_inv v j base r \<longleftrightarrow> base \<le> length (ro_calls r) \<and> sent_once v j base (ro_calls r) \<and>
     (sent_in v j base (ro_calls r) \<longrightarrow> settled j r)"

lemma inv_aside:
  assumes "create_inv v j base r" "aside j r r'"
  shows "create_inv v j base r'"
proof -
  from assms(2) obtain cs where "ro_calls r' = ro_calls r @ cs" "list_all (\<lambda>c. \<not> primary_call j c) cs"
    by (auto simp: aside_def)
  with assms(1) aside_settled [OF assms(2)] sent_quiet [of j cs base "ro_calls r" v] show ?thesis
    by (simp add: create_inv_def)
qed

lemma inv_create:
  assumes "create_inv v j base r" "\<not> cx 5"
  shows "create_inv v j base (snd (create_attempt (v\<lparr>ev_now := now\<rparr>) cx j n r))"
proof (cases rule: create_attempt_cases [of j r "v\<lparr>ev_now := now\<rparr>" cx n])
  case 1
  with assms(1) show ?thesis by (rule inv_aside)
next
  case (2 r1 r2 c)
  from inv_aside [OF assms(1) 2(1)] have r1: "base \<le> length (ro_calls r1)" "sent_once v j base (ro_calls r1)"
    "\<not> sent_in v j base (ro_calls r1)" using 2(2) by (auto simp: create_inv_def)
  then have "create_inv v j base r2"
    using 2(3,4) assms(2) sent_in_snoc [OF r1(1), of v j c] sent_once_snoc [OF r1(1), of v j c]
    by (auto simp: create_inv_def)
  then show ?thesis using 2(5) by (rule inv_aside)
qed

lemma inv_turn: "create_inv v j base r \<Longrightarrow> fair_turn j t \<Longrightarrow> create_inv v j base (run_turn v r t)"
  by (cases t) (auto simp: run_turn_def fair_turn_def job_attempt_def inv_create aside_mutation split: job.splits intro: inv_aside)

lemma inv_turns: "create_inv v j base r \<Longrightarrow> list_all (fair_turn j) ts \<Longrightarrow> create_inv v j base (foldl (run_turn v) r ts)"
  by (induction ts arbitrary: r) (auto intro: inv_turn)


definition sample_queue :: "(Router \<times> create_job) option" where
  "sample_queue =
     (case HandleEvent sample_env [(False, \<lambda>t. t)] sample_incoming sample_router of
        (_, r) \<Rightarrow>
          (case map_of (m_lanes (mgr (ro_lanes r))) ''family'' of
             None \<Rightarrow> None
           | Some l \<Rightarrow> (case jobs l of [(p, CreateJob j)] \<Rightarrow> Some (r, j) | _ \<Rightarrow> None)))"

text \<open>The answers: the fate of the send is unknown.\<close>

definition lossy_env :: env where
  "lossy_env = sample_env\<lparr>ev_reply := (\<lambda>log c. Inl (FailurePtr FailureTransient True 0 SendUnknown (Some (Plain ''lost''))))\<rparr>"


end
