(* ===== verification/EditSpec.thy ===== *)
theory EditSpec
  imports RouterSpec
begin

text \<open>
  Edits of a message: the newest one wins, because a job looks whether it is still the pending one before
  it calls a provider.
\<close>

text \<open>Putting a mutation on a lane changes the store and the lanes only.\<close>

lemma enqueueMutation_keeps:
  "ro_pendingEdits (snd (enqueueMutation v op mut r)) = ro_pendingEdits r"
  "ro_nextRevision (snd (enqueueMutation v op mut r)) = ro_nextRevision r"
  by (auto simp: enqueueMutation_def seqr_def store_do_def store_raw_def enqueue_job_def store_ignore_def
      split: prod.split sum.split option.split)

lemma edit_at_pending:
  assumes "edit_at v incoming c t r = (Inr (), r')"
  shows "if rt_Endpoint t = in_Endpoint incoming then r' = r
    else ro_nextRevision r' = ro_nextRevision r + 1 \<and>
      (\<exists>body. ro_pendingEdits r' = (ro_pendingEdits r)((c, rt_Endpoint t) \<mapsto> \<lparr>pend_revision = ro_nextRevision r + 1, pend_text = body\<rparr>))"
proof (cases "rt_Endpoint t = in_Endpoint incoming")
  case True
  with assms show ?thesis by (simp add: edit_at_def)
next
  case False
  with assms obtain body where "bind_res (presentationForTarget r (ro_store r) incoming t)
      (\<lambda>(sender, mentions, body, quote). forwardedTextFor (ev_now v) r (ro_store r)
         (incoming\<lparr>in_Text := body, in_QuotedText := quote\<rparr>) sender) = Inr body"
    by (auto simp: edit_at_def Let_def split: sum.split_asm)
  with False assms show ?thesis
    using enqueueMutation_keeps wrap_rop_snd
    by (auto simp: edit_at_def Let_def nextMutationRevision_def set_pending_edit_def split: sum.split_asm
        dest!: arg_cong [where f = snd] intro!: exI [of _ body])
qed

text \<open>The edit that is pending at a destination is newer than a given revision.\<close>

definition newer_pending :: "int \<Rightarrow> mutationKey \<Rightarrow> Router \<Rightarrow> bool" where
  "newer_pending n key r \<longleftrightarrow> (\<exists>p. ro_pendingEdits r key = Some p \<and> n < pend_revision p)"

lemma edits_pending:
  assumes "for_each (edit_at v incoming c) ts r = (Inr (), r')" "n \<le> ro_nextRevision r"
  shows "n \<le> ro_nextRevision r' \<and> (newer_pending n key r \<longrightarrow> newer_pending n key r') \<and>
    (\<forall>t \<in> set ts. rt_Endpoint t \<noteq> in_Endpoint incoming \<longrightarrow> newer_pending n (c, rt_Endpoint t) r')"
  using assms
proof (induction ts arbitrary: r key)
  case Nil
  then show ?case by (simp add: ret_def)
next
  case (Cons t ts)
  then obtain r1 where r1: "edit_at v incoming c t r = (Inr (), r1)" and rest: "for_each (edit_at v incoming c) ts r1 = (Inr (), r')"
    by (auto simp: seqr_Inr)
  note p = edit_at_pending [OF r1]
  have n1: "n \<le> ro_nextRevision r1" using p Cons.prems(2) by (auto split: if_splits)
  note IH = Cons.IH [OF rest n1]
  have "newer_pending n k r \<longrightarrow> newer_pending n k r1" for k
    using p Cons.prems(2) by (auto simp: newer_pending_def split: if_splits)
  moreover have "rt_Endpoint t \<noteq> in_Endpoint incoming \<longrightarrow> newer_pending n (c, rt_Endpoint t) r1"
    using p Cons.prems(2) by (auto simp: newer_pending_def split: if_splits)
  ultimately show ?case using IH by auto
qed

text \<open>
  C6: the newest edit wins: once the edit of a message was handled, every job of an earlier edit of it, for any
  other endpoint of the route, finds itself superseded: it calls no provider, reports success to its
  retry loop, and what is pending is the newer text.
\<close>

theorem newer_edit_wins:
  assumes "handle_edit v incoming targets r = (Inr (), r')" "reply_id incoming \<noteq> []"
    "CanonicalForRemote (ro_store r) (in_Endpoint incoming) (reply_id incoming) = Inr c"
    "IsTombstoned (ro_store r) c = Inr False"
    "t \<in> set targets" "rt_Endpoint t \<noteq> in_Endpoint incoming" "pend_revision older \<le> ro_nextRevision r"
    "mut = EditCopy c (rt_Endpoint t) copy older \<or> mut = FlushEdit c (rt_Endpoint t) copy older"
  shows "fst (mutation_attempt v' cx op mut n r') = None \<and>
    ro_calls (snd (mutation_attempt v' cx op mut n r')) = ro_calls r' \<and>
    (\<exists>newer. ro_pendingEdits r' (c, rt_Endpoint t) = Some newer \<and> pend_revision older < pend_revision newer)"
proof -
  have "for_each (edit_at v incoming c) targets r = (Inr (), r')"
    using assms(1-4) by (simp add: handle_edit_def seqr_def of_result_def)
  from edits_pending [OF this assms(7)] assms(5,6) have newer: "newer_pending (pend_revision older) (c, rt_Endpoint t) r'" by blast
  then have "\<not> pendingEditCurrent r' (c, rt_Endpoint t) (pend_revision older)"
    by (auto simp: newer_pending_def pendingEditCurrent_def)
  with assms(8) have "\<not> mutation_current r' mut" by (auto simp: mutation_current_def)
  with newer show ?thesis by (auto simp: mutation_attempt_def store_ignore_def newer_pending_def)
qed

definition sample_edit :: Incoming where
  "sample_edit = sample_incoming\<lparr>in_Kind := ''edit'', in_RemoteID := ''m2'', in_Text := ''hello'',
     in_ReplyTo := Some (plain_ref ''work'' ''m1'' False None)\<rparr>"

text \<open>An edit of the sample message, after the message was handled.\<close>

definition sample_after :: Router where
  "sample_after = snd (HandleEvent sample_env [(False, \<lambda>t. t)] sample_incoming sample_router)"

lemma sample_edited:
  "case HandleEvent sample_env [(False, \<lambda>t. t)] sample_incoming sample_router of (_, r) \<Rightarrow>
     CanonicalForRemote (ro_store r) ''work'' ''m1'' = Inr ''m7'' \<and> IsTombstoned (ro_store r) ''m7'' = Inr False \<and>
     0 \<le> ro_nextRevision r \<and>
     (case handle_edit sample_env sample_edit sample_targets r of (Inl e, _) \<Rightarrow> False | (Inr _, _) \<Rightarrow> True)"
  by code_simp

lemma sample_after_facts:
  "CanonicalForRemote (ro_store sample_after) ''work'' ''m1'' = Inr ''m7''"
  "IsTombstoned (ro_store sample_after) ''m7'' = Inr False" "0 \<le> ro_nextRevision sample_after"
  "\<exists>r'. handle_edit sample_env sample_edit sample_targets sample_after = (Inr (), r')"
  "reply_id sample_edit = ''m1''"
  using sample_edited
  by (auto simp: sample_after_def sample_edit_def reply_id_def plain_ref_def split: prod.splits sum.splits)

theorem newer_edit_wins_witness:
  "\<exists>r'. handle_edit sample_env sample_edit sample_targets sample_after = (Inr (), r') \<and>
     fst (mutation_attempt sample_env (\<lambda>_. False) sample_operation
       (EditCopy ''m7'' ''family'' sample_copy \<lparr>pend_revision = 0, pend_text = ''old''\<rparr>) 1 r') = None"
proof -
  obtain r' where run: "handle_edit sample_env sample_edit sample_targets sample_after = (Inr (), r')"
    using sample_after_facts(4) by blast
  have e: "in_Endpoint sample_edit = ''work''" by (simp add: sample_edit_def sample_incoming_def)
  let ?t = "\<lparr>rt_SyncSetID = ''fam'', rt_Endpoint = ''family'', rt_Anonymized = False\<rparr>"
  have "?t \<in> set sample_targets" by (simp add: sample_targets_def)
  with newer_edit_wins [OF run, of "''m7''" ?t "\<lparr>pend_revision = 0, pend_text = ''old''\<rparr>"] sample_after_facts e run
  show ?thesis by simp
qed

end
