(* ===== verification/Recovery.thy ===== *)
theory Recovery
  imports RouterHandle
begin

text \<open>
  The recovery coordinator (\<^verbatim>\<open>internal/recovery/coordinator.go\<close>): which events of a stream are done, and how far its
  durable cursor may go. The lock of a stream is held for the whole of \<^verbatim>\<open>Handle\<close>, so one call is one step. The
  store is the one of the router. A map of a stream is a list of its entries; a source is named by a number.
\<close>

subsection \<open>Streams\<close>

record streamState =
  ss_loaded :: bool
  ss_cursor :: int
  ss_acked :: "(int \<times> gtime) list"
  ss_failed :: "int list"
  ss_pending :: "(int \<times> gtime) list"

record Coordinator =
  co_router :: Router
  co_streams :: "string \<rightharpoonup> streamState"
  co_sources :: "nat list"

definition new_stream :: streamState where
  "new_stream = \<lparr>ss_loaded = False, ss_cursor = 0, ss_acked = [], ss_failed = [], ss_pending = []\<rparr>"

definition NewCoordinator :: "Store option \<Rightarrow> Router option \<Rightarrow> Coordinator result" where
  "NewCoordinator syncStore canonicalRouter =
     (case (syncStore, canonicalRouter) of
        (Some s, Some r) \<Rightarrow> Inr \<lparr>co_router = r\<lparr>ro_store := s\<rparr>, co_streams = Map.empty, co_sources = []\<rparr>
      | _ \<Rightarrow> Inl (ErrMsg ''recovery store and router are required''))"

definition stream :: "Coordinator \<Rightarrow> string \<Rightarrow> streamState" where
  "stream c key = (case co_streams c key of None \<Rightarrow> new_stream | Some state \<Rightarrow> state)"

definition set_stream :: "string \<Rightarrow> streamState \<Rightarrow> Coordinator \<Rightarrow> Coordinator" where
  "set_stream key state c = c\<lparr>co_streams := (co_streams c)(key \<mapsto> state)\<rparr>"

definition entry_put :: "'k \<Rightarrow> 'v \<Rightarrow> ('k \<times> 'v) list \<Rightarrow> ('k \<times> 'v) list" where
  "entry_put k v m = (k, v) # filter (\<lambda>(k', _). k' \<noteq> k) m"

definition entry_delete :: "'k \<Rightarrow> ('k \<times> 'v) list \<Rightarrow> ('k \<times> 'v) list" where
  "entry_delete k m = filter (\<lambda>(k', _). k' \<noteq> k) m"

subsection \<open>Acknowledging an event\<close>

text \<open>An event below or at a position is open: it failed, or deliveries of it wait.\<close>

definition held :: "streamState \<Rightarrow> int \<Rightarrow> bool" where
  "held state position =
     (list_ex (\<lambda>(p, _). p \<le> position) (ss_pending state) \<or> list_ex (\<lambda>p. p \<le> position) (ss_failed state))"

definition cursor_row :: "int \<Rightarrow> string \<Rightarrow> int \<Rightarrow> gtime \<Rightarrow> RecoveryCursor" where
  "cursor_row now key position timestamp =
     \<lparr>rc_StreamKey = key, rc_Position = position, rc_EventTimestamp = timestamp, rc_UpdatedAt = Some now\<rparr>"

fun advance_loop :: "int \<Rightarrow> string \<Rightarrow> int list \<Rightarrow> streamState \<Rightarrow> Store \<Rightarrow> gerr option \<times> streamState \<times> Store" where
  "advance_loop now key [] state s = (None, state, s)"
| "advance_loop now key (position # positions) state s =
     (if held state position then (None, state, s)
      else case PutRecoveryCursor now s
          (cursor_row now key position (case map_of (ss_acked state) position of Some t \<Rightarrow> t | None \<Rightarrow> None)) of
        (Inl e, s) \<Rightarrow> (Some e, state, s)
      | (Inr _, s) \<Rightarrow>
          advance_loop now key positions
            (state\<lparr>ss_cursor := position, ss_acked := entry_delete position (ss_acked state)\<rparr>) s)"

definition advance :: "int \<Rightarrow> string \<Rightarrow> streamState \<Rightarrow> Store \<Rightarrow> gerr option \<times> streamState \<times> Store" where
  "advance now key state s =
     advance_loop now key (sort (filter (\<lambda>p. ss_cursor state < p) (map fst (ss_acked state)))) state s"

definition load_stream :: "Store \<Rightarrow> string \<Rightarrow> streamState \<Rightarrow> streamState result" where
  "load_stream s key state =
     (if ss_loaded state then Inr state
      else case FindRecoveryCursor s key of
        Inr cursor \<Rightarrow> Inr (state\<lparr>ss_cursor := rc_Position cursor, ss_loaded := True\<rparr>)
      | Inl e \<Rightarrow> if is_no_rows e then Inr (state\<lparr>ss_loaded := True\<rparr>) else Inl e)"

text \<open>What \<^verbatim>\<open>Handle\<close> keeps of an event the router has handled, before the cursor moves.\<close>

definition note_outcome :: "Checkpoint \<Rightarrow> terr + Outcome \<Rightarrow> streamState \<Rightarrow> streamState" where
  "note_outcome cp outcome state =
     (case outcome of
        Inl _ \<Rightarrow> state\<lparr>ss_failed := Position cp # removeAll (Position cp) (ss_failed state)\<rparr>
      | Inr oc \<Rightarrow>
          if \<not> oc_Accepted oc then state\<lparr>ss_failed := Position cp # removeAll (Position cp) (ss_failed state)\<rparr>
          else if oc_NoOp oc \<or> \<not> oc_SafeToAdvance oc then
            if \<not> oc_SafeToAdvance oc
            then state\<lparr>ss_pending := entry_put (Position cp) (EventTimestamp cp) (ss_pending state)\<rparr> else state
          else state\<lparr>ss_acked := entry_put (Position cp) (EventTimestamp cp) (ss_acked state),
                 ss_failed := removeAll (Position cp) (ss_failed state),
                 ss_pending := entry_delete (Position cp) (ss_pending state)\<rparr>)"

definition acknowledges :: "terr + Outcome \<Rightarrow> bool" where
  "acknowledges outcome =
     (case outcome of Inl _ \<Rightarrow> False | Inr oc \<Rightarrow> oc_Accepted oc \<and> \<not> oc_NoOp oc \<and> oc_SafeToAdvance oc)"

definition skipped_outcome :: Outcome where
  "skipped_outcome =
     \<lparr>oc_Accepted = True, oc_NoOp = True, oc_SafeToAdvance = False, oc_Pending = False, oc_Ambiguous = False\<rparr>"

text \<open>\<^verbatim>\<open>Handle\<close>, for an event of a stream whose cursor is known (\<open>track\<close>), and for every event.\<close>

definition track :: "env \<Rightarrow> alias_turn list \<Rightarrow> Incoming \<Rightarrow> streamState \<Rightarrow> Coordinator \<Rightarrow> (terr + Outcome) \<times> Coordinator" where
  "track v turns incoming state c =
     (let cp = in_Checkpoint incoming; key = StreamKey cp in
      if Position cp \<le> ss_cursor state then (Inr skipped_outcome, set_stream key state c)
      else
        let (outcome, r) = HandleEvent v turns incoming (co_router c);
            state = note_outcome cp outcome state;
            c = c\<lparr>co_router := r\<rparr>
        in if \<not> acknowledges outcome then (outcome, set_stream key state c)
           else case advance (ev_now v) key state (ro_store r) of
             (e, state, s) \<Rightarrow>
               (case e of None \<Rightarrow> outcome | Some e \<Rightarrow> Inl (terr_of e),
                set_stream key state (c\<lparr>co_router := r\<lparr>ro_store := s\<rparr>\<rparr>)))"

definition coordinator_Handle :: "env \<Rightarrow> alias_turn list \<Rightarrow> Incoming \<Rightarrow> Coordinator \<Rightarrow> (terr + Outcome) \<times> Coordinator" where
  "coordinator_Handle v turns incoming c =
     (let cp = in_Checkpoint incoming; key = StreamKey cp in
      if \<not> Valid cp \<or> key = [] then
        (let (outcome, r) = HandleEvent v turns incoming (co_router c) in (outcome, c\<lparr>co_router := r\<rparr>))
      else case load_stream (ro_store (co_router c)) key (stream c key) of
        Inl e \<Rightarrow> (Inl (terr_of e), set_stream key (stream c key) c)
      | Inr state \<Rightarrow> track v turns incoming state c)"

subsection \<open>Sources\<close>

record RecoveryRequest =
  rq_Cursor :: Checkpoint
  rq_MaxEvents :: int
  rq_MaxAge :: int

text \<open>
  A source: its streams, its policy for a stream if it has one, and what it delivers for a request, given
  the results of the events it delivered before (\<open>None\<close> when it is done), with the error it returns at the end.
  \<open>so_bound\<close> is a bound on the number of its events.
\<close>

record RecoverySource =
  so_streams :: "string list"
  so_policy :: "(string \<Rightarrow> bool \<times> int \<times> int) option"
  so_next :: "RecoveryRequest \<Rightarrow> terr option list \<Rightarrow> Incoming option"
  so_result :: "RecoveryRequest \<Rightarrow> terr option list \<Rightarrow> terr option"
  so_bound :: nat

definition DefaultMaxEvents :: int where "DefaultMaxEvents = 200"
definition DefaultMaxAge :: int where "DefaultMaxAge = 24 * 3600 * 1000000000"

fun deliver :: "env \<Rightarrow> alias_turn list \<Rightarrow> RecoverySource \<Rightarrow> RecoveryRequest \<Rightarrow> nat \<Rightarrow> terr option list \<Rightarrow> Coordinator \<Rightarrow>
    terr option \<times> Coordinator" where
  "deliver v turns src req 0 results c = (so_result src req results, c)"
| "deliver v turns src req (Suc n) results c =
     (case so_next src req results of
        None \<Rightarrow> (so_result src req results, c)
      | Some incoming \<Rightarrow>
          let (outcome, c) = coordinator_Handle v turns incoming c
          in deliver v turns src req n (results @ [err_of outcome]) c)"

definition start_cursor :: "Coordinator \<Rightarrow> string \<Rightarrow> Checkpoint" where
  "start_cursor c key =
     (case FindRecoveryCursor (ro_store (co_router c)) key of
        Inr saved \<Rightarrow> \<lparr>StreamKey = key, Position = rc_Position saved, EventTimestamp = rc_EventTimestamp saved, Valid = True\<rparr>
      | Inl _ \<Rightarrow> \<lparr>StreamKey = key, Position = 0, EventTimestamp = None, Valid = True\<rparr>)"

definition recover_stream :: "env \<Rightarrow> alias_turn list \<Rightarrow> RecoverySource \<Rightarrow> Coordinator \<Rightarrow> string \<Rightarrow> Coordinator" where
  "recover_stream v turns src c key =
     (let (enabled, maxEvents, maxAge) =
        (case so_policy src of None \<Rightarrow> (True, DefaultMaxEvents, DefaultMaxAge) | Some policy \<Rightarrow> policy key)
      in if \<not> enabled then c
         else snd (deliver v turns src \<lparr>rq_Cursor = start_cursor c key, rq_MaxEvents = maxEvents, rq_MaxAge = maxAge\<rparr>
           (so_bound src) [] c))"

text \<open>\<^verbatim>\<open>Recover\<close>, its sources one after the other (in the code they run beside each other).\<close>

definition Recover :: "env \<Rightarrow> alias_turn list \<Rightarrow> RecoverySource list \<Rightarrow> Coordinator \<Rightarrow> Coordinator" where
  "Recover v turns sources c =
     (case MarkDeliveryOperationsAwaitingReplay (ev_now v) (ro_store (co_router c)) of
        (Inl _, s) \<Rightarrow> c\<lparr>co_router := (co_router c)\<lparr>ro_store := s\<rparr>\<rparr>
      | (Inr _, s) \<Rightarrow>
          foldl (\<lambda>c src. foldl (recover_stream v turns src) c (so_streams src))
            (c\<lparr>co_router := (co_router c)\<lparr>ro_store := s\<rparr>\<rparr>) sources)"

definition RecoverStream ::
  "env \<Rightarrow> alias_turn list \<Rightarrow> RecoverySource option \<Rightarrow> string \<Rightarrow> int \<Rightarrow> int \<Rightarrow> Coordinator \<Rightarrow> terr option \<times> Coordinator" where
  "RecoverStream v turns source key maxEvents maxAge c =
     (case source of
        None \<Rightarrow> (Some (Plain ''recovery coordinator and source are required''), c)
      | Some src \<Rightarrow>
          if key = [] \<or> maxEvents \<le> 0 \<or> maxAge \<le> 0 then
            (Some (Plain ''recovery stream and positive bounds are required''), c)
          else if key \<notin> set (so_streams src) then (Some (Plain ''recovery stream is not configured''), c)
          else case FindRecoveryCursor (ro_store (co_router c)) key of
            Inl e \<Rightarrow>
              if is_no_rows e
              then deliver v turns src \<lparr>rq_Cursor = start_cursor c key, rq_MaxEvents = maxEvents, rq_MaxAge = maxAge\<rparr>
                (so_bound src) [] c
              else (Some (terr_of e), c)
          | Inr _ \<Rightarrow>
              deliver v turns src \<lparr>rq_Cursor = start_cursor c key, rq_MaxEvents = maxEvents, rq_MaxAge = maxAge\<rparr>
                (so_bound src) [] c)"

text \<open>The registry of sources: whether a new one starts to recover and to listen to its signals.\<close>

definition RegisterSource :: "nat \<Rightarrow> Coordinator \<Rightarrow> bool \<times> Coordinator" where
  "RegisterSource i c =
     (if i \<in> set (co_sources c) then (False, c) else (True, c\<lparr>co_sources := co_sources c @ [i]\<rparr>))"

definition UnregisterSource :: "nat \<Rightarrow> Coordinator \<Rightarrow> Coordinator" where
  "UnregisterSource i c = c\<lparr>co_sources := removeAll i (co_sources c)\<rparr>"

definition Start :: "nat list \<Rightarrow> Coordinator \<Rightarrow> Coordinator" where
  "Start sources c = foldl (\<lambda>c i. snd (RegisterSource i c)) c sources"

end
