(* ===== verification/RecoverySpec.thy ===== *)
theory RecoverySpec
  imports Recovery RouterSpec
begin

text \<open>
  What the recovery coordinator promises: its cursor is the low watermark of the events it saw, and it never
  passes an event that is still open.
\<close>

subsection \<open>Moving the cursor\<close>

lemma held_mono: "held state p \<Longrightarrow> p \<le> q \<Longrightarrow> held state q"
  by (fastforce simp: held_def list_ex_iff)

lemma held_update [simp]:
  "held (state\<lparr>ss_cursor := p, ss_acked := a\<rparr>) q = held state q"
  by (simp add: held_def)

text \<open>The positions that the loop acknowledges: those before the first one that is held.\<close>

lemma put_cursor_ok:
  assumes "match_stream_key key" "st_handle s = OpenDB" "0 \<le> p"
  shows "\<exists>s'. PutRecoveryCursor now s (cursor_row now' key p t) = (Inr (), s') \<and> st_handle s' = OpenDB \<and>
    (\<exists>row. FindRecoveryCursor s' key = Inr row \<and> p \<le> rc_Position row)"
proof -
  let ?row = "(cursor_row now' key p t)\<lparr>rc_UpdatedAt := Some (unixMillis now (rc_UpdatedAt (cursor_row now' key p t)))\<rparr>"
  define s' where "s' = s\<lparr>st_tables := (st_tables s)\<lparr>t_cursors := upsert rc_StreamKey later_cursor ?row (t_cursors (st_tables s))\<rparr>\<rparr>"
  have run: "PutRecoveryCursor now s (cursor_row now' key p t) = (Inr (), s')"
    using assms by (simp add: PutRecoveryCursor_def wrapDB_def exec_def cursor_row_def s'_def)
  have "\<exists>row \<in> set (t_cursors (st_tables s')). rc_StreamKey row = key"
  proof (cases "\<exists>x \<in> set (t_cursors (st_tables s)). rc_StreamKey x = key")
    case True
    then obtain x where x: "x \<in> set (t_cursors (st_tables s))" "rc_StreamKey x = key" by blast
    then have "later_cursor ?row x \<in> set (t_cursors (st_tables s'))"
      by (auto simp: s'_def upsert_def cursor_row_def update_where_def)
    moreover have "rc_StreamKey (later_cursor ?row x) = key" using x by (simp add: later_cursor_def cursor_row_def)
    ultimately show ?thesis by blast
  qed (auto simp: s'_def upsert_def cursor_row_def)
  then obtain row where row: "query_row (\<lambda>c. rc_StreamKey c = key) (t_cursors (st_tables s')) = Inr row"
    using query_row_Inl [of "\<lambda>c. rc_StreamKey c = key" "t_cursors (st_tables s')"] by (cases "query_row (\<lambda>c. rc_StreamKey c = key) (t_cursors (st_tables s'))") auto
  have "p \<le> rc_Position row"
    using query_row_Inr [OF row]
    by (auto simp: s'_def upsert_def cursor_row_def later_cursor_def update_where_def split: if_splits
        dest!: arg_cong [where f = rc_Position])
  with run row assms show ?thesis
    by (auto simp: FindRecoveryCursor_def query_def s'_def)
qed

lemma advance_loop_ok:
  assumes "match_stream_key key" "st_handle s = OpenDB" "\<forall>p \<in> set ps. 0 \<le> p"
  shows "\<exists>s'. advance_loop now key ps state s =
      (None, state\<lparr>ss_cursor := last (ss_cursor state # takeWhile (\<lambda>p. \<not> held state p) ps),
         ss_acked := filter (\<lambda>(p, _). p \<notin> set (takeWhile (\<lambda>p. \<not> held state p) ps)) (ss_acked state)\<rparr>, s') \<and>
    (takeWhile (\<lambda>p. \<not> held state p) ps \<noteq> [] \<longrightarrow>
      (\<exists>row. FindRecoveryCursor s' key = Inr row \<and> last (takeWhile (\<lambda>p. \<not> held state p) ps) \<le> rc_Position row))"
  using assms(2,3)
proof (induction ps arbitrary: state s)
  case (Cons p ps)
  show ?case
  proof (cases "held state p")
    case False
    let ?t = "case map_of (ss_acked state) p of Some t \<Rightarrow> t | None \<Rightarrow> None"
    obtain s1 where s1: "PutRecoveryCursor now s (cursor_row now key p ?t) = (Inr (), s1)" "st_handle s1 = OpenDB"
      and row1: "\<exists>row. FindRecoveryCursor s1 key = Inr row \<and> p \<le> rc_Position row"
      using put_cursor_ok [OF assms(1), of s p now now ?t] Cons.prems by auto
    let ?state = "state\<lparr>ss_cursor := p, ss_acked := entry_delete p (ss_acked state)\<rparr>"
    from Cons.IH [OF s1(2), of ?state] Cons.prems(2) obtain s' where IH:
      "advance_loop now key ps ?state s1 =
        (None, ?state\<lparr>ss_cursor := last (p # takeWhile (\<lambda>p. \<not> held state p) ps),
         ss_acked := filter (\<lambda>(q, _). q \<notin> set (takeWhile (\<lambda>p. \<not> held state p) ps)) (entry_delete p (ss_acked state))\<rparr>, s')"
      "takeWhile (\<lambda>p. \<not> held state p) ps \<noteq> [] \<longrightarrow>
        (\<exists>row. FindRecoveryCursor s' key = Inr row \<and> last (takeWhile (\<lambda>p. \<not> held state p) ps) \<le> rc_Position row)"
      by auto
    have s'_same: "s' = s1" if "takeWhile (\<lambda>p. \<not> held state p) ps = []"
      using that IH(1) by (cases ps) (auto split: if_splits)
    have "filter (\<lambda>(q, _). q \<notin> set (takeWhile (\<lambda>p. \<not> held state p) ps)) (entry_delete p (ss_acked state)) =
        filter (\<lambda>(q, _). q \<notin> set (p # takeWhile (\<lambda>p. \<not> held state p) ps)) (ss_acked state)"
      by (auto simp: entry_delete_def intro!: filter_cong)
    with False s1 IH s'_same row1 show ?thesis by (cases "takeWhile (\<lambda>p. \<not> held state p) ps = []") auto
  qed simp
qed simp

text \<open>The specification: the furthest acknowledged position below every open one.\<close>

definition low_watermark :: "streamState \<Rightarrow> int" where
  "low_watermark state =
     Max (insert (ss_cursor state) {p \<in> fst ` set (ss_acked state). ss_cursor state < p \<and> \<not> held state p})"

lemma last_sorted_Max: "sorted xs \<Longrightarrow> xs \<noteq> [] \<Longrightarrow> last xs = Max (set xs)"
proof (induction xs)
  case (Cons x xs)
  show ?case
  proof (cases "xs = []")
    case False
    then have "x \<le> Max (set xs)" using Cons.prems by (meson List.finite_set Max_in set_empty sorted_wrt.simps(2))
    with False Cons show ?thesis by (simp add: max_def)
  qed simp
qed simp

lemma takeWhile_downward:
  assumes "sorted ps" "\<And>p q. P q \<Longrightarrow> p \<le> q \<Longrightarrow> P p"
  shows "set (takeWhile P ps) = {p \<in> set ps. P p}"
  using assms(1)
proof (induction ps)
  case (Cons p ps)
  then show ?case using assms(2) by auto
qed simp

text \<open>
  C33: the cursor is a low watermark: acknowledging moves it, in memory and in the store, to the furthest
  acknowledged position that is below every failed and every pending event, and keeps everything else; the
  loop over the sorted positions refines this specification.
\<close>

theorem advance_is_low_watermark:
  assumes "match_stream_key key" "st_handle s = OpenDB" "0 \<le> ss_cursor state"
  shows "\<exists>s'. advance now key state s =
      (None, state\<lparr>ss_cursor := low_watermark state,
         ss_acked := filter (\<lambda>(p, _). \<not> (ss_cursor state < p \<and> p \<le> low_watermark state)) (ss_acked state)\<rparr>, s') \<and>
    (ss_cursor state < low_watermark state \<longrightarrow>
      (\<exists>row. FindRecoveryCursor s' key = Inr row \<and> low_watermark state \<le> rc_Position row))"
proof -
  let ?ps = "sort (filter (\<lambda>p. ss_cursor state < p) (map fst (ss_acked state)))"
  let ?tw = "takeWhile (\<lambda>p. \<not> held state p) ?ps"
  have tw: "set ?tw = {p \<in> fst ` set (ss_acked state). ss_cursor state < p \<and> \<not> held state p}"
    by (subst takeWhile_downward) (auto dest: held_mono)
  have pos: "\<forall>p \<in> set ?ps. 0 \<le> p" using assms(3) by auto
  have mark: "last (ss_cursor state # ?tw) = low_watermark state"
  proof (cases "?tw = []")
    case True
    have none: "{p \<in> fst ` set (ss_acked state). ss_cursor state < p \<and> \<not> held state p} = {}"
      unfolding tw [symmetric] True by simp
    show ?thesis unfolding low_watermark_def none True by simp
  next
    case False
    have "sorted ?tw" by (simp add: sorted_takeWhile)
    then have "last ?tw = Max (set ?tw)" using False by (rule last_sorted_Max)
    moreover have "ss_cursor state \<le> Max (set ?tw)"
      using False tw by (metis (no_types, lifting) List.finite_set Max_in mem_Collect_eq order_less_imp_le set_empty)
    moreover have "low_watermark state = max (ss_cursor state) (Max (set ?tw))"
      unfolding low_watermark_def tw [symmetric] using False by simp
    ultimately show ?thesis using False by simp
  qed
  have member: "p \<in> set ?tw \<longleftrightarrow> ss_cursor state < p \<and> p \<le> low_watermark state" if "p \<in> fst ` set (ss_acked state)" for p
  proof
    assume p: "p \<in> set ?tw"
    have "finite (insert (ss_cursor state) {p \<in> fst ` set (ss_acked state). ss_cursor state < p \<and> \<not> held state p})" by simp
    from Max_ge [OF this, of p] p show "ss_cursor state < p \<and> p \<le> low_watermark state"
      unfolding low_watermark_def tw by blast
  next
    assume p: "ss_cursor state < p \<and> p \<le> low_watermark state"
    have "low_watermark state \<in> insert (ss_cursor state) (set ?tw)"
      unfolding low_watermark_def tw by (rule Max_in) auto
    with p have "low_watermark state \<in> set ?tw" by auto
    with p that held_mono [of state p "low_watermark state"] show "p \<in> set ?tw" unfolding tw by blast
  qed
  have acked: "filter (\<lambda>(p, _). p \<notin> set ?tw) (ss_acked state) =
      filter (\<lambda>(p, _). \<not> (ss_cursor state < p \<and> p \<le> low_watermark state)) (ss_acked state)"
  proof (rule filter_cong [OF refl])
    fix x
    assume "x \<in> set (ss_acked state)"
    then have "fst x \<in> fst ` set (ss_acked state)" by simp
    from member [OF this] show "(case x of (p, _) \<Rightarrow> p \<notin> set ?tw) =
        (case x of (p, _) \<Rightarrow> \<not> (ss_cursor state < p \<and> p \<le> low_watermark state))"
      unfolding case_prod_beta by (rule arg_cong)
  qed
  obtain s' where s': "advance now key state s = (None, state\<lparr>ss_cursor := last (ss_cursor state # ?tw),
         ss_acked := filter (\<lambda>(p, _). p \<notin> set ?tw) (ss_acked state)\<rparr>, s')"
    and row: "?tw \<noteq> [] \<longrightarrow> (\<exists>row. FindRecoveryCursor s' key = Inr row \<and> last ?tw \<le> rc_Position row)"
    using advance_loop_ok [OF assms(1,2) pos, of now state] unfolding advance_def by blast
  have "\<exists>row. FindRecoveryCursor s' key = Inr row \<and> low_watermark state \<le> rc_Position row"
    if "ss_cursor state < low_watermark state"
    using row mark that by (cases "?tw = []") auto
  with s' show ?thesis unfolding mark acked by blast
qed

theorem advance_is_low_watermark_witness:
  "\<exists>s'. advance 9 ''wa'' \<lparr>ss_loaded = True, ss_cursor = 2, ss_acked = [(5, None), (3, None), (7, None)], ss_failed = [6],
      ss_pending = []\<rparr> sample_store =
    (None, \<lparr>ss_loaded = True, ss_cursor = 5, ss_acked = [(7, None)], ss_failed = [6], ss_pending = []\<rparr>, s')"
proof -
  let ?st = "\<lparr>ss_loaded = True, ss_cursor = 2, ss_acked = [(5, None), (3, None), (7, None)], ss_failed = [6], ss_pending = []\<rparr> :: streamState"
  have k: "match_stream_key ''wa''" by code_simp
  have "{p \<in> fst ` set (ss_acked ?st). ss_cursor ?st < p \<and> \<not> held ?st p} = {5, 3}" by (auto simp: held_def)
  then have "low_watermark ?st = 5" by (simp add: low_watermark_def)
  with advance_is_low_watermark [OF k, of sample_store ?st 9] show ?thesis by (auto simp: sample_store_def)
qed

subsection \<open>Open events\<close>

type_synonym event = "env \<times> alias_turn list \<times> Incoming"

definition step_event :: "Coordinator \<Rightarrow> event \<Rightarrow> Coordinator" where
  "step_event c = (\<lambda>(v, turns, incoming). snd (coordinator_Handle v turns incoming c))"

definition event_at :: "event \<Rightarrow> string \<Rightarrow> int \<Rightarrow> bool" where
  "event_at = (\<lambda>(v, turns, incoming) key p. Valid (in_Checkpoint incoming) \<and> StreamKey (in_Checkpoint incoming) = key \<and>
     key \<noteq> [] \<and> Position (in_Checkpoint incoming) = p)"

text \<open>What the router says of an event that is beyond the cursor of its stream.\<close>

definition routed :: "Coordinator \<Rightarrow> event \<Rightarrow> (terr + Outcome) option" where
  "routed c = (\<lambda>(v, turns, incoming).
     let cp = in_Checkpoint incoming in
     case load_stream (ro_store (co_router c)) (StreamKey cp) (stream c (StreamKey cp)) of
       Inl _ \<Rightarrow> None
     | Inr state \<Rightarrow> if Position cp \<le> ss_cursor state then None else Some (fst (HandleEvent v turns incoming (co_router c))))"

text \<open>The event failed, or its deliveries wait; the event is done.\<close>

definition opens :: "Coordinator \<Rightarrow> event \<Rightarrow> bool" where
  "opens c x \<longleftrightarrow> (case routed c x of None \<Rightarrow> False | Some (Inl _) \<Rightarrow> True | Some (Inr oc) \<Rightarrow> \<not> oc_SafeToAdvance oc)"

definition closes :: "Coordinator \<Rightarrow> event \<Rightarrow> bool" where
  "closes c x \<longleftrightarrow> (case routed c x of None \<Rightarrow> False | Some outcome \<Rightarrow> acknowledges outcome)"

definition open_at :: "string \<Rightarrow> int \<Rightarrow> Coordinator \<Rightarrow> bool" where
  "open_at key p c \<longleftrightarrow> (\<exists>state. co_streams c key = Some state \<and> ss_loaded state \<and> ss_cursor state < p \<and>
     (p \<in> set (ss_failed state) \<or> p \<in> fst ` set (ss_pending state)))"

lemma advance_loop_keeps:
  assumes "advance_loop now key ps state s = (e, state', s')"
  shows "ss_failed state' = ss_failed state \<and> ss_pending state' = ss_pending state \<and> ss_loaded state' = ss_loaded state \<and>
    (ss_cursor state' = ss_cursor state \<or> \<not> held state (ss_cursor state'))"
  using assms
proof (induction ps arbitrary: state s)
  case (Cons p ps)
  show ?case
  proof (cases "held state p")
    case True
    with Cons.prems show ?thesis by simp
  next
    case False
    let ?t = "case map_of (ss_acked state) p of Some t \<Rightarrow> t | None \<Rightarrow> None"
    obtain x s1 where x: "PutRecoveryCursor now s (cursor_row now key p ?t) = (x, s1)" by fastforce
    show ?thesis
    proof (cases x)
      case (Inl err)
      with Cons.prems False x show ?thesis by auto
    next
      case (Inr u)
      let ?state = "state\<lparr>ss_cursor := p, ss_acked := entry_delete p (ss_acked state)\<rparr>"
      from Cons.prems False x Inr have "advance_loop now key ps ?state s1 = (e, state', s')" by simp
      from Cons.IH [OF this] False show ?thesis by auto
    qed
  qed
qed auto

lemma open_advance:
  assumes "advance now key state s = (e, state', s')" "ss_cursor state < p"
    "p \<in> set (ss_failed state) \<or> p \<in> fst ` set (ss_pending state)"
  shows "ss_cursor state' < p \<and> (p \<in> set (ss_failed state') \<or> p \<in> fst ` set (ss_pending state')) \<and> ss_loaded state' = ss_loaded state"
proof -
  note k = advance_loop_keeps [OF assms(1) [unfolded advance_def]]
  have "held state q" if "p \<le> q" for q
    using assms(3) that unfolding held_def list_ex_iff by fastforce
  with k assms(2) have "ss_cursor state' < p" by (metis not_le)
  with k assms(3) show ?thesis by simp
qed

lemma load_keeps:
  "load_stream s key state = Inr state' \<Longrightarrow> ss_loaded state' \<and> (ss_loaded state \<longrightarrow> state' = state)"
  by (auto simp: load_stream_def split: if_splits sum.splits)

lemma note_keeps:
  assumes "p \<in> set (ss_failed state) \<or> p \<in> fst ` set (ss_pending state)" "\<not> (acknowledges outcome \<and> Position cp = p)"
  shows "(p \<in> set (ss_failed (note_outcome cp outcome state)) \<or> p \<in> fst ` set (ss_pending (note_outcome cp outcome state)))"
  using assms by (cases outcome) (force simp: note_outcome_def acknowledges_def entry_put_def entry_delete_def)+

lemma note_loaded [simp]: "ss_loaded (note_outcome cp outcome state) = ss_loaded state"
  "ss_cursor (note_outcome cp outcome state) = ss_cursor state"
  by (simp_all add: note_outcome_def split: sum.split)

lemma track_keeps:
  assumes "ss_loaded state" "ss_cursor state < p" "StreamKey (in_Checkpoint incoming) = key"
    "let outcome = fst (HandleEvent v turns incoming (co_router c));
         state' = (if Position (in_Checkpoint incoming) \<le> ss_cursor state then state
                   else note_outcome (in_Checkpoint incoming) outcome state)
     in p \<in> set (ss_failed state') \<or> p \<in> fst ` set (ss_pending state')"
  shows "open_at key p (snd (track v turns incoming state c))"
proof (cases "Position (in_Checkpoint incoming) \<le> ss_cursor state")
  case True
  with assms show ?thesis by (simp add: track_def Let_def open_at_def set_stream_def)
next
  case False
  obtain outcome r where h: "HandleEvent v turns incoming (co_router c) = (outcome, r)" by fastforce
  let ?state = "note_outcome (in_Checkpoint incoming) outcome state"
  from assms(4) False h have p: "p \<in> set (ss_failed ?state) \<or> p \<in> fst ` set (ss_pending ?state)" by (simp add: Let_def)
  show ?thesis
  proof (cases "acknowledges outcome")
    case False
    with \<open>\<not> _ \<le> _\<close> h p assms(1-3) show ?thesis by (simp add: track_def Let_def open_at_def set_stream_def)
  next
    case True
    obtain e state' s' where a: "advance (ev_now v) key ?state (ro_store r) = (e, state', s')" by (metis prod_cases3)
    from open_advance [OF a _ p] assms(1,2) have "ss_cursor state' < p \<and>
      (p \<in> set (ss_failed state') \<or> p \<in> fst ` set (ss_pending state')) \<and> ss_loaded state'" by simp
    with True False h a assms(3) show ?thesis by (simp add: track_def Let_def open_at_def set_stream_def)
  qed
qed

lemma opened:
  assumes "event_at x key p" "opens c x"
  shows "open_at key p (step_event c x)"
proof -
  obtain v turns incoming where x: "x = (v, turns, incoming)" by (cases x)
  from assms x have at: "Valid (in_Checkpoint incoming)" "StreamKey (in_Checkpoint incoming) = key" "key \<noteq> []"
    "Position (in_Checkpoint incoming) = p" by (simp_all add: event_at_def)
  from assms(2) x at obtain state where load: "load_stream (ro_store (co_router c)) key (stream c key) = Inr state"
    and beyond: "\<not> p \<le> ss_cursor state"
    and open': "case fst (HandleEvent v turns incoming (co_router c)) of Inl _ \<Rightarrow> True | Inr oc \<Rightarrow> \<not> oc_SafeToAdvance oc"
    by (auto simp: opens_def routed_def Let_def split: sum.splits if_splits)
  have "open_at key p (snd (track v turns incoming state c))"
  proof (rule track_keeps)
    show "ss_loaded state" using load_keeps [OF load] by simp
    show "ss_cursor state < p" using beyond by simp
    show "StreamKey (in_Checkpoint incoming) = key" by (fact at)
    show "let outcome = fst (HandleEvent v turns incoming (co_router c));
         state' = (if Position (in_Checkpoint incoming) \<le> ss_cursor state then state
                   else note_outcome (in_Checkpoint incoming) outcome state)
     in p \<in> set (ss_failed state') \<or> p \<in> fst ` set (ss_pending state')"
      using beyond at(4) open'
      by (auto simp: Let_def note_outcome_def entry_put_def split: sum.splits)
  qed
  then show ?thesis using at load by (simp add: x step_event_def coordinator_Handle_def Let_def)
qed

lemma stays_open:
  assumes "open_at key p c" "\<not> (event_at x key p \<and> closes c x)"
  shows "open_at key p (step_event c x)"
proof -
  obtain v turns incoming where x: "x = (v, turns, incoming)" by (cases x)
  let ?cp = "in_Checkpoint incoming"
  from assms(1) obtain state where st: "co_streams c key = Some state" "ss_loaded state" "ss_cursor state < p"
    "p \<in> set (ss_failed state) \<or> p \<in> fst ` set (ss_pending state)" by (auto simp: open_at_def)
  show ?thesis
  proof (cases "Valid ?cp \<and> StreamKey ?cp \<noteq> []")
    case False
    with assms(1) show ?thesis
      by (auto simp: x step_event_def coordinator_Handle_def Let_def open_at_def split: prod.split)
  next
    case ours: True
    show ?thesis
    proof (cases "StreamKey ?cp = key")
      case True
      have load: "load_stream (ro_store (co_router c)) key (stream c key) = Inr state"
        using st by (simp add: load_stream_def stream_def)
      have "open_at key p (snd (track v turns incoming state c))"
      proof (rule track_keeps [OF st(2,3) True])
        show "let outcome = fst (HandleEvent v turns incoming (co_router c));
          state' = (if Position ?cp \<le> ss_cursor state then state else note_outcome ?cp outcome state)
          in p \<in> set (ss_failed state') \<or> p \<in> fst ` set (ss_pending state')"
        proof (cases "Position ?cp \<le> ss_cursor state")
          case False
          then have "\<not> (acknowledges (fst (HandleEvent v turns incoming (co_router c))) \<and> Position ?cp = p)"
            using assms(2) load ours True by (auto simp: x event_at_def closes_def routed_def Let_def)
          from note_keeps [OF st(4) this] False show ?thesis by (simp add: Let_def)
        qed (simp add: st(4))
      qed
      then show ?thesis using ours True load by (simp add: x step_event_def coordinator_Handle_def Let_def)
    next
      case False
      have "co_streams (snd (coordinator_Handle v turns incoming c)) key = co_streams c key"
        using False ours
        by (auto simp: coordinator_Handle_def track_def Let_def set_stream_def split: sum.split prod.split option.split)
      with st show ?thesis by (simp add: x step_event_def open_at_def)
    qed
  qed
qed

text \<open>
  C4: recovery loses nothing: if an event beyond the cursor of its stream failed, or its deliveries still
  waited, then the cursor passes its position only after an event of that position was handled
  successfully with nothing left to deliver, whatever events of whatever streams come in between.
\<close>

theorem cursor_never_skips:
  assumes "event_at x key p" "opens (foldl step_event c pre) x"
    "p \<le> ss_cursor (stream (foldl step_event c (pre @ x # post)) key)"
  shows "\<exists>mid y rest. post = mid @ y # rest \<and> event_at y key p \<and> closes (foldl step_event c (pre @ x # mid)) y"
proof (rule ccontr)
  assume none: "\<nexists>mid y rest. post = mid @ y # rest \<and> event_at y key p \<and> closes (foldl step_event c (pre @ x # mid)) y"
  have "open_at key p (foldl step_event c (pre @ x # mid))" if "post = mid @ rest" for mid rest
    using that
  proof (induction mid arbitrary: rest rule: rev_induct)
    case Nil
    show ?case using opened [OF assms(1,2)] by simp
  next
    case (snoc y mid)
    have "open_at key p (foldl step_event c (pre @ x # mid))" using snoc by simp
    moreover have "\<not> (event_at y key p \<and> closes (foldl step_event c (pre @ x # mid)) y)"
      using none snoc.prems by (metis append.assoc append_Cons append_Nil)
    ultimately have "open_at key p (step_event (foldl step_event c (pre @ x # mid)) y)" by (rule stays_open)
    then show ?case by simp
  qed
  from this [of post "[]"] assms(3) show False by (auto simp: open_at_def stream_def)
qed

text \<open>A coordinator that has read its cursor, and an event whose first delivery has no id.\<close>

definition sample_coordinator :: Coordinator where
  "sample_coordinator = \<lparr>co_router = sample_router, co_streams = Map.empty, co_sources = []\<rparr>"

definition sample_checkpoint :: Checkpoint where
  "sample_checkpoint = \<lparr>StreamKey = ''wa'', Position = 3, EventTimestamp = None, Valid = True\<rparr>"

definition sample_good :: Incoming where
  "sample_good = sample_incoming\<lparr>in_Kind := ''delete'', in_RemoteID := ''m9'', in_Checkpoint := sample_checkpoint\<rparr>"

definition sample_bad :: Incoming where
  "sample_bad = sample_incoming\<lparr>in_Kind := ''delete'', in_RemoteID := [], in_Checkpoint := sample_checkpoint\<rparr>"

lemma sample_recovery1: "opens sample_coordinator (sample_env, [], sample_bad)"
  by code_simp

lemma track_stream:
  "co_router c = co_router c' \<Longrightarrow> stream (snd (track v turns incoming state c)) (StreamKey (in_Checkpoint incoming)) =
     stream (snd (track v turns incoming state c')) (StreamKey (in_Checkpoint incoming))"
  by (auto simp: track_def Let_def stream_def set_stream_def split: prod.split)

text \<open>After the first delivery its position is kept as failed; the second one closes it.\<close>

definition sample_failed :: streamState where
  "sample_failed = \<lparr>ss_loaded = True, ss_cursor = 0, ss_acked = [], ss_failed = [3], ss_pending = []\<rparr>"

lemma sample_recovery2:
  "case track sample_env [] sample_good sample_failed sample_coordinator of
     (_, c) \<Rightarrow> 3 \<le> ss_cursor (stream c ''wa'')"
  by code_simp

lemma sample_checkpoints:
  "in_Checkpoint sample_good = sample_checkpoint" "in_Checkpoint sample_bad = sample_checkpoint"
  "StreamKey sample_checkpoint = ''wa''" "Position sample_checkpoint = 3" "Valid sample_checkpoint"
  by (simp_all add: sample_good_def sample_bad_def sample_checkpoint_def)

lemma sample_first: "step_event sample_coordinator (sample_env, [], sample_bad) = set_stream ''wa'' sample_failed sample_coordinator"
proof -
  have load: "load_stream sample_bridge_store ''wa'' new_stream = Inr (new_stream\<lparr>ss_loaded := True\<rparr>)" by code_simp
  have c: "co_router sample_coordinator = sample_router" "ro_store sample_router = sample_bridge_store"
    "stream sample_coordinator ''wa'' = new_stream"
    by (simp_all add: sample_coordinator_def stream_def sample_router_def routing.extend_def Router.fields_def)
  have h: "HandleEvent sample_env [] sample_bad sample_router =
      (Inl (Plain ''incoming remote message id is required''), sample_router)"
  proof -
    have "trim_space [] = []" by code_simp
    then have "Handle sample_env [] sample_bad sample_router =
        (Inl (Plain ''incoming remote message id is required''), sample_router)"
      by (simp add: Handle_def sample_bad_def sample_incoming_def sample_routing_parts)
    then show ?thesis by (simp add: HandleEvent_def seqr_def)
  qed
  have kept: "note_outcome sample_checkpoint (Inl (Plain m)) (new_stream\<lparr>ss_loaded := True\<rparr>) = sample_failed" for m
    by (simp add: note_outcome_def sample_failed_def new_stream_def sample_checkpoint_def)
  have "coordinator_Handle sample_env [] sample_bad sample_coordinator =
      track sample_env [] sample_bad (new_stream\<lparr>ss_loaded := True\<rparr>) sample_coordinator"
    by (simp add: coordinator_Handle_def Let_def sample_checkpoints c load)
  also have "snd \<dots> = set_stream ''wa'' sample_failed (sample_coordinator\<lparr>co_router := sample_router\<rparr>)"
    by (simp add: track_def Let_def sample_checkpoints c h kept acknowledges_def) (simp add: new_stream_def)
  also have "sample_coordinator\<lparr>co_router := sample_router\<rparr> = sample_coordinator" by (simp add: sample_coordinator_def)
  finally show ?thesis by (simp add: step_event_def)
qed

lemma sample_second: "3 \<le> ss_cursor (stream (step_event (step_event sample_coordinator (sample_env, [], sample_bad)) (sample_env, [], sample_good)) ''wa'')"
proof -
  let ?c = "set_stream ''wa'' sample_failed sample_coordinator"
  have h: "coordinator_Handle sample_env [] sample_good ?c = track sample_env [] sample_good sample_failed ?c"
    by (simp add: coordinator_Handle_def Let_def sample_checkpoints load_stream_def stream_def set_stream_def sample_failed_def)
  have "stream (snd (track sample_env [] sample_good sample_failed ?c)) (StreamKey (in_Checkpoint sample_good)) =
      stream (snd (track sample_env [] sample_good sample_failed sample_coordinator)) (StreamKey (in_Checkpoint sample_good))"
    by (rule track_stream) (simp add: set_stream_def)
  with sample_recovery2 show ?thesis
    unfolding sample_first unfolding step_event_def prod.case h sample_checkpoints by (simp add: case_prod_beta)
qed

theorem cursor_never_skips_witness:
  "closes (step_event sample_coordinator (sample_env, [], sample_bad)) (sample_env, [], sample_good)"
proof -
  let ?x = "(sample_env, [], sample_bad) :: event" and ?y = "(sample_env, [], sample_good) :: event"
  have at: "event_at ?x ''wa'' 3" by (simp add: event_at_def sample_checkpoints)
  have op: "opens (foldl step_event sample_coordinator []) ?x" unfolding foldl.simps by (rule sample_recovery1)
  have cur: "3 \<le> ss_cursor (stream (foldl step_event sample_coordinator ([] @ ?x # [?y])) ''wa'')"
    unfolding append_Nil foldl.simps by (rule sample_second)
  obtain mid y rest where y: "[?y] = mid @ y # rest" "closes (foldl step_event sample_coordinator ([] @ ?x # mid)) y"
    using cursor_never_skips [OF at op cur] by (elim exE conjE)
  from y(1) have "mid = []" "y = ?y" by (simp_all only: Cons_eq_append_conv list.inject, blast+)
  with y(2) show ?thesis by (simp only: append_Nil foldl.simps)
qed

end
