(* ===== verification/Sanitize.thy ===== *)
theory Sanitize
  imports Identity
begin

text \<open>
  The cleaning of private messages (\<^verbatim>\<open>sanitize\<close> of \<^verbatim>\<open>internal/privatedm/relay.go\<close>). Every regular expression is a
  deterministic matcher: at a position it returns the length of the match, and the text that replaces it. A
  matcher also sees the character before the position, for \<^verbatim>\<open>\b\<close>.
\<close>

subsection \<open>Replacing matches\<close>

type_synonym matcher = "char option \<Rightarrow> string \<Rightarrow> (nat \<times> string) option"

text \<open>\<^verbatim>\<open>ReplaceAllString\<close> for expressions that match no empty string: the leftmost matches, one after the other.\<close>

function replace_matches :: "matcher \<Rightarrow> char option \<Rightarrow> string \<Rightarrow> string" where
  "replace_matches m prev s =
     (case s of
        [] \<Rightarrow> []
      | c # cs \<Rightarrow>
          (case m prev s of
             None \<Rightarrow> c # replace_matches m (Some c) cs
           | Some (n, r) \<Rightarrow>
               if n = 0 then c # replace_matches m (Some c) cs
               else r @ replace_matches m (Some (s ! (min n (length s) - 1))) (drop n s)))"
  by pat_completeness auto
termination
  by (relation "measure (\<lambda>(m, prev, s). length s)") auto

declare replace_matches.simps [simp del]

definition ReplaceAll :: "matcher \<Rightarrow> string \<Rightarrow> string" where
  "ReplaceAll m s = replace_matches m None s"

subsection \<open>Characters and literals\<close>

definition is_word :: "char \<Rightarrow> bool" where
  "is_word c = (is_alpha c \<or> is_digit c \<or> c = CHR ''_'')"

text \<open>\<^verbatim>\<open>\s\<close> is a blank of ASCII.\<close>

definition re_space :: "char \<Rightarrow> bool" where
  "re_space c = (c = CHR 0x09 \<or> c = CHR 0x0A \<or> c = CHR 0x0C \<or> c = CHR 0x0D \<or> c = CHR 0x20)"

text \<open>
  A literal without regard to case: in Unicode \<^verbatim>\<open>s\<close> folds to U+017F as well and \<^verbatim>\<open>k\<close> to U+212A. The result is
  what follows the literal.
\<close>

fun skip_ci :: "string \<Rightarrow> string \<Rightarrow> string option" where
  "skip_ci [] s = Some s"
| "skip_ci (p # ps) s =
     (if p = CHR ''s'' \<and> has_prefix s [CHR 0xC5, CHR 0xBF] then skip_ci ps (drop 2 s)
      else if p = CHR ''k'' \<and> has_prefix s [CHR 0xE2, CHR 0x84, CHR 0xAA] then skip_ci ps (drop 3 s)
      else case s of [] \<Rightarrow> None | c # cs \<Rightarrow> if lower c = p then skip_ci ps cs else None)"

definition skip_some :: "string list \<Rightarrow> string \<Rightarrow> string option" where
  "skip_some lits s =
     (case filter (\<lambda>l. skip_ci l s \<noteq> None) lits of [] \<Rightarrow> None | l # _ \<Rightarrow> skip_ci l s)"

definition at_boundary :: "string \<Rightarrow> bool" where
  "at_boundary rest = (case rest of [] \<Rightarrow> True | c # _ \<Rightarrow> \<not> is_word c)"

subsection \<open>The expressions\<close>

text \<open>\<^verbatim>\<open>(?i)\b[0-9]+@(lid|s\.whatsapp\.net|hosted\.lid)\b\<close>\<close>

definition match_address :: matcher where
  "match_address prev s =
     (let digits = takeWhile is_digit s; rest = dropWhile is_digit s in
      if digits = [] \<or> (case prev of None \<Rightarrow> False | Some c \<Rightarrow> is_word c) then None
      else case rest of
        [] \<Rightarrow> None
      | c # host \<Rightarrow>
          if c \<noteq> CHR 0x40 then None
          else case filter (\<lambda>l. case skip_ci l host of None \<Rightarrow> False | Some r \<Rightarrow> at_boundary r)
              [''lid'', ''s.whatsapp.net'', ''hosted.lid''] of
            [] \<Rightarrow> None
          | l # _ \<Rightarrow> Some (length s - length (the (skip_ci l host)), ''[identity]''))"

text \<open>
  \<^verbatim>\<open>(?i)(?:https?://(?:wa\.me/|(?:api\.)?whatsapp\.com/send[^\s]*|t\.me/|discord(?:app)?\.com/users/)[^\s]*|tg://user[^\s]*)\<close>
\<close>

definition web_hosts :: "string list" where
  "web_hosts = [''wa.me/'', ''api.whatsapp.com/send'', ''whatsapp.com/send'', ''t.me/'', ''discordapp.com/users/'',
     ''discord.com/users/'']"

definition match_link :: matcher where
  "match_link prev s =
     (let web = (case skip_some [''https://'', ''http://''] s of None \<Rightarrow> None | Some rest \<Rightarrow> skip_some web_hosts rest);
          found = (case web of Some rest \<Rightarrow> Some rest | None \<Rightarrow> skip_ci ''tg://user'' s)
      in case found of
           None \<Rightarrow> None
         | Some rest \<Rightarrow> Some (length s - length (dropWhile (\<lambda>c. \<not> re_space c) rest), ''[identity link]''))"

text \<open>A run of characters of a class, closed by a character.\<close>

definition closed_run :: "(char \<Rightarrow> bool) \<Rightarrow> char \<Rightarrow> string \<Rightarrow> (string \<times> string) option" where
  "closed_run P close s =
     (case dropWhile P s of
        [] \<Rightarrow> None
      | c # rest \<Rightarrow> if c = close then Some (takeWhile P s, rest) else None)"

text \<open>A participant reference, \<^verbatim>\<open>@\{[^{}]*\}\<close>.\<close>

definition match_reference :: matcher where
  "match_reference prev s =
     (if has_prefix s tok_open then
        (case closed_run (\<lambda>c. c \<noteq> CHR 0x7B \<and> c \<noteq> CHR 0x7D) tok_close (drop 2 s) of
           None \<Rightarrow> None
         | Some (body, rest) \<Rightarrow> Some (length s - length rest, ''[participant reference]''))
      else None)"

text \<open>\<^verbatim>\<open><[@#][^>]*>|@[A-Za-z0-9_+.-]+\<close>\<close>

definition mention_char :: "char \<Rightarrow> bool" where
  "mention_char c = (is_word c \<or> c = CHR ''+'' \<or> c = CHR ''.'' \<or> c = CHR ''-'')"

definition match_mention :: matcher where
  "match_mention prev s =
     (case s of
        c # d # rest \<Rightarrow>
          if c = CHR ''<'' \<and> (d = CHR 0x40 \<or> d = CHR ''#'') then
            (case closed_run (\<lambda>x. x \<noteq> CHR ''>'') (CHR ''>'') rest of
               None \<Rightarrow> None
             | Some (body, rest') \<Rightarrow> Some (length s - length rest', ''[mention]''))
          else if c = CHR 0x40 \<and> mention_char d then
            Some (1 + length (takeWhile mention_char (d # rest)), ''[mention]'')
          else None
      | _ \<Rightarrow> None)"

text \<open>\<^verbatim>\<open>!?\[([^\]]*)\]\([^)]*\)\<close>, replaced by its label.\<close>

definition match_bracket :: "string \<Rightarrow> (string \<times> string) option" where
  "match_bracket s =
     (case s of
        [] \<Rightarrow> None
      | c # rest \<Rightarrow>
          if c \<noteq> CHR ''['' then None
          else case closed_run (\<lambda>x. x \<noteq> CHR '']'') (CHR '']'') rest of
            Some (label, d # rest') \<Rightarrow>
              if d \<noteq> CHR ''('' then None
              else (case closed_run (\<lambda>x. x \<noteq> CHR '')'') (CHR '')'') rest' of
                      None \<Rightarrow> None | Some (target, end) \<Rightarrow> Some (label, end))
          | _ \<Rightarrow> None)"

definition match_markdown :: matcher where
  "match_markdown prev s =
     (case (case s of c # rest \<Rightarrow> if c = CHR ''!'' then match_bracket rest else match_bracket s | [] \<Rightarrow> None) of
        None \<Rightarrow> None
      | Some (label, rest) \<Rightarrow> Some (length s - length rest, label))"

subsection \<open>Runes\<close>

text \<open>
  \<^verbatim>\<open>utf8.DecodeRune\<close>: the code point and the length of the first rune; an invalid byte is the replacement
  character U+FFFD of length 1.
\<close>

definition cont :: "char \<Rightarrow> bool" where
  "cont c = (0x80 \<le> byte c \<and> byte c \<le> 0xBF)"

definition lead3 :: "nat \<Rightarrow> nat \<Rightarrow> bool" where
  "lead3 b0 b1 = (if b0 = 0xE0 then 0xA0 \<le> b1 \<and> b1 \<le> 0xBF
     else if b0 = 0xED then 0x80 \<le> b1 \<and> b1 \<le> 0x9F else 0x80 \<le> b1 \<and> b1 \<le> 0xBF)"

definition lead4 :: "nat \<Rightarrow> nat \<Rightarrow> bool" where
  "lead4 b0 b1 = (if b0 = 0xF0 then 0x90 \<le> b1 \<and> b1 \<le> 0xBF
     else if b0 = 0xF4 then 0x80 \<le> b1 \<and> b1 \<le> 0x8F else 0x80 \<le> b1 \<and> b1 \<le> 0xBF)"

fun decode_rune :: "string \<Rightarrow> (nat \<times> nat) option" where
  "decode_rune [] = None"
| "decode_rune (a # s) =
     (if byte a < 0x80 then Some (byte a, 1)
      else if 0xC2 \<le> byte a \<and> byte a \<le> 0xDF then
        (case s of b # _ \<Rightarrow> if cont b then Some ((byte a - 0xC0) * 64 + (byte b - 0x80), 2) else None | _ \<Rightarrow> None)
      else if 0xE0 \<le> byte a \<and> byte a \<le> 0xEF then
        (case s of b # c # _ \<Rightarrow>
             if lead3 (byte a) (byte b) \<and> cont c
             then Some ((byte a - 0xE0) * 4096 + (byte b - 0x80) * 64 + (byte c - 0x80), 3) else None
         | _ \<Rightarrow> None)
      else if 0xF0 \<le> byte a \<and> byte a \<le> 0xF4 then
        (case s of b # c # d # _ \<Rightarrow>
             if lead4 (byte a) (byte b) \<and> cont c \<and> cont d
             then Some ((byte a - 0xF0) * 262144 + (byte b - 0x80) * 4096 + (byte c - 0x80) * 64 + (byte d - 0x80), 4)
             else None
         | _ \<Rightarrow> None)
      else None)"

declare decode_rune.simps [simp del]

definition rune_size :: "string \<Rightarrow> nat" where
  "rune_size s = (case decode_rune s of None \<Rightarrow> 1 | Some (r, n) \<Rightarrow> n)"

lemma decode_rune_pos: "decode_rune s = Some (r, n) \<Longrightarrow> 0 < n"
  by (cases s) (auto simp: decode_rune.simps split: if_splits list.splits)

lemma rune_size_pos [simp, intro]: "0 < rune_size s"
  by (auto simp: rune_size_def dest: decode_rune_pos split: option.split)

text \<open>The runes that \<^verbatim>\<open>sanitize\<close> keeps: no control characters but newline and tab, and no marks of direction.\<close>

definition keeps_rune :: "nat \<Rightarrow> bool" where
  "keeps_rune r =
     (r = 0x0A \<or> r = 0x09 \<or>
      (\<not> (r < 0x20 \<or> 0x7F \<le> r \<and> r < 0xA0) \<and> \<not> (0x202A \<le> r \<and> r \<le> 0x202E) \<and> \<not> (0x2066 \<le> r \<and> r \<le> 0x2069)))"

function map_runes :: "string \<Rightarrow> string" where
  "map_runes s =
     (case s of
        [] \<Rightarrow> []
      | c # cs \<Rightarrow>
          (case decode_rune s of
             None \<Rightarrow> [CHR 0xEF, CHR 0xBF, CHR 0xBD] @ map_runes cs
           | Some (r, n) \<Rightarrow> (if keeps_rune r then take n s else []) @ map_runes (drop (rune_size s) s)))"
  by pat_completeness auto
termination
  by (relation "measure length") (auto intro: diff_less)

declare map_runes.simps [simp del]

function valid_utf8 :: "string \<Rightarrow> bool" where
  "valid_utf8 s =
     (if s = [] then True
      else if decode_rune s = None then False
      else valid_utf8 (drop (rune_size s) s))"
  by pat_completeness auto
termination
  by (relation "measure length") (auto intro: diff_less)

declare valid_utf8.simps [simp del]

subsection \<open>Cleaning\<close>

definition sanitize :: "string \<Rightarrow> string" where
  "sanitize body =
     map_runes (ReplaceAll match_markdown (ReplaceAll match_mention (ReplaceAll match_reference
       (ReplaceAll match_link (ReplaceAll match_address body)))))"

lemmas sanitize_eval =
  sanitize_def ReplaceAll_def replace_matches.simps map_runes.simps decode_rune.simps rune_size_def keeps_rune_def
  match_address_def match_link_def match_reference_def match_mention_def match_markdown_def match_bracket_def
  mention_char_def closed_run_def skip_some_def web_hosts_def is_word_def is_alpha_def is_upper_def is_lower_def
  is_digit_def byte_def lower_def has_prefix_def tok_open_def tok_close_def at_boundary_def re_space_def

lemma sanitize_hides_mentions:
  "sanitize ([CHR 0x40] @ ''everyone'') = ''[mention]''"
  by (simp add: sanitize_eval)

text \<open>
  The order of the steps leaves gaps: control characters go last and Markdown links after the references, so what
  they split is joined again after the step that would have hidden it.
\<close>

lemma sanitize_rejoins_mention:
  "sanitize ([CHR 0x40, CHR 0x01] @ ''everyone'') = [CHR 0x40] @ ''everyone''"
  by (simp add: sanitize_eval)

lemma sanitize_rejoins_reference:
  "sanitize ([CHR 0x40] @ ''[](x){ab}'') = tok_open @ ''ab'' @ [tok_close]"
  by (simp add: sanitize_eval)

subsection \<open>The sanitized text is well-formed\<close>

text \<open>The runes of a well-formed text.\<close>

function text_runes :: "string \<Rightarrow> nat list" where
  "text_runes s = (case s of [] \<Rightarrow> [] | c # cs \<Rightarrow>
     (case decode_rune s of None \<Rightarrow> 0xFFFD | Some (r, n) \<Rightarrow> r) # text_runes (drop (rune_size s) s))"
  by pat_completeness auto
termination
  by (relation "measure length") (auto intro: diff_less)

declare text_runes.simps [simp del]

lemma decode_rune_take:
  assumes "decode_rune s = Some (r, n)"
  shows "decode_rune (take n s @ t) = Some (r, n)" "n \<le> length s"
proof -
  consider "s = []" | a where "s = [a]" | a b where "s = [a, b]" | a b c where "s = [a, b, c]"
    | a b c d s' where "s = a # b # c # d # s'"
    by (metis neq_Nil_conv)
  then have "decode_rune (take n s @ t) = Some (r, n) \<and> n \<le> length s"
    using assms by cases (auto simp: decode_rune.simps split: if_split_asm)
  then show "decode_rune (take n s @ t) = Some (r, n)" "n \<le> length s" by auto
qed

lemma runes_step:
  assumes "decode_rune u = Some (r, n)"
  shows "valid_utf8 u = valid_utf8 (drop n u)" "text_runes u = r # text_runes (drop n u)"
proof -
  obtain c cs where u: "u = c # cs"
    using assms by (cases u) (auto simp: decode_rune.simps)
  have "rune_size u = n"
    using assms by (simp add: rune_size_def)
  then show "valid_utf8 u = valid_utf8 (drop n u)" "text_runes u = r # text_runes (drop n u)"
    using assms unfolding u
    by (simp_all add: valid_utf8.simps [of "c # cs"] text_runes.simps [of "c # cs"] del: drop_Suc_Cons)
qed

lemma text_of_rune:
  assumes "decode_rune s = Some (r, n)"
  shows "valid_utf8 (take n s @ t) = valid_utf8 t" "text_runes (take n s @ t) = r # text_runes t"
proof -
  have "drop n (take n s @ t) = t"
    using decode_rune_take(2) [OF assms] by simp
  then show "valid_utf8 (take n s @ t) = valid_utf8 t" "text_runes (take n s @ t) = r # text_runes t"
    using runes_step [OF decode_rune_take(1) [OF assms], of t] by simp_all
qed

definition replacement :: string where
  "replacement = [CHR 0xEF, CHR 0xBF, CHR 0xBD]"

lemma decode_replacement: "decode_rune replacement = Some (0xFFFD, 3)" "take 3 replacement = replacement"
  by (simp_all add: replacement_def decode_rune.simps byte_def cont_def lead3_def)

lemmas text_of_replacement = text_of_rune [OF decode_replacement(1), unfolded decode_replacement(2)]

lemma map_runes_unfold:
  "map_runes [] = []"
  "decode_rune (c # cs) = None \<Longrightarrow> map_runes (c # cs) = replacement @ map_runes cs"
  "decode_rune (c # cs) = Some (r, n) \<Longrightarrow>
    map_runes (c # cs) = (if keeps_rune r then take n (c # cs) else []) @ map_runes (drop (rune_size (c # cs)) (c # cs))"
  by (simp_all add: map_runes.simps replacement_def del: drop_Suc_Cons)

lemma keeps_replacement: "keeps_rune 0xFFFD"
  by (simp add: keeps_rune_def)

lemma map_runes_clean: "valid_utf8 (map_runes s) \<and> list_all keeps_rune (text_runes (map_runes s))"
proof (induction s rule: map_runes.induct)
  case (1 s)
  show ?case
  proof (cases s)
    case Nil
    then show ?thesis by (simp add: map_runes_unfold valid_utf8.simps text_runes.simps)
  next
    case (Cons c cs)
    show ?thesis
    proof (cases "decode_rune s")
      case None
      show ?thesis
        using "1.IH"(1) [OF Cons None] map_runes_unfold(2) [OF None [unfolded Cons]]
        by (simp only: Cons text_of_replacement list.pred_inject(2) keeps_replacement simp_thms)
    next
      case (Some p)
      obtain r n where p: "p = (r, n)" by force
      note decode = Some [unfolded p]
      show ?thesis
        using "1.IH"(2) [OF Cons Some p [symmetric]] map_runes_unfold(3) [OF decode [unfolded Cons]]
        by (cases "keeps_rune r")
          (simp_all only: Cons [symmetric] text_of_rune [OF decode] list.pred_inject(2) simp_thms if_True if_False append_Nil)
    qed
  qed
qed


end
