(* ===== verification/PrivateStore.thy ===== *)
theory PrivateStore
  imports Registry Sanitize
begin

text \<open>
  The encrypted metadata of the private relay (\<^verbatim>\<open>internal/controlstore/private_dm.go\<close>): the mappings of replies, the
  messages already seen, the observed inboxes and the local copies to remove. The cipher, the digest, the JSON
  encoding and the random source are those of the Go library, and are the parameter \<open>Sealing\<close>.
\<close>

subsection \<open>Data\<close>

record PrivateDMSide =
  sd_Endpoint :: string
  sd_Binding :: string
  sd_ActorID :: string
  sd_Inbox :: PrivateInbox

record PrivateDMMapping =
  dm_AuthorMessageID :: string
  dm_ConversationID :: string
  dm_SyncSetID :: string
  dm_Author :: PrivateDMSide
  dm_Recipient :: PrivateDMSide

record PrivateDMCleanup =
  cu_Key :: string
  cu_Copy :: PrivateCopy
  cu_Attempts :: int

text \<open>A part of a lookup key: a string, or bytes, which JSON writes in base 64.\<close>

datatype key_part = PartString string | PartBytes string

text \<open>
  \<open>sl_mac\<close> is HMAC-SHA256 with the lookup key, \<open>sl_seal\<close> and \<open>sl_open\<close> are AES-GCM with the derived key, on a nonce
  and a text. \<open>sl_random n k\<close> is the \<open>n\<close>-th draw, of \<open>k\<close> bytes.
\<close>

record Sealing =
  sl_mac :: "string \<Rightarrow> string"
  sl_parts :: "key_part list \<Rightarrow> string"
  sl_seal :: "string \<Rightarrow> string \<Rightarrow> string"
  sl_open :: "string \<Rightarrow> string \<Rightarrow> string option"
  sl_mapping :: "PrivateDMMapping \<Rightarrow> string"
  sl_unmapping :: "string \<Rightarrow> PrivateDMMapping option"
  sl_inbox :: "PrivateInbox \<Rightarrow> string"
  sl_uninbox :: "string \<Rightarrow> PrivateInbox option"
  sl_copy :: "PrivateCopy \<Rightarrow> string"
  sl_uncopy :: "string \<Rightarrow> PrivateCopy option"
  sl_random :: "nat \<Rightarrow> nat \<Rightarrow> string option"

record SealedRow =
  sr_LookupKey :: string
  sr_Ciphertext :: string
  sr_Nonce :: string
  sr_ExpiresAt :: int

record SeenRow =
  se_LookupKey :: string
  se_ExpiresAt :: int

record CleanupRow =
  cl_Key :: string
  cl_Ciphertext :: string
  cl_Nonce :: string
  cl_CleanupAfter :: int
  cl_ExpiresAt :: int
  cl_Attempts :: int
  cl_NextAttemptAt :: int

text \<open>The tables; \<open>pd_open\<close> is whether the database answers, \<open>pd_drawn\<close> counts the draws of random bytes.\<close>

record PrivateDB =
  pd_open :: bool
  pd_drawn :: nat
  pd_replies :: "SealedRow list"
  pd_seen :: "SeenRow list"
  pd_inboxes :: "SealedRow list"
  pd_cleanups :: "CleanupRow list"

definition PrivateDMReplyTTL :: int where
  "PrivateDMReplyTTL = 24 * 60 * 60 * 1000"

definition privateDMRecordLimit :: int where
  "privateDMRecordLimit = 100000"

subsection \<open>Keys and the cipher\<close>

definition hex_char :: "nat \<Rightarrow> char" where
  "hex_char n = (if n < 10 then char_of (48 + n) else char_of (87 + n))"

definition hex_encode :: "string \<Rightarrow> string" where
  "hex_encode s = concat (map (\<lambda>c. [hex_char (byte c div 16), hex_char (byte c mod 16)]) s)"

definition private_key :: "Sealing \<Rightarrow> string \<Rightarrow> key_part list \<Rightarrow> string" where
  "private_key sl domain parts = hex_encode (sl_mac sl (domain @ [CHR 0x00] @ sl_parts sl parts))"

definition inbox_parts :: "PrivateInbox \<Rightarrow> string \<Rightarrow> key_part list" where
  "inbox_parts inbox messageID =
     map PartString [pi_ConnectionID inbox, pi_Transport inbox, pi_OwnerID inbox, pi_ChatID inbox, messageID]"

definition inboxKey :: "Sealing \<Rightarrow> string \<Rightarrow> PrivateInbox \<Rightarrow> string \<Rightarrow> string" where
  "inboxKey sl domain inbox messageID = private_key sl domain (inbox_parts inbox messageID)"

text \<open>\<^verbatim>\<open>CredentialCipher.Encrypt\<close> and \<^verbatim>\<open>Decrypt\<close> (\<^verbatim>\<open>internal/controlstore/crypto.go\<close>).\<close>

definition Encrypt :: "Sealing \<Rightarrow> PrivateDB \<Rightarrow> string \<Rightarrow> (string \<times> string) result \<times> PrivateDB" where
  "Encrypt sl db plain =
     (case sl_random sl (pd_drawn db) 12 of
        None \<Rightarrow> (Inl (ErrMsg ''generate nonce''), db\<lparr>pd_drawn := pd_drawn db + 1\<rparr>)
      | Some nonce \<Rightarrow> (Inr (sl_seal sl nonce plain, nonce), db\<lparr>pd_drawn := pd_drawn db + 1\<rparr>))"

definition Decrypt :: "Sealing \<Rightarrow> string \<Rightarrow> string \<Rightarrow> string result" where
  "Decrypt sl ciphertext nonce =
     (if length nonce \<noteq> 12 then Inl (ErrMsg ''credential decryption failed'')
      else case sl_open sl nonce ciphertext of
        None \<Rightarrow> Inl (ErrMsg ''credential decryption failed'') | Some plain \<Rightarrow> Inr plain)"

definition full :: "int \<Rightarrow> 'a list \<Rightarrow> bool" where
  "full limit rows = (limit \<le> int (length rows))"

subsection \<open>Replies\<close>

definition invalid_mapping :: "string \<Rightarrow> PrivateDMMapping \<Rightarrow> bool" where
  "invalid_mapping messageID mapping =
     (messageID = [] \<or> pi_ChatID (sd_Inbox (dm_Recipient mapping)) = [] \<or>
      length (pi_Token (sd_Inbox (dm_Recipient mapping))) = 0)"

definition PutReply ::
  "Sealing \<Rightarrow> string \<Rightarrow> PrivateDMMapping \<Rightarrow> int \<Rightarrow> PrivateDB \<Rightarrow> gerr option \<times> PrivateDB" where
  "PutReply sl messageID mapping now db =
     (if invalid_mapping messageID mapping then (Some (ErrMsg ''invalid private DM reply mapping''), db)
      else case Encrypt sl db (sl_mapping sl mapping) of
        (Inl e, db) \<Rightarrow> (Some (ErrMsg ''encrypt private DM reply mapping''), db)
      | (Inr (encrypted, nonce), db) \<Rightarrow>
          let key = inboxKey sl ''reply'' (sd_Inbox (dm_Recipient mapping)) messageID in
          if \<not> pd_open db then (Some (ErrMsg ''persist private DM reply mapping''), db)
          else if full privateDMRecordLimit (pd_replies db) then
            (Some (ErrMsg ''private DM reply capacity unavailable''), db)
          else if has_key sr_LookupKey key (pd_replies db) then
            (Some (ErrMsg ''persist private DM reply mapping''), db)
          else (None, db\<lparr>pd_replies := pd_replies db @
            [\<lparr>sr_LookupKey = key, sr_Ciphertext = encrypted, sr_Nonce = nonce,
              sr_ExpiresAt = now + PrivateDMReplyTTL\<rparr>]\<rparr>))"

definition ReplyCapacity :: "PrivateDB \<Rightarrow> bool" where
  "ReplyCapacity db = (pd_open db \<and> \<not> full privateDMRecordLimit (pd_replies db))"

text \<open>What a lookup of a sealed row answers: the error names the step that failed.\<close>

definition open_row ::
  "Sealing \<Rightarrow> string \<Rightarrow> (string \<Rightarrow> 'a option) \<Rightarrow> string \<Rightarrow> int \<Rightarrow> SealedRow list \<Rightarrow> 'a option result" where
  "open_row sl what decode key now rows =
     (case find (\<lambda>r. sr_LookupKey r = key \<and> now < sr_ExpiresAt r) rows of
        None \<Rightarrow> Inr None
      | Some r \<Rightarrow>
          (case Decrypt sl (sr_Ciphertext r) (sr_Nonce r) of
             Inl e \<Rightarrow> Inl (ErrMsg (''decrypt '' @ what))
           | Inr plain \<Rightarrow>
               (case decode plain of
                  None \<Rightarrow> Inl (ErrMsg (''decode '' @ what)) | Some x \<Rightarrow> Inr (Some x))))"

definition Reply ::
  "Sealing \<Rightarrow> PrivateInbox \<Rightarrow> string \<Rightarrow> int \<Rightarrow> PrivateDB \<Rightarrow> PrivateDMMapping option result" where
  "Reply sl inbox messageID now db =
     (if \<not> pd_open db then Inl (ErrMsg ''read private DM reply mapping'')
      else open_row sl ''private DM reply mapping'' (sl_unmapping sl) (inboxKey sl ''reply'' inbox messageID) now
        (pd_replies db))"

subsection \<open>Messages seen\<close>

definition AcceptIncoming ::
  "Sealing \<Rightarrow> PrivateInbox \<Rightarrow> string \<Rightarrow> int \<Rightarrow> PrivateDB \<Rightarrow> bool result \<times> PrivateDB" where
  "AcceptIncoming sl inbox messageID now db =
     (if messageID = [] then (Inl (ErrMsg ''private message ID is required''), db)
      else if \<not> pd_open db then (Inl (ErrMsg ''record private DM input''), db)
      else
        let key = inboxKey sl ''incoming'' inbox messageID in
        if full privateDMRecordLimit (pd_seen db) \<or> has_key se_LookupKey key (pd_seen db) then (Inr False, db)
        else (Inr True, db\<lparr>pd_seen := pd_seen db @
          [\<lparr>se_LookupKey = key, se_ExpiresAt = now + PrivateDMReplyTTL\<rparr>]\<rparr>))"

subsection \<open>Inboxes\<close>

definition observed_key :: "Sealing \<Rightarrow> string \<Rightarrow> string \<Rightarrow> string \<Rightarrow> string" where
  "observed_key sl connectionID platform actor =
     private_key sl ''inbox'' (map PartString [connectionID, platform, actor])"

definition ObserveInbox ::
  "Sealing \<Rightarrow> string \<Rightarrow> PrivateInbox \<Rightarrow> int \<Rightarrow> PrivateDB \<Rightarrow> gerr option \<times> PrivateDB" where
  "ObserveInbox sl actor inbox now db =
     (case Encrypt sl db (sl_inbox sl inbox) of
        (Inl e, db) \<Rightarrow> (Some (ErrMsg ''encrypt private inbox''), db)
      | (Inr (encrypted, nonce), db) \<Rightarrow>
          let key = observed_key sl (pi_ConnectionID inbox) (pi_Transport inbox) actor in
          if \<not> pd_open db then (Some (ErrMsg ''persist private inbox''), db)
          else if full 10000 (pd_inboxes db) \<and> \<not> has_key sr_LookupKey key (pd_inboxes db) then (None, db)
          else (None, db\<lparr>pd_inboxes := upsert sr_LookupKey (\<lambda>new old. new)
            \<lparr>sr_LookupKey = key, sr_Ciphertext = encrypted, sr_Nonce = nonce, sr_ExpiresAt = now + PrivateDMReplyTTL\<rparr>
            (pd_inboxes db)\<rparr>))"

definition Inbox ::
  "Sealing \<Rightarrow> string \<Rightarrow> string \<Rightarrow> string \<Rightarrow> int \<Rightarrow> PrivateDB \<Rightarrow> PrivateInbox option result" where
  "Inbox sl connectionID platform actor now db =
     (if \<not> pd_open db then Inl (ErrMsg ''read private inbox'')
      else open_row sl ''private inbox'' (sl_uninbox sl) (observed_key sl connectionID platform actor) now
        (pd_inboxes db))"

subsection \<open>Removing local copies\<close>

definition cleanup_key :: "Sealing \<Rightarrow> PrivateCopy \<Rightarrow> string" where
  "cleanup_key sl copy = private_key sl ''cleanup''
     [PartString (px_ConnectionID copy), PartString (px_Transport copy), PartString (px_OwnerID copy),
      PartBytes (px_Token copy)]"

definition QueueCleanup ::
  "Sealing \<Rightarrow> PrivateCopy \<Rightarrow> int \<Rightarrow> int \<Rightarrow> PrivateDB \<Rightarrow> gerr option \<times> PrivateDB" where
  "QueueCleanup sl copy after now db =
     (if px_Transport copy \<noteq> ''whatsapp'' \<or> length (px_Token copy) = 0 then (None, db)
      else case Encrypt sl db (sl_copy sl copy) of
        (Inl e, db) \<Rightarrow> (Some (ErrMsg ''encrypt private DM cleanup''), db)
      | (Inr (encrypted, nonce), db) \<Rightarrow>
          let key = cleanup_key sl copy in
          if \<not> pd_open db then (Some (ErrMsg ''persist private DM cleanup''), db)
          else if has_key cl_Key key (pd_cleanups db) then (None, db)
          else if full privateDMRecordLimit (pd_cleanups db) then
            (Some (ErrMsg ''private DM cleanup capacity unavailable''), db)
          else (None, db\<lparr>pd_cleanups := pd_cleanups db @
            [\<lparr>cl_Key = key, cl_Ciphertext = encrypted, cl_Nonce = nonce, cl_CleanupAfter = after,
              cl_ExpiresAt = after + 72 * 60 * 60 * 1000, cl_Attempts = 0, cl_NextAttemptAt = after\<rparr>]\<rparr>))"

definition due :: "int \<Rightarrow> CleanupRow \<Rightarrow> bool" where
  "due now r = (cl_Attempts r < 3 \<and> cl_CleanupAfter r \<le> now \<and> cl_NextAttemptAt r \<le> now \<and> now < cl_ExpiresAt r)"

fun open_candidates :: "Sealing \<Rightarrow> CleanupRow list \<Rightarrow> PrivateDMCleanup list result" where
  "open_candidates sl [] = Inr []"
| "open_candidates sl (r # rows) =
     (case Decrypt sl (cl_Ciphertext r) (cl_Nonce r) of
        Inl e \<Rightarrow> Inl (ErrMsg ''decrypt private DM cleanup'')
      | Inr plain \<Rightarrow>
          (case sl_uncopy sl plain of
             None \<Rightarrow> Inl (ErrMsg ''decode private DM cleanup'')
           | Some copy \<Rightarrow>
               bind_res (open_candidates sl rows)
                (\<lambda>cs. Inr (\<lparr>cu_Key = cl_Key r, cu_Copy = copy, cu_Attempts = cl_Attempts r\<rparr> # cs))))"

definition bounded_limit :: "int \<Rightarrow> nat" where
  "bounded_limit limit = (if limit < 1 \<or> 100 < limit then 100 else nat limit)"

definition DueCleanup :: "Sealing \<Rightarrow> int \<Rightarrow> int \<Rightarrow> PrivateDB \<Rightarrow> PrivateDMCleanup list result" where
  "DueCleanup sl now limit db =
     (if \<not> pd_open db then Inl (ErrMsg ''read private DM cleanup'')
      else open_candidates sl
        (take (bounded_limit limit) (sort_key cl_CleanupAfter (filter (due now) (pd_cleanups db)))))"

definition claimable :: "PrivateDMCleanup \<Rightarrow> int \<Rightarrow> CleanupRow \<Rightarrow> bool" where
  "claimable candidate now r =
     (cl_Key r = cu_Key candidate \<and> cl_Attempts r = cu_Attempts candidate \<and> cl_Attempts r < 3 \<and>
      cl_NextAttemptAt r \<le> now \<and> now < cl_ExpiresAt r)"

definition BeginCleanup :: "PrivateDMCleanup \<Rightarrow> int \<Rightarrow> PrivateDB \<Rightarrow> bool result \<times> PrivateDB" where
  "BeginCleanup candidate now db =
     (if \<not> pd_open db then (Inl (ErrMsg ''claim private DM cleanup''), db)
      else (Inr (count_where (claimable candidate now) (pd_cleanups db) = 1),
        db\<lparr>pd_cleanups := update_where (claimable candidate now)
          (\<lambda>r. r\<lparr>cl_Attempts := cl_Attempts r + 1, cl_NextAttemptAt := now + 60 * 60 * 1000\<rparr>) (pd_cleanups db)\<rparr>))"

definition FinishCleanup :: "PrivateDMCleanup \<Rightarrow> bool \<Rightarrow> PrivateDB \<Rightarrow> gerr option \<times> PrivateDB" where
  "FinishCleanup candidate succeeded db =
     (if succeeded \<or> 2 \<le> cu_Attempts candidate then
        (if \<not> pd_open db then (Some (ErrMsg ''finish private DM cleanup''), db)
         else (None, db\<lparr>pd_cleanups := delete_where (\<lambda>r. cl_Key r = cu_Key candidate) (pd_cleanups db)\<rparr>))
      else (None, db))"

subsection \<open>Pruning\<close>

text \<open>One \<^verbatim>\<open>DELETE\<close> of at most \<open>limit\<close> expired rows, the oldest first, with the number of rows it deletes.\<close>

fun delete_first :: "nat \<Rightarrow> ('a \<Rightarrow> bool) \<Rightarrow> 'a list \<Rightarrow> 'a list" where
  "delete_first n P [] = []"
| "delete_first n P (r # rows) =
     (if P r then (case n of 0 \<Rightarrow> r # rows | Suc k \<Rightarrow> delete_first k P rows) else r # delete_first n P rows)"

fun prune_rows :: "nat \<Rightarrow> nat \<Rightarrow> ('a \<Rightarrow> bool) \<Rightarrow> 'a list \<Rightarrow> 'a list" where
  "prune_rows 0 limit P rows = rows"
| "prune_rows (Suc batches) limit P rows =
     (let rows' = delete_first limit P rows in
      if length rows - length rows' < limit then rows' else prune_rows batches limit P rows')"

definition Prune :: "int \<Rightarrow> int \<Rightarrow> PrivateDB \<Rightarrow> gerr option \<times> PrivateDB" where
  "Prune now limit db =
     (if \<not> pd_open db then (Some (ErrMsg ''prune private DM metadata''), db)
      else
        let limit = bounded_limit limit; batches = nat privateDMRecordLimit div limit + 1 in
        (None, db\<lparr>
          pd_replies := prune_rows batches limit (\<lambda>r. sr_ExpiresAt r \<le> now) (pd_replies db),
          pd_seen := prune_rows batches limit (\<lambda>r. se_ExpiresAt r \<le> now) (pd_seen db),
          pd_cleanups := prune_rows batches limit (\<lambda>r. cl_ExpiresAt r \<le> now) (pd_cleanups db),
          pd_inboxes := prune_rows batches limit (\<lambda>r. sr_ExpiresAt r \<le> now) (pd_inboxes db)\<rparr>))"

end
