(* ===== verification/Hasher.thy ===== *)
theory Hasher
  imports Store
begin

text \<open>
  The pseudonyms of participants and scopes (\<^verbatim>\<open>internal/identity/identity.go\<close>). The digest, HMAC-SHA256 with the
  secret, is the argument \<open>mac\<close>; base 32 is written out.
\<close>

subsection \<open>Base 32\<close>

text \<open>The bits of a byte, the highest first, and the digits of groups of five bits; the last is filled with zeros.\<close>

definition byte_bits :: "char \<Rightarrow> bool list" where
  "byte_bits c = map (\<lambda>i. odd (byte c div 2 ^ i)) [7, 6, 5, 4, 3, 2, 1, 0]"

definition bits_value :: "bool list \<Rightarrow> nat" where
  "bits_value bs = foldl (\<lambda>v b. 2 * v + (if b then 1 else 0)) 0 bs"

definition base32_char :: "nat \<Rightarrow> char" where
  "base32_char n = (if n < 26 then char_of (65 + n) else char_of (24 + n))"

function base32_digits :: "bool list \<Rightarrow> string" where
  "base32_digits bs =
     (if bs = [] then []
      else base32_char (bits_value (take 5 (take 5 bs @ replicate 4 False))) # base32_digits (drop 5 bs))"
  by pat_completeness auto
termination
  by (relation "measure length") (auto intro: diff_less)

declare base32_digits.simps [simp del]

definition EncodeToString32 :: "string \<Rightarrow> string" where
  "EncodeToString32 s = base32_digits (concat (map byte_bits s))"

subsection \<open>Pseudonyms\<close>

definition hasher_New :: "string \<Rightarrow> string result" where
  "hasher_New secret =
     (if length secret < 32 then Inl (ErrMsg ''IDENTITY_SECRET must be at least 32 bytes'') else Inr secret)"

definition hasher_derive :: "(string \<Rightarrow> string) \<Rightarrow> string \<Rightarrow> string \<Rightarrow> string \<Rightarrow> string" where
  "hasher_derive mac domain value prefix =
     prefix @ map lower (take 10 (EncodeToString32 (mac (domain @ [CHR 0x00] @ trim_space value))))"

definition ActorID :: "(string \<Rightarrow> string) \<Rightarrow> string \<Rightarrow> string \<Rightarrow> string" where
  "ActorID mac domain value = hasher_derive mac domain value ''u_''"

definition ScopeToken :: "(string \<Rightarrow> string) \<Rightarrow> string \<Rightarrow> string" where
  "ScopeToken mac scopeID = hasher_derive mac ''child-scope'' scopeID ''s_''"

subsection \<open>The form of a pseudonym\<close>

lemma bits_value_less: "bits_value bs < 2 ^ length bs"
proof (induction bs rule: rev_induct)
  case (snoc b bs)
  then show ?case by (simp add: bits_value_def)
qed (simp add: bits_value_def)

lemma length_digits: "length (base32_digits bs) = (length bs + 4) div 5"
proof (induction bs rule: base32_digits.induct)
  case (1 bs)
  show ?case
  proof (cases "bs = []")
    case True
    then show ?thesis by (simp add: base32_digits.simps)
  next
    case False
    then have "length (base32_digits bs) = Suc ((length bs - 5 + 4) div 5)"
      using "1.IH" by (subst base32_digits.simps) simp
    also have "\<dots> = (length bs + 4) div 5"
      using False by (cases "length bs < 5") (cases bs; simp add: div_if)+
    finally show ?thesis .
  qed
qed

lemma byte_of_small: "n < 256 \<Longrightarrow> byte (char_of n) = n"
  by (simp add: byte_def)

definition pseudonym_char :: "char \<Rightarrow> bool" where
  "pseudonym_char c = (is_lower c \<or> (50 \<le> byte c \<and> byte c \<le> 55))"

lemma lower_base32_char:
  assumes "n < 32"
  shows "pseudonym_char (lower (base32_char n))"
  using assms
  by (simp add: base32_char_def pseudonym_char_def lower_def is_upper_def is_lower_def byte_of_small)

lemma lower_digits: "list_all (\<lambda>c. pseudonym_char (lower c)) (base32_digits bs)"
proof (induction bs rule: base32_digits.induct)
  case (1 bs)
  have "bits_value (take 5 (take 5 bs @ replicate 4 False)) < 32"
  proof -
    have "2 ^ length (take 5 (take 5 bs @ replicate 4 False)) \<le> (2 :: nat) ^ 5"
      by (intro power_increasing) auto
    then show ?thesis
      using bits_value_less [of "take 5 (take 5 bs @ replicate 4 False)"] by simp
  qed
  then show ?case
    using 1 by (subst base32_digits.simps) (simp add: lower_base32_char)
qed

lemma length_encode: "length (EncodeToString32 s) = (8 * length s + 4) div 5"
  by (simp add: EncodeToString32_def length_digits length_concat byte_bits_def o_def sum_list_triv mult.commute)

lemma pseudonym_form:
  assumes "\<And>m. length (mac m) = 32"
  shows "\<exists>ds. hasher_derive mac domain value prefix = prefix @ ds \<and> length ds = 10 \<and> list_all pseudonym_char ds"
proof -
  define digits where "digits = take 10 (EncodeToString32 (mac (domain @ [CHR 0x00] @ trim_space value)))"
  have "length digits = 10"
    by (simp add: digits_def length_encode assms)
  moreover have "list_all (\<lambda>c. pseudonym_char (lower c)) digits"
    using lower_digits unfolding digits_def EncodeToString32_def list_all_iff by (meson in_set_takeD)
  ultimately show ?thesis
    by (auto simp: hasher_derive_def digits_def list_all_iff)
qed

text \<open>
  A pseudonym that the hasher makes is one the store accepts as an actor: \<^verbatim>\<open>u_\<close> and ten characters of the
  lower-case base-32 alphabet, whatever the identity, as the digest of 32 bytes always has ten base-32 digits.
\<close>

theorem actor_ids_are_accepted:
  assumes "\<And>m. length (mac m) = 32"
  shows "match_actor (ActorID mac domain value) \<and> validateActor (ActorID mac domain value) = None"
proof -
  obtain ds where "ActorID mac domain value = ''u_'' @ ds" "length ds = 10" "list_all pseudonym_char ds"
    using pseudonym_form [of mac, OF assms] unfolding ActorID_def by blast
  then have "match_actor (ActorID mac domain value)"
    by (simp add: match_actor_def pseudonym_char_def [abs_def])
  then show ?thesis by (simp add: validateActor_def)
qed

text \<open>A digest that keeps the first bytes of its input.\<close>

definition sample_mac :: "string \<Rightarrow> string" where
  "sample_mac m = take 32 (m @ replicate 32 CHR 0x00)"

lemma length_sample_mac [simp]: "length (sample_mac m) = 32"
  by (simp add: sample_mac_def)

theorem actor_ids_are_accepted_witness:
  "match_actor (ActorID sample_mac ''whatsapp'' ''15551234567'') \<and>
   validateActor (ActorID sample_mac ''whatsapp'' ''15551234567'') = None"
  by (rule actor_ids_are_accepted) simp

end
