(* ===== verification/Relay.thy ===== *)
theory Relay
  imports PrivateStore Hasher Routes Presentation Commands
begin

text \<open>
  The private relay (\<^verbatim>\<open>internal/privatedm/relay.go\<close>, \<^verbatim>\<open>internal/privatedm/alias_routes.go\<close>): which private messages it
  forwards, to whom, and what it answers. One call of \<^verbatim>\<open>Handle\<close> is one step. Times are milliseconds since the epoch.
  What the relay asks of the provider is kept in a log.
\<close>

subsection \<open>Messages and state\<close>

record PrivateIncoming =
  pn_ConnectionID :: string
  pn_Transport :: string
  pn_Inbox :: PrivateInbox
  pn_LocalCopy :: PrivateCopy
  pn_ActorID :: string
  pn_ActorAliases :: "string list"
  pn_RemoteMessageID :: string
  pn_ReplyToMessageID :: string
  pn_DisplayName :: string
  pn_Text :: string
  pn_Kind :: string
  pn_Timestamp :: gtime
  pn_FromSelf :: bool

record window =
  wi_minute :: int
  wi_count :: int

datatype relay_call =
    AskSend PrivateInbox string "PrivateSendOptions list"
  | AskDelete PrivateCopy

record Relay =
  rl_Sync :: Store
  rl_State :: PrivateDB
  rl_limits :: "(string \<times> window) list"
  rl_log :: "relay_call list"

text \<open>
  What a call depends on: the time at its start and the time of its later readings of the clock, the provider, the
  configuration, the digest of the hasher and the parameters of the private store. \<open>rv_Help\<close> is the text of
  \<^verbatim>\<open>commands.Help\<close>.
\<close>

record RelayEnv =
  rv_now :: int
  rv_later :: int
  rv_Runtime :: PrivateMessenger
  rv_LoadConfig :: "Config result"
  rv_mac :: "string \<Rightarrow> string"
  rv_Sealing :: Sealing
  rv_Help :: string

definition MaxBodyBytes :: nat where
  "MaxBodyBytes = 1600"

definition privateHelpDetails :: string where
  "privateHelpDetails =
     ''Ordinary messages without a valid reply do not get forwarded. Text only, at most 1600 UTF-8 bytes.'' @
     [CHR 0x0A] @
     ''DM edits and deletes are not synchronized; the recipient keeps the original relayed message.'' @
     [CHR 0x0A] @
     ''Replies expire after 24 hours. The relay may remove only its own local chat copies, never the recipient'' @
     [CHR 0x27] @
     ''s messages. Discord and Telegram Bot API cannot remove bot-local copies separately, so their messages '' @
     ''remain. Delivery requires the recipient to be reachable via this sync account; Telegram recipients must '' @
     ''first /start this bot.''"

definition relay_Help :: "RelayEnv \<Rightarrow> string" where
  "relay_Help v = rv_Help v @ [CHR 0x0A] @ privateHelpDetails"

subsection \<open>Rate limits\<close>

definition unix_minute :: "int \<Rightarrow> int" where
  "unix_minute now = (let s = now div 1000 in if 0 \<le> s then s div 60 else - (- s div 60))"

definition window_of :: "(string \<times> window) list \<Rightarrow> string \<Rightarrow> window" where
  "window_of limits key = (case map_of limits key of Some w \<Rightarrow> w | None \<Rightarrow> \<lparr>wi_minute = 0, wi_count = 0\<rparr>)"

definition put_window :: "string \<Rightarrow> window \<Rightarrow> (string \<times> window) list \<Rightarrow> (string \<times> window) list" where
  "put_window key w limits = (key, w) # filter (\<lambda>(k, _). k \<noteq> key) limits"

definition permit :: "string \<Rightarrow> int \<Rightarrow> int \<Rightarrow> (string \<times> window) list \<Rightarrow> bool \<times> (string \<times> window) list" where
  "permit key now most limits =
     (let minute = unix_minute now;
          limits = filter (\<lambda>(k, w). wi_minute w = minute) limits;
          w = window_of limits key;
          w = (if wi_minute w \<noteq> minute then \<lparr>wi_minute = minute, wi_count = 0\<rparr> else w)
      in if most \<le> wi_count w \<or> 10000 \<le> int (length limits) then (False, limits)
         else (True, put_window key (w\<lparr>wi_count := wi_count w + 1\<rparr>) limits))"

definition permit_relay :: "string \<Rightarrow> int \<Rightarrow> int \<Rightarrow> Relay \<Rightarrow> bool \<times> Relay" where
  "permit_relay key now most r =
     (case permit key now most (rl_limits r) of (ok, limits) \<Rightarrow> (ok, r\<lparr>rl_limits := limits\<rparr>))"

subsection \<open>Who is asking\<close>

definition sameInbox :: "PrivateInbox \<Rightarrow> PrivateInbox \<Rightarrow> bool" where
  "sameInbox a b =
     (pi_ConnectionID a = pi_ConnectionID b \<and> pi_Transport a = pi_Transport b \<and> pi_OwnerID a = pi_OwnerID b \<and>
      pi_ChatID a \<noteq> [] \<and> pi_ChatID a = pi_ChatID b)"

definition incomingActor :: "PrivateIncoming \<Rightarrow> string \<Rightarrow> bool" where
  "incomingActor inc actor = (pn_ActorID inc = actor \<or> actor \<in> set (take 4 (pn_ActorAliases inc)))"

definition is_participant :: "Relay \<Rightarrow> string \<Rightarrow> string \<Rightarrow> bool" where
  "is_participant r endpoint actor = is_ok (ParticipantByActor (rl_Sync r) endpoint actor)"

definition observedSourceActor :: "RelayEnv \<Rightarrow> Relay \<Rightarrow> string \<Rightarrow> PrivateIncoming \<Rightarrow> string" where
  "observedSourceActor v r endpoint inc =
     (case find (\<lambda>actor. is_participant r endpoint actor \<and>
         pm_VerifyPrivateInboxMember (rv_Runtime v) endpoint actor (pn_Inbox inc))
       (take 5 (pn_ActorID inc # pn_ActorAliases inc)) of
        Some actor \<Rightarrow> actor | None \<Rightarrow> [])"

text \<open>The endpoints of the connection of a message whose sync set has the relay on.\<close>

definition relay_endpoints :: "Config \<Rightarrow> PrivateIncoming \<Rightarrow> string list" where
  "relay_endpoints cfg inc =
     map fst (filter (\<lambda>(alias, e). ce_ConnectionID e = pn_ConnectionID inc \<and> ce_Transport e = pn_Transport inc \<and>
       ss_PrivateDMRelayEnabled (SettingsForEndpoint cfg alias)) (cfg_Endpoints cfg))"

definition findSet :: "Config \<Rightarrow> string \<Rightarrow> SyncSet option" where
  "findSet cfg alias = find (\<lambda>s. alias \<in> set (set_Endpoints s)) (cfg_SyncSets cfg)"

definition findSetByID :: "Config \<Rightarrow> string \<Rightarrow> SyncSet option" where
  "findSetByID cfg setID = find (\<lambda>s. set_ID s = setID) (cfg_SyncSets cfg)"

definition endpointBinding :: "RelayEnv \<Rightarrow> Endpoint \<Rightarrow> string" where
  "endpointBinding v e =
     ActorID (rv_mac v) ''private-dm-endpoint''
      (ce_Transport e @ [CHR 0x00] @ ce_ConnectionID e @ [CHR 0x00] @ ce_RemoteID e)"

definition authorized_side :: "RelayEnv \<Rightarrow> Config \<Rightarrow> Relay \<Rightarrow> string \<Rightarrow> PrivateDMSide \<Rightarrow> bool" where
  "authorized_side v cfg r setID side =
     (case (findSet cfg (sd_Endpoint side), map_of (cfg_Endpoints cfg) (sd_Endpoint side)) of
        (Some s, Some e) \<Rightarrow>
          set_ID s = setID \<and> ss_PrivateDMRelayEnabled (SettingsForSet cfg s) \<and>
          ce_ConnectionID e = pi_ConnectionID (sd_Inbox side) \<and> ce_Transport e = pi_Transport (sd_Inbox side) \<and>
          sd_Binding side = endpointBinding v e \<and>
          is_participant r (sd_Endpoint side) (sd_ActorID side) \<and>
          pm_VerifyPrivateInboxMember (rv_Runtime v) (sd_Endpoint side) (sd_ActorID side) (sd_Inbox side)
      | _ \<Rightarrow> False)"

definition authorized :: "RelayEnv \<Rightarrow> Config \<Rightarrow> Relay \<Rightarrow> PrivateDMMapping \<Rightarrow> bool" where
  "authorized v cfg r m =
     (cfg_PrivateDMRelayEnabled cfg \<and> authorized_side v cfg r (dm_SyncSetID m) (dm_Author m) \<and>
      authorized_side v cfg r (dm_SyncSetID m) (dm_Recipient m))"

subsection \<open>Answers\<close>

definition log_call :: "relay_call \<Rightarrow> Relay \<Rightarrow> Relay" where
  "log_call c r = r\<lparr>rl_log := rl_log r @ [c]\<rparr>"

definition queue_copy :: "RelayEnv \<Rightarrow> PrivateCopy \<Rightarrow> int \<Rightarrow> int \<Rightarrow> Relay \<Rightarrow> gerr option \<times> Relay" where
  "queue_copy v copy after now r =
     (case QueueCleanup (rv_Sealing v) copy after now (rl_State r) of (e, db) \<Rightarrow> (e, r\<lparr>rl_State := db\<rparr>))"

definition sendHelp :: "RelayEnv \<Rightarrow> PrivateInbox \<Rightarrow> string \<Rightarrow> Relay \<Rightarrow> gerr option \<times> Relay" where
  "sendHelp v inbox text r =
     (let r = log_call (AskSend inbox text []) r in
      case pm_SendPrivate (rv_Runtime v) inbox text [] of
        Inl e \<Rightarrow> (Some (ErrMsg ''send private DM help''), r)
      | Inr result \<Rightarrow> queue_copy v (pr_LocalCopy result) (rv_later v) (rv_later v) r)"

definition relay_help :: "RelayEnv \<Rightarrow> PrivateInbox \<Rightarrow> string \<Rightarrow> Relay \<Rightarrow> gerr option \<times> Relay" where
  "relay_help v inbox prefix r =
     sendHelp v inbox
      (if prefix = [] then relay_Help v else prefix @ [CHR 0x0A, CHR 0x0A] @ relay_Help v) r"

definition unavailable :: string where
  "unavailable = ''Delivery unavailable. Check the address and your shared sync set.''"

text \<open>\<^verbatim>\<open>errors.Join\<close> keeps the error of the lookup for \<^verbatim>\<open>errors.Is\<close>.\<close>

definition aliasFailure :: "RelayEnv \<Rightarrow> PrivateInbox \<Rightarrow> gerr \<Rightarrow> Relay \<Rightarrow> gerr option \<times> Relay" where
  "aliasFailure v inbox lookupErr r =
     (case relay_help v inbox unavailable r of (replyErr, r) \<Rightarrow>
        (if is_no_rows lookupErr then replyErr else Some (ErrWrap ''read private alias assignment'' lookupErr), r))"

subsection \<open>The route to a recipient\<close>

text \<open>One endpoint of the recipient: its verified inbox, if it has one.\<close>

definition route_candidate ::
  "RelayEnv \<Rightarrow> Config \<Rightarrow> Relay \<Rightarrow> AliasRecord \<Rightarrow> string \<Rightarrow> PrivateInbox option result" where
  "route_candidate v cfg r actor endpoint =
     (case (findSet cfg endpoint, map_of (cfg_Endpoints cfg) endpoint) of
        (Some s, Some e) \<Rightarrow>
          if set_ID s \<noteq> ar_SyncSetID actor \<or> \<not> PrivateDMConnectionEnabled cfg (ce_ConnectionID e) then Inr None
          else bind_res
            (case pm_ResolvePrivateInbox (rv_Runtime v) endpoint (ar_ActorID actor) of
               Some inbox \<Rightarrow> Inr (Some inbox)
             | None \<Rightarrow>
                 if ce_Transport e = ''telegram'' then
                   Inbox (rv_Sealing v) (ce_ConnectionID e) (ce_Transport e) (ar_ActorID actor) (rv_now v) (rl_State r)
                 else Inr None)
            (\<lambda>found. Inr (case found of
               None \<Rightarrow> None
             | Some inbox \<Rightarrow>
                 if pi_ConnectionID inbox \<noteq> ce_ConnectionID e \<or> pi_Transport inbox \<noteq> ce_Transport e \<or>
                    \<not> pm_VerifyPrivateInboxMember (rv_Runtime v) endpoint (ar_ActorID actor) inbox
                 then None else Some inbox))
      | _ \<Rightarrow> Inr None)"

text \<open>\<open>selected\<close> is the endpoint and inbox found so far; two different inboxes select nothing.\<close>

fun route_loop ::
  "RelayEnv \<Rightarrow> Config \<Rightarrow> Relay \<Rightarrow> AliasRecord \<Rightarrow> string list \<Rightarrow> (string \<times> PrivateInbox) option \<Rightarrow>
     (string \<times> PrivateInbox) option result" where
  "route_loop v cfg r actor [] selected = Inr selected"
| "route_loop v cfg r actor (endpoint # endpoints) selected =
     (case route_candidate v cfg r actor endpoint of
        Inl e \<Rightarrow> Inl e
      | Inr None \<Rightarrow> route_loop v cfg r actor endpoints selected
      | Inr (Some candidate) \<Rightarrow>
          (case selected of
             None \<Rightarrow> route_loop v cfg r actor endpoints (Some (endpoint, candidate))
           | Some (_, inbox) \<Rightarrow>
               if \<not> sameInbox inbox candidate then Inr None
               else route_loop v cfg r actor endpoints selected))"

definition recipientRoute ::
  "RelayEnv \<Rightarrow> Config \<Rightarrow> Relay \<Rightarrow> AliasRecord \<Rightarrow> (string \<times> PrivateInbox) option result" where
  "recipientRoute v cfg r actor =
     bind_res (ActorEndpoints (rl_Sync r) (ar_SyncSetID actor) (ar_ActorID actor))
      (\<lambda>endpoints. route_loop v cfg r actor endpoints None)"

subsection \<open>The command\<close>

definition blank :: "char \<Rightarrow> bool" where
  "blank c = (c = CHR '' '' \<or> c = CHR 0x09)"

definition blank_or_line :: "char \<Rightarrow> bool" where
  "blank_or_line c = (blank c \<or> c = CHR 0x0D \<or> c = CHR 0x0A)"

text \<open>The rest of a command after its address: blanks, then at least one character.\<close>

definition command_body :: "string \<Rightarrow> string option" where
  "command_body s =
     (let blanks = takeWhile blank_or_line s; body = dropWhile blank_or_line s in
      if blanks = [] then None
      else if body \<noteq> [] then Some body
      else if 2 \<le> length blanks then Some [last blanks] else None)"

text \<open>\<^verbatim>\<open>command.FindStringSubmatch\<close>: the token and the body.\<close>

definition match_command :: "string \<Rightarrow> (string \<times> string) option" where
  "match_command text =
     (if \<not> has_prefix text ''/dm'' then None
      else
        let rest = drop 3 text; address = dropWhile blank rest in
        if takeWhile blank rest = [] \<or> \<not> has_prefix address tok_open then None
        else case closed_run (\<lambda>c. c \<noteq> tok_close) tok_close (drop 2 address) of
          None \<Rightarrow> None
        | Some (alias, rest) \<Rightarrow>
            if \<not> alias_body alias then None
            else case command_body rest of
              None \<Rightarrow> None | Some body \<Rightarrow> Some (tok_open @ alias @ [tok_close], body))"

definition is_command :: "string \<Rightarrow> bool" where
  "is_command text =
     (text = ''/dm'' \<or> has_prefix text (''/dm'' @ '' '') \<or> has_prefix text (''/dm'' @ [CHR 0x09]) \<or>
      has_prefix text (''/dm'' @ [CHR 0x0A]))"

text \<open>\<^verbatim>\<open>references.MatchString\<close>.\<close>

fun matches_somewhere :: "matcher \<Rightarrow> char option \<Rightarrow> string \<Rightarrow> bool" where
  "matches_somewhere m prev [] = (m prev [] \<noteq> None)"
| "matches_somewhere m prev (c # cs) = (m prev (c # cs) \<noteq> None \<or> matches_somewhere m (Some c) cs)"

subsection \<open>A message the relay has accepted\<close>

text \<open>
  The first verified endpoint of a Telegram message leaves the address of its author. The endpoints are those of a
  map: the ones that qualify observe the same inbox, so which is first does not matter.
\<close>

definition observe_sender :: "RelayEnv \<Rightarrow> Config \<Rightarrow> PrivateIncoming \<Rightarrow> Relay \<Rightarrow> gerr option \<times> Relay" where
  "observe_sender v cfg inc r =
     (if pn_Transport inc = ''telegram'' \<and>
         list_ex (\<lambda>alias. is_participant r alias (pn_ActorID inc) \<and>
           pm_VerifyPrivateInboxMember (rv_Runtime v) alias (pn_ActorID inc) (pn_Inbox inc)) (relay_endpoints cfg inc)
      then case ObserveInbox (rv_Sealing v) (pn_ActorID inc) (pn_Inbox inc) (rv_now v) (rl_State r) of
        (e, db) \<Rightarrow> (e, r\<lparr>rl_State := db\<rparr>)
      else (None, r))"

definition help_settings :: "RelayEnv \<Rightarrow> Config \<Rightarrow> PrivateIncoming \<Rightarrow> Relay \<Rightarrow> Settings list" where
  "help_settings v cfg inc r =
     map (\<lambda>alias. \<lparr>LocalPrefixes = ss_LocalPrefix (SettingsForEndpoint cfg alias),
         AggregationTriggers = ss_AggregationTrigger (SettingsForEndpoint cfg alias)\<rparr>)
       (filter (\<lambda>alias. observedSourceActor v r alias inc \<noteq> []) (relay_endpoints cfg inc))"

definition help_text :: "RelayEnv \<Rightarrow> Config \<Rightarrow> PrivateIncoming \<Rightarrow> Relay \<Rightarrow> string" where
  "help_text v cfg inc r =
     Describe (rv_Help v) (help_settings v cfg inc r) @ [CHR 0x0A] @ privateHelpDetails"

definition asks_help :: "PrivateIncoming \<Rightarrow> string \<Rightarrow> bool" where
  "asks_help inc text = (text = ''/help'' \<or> pn_Transport inc = ''telegram'' \<and> text = ''/start'')"

text \<open>
  What a message is about: an answer to its author with a prefix, a failed lookup of an alias, an error, or a
  conversation with the text to send in it and the message it replies to.
\<close>

datatype request =
    Refuse string
  | RefuseAlias gerr
  | Fail gerr
  | Relay_to PrivateDMMapping string string

text \<open>The endpoint and the actor the author writes from, in a sync set.\<close>

definition source_of :: "RelayEnv \<Rightarrow> Config \<Rightarrow> PrivateIncoming \<Rightarrow> Relay \<Rightarrow> SyncSet \<Rightarrow> (string \<times> string) option" where
  "source_of v cfg inc r s =
     (case find (\<lambda>alias. ce_ConnectionID (endpoint_of cfg alias) = pn_ConnectionID inc \<and>
           ce_Transport (endpoint_of cfg alias) = pn_Transport inc \<and> observedSourceActor v r alias inc \<noteq> [])
         (sort (set_Endpoints s)) of
        None \<Rightarrow> None | Some alias \<Rightarrow> Some (alias, observedSourceActor v r alias inc))"

definition new_mapping ::
  "RelayEnv \<Rightarrow> Config \<Rightarrow> PrivateIncoming \<Rightarrow> SyncSet \<Rightarrow> string \<times> string \<Rightarrow> AliasRecord \<Rightarrow> string \<times> PrivateInbox \<Rightarrow> string
     \<Rightarrow> PrivateDMMapping" where
  "new_mapping v cfg inc s source ref route conversation =
     \<lparr>dm_AuthorMessageID = [], dm_ConversationID = hex_encode conversation, dm_SyncSetID = set_ID s,
      dm_Author = \<lparr>sd_Endpoint = fst source, sd_Binding = endpointBinding v (endpoint_of cfg (fst source)),
        sd_ActorID = snd source, sd_Inbox = pn_Inbox inc\<rparr>,
      dm_Recipient = \<lparr>sd_Endpoint = fst route, sd_Binding = endpointBinding v (endpoint_of cfg (fst route)),
        sd_ActorID = ar_ActorID ref, sd_Inbox = snd route\<rparr>\<rparr>"

definition draw_conversation :: "RelayEnv \<Rightarrow> Relay \<Rightarrow> string option \<times> Relay" where
  "draw_conversation v r =
     (sl_random (rv_Sealing v) (pd_drawn (rl_State r)) 16,
      r\<lparr>rl_State := (rl_State r)\<lparr>pd_drawn := pd_drawn (rl_State r) + 1\<rparr>\<rparr>)"

definition address_command :: "RelayEnv \<Rightarrow> Config \<Rightarrow> PrivateIncoming \<Rightarrow> string \<Rightarrow> Relay \<Rightarrow> request \<times> Relay" where
  "address_command v cfg inc text r =
     (case match_command text of
        None \<Rightarrow> (Refuse ''Invalid /dm command.'', r)
      | Some (token, body) \<Rightarrow>
          if trim_space body = [] \<or> matches_somewhere match_reference None body
          then (Refuse ''Invalid /dm command.'', r)
          else case ResolveParticipantReference (rl_Sync r) token of
            Inl e \<Rightarrow> (RefuseAlias e, r)
          | Inr ref \<Rightarrow>
              (case findSetByID cfg (ar_SyncSetID ref) of
                 None \<Rightarrow> (Refuse unavailable, r)
               | Some s \<Rightarrow>
                   if \<not> ss_PrivateDMRelayEnabled (SettingsForSet cfg s) then (Refuse unavailable, r)
                   else case source_of v cfg inc r s of
                     None \<Rightarrow> (Refuse unavailable, r)
                   | Some source \<Rightarrow>
                       if incomingActor inc (ar_ActorID ref) then (Refuse unavailable, r)
                       else case AliasByActor (rl_Sync r) (set_ID s) (snd source) of
                         Inl e \<Rightarrow> (RefuseAlias e, r)
                       | Inr _ \<Rightarrow>
                           (case recipientRoute v cfg r ref of
                              Inl e \<Rightarrow> (Fail e, r)
                            | Inr None \<Rightarrow> (Refuse unavailable, r)
                            | Inr (Some route) \<Rightarrow>
                                if sameInbox (snd route) (pn_Inbox inc) then (Refuse unavailable, r)
                                else (case draw_conversation v r of
                                  (None, r) \<Rightarrow> (Fail (ErrMsg ''generate private conversation ID''), r)
                                | (Some conversation, r) \<Rightarrow>
                                    (Relay_to (new_mapping v cfg inc s source ref route conversation) body [], r)))))"

text \<open>A reply goes back the way of the message it answers.\<close>

definition address_reply :: "RelayEnv \<Rightarrow> PrivateIncoming \<Rightarrow> string \<Rightarrow> Relay \<Rightarrow> request" where
  "address_reply v inc text r =
     (if has_prefix text ''/'' \<or> text = [] \<or> pn_ReplyToMessageID inc = [] then Refuse []
      else case Reply (rv_Sealing v) (pn_Inbox inc) (pn_ReplyToMessageID inc) (rv_now v) (rl_State r) of
        Inl e \<Rightarrow> Fail e
      | Inr None \<Rightarrow> Refuse []
      | Inr (Some previous) \<Rightarrow>
          if \<not> incomingActor inc (sd_ActorID (dm_Recipient previous)) \<or>
             \<not> sameInbox (sd_Inbox (dm_Recipient previous)) (pn_Inbox inc) then Refuse []
          else Relay_to
            \<lparr>dm_AuthorMessageID = [], dm_ConversationID = dm_ConversationID previous,
             dm_SyncSetID = dm_SyncSetID previous, dm_Author = dm_Recipient previous,
             dm_Recipient = dm_Author previous\<rparr>
            text (dm_AuthorMessageID previous))"

subsection \<open>Sending\<close>

definition attribution_of :: "Config \<Rightarrow> PrivateIncoming \<Rightarrow> PrivateDMMapping \<Rightarrow> string \<Rightarrow> string" where
  "attribution_of cfg inc m alias =
     (let name = join '' '' (go_fields (sanitize (pn_DisplayName inc)));
          author = sd_Endpoint (dm_Author m);
          to_discord = (case findSetByID cfg (dm_SyncSetID m) of None \<Rightarrow> False | Some s \<Rightarrow> set_AnonymizeToDiscord s);
          anonymized = (ce_AnonymizeOutgoing (endpoint_of cfg author) \<or>
            ce_AnonymizeIncoming (endpoint_of cfg (sd_Endpoint (dm_Recipient m))) \<or>
            pi_Transport (sd_Inbox (dm_Recipient m)) = ''discord'' \<and> to_discord)
      in if name \<noteq> [] \<and> \<not> anonymized then author @ ''/'' @ name @ '' ('' @ alias @ '')''
         else author @ ''/'' @ alias)"

definition private_text :: "string \<Rightarrow> string \<Rightarrow> string" where
  "private_text attribution body =
     ''DM from '' @ attribution @ [CHR 0x0A] @ body @ [CHR 0x0A] @ ''Reply to this message to respond privately.''"

definition failed_send :: "terr \<Rightarrow> string" where
  "failed_send err =
     (let failure = Classify (Some err) in
      if Certainty failure = SendUnknown \<and> Class failure = FailureTransient
      then ''Delivery could not be confirmed. Do not automatically resend.''
      else ''Private delivery unavailable. The recipient must allow DMs and Telegram recipients must first '' @
        ''/start this bot.'')"

definition deliver_private ::
  "RelayEnv \<Rightarrow> Config \<Rightarrow> PrivateIncoming \<Rightarrow> PrivateDMMapping \<Rightarrow> string \<Rightarrow> string \<Rightarrow> string \<Rightarrow> Relay \<Rightarrow> gerr option \<times> Relay" where
  "deliver_private v cfg inc m alias body replyTo r =
     (let attribution = attribution_of cfg inc m alias;
          inbox = sd_Inbox (dm_Recipient m);
          text = private_text attribution body;
          options = [\<lparr>ps_ReplyToMessageID = replyTo, ps_Attribution = attribution\<rparr>];
          r = log_call (AskSend inbox text options) r
      in case pm_SendPrivate (rv_Runtime v) inbox text options of
        Inl err \<Rightarrow> relay_help v (pn_Inbox inc) (failed_send err) r
      | Inr result \<Rightarrow>
          if pr_RemoteMessageID result = [] then
            relay_help v (pn_Inbox inc) ''Delivery could not be confirmed. Do not automatically resend.'' r
          else case PutReply (rv_Sealing v) (pr_RemoteMessageID result)
              (m\<lparr>dm_AuthorMessageID := pn_RemoteMessageID inc\<rparr>) (rv_later v) (rl_State r) of
            (Some e, db) \<Rightarrow>
              (Some e, snd (relay_help v (pn_Inbox inc) ''The provider accepted the message, but replies are unavailable.''
                (r\<lparr>rl_State := db\<rparr>)))
          | (None, db) \<Rightarrow>
              queue_copy v (pr_LocalCopy result) (rv_later v + PrivateDMReplyTTL) (rv_later v) (r\<lparr>rl_State := db\<rparr>))"

definition relay_text ::
  "RelayEnv \<Rightarrow> Config \<Rightarrow> PrivateIncoming \<Rightarrow> PrivateDMMapping \<Rightarrow> string \<Rightarrow> string \<Rightarrow> Relay \<Rightarrow> gerr option \<times> Relay" where
  "relay_text v cfg inc m text replyTo r =
     (if MaxBodyBytes < length text \<or> \<not> authorized v cfg r m then
        relay_help v (pn_Inbox inc)
          ''Delivery unavailable, authorization expired, or message exceeds 1600 UTF-8 bytes.'' r
      else case permit_relay (''set:'' @ dm_SyncSetID m) (rv_now v) 100 r of
        (False, r) \<Rightarrow> relay_help v (pn_Inbox inc) ''Private messaging rate limit reached. Try again later.'' r
      | (True, r) \<Rightarrow>
          if \<not> ReplyCapacity (rl_State r) then
            relay_help v (pn_Inbox inc) ''Private messaging capacity reached. Try again later.'' r
          else
            let body = sanitize text in
            if MaxBodyBytes < length body then
              relay_help v (pn_Inbox inc) ''Sanitized message exceeds 1600 UTF-8 bytes.'' r
            else if trim_space body = [] then relay_help v (pn_Inbox inc) [] r
            else case AliasByActor (rl_Sync r) (dm_SyncSetID m) (sd_ActorID (dm_Author m)) of
              Inl e \<Rightarrow> aliasFailure v (pn_Inbox inc) e r
            | Inr alias \<Rightarrow> deliver_private v cfg inc m alias body replyTo r)"

definition handle_request :: "RelayEnv \<Rightarrow> Config \<Rightarrow> PrivateIncoming \<Rightarrow> request \<times> Relay \<Rightarrow> gerr option \<times> Relay" where
  "handle_request v cfg inc p =
     (case p of (request, r) \<Rightarrow>
       (case request of
          Refuse prefix \<Rightarrow> relay_help v (pn_Inbox inc) prefix r
        | RefuseAlias e \<Rightarrow> aliasFailure v (pn_Inbox inc) e r
        | Fail e \<Rightarrow> (Some e, r)
        | Relay_to m text replyTo \<Rightarrow> relay_text v cfg inc m text replyTo r))"

subsection \<open>Handling a message\<close>

definition handle_accepted :: "RelayEnv \<Rightarrow> Config \<Rightarrow> PrivateIncoming \<Rightarrow> Relay \<Rightarrow> gerr option \<times> Relay" where
  "handle_accepted v cfg inc r =
     (case observe_sender v cfg inc r of
        (Some e, r) \<Rightarrow> (Some e, r)
      | (None, r) \<Rightarrow>
          let text = trim_space (pn_Text inc) in
          if pn_Kind inc = ''text'' \<and> asks_help inc text then
            sendHelp v (pn_Inbox inc) (help_text v cfg inc r) r
          else if pn_Kind inc \<noteq> ''text'' \<or> \<not> valid_utf8 text \<or> 4096 < int (length text) \<or> asks_help inc text then
            relay_help v (pn_Inbox inc) [] r
          else handle_request v cfg inc
            (if is_command text then address_command v cfg inc text r else (address_reply v inc text r, r)))"

definition ignored :: "RelayEnv \<Rightarrow> PrivateIncoming \<Rightarrow> bool" where
  "ignored v inc =
     (pn_FromSelf inc \<or> pn_Kind inc \<noteq> ''text'' \<and> pn_Kind inc \<noteq> ''unsupported'' \<or>
      pn_ConnectionID inc = [] \<or> pn_ConnectionID inc \<noteq> pi_ConnectionID (pn_Inbox inc) \<or>
      pn_Transport inc \<noteq> pi_Transport (pn_Inbox inc) \<or> pi_OwnerID (pn_Inbox inc) = [] \<or>
      pi_ChatID (pn_Inbox inc) = [] \<or> length (pi_Token (pn_Inbox inc)) = 0 \<or> pn_ActorID inc = [] \<or>
      pn_RemoteMessageID inc = [] \<or>
      (case pn_Timestamp inc of
         None \<Rightarrow> False
       | Some t \<Rightarrow> PrivateDMReplyTTL \<le> rv_now v - t \<or> rv_now v + 5 * 60 * 1000 < t))"

text \<open>Whether the relay may look at a chat: a WhatsApp chat is a personal one unless it is known.\<close>

definition known_chat :: "RelayEnv \<Rightarrow> Config \<Rightarrow> PrivateIncoming \<Rightarrow> Relay \<Rightarrow> bool result" where
  "known_chat v cfg inc r =
     (if pn_Transport inc \<noteq> ''whatsapp'' \<or> has_prefix (trim_space (pn_Text inc)) ''/'' then Inr True
      else
        let observed = list_ex (\<lambda>alias. observedSourceActor v r alias inc \<noteq> []) (relay_endpoints cfg inc) in
        if pn_ReplyToMessageID inc = [] then Inr observed
        else case Reply (rv_Sealing v) (pn_Inbox inc) (pn_ReplyToMessageID inc) (rv_now v) (rl_State r) of
          Inl e \<Rightarrow> Inl e
        | Inr None \<Rightarrow> Inr observed
        | Inr (Some previous) \<Rightarrow>
            Inr (incomingActor inc (sd_ActorID (dm_Recipient previous)) \<and>
                 sameInbox (sd_Inbox (dm_Recipient previous)) (pn_Inbox inc) \<or> observed))"

text \<open>The two limits of every message, the second only when the first permits it.\<close>

definition permit_message :: "RelayEnv \<Rightarrow> PrivateIncoming \<Rightarrow> Relay \<Rightarrow> bool \<times> Relay" where
  "permit_message v inc r =
     (case permit_relay (''actor:'' @ pn_ConnectionID inc @ '':'' @ pn_ActorID inc) (rv_now v) 10 r of
        (False, r) \<Rightarrow> (False, r)
      | (True, r) \<Rightarrow> permit_relay ''global'' (rv_now v) 50 r)"

definition admit :: "RelayEnv \<Rightarrow> Config \<Rightarrow> PrivateIncoming \<Rightarrow> Relay \<Rightarrow> bool result \<times> Relay" where
  "admit v cfg inc r =
     (case known_chat v cfg inc r of
        Inl e \<Rightarrow> (Inl e, r)
      | Inr known \<Rightarrow>
          if \<not> known then (Inr False, r)
          else case permit_message v inc r of
            (False, r) \<Rightarrow> (Inr False, r)
          | (True, r) \<Rightarrow>
              (case AcceptIncoming (rv_Sealing v) (pn_Inbox inc) (pn_RemoteMessageID inc) (rv_now v) (rl_State r) of
                 (accepted, db) \<Rightarrow> (accepted, r\<lparr>rl_State := db\<rparr>)))"

text \<open>The deferred call that queues the local copy keeps an error of the handler.\<close>

definition finish_message :: "RelayEnv \<Rightarrow> PrivateIncoming \<Rightarrow> gerr option \<times> Relay \<Rightarrow> gerr option \<times> Relay" where
  "finish_message v inc p =
     (case queue_copy v (pn_LocalCopy inc) (rv_now v) (rv_now v) (snd p) of
        (e, r) \<Rightarrow> (or_else (fst p) e, r))"

definition relay_Handle :: "RelayEnv \<Rightarrow> PrivateIncoming \<Rightarrow> Relay \<Rightarrow> gerr option \<times> Relay" where
  "relay_Handle v inc r =
     (if ignored v inc then (None, r)
      else case rv_LoadConfig v of
        Inl e \<Rightarrow> (Some (ErrMsg ''load private DM configuration''), r)
      | Inr cfg \<Rightarrow>
          if \<not> PrivateDMConnectionEnabled cfg (pn_ConnectionID inc) then (None, r)
          else case admit v cfg inc r of
            (Inl e, r) \<Rightarrow> (Some e, r)
          | (Inr False, r) \<Rightarrow> (None, r)
          | (Inr True, r) \<Rightarrow> finish_message v inc (handle_accepted v cfg inc r))"

subsection \<open>The sweep\<close>

fun sweep_loop :: "RelayEnv \<Rightarrow> PrivateDMCleanup list \<Rightarrow> bool \<Rightarrow> Relay \<Rightarrow> gerr option \<times> Relay" where
  "sweep_loop v [] failed r =
     ((if failed then Some (ErrMsg ''private local cleanup unavailable or failed'') else None), r)"
| "sweep_loop v (candidate # candidates) failed r =
     (if px_Transport (cu_Copy candidate) \<noteq> ''whatsapp'' then
        (Some (ErrMsg ''invalid private cleanup transport''), r)
      else case BeginCleanup candidate (rv_now v) (rl_State r) of
        (Inl e, db) \<Rightarrow> (Some e, r\<lparr>rl_State := db\<rparr>)
      | (Inr won, db) \<Rightarrow>
          let r = r\<lparr>rl_State := db\<rparr> in
          if \<not> won then sweep_loop v candidates failed r
          else
            let r = log_call (AskDelete (cu_Copy candidate)) r;
                err = pm_DeletePrivateCopyForMe (rv_Runtime v) (cu_Copy candidate)
            in case FinishCleanup candidate (err = None) (rl_State r) of
              (Some e, db) \<Rightarrow> (Some e, r\<lparr>rl_State := db\<rparr>)
            | (None, db) \<Rightarrow> sweep_loop v candidates (failed \<or> err \<noteq> None) (r\<lparr>rl_State := db\<rparr>))"

definition Sweep :: "RelayEnv \<Rightarrow> Relay \<Rightarrow> gerr option \<times> Relay" where
  "Sweep v r =
     (case Prune (rv_now v) 100 (rl_State r) of
        (Some e, db) \<Rightarrow> (Some e, r\<lparr>rl_State := db\<rparr>)
      | (None, db) \<Rightarrow>
          let r = r\<lparr>rl_State := db\<rparr> in
          (case DueCleanup (rv_Sealing v) (rv_now v) 100 db of
             Inl e \<Rightarrow> (Some e, r)
           | Inr candidates \<Rightarrow> sweep_loop v candidates False r))"

end
