(* ===== verification/PrivateSpec.thy ===== *)
theory PrivateSpec
  imports Relay "HOL-Library.Sublist"
begin

text \<open>
  What the private store promises: its tables stay well formed and within their limits, pruning removes every
  expired row and no other, and a reply finds the mapping that was put for it until it expires.
\<close>

subsection \<open>Pruning\<close>

lemma delete_first_subseq: "subseq (delete_first n P rows) rows"
  by (induction n P rows rule: delete_first.induct) (auto split: nat.split)

lemma delete_first_all:
  "length (filter P rows) \<le> n \<Longrightarrow> delete_first n P rows = filter (\<lambda>r. \<not> P r) rows"
  by (induction n P rows rule: delete_first.induct) (auto split: nat.split)

lemma delete_first_some:
  "n \<le> length (filter P rows) \<Longrightarrow>
    length (delete_first n P rows) + n = length rows \<and>
    length (filter P (delete_first n P rows)) + n = length (filter P rows) \<and>
    filter (\<lambda>r. \<not> P r) (delete_first n P rows) = filter (\<lambda>r. \<not> P r) rows"
  by (induction n P rows rule: delete_first.induct) (auto split: nat.split)

lemma prune_rows_subseq: "subseq (prune_rows batches limit P rows) rows"
proof (induction batches arbitrary: rows)
  case (Suc batches)
  then show ?case
    using delete_first_subseq [of limit P rows] by (auto simp: Let_def intro: subseq_order.trans)
qed simp

lemma prune_rows_keeps: "r \<in> set rows \<Longrightarrow> \<not> P r \<Longrightarrow> r \<in> set (prune_rows batches limit P rows)"
proof (induction batches arbitrary: rows)
  case (Suc batches)
  have "r \<in> set (delete_first limit P rows)"
  proof (cases "length (filter P rows) \<le> limit")
    case True
    then show ?thesis using Suc.prems by (simp add: delete_first_all)
  next
    case False
    then have "filter (\<lambda>r. \<not> P r) (delete_first limit P rows) = filter (\<lambda>r. \<not> P r) rows"
      by (intro delete_first_some [THEN conjunct2, THEN conjunct2]) simp
    moreover have "r \<in> set (filter (\<lambda>r. \<not> P r) rows)" using Suc.prems by simp
    ultimately have "r \<in> set (filter (\<lambda>r. \<not> P r) (delete_first limit P rows))" by simp
    then show ?thesis by simp
  qed
  then show ?case using Suc by (simp add: Let_def)
qed simp

lemma prune_rows_all:
  "length (filter P rows) \<le> batches * limit \<Longrightarrow> prune_rows batches limit P rows = filter (\<lambda>r. \<not> P r) rows"
proof (induction batches arbitrary: rows)
  case 0
  then show ?case by (simp add: filter_empty_conv)
next
  case (Suc batches)
  define rows' where "rows' = delete_first limit P rows"
  show ?case
  proof (cases "length (filter P rows) < limit")
    case True
    then have "rows' = filter (\<lambda>r. \<not> P r) rows" by (simp add: rows'_def delete_first_all)
    moreover have "length rows - length (filter (\<lambda>r. \<not> P r) rows) < limit"
      using True sum_length_filter_compl [of P rows] by simp
    ultimately show ?thesis by (simp add: rows'_def [symmetric] Let_def)
  next
    case False
    then have some: "length rows' + limit = length rows" "length (filter P rows') + limit = length (filter P rows)"
      "filter (\<lambda>r. \<not> P r) rows' = filter (\<lambda>r. \<not> P r) rows"
      using delete_first_some [of limit P rows] by (simp_all add: rows'_def)
    then have "prune_rows batches limit P rows' = filter (\<lambda>r. \<not> P r) rows'"
      using Suc.prems by (intro Suc.IH) simp
    moreover have "\<not> length rows - length rows' < limit"
      using some(1) by simp
    ultimately show ?thesis
      using some by (simp add: rows'_def [symmetric] Let_def)
  qed
qed

declare prune_rows.simps [simp del]

lemma prune_batches:
  assumes "int n \<le> privateDMRecordLimit"
  shows "n \<le> (nat privateDMRecordLimit div bounded_limit limit + 1) * bounded_limit limit"
proof -
  have "0 < bounded_limit limit" by (simp add: bounded_limit_def)
  then have "nat privateDMRecordLimit < (nat privateDMRecordLimit div bounded_limit limit + 1) * bounded_limit limit"
    using dividend_less_div_times by simp
  moreover have "n \<le> nat privateDMRecordLimit" using assms by simp
  ultimately show ?thesis by simp
qed

subsection \<open>Well-formed tables\<close>

definition private_ok :: "PrivateDB \<Rightarrow> bool" where
  "private_ok db =
     (keys_ok sr_LookupKey (pd_replies db) \<and> keys_ok se_LookupKey (pd_seen db) \<and>
      keys_ok sr_LookupKey (pd_inboxes db) \<and> keys_ok cl_Key (pd_cleanups db) \<and>
      int (length (pd_replies db)) \<le> privateDMRecordLimit \<and> int (length (pd_seen db)) \<le> privateDMRecordLimit \<and>
      int (length (pd_inboxes db)) \<le> 10000 \<and> int (length (pd_cleanups db)) \<le> privateDMRecordLimit \<and>
      list_all (\<lambda>r. 0 \<le> cl_Attempts r \<and> cl_Attempts r \<le> 3) (pd_cleanups db))"

lemma distinct_subseq: "subseq xs ys \<Longrightarrow> distinct ys \<Longrightarrow> distinct xs"
  by (induction rule: list_emb.induct) (auto dest: list_emb_set)

lemma keys_ok_prune: "keys_ok key rows \<Longrightarrow> keys_ok key (prune_rows batches limit P rows)"
  unfolding keys_ok_def by (metis prune_rows_subseq subseq_map distinct_subseq)

lemma length_prune: "length (prune_rows batches limit P rows) \<le> length rows"
  by (rule list_emb_length [OF prune_rows_subseq])

lemma list_all_prune: "list_all Q rows \<Longrightarrow> list_all Q (prune_rows batches limit P rows)"
  using prune_rows_subseq [of batches limit P rows] by (auto simp: list_all_iff dest: list_emb_set)

lemma keys_ok_snoc: "keys_ok key rows \<Longrightarrow> \<not> has_key key (key r) rows \<Longrightarrow> keys_ok key (rows @ [r])"
  by (auto simp: keys_ok_def)

lemma keys_ok_upsert_new: "keys_ok key rows \<Longrightarrow> keys_ok key (upsert key (\<lambda>new old. new) r rows)"
  by (auto simp: keys_ok_def upsert_def update_where_def o_def if_distrib cong: if_cong)

lemma Encrypt_frame:
  "Encrypt sl db plain = (x, db') \<Longrightarrow> db' = db\<lparr>pd_drawn := pd_drawn db + 1\<rparr>"
  by (auto simp: Encrypt_def split: option.splits)

lemma private_ok_drawn [simp]: "private_ok (db\<lparr>pd_drawn := n\<rparr>) = private_ok db"
  by (simp add: private_ok_def)

lemma full_iff: "\<not> full limit rows \<longleftrightarrow> int (length rows) < limit"
  by (auto simp: full_def)

lemmas keys_ok_snoc_row = keys_ok_append [THEN iffD2, OF conjI]

lemma PutReply_ok: "private_ok db \<Longrightarrow> private_ok (snd (PutReply sl messageID m now db))"
  by (auto simp: PutReply_def Let_def private_ok_def full_def split: prod.split sum.split dest!: Encrypt_frame)

lemma AcceptIncoming_ok: "private_ok db \<Longrightarrow> private_ok (snd (AcceptIncoming sl inbox messageID now db))"
  by (auto simp: AcceptIncoming_def Let_def private_ok_def full_def)

lemma QueueCleanup_ok: "private_ok db \<Longrightarrow> private_ok (snd (QueueCleanup sl copy after now db))"
  by (auto simp: QueueCleanup_def Let_def private_ok_def full_def split: prod.split sum.split dest!: Encrypt_frame)

lemma length_upsert_new:
  "length (upsert key upd r rows) = (if has_key key (key r) rows then length rows else Suc (length rows))"
  by (simp add: upsert_def)

lemma ObserveInbox_ok: "private_ok db \<Longrightarrow> private_ok (snd (ObserveInbox sl actor inbox now db))"
  by (auto simp: ObserveInbox_def Let_def private_ok_def full_def length_upsert_new keys_ok_upsert_new
      split: prod.split sum.split dest!: Encrypt_frame simp del: has_key_iff)

lemma BeginCleanup_ok: "private_ok db \<Longrightarrow> private_ok (snd (BeginCleanup candidate now db))"
  unfolding BeginCleanup_def private_ok_def
  by (auto simp: claimable_def list_all_iff update_where_def intro!: keys_ok_update [unfolded update_where_def])

lemma delete_where_shorter: "length (delete_where P rows) \<le> length rows"
  by (simp add: delete_where_def)

lemma FinishCleanup_ok: "private_ok db \<Longrightarrow> private_ok (snd (FinishCleanup candidate succeeded db))"
  using delete_where_shorter [of "\<lambda>r. cl_Key r = cu_Key candidate" "pd_cleanups db"]
  by (auto simp: FinishCleanup_def private_ok_def list_all_iff)

lemma length_prune_le: "int (length rows) \<le> n \<Longrightarrow> int (length (prune_rows batches limit P rows)) \<le> n"
  using length_prune [of batches limit P rows] by simp

lemma Prune_ok: "private_ok db \<Longrightarrow> private_ok (snd (Prune now limit db))"
  using length_prune_le [of "pd_inboxes db" 10000]
  by (simp add: Prune_def Let_def private_ok_def keys_ok_prune length_prune_le list_all_prune)

lemma prune_rows_table:
  assumes "int (length rows) \<le> privateDMRecordLimit"
  shows "prune_rows (Suc (nat privateDMRecordLimit div bounded_limit limit)) (bounded_limit limit) P rows
    = filter (\<lambda>r. \<not> P r) rows"
proof (rule prune_rows_all)
  have "int (length (filter P rows)) \<le> privateDMRecordLimit"
    using assms length_filter_le [of P rows] by linarith
  then show "length (filter P rows)
      \<le> Suc (nat privateDMRecordLimit div bounded_limit limit) * bounded_limit limit"
    using prune_batches [of "length (filter P rows)" limit] by simp
qed

text \<open>
  Pruning with any limit removes from every table of the private relay exactly the rows that have expired:
  the batches never stop early, as no table holds more rows than the record limit.
\<close>

theorem prune_removes_exactly_expired:
  assumes "private_ok db" and "pd_open db"
  shows "Prune now limit db = (None, db\<lparr>
    pd_replies := filter (\<lambda>r. now < sr_ExpiresAt r) (pd_replies db),
    pd_seen := filter (\<lambda>r. now < se_ExpiresAt r) (pd_seen db),
    pd_cleanups := filter (\<lambda>r. now < cl_ExpiresAt r) (pd_cleanups db),
    pd_inboxes := filter (\<lambda>r. now < sr_ExpiresAt r) (pd_inboxes db)\<rparr>)"
proof -
  have "int (length (pd_inboxes db)) \<le> privateDMRecordLimit"
    using assms(1) by (simp add: private_ok_def privateDMRecordLimit_def)
  then show ?thesis
    using assms by (simp add: Prune_def Let_def private_ok_def prune_rows_table not_le)
qed

definition sample_seen :: PrivateDB where
  "sample_seen =
     \<lparr>pd_open = True, pd_drawn = 0, pd_replies = [],
      pd_seen = [\<lparr>se_LookupKey = ''a'', se_ExpiresAt = 10\<rparr>, \<lparr>se_LookupKey = ''b'', se_ExpiresAt = 20\<rparr>],
      pd_inboxes = [], pd_cleanups = []\<rparr>"

theorem prune_removes_exactly_expired_witness:
  "Prune 15 100 sample_seen = (None, sample_seen\<lparr>pd_seen := [\<lparr>se_LookupKey = ''b'', se_ExpiresAt = 20\<rparr>]\<rparr>)"
proof -
  have "private_ok sample_seen" "pd_open sample_seen"
    by (simp_all add: private_ok_def sample_seen_def privateDMRecordLimit_def keys_ok_def)
  from prune_removes_exactly_expired [OF this, of 15 100] show ?thesis
    by (simp add: sample_seen_def)
qed

subsection \<open>Replies\<close>

text \<open>
  What the Go library promises: an opened text is the one that was sealed, a decoded mapping the one that was
  encoded, and the random source gives as many bytes as it was asked for.
\<close>

definition sound_sealing :: "Sealing \<Rightarrow> bool" where
  "sound_sealing sl =
     ((\<forall>nonce plain. sl_open sl nonce (sl_seal sl nonce plain) = Some plain) \<and>
      (\<forall>m. sl_unmapping sl (sl_mapping sl m) = Some m) \<and>
      (\<forall>n k b. sl_random sl n k = Some b \<longrightarrow> length b = k))"

lemma PutReply_row:
  assumes "PutReply sl messageID m now db = (None, db')"
  obtains nonce where
    "sl_random sl (pd_drawn db) 12 = Some nonce"
    "pd_open db" "\<not> has_key sr_LookupKey (inboxKey sl ''reply'' (sd_Inbox (dm_Recipient m)) messageID) (pd_replies db)"
    "db' = db\<lparr>pd_drawn := pd_drawn db + 1, pd_replies := pd_replies db @
      [\<lparr>sr_LookupKey = inboxKey sl ''reply'' (sd_Inbox (dm_Recipient m)) messageID,
        sr_Ciphertext = sl_seal sl nonce (sl_mapping sl m), sr_Nonce = nonce,
        sr_ExpiresAt = now + PrivateDMReplyTTL\<rparr>]\<rparr>"
  using assms that
  by (auto simp: PutReply_def Encrypt_def Let_def simp del: has_key_iff split: if_split_asm option.split_asm)

lemma Decrypt_sealed:
  assumes "sound_sealing sl" "sl_random sl n 12 = Some nonce"
  shows "Decrypt sl (sl_seal sl nonce plain) nonce = Inr plain"
  using assms by (auto simp: sound_sealing_def Decrypt_def)

lemma find_snoc: "find P (xs @ [x]) = (case find P xs of Some y \<Rightarrow> Some y | None \<Rightarrow> if P x then Some x else None)"
  by (induction xs) auto

text \<open>
  C30: A reply finds what was put for it: after a mapping has been stored for a sent message, a reply to it in the
  recipient's inbox finds that mapping for 24 hours and then nothing; a reply to any other message or in any other
  inbox, whose lookup keys do not collide, finds what it found before.
\<close>

theorem reply_finds_its_mapping:
  assumes "sound_sealing sl" and "PutReply sl messageID m now db = (None, db')"
    and "inboxKey sl ''reply'' inbox messageID' = inboxKey sl ''reply'' (sd_Inbox (dm_Recipient m)) messageID \<Longrightarrow>
      inbox_parts inbox messageID' = inbox_parts (sd_Inbox (dm_Recipient m)) messageID"
  shows "Reply sl inbox messageID' t db' =
    (if inbox_parts inbox messageID' = inbox_parts (sd_Inbox (dm_Recipient m)) messageID
     then Inr (if t < now + PrivateDMReplyTTL then Some m else None)
     else Reply sl inbox messageID' t db)"
proof -
  define key where "key = inboxKey sl ''reply'' inbox messageID'"
  obtain nonce where put: "sl_random sl (pd_drawn db) 12 = Some nonce" "pd_open db"
    "\<not> has_key sr_LookupKey (inboxKey sl ''reply'' (sd_Inbox (dm_Recipient m)) messageID) (pd_replies db)"
    "db' = db\<lparr>pd_drawn := pd_drawn db + 1, pd_replies := pd_replies db @
      [\<lparr>sr_LookupKey = inboxKey sl ''reply'' (sd_Inbox (dm_Recipient m)) messageID,
        sr_Ciphertext = sl_seal sl nonce (sl_mapping sl m), sr_Nonce = nonce,
        sr_ExpiresAt = now + PrivateDMReplyTTL\<rparr>]\<rparr>"
    using PutReply_row [OF assms(2)] .
  have decode: "sl_unmapping sl (sl_mapping sl m) = Some m"
    using assms(1) by (simp add: sound_sealing_def)
  show ?thesis
  proof (cases "inbox_parts inbox messageID' = inbox_parts (sd_Inbox (dm_Recipient m)) messageID")
    case True
    then have same: "key = inboxKey sl ''reply'' (sd_Inbox (dm_Recipient m)) messageID"
      by (simp add: key_def inboxKey_def)
    then have none: "find (\<lambda>r. sr_LookupKey r = key \<and> t < sr_ExpiresAt r) (pd_replies db) = None"
      using put(3) by (force simp: find_None_iff)
    have "Reply sl inbox messageID' t db' = Inr (if t < now + PrivateDMReplyTTL then Some m else None)"
      using put(2) none
      by (simp add: Reply_def put(4) open_row_def key_def [symmetric] same [symmetric] find_snoc
          Decrypt_sealed [OF assms(1) put(1)] decode)
    with True show ?thesis by simp
  next
    case False
    then have "key \<noteq> inboxKey sl ''reply'' (sd_Inbox (dm_Recipient m)) messageID"
      using assms(3) by (auto simp: key_def)
    then have "Reply sl inbox messageID' t db' = Reply sl inbox messageID' t db"
      using put(2) by (simp add: Reply_def put(4) open_row_def key_def [symmetric] find_snoc split: option.split)
    with False show ?thesis by simp
  qed
qed

subsection \<open>A sound sealing\<close>

text \<open>A simple instance of the parameter: strings are written with a mark before each character and one at the end.\<close>

fun write_string :: "string \<Rightarrow> string" where
  "write_string [] = ''.''"
| "write_string (c # cs) = CHR ''+'' # c # write_string cs"

fun read_string :: "string \<Rightarrow> (string \<times> string) option" where
  "read_string (m # s) =
     (if m = CHR ''.'' then Some ([], s)
      else case s of
        [] \<Rightarrow> None
      | c # s' \<Rightarrow> (case read_string s' of None \<Rightarrow> None | Some (cs, rest) \<Rightarrow> Some (c # cs, rest)))"
| "read_string [] = None"

fun read_strings :: "nat \<Rightarrow> string \<Rightarrow> string list option" where
  "read_strings 0 s = Some []"
| "read_strings (Suc n) s =
     (case read_string s of
        None \<Rightarrow> None
      | Some (x, rest) \<Rightarrow> (case read_strings n rest of None \<Rightarrow> None | Some xs \<Rightarrow> Some (x # xs)))"

definition write_strings :: "string list \<Rightarrow> string" where
  "write_strings xs = concat (map write_string xs)"

lemma read_write_string: "read_string (write_string x @ rest) = Some (x, rest)"
  by (induction x) simp_all

lemma read_write_strings: "read_strings (length xs) (write_strings xs) = Some xs"
  by (induction xs) (simp_all add: write_strings_def read_write_string)

definition inbox_strings :: "PrivateInbox \<Rightarrow> string list" where
  "inbox_strings i = [pi_ConnectionID i, pi_Transport i, pi_OwnerID i, pi_ChatID i, pi_Token i]"

definition side_strings :: "PrivateDMSide \<Rightarrow> string list" where
  "side_strings d = [sd_Endpoint d, sd_Binding d, sd_ActorID d] @ inbox_strings (sd_Inbox d)"

definition mapping_strings :: "PrivateDMMapping \<Rightarrow> string list" where
  "mapping_strings m =
     [dm_AuthorMessageID m, dm_ConversationID m, dm_SyncSetID m] @ side_strings (dm_Author m) @
       side_strings (dm_Recipient m)"

definition strings_side :: "string list \<Rightarrow> PrivateDMSide" where
  "strings_side xs =
     \<lparr>sd_Endpoint = xs ! 0, sd_Binding = xs ! 1, sd_ActorID = xs ! 2,
      sd_Inbox = \<lparr>pi_ConnectionID = xs ! 3, pi_Transport = xs ! 4, pi_OwnerID = xs ! 5, pi_ChatID = xs ! 6,
        pi_Token = xs ! 7\<rparr>\<rparr>"

definition strings_mapping :: "string list \<Rightarrow> PrivateDMMapping" where
  "strings_mapping xs =
     \<lparr>dm_AuthorMessageID = xs ! 0, dm_ConversationID = xs ! 1, dm_SyncSetID = xs ! 2,
      dm_Author = strings_side (take 8 (drop 3 xs)), dm_Recipient = strings_side (drop 11 xs)\<rparr>"

definition part_string :: "key_part \<Rightarrow> string" where
  "part_string p = (case p of PartString x \<Rightarrow> ''s'' @ write_string x | PartBytes x \<Rightarrow> ''b'' @ write_string x)"

definition sample_sealing :: Sealing where
  "sample_sealing =
     \<lparr>sl_mac = (\<lambda>m. m), sl_parts = (\<lambda>ps. concat (map part_string ps)), sl_seal = (\<lambda>nonce plain. plain),
      sl_open = (\<lambda>nonce c. Some c), sl_mapping = (\<lambda>m. write_strings (mapping_strings m)),
      sl_unmapping = (\<lambda>s. map_option strings_mapping (read_strings 19 s)), sl_inbox = (\<lambda>i. []),
      sl_uninbox = (\<lambda>s. None), sl_copy = (\<lambda>c. []), sl_uncopy = (\<lambda>s. None),
      sl_random = (\<lambda>n k. Some (replicate k CHR 0x00))\<rparr>"

lemma sound_sample_sealing: "sound_sealing sample_sealing"
proof -
  have "read_strings 19 (write_strings (mapping_strings m)) = Some (mapping_strings m)" for m
  proof -
    have "length (mapping_strings m) = 19"
      by (simp add: mapping_strings_def side_strings_def inbox_strings_def)
    then show ?thesis using read_write_strings [of "mapping_strings m"] by (simp only:)
  qed
  moreover have "strings_mapping (mapping_strings m) = m" for m
    by (cases m; cases "dm_Author m"; cases "dm_Recipient m")
      (simp add: strings_mapping_def mapping_strings_def side_strings_def inbox_strings_def strings_side_def)
  ultimately show ?thesis
    by (simp add: sound_sealing_def sample_sealing_def)
qed

definition sample_side :: "string \<Rightarrow> string \<Rightarrow> PrivateDMSide" where
  "sample_side alias chat =
     \<lparr>sd_Endpoint = alias, sd_Binding = [], sd_ActorID = ''u_aaaaaaaaaa'',
      sd_Inbox = \<lparr>pi_ConnectionID = ''c'', pi_Transport = ''whatsapp'', pi_OwnerID = ''o'', pi_ChatID = chat,
        pi_Token = ''t''\<rparr>\<rparr>"

definition sample_mapping :: PrivateDMMapping where
  "sample_mapping =
     \<lparr>dm_AuthorMessageID = ''m1'', dm_ConversationID = ''k'', dm_SyncSetID = ''s'',
      dm_Author = sample_side ''left'' ''a'', dm_Recipient = sample_side ''right'' ''b''\<rparr>"

theorem reply_finds_its_mapping_witness:
  "Reply sample_sealing (sd_Inbox (sample_side ''right'' ''b'')) ''m2'' 7
     (snd (PutReply sample_sealing ''m2'' sample_mapping 5 sample_seen)) = Inr (Some sample_mapping)"
proof -
  have put: "PutReply sample_sealing ''m2'' sample_mapping 5 sample_seen =
      (None, snd (PutReply sample_sealing ''m2'' sample_mapping 5 sample_seen))"
    by (simp add: PutReply_def invalid_mapping_def Encrypt_def Let_def full_def privateDMRecordLimit_def
        sample_mapping_def sample_side_def sample_sealing_def sample_seen_def)
  have side: "sd_Inbox (dm_Recipient sample_mapping) = sd_Inbox (sample_side ''right'' ''b'')"
    by (simp add: sample_mapping_def)
  show ?thesis
    by (subst reply_finds_its_mapping [OF sound_sample_sealing put]) (simp_all add: side PrivateDMReplyTTL_def)
qed

end
