(* ===== verification/RelaySpec.thy ===== *)
theory RelaySpec
  imports PrivateSpec
begin

text \<open>
  What the private relay promises: it writes only to the author and, at most once and after it has checked both
  sides, to the recipient; it handles a message once in 24 hours; its tables stay well formed; and its rate limits
  hold in every minute.
\<close>

subsection \<open>What a call of the relay may do\<close>

text \<open>An answer to the author of a message, and a message sent on to its recipient.\<close>

definition answers :: "PrivateIncoming \<Rightarrow> relay_call \<Rightarrow> bool" where
  "answers inc c = (case c of AskSend inbox text options \<Rightarrow> inbox = pn_Inbox inc \<and> options = [] | AskDelete copy \<Rightarrow> False)"

definition forwards :: "RelayEnv \<Rightarrow> Store \<Rightarrow> PrivateIncoming \<Rightarrow> relay_call \<Rightarrow> bool" where
  "forwards v s inc c =
     (\<exists>cfg r m body attribution replyTo.
        rv_LoadConfig v = Inr cfg \<and> rl_Sync r = s \<and> authorized v cfg r m \<and>
        sameInbox (sd_Inbox (dm_Author m)) (pn_Inbox inc) \<and> incomingActor inc (sd_ActorID (dm_Author m)) \<and>
        length (sanitize body) \<le> MaxBodyBytes \<and>
        c = AskSend (sd_Inbox (dm_Recipient m)) (private_text attribution (sanitize body))
          [\<lparr>ps_ReplyToMessageID = replyTo, ps_Attribution = attribution\<rparr>])"

text \<open>
  \<open>moves v inc n\<close>: the store is not written, the messages seen stay, the tables stay well formed, and the calls
  made are answers or at most \<open>n\<close> messages sent on.
\<close>

definition moves :: "RelayEnv \<Rightarrow> PrivateIncoming \<Rightarrow> nat \<Rightarrow> Relay \<Rightarrow> Relay \<Rightarrow> bool" where
  "moves v inc n r r' =
     (rl_Sync r' = rl_Sync r \<and> set (pd_seen (rl_State r)) \<subseteq> set (pd_seen (rl_State r')) \<and>
      (private_ok (rl_State r) \<longrightarrow> private_ok (rl_State r')) \<and>
      (\<exists>new. rl_log r' = rl_log r @ new \<and> list_all (\<lambda>c. answers inc c \<or> forwards v (rl_Sync r) inc c) new \<and>
        length (filter (\<lambda>c. \<not> answers inc c) new) \<le> n))"

lemma moves_refl: "moves v inc n r r"
  by (simp add: moves_def)

lemma moves_trans [trans]:
  assumes "moves v inc n r r'" and "moves v inc k r' r''"
  shows "moves v inc (n + k) r r''"
proof -
  obtain new where new: "rl_log r' = rl_log r @ new" "list_all (\<lambda>c. answers inc c \<or> forwards v (rl_Sync r) inc c) new"
    "length (filter (\<lambda>c. \<not> answers inc c) new) \<le> n"
    using assms(1) by (auto simp: moves_def)
  obtain new' where new': "rl_log r'' = rl_log r' @ new'"
    "list_all (\<lambda>c. answers inc c \<or> forwards v (rl_Sync r) inc c) new'"
    "length (filter (\<lambda>c. \<not> answers inc c) new') \<le> k"
    using assms by (auto simp: moves_def)
  show ?thesis
    using assms new new' by (auto simp: moves_def intro!: exI [of _ "new @ new'"])
qed

lemma moves_quiet:
  assumes "moves v inc 0 r r'" and "moves v inc n r' r''"
  shows "moves v inc n r r''"
  using moves_trans [OF assms] by simp

lemma moves_state:
  assumes "set (pd_seen (rl_State r)) \<subseteq> set (pd_seen db)" "private_ok (rl_State r) \<Longrightarrow> private_ok db"
  shows "moves v inc n r (r\<lparr>rl_State := db\<rparr>)"
  using assms by (simp add: moves_def)

lemma moves_limits: "moves v inc n r (r\<lparr>rl_limits := limits\<rparr>)"
  by (simp add: moves_def)

subsection \<open>The messages seen\<close>

lemma seen_Encrypt: "Encrypt sl db plain = (x, db') \<Longrightarrow> pd_seen db' = pd_seen db"
  by (auto dest: Encrypt_frame)

lemma seen_QueueCleanup: "pd_seen (snd (QueueCleanup sl copy after now db)) = pd_seen db"
  by (auto simp: QueueCleanup_def Let_def split: prod.split sum.split dest: seen_Encrypt)

lemma seen_ObserveInbox: "pd_seen (snd (ObserveInbox sl actor inbox now db)) = pd_seen db"
  by (auto simp: ObserveInbox_def Let_def split: prod.split sum.split dest: seen_Encrypt)

lemma seen_PutReply: "pd_seen (snd (PutReply sl messageID m now db)) = pd_seen db"
  by (auto simp: PutReply_def Let_def split: prod.split sum.split dest: seen_Encrypt)

lemma seen_AcceptIncoming: "set (pd_seen db) \<subseteq> set (pd_seen (snd (AcceptIncoming sl inbox messageID now db)))"
  by (auto simp: AcceptIncoming_def Let_def)

subsection \<open>Answers\<close>

lemma moves_queue: "moves v inc n r (snd (queue_copy v' copy after now r))"
proof -
  have "snd (queue_copy v' copy after now r)
      = r\<lparr>rl_State := snd (QueueCleanup (rv_Sealing v') copy after now (rl_State r))\<rparr>"
    by (simp add: queue_copy_def split: prod.split)
  then show ?thesis
    by (simp add: moves_state seen_QueueCleanup QueueCleanup_ok)
qed

lemma moves_answer: "moves v inc 0 r (log_call (AskSend (pn_Inbox inc) text []) r)"
  by (simp add: moves_def log_call_def answers_def)

lemma moves_sendHelp: "moves v inc 0 r (snd (sendHelp v (pn_Inbox inc) text r))"
proof (cases "pm_SendPrivate (rv_Runtime v) (pn_Inbox inc) text []")
  case (Inl e)
  then show ?thesis by (simp add: sendHelp_def Let_def moves_answer)
next
  case (Inr result)
  then show ?thesis
    using moves_quiet [OF moves_answer moves_queue] by (simp add: sendHelp_def Let_def)
qed

lemma moves_help: "moves v inc 0 r (snd (relay_help v (pn_Inbox inc) p r))"
  by (simp add: relay_help_def moves_sendHelp)

lemma moves_aliasFailure: "moves v inc 0 r (snd (aliasFailure v (pn_Inbox inc) e r))"
  using moves_help [of v inc r unavailable]
  by (cases "relay_help v (pn_Inbox inc) unavailable r") (simp add: aliasFailure_def)

subsection \<open>Sending on\<close>

lemma moves_forward:
  assumes "forwards v (rl_Sync r) inc c"
  shows "moves v inc 1 r (log_call c r)"
  using assms by (simp add: moves_def log_call_def)

lemma moves_more: "moves v inc 0 r r' \<Longrightarrow> moves v inc n r r'"
  using moves_quiet moves_refl by blast

lemma moves_after: "moves v inc 1 r r' \<Longrightarrow> moves v inc 0 r' r'' \<Longrightarrow> moves v inc 1 r r''"
  using moves_trans [of v inc 1 r r' 0 r''] by simp

lemma moves_deliver:
  assumes "rv_LoadConfig v = Inr cfg" "authorized v cfg r m" "sameInbox (sd_Inbox (dm_Author m)) (pn_Inbox inc)"
    "incomingActor inc (sd_ActorID (dm_Author m))" "length (sanitize text) \<le> MaxBodyBytes"
  shows "moves v inc 1 r (snd (deliver_private v cfg inc m alias (sanitize text) replyTo r))"
proof -
  define attribution where "attribution = attribution_of cfg inc m alias"
  define options where "options = [\<lparr>ps_ReplyToMessageID = replyTo, ps_Attribution = attribution\<rparr>]"
  define c where "c = AskSend (sd_Inbox (dm_Recipient m)) (private_text attribution (sanitize text)) options"
  have sent: "moves v inc 1 r (log_call c r)"
  proof (rule moves_forward)
    show "forwards v (rl_Sync r) inc c"
      unfolding forwards_def c_def options_def using assms by blast
  qed
  show ?thesis
  proof (cases "pm_SendPrivate (rv_Runtime v) (sd_Inbox (dm_Recipient m)) (private_text attribution (sanitize text)) options")
    case (Inl e)
    then show ?thesis
      using moves_after [OF sent moves_help]
      by (simp add: deliver_private_def Let_def attribution_def options_def c_def)
  next
    case (Inr result)
    let ?m = "m\<lparr>dm_AuthorMessageID := pn_RemoteMessageID inc\<rparr>"
    obtain e db where put: "PutReply (rv_Sealing v) (pr_RemoteMessageID result) ?m (rv_later v) (rl_State r) = (e, db)"
      by force
    have stored: "moves v inc 0 (log_call c r) (log_call c r\<lparr>rl_State := db\<rparr>)"
    proof (rule moves_state)
      show "set (pd_seen (rl_State (log_call c r))) \<subseteq> set (pd_seen db)"
        using seen_PutReply [of "rv_Sealing v" "pr_RemoteMessageID result" ?m "rv_later v" "rl_State r"] put
        by (simp add: log_call_def)
      show "private_ok (rl_State (log_call c r)) \<Longrightarrow> private_ok db"
        using PutReply_ok [of "rl_State r" "rv_Sealing v" "pr_RemoteMessageID result" ?m "rv_later v"] put
        by (simp add: log_call_def)
    qed
    note after = moves_after [OF sent]
    show ?thesis
      using Inr put after [OF moves_help] after [OF moves_quiet [OF stored moves_help]]
        after [OF moves_quiet [OF stored moves_queue]]
      by (cases e) (simp_all add: deliver_private_def Let_def attribution_def options_def c_def log_call_def)
  qed
qed

lemma authorized_store: "rl_Sync r' = rl_Sync r \<Longrightarrow> authorized v cfg r' m = authorized v cfg r m"
proof -
  assume "rl_Sync r' = rl_Sync r"
  then have "is_participant r' = is_participant r"
    by (simp add: is_participant_def fun_eq_iff)
  then show ?thesis
    by (simp only: authorized_def authorized_side_def)
qed

lemma permit_relay_limits: "\<exists>limits. snd (permit_relay key now most r) = r\<lparr>rl_limits := limits\<rparr>"
  by (auto simp: permit_relay_def split: prod.split)

lemma moves_permit: "moves v inc n r (snd (permit_relay key now most r))"
  using permit_relay_limits [of key now most r] moves_limits by metis

lemma permit_relay_Sync [simp]: "rl_Sync (snd (permit_relay key now most r)) = rl_Sync r"
  using permit_relay_limits [of key now most r] by force

lemma moves_relay_text:
  assumes "rv_LoadConfig v = Inr cfg" "sameInbox (sd_Inbox (dm_Author m)) (pn_Inbox inc)"
    "incomingActor inc (sd_ActorID (dm_Author m))"
  shows "moves v inc 1 r (snd (relay_text v cfg inc m text replyTo r))"
proof (cases "MaxBodyBytes < length text \<or> \<not> authorized v cfg r m")
  case True
  then show ?thesis by (simp add: relay_text_def moves_more [OF moves_help])
next
  case False
  obtain ok r' where permit: "permit_relay (''set:'' @ dm_SyncSetID m) (rv_now v) 100 r = (ok, r')"
    by force
  then have r': "moves v inc 0 r r'" "rl_Sync r' = rl_Sync r"
    using moves_permit [of v inc 0 r] permit_relay_Sync by (metis snd_conv)+
  have authorized: "authorized v cfg r' m"
    using False authorized_store [OF r'(2)] by simp
  note helped = moves_more [OF moves_quiet [OF r'(1) moves_help], of 1]
  note failure = moves_more [OF moves_quiet [OF r'(1) moves_aliasFailure], of 1]
  have deliver: "moves v inc 1 r (snd (deliver_private v cfg inc m al (sanitize text) replyTo r'))"
    if "\<not> MaxBodyBytes < length (sanitize text)" for al
    using that by (intro moves_quiet [OF r'(1)] moves_deliver assms authorized) simp
  show ?thesis
    using False helped failure deliver
    by (cases ok) (simp_all add: relay_text_def permit [simplified] Let_def split: sum.split)
qed

subsection \<open>Whom a request names\<close>

text \<open>The author's side of a request is the chat of the message and an identity of its author.\<close>

definition own_side :: "PrivateIncoming \<Rightarrow> request \<Rightarrow> bool" where
  "own_side inc q =
     (case q of
        Relay_to m text replyTo \<Rightarrow>
          sameInbox (sd_Inbox (dm_Author m)) (pn_Inbox inc) \<and> incomingActor inc (sd_ActorID (dm_Author m))
      | _ \<Rightarrow> True)"

lemma find_found: "find P xs = Some x \<Longrightarrow> x \<in> set xs \<and> P x"
  by (induction xs) (auto split: if_splits)

lemma observed_is_incoming:
  assumes "observedSourceActor v r alias inc \<noteq> []"
  shows "incomingActor inc (observedSourceActor v r alias inc)"
proof -
  have "take 5 (pn_ActorID inc # pn_ActorAliases inc) = pn_ActorID inc # take 4 (pn_ActorAliases inc)"
    by (simp add: numeral_eq_Suc)
  then show ?thesis
    using assms find_found unfolding observedSourceActor_def incomingActor_def
    by (fastforce split: option.splits)
qed

lemma source_is_incoming: "source_of v cfg inc r s = Some source \<Longrightarrow> incomingActor inc (snd source)"
  using observed_is_incoming by (auto simp: source_of_def dest!: find_found split: option.splits)

lemma sameInbox_refl: "pi_ChatID inbox \<noteq> [] \<Longrightarrow> sameInbox inbox inbox"
  by (simp add: sameInbox_def)

lemma own_reply: "own_side inc (address_reply v inc text r)"
  by (auto simp: address_reply_def own_side_def split: sum.split option.split)

lemma own_mapping:
  assumes "pi_ChatID (pn_Inbox inc) \<noteq> []" "source_of v cfg inc r s = Some source"
  shows "own_side inc (Relay_to (new_mapping v cfg inc s source ref route conversation) body [])"
  using assms by (simp add: own_side_def new_mapping_def sameInbox_refl source_is_incoming)

lemma own_command:
  assumes "pi_ChatID (pn_Inbox inc) \<noteq> []"
  shows "own_side inc (fst (address_command v cfg inc text r))"
  unfolding address_command_def
  using own_mapping [OF assms]
  by (auto simp: own_side_def split: option.split sum.split prod.split)

lemma draw_drawn: "\<exists>n. snd (draw_conversation v r) = r\<lparr>rl_State := (rl_State r)\<lparr>pd_drawn := n\<rparr>\<rparr>"
  by (auto simp: draw_conversation_def)

lemma command_state: "\<exists>n. snd (address_command v cfg inc text r) = r\<lparr>rl_State := (rl_State r)\<lparr>pd_drawn := n\<rparr>\<rparr>"
proof -
  have same: "\<exists>n. r = r\<lparr>rl_State := (rl_State r)\<lparr>pd_drawn := n\<rparr>\<rparr>"
    by (rule exI [of _ "pd_drawn (rl_State r)"]) simp
  have drawn: "draw_conversation v r = (x, r') \<Longrightarrow> \<exists>n. r' = r\<lparr>rl_State := (rl_State r)\<lparr>pd_drawn := n\<rparr>\<rparr>" for x r'
    using draw_drawn [of v r] by simp
  show ?thesis
    unfolding address_command_def using same drawn
    by (simp split: option.split sum.split prod.split)
qed

lemma moves_command: "moves v inc n r (snd (address_command v cfg inc' text r))"
proof -
  obtain k where "snd (address_command v cfg inc' text r) = r\<lparr>rl_State := (rl_State r)\<lparr>pd_drawn := k\<rparr>\<rparr>"
    using command_state by blast
  then show ?thesis by (simp add: moves_state)
qed

subsection \<open>A message\<close>

lemma moves_request:
  assumes "rv_LoadConfig v = Inr cfg" "own_side inc q" "moves v inc 0 r r'"
  shows "moves v inc 1 r (snd (handle_request v cfg inc (q, r')))"
proof (cases q)
  case (Refuse p)
  then show ?thesis
    using moves_more [OF moves_quiet [OF assms(3) moves_help]] by (simp add: handle_request_def)
next
  case (RefuseAlias e)
  then show ?thesis
    using moves_more [OF moves_quiet [OF assms(3) moves_aliasFailure]] by (simp add: handle_request_def)
next
  case (Fail e)
  then show ?thesis using moves_more [OF assms(3)] by (simp add: handle_request_def)
next
  case (Relay_to m body replyTo)
  then show ?thesis
    using moves_quiet [OF assms(3) moves_relay_text [OF assms(1)]] assms(2)
    by (simp add: handle_request_def own_side_def)
qed

lemma moves_observe: "moves v inc n r (snd (observe_sender v cfg inc' r))"
proof -
  obtain e db where db: "ObserveInbox (rv_Sealing v) (pn_ActorID inc') (pn_Inbox inc') (rv_now v) (rl_State r) = (e, db)"
    by force
  have "moves v inc n r (r\<lparr>rl_State := db\<rparr>)"
    using seen_ObserveInbox [of "rv_Sealing v" "pn_ActorID inc'" "pn_Inbox inc'" "rv_now v" "rl_State r"]
      ObserveInbox_ok [of "rl_State r" "rv_Sealing v" "pn_ActorID inc'" "pn_Inbox inc'" "rv_now v"] db
    by (intro moves_state) simp_all
  then show ?thesis
    by (simp add: observe_sender_def db moves_refl)
qed

lemma moves_accepted:
  assumes "rv_LoadConfig v = Inr cfg" "pi_ChatID (pn_Inbox inc) \<noteq> []"
  shows "moves v inc 1 r (snd (handle_accepted v cfg inc r))"
proof -
  obtain e r' where observe: "observe_sender v cfg inc r = (e, r')" by force
  then have r': "moves v inc 0 r r'"
    using moves_observe by (metis snd_conv)
  note answer = moves_more [OF moves_quiet [OF r' moves_sendHelp]] moves_more [OF moves_quiet [OF r' moves_help]]
  have command: "moves v inc 1 r (snd (handle_request v cfg inc (address_command v cfg inc body r')))" for body
  proof -
    have "own_side inc (fst (address_command v cfg inc body r'))"
      by (rule own_command [OF assms(2)])
    moreover have "moves v inc 0 r (snd (address_command v cfg inc body r'))"
      by (rule moves_quiet [OF r' moves_command])
    ultimately show ?thesis
      using moves_request [OF assms(1)] by (metis prod.collapse)
  qed
  have reply: "moves v inc 1 r (snd (handle_request v cfg inc (address_reply v inc body r', r')))" for body
    by (rule moves_request [OF assms(1) own_reply r'])
  show ?thesis
    using answer [of 1] command reply moves_more [OF r', of 1]
    by (cases e) (simp_all add: handle_accepted_def observe Let_def)
qed

lemma permit_message_limits: "\<exists>limits. snd (permit_message v inc r) = r\<lparr>rl_limits := limits\<rparr>"
proof -
  define key where "key = ''actor:'' @ pn_ConnectionID inc @ '':'' @ pn_ActorID inc"
  obtain ok r' where actor: "permit_relay key (rv_now v) 10 r = (ok, r')" by force
  then obtain limits where r': "r' = r\<lparr>rl_limits := limits\<rparr>"
    using permit_relay_limits [of key "rv_now v" 10 r] by auto
  obtain limits' where "snd (permit_relay ''global'' (rv_now v) 50 r') = r'\<lparr>rl_limits := limits'\<rparr>"
    using permit_relay_limits [of "''global''" "rv_now v" 50 r'] by auto
  then show ?thesis
    using actor r' by (cases ok) (auto simp: permit_message_def key_def)
qed

lemma admit_state:
  "\<exists>limits db. snd (admit v cfg inc r) = r\<lparr>rl_limits := limits, rl_State := db\<rparr> \<and>
     (db = rl_State r \<or>
      db = snd (AcceptIncoming (rv_Sealing v) (pn_Inbox inc) (pn_RemoteMessageID inc) (rv_now v) (rl_State r)))"
proof -
  have same: ?thesis if "snd (admit v cfg inc r) = r"
    using that by (intro exI [of _ "rl_limits r"] exI [of _ "rl_State r"]) simp
  obtain ok r' where permit: "permit_message v inc r = (ok, r')" by force
  then obtain limits where r': "r' = r\<lparr>rl_limits := limits\<rparr>"
    using permit_message_limits [of v inc r] by auto
  show ?thesis
  proof (cases "known_chat v cfg inc r = Inr True")
    case True
    show ?thesis
    proof (cases ok)
      case True
      with \<open>known_chat v cfg inc r = Inr True\<close> show ?thesis
        by (intro exI [of _ limits]
            exI [of _ "snd (AcceptIncoming (rv_Sealing v) (pn_Inbox inc) (pn_RemoteMessageID inc) (rv_now v) (rl_State r))"])
          (simp add: admit_def permit r' split: prod.split)
    next
      case False
      with \<open>known_chat v cfg inc r = Inr True\<close> show ?thesis
        by (intro exI [of _ limits] exI [of _ "rl_State r"]) (simp add: admit_def permit r')
    qed
  next
    case False
    then show ?thesis by (intro same) (auto simp: admit_def split: sum.split)
  qed
qed

lemma moves_admit: "moves v inc n r (snd (admit v cfg inc' r))"
proof -
  obtain limits db where db: "snd (admit v cfg inc' r) = r\<lparr>rl_limits := limits, rl_State := db\<rparr>"
    "db = rl_State r \<or>
     db = snd (AcceptIncoming (rv_Sealing v) (pn_Inbox inc') (pn_RemoteMessageID inc') (rv_now v) (rl_State r))"
    using admit_state by blast
  have "set (pd_seen (rl_State r)) \<subseteq> set (pd_seen db)" "private_ok (rl_State r) \<Longrightarrow> private_ok db"
    using db(2) seen_AcceptIncoming AcceptIncoming_ok by (elim disjE; simp)+
  then have "moves v inc n (r\<lparr>rl_limits := limits\<rparr>) (r\<lparr>rl_limits := limits, rl_State := db\<rparr>)"
    by (intro moves_state [of "r\<lparr>rl_limits := limits\<rparr>", simplified]) simp_all
  then show ?thesis
    using moves_quiet [OF moves_limits] db(1) by metis
qed

lemma moves_finish:
  assumes "moves v inc n r (snd p)"
  shows "moves v inc n r (snd (finish_message v inc p))"
  using moves_trans [OF assms moves_queue [of v inc 0]]
  by (simp add: finish_message_def split: prod.split) (metis snd_conv)

lemma moves_Handle: "moves v inc 1 r (snd (relay_Handle v inc r))"
proof (cases "ignored v inc")
  case True
  then show ?thesis by (simp add: relay_Handle_def moves_refl)
next
  case False
  then have chat: "pi_ChatID (pn_Inbox inc) \<noteq> []" by (simp add: ignored_def)
  show ?thesis
  proof (cases "rv_LoadConfig v")
    case (Inl e)
    then show ?thesis by (simp add: relay_Handle_def moves_refl)
  next
    case (Inr cfg)
    obtain a r' where admit: "admit v cfg inc r = (a, r')" by force
    then have r': "moves v inc n r r'" for n
      using moves_admit by (metis snd_conv)
    have "moves v inc 1 r (snd (finish_message v inc (handle_accepted v cfg inc r')))"
      using moves_finish [OF moves_quiet [OF r' moves_accepted [OF Inr chat]]] .
    then show ?thesis
      using False Inr r' by (simp add: relay_Handle_def moves_refl admit split: sum.split bool.split)
  qed
qed

text \<open>
  C7: The relay writes to no one it should not. Handling a private message only adds calls to the provider: answers
  in the chat the message came from, and at most one message sent on; that one carries a cleaned text of at most
  1600 bytes, its author is an identity of the message's author in the same chat, and both sides of its
  conversation passed the whole authorization: relay switched on, one sync set, current bindings, observed
  participants and inboxes verified by the provider.
\<close>

theorem private_message_is_authorized:
  "\<exists>new. rl_log (snd (relay_Handle v inc r)) = rl_log r @ new \<and>
     list_all (\<lambda>c. answers inc c \<or> forwards v (rl_Sync r) inc c) new \<and>
     length (filter (\<lambda>c. \<not> answers inc c) new) \<le> 1"
  using moves_Handle [of v inc r] by (auto simp: moves_def)

subsection \<open>The sweep\<close>

definition swept :: "int \<Rightarrow> Relay \<Rightarrow> Relay \<Rightarrow> bool" where
  "swept now r r' =
     ((\<forall>row \<in> set (pd_seen (rl_State r)). now < se_ExpiresAt row \<longrightarrow> row \<in> set (pd_seen (rl_State r'))) \<and>
      (private_ok (rl_State r) \<longrightarrow> private_ok (rl_State r')))"

lemma swept_state:
  assumes "pd_seen db = pd_seen (rl_State r)" "private_ok (rl_State r) \<Longrightarrow> private_ok db"
  shows "swept now r (r\<lparr>rl_State := db\<rparr>)"
  using assms by (simp add: swept_def)

lemma swept_refl: "swept now r r"
  by (simp add: swept_def)

lemma swept_trans: "swept now r r' \<Longrightarrow> swept now r' r'' \<Longrightarrow> swept now r r''"
  by (auto simp: swept_def)

lemma seen_BeginCleanup: "pd_seen (snd (BeginCleanup candidate now db)) = pd_seen db"
  by (simp add: BeginCleanup_def)

lemma seen_FinishCleanup: "pd_seen (snd (FinishCleanup candidate succeeded db)) = pd_seen db"
  by (simp add: FinishCleanup_def)

lemma swept_begin: "swept now r (r\<lparr>rl_State := snd (BeginCleanup candidate now' (rl_State r))\<rparr>)"
  by (simp add: swept_state seen_BeginCleanup BeginCleanup_ok)

lemma swept_finish: "swept now r (r\<lparr>rl_State := snd (FinishCleanup candidate succeeded (rl_State r))\<rparr>)"
  by (simp add: swept_state seen_FinishCleanup FinishCleanup_ok)

lemma swept_log: "swept now r (log_call c r)"
  by (simp add: swept_def log_call_def)

lemma swept_loop: "swept now r (snd (sweep_loop v candidates failed r))"
proof (induction candidates arbitrary: failed r)
  case Nil
  then show ?case by (simp add: swept_refl)
next
  case (Cons candidate candidates)
  obtain a db where begun: "BeginCleanup candidate (rv_now v) (rl_State r) = (a, db)" by force
  have begin': "swept now r (r\<lparr>rl_State := db\<rparr>)"
    using swept_begin [of now r candidate "rv_now v"] begun by simp
  define r1 where "r1 = log_call (AskDelete (cu_Copy candidate)) (r\<lparr>rl_State := db\<rparr>)"
  define err where "err = pm_DeletePrivateCopyForMe (rv_Runtime v) (cu_Copy candidate)"
  have r1: "swept now r r1"
    unfolding r1_def by (rule swept_trans [OF begin' swept_log])
  obtain e db' where finished: "FinishCleanup candidate (err = None) (rl_State r1) = (e, db')" by force
  have finish': "swept now r (r1\<lparr>rl_State := db'\<rparr>)"
    using swept_trans [OF r1 swept_finish [of now r1 candidate "err = None"]] finished by simp
  note rest = swept_trans [OF begin' Cons.IH] swept_trans [OF finish' Cons.IH]
  show ?case
    using begin' finish' rest finished [unfolded r1_def err_def]
    by (cases a; cases e) (simp_all add: begun r1_def err_def Let_def swept_refl)
qed

lemma swept_Sweep: "swept (rv_now v) r (snd (Sweep v r))"
proof -
  obtain e db where pruned: "Prune (rv_now v) 100 (rl_State r) = (e, db)" by force
  have "swept (rv_now v) r (r\<lparr>rl_State := db\<rparr>)"
  proof -
    have "private_ok (rl_State r) \<Longrightarrow> private_ok db"
      using Prune_ok [of "rl_State r" "rv_now v" 100] pruned by simp
    moreover have "row \<in> set (pd_seen db)"
      if "row \<in> set (pd_seen (rl_State r))" "rv_now v < se_ExpiresAt row" for row
      using pruned that by (auto simp: Prune_def Let_def intro!: prune_rows_keeps split: if_splits)
    ultimately show ?thesis by (simp add: swept_def)
  qed
  then show ?thesis
    using swept_trans [OF _ swept_loop]
    by (cases e) (auto simp: Sweep_def pruned Let_def split: sum.split)
qed

text \<open>
  Well-formed tables stay well formed, whatever message the relay handles and whenever it sweeps: every key is
  unique, no table outgrows its limit, and no local copy has more than the three removal attempts the schema allows.
\<close>

theorem relay_keeps_tables:
  assumes "private_ok (rl_State r)"
  shows "private_ok (rl_State (snd (relay_Handle v inc r))) \<and> private_ok (rl_State (snd (Sweep v r)))"
  using moves_Handle [of v inc r] swept_Sweep [of v r] assms by (simp add: moves_def swept_def)

subsection \<open>A message is handled once\<close>

text \<open>A restart forgets the rate limits and nothing else.\<close>

datatype relay_op = OpHandle RelayEnv PrivateIncoming | OpSweep RelayEnv | OpRestart

fun relay_do :: "relay_op \<Rightarrow> Relay \<Rightarrow> Relay" where
  "relay_do (OpHandle v inc) r = snd (relay_Handle v inc r)"
| "relay_do (OpSweep v) r = snd (Sweep v r)"
| "relay_do OpRestart r = r\<lparr>rl_limits := []\<rparr>"

fun op_before :: "int \<Rightarrow> relay_op \<Rightarrow> bool" where
  "op_before t (OpHandle v inc) = (rv_now v < t)"
| "op_before t (OpSweep v) = (rv_now v < t)"
| "op_before t OpRestart = True"

lemma seen_stays:
  assumes "row \<in> set (pd_seen (rl_State r))" "list_all (op_before (se_ExpiresAt row)) ops"
  shows "row \<in> set (pd_seen (rl_State (fold relay_do ops r)))"
  using assms
proof (induction ops arbitrary: r)
  case (Cons q ops)
  have "row \<in> set (pd_seen (rl_State (relay_do q r)))"
  proof (cases q)
    case (OpHandle v inc)
    then show ?thesis
      using moves_Handle [of v inc r] Cons.prems by (auto simp: moves_def)
  next
    case (OpSweep v)
    then show ?thesis
      using swept_Sweep [of v r] Cons.prems by (auto simp: swept_def)
  next
    case OpRestart
    then show ?thesis using Cons.prems by simp
  qed
  then show ?case using Cons by simp
qed simp

abbreviation seen_key :: "RelayEnv \<Rightarrow> PrivateIncoming \<Rightarrow> string" where
  "seen_key v inc \<equiv> inboxKey (rv_Sealing v) ''incoming'' (pn_Inbox inc) (pn_RemoteMessageID inc)"

lemma AcceptIncoming_new:
  assumes "AcceptIncoming sl inbox messageID now db = (Inr True, db')"
  shows "\<lparr>se_LookupKey = inboxKey sl ''incoming'' inbox messageID, se_ExpiresAt = now + PrivateDMReplyTTL\<rparr>
    \<in> set (pd_seen db')"
  using assms by (auto simp: AcceptIncoming_def Let_def split: if_splits)

lemma AcceptIncoming_seen:
  "has_key se_LookupKey (inboxKey sl ''incoming'' inbox messageID) (pd_seen db) \<Longrightarrow>
    fst (AcceptIncoming sl inbox messageID now db) \<noteq> Inr True"
  by (simp add: AcceptIncoming_def Let_def)

lemma admit_asks:
  assumes "admit v cfg inc r = (Inr True, r')"
  obtains db where
    "AcceptIncoming (rv_Sealing v) (pn_Inbox inc) (pn_RemoteMessageID inc) (rv_now v) (rl_State r) = (Inr True, db)"
    "rl_State r' = db"
proof -
  obtain ok r1 where permit: "permit_message v inc r = (ok, r1)" by force
  then have "rl_State r1 = rl_State r"
    using permit_message_limits [of v inc r] by auto
  with assms permit that show thesis
    by (auto simp: admit_def split: sum.split_asm if_split_asm bool.split_asm prod.split_asm)
qed

lemma admit_accepted:
  "admit v cfg inc r = (Inr True, r') \<Longrightarrow>
    \<lparr>se_LookupKey = seen_key v inc, se_ExpiresAt = rv_now v + PrivateDMReplyTTL\<rparr> \<in> set (pd_seen (rl_State r'))"
  using AcceptIncoming_new by (metis admit_asks)

lemma admit_seen:
  assumes "has_key se_LookupKey (seen_key v inc) (pd_seen (rl_State r))"
  shows "fst (admit v cfg inc r) \<noteq> Inr True"
  using AcceptIncoming_seen [OF assms] by (metis admit_asks fst_conv prod.collapse)

lemma admit_log: "rl_log (snd (admit v cfg inc r)) = rl_log r"
  using admit_state [of v cfg inc r] by force

lemma Handle_seen:
  assumes "has_key se_LookupKey (seen_key v inc) (pd_seen (rl_State r))"
  shows "rl_log (snd (relay_Handle v inc r)) = rl_log r"
proof (cases "ignored v inc")
  case False
  show ?thesis
  proof (cases "rv_LoadConfig v")
    case (Inr cfg)
    have "rl_log (snd (admit v cfg inc r)) = rl_log r" "fst (admit v cfg inc r) \<noteq> Inr True"
      by (rule admit_log, rule admit_seen [OF assms])
    then show ?thesis
      using Inr by (cases "admit v cfg inc r") (auto simp: relay_Handle_def split: sum.split bool.split)
  qed (simp add: relay_Handle_def)
qed (simp add: relay_Handle_def)

lemma Handle_remembers:
  assumes "rl_log (snd (relay_Handle v inc r)) \<noteq> rl_log r"
  shows "\<lparr>se_LookupKey = seen_key v inc, se_ExpiresAt = rv_now v + PrivateDMReplyTTL\<rparr>
    \<in> set (pd_seen (rl_State (snd (relay_Handle v inc r))))"
proof -
  have active: "\<not> ignored v inc" using assms by (auto simp: relay_Handle_def)
  then have chat: "pi_ChatID (pn_Inbox inc) \<noteq> []" by (simp add: ignored_def)
  obtain cfg where cfg: "rv_LoadConfig v = Inr cfg"
    using assms active that by (cases "rv_LoadConfig v") (simp_all add: relay_Handle_def)
  obtain a r' where admit: "admit v cfg inc r = (a, r')" by force
  have log: "rl_log r' = rl_log r" using admit_log [of v cfg inc r] admit by simp
  have accepted: "a = Inr True"
    using assms active cfg admit log by (auto simp: relay_Handle_def split: sum.split_asm bool.split_asm if_split_asm)
  have "moves v inc 1 r' (snd (finish_message v inc (handle_accepted v cfg inc r')))"
    by (rule moves_finish [OF moves_accepted [OF cfg chat]])
  moreover have "snd (relay_Handle v inc r) = snd (finish_message v inc (handle_accepted v cfg inc r'))"
    using assms active cfg admit accepted by (auto simp: relay_Handle_def)
  ultimately show ?thesis
    using admit_accepted [OF admit [unfolded accepted]] by (auto simp: moves_def)
qed

text \<open>
  C8: A private message is handled at most once in 24 hours, even over restarts, as what the relay remembers is
  in its database: after it has handled a message, and whatever it handles and sweeps in between, the same message
  (the same id in the same inbox) again leads to no call of the provider.
\<close>

theorem private_message_handled_once:
  assumes "rl_log (snd (relay_Handle v inc r)) \<noteq> rl_log r"
    and "list_all (op_before (rv_now v + PrivateDMReplyTTL)) ops"
    and "rv_Sealing v' = rv_Sealing v"
    and "inbox_parts (pn_Inbox inc') (pn_RemoteMessageID inc') = inbox_parts (pn_Inbox inc) (pn_RemoteMessageID inc)"
  shows "let r' = fold relay_do ops (snd (relay_Handle v inc r))
    in rl_log (snd (relay_Handle v' inc' r')) = rl_log r'"
proof -
  define r1 where "r1 = snd (relay_Handle v inc r)"
  define row where "row = \<lparr>se_LookupKey = seen_key v inc, se_ExpiresAt = rv_now v + PrivateDMReplyTTL\<rparr>"
  have "row \<in> set (pd_seen (rl_State r1))"
    unfolding row_def r1_def by (rule Handle_remembers [OF assms(1)])
  then have "row \<in> set (pd_seen (rl_State (fold relay_do ops r1)))"
    using assms(2) by (intro seen_stays) (simp_all add: row_def)
  moreover have "seen_key v' inc' = se_LookupKey row"
    using assms(3,4) by (simp add: row_def inboxKey_def)
  ultimately have "has_key se_LookupKey (seen_key v' inc') (pd_seen (rl_State (fold relay_do ops r1)))"
    by simp
  then show ?thesis
    unfolding Let_def r1_def by (rule Handle_seen)
qed

subsection \<open>A small relay\<close>

definition sample_relay_config :: Config where
  "sample_relay_config =
     zero_config\<lparr>cfg_PrivateDMRelayEnabled := True,
       cfg_Endpoints := [(''left'', zero_endpoint\<lparr>ce_ConnectionID := ''c'', ce_Transport := ''discord''\<rparr>)],
       cfg_SyncSets := [\<lparr>set_ID = ''s'', set_Endpoints = [''left''], set_AnonymizeToDiscord = False,
         set_Settings = Some (zero_settings\<lparr>ss_PrivateDMRelayEnabled := True\<rparr>)\<rparr>]\<rparr>"

definition sample_messenger :: PrivateMessenger where
  "sample_messenger =
     \<lparr>pm_VerifyPrivateMember = (\<lambda>e a. True), pm_VerifyPrivateInboxMember = (\<lambda>e a i. True),
      pm_ResolvePrivateInbox = (\<lambda>e a. None), pm_SendPrivate = (\<lambda>i t q. Inl (Plain ''unreachable'')),
      pm_DeletePrivateCopyForMe = (\<lambda>c. None)\<rparr>"

definition sample_relay_env :: RelayEnv where
  "sample_relay_env =
     \<lparr>rv_now = 0, rv_later = 0, rv_Runtime = sample_messenger, rv_LoadConfig = Inr sample_relay_config,
      rv_mac = sample_mac, rv_Sealing = sample_sealing, rv_Help = ''help''\<rparr>"

definition sample_private :: PrivateIncoming where
  "sample_private =
     \<lparr>pn_ConnectionID = ''c'', pn_Transport = ''discord'',
      pn_Inbox = \<lparr>pi_ConnectionID = ''c'', pi_Transport = ''discord'', pi_OwnerID = ''o'', pi_ChatID = ''chat'',
        pi_Token = ''t''\<rparr>,
      pn_LocalCopy = \<lparr>px_ConnectionID = ''c'', px_Transport = ''discord'', px_OwnerID = ''o'', px_Token = []\<rparr>,
      pn_ActorID = ''u_aaaaaaaaaa'', pn_ActorAliases = [], pn_RemoteMessageID = ''m'', pn_ReplyToMessageID = [],
      pn_DisplayName = [], pn_Text = [], pn_Kind = ''unsupported'', pn_Timestamp = None, pn_FromSelf = False\<rparr>"

definition sample_relay :: Relay where
  "sample_relay =
     \<lparr>rl_Sync = sample_store,
      rl_State = \<lparr>pd_open = True, pd_drawn = 0, pd_replies = [], pd_seen = [], pd_inboxes = [], pd_cleanups = []\<rparr>,
      rl_limits = [], rl_log = []\<rparr>"

lemma sample_relay_admit:
  "admit sample_relay_env sample_relay_config sample_private sample_relay =
    (Inr True, snd (admit sample_relay_env sample_relay_config sample_private sample_relay))"
  by (simp add: admit_def known_chat_def permit_message_def permit_relay_def permit_def window_of_def put_window_def
      unix_minute_def Let_def AcceptIncoming_def full_def privateDMRecordLimit_def sample_relay_env_def
      sample_private_def sample_relay_def)

lemma sample_relay_answers:
  "rl_log (snd (relay_Handle sample_relay_env sample_private sample_relay)) \<noteq> rl_log sample_relay"
proof -
  have enabled: "PrivateDMConnectionEnabled sample_relay_config ''c''"
    by (simp add: PrivateDMConnectionEnabled_def sample_relay_config_def SettingsForEndpoint_def SettingsForSet_def)
  have connection: "pn_ConnectionID sample_private = ''c''" "\<not> ignored sample_relay_env sample_private"
    "rv_LoadConfig sample_relay_env = Inr sample_relay_config"
    by (simp_all add: sample_private_def ignored_def sample_relay_env_def)
  have copied: "queue_copy v (pn_LocalCopy sample_private) after now r = (None, r)" for v after now r
    by (simp add: queue_copy_def QueueCleanup_def sample_private_def)
  have "rl_log (snd (handle_accepted sample_relay_env sample_relay_config sample_private r)) = rl_log r @
      [AskSend (pn_Inbox sample_private) (relay_Help sample_relay_env) []]" for r
    by (simp add: handle_accepted_def observe_sender_def sample_private_def relay_help_def sendHelp_def Let_def
        log_call_def sample_relay_env_def sample_messenger_def)
  moreover have "snd (finish_message v sample_private p) = snd p" for v p
    by (simp add: finish_message_def copied)
  ultimately show ?thesis
    by (simp add: relay_Handle_def connection enabled) (subst sample_relay_admit, simp add: admit_log)
qed

theorem relay_keeps_tables_witness:
  "private_ok (rl_State (snd (relay_Handle sample_relay_env sample_private sample_relay))) \<and>
   private_ok (rl_State (snd (Sweep sample_relay_env sample_relay)))"
  by (rule relay_keeps_tables) (simp add: private_ok_def sample_relay_def privateDMRecordLimit_def keys_ok_def)

theorem private_message_handled_once_witness:
  "let r' = fold relay_do [OpRestart, OpSweep (sample_relay_env\<lparr>rv_now := 1000\<rparr>)]
      (snd (relay_Handle sample_relay_env sample_private sample_relay))
   in rl_log (snd (relay_Handle (sample_relay_env\<lparr>rv_now := 2000\<rparr>) sample_private r')) = rl_log r'"
  by (rule private_message_handled_once [OF sample_relay_answers])
    (simp_all add: sample_relay_env_def PrivateDMReplyTTL_def)

subsection \<open>Rate limits\<close>

text \<open>Requests to permit, one after the other: a key, a time and the most a minute may have.\<close>

fun permits :: "(string \<times> int \<times> int) list \<Rightarrow> (string \<times> window) list \<Rightarrow> bool list" where
  "permits [] limits = []"
| "permits ((key, now, most) # qs) limits =
     (case permit key now most limits of (ok, limits) \<Rightarrow> ok # permits qs limits)"

definition granted :: "string \<Rightarrow> int \<Rightarrow> ((string \<times> int \<times> int) \<times> bool) list \<Rightarrow> nat" where
  "granted key minute results =
     length (filter (\<lambda>((k, now, most), ok). k = key \<and> unix_minute now = minute \<and> ok) results)"

text \<open>The count of a key in the current minute.\<close>

definition used :: "string \<Rightarrow> int \<Rightarrow> (string \<times> window) list \<Rightarrow> int" where
  "used key minute limits = (let w = window_of limits key in if wi_minute w = minute then wi_count w else 0)"

lemma used_map_of:
  "used key minute limits =
    (case map_of limits key of None \<Rightarrow> 0 | Some w \<Rightarrow> if wi_minute w = minute then wi_count w else 0)"
  by (simp add: used_def window_of_def Let_def split: option.split)

lemma map_of_filter:
  "distinct (map fst xs) \<Longrightarrow> map_of (filter (\<lambda>(k, w). P w) xs) key =
    (case map_of xs key of None \<Rightarrow> None | Some w \<Rightarrow> if P w then Some w else None)"
proof (induction xs)
  case (Cons x xs)
  then show ?case
    by (cases x) (auto simp: map_of_eq_None_iff split: option.split)
qed simp

lemma map_of_put: "map_of (put_window key w limits) k = (if k = key then Some w else map_of limits k)"
  by (induction limits) (auto simp: put_window_def)

lemma permit_facts:
  assumes "permit key now most limits = (ok, limits')" "distinct (map fst limits)"
  shows "distinct (map fst limits')" "list_all (\<lambda>(k, w). wi_minute w = unix_minute now) limits'"
    "used k (unix_minute now) limits' = used k (unix_minute now) limits + (if k = key \<and> ok then 1 else 0)"
    "ok \<Longrightarrow> used key (unix_minute now) limits < most"
proof -
  let ?m = "unix_minute now"
  define kept where "kept = filter (\<lambda>(k, w). wi_minute w = unix_minute now) limits"
  have kept: "distinct (map fst kept)" "list_all (\<lambda>(k, w). wi_minute w = unix_minute now) kept"
    "map_of kept k = (case map_of limits k of None \<Rightarrow> None | Some w \<Rightarrow>
      if wi_minute w = unix_minute now then Some w else None)" for k
    using assms(2) by (auto simp: kept_def map_of_filter list_all_iff distinct_map_filter)
  have put: "distinct (map fst (put_window key w kept))" for w
    using kept(1) by (auto simp: put_window_def distinct_map_filter)
  define w where "w = (if wi_minute (window_of kept key) \<noteq> ?m then \<lparr>wi_minute = ?m, wi_count = 0\<rparr> else window_of kept key)"
  have w: "wi_minute w = ?m" "wi_count w = used key ?m limits"
    by (auto simp: w_def used_map_of window_of_def kept(3) split: option.split)
  have same: "used k ?m kept = used k ?m limits" for k
    by (simp add: used_map_of kept(3) split: option.split)
  have result: "ok = (\<not> (most \<le> wi_count w \<or> 10000 \<le> int (length kept)))"
    "limits' = (if ok then put_window key (w\<lparr>wi_count := wi_count w + 1\<rparr>) kept else kept)"
    using assms(1) unfolding permit_def Let_def kept_def [symmetric] w_def [symmetric]
    by (auto split: if_splits)
  show "distinct (map fst limits')"
    using kept(1) put by (simp add: result(2))
  show "list_all (\<lambda>(k, w). wi_minute w = ?m) limits'"
    using kept(2) w(1) by (auto simp: result(2) put_window_def list_all_iff)
  show "used k ?m limits' = used k ?m limits + (if k = key \<and> ok then 1 else 0)"
    using w same by (simp add: result(2)) (simp add: used_map_of map_of_put w)
  show "ok \<Longrightarrow> used key ?m limits < most"
    using w(2) by (simp add: result(1))
qed

abbreviation minute_of :: "string \<times> int \<times> int \<Rightarrow> int" where
  "minute_of q \<equiv> unix_minute (fst (snd q))"

lemma granted_Cons:
  "granted key minute ((q, ok) # results) =
    (if fst q = key \<and> minute_of q = minute \<and> ok then 1 else 0) + granted key minute results"
  by (cases q) (simp add: granted_def)

lemma granted_later: "list_all (\<lambda>q. minute < minute_of q) qs \<Longrightarrow> granted key minute (zip qs oks) = 0"
proof (induction qs arbitrary: oks)
  case (Cons q qs)
  then show ?case by (cases oks) (auto simp: granted_Cons, auto simp: granted_def)
qed (simp add: granted_def)

lemma granted_bound:
  assumes "sorted (map minute_of qs)" "distinct (map fst limits)"
    "list_all (\<lambda>(k, w). list_all (\<lambda>q. wi_minute w \<le> minute_of q) qs) limits"
    "list_all (\<lambda>q. fst q = key \<longrightarrow> snd (snd q) = most) qs" "used key minute limits \<le> most"
  shows "int (granted key minute (zip qs (permits qs limits))) + used key minute limits \<le> most"
  using assms
proof (induction qs arbitrary: limits)
  case Nil
  then show ?case by (simp add: granted_def)
next
  case (Cons q qs)
  obtain k now n where q: "q = (k, now, n)" by (cases q) auto
  obtain ok limits' where permit: "permit k now n limits = (ok, limits')" by force
  note facts = permit_facts [OF permit Cons.prems(2)]
  have head: "int (granted key minute (zip (q # qs) (permits (q # qs) limits))) =
      (if k = key \<and> unix_minute now = minute \<and> ok then 1 else 0) +
      int (granted key minute (zip qs (permits qs limits')))"
    by (simp add: q permit granted_Cons)
  have later: "list_all (\<lambda>p. unix_minute now \<le> minute_of p) qs"
    using Cons.prems(1) by (simp add: q list_all_iff)
  have bounded: "list_all (\<lambda>(k, w). list_all (\<lambda>p. wi_minute w \<le> minute_of p) qs) limits'"
    using facts(2) later by (fastforce simp: list_all_iff)
  have rest: "int (granted key minute (zip qs (permits qs limits'))) + used key minute limits' \<le> most"
    if "used key minute limits' \<le> most"
    using Cons.prems(1,4) by (intro Cons.IH that facts(1) bounded) simp_all
  consider "minute < unix_minute now" | "unix_minute now = minute" | "unix_minute now < minute" by linarith
  then show ?case
  proof cases
    case 1
    then have "granted key minute (zip (q # qs) (permits (q # qs) limits)) = 0"
      using later by (intro granted_later) (auto simp: q list_all_iff)
    then show ?thesis using Cons.prems(5) by simp
  next
    case 2
    then show ?thesis
      using rest facts(3) [of key] facts(4) Cons.prems(4,5)
      unfolding head by (cases "k = key \<and> ok") (auto simp: q)
  next
    case 3
    have "used key minute limits = 0" "used key minute limits' = 0"
      using 3 Cons.prems(3) facts(2)
      by (auto simp: used_map_of q list_all_iff split: option.split dest!: map_of_SomeD)
    then show ?thesis
      using rest 3 Cons.prems(5) unfolding head by simp
  qed
qed

text \<open>
  C14: No sender and no group floods the relay: however requests of many keys follow one another in time, in any
  minute at most as many are granted for a key as its limit says (ten messages of an actor, fifty of all, a hundred
  of a sync set).
\<close>

theorem permits_per_minute_bounded:
  assumes "sorted (map (\<lambda>(k, now, most). unix_minute now) qs)"
    and "list_all (\<lambda>(k, now, n). k = key \<longrightarrow> n = most) qs" and "0 \<le> most"
  shows "int (granted key minute (zip qs (permits qs []))) \<le> most"
proof -
  have "sorted (map minute_of qs)"
    using assms(1) by (simp add: case_prod_unfold)
  moreover have "list_all (\<lambda>q. fst q = key \<longrightarrow> snd (snd q) = most) qs"
    using assms(2) by (simp add: case_prod_unfold)
  ultimately have "int (granted key minute (zip qs (permits qs []))) + used key minute [] \<le> most"
    using assms(3) by (intro granted_bound) (simp_all add: used_map_of)
  then show ?thesis by (simp add: used_map_of)
qed

theorem permits_per_minute_bounded_witness:
  "int (granted ''a'' 0 (zip [(''a'', 0, 1), (''b'', 1, 5), (''a'', 2, 1)]
     (permits [(''a'', 0, 1), (''b'', 1, 5), (''a'', 2, 1)] []))) \<le> 1"
  by (rule permits_per_minute_bounded) (simp_all add: unix_minute_def)

end
