(* ===== verification/Accounts.thy ===== *)
theory Accounts
  imports Hasher Sanitize
begin

text \<open>
  The accounts of the console (\<^verbatim>\<open>internal/api/auth.go\<close>, \<^verbatim>\<open>internal/api/rbac.go\<close>): sessions, logins, invitations,
  password resets and the check in front of every route. One request is one step. Times are milliseconds since the
  epoch. Cryptography is a parameter: the password hash is that of \<^verbatim>\<open>golang.org/x/crypto/bcrypt\<close>.
\<close>

subsection \<open>Tables\<close>

record User =
  us_ID :: string
  us_Username :: string
  us_PasswordHash :: string
  us_Role :: string
  us_Active :: bool
  us_CreatedAt :: int
  us_UpdatedAt :: int

record SessionRow =
  sn_TokenHash :: string
  sn_UserID :: string
  sn_ExpiresAt :: int
  sn_CreatedAt :: int
  sn_LastSeenAt :: int
  sn_RevokedAt :: "int option"

record Invite =
  iv_ID :: string
  iv_TokenHash :: string
  iv_TargetRole :: string
  iv_ExpiresAt :: int
  iv_CreatorID :: string
  iv_ConsumedAt :: "int option"

record ResetRow =
  rt_TokenHash :: string
  rt_UserID :: string
  rt_ExpiresAt :: int
  rt_CreatedAt :: int
  rt_ConsumedAt :: "int option"

record AuditEvent =
  au_ID :: string
  au_ActorUserID :: string
  au_Action :: string
  au_TargetID :: string
  au_CreatedAt :: int

record loginFailure =
  lf_count :: int
  lf_until :: gtime

text \<open>\<open>ac_open\<close> is whether the control database answers, \<open>ac_drawn\<close> counts the draws of random bytes.\<close>

record Accounts =
  ac_open :: bool
  ac_drawn :: nat
  ac_tokenTTL :: int
  ac_users :: "User list"
  ac_sessions :: "SessionRow list"
  ac_invites :: "Invite list"
  ac_resets :: "ResetRow list"
  ac_audit :: "AuditEvent list"
  ac_failed :: "(string \<times> loginFailure) list"

record AccountsEnv =
  ae_now :: int
  ae_random :: "nat \<Rightarrow> nat \<Rightarrow> string option"
  ae_sha256 :: "string \<Rightarrow> string"
  ae_hash :: "string \<Rightarrow> string option"
  ae_matches :: "string \<Rightarrow> string \<Rightarrow> bool"

subsection \<open>Requests and answers\<close>

record Principal =
  pp_ID :: string
  pp_Role :: string
  pp_Username :: string

text \<open>
  What a route is asked: the body is what \<^verbatim>\<open>ReadJSON\<close> returns for it, \<open>None\<close> if it fails. \<open>AskOther\<close> is any other
  request, by method and path.
\<close>

datatype ask =
    AskStatus
  | AskMe
  | AskSetup "(string \<times> string) option"
  | AskLogin "(string \<times> string) option"
  | AskLogout
  | AskChangePassword "(string \<times> string) option"
  | AskRedeem "(string \<times> string \<times> string) option"
  | AskReset "(string \<times> string) option"
  | AskListUsers
  | AskInvite "(string \<times> int) option"
  | AskSetActive string "bool option"
  | AskResetToken string
  | AskListAudit
  | AskOther string string

text \<open>\<open>hr_Cookie\<close> is the session cookie, \<open>hr_Client\<close> what \<^verbatim>\<open>clientKey\<close> finds in the remote address.\<close>

record HttpRequest =
  hr_Ask :: ask
  hr_Authorization :: string
  hr_Cookie :: "string option"
  hr_Client :: string
  hr_TLS :: bool
  hr_ForwardedProto :: string

datatype payload =
    PError string
  | POk
  | PSetup bool
  | PPrincipal Principal
  | PSession string Principal
  | PSecret string
  | PUsers "User list"
  | PAudit "AuditEvent list"
  | PNext

text \<open>\<open>rs_Cookie\<close> is the session cookie set by an answer: its value, its age and whether it is secure.\<close>

record Response =
  rs_Status :: int
  rs_Payload :: payload
  rs_Cookie :: "(string \<times> int \<times> bool) option"

definition respond :: "int \<Rightarrow> payload \<Rightarrow> Response" where
  "respond status p = \<lparr>rs_Status = status, rs_Payload = p, rs_Cookie = None\<rparr>"

definition WriteError :: "int \<Rightarrow> string \<Rightarrow> Response" where
  "WriteError status m = respond status (PError m)"

subsection \<open>Tokens\<close>

text \<open>\<^verbatim>\<open>base64.RawURLEncoding\<close>.\<close>

definition base64_char :: "nat \<Rightarrow> char" where
  "base64_char n =
     (if n < 26 then char_of (65 + n) else if n < 52 then char_of (71 + n) else if n < 62 then char_of (n - 4)
      else if n = 62 then CHR ''-'' else CHR ''_'')"

function base64_digits :: "bool list \<Rightarrow> string" where
  "base64_digits bs =
     (if bs = [] then []
      else base64_char (bits_value (take 6 (take 6 bs @ replicate 5 False))) # base64_digits (drop 6 bs))"
  by pat_completeness auto
termination
  by (relation "measure length") (auto intro: diff_less)

declare base64_digits.simps [simp del]

definition EncodeToString64 :: "string \<Rightarrow> string" where
  "EncodeToString64 s = base64_digits (concat (map byte_bits s))"

definition draw :: "AccountsEnv \<Rightarrow> nat \<Rightarrow> Accounts \<Rightarrow> string option \<times> Accounts" where
  "draw v k a = (ae_random v (ac_drawn a) k, a\<lparr>ac_drawn := ac_drawn a + 1\<rparr>)"

definition randomOpaqueID :: "AccountsEnv \<Rightarrow> Accounts \<Rightarrow> string option \<times> Accounts" where
  "randomOpaqueID v a = (case draw v 16 a of (b, a) \<Rightarrow> (map_option EncodeToString64 b, a))"

definition tokenHash :: "AccountsEnv \<Rightarrow> string \<Rightarrow> string" where
  "tokenHash v token = EncodeToString64 (ae_sha256 v token)"

definition newBearerToken :: "AccountsEnv \<Rightarrow> Accounts \<Rightarrow> string option \<times> Accounts" where
  "newBearerToken v a = (case draw v 32 a of (b, a) \<Rightarrow> (map_option EncodeToString64 b, a))"

text \<open>
  \<^verbatim>\<open>strings.ToLower\<close> on ASCII and on the two other characters it turns into ASCII letters (U+212A and U+0130); no
  other character can be part of a user name, before or after.
\<close>

function lower_text :: "string \<Rightarrow> string" where
  "lower_text s =
     (case s of
        [] \<Rightarrow> []
      | c # cs \<Rightarrow>
          if has_prefix s [CHR 0xE2, CHR 0x84, CHR 0xAA] then CHR ''k'' # lower_text (drop 3 s)
          else if has_prefix s [CHR 0xC4, CHR 0xB0] then CHR ''i'' # lower_text (drop 2 s)
          else lower c # lower_text cs)"
  by pat_completeness auto
termination
  by (relation "measure length") auto

declare lower_text.simps [simp del]

definition normalizeUsername :: "string \<Rightarrow> string" where
  "normalizeUsername s = lower_text (trim_space s)"

definition username_char :: "char \<Rightarrow> bool" where
  "username_char c = (is_lower c \<or> is_digit c \<or> c = CHR ''_'' \<or> c = CHR ''.'' \<or> c = CHR ''-'')"

definition validUsername :: "string \<Rightarrow> bool" where
  "validUsername s =
     (case s of
        [] \<Rightarrow> False
      | c # cs \<Rightarrow> (is_lower c \<or> is_digit c) \<and> 1 \<le> length cs \<and> length cs \<le> 63 \<and> list_all username_char cs)"

definition minPasswordLength :: nat where "minPasswordLength = 8"
definition maxPasswordLength :: nat where "maxPasswordLength = 72"

definition bad_password :: "string \<Rightarrow> bool" where
  "bad_password p = (length p < minPasswordLength \<or> maxPasswordLength < length p)"

subsection \<open>Sessions\<close>

definition user_by_id :: "Accounts \<Rightarrow> string \<Rightarrow> User option" where
  "user_by_id a userID = find (\<lambda>u. us_ID u = userID) (ac_users a)"

definition createSession :: "AccountsEnv \<Rightarrow> string \<Rightarrow> Accounts \<Rightarrow> string option \<times> Accounts" where
  "createSession v userID a =
     (case newBearerToken v a of
        (None, a) \<Rightarrow> (None, a)
      | (Some token, a) \<Rightarrow>
          if \<not> ac_open a \<or> user_by_id a userID = None \<or> has_key sn_TokenHash (tokenHash v token) (ac_sessions a)
          then (None, a)
          else (Some token, a\<lparr>ac_sessions := ac_sessions a @
            [\<lparr>sn_TokenHash = tokenHash v token, sn_UserID = userID, sn_ExpiresAt = ae_now v + ac_tokenTTL a,
              sn_CreatedAt = ae_now v, sn_LastSeenAt = ae_now v, sn_RevokedAt = None\<rparr>]\<rparr>))"

text \<open>The session of a token that counts, and its active user.\<close>

definition live_session :: "AccountsEnv \<Rightarrow> Accounts \<Rightarrow> string \<Rightarrow> (SessionRow \<times> User) option" where
  "live_session v a token =
     (case find (\<lambda>s. sn_TokenHash s = tokenHash v token \<and> sn_RevokedAt s = None) (ac_sessions a) of
        None \<Rightarrow> None
      | Some s \<Rightarrow>
          (case user_by_id a (sn_UserID s) of
             None \<Rightarrow> None | Some u \<Rightarrow> if us_Active u then Some (s, u) else None))"

definition session_principal :: "AccountsEnv \<Rightarrow> string \<Rightarrow> Accounts \<Rightarrow> Principal option \<times> Accounts" where
  "session_principal v token a =
     (if token = [] \<or> \<not> ac_open a then (None, a)
      else case live_session v a token of
        None \<Rightarrow> (None, a)
      | Some (s, u) \<Rightarrow>
          if sn_ExpiresAt s \<le> ae_now v then (None, a)
          else (Some \<lparr>pp_ID = us_ID u, pp_Role = us_Role u, pp_Username = us_Username u\<rparr>,
            a\<lparr>ac_sessions := update_where (\<lambda>s. sn_TokenHash s = tokenHash v token)
              (\<lambda>s. s\<lparr>sn_LastSeenAt := ae_now v\<rparr>) (ac_sessions a)\<rparr>))"

definition revoke_where :: "AccountsEnv \<Rightarrow> (SessionRow \<Rightarrow> bool) \<Rightarrow> Accounts \<Rightarrow> Accounts" where
  "revoke_where v P a = a\<lparr>ac_sessions := update_where P (\<lambda>s. s\<lparr>sn_RevokedAt := Some (ae_now v)\<rparr>) (ac_sessions a)\<rparr>"

definition revoke :: "AccountsEnv \<Rightarrow> string \<Rightarrow> Accounts \<Rightarrow> Accounts" where
  "revoke v token a =
     (if token = [] \<or> \<not> ac_open a then a else revoke_where v (\<lambda>s. sn_TokenHash s = tokenHash v token) a)"

definition revokeOtherSessions :: "AccountsEnv \<Rightarrow> string \<Rightarrow> string \<Rightarrow> Accounts \<Rightarrow> bool \<times> Accounts" where
  "revokeOtherSessions v userID currentToken a =
     (if \<not> ac_open a then (False, a)
      else (True, revoke_where v (\<lambda>s. sn_UserID s = userID \<and> sn_RevokedAt s = None \<and>
        sn_TokenHash s \<noteq> tokenHash v currentToken) a))"

subsection \<open>The token of a request\<close>

definition fold_equal :: "string \<Rightarrow> string \<Rightarrow> bool" where
  "fold_equal lit s = (skip_ci lit s = Some [])"

definition extractToken :: "HttpRequest \<Rightarrow> string" where
  "extractToken r =
     (let header = hr_Authorization r;
          bearer = (case index_of header '' '' of
             None \<Rightarrow> []
           | Some i \<Rightarrow> if fold_equal ''bearer'' (take i header) then trim_space (drop (i + 1) header) else [])
      in if bearer \<noteq> [] then bearer else case hr_Cookie r of Some c \<Rightarrow> c | None \<Rightarrow> [])"

definition first_part :: "string \<Rightarrow> string" where
  "first_part s = takeWhile (\<lambda>c. c \<noteq> CHR '','') s"

definition setSessionCookie :: "string \<Rightarrow> int \<Rightarrow> HttpRequest \<Rightarrow> Response \<Rightarrow> Response" where
  "setSessionCookie token maxAge r rs =
     rs\<lparr>rs_Cookie := Some (token, maxAge,
       hr_TLS r \<or> fold_equal ''https'' (trim_space (first_part (hr_ForwardedProto r))))\<rparr>"

definition issueSession ::
  "AccountsEnv \<Rightarrow> HttpRequest \<Rightarrow> string \<Rightarrow> string \<Rightarrow> string \<Rightarrow> Accounts \<Rightarrow> Response \<times> Accounts" where
  "issueSession v r userID username role a =
     (case createSession v userID a of
        (None, a) \<Rightarrow> (WriteError 500 ''failed to create session'', a)
      | (Some token, a) \<Rightarrow>
          (setSessionCookie token (ac_tokenTTL a div 1000) r
             (respond 200 (PSession token \<lparr>pp_ID = userID, pp_Role = role, pp_Username = username\<rparr>)), a))"

subsection \<open>Failed logins\<close>

definition failure_of :: "Accounts \<Rightarrow> string \<Rightarrow> loginFailure" where
  "failure_of a key = (case map_of (ac_failed a) key of Some f \<Rightarrow> f | None \<Rightarrow> \<lparr>lf_count = 0, lf_until = None\<rparr>)"

definition allowLogin :: "AccountsEnv \<Rightarrow> string \<Rightarrow> Accounts \<Rightarrow> bool" where
  "allowLogin v key a = (case lf_until (failure_of a key) of None \<Rightarrow> True | Some t \<Rightarrow> t < ae_now v)"

definition recordLoginFailure :: "AccountsEnv \<Rightarrow> string \<Rightarrow> Accounts \<Rightarrow> Accounts" where
  "recordLoginFailure v key a =
     (let f = failure_of a key; f = f\<lparr>lf_count := lf_count f + 1\<rparr>;
          f = (if 5 \<le> lf_count f then \<lparr>lf_count = 0, lf_until = Some (ae_now v + 60 * 1000)\<rparr> else f)
      in a\<lparr>ac_failed := (key, f) # filter (\<lambda>(k, _). k \<noteq> key) (ac_failed a)\<rparr>)"

definition clearLoginFailure :: "string \<Rightarrow> Accounts \<Rightarrow> Accounts" where
  "clearLoginFailure key a = a\<lparr>ac_failed := filter (\<lambda>(k, _). k \<noteq> key) (ac_failed a)\<rparr>"

end
