(* ===== verification/AccountsHandlers.thy ===== *)
theory AccountsHandlers
  imports Accounts
begin

text \<open>
  The handlers of the accounts (\<^verbatim>\<open>internal/api/auth.go\<close>, \<^verbatim>\<open>internal/api/rbac.go\<close>) and the check in front of them.
\<close>

subsection \<open>Rows\<close>

definition user_names :: "Accounts \<Rightarrow> string list" where
  "user_names a = map (\<lambda>u. map lower (us_Username u)) (ac_users a)"

text \<open>\<^verbatim>\<open>INSERT INTO users\<close>, which fails on a taken id or name or on an unknown role.\<close>

definition insert_user :: "User \<Rightarrow> Accounts \<Rightarrow> Accounts option" where
  "insert_user u a =
     (if \<not> ac_open a \<or> has_key us_ID (us_ID u) (ac_users a) \<or> map lower (us_Username u) \<in> set (user_names a) \<or>
         us_Role u \<noteq> ''admin'' \<and> us_Role u \<noteq> ''operator''
      then None else Some (a\<lparr>ac_users := ac_users a @ [u]\<rparr>))"

definition new_user :: "AccountsEnv \<Rightarrow> string \<Rightarrow> string \<Rightarrow> string \<Rightarrow> string \<Rightarrow> User" where
  "new_user v userID username hash role =
     \<lparr>us_ID = userID, us_Username = username, us_PasswordHash = hash, us_Role = role, us_Active = True,
      us_CreatedAt = ae_now v, us_UpdatedAt = ae_now v\<rparr>"

definition user_by_name :: "Accounts \<Rightarrow> string \<Rightarrow> User option" where
  "user_by_name a username =
     find (\<lambda>u. map lower (us_Username u) = map lower username \<and> us_Active u) (ac_users a)"

definition update_user :: "string \<Rightarrow> (User \<Rightarrow> User) \<Rightarrow> Accounts \<Rightarrow> Accounts" where
  "update_user userID f a = a\<lparr>ac_users := update_where (\<lambda>u. us_ID u = userID) f (ac_users a)\<rparr>"

definition audit :: "AccountsEnv \<Rightarrow> Principal option \<Rightarrow> string \<Rightarrow> string \<Rightarrow> Accounts \<Rightarrow> Accounts" where
  "audit v p action target a =
     (case p of
        None \<Rightarrow> a
      | Some p \<Rightarrow>
          (case randomOpaqueID v a of
             (None, a) \<Rightarrow> a
           | (Some auditID, a) \<Rightarrow>
               if \<not> ac_open a \<or> has_key au_ID auditID (ac_audit a) \<or> \<not> has_key us_ID (pp_ID p) (ac_users a) \<or>
                  length action = 0 then a
               else a\<lparr>ac_audit := ac_audit a @
                 [\<lparr>au_ID = auditID, au_ActorUserID = pp_ID p, au_Action = action, au_TargetID = target,
                   au_CreatedAt = ae_now v\<rparr>]\<rparr>))"

subsection \<open>Signing in\<close>

definition handleAuthStatus :: "Accounts \<Rightarrow> Response" where
  "handleAuthStatus a =
     (if \<not> ac_open a then WriteError 500 ''failed to check auth status''
      else respond 200 (PSetup (ac_users a \<noteq> [])))"

definition handleAuthMe :: "Principal option \<Rightarrow> Response" where
  "handleAuthMe p = (case p of None \<Rightarrow> WriteError 401 ''unauthorized'' | Some p \<Rightarrow> respond 200 (PPrincipal p))"

definition handleAuthSetup ::
  "AccountsEnv \<Rightarrow> HttpRequest \<Rightarrow> (string \<times> string) option \<Rightarrow> Accounts \<Rightarrow> Response \<times> Accounts" where
  "handleAuthSetup v r body a =
     (case body of
        None \<Rightarrow> (WriteError 400 ''invalid request body'', a)
      | Some (name, password) \<Rightarrow>
          let username = normalizeUsername name in
          if \<not> validUsername username then (WriteError 400 ''invalid username'', a)
          else if bad_password password then (WriteError 400 ''invalid password'', a)
          else if \<not> ac_open a then (WriteError 500 ''failed to check auth setup'', a)
          else if ac_users a \<noteq> [] then (WriteError 400 ''account setup is already complete'', a)
          else case ae_hash v password of
            None \<Rightarrow> (WriteError 500 ''failed to process password'', a)
          | Some hash \<Rightarrow>
              (case randomOpaqueID v a of
                 (None, a) \<Rightarrow> (WriteError 500 ''failed to create account'', a)
               | (Some userID, a) \<Rightarrow>
                   (case insert_user (new_user v userID username hash ''admin'') a of
                      None \<Rightarrow> (WriteError 500 ''failed to create account'', a)
                    | Some a \<Rightarrow> issueSession v r userID username ''admin'' a)))"

text \<open>The hash that is compared when there is no such user.\<close>

definition dummy_hash :: string where
  "dummy_hash = ''$2a$10$7EqJtq98hPqEX7fNZaFWoOe0VdZK0VdJf7hQJmJj1L2R7F1T9D3mK''"

definition handleAuthLogin ::
  "AccountsEnv \<Rightarrow> HttpRequest \<Rightarrow> (string \<times> string) option \<Rightarrow> Accounts \<Rightarrow> Response \<times> Accounts" where
  "handleAuthLogin v r body a =
     (case body of
        None \<Rightarrow> (WriteError 400 ''invalid request body'', a)
      | Some (name, password) \<Rightarrow>
          let key = hr_Client r in
          if \<not> allowLogin v key a then (WriteError 429 ''try again later'', a)
          else
            let found = (if ac_open a then user_by_name a (normalizeUsername name) else None);
                hash = (case found of None \<Rightarrow> dummy_hash | Some u \<Rightarrow> us_PasswordHash u)
            in case (if ae_matches v hash password then found else None) of
                 None \<Rightarrow> (WriteError 401 ''invalid credentials'', recordLoginFailure v key a)
               | Some u \<Rightarrow> issueSession v r (us_ID u) (us_Username u) (us_Role u) (clearLoginFailure key a))"

definition handleAuthLogout :: "AccountsEnv \<Rightarrow> HttpRequest \<Rightarrow> Accounts \<Rightarrow> Response \<times> Accounts" where
  "handleAuthLogout v r a = (setSessionCookie [] (- 1) r (respond 200 POk), revoke v (extractToken r) a)"

definition handleAuthChangePassword ::
  "AccountsEnv \<Rightarrow> HttpRequest \<Rightarrow> Principal option \<Rightarrow> (string \<times> string) option \<Rightarrow> Accounts \<Rightarrow> Response \<times> Accounts" where
  "handleAuthChangePassword v r p body a =
     (case p of
        None \<Rightarrow> (WriteError 401 ''unauthorized'', a)
      | Some p \<Rightarrow>
          (case body of
             None \<Rightarrow> (WriteError 400 ''invalid request body'', a)
           | Some (current, new) \<Rightarrow>
               if current = [] \<or> bad_password new then (WriteError 400 ''invalid password'', a)
               else case (if ac_open a then find (\<lambda>u. us_ID u = pp_ID p \<and> us_Active u) (ac_users a) else None) of
                 None \<Rightarrow> (WriteError 401 ''invalid current password'', a)
               | Some u \<Rightarrow>
                   if \<not> ae_matches v (us_PasswordHash u) current then (WriteError 401 ''invalid current password'', a)
                   else case ae_hash v new of
                     None \<Rightarrow> (WriteError 500 ''failed to process new password'', a)
                   | Some hash \<Rightarrow>
                       let a = update_user (pp_ID p) (\<lambda>u. u\<lparr>us_PasswordHash := hash, us_UpdatedAt := ae_now v\<rparr>) a in
                       (case revokeOtherSessions v (pp_ID p) (extractToken r) a of
                          (False, a) \<Rightarrow> (WriteError 500 ''failed to update password'', a)
                        | (True, a) \<Rightarrow> (respond 200 POk, a))))"

subsection \<open>Invitations\<close>

definition handleCreateInvite ::
  "AccountsEnv \<Rightarrow> Principal option \<Rightarrow> (string \<times> int) option \<Rightarrow> Accounts \<Rightarrow> Response \<times> Accounts" where
  "handleCreateInvite v p body a =
     (case body of
        None \<Rightarrow> (WriteError 400 ''invalid invite'', a)
      | Some (role, hours) \<Rightarrow>
          if role \<noteq> ''admin'' \<and> role \<noteq> ''operator'' then (WriteError 400 ''invalid invite'', a)
          else
            let hours = (if hours \<le> 0 \<or> 7 * 24 < hours then 24 else hours);
                creator = (case p of Some p \<Rightarrow> pp_ID p | None \<Rightarrow> [])
            in (case newBearerToken v a of
                  (None, a) \<Rightarrow> (WriteError 500 ''failed to create invite'', a)
                | (Some token, a) \<Rightarrow>
                    (case randomOpaqueID v a of
                       (None, a) \<Rightarrow> (WriteError 500 ''failed to create invite'', a)
                     | (Some inviteID, a) \<Rightarrow>
                         if \<not> ac_open a \<or> has_key iv_ID inviteID (ac_invites a) \<or>
                            has_key iv_TokenHash (tokenHash v token) (ac_invites a) \<or>
                            \<not> has_key us_ID creator (ac_users a)
                         then (WriteError 500 ''failed to create invite'', a)
                         else (respond 201 (PSecret token), audit v p ''invite_created'' inviteID
                           (a\<lparr>ac_invites := ac_invites a @
                              [\<lparr>iv_ID = inviteID, iv_TokenHash = tokenHash v token, iv_TargetRole = role,
                                iv_ExpiresAt = ae_now v + hours * 3600000, iv_CreatorID = creator,
                                iv_ConsumedAt = None\<rparr>]\<rparr>)))))"

definition open_invite :: "AccountsEnv \<Rightarrow> string \<Rightarrow> Accounts \<Rightarrow> Invite option" where
  "open_invite v token a =
     (case find (\<lambda>i. iv_TokenHash i = tokenHash v token \<and> iv_ConsumedAt i = None) (ac_invites a) of
        None \<Rightarrow> None | Some i \<Rightarrow> if iv_ExpiresAt i \<le> ae_now v then None else Some i)"

definition handleInviteRedeem ::
  "AccountsEnv \<Rightarrow> HttpRequest \<Rightarrow> (string \<times> string \<times> string) option \<Rightarrow> Accounts \<Rightarrow> Response \<times> Accounts" where
  "handleInviteRedeem v r body a =
     (case body of
        None \<Rightarrow> (WriteError 400 ''invalid invite'', a)
      | Some (token, name, password) \<Rightarrow>
          let username = normalizeUsername name in
          if \<not> validUsername username \<or> bad_password password \<or> token = [] then (WriteError 400 ''invalid invite'', a)
          else case ae_hash v password of
            None \<Rightarrow> (WriteError 500 ''failed to create account'', a)
          | Some hash \<Rightarrow>
              (case randomOpaqueID v a of
                 (None, a) \<Rightarrow> (WriteError 500 ''failed to create account'', a)
               | (Some userID, a) \<Rightarrow>
                   if \<not> ac_open a then (WriteError 500 ''failed to redeem invite'', a)
                   else case open_invite v token a of
                     None \<Rightarrow> (WriteError 401 ''invalid invite'', a)
                   | Some i \<Rightarrow>
                       (case insert_user (new_user v userID username hash (iv_TargetRole i)) a of
                          None \<Rightarrow> (WriteError 400 ''unable to create account'', a)
                        | Some a \<Rightarrow> issueSession v r userID username (iv_TargetRole i)
                            (a\<lparr>ac_invites := update_where (\<lambda>x. iv_ID x = iv_ID i \<and> iv_ConsumedAt x = None)
                              (\<lambda>x. x\<lparr>iv_ConsumedAt := Some (ae_now v)\<rparr>) (ac_invites a)\<rparr>))))"

subsection \<open>Accounts\<close>

definition handleListUsers :: "Accounts \<Rightarrow> Response" where
  "handleListUsers a =
     (if \<not> ac_open a then WriteError 500 ''failed to list users''
      else respond 200 (PUsers (sort_key us_CreatedAt (sort_key us_ID (ac_users a)))))"

definition active_admins :: "Accounts \<Rightarrow> nat" where
  "active_admins a = count_where (\<lambda>u. us_Role u = ''admin'' \<and> us_Active u) (ac_users a)"

definition handleSetUserActive ::
  "AccountsEnv \<Rightarrow> Principal option \<Rightarrow> string \<Rightarrow> bool option \<Rightarrow> Accounts \<Rightarrow> Response \<times> Accounts" where
  "handleSetUserActive v p userID body a =
     (case body of
        None \<Rightarrow> (WriteError 400 ''invalid request'', a)
      | Some active \<Rightarrow>
          if \<not> active \<and> userID = (case p of Some p \<Rightarrow> pp_ID p | None \<Rightarrow> [])
          then (WriteError 400 ''cannot deactivate current account'', a)
          else if \<not> ac_open a then (WriteError 500 ''failed to update account'', a)
          else case user_by_id a userID of
            None \<Rightarrow> (WriteError 404 ''account not found'', a)
          | Some u \<Rightarrow>
              if \<not> active \<and> us_Role u = ''admin'' \<and> us_Active u \<and> active_admins a \<le> 1
              then (WriteError 400 ''cannot deactivate last active admin'', a)
              else (respond 200 POk, audit v p ''user_activation_changed'' userID
                (update_user userID (\<lambda>u. u\<lparr>us_Active := active, us_UpdatedAt := ae_now v\<rparr>) a)))"

definition handleCreateResetToken :: "AccountsEnv \<Rightarrow> Principal option \<Rightarrow> string \<Rightarrow> Accounts \<Rightarrow> Response \<times> Accounts" where
  "handleCreateResetToken v p userID a =
     (case (if ac_open a then user_by_id a userID else None) of
        None \<Rightarrow> (WriteError 404 ''account not found'', a)
      | Some u \<Rightarrow>
          if \<not> us_Active u then (WriteError 400 ''account is inactive'', a)
          else (case newBearerToken v a of
            (None, a) \<Rightarrow> (WriteError 500 ''failed to create reset token'', a)
          | (Some token, a) \<Rightarrow>
              if has_key rt_TokenHash (tokenHash v token) (ac_resets a)
              then (WriteError 500 ''failed to create reset token'', a)
              else (respond 201 (PSecret token), audit v p ''password_reset_token_created'' userID
                (a\<lparr>ac_resets := ac_resets a @
                   [\<lparr>rt_TokenHash = tokenHash v token, rt_UserID = userID, rt_ExpiresAt = ae_now v + 3600000,
                     rt_CreatedAt = ae_now v, rt_ConsumedAt = None\<rparr>]\<rparr>))))"

definition open_reset :: "AccountsEnv \<Rightarrow> string \<Rightarrow> Accounts \<Rightarrow> ResetRow option" where
  "open_reset v token a =
     (case find (\<lambda>t. rt_TokenHash t = tokenHash v token \<and> rt_ConsumedAt t = None) (ac_resets a) of
        None \<Rightarrow> None | Some t \<Rightarrow> if rt_ExpiresAt t \<le> ae_now v then None else Some t)"

definition handleResetPassword ::
  "AccountsEnv \<Rightarrow> (string \<times> string) option \<Rightarrow> Accounts \<Rightarrow> Response \<times> Accounts" where
  "handleResetPassword v body a =
     (case body of
        None \<Rightarrow> (WriteError 400 ''invalid reset token'', a)
      | Some (token, password) \<Rightarrow>
          if token = [] \<or> bad_password password then (WriteError 400 ''invalid reset token'', a)
          else case ae_hash v password of
            None \<Rightarrow> (WriteError 500 ''failed to reset password'', a)
          | Some hash \<Rightarrow>
              if \<not> ac_open a then (WriteError 500 ''failed to reset password'', a)
              else case open_reset v token a of
                None \<Rightarrow> (WriteError 401 ''invalid reset token'', a)
              | Some t \<Rightarrow>
                  (respond 200 POk,
                   revoke_where v (\<lambda>s. sn_UserID s = rt_UserID t \<and> sn_RevokedAt s = None)
                    (a\<lparr>ac_users := update_where (\<lambda>u. us_ID u = rt_UserID t \<and> us_Active u)
                         (\<lambda>u. u\<lparr>us_PasswordHash := hash, us_UpdatedAt := ae_now v\<rparr>) (ac_users a),
                       ac_resets := update_where (\<lambda>x. rt_TokenHash x = tokenHash v token)
                         (\<lambda>x. x\<lparr>rt_ConsumedAt := Some (ae_now v)\<rparr>) (ac_resets a)\<rparr>)))"

text \<open>The newest 500 events; among events of one time the greatest id is first.\<close>

definition handleListAudit :: "Accounts \<Rightarrow> Response" where
  "handleListAudit a =
     (if \<not> ac_open a then WriteError 500 ''failed to list audit events''
      else respond 200 (PAudit (take 500 (rev (sort_key au_CreatedAt (sort_key au_ID (ac_audit a)))))))"

subsection \<open>Routes\<close>

fun ask_method :: "ask \<Rightarrow> string" where
  "ask_method AskStatus = ''GET''"
| "ask_method AskMe = ''GET''"
| "ask_method AskListUsers = ''GET''"
| "ask_method AskListAudit = ''GET''"
| "ask_method (AskOther m path) = m"
| "ask_method a = ''POST''"

fun ask_path :: "ask \<Rightarrow> string" where
  "ask_path AskStatus = ''/api/auth/status''"
| "ask_path AskMe = ''/api/auth/me''"
| "ask_path (AskSetup body) = ''/api/auth/setup''"
| "ask_path (AskLogin body) = ''/api/auth/login''"
| "ask_path AskLogout = ''/api/auth/logout''"
| "ask_path (AskChangePassword body) = ''/api/auth/change-password''"
| "ask_path (AskRedeem body) = ''/api/auth/invite/redeem''"
| "ask_path (AskReset body) = ''/api/auth/reset-password''"
| "ask_path AskListUsers = ''/api/users''"
| "ask_path (AskInvite body) = ''/api/users/invites''"
| "ask_path (AskSetActive userID body) = ''/api/users/'' @ userID @ ''/active''"
| "ask_path (AskResetToken userID) = ''/api/users/'' @ userID @ ''/reset-token''"
| "ask_path AskListAudit = ''/api/audit''"
| "ask_path (AskOther m path) = path"

definition requiresAdmin :: "string \<Rightarrow> string \<Rightarrow> bool" where
  "requiresAdmin m path =
     (path = ''/api/config'' \<or>
      has_prefix path ''/api/sync-sets/'' \<and> has_suffix path ''/membership'' \<or>
      path = ''/api/users'' \<or> has_prefix path ''/api/users/'' \<or> path = ''/api/audit'' \<or>
      path = ''/api/verification/pipelines'' \<or> has_prefix path ''/api/verification/pipelines/'' \<or>
      (path = ''/api/connections'' \<or> has_prefix path ''/api/connections/'') \<and> m \<noteq> ''GET'')"

text \<open>The paths that need no session.\<close>

definition open_path :: "string \<Rightarrow> bool" where
  "open_path path =
     (path \<in> set [''/api/auth/status'', ''/api/version'', ''/api/auth/setup'', ''/api/auth/login'',
        ''/api/auth/invite/redeem'', ''/api/auth/reset-password'', ''/api/verification/email/verify'',
        ''/api/verification/email/resend''] \<or>
      has_prefix path ''/api/verification/join/'' \<or>
      has_prefix path ''/api/verification/'' \<and> path \<noteq> ''/api/verification/requests'' \<and>
        \<not> has_prefix path ''/api/verification/pipelines'' \<and> \<not> has_prefix path ''/api/verification/requests/'')"

text \<open>The handler of a request, for a principal if the check found one; other routes are not modelled.\<close>

fun dispatch :: "AccountsEnv \<Rightarrow> HttpRequest \<Rightarrow> Principal option \<Rightarrow> ask \<Rightarrow> Accounts \<Rightarrow> Response \<times> Accounts" where
  "dispatch v r p AskStatus a = (handleAuthStatus a, a)"
| "dispatch v r p AskMe a = (handleAuthMe p, a)"
| "dispatch v r p (AskSetup body) a = handleAuthSetup v r body a"
| "dispatch v r p (AskLogin body) a = handleAuthLogin v r body a"
| "dispatch v r p AskLogout a = handleAuthLogout v r a"
| "dispatch v r p (AskChangePassword body) a = handleAuthChangePassword v r p body a"
| "dispatch v r p (AskRedeem body) a = handleInviteRedeem v r body a"
| "dispatch v r p (AskReset body) a = handleResetPassword v body a"
| "dispatch v r p AskListUsers a = (handleListUsers a, a)"
| "dispatch v r p (AskInvite body) a = handleCreateInvite v p body a"
| "dispatch v r p (AskSetActive userID body) a = handleSetUserActive v p userID body a"
| "dispatch v r p (AskResetToken userID) a = handleCreateResetToken v p userID a"
| "dispatch v r p AskListAudit a = (handleListAudit a, a)"
| "dispatch v r p (AskOther m path) a = (respond 200 PNext, a)"

definition authMiddleware :: "AccountsEnv \<Rightarrow> HttpRequest \<Rightarrow> Accounts \<Rightarrow> Response \<times> Accounts" where
  "authMiddleware v r a =
     (let q = hr_Ask r; path = ask_path q in
      if \<not> has_prefix path ''/api/'' \<or> open_path path then dispatch v r None q a
      else case session_principal v (extractToken r) a of
        (None, a) \<Rightarrow> (WriteError 401 ''unauthorized'', a)
      | (Some p, a) \<Rightarrow>
          if requiresAdmin (ask_method q) path \<and> pp_Role p \<noteq> ''admin'' then (WriteError 403 ''forbidden'', a)
          else dispatch v r (Some p) q a)"

end
