(* ===== verification/AccountsSpec.thy ===== *)
theory AccountsSpec
  imports AccountsHandlers
begin

text \<open>
  What the accounts promise: in every state the requests reach there is an active administrator, every invitation
  was made by an administrator, and no account exists without an invitation that was used for it; changing or
  resetting a password ends the sessions of the account.
\<close>

subsection \<open>What a request keeps\<close>

definition is_admin :: "User \<Rightarrow> bool" where
  "is_admin u = (us_Role u = ''admin'')"

definition used_invite :: "string \<Rightarrow> Invite \<Rightarrow> bool" where
  "used_invite role i = (iv_TargetRole i = role \<and> iv_ConsumedAt i \<noteq> None)"

definition with_role :: "string \<Rightarrow> User \<Rightarrow> bool" where
  "with_role role u = (us_Role u = role)"

text \<open>
  Ids and names are unique, there is an active administrator once there is a user, invitations come from
  administrators, sessions and resets belong to users, and each account beyond the first has used an invitation.
\<close>

definition accounts_ok :: "Accounts \<Rightarrow> bool" where
  "accounts_ok a =
     (keys_ok us_ID (ac_users a) \<and> distinct (user_names a) \<and>
      list_all (\<lambda>u. us_Role u = ''admin'' \<or> us_Role u = ''operator'') (ac_users a) \<and>
      (ac_users a \<noteq> [] \<longrightarrow> 1 \<le> active_admins a) \<and>
      list_all (\<lambda>i. list_ex (\<lambda>u. us_ID u = iv_CreatorID i \<and> is_admin u) (ac_users a)) (ac_invites a) \<and>
      list_all (\<lambda>s. has_key us_ID (sn_UserID s) (ac_users a)) (ac_sessions a) \<and>
      list_all (\<lambda>t. has_key us_ID (rt_UserID t) (ac_users a)) (ac_resets a) \<and>
      keys_ok iv_ID (ac_invites a) \<and> keys_ok sn_TokenHash (ac_sessions a) \<and>
      count_where (with_role ''admin'') (ac_users a) \<le> 1 + count_where (used_invite ''admin'') (ac_invites a) \<and>
      count_where (with_role ''operator'') (ac_users a) \<le> count_where (used_invite ''operator'') (ac_invites a))"

text \<open>What does not touch users and invitations, and only adds sessions or resets of users.\<close>

lemma accounts_ok_cong:
  assumes "accounts_ok a" "ac_users b = ac_users a" "ac_invites b = ac_invites a"
    "list_all (\<lambda>s. has_key us_ID (sn_UserID s) (ac_users a)) (ac_sessions b)"
    "keys_ok sn_TokenHash (ac_sessions b)"
    "list_all (\<lambda>t. has_key us_ID (rt_UserID t) (ac_users a)) (ac_resets b)"
  shows "accounts_ok b"
  using assms by (simp add: accounts_ok_def user_names_def active_admins_def)

lemma ok_drawn [simp]: "accounts_ok (a\<lparr>ac_drawn := n\<rparr>) = accounts_ok a"
  by (simp add: accounts_ok_def user_names_def active_admins_def)

lemma ok_audit_rows [simp]: "accounts_ok (a\<lparr>ac_audit := rows\<rparr>) = accounts_ok a"
  by (simp add: accounts_ok_def user_names_def active_admins_def)

lemma ok_failed [simp]: "accounts_ok (a\<lparr>ac_failed := fs\<rparr>) = accounts_ok a"
  by (simp add: accounts_ok_def user_names_def active_admins_def)

lemma draws:
  "randomOpaqueID v a = (x, b) \<Longrightarrow> b = a\<lparr>ac_drawn := ac_drawn a + 1\<rparr>"
  "newBearerToken v a = (x, b) \<Longrightarrow> b = a\<lparr>ac_drawn := ac_drawn a + 1\<rparr>"
  by (auto simp: randomOpaqueID_def newBearerToken_def draw_def)

lemma audit_state: "\<exists>n rows. audit v p action target a = a\<lparr>ac_drawn := n, ac_audit := rows\<rparr>"
proof -
  have same: "\<exists>n rows. a = a\<lparr>ac_drawn := n, ac_audit := rows\<rparr>"
    by (rule exI [of _ "ac_drawn a"], rule exI [of _ "ac_audit a"]) simp
  have drawn: "\<exists>n rows. a\<lparr>ac_drawn := k\<rparr> = a\<lparr>ac_drawn := n, ac_audit := rows\<rparr>" for k
    by (rule exI [of _ k], rule exI [of _ "ac_audit a"]) simp
  show ?thesis
    using same drawn
    by (auto simp: audit_def split: option.split prod.split dest!: draws)
qed

lemma ok_audit: "accounts_ok a \<Longrightarrow> accounts_ok (audit v p action target a)"
  using audit_state [of v p action target a] by auto

lemma user_by_id_found: "user_by_id a userID = Some u \<Longrightarrow> u \<in> set (ac_users a) \<and> us_ID u = userID"
  unfolding user_by_id_def by (induction "ac_users a") (auto simp: find_Some_iff dest: nth_mem)

lemma ok_createSession:
  assumes "accounts_ok a" "createSession v userID a = (x, b)"
  shows "accounts_ok b \<and> ac_tokenTTL b = ac_tokenTTL a"
  using assms
  by (auto simp: createSession_def accounts_ok_def user_names_def active_admins_def list_all_iff
      split: prod.split_asm option.split_asm if_split_asm dest!: draws user_by_id_found)

lemma ok_issueSession: "accounts_ok a \<Longrightarrow> accounts_ok (snd (issueSession v r userID username role a))"
  by (auto simp: issueSession_def split: prod.split option.split dest: ok_createSession)

lemma update_where_keys: "(\<And>x. key (f x) = key x) \<Longrightarrow> map key (update_where P f rows) = map key rows"
  by (simp add: update_where_def)

lemma ok_sessions:
  assumes "accounts_ok a" "\<And>s. sn_UserID (f s) = sn_UserID s \<and> sn_TokenHash (f s) = sn_TokenHash s"
  shows "accounts_ok (a\<lparr>ac_sessions := update_where P f (ac_sessions a)\<rparr>)"
proof (rule accounts_ok_cong [OF assms(1)])
  show "list_all (\<lambda>s. has_key us_ID (sn_UserID s) (ac_users a))
      (ac_sessions (a\<lparr>ac_sessions := update_where P f (ac_sessions a)\<rparr>))"
    using assms by (auto simp: accounts_ok_def list_all_iff update_where_def)
  show "keys_ok sn_TokenHash (ac_sessions (a\<lparr>ac_sessions := update_where P f (ac_sessions a)\<rparr>))"
    using assms by (simp add: accounts_ok_def keys_ok_def update_where_keys)
qed (use assms(1) in \<open>simp_all add: accounts_ok_def\<close>)

lemma ok_revoke: "accounts_ok a \<Longrightarrow> accounts_ok (revoke_where v P a)"
  unfolding revoke_where_def by (rule ok_sessions) simp_all

text \<open>Changing users in place: ids, names and roles stay, and an active administrator is left.\<close>

lemma ok_users:
  assumes "accounts_ok a"
    and f: "\<And>u. us_ID (f u) = us_ID u \<and> us_Username (f u) = us_Username u \<and> us_Role (f u) = us_Role u"
    and admins: "1 \<le> active_admins a \<Longrightarrow> 1 \<le> active_admins (a\<lparr>ac_users := update_where P f (ac_users a)\<rparr>)"
  shows "accounts_ok (a\<lparr>ac_users := update_where P f (ac_users a)\<rparr>)"
proof -
  let ?us = "update_where P f (ac_users a)"
  have ids: "map us_ID ?us = map us_ID (ac_users a)"
    by (rule update_where_keys) (simp add: f)
  have "map (\<lambda>u. map lower (us_Username u)) ?us = map (\<lambda>u. map lower (us_Username u)) (ac_users a)"
    by (rule update_where_keys) (simp add: f)
  moreover have keys: "us_ID ` set ?us = us_ID ` set (ac_users a)"
    using ids by (metis set_map)
  moreover have "list_ex (\<lambda>u. us_ID u = c \<and> is_admin u) ?us = list_ex (\<lambda>u. us_ID u = c \<and> is_admin u) (ac_users a)" for c
    by (rule list_ex_map) (simp add: is_admin_def f)
  moreover have "list_all (\<lambda>u. us_Role u = ''admin'' \<or> us_Role u = ''operator'') ?us
      = list_all (\<lambda>u. us_Role u = ''admin'' \<or> us_Role u = ''operator'') (ac_users a)"
    by (rule list_all_map) (simp add: f)
  moreover have "count_where (with_role role) ?us = count_where (with_role role) (ac_users a)" for role
    by (rule count_where_map) (simp add: with_role_def f)
  moreover have "(?us = []) = (ac_users a = [])"
    by (simp add: update_where_def)
  ultimately show ?thesis
    using assms(1) admins ids by (simp add: accounts_ok_def user_names_def keys_ok_def)
qed

lemma ok_password: "accounts_ok a \<Longrightarrow>
    accounts_ok (a\<lparr>ac_users := update_where P (\<lambda>u. u\<lparr>us_PasswordHash := h, us_UpdatedAt := t\<rparr>) (ac_users a)\<rparr>)"
  by (rule ok_users) (simp_all add: active_admins_def count_where_map)

lemma ok_resets:
  assumes "accounts_ok a" "\<And>t. rt_UserID (f t) = rt_UserID t"
  shows "accounts_ok (a\<lparr>ac_resets := update_where P f (ac_resets a)\<rparr>)"
  using assms by (intro accounts_ok_cong [OF assms(1)]) (simp_all add: accounts_ok_def list_all_map)

subsection \<open>Signing in\<close>

lemma insert_user_row:
  "insert_user u a = Some b \<Longrightarrow> b = a\<lparr>ac_users := ac_users a @ [u]\<rparr> \<and> \<not> has_key us_ID (us_ID u) (ac_users a) \<and>
    map lower (us_Username u) \<notin> set (user_names a) \<and> (us_Role u = ''admin'' \<or> us_Role u = ''operator'')"
  by (auto simp: insert_user_def split: if_splits)

lemma ok_first_user:
  assumes "accounts_ok a" "ac_users a = []" "insert_user (new_user v userID username hash ''admin'') a = Some b"
  shows "accounts_ok b"
  using assms insert_user_row [OF assms(3)]
  by (auto simp: accounts_ok_def user_names_def active_admins_def new_user_def count_where_def with_role_def list_all_iff)

lemma ok_setup: "accounts_ok a \<Longrightarrow> accounts_ok (snd (handleAuthSetup v r body a))"
  by (auto simp: handleAuthSetup_def Let_def split: option.split prod.split
      intro!: ok_issueSession dest!: draws elim: ok_first_user [rotated 2])

lemma ok_login: "accounts_ok a \<Longrightarrow> accounts_ok (snd (handleAuthLogin v r body a))"
  by (auto simp: handleAuthLogin_def Let_def recordLoginFailure_def clearLoginFailure_def
      split: option.split prod.split intro!: ok_issueSession)

lemma ok_logout: "accounts_ok a \<Longrightarrow> accounts_ok (snd (handleAuthLogout v r a))"
  by (simp add: handleAuthLogout_def revoke_def ok_revoke)

lemma ok_change: "accounts_ok a \<Longrightarrow> accounts_ok (snd (handleAuthChangePassword v r p body a))"
  using ok_password
  by (auto simp: handleAuthChangePassword_def Let_def update_user_def revokeOtherSessions_def
      split: option.split prod.split bool.split if_split_asm intro!: ok_revoke)

subsection \<open>Invitations and accounts\<close>

lemma count_snoc: "count_where P (xs @ [x]) = count_where P xs + (if P x then 1 else 0)"
  by (simp add: count_where_def)

lemma ok_invite:
  assumes "accounts_ok a" "\<exists>u \<in> set (ac_users a). us_ID u = pp_ID p \<and> is_admin u"
  shows "accounts_ok (snd (handleCreateInvite v (Some p) body a))"
proof -
  have "accounts_ok (a\<lparr>ac_drawn := n, ac_invites := ac_invites a @ [i]\<rparr>)"
    if "iv_CreatorID i = pp_ID p" "iv_ConsumedAt i = None" "iv_ID i \<notin> iv_ID ` set (ac_invites a)" for i n
    using that assms
    by (auto simp: accounts_ok_def user_names_def active_admins_def list_ex_iff count_snoc used_invite_def)
  then show ?thesis
    using assms(1)
    by (auto simp: handleCreateInvite_def Let_def split: option.split prod.split dest!: draws intro!: ok_audit)
qed

lemma ok_reset_token: "accounts_ok a \<Longrightarrow> accounts_ok (snd (handleCreateResetToken v p userID a))"
proof -
  assume ok: "accounts_ok a"
  have "accounts_ok (a\<lparr>ac_drawn := n, ac_resets := ac_resets a @ [t]\<rparr>)"
    if "has_key us_ID (rt_UserID t) (ac_users a)" for t n
    using that ok by (auto simp: accounts_ok_def user_names_def active_admins_def)
  then show ?thesis
    using ok
    by (auto simp: handleCreateResetToken_def Let_def split: option.split prod.split
        dest!: draws user_by_id_found intro!: ok_audit split: if_split_asm)
qed

lemma ok_reset: "accounts_ok a \<Longrightarrow> accounts_ok (snd (handleResetPassword v body a))"
proof -
  assume ok: "accounts_ok a"
  have "accounts_ok (a\<lparr>ac_users := update_where P (\<lambda>u. u\<lparr>us_PasswordHash := h, us_UpdatedAt := now\<rparr>) (ac_users a),
      ac_resets := update_where Q (\<lambda>x. x\<lparr>rt_ConsumedAt := c\<rparr>) (ac_resets a)\<rparr>)" for P h now Q c
    using ok_resets [OF ok_password [OF ok], where f = "\<lambda>x. x\<lparr>rt_ConsumedAt := c\<rparr>"] by simp
  then show ?thesis
    using ok by (auto simp: handleResetPassword_def split: option.split intro!: ok_revoke)
qed

lemma count_update_mono:
  "(\<And>x. x \<in> set rows \<Longrightarrow> Q x \<Longrightarrow> Q (if P x then f x else x)) \<Longrightarrow>
    count_where Q rows \<le> count_where Q (update_where P f rows)"
proof (induction rows)
  case (Cons x rows)
  have "count_where Q rows \<le> count_where Q (update_where P f rows)"
    using Cons.prems by (intro Cons.IH) simp
  then show ?case
    using Cons.prems [of x] by (auto simp: count_where_def update_where_def)
qed (simp add: count_where_def update_where_def)

lemma count_update_grow:
  assumes "y \<in> set rows" "P y" "\<not> Q y" "Q (f y)" "\<And>x. Q x \<Longrightarrow> Q (if P x then f x else x)"
  shows "count_where Q rows < count_where Q (update_where P f rows)"
  using assms(1)
proof (induction rows)
  case (Cons x rows)
  have mono: "count_where Q rows \<le> count_where Q (update_where P f rows)"
    by (rule count_update_mono) (rule assms(5))
  show ?case
  proof (cases "x = y")
    case True
    then show ?thesis
      using mono assms(2,3,4) by (simp add: count_where_def update_where_def)
  next
    case False
    then show ?thesis
      using Cons assms(5) [of x] by (auto simp: count_where_def update_where_def)
  qed
qed simp

lemma count_update_loss: "count_where Q rows \<le> count_where Q (update_where P f rows) + count_where P rows"
  by (induction rows) (auto simp: count_where_def update_where_def)

lemma count_key: "keys_ok key rows \<Longrightarrow> count_where (\<lambda>x. key x = k) rows \<le> 1"
  by (induction rows) (auto simp: count_where_def keys_ok_def image_iff filter_empty_conv)

lemma open_invite_found:
  "open_invite v token a = Some i \<Longrightarrow> i \<in> set (ac_invites a) \<and> iv_ConsumedAt i = None \<and>
    iv_TokenHash i = tokenHash v token \<and> ae_now v < iv_ExpiresAt i"
  by (auto simp: open_invite_def find_Some_iff split: option.splits if_splits)

lemma ok_redeemed:
  assumes "accounts_ok a" "i \<in> set (ac_invites a)" "iv_ConsumedAt i = None"
    "insert_user (new_user v userID username hash (iv_TargetRole i)) a = Some b"
  shows "accounts_ok (b\<lparr>ac_invites := update_where (\<lambda>x. iv_ID x = iv_ID i \<and> iv_ConsumedAt x = None)
    (\<lambda>x. x\<lparr>iv_ConsumedAt := Some (ae_now v)\<rparr>) (ac_invites b)\<rparr>)"
proof -
  define P :: "Invite \<Rightarrow> bool" where "P = (\<lambda>x. iv_ID x = iv_ID i \<and> iv_ConsumedAt x = None)"
  define f :: "Invite \<Rightarrow> Invite" where "f = (\<lambda>x. x\<lparr>iv_ConsumedAt := Some (ae_now v)\<rparr>)"
  define u where "u = new_user v userID username hash (iv_TargetRole i)"
  have b: "b = a\<lparr>ac_users := ac_users a @ [u]\<rparr>" and new: "us_ID u \<notin> us_ID ` set (ac_users a)"
    "map lower (us_Username u) \<notin> set (user_names a)" "us_Role u = ''admin'' \<or> us_Role u = ''operator''"
    and role: "us_Role u = iv_TargetRole i" "us_Active u"
    using insert_user_row [OF assms(4)] by (auto simp: u_def new_user_def)
  have grow: "count_where (used_invite role) (ac_invites a) + (if iv_TargetRole i = role then 1 else 0)
      \<le> count_where (used_invite role) (update_where P f (ac_invites a))" for role
  proof (cases "iv_TargetRole i = role")
    case True
    then have "count_where (used_invite role) (ac_invites a)
        < count_where (used_invite role) (update_where P f (ac_invites a))"
      using assms(2,3) by (intro count_update_grow [of i]) (auto simp: P_def f_def used_invite_def)
    with True show ?thesis by simp
  next
    case False
    have "count_where (used_invite role) (ac_invites a)
        \<le> count_where (used_invite role) (update_where P f (ac_invites a))"
      by (rule count_update_mono) (auto simp: f_def used_invite_def)
    with False show ?thesis by simp
  qed
  have ids: "keys_ok iv_ID (update_where P f (ac_invites a))"
    using assms(1) by (simp add: accounts_ok_def keys_ok_def update_where_keys f_def)
  have creators: "list_all (\<lambda>i. list_ex (\<lambda>u. us_ID u = iv_CreatorID i \<and> is_admin u) (ac_users a @ [u]))
      (update_where P f (ac_invites a))"
    using assms(1) by (subst list_all_map) (auto simp: f_def accounts_ok_def list_all_iff)
  have roles: "count_where (with_role role) (ac_users a @ [u]) =
      count_where (with_role role) (ac_users a) + (if iv_TargetRole i = role then 1 else 0)" for role
    by (simp add: count_snoc with_role_def role)
  have "ac_users a \<noteq> []"
    using assms(1,2) by (auto simp: accounts_ok_def list_all_iff)
  then have "accounts_ok (a\<lparr>ac_users := ac_users a @ [u], ac_invites := update_where P f (ac_invites a)\<rparr>)"
    using assms(1) new ids creators grow [of "''admin''"] grow [of "''operator''"] roles role
    by (auto simp: accounts_ok_def user_names_def active_admins_def count_snoc list_all_iff)
  then show ?thesis
    by (simp add: b P_def f_def)
qed

lemma ok_redeem: "accounts_ok a \<Longrightarrow> accounts_ok (snd (handleInviteRedeem v r body a))"
  by (auto simp: handleInviteRedeem_def Let_def split: option.split prod.split
      dest!: draws open_invite_found intro!: ok_issueSession elim: ok_redeemed [rotated 3])

lemma ok_set_active:
  assumes "accounts_ok a"
  shows "accounts_ok (snd (handleSetUserActive v p userID body a))"
proof -
  define f where "f = (\<lambda>active (u :: User). u\<lparr>us_Active := active, us_UpdatedAt := ae_now v\<rparr>)"
  define admin :: "User \<Rightarrow> bool" where "admin = (\<lambda>u. us_Role u = ''admin'' \<and> us_Active u)"
  have "accounts_ok (update_user userID (f active) a)"
    if u: "user_by_id a userID = Some u" and guard: "\<not> (\<not> active \<and> admin u \<and> active_admins a \<le> 1)" for u active
  proof -
    let ?P = "\<lambda>u. us_ID u = userID"
    have same: "x = u" if "x \<in> set (ac_users a)" "us_ID x = userID" for x
      using that user_by_id_found [OF u] assms keys_ok_unique [of us_ID "ac_users a" x u]
      by (simp add: accounts_ok_def)
    have "1 \<le> count_where admin (update_where ?P (f active) (ac_users a))" if "1 \<le> count_where admin (ac_users a)"
    proof (cases "active \<or> \<not> admin u")
      case True
      then have "count_where admin (ac_users a) \<le> count_where admin (update_where ?P (f active) (ac_users a))"
        using same by (intro count_update_mono) (auto simp: admin_def f_def)
      with that show ?thesis by simp
    next
      case False
      then have "2 \<le> count_where admin (ac_users a)"
        using guard by (simp add: active_admins_def admin_def)
      moreover have "count_where ?P (ac_users a) \<le> 1"
        using assms by (intro count_key) (simp add: accounts_ok_def)
      ultimately show ?thesis
        using count_update_loss [of admin "ac_users a" ?P "f active"] by simp
    qed
    then show ?thesis
      unfolding update_user_def
      by (intro ok_users [OF assms]) (simp_all add: f_def active_admins_def admin_def [abs_def])
  qed
  then show ?thesis
    using assms unfolding f_def admin_def
    by (auto simp: handleSetUserActive_def split: option.split intro!: ok_audit)
qed

subsection \<open>Every request\<close>

lemma session_principal_user:
  assumes "session_principal v token a = (Some p, b)"
  obtains u where "u \<in> set (ac_users a)" "us_ID u = pp_ID p" "us_Role u = pp_Role p" "us_Active u"
    "ac_users b = ac_users a"
  using assms
  by (auto simp: session_principal_def live_session_def split: if_splits option.splits dest!: user_by_id_found)

lemma ok_principal: "accounts_ok a \<Longrightarrow> session_principal v token a = (p, b) \<Longrightarrow> accounts_ok b"
  by (auto simp: session_principal_def split: if_splits option.splits intro!: ok_sessions)

lemma ok_dispatch:
  assumes "accounts_ok a"
    and "\<And>body. q = AskInvite body \<Longrightarrow> \<exists>p'. p = Some p' \<and> (\<exists>u \<in> set (ac_users a). us_ID u = pp_ID p' \<and> is_admin u)"
  shows "accounts_ok (snd (dispatch v r p q a))"
proof (cases q)
  case (AskInvite body)
  then obtain p' where p: "p = Some p'" "\<exists>u \<in> set (ac_users a). us_ID u = pp_ID p' \<and> is_admin u"
    using assms(2) by blast
  show ?thesis
    using ok_invite [OF assms(1) p(2)] by (simp add: AskInvite p(1))
qed (use assms in \<open>simp_all add: ok_setup ok_login ok_logout ok_change ok_redeem ok_reset ok_set_active ok_reset_token\<close>)

lemma invite_path: "\<not> open_path (ask_path (AskInvite body))" "requiresAdmin (ask_method (AskInvite body)) (ask_path (AskInvite body))"
  "has_prefix (ask_path (AskInvite body)) ''/api/''"
  by (simp_all add: open_path_def requiresAdmin_def has_prefix_def)

lemma ok_request:
  assumes "accounts_ok a"
  shows "accounts_ok (snd (authMiddleware v r a))"
proof (cases "\<not> has_prefix (ask_path (hr_Ask r)) ''/api/'' \<or> open_path (ask_path (hr_Ask r))")
  case True
  have "accounts_ok (snd (dispatch v r None (hr_Ask r) a))"
    using True invite_path by (intro ok_dispatch [OF assms]) auto
  with True show ?thesis by (simp add: authMiddleware_def Let_def)
next
  case False
  obtain p b where principal: "session_principal v (extractToken r) a = (p, b)" by force
  have b: "accounts_ok b" by (rule ok_principal [OF assms principal])
  show ?thesis
  proof (cases p)
    case None
    then show ?thesis using False principal b by (simp add: authMiddleware_def Let_def)
  next
    case (Some p')
    obtain u where u: "u \<in> set (ac_users a)" "us_ID u = pp_ID p'" "us_Role u = pp_Role p'" "ac_users b = ac_users a"
      using session_principal_user principal Some by metis
    have "accounts_ok (snd (dispatch v r p (hr_Ask r) b))"
      if "\<not> (requiresAdmin (ask_method (hr_Ask r)) (ask_path (hr_Ask r)) \<and> pp_Role p' \<noteq> ''admin'')"
    proof (rule ok_dispatch [OF b])
      fix body assume "hr_Ask r = AskInvite body"
      then have "pp_Role p' = ''admin''" using that invite_path by auto
      then show "\<exists>p'. p = Some p' \<and> (\<exists>u \<in> set (ac_users b). us_ID u = pp_ID p' \<and> is_admin u)"
        using Some u by (auto simp: is_admin_def)
    qed
    then show ?thesis
      using False principal Some b by (simp add: authMiddleware_def Let_def)
  qed
qed

text \<open>An installation without accounts.\<close>

definition fresh_accounts :: "int \<Rightarrow> Accounts" where
  "fresh_accounts ttl =
     \<lparr>ac_open = True, ac_drawn = 0, ac_tokenTTL = ttl, ac_users = [], ac_sessions = [], ac_invites = [],
      ac_resets = [], ac_audit = [], ac_failed = []\<rparr>"

definition serve_all :: "(AccountsEnv \<times> HttpRequest) list \<Rightarrow> Accounts \<Rightarrow> Accounts" where
  "serve_all qs a = fold (\<lambda>(v, r) a. snd (authMiddleware v r a)) qs a"

text \<open>
  C11: Whatever requests an installation gets, the accounts stay sound: once set up there is always an active
  administrator; every invitation was made by an administrator; beside the first administrator there are never more
  administrators, nor operators, than invitations for the role that were used, so an invitation makes at most one
  account and nobody raises a role; and ids, names and session tokens are unique.
\<close>

theorem accounts_stay_sound:
  "accounts_ok (serve_all qs (fresh_accounts ttl))"
proof -
  have "accounts_ok a \<Longrightarrow> accounts_ok (serve_all qs a)" for a
    unfolding serve_all_def by (induction qs arbitrary: a) (auto simp: ok_request)
  moreover have "accounts_ok (fresh_accounts ttl)"
    by (simp add: accounts_ok_def fresh_accounts_def user_names_def count_where_def)
  ultimately show ?thesis by blast
qed

subsection \<open>Passwords\<close>

text \<open>A token that gives no principal of a user.\<close>

definition signed_in :: "AccountsEnv \<Rightarrow> string \<Rightarrow> string \<Rightarrow> Accounts \<Rightarrow> bool" where
  "signed_in v token userID a =
     (case fst (session_principal v token a) of None \<Rightarrow> False | Some p \<Rightarrow> pp_ID p = userID)"

lemma find_member: "find P xs = Some x \<Longrightarrow> x \<in> set xs \<and> P x"
  by (induction xs) (auto split: if_splits)

lemma signed_in_session:
  assumes "signed_in v token userID a"
  shows "\<exists>s \<in> set (ac_sessions a). sn_TokenHash s = tokenHash v token \<and> sn_RevokedAt s = None \<and> sn_UserID s = userID"
  using assms
  by (auto simp: signed_in_def session_principal_def live_session_def
      split: if_splits option.splits dest!: user_by_id_found find_member; blast)

lemma revoked_where:
  assumes "s \<in> set (ac_sessions (revoke_where v P a))" "sn_RevokedAt s = None"
  shows "s \<in> set (ac_sessions a) \<and> \<not> P s"
  using assms by (auto simp: revoke_where_def update_where_def split: if_splits)

lemma change_revokes:
  assumes "handleAuthChangePassword v r (Some p) body a = (rs, b)" "rs_Status rs = 200"
    "s \<in> set (ac_sessions b)" "sn_RevokedAt s = None" "sn_UserID s = pp_ID p"
  shows "sn_TokenHash s = tokenHash v (extractToken r)"
  using assms
  by (auto simp: handleAuthChangePassword_def Let_def WriteError_def respond_def revokeOtherSessions_def
      split: option.split_asm prod.split_asm if_split_asm dest!: revoked_where)

lemma reset_revokes:
  assumes "handleResetPassword v (Some (token, password)) a = (rs, b)" "rs_Status rs = 200"
    "open_reset v token a = Some t" "s \<in> set (ac_sessions b)" "sn_RevokedAt s = None"
  shows "sn_UserID s \<noteq> rt_UserID t"
  using assms
  by (auto simp: handleResetPassword_def WriteError_def respond_def
      split: option.split_asm prod.split_asm if_split_asm dest!: revoked_where)

text \<open>
  C12: A new password ends the sessions that were opened with the old one: once a change of the password has been
  answered with success, no token but the one it was made with signs its user in, and once a reset has been, no
  token at all does, until there is a new session.
\<close>

theorem new_password_ends_sessions:
  assumes "handleAuthChangePassword v r (Some p) body a = (rs, b)" and "rs_Status rs = 200"
    and "handleResetPassword v (Some (resetToken, password)) c = (rs', d)" and "rs_Status rs' = 200"
    and "open_reset v resetToken c = Some t" and "ae_sha256 v' = ae_sha256 v"
  shows "(signed_in v' token (pp_ID p) b \<longrightarrow> tokenHash v token = tokenHash v (extractToken r)) \<and>
    \<not> signed_in v' token (rt_UserID t) d"
proof -
  have hashes: "tokenHash v' token = tokenHash v token"
    using assms(6) by (simp add: tokenHash_def)
  show ?thesis
    using signed_in_session [of v' token "pp_ID p" b] signed_in_session [of v' token "rt_UserID t" d]
      change_revokes [OF assms(1,2)] reset_revokes [OF assms(3,4,5)] hashes
    by auto
qed

subsection \<open>A small installation\<close>

definition sample_accounts_env :: AccountsEnv where
  "sample_accounts_env =
     \<lparr>ae_now = 1000, ae_random = (\<lambda>n k. Some (replicate k CHR 0x00)), ae_sha256 = (\<lambda>m. m),
      ae_hash = (\<lambda>p. Some p), ae_matches = (\<lambda>h p. h = p)\<rparr>"

definition sample_admin :: User where
  "sample_admin =
     \<lparr>us_ID = ''u1'', us_Username = ''ada'', us_PasswordHash = ''old-password'', us_Role = ''admin'', us_Active = True,
      us_CreatedAt = 0, us_UpdatedAt = 0\<rparr>"

definition sample_session :: "string \<Rightarrow> SessionRow" where
  "sample_session token =
     \<lparr>sn_TokenHash = EncodeToString64 token, sn_UserID = ''u1'', sn_ExpiresAt = 5000, sn_CreatedAt = 0,
      sn_LastSeenAt = 0, sn_RevokedAt = None\<rparr>"

definition sample_accounts :: Accounts where
  "sample_accounts =
     (fresh_accounts 1000)\<lparr>ac_users := [sample_admin], ac_sessions := [sample_session ''here'', sample_session ''there''],
       ac_resets := [\<lparr>rt_TokenHash = EncodeToString64 ''reset'', rt_UserID = ''u1'', rt_ExpiresAt = 5000,
         rt_CreatedAt = 0, rt_ConsumedAt = None\<rparr>]\<rparr>"

definition sample_request :: "ask \<Rightarrow> HttpRequest" where
  "sample_request q =
     \<lparr>hr_Ask = q, hr_Authorization = [], hr_Cookie = Some ''here'', hr_Client = ''127.0.0.1'', hr_TLS = False,
      hr_ForwardedProto = []\<rparr>"

definition sample_change :: "(string \<times> string) option" where
  "sample_change = Some (''old-password'', ''new-password'')"

definition sample_principal :: Principal where
  "sample_principal = \<lparr>pp_ID = ''u1'', pp_Role = ''admin'', pp_Username = ''ada''\<rparr>"

lemma sample_hashes:
  "tokenHash sample_accounts_env ''there'' \<noteq> tokenHash sample_accounts_env (extractToken (sample_request AskMe))"
  by code_simp

theorem new_password_ends_sessions_witness:
  "\<not> signed_in sample_accounts_env ''there'' ''u1''
      (snd (handleAuthChangePassword sample_accounts_env (sample_request AskMe) (Some sample_principal) sample_change
        sample_accounts)) \<and>
   \<not> signed_in sample_accounts_env ''there'' ''u1''
      (snd (handleResetPassword sample_accounts_env (Some (''reset'', ''new-password'')) sample_accounts))"
proof -
  let ?change = "handleAuthChangePassword sample_accounts_env (sample_request AskMe) (Some sample_principal)
    sample_change sample_accounts"
  let ?reset = "handleResetPassword sample_accounts_env (Some (''reset'', ''new-password'')) sample_accounts"
  have change: "?change = (fst ?change, snd ?change)" "rs_Status (fst ?change) = 200"
    by (simp_all add: handleAuthChangePassword_def sample_change_def sample_accounts_def sample_accounts_env_def
        sample_principal_def sample_admin_def fresh_accounts_def bad_password_def minPasswordLength_def
        maxPasswordLength_def Let_def revokeOtherSessions_def update_user_def respond_def)
  have open_row: "open_reset sample_accounts_env ''reset'' sample_accounts = Some (hd (ac_resets sample_accounts))"
    by (simp add: open_reset_def sample_accounts_def sample_accounts_env_def tokenHash_def)
  have facts: "ae_hash sample_accounts_env w = Some w" "ac_open sample_accounts" for w
    by (simp_all add: sample_accounts_env_def sample_accounts_def fresh_accounts_def)
  have reset: "?reset = (fst ?reset, snd ?reset)" "rs_Status (fst ?reset) = 200"
    by (simp_all add: handleResetPassword_def open_row facts bad_password_def minPasswordLength_def
        maxPasswordLength_def respond_def)
  have user: "pp_ID sample_principal = ''u1''" "rt_UserID (hd (ac_resets sample_accounts)) = ''u1''"
    by (simp_all add: sample_principal_def sample_accounts_def)
  show ?thesis
    using new_password_ends_sessions [OF change reset open_row, where v' = sample_accounts_env and token = "''there''"]
    using sample_hashes unfolding user by blast
qed

subsection \<open>Routes of administrators\<close>

fun admin_ask :: "ask \<Rightarrow> bool" where
  "admin_ask AskListUsers = True"
| "admin_ask (AskInvite body) = True"
| "admin_ask (AskSetActive userID body) = True"
| "admin_ask (AskResetToken userID) = True"
| "admin_ask AskListAudit = True"
| "admin_ask q = False"

lemma admin_paths:
  assumes "admin_ask q"
  shows "\<not> open_path (ask_path q)" "requiresAdmin (ask_method q) (ask_path q)" "has_prefix (ask_path q) ''/api/''"
  using assms by (cases q; simp add: open_path_def requiresAdmin_def has_prefix_def)+



end
