(* ===== verification/MemberForm.thy ===== *)
theory MemberForm
  imports Accounts "HOL-Library.AList"
begin

text \<open>
  The application form of a sync set (\<^verbatim>\<open>internal/api/membership_config.go\<close>): what an administrator may ask of an
  applicant, how that is stored, and which answers are accepted. A JSON value is a value of \<open>json\<close>; decoding
  the text of one is a parameter.
\<close>

datatype json =
    JNull
  | JBool bool
  | JNumber string
  | JString string
  | JArray "json list"
  | JObject "(string \<times> json) list"

type_synonym answers = "(string \<times> json) list"

record MembershipCustomField =
  cf_Key :: string
  cf_Label :: string
  cf_Type :: string
  cf_Required :: bool
  cf_MaxLength :: int
  cf_Position :: int
  cf_Options :: "string list"

record MembershipConfig =
  mc_ApplicantInstructions :: string
  mc_EvidenceInstructions :: string
  mc_ReviewerGuidance :: string
  mc_EvidenceRequired :: bool
  mc_CustomFields :: "MembershipCustomField list"

definition no_form :: MembershipConfig where
  "no_form = \<lparr>mc_ApplicantInstructions = [], mc_EvidenceInstructions = [], mc_ReviewerGuidance = [],
     mc_EvidenceRequired = False, mc_CustomFields = []\<rparr>"

subsection \<open>Which forms are accepted\<close>

definition field_key_char :: "char \<Rightarrow> bool" where
  "field_key_char c = (is_alpha c \<or> is_digit c \<or> c = CHR ''_'' \<or> c = CHR ''-'')"

text \<open>\<^verbatim>\<open>^[A-Za-z][A-Za-z0-9_-]{0,31}$\<close>.\<close>

definition match_field_key :: "string \<Rightarrow> bool" where
  "match_field_key s =
     (case s of [] \<Rightarrow> False | c # cs \<Rightarrow> is_alpha c \<and> length cs \<le> 31 \<and> list_all field_key_char cs)"

definition trim_field :: "MembershipCustomField \<Rightarrow> MembershipCustomField" where
  "trim_field f = f\<lparr>cf_Key := trim_space (cf_Key f), cf_Label := trim_space (cf_Label f), cf_Type := trim_space (cf_Type f)\<rparr>"

definition field_type_ok :: "string \<Rightarrow> bool" where
  "field_type_ok t = (t = ''text'' \<or> t = ''textarea'' \<or> t = ''select'' \<or> t = ''checkbox'')"

fun check_options :: "string list \<Rightarrow> string list \<Rightarrow> gerr option" where
  "check_options seenOptions [] = None"
| "check_options seenOptions (opt # opts) =
     (let opt = trim_space opt in
      if opt = [] \<or> 120 < length opt then Some (ErrMsg ''invalid select option'')
      else if opt \<in> set seenOptions then Some (ErrMsg ''duplicate select option'')
      else check_options (opt # seenOptions) opts)"

text \<open>The place a field asks for, by its index in the list.\<close>

definition field_position :: "int \<Rightarrow> MembershipCustomField \<Rightarrow> int" where
  "field_position i f = (if cf_Position f = 0 then i else cf_Position f)"

text \<open>One round of the loop, for the field of index \<open>i\<close> with its strings trimmed.\<close>

definition check_field :: "string list \<Rightarrow> int list \<Rightarrow> int \<Rightarrow> MembershipCustomField \<Rightarrow> gerr option" where
  "check_field seen positions i f =
     (if \<not> match_field_key (cf_Key f) \<or> cf_Label f = [] \<or> 120 < length (cf_Label f)
      then Some (ErrMsg ''invalid membership custom field'')
      else if cf_Key f \<in> set seen then Some (ErrMsg ''duplicate membership custom field'')
      else if \<not> field_type_ok (cf_Type f) then Some (ErrMsg ''invalid membership custom field type'')
      else if cf_Type f \<noteq> ''select'' \<and> cf_Options f \<noteq> [] then Some (ErrMsg ''options are only valid for select fields'')
      else if cf_Type f = ''select'' \<and> (cf_Options f = [] \<or> 32 < length (cf_Options f))
      then Some (ErrMsg ''select options are required and bounded'')
      else case check_options [] (cf_Options f) of
        Some e \<Rightarrow> Some e
      | None \<Rightarrow>
          if cf_MaxLength f < 0 \<or> 2000 < cf_MaxLength f \<or> cf_Position f < 0 \<or> 31 < cf_Position f \<or> 31 < i
          then Some (ErrMsg ''invalid membership custom field bounds'')
          else if field_position i f \<in> set positions then Some (ErrMsg ''duplicate membership custom field position'')
          else None)"

fun check_custom_fields ::
  "string list \<Rightarrow> int list \<Rightarrow> int \<Rightarrow> MembershipCustomField list \<Rightarrow> gerr option" where
  "check_custom_fields seen positions i [] = None"
| "check_custom_fields seen positions i (f # fs) =
     (case check_field seen positions i (trim_field f) of
        Some e \<Rightarrow> Some e
      | None \<Rightarrow> check_custom_fields (cf_Key (trim_field f) # seen) (field_position i f # positions) (i + 1) fs)"

definition validateMembershipConfig :: "MembershipConfig \<Rightarrow> gerr option" where
  "validateMembershipConfig c =
     (if 4000 < length (mc_ApplicantInstructions c) \<or> 2000 < length (mc_EvidenceInstructions c) \<or>
         4000 < length (mc_ReviewerGuidance c) \<or> 32 < length (mc_CustomFields c)
      then Some (ErrMsg ''membership configuration is too large'')
      else check_custom_fields [] [] 0 (mc_CustomFields c))"

subsection \<open>Which answers are accepted\<close>

definition check_answer :: "MembershipCustomField \<Rightarrow> answers \<Rightarrow> answers result" where
  "check_answer f as =
     (case map_of as (cf_Key f) of
        None \<Rightarrow> if cf_Required f then Inl (ErrMsg ''required membership answer is missing'') else Inr as
      | Some answer \<Rightarrow>
          if cf_Type f = ''text'' \<or> cf_Type f = ''textarea'' then
            (case answer of
               JString s \<Rightarrow>
                 let s = trim_space s in
                 if s = [] \<and> cf_Required f then Inl (ErrMsg ''required membership answer is missing'')
                 else if cf_MaxLength f < int (length s) then Inl (ErrMsg ''membership answer is too long'')
                 else Inr (AList.update (cf_Key f) (JString s) as)
             | _ \<Rightarrow> Inl (ErrMsg ''invalid membership answer''))
          else if cf_Type f = ''select'' then
            (case answer of
               JString s \<Rightarrow>
                 if s \<in> set (cf_Options f) then Inr as else Inl (ErrMsg ''invalid membership option'')
             | _ \<Rightarrow> Inl (ErrMsg ''invalid membership answer''))
          else if cf_Type f = ''checkbox'' then
            (case answer of
               JBool checked \<Rightarrow>
                 if cf_Required f \<and> \<not> checked then Inl (ErrMsg ''invalid membership checkbox'') else Inr as
             | _ \<Rightarrow> Inl (ErrMsg ''invalid membership checkbox''))
          else Inl (ErrMsg ''invalid membership field type''))"

fun check_answers :: "MembershipCustomField list \<Rightarrow> answers \<Rightarrow> answers result" where
  "check_answers [] as = Inr as"
| "check_answers (f # fs) as = bind_res (check_answer f as) (check_answers fs)"

text \<open>The members of a JSON object; of a key that comes twice the last one counts.\<close>

definition decoded_answers :: "(string \<Rightarrow> (string \<times> json) list option) \<Rightarrow> string \<Rightarrow> answers result" where
  "decoded_answers decode raw =
     (if trim_space raw = [] then Inr []
      else case decode raw of
        None \<Rightarrow> Inl (ErrMsg ''invalid membership answers'')
      | Some members \<Rightarrow> Inr (AList.updates (map fst members) (map snd members) []))"

definition validateMembershipAnswers ::
  "(string \<Rightarrow> (string \<times> json) list option) \<Rightarrow> MembershipConfig \<Rightarrow> string \<Rightarrow> answers result" where
  "validateMembershipAnswers decode c raw =
     bind_res (decoded_answers decode raw) (\<lambda>as.
     bind_res (check_answers (mc_CustomFields c) as) (\<lambda>as.
       if list_all (\<lambda>(k, _). list_ex (\<lambda>f. cf_Key f = k) (mc_CustomFields c)) as then Inr as
       else Inl (ErrMsg ''unknown membership answer'')))"

subsection \<open>What acceptance means\<close>

text \<open>What an answer to a field may be, as far as it was given.\<close>

definition answer_fits :: "MembershipCustomField \<Rightarrow> json option \<Rightarrow> bool" where
  "answer_fits f given =
     (case given of
        None \<Rightarrow> \<not> cf_Required f
      | Some (JString s) \<Rightarrow>
          if cf_Type f = ''select'' then s \<in> set (cf_Options f)
          else (cf_Type f = ''text'' \<or> cf_Type f = ''textarea'') \<and> trim_space s = s \<and>
            int (length s) \<le> cf_MaxLength f \<and> (cf_Required f \<longrightarrow> s \<noteq> [])
      | Some (JBool checked) \<Rightarrow> cf_Type f = ''checkbox'' \<and> (cf_Required f \<longrightarrow> checked)
      | Some answer \<Rightarrow> False)"

lemma check_answer_fits:
  assumes "check_answer f as = Inr bs"
  shows "answer_fits f (map_of bs (cf_Key f)) \<and> (\<forall>k. k \<noteq> cf_Key f \<longrightarrow> map_of bs k = map_of as k) \<and>
    fst ` set bs = fst ` set as"
  using assms
  by (auto simp: check_answer_def answer_fits_def Let_def update_conv' dom_update
      simp flip: dom_map_of_conv_image_fst
      split: option.splits json.splits if_splits)

lemma check_answers_fit:
  assumes "check_answers fs as = Inr bs" "distinct (map cf_Key fs)"
  shows "(\<forall>f \<in> set fs. answer_fits f (map_of bs (cf_Key f))) \<and>
    (\<forall>k. k \<notin> cf_Key ` set fs \<longrightarrow> map_of bs k = map_of as k) \<and> fst ` set bs = fst ` set as"
  using assms
proof (induction fs arbitrary: as)
  case (Cons f fs)
  then obtain cs where cs: "check_answer f as = Inr cs" "check_answers fs cs = Inr bs"
    by (auto simp: bind_res_Inr)
  show ?case
    using check_answer_fits [OF cs(1)] Cons.IH [OF cs(2)] Cons.prems(2) by auto
qed simp

lemma fitting_answer_stays: "answer_fits f (map_of as (cf_Key f)) \<Longrightarrow> \<exists>bs. check_answer f as = Inr bs \<and> map_of bs = map_of as"
  by (auto simp: check_answer_def answer_fits_def Let_def update_conv' split: option.splits json.splits if_splits)

end
