(* ===== verification/Fulfillment.thy ===== *)
theory Fulfillment
  imports MemberForm
begin

text \<open>
  Letting an approved applicant in (\<^verbatim>\<open>internal/verification/fulfillment.go\<close>) and the advice on an application
  (\<^verbatim>\<open>internal/verification/checks.go\<close>). What a provider answers is a parameter; it may depend on every call before.
\<close>

subsection \<open>The provider\<close>

datatype admin_call =
    CallInviteLink string
  | CallIsMember string string
  | CallJoinApprovalRequired string
  | CallPendingJoinRequests string
  | CallMatchPendingJoinRequest string string
  | CallApproveJoinRequest string string
  | CallAssignRole string string string

datatype admin_error = ErrPermissionDenied | ErrDestinationMissing | ErrRateLimited | ErrOther string

record PendingJoinRequest =
  jr_ID :: string
  jr_Phone :: string

type_synonym admin_calls = "admin_call list"

text \<open>
  The interfaces \<^verbatim>\<open>WhatsAppAdmin\<close> and \<^verbatim>\<open>DiscordAdmin\<close>; the method \<^verbatim>\<open>MatchPendingJoinRequest\<close> is one the adapter may have.
\<close>

record WhatsAppAdmin =
  wa_InviteLink :: "admin_calls \<Rightarrow> string \<Rightarrow> admin_error + string"
  wa_IsMember :: "admin_calls \<Rightarrow> string \<Rightarrow> string \<Rightarrow> admin_error + bool"
  wa_JoinApprovalRequired :: "admin_calls \<Rightarrow> string \<Rightarrow> admin_error + bool"
  wa_PendingJoinRequests :: "admin_calls \<Rightarrow> string \<Rightarrow> admin_error + PendingJoinRequest list"
  wa_ApproveJoinRequest :: "admin_calls \<Rightarrow> string \<Rightarrow> string \<Rightarrow> admin_error option"
  wa_MatchPendingJoinRequest ::
    "(admin_calls \<Rightarrow> string \<Rightarrow> string \<Rightarrow> admin_error + PendingJoinRequest option) option"

record DiscordAdmin =
  dc_AssignRole :: "admin_calls \<Rightarrow> string \<Rightarrow> string \<Rightarrow> string \<Rightarrow> admin_error option"

record FulfillmentRequest =
  fq_Transport :: string
  fq_EndpointAlias :: string
  fq_RoleID :: string
  fq_Phone :: string
  fq_DiscordUserID :: string

record FulfillmentResult =
  fr_State :: string
  fr_FailureClass :: string

subsection \<open>Letting an applicant in\<close>

definition outcome :: "string \<Rightarrow> string \<Rightarrow> FulfillmentResult" where
  "outcome state failure = \<lparr>fr_State = state, fr_FailureClass = failure\<rparr>"

definition trim_prefix :: "string \<Rightarrow> string \<Rightarrow> string" where
  "trim_prefix s p = (if has_prefix s p then drop (length p) s else s)"

definition phone_digits :: "string \<Rightarrow> string" where
  "phone_digits s = trim_prefix (trim_space s) ''+''"

text \<open>The name a join request is approved by.\<close>

definition join_target :: "PendingJoinRequest \<Rightarrow> string" where
  "join_target c = (if jr_ID c = [] then jr_Phone c else jr_ID c)"

text \<open>The loop over the pending requests: the target found so far, or an error on a second one.\<close>

fun match_loop :: "string \<Rightarrow> PendingJoinRequest list \<Rightarrow> string \<Rightarrow> string option" where
  "match_loop wanted [] found = Some found"
| "match_loop wanted (c # cs) found =
     (if phone_digits (jr_Phone c) \<noteq> wanted then match_loop wanted cs found
      else if found \<noteq> [] then None
      else match_loop wanted cs (join_target c))"

text \<open>\<open>strings.Contains\<close> on the text of an error.\<close>

definition is_ambiguous :: "admin_error \<Rightarrow> bool" where
  "is_ambiguous e =
     (case e of ErrOther m \<Rightarrow> index_of m ''multiple matching join requests'' \<noteq> None | _ \<Rightarrow> False)"

text \<open>The target to approve, \<open>[]\<close> if there is none; on the left the failure class.\<close>

definition find_target ::
  "FulfillmentRequest \<Rightarrow> WhatsAppAdmin \<Rightarrow> admin_calls \<Rightarrow> (string + string) \<times> admin_calls" where
  "find_target req wa h =
     (let alias = fq_EndpointAlias req; phone = fq_Phone req in
      case wa_MatchPendingJoinRequest wa of
        Some matcher \<Rightarrow>
          ((case matcher h alias phone of
              Inl e \<Rightarrow> Inl (if is_ambiguous e then ''identity_ambiguous'' else ''pending_requests_unavailable'')
            | Inr None \<Rightarrow> Inr []
            | Inr (Some c) \<Rightarrow> Inr (join_target c)),
           h @ [CallMatchPendingJoinRequest alias phone])
      | None \<Rightarrow>
          ((case wa_PendingJoinRequests wa h alias of
              Inl e \<Rightarrow> Inl ''pending_requests_unavailable''
            | Inr pending \<Rightarrow>
                (case match_loop (phone_digits phone) pending [] of
                   None \<Rightarrow> Inl ''identity_ambiguous'' | Some target \<Rightarrow> Inr target)),
           h @ [CallPendingJoinRequests alias]))"

definition approve_failure :: "admin_error \<Rightarrow> FulfillmentResult" where
  "approve_failure e =
     (case e of
        ErrPermissionDenied \<Rightarrow> outcome ''failed'' ''permission_denied''
      | ErrRateLimited \<Rightarrow> outcome ''action_pending'' ''rate_limited''
      | _ \<Rightarrow> outcome ''action_pending'' ''join_request_unavailable'')"

definition approve_target ::
  "FulfillmentRequest \<Rightarrow> WhatsAppAdmin \<Rightarrow> string \<Rightarrow> admin_calls \<Rightarrow> FulfillmentResult \<times> bool \<times> admin_calls" where
  "approve_target req wa target h =
     (let alias = fq_EndpointAlias req; phone = fq_Phone req; h' = h @ [CallApproveJoinRequest alias target] in
      case wa_ApproveJoinRequest wa h alias target of
        Some e \<Rightarrow> (approve_failure e, True, h')
      | None \<Rightarrow>
          (case wa_IsMember wa h' alias phone of
             Inl e \<Rightarrow> (outcome ''action_pending'' ''membership_unconfirmed'', True, h' @ [CallIsMember alias phone])
           | Inr member \<Rightarrow>
               (if member then outcome ''succeeded'' [] else outcome ''action_pending'' ''membership_unconfirmed'',
                False, h' @ [CallIsMember alias phone])))"

definition offer_invite ::
  "FulfillmentRequest \<Rightarrow> WhatsAppAdmin \<Rightarrow> admin_calls \<Rightarrow> FulfillmentResult \<times> bool \<times> admin_calls" where
  "offer_invite req wa h =
     (let alias = fq_EndpointAlias req in
      case wa_InviteLink wa h alias of
        Inl e \<Rightarrow> (outcome ''action_pending'' ''invite_unavailable'', True, h @ [CallInviteLink alias])
      | Inr link \<Rightarrow> (outcome ''action_pending'' ''invite_pending'', False, h @ [CallInviteLink alias]))"

definition fulfill_whatsapp ::
  "FulfillmentRequest \<Rightarrow> WhatsAppAdmin \<Rightarrow> admin_calls \<Rightarrow> FulfillmentResult \<times> bool \<times> admin_calls" where
  "fulfill_whatsapp req wa h =
     (let alias = fq_EndpointAlias req; phone = fq_Phone req;
          h1 = h @ [CallIsMember alias phone]; h2 = h1 @ [CallJoinApprovalRequired alias]
      in if wa_IsMember wa h alias phone = Inr True then (outcome ''succeeded'' [], False, h1)
         else case wa_JoinApprovalRequired wa h1 alias of
           Inl e \<Rightarrow> (outcome ''failed'' ''destination_unavailable'', True, h2)
         | Inr required \<Rightarrow>
             if \<not> required then (outcome ''action_pending'' ''join_approval_required'', True, h2)
             else case find_target req wa h2 of
               (Inl failure, h) \<Rightarrow> (outcome ''action_pending'' failure, True, h)
             | (Inr target, h) \<Rightarrow>
                 if target \<noteq> [] then approve_target req wa target h else offer_invite req wa h)"

text \<open>The result, whether there is an error beside it, and all calls to the provider so far.\<close>

definition Fulfill ::
  "FulfillmentRequest \<Rightarrow> WhatsAppAdmin option \<Rightarrow> DiscordAdmin option \<Rightarrow> admin_calls \<Rightarrow>
   FulfillmentResult \<times> bool \<times> admin_calls" where
  "Fulfill req wa dc h =
     (if fq_Transport req = ''whatsapp'' then
        (case wa of
           None \<Rightarrow> (outcome ''failed'' ''destination_missing'', True, h)
         | Some wa \<Rightarrow> fulfill_whatsapp req wa h)
      else if fq_Transport req = ''discord'' then
        (case dc of
           None \<Rightarrow> (outcome ''failed'' ''destination_missing'', True, h)
         | Some dc \<Rightarrow>
             let h' = h @ [CallAssignRole (fq_EndpointAlias req) (fq_RoleID req) (fq_DiscordUserID req)] in
             (case dc_AssignRole dc h (fq_EndpointAlias req) (fq_RoleID req) (fq_DiscordUserID req) of
                None \<Rightarrow> (outcome ''succeeded'' [], False, h')
              | Some ErrPermissionDenied \<Rightarrow> (outcome ''failed'' ''permission_denied'', True, h')
              | Some ErrRateLimited \<Rightarrow> (outcome ''failed'' ''rate_limited'', True, h')
              | Some e \<Rightarrow> (outcome ''failed'' ''destination_missing'', True, h')))
      else (outcome ''failed'' ''destination_missing'', True, h))"

subsection \<open>Advice\<close>

record URL =
  ul_Scheme :: string
  ul_Host :: string
  ul_Path :: string

definition freeMailDomains :: "string list" where
  "freeMailDomains = [''gmail.com'', ''googlemail.com'', ''yahoo.com'', ''hotmail.com'', ''outlook.com'',
     ''icloud.com'', ''proton.me'', ''protonmail.com'']"

record Advisory =
  av_DomainClass :: string
  av_LinkedInValid :: bool
  av_EvidencePresent :: bool
  av_Result :: string

text \<open>The part behind the only \<open>@\<close>, \<open>[]\<close> if there is not exactly one.\<close>

definition mail_domain :: "string \<Rightarrow> string" where
  "mail_domain email =
     (let s = lower_text (trim_space email); rest = dropWhile (\<lambda>c. c \<noteq> CHR ''@'') s in
      if rest = [] \<or> CHR ''@'' \<in> set (tl rest) then [] else tl rest)"

definition Assess :: "(string \<Rightarrow> URL option) \<Rightarrow> string \<Rightarrow> string \<Rightarrow> bool \<Rightarrow> Advisory" where
  "Assess parse_url email linkedin evidencePresent =
     (let cls = (if mail_domain email \<in> set freeMailDomains then ''PERSONAL_OR_FREE'' else ''WORK'');
          linked = (linkedin \<noteq> [] \<and> (case parse_url (trim_space linkedin) of
            None \<Rightarrow> False
          | Some u \<Rightarrow> ul_Scheme u = ''https'' \<and>
              (fold_equal ''linkedin.com'' (ul_Host u) \<or> has_suffix (lower_text (ul_Host u)) ''.linkedin.com'')));
          result = (if cls = ''WORK'' \<and> linked \<and> evidencePresent then ''MEDIUM''
            else if cls = ''PERSONAL_OR_FREE'' then ''LOW'' else ''UNVERIFIED'')
      in \<lparr>av_DomainClass = cls, av_LinkedInValid = linked, av_EvidencePresent = evidencePresent, av_Result = result\<rparr>)"

end
