(* ===== verification/Members.thy ===== *)
theory Members
  imports Fulfillment Config AccountsHandlers
begin

text \<open>
  Applications for membership: the tables, the pages applicants use and their forms
  (\<^verbatim>\<open>internal/api/verification.go\<close>, \<^verbatim>\<open>internal/api/membership_*.go\<close>, \<^verbatim>\<open>internal/controlstore/schema.sql\<close>).
  A column that is read with \<^verbatim>\<open>COALESCE(column,'')\<close> is a string, empty for \<^verbatim>\<open>NULL\<close>.
\<close>

subsection \<open>Tables\<close>

record PipelineRow =
  pl_ID :: string
  pl_PublicToken :: string
  pl_Label :: string
  pl_Transport :: string
  pl_EndpointAlias :: string
  pl_DiscordRoleID :: string
  pl_Enabled :: bool
  pl_CreatorID :: string
  pl_CreatedAt :: int
  pl_UpdatedAt :: int

record MembershipRequest =
  mq_ID :: string
  mq_PipelineID :: string
  mq_Status :: string
  mq_WorkEmail :: string
  mq_WhatsAppPhone :: string
  mq_DiscordUserID :: string
  mq_LinkedInURL :: string
  mq_EvidenceReference :: string
  mq_EvidenceType :: string
  mq_VerificationState :: string
  mq_FulfillmentState :: string
  mq_FailureClass :: string
  mq_DecidedBy :: "string option"
  mq_DecidedAt :: "int option"
  mq_Definition :: MembershipConfig
  mq_Answers :: answers
  mq_CreatedAt :: int
  mq_UpdatedAt :: int

record Challenge =
  ch_ID :: string
  ch_RequestID :: string
  ch_TokenHash :: string
  ch_ExpiresAt :: int
  ch_AttemptCount :: int
  ch_VerifiedAt :: "int option"

record JoinToken =
  jt_TokenHash :: string
  jt_RequestID :: string
  jt_ExpiresAt :: int
  jt_CreatedAt :: int
  jt_RevokedAt :: "int option"
  jt_ConsumedAt :: "int option"

record JoinClaim =
  jc_EndpointAlias :: string
  jc_Phone :: string
  jc_RequestID :: string
  jc_ClaimedAt :: int

record CleanupEntry =
  cq_Reference :: string
  cq_CreatedAt :: int
  cq_NextAttemptAt :: int

record AssessmentRow =
  as_ID :: string
  as_RequestID :: string
  as_Kind :: string
  as_State :: string
  as_ResultCode :: string
  as_Confidence :: string
  as_Detail :: string
  as_CreatedAt :: int
  as_UpdatedAt :: int

record FormRow =
  fm_SyncSetID :: string
  fm_ApplicantInstructions :: string
  fm_EvidenceInstructions :: string
  fm_ReviewerGuidance :: string
  fm_EvidenceRequired :: bool
  fm_UpdatedBy :: string
  fm_CreatedAt :: int
  fm_UpdatedAt :: int

record FieldRow =
  fl_ID :: string
  fl_SyncSetID :: string
  fl_Field :: MembershipCustomField

record MailSent =
  ml_Recipient :: string
  ml_Label :: string
  ml_Text :: string

text \<open>
  \<open>mb_files\<close> are the names and times of the files in the evidence directory, \<open>mb_mails\<close> the mails handed over,
  \<open>mb_calls\<close> the calls to providers, \<open>mb_analyses\<close> the requests whose evidence is being analysed.
\<close>

record Members =
  mb_accounts :: Accounts
  mb_pipelines :: "PipelineRow list"
  mb_requests :: "MembershipRequest list"
  mb_challenges :: "Challenge list"
  mb_tokens :: "JoinToken list"
  mb_claims :: "JoinClaim list"
  mb_cleanup :: "CleanupEntry list"
  mb_assessments :: "AssessmentRow list"
  mb_forms :: "FormRow list"
  mb_fields :: "FieldRow list"
  mb_files :: "(string \<times> int) list"
  mb_mails :: "MailSent list"
  mb_calls :: admin_calls
  mb_analyses :: "string list"

text \<open>
  \<open>me_bindings\<close> and \<open>me_sets\<close> are the rows of the routing database, \<open>None\<close> when it does not answer;
  \<open>me_connection\<close> is the adapter of a connection with the interfaces it has.
\<close>

record MembersEnv =
  me_accounts :: AccountsEnv
  me_bindings :: "BindingRow list option"
  me_sets :: "string list option"
  me_connection :: "string \<Rightarrow> (WhatsAppAdmin option \<times> DiscordAdmin option) option"
  me_parse_address :: "string \<Rightarrow> string option"
  me_parse_url :: "string \<Rightarrow> URL option"
  me_hostname :: "URL \<Rightarrow> string"
  me_url_text :: "URL \<Rightarrow> string"
  me_path_escape :: "string \<Rightarrow> string"
  me_decode :: "string \<Rightarrow> (string \<times> json) list option"
  me_detect :: "string \<Rightarrow> string"
  me_mailer :: bool
  me_mail_sent :: "MailSent list \<Rightarrow> MailSent \<Rightarrow> bool"
  me_analyzer :: bool
  me_evidence_dir :: bool
  me_dir_made :: bool
  me_created :: "string \<Rightarrow> bool"
  me_written :: "string \<Rightarrow> bool"
  me_readable :: "string \<Rightarrow> bool"
  me_removed :: "string \<Rightarrow> bool"
  me_base_url :: string

definition me_now :: "MembersEnv \<Rightarrow> int" where
  "me_now v = ae_now (me_accounts v)"

definition mb_open :: "Members \<Rightarrow> bool" where
  "mb_open m = ac_open (mb_accounts m)"

definition draw_id :: "MembersEnv \<Rightarrow> Members \<Rightarrow> string option \<times> Members" where
  "draw_id v m = (case randomOpaqueID (me_accounts v) (mb_accounts m) of (x, a) \<Rightarrow> (x, m\<lparr>mb_accounts := a\<rparr>))"

definition draw_token :: "MembersEnv \<Rightarrow> Members \<Rightarrow> string option \<times> Members" where
  "draw_token v m = (case newBearerToken (me_accounts v) (mb_accounts m) of (x, a) \<Rightarrow> (x, m\<lparr>mb_accounts := a\<rparr>))"

definition log_action :: "MembersEnv \<Rightarrow> Principal option \<Rightarrow> string \<Rightarrow> string \<Rightarrow> Members \<Rightarrow> Members" where
  "log_action v p action target m = m\<lparr>mb_accounts := audit (me_accounts v) p action target (mb_accounts m)\<rparr>"

definition principal_id :: "Principal option \<Rightarrow> string" where
  "principal_id p = (case p of Some p \<Rightarrow> pp_ID p | None \<Rightarrow> [])"

text \<open>SQLite's \<^verbatim>\<open>length\<close> of a text: its characters before the first NUL.\<close>

definition sql_length :: "string \<Rightarrow> nat" where
  "sql_length s = length (filter (\<lambda>c. \<not> (128 \<le> byte c \<and> byte c < 192)) (takeWhile (\<lambda>c. c \<noteq> CHR 0x00) s))"

subsection \<open>Answers\<close>

record PipelineView =
  pv_Pipeline :: PipelineRow
  pv_Form :: MembershipConfig

record RequestView =
  rq_Request :: MembershipRequest
  rq_DeterministicResult :: string
  rq_AIState :: string
  rq_AIConfidence :: string
  rq_AIAssessment :: string

text \<open>\<open>MPanic\<close> is a request that ends in a panic: the server gives no answer.\<close>

datatype reply =
    MError int string
  | MStatus int string
  | MState int string string
  | MPipelines "PipelineRow list"
  | MPipeline int PipelineRow
  | MPage string string MembershipConfig
  | MRequests "MembershipRequest list"
  | MRequest RequestView
  | MEvidence string
  | MRedirect string
  | MForm MembershipConfig
  | MReady bool bool string
  | MPanic

subsection \<open>Looking up\<close>

definition binding_of :: "MembersEnv \<Rightarrow> string \<Rightarrow> BindingRow option" where
  "binding_of v alias = (case me_bindings v of None \<Rightarrow> None | Some bs \<Rightarrow> find (\<lambda>b. br_Alias b = alias) bs)"

definition pipeline_by_id :: "Members \<Rightarrow> string \<Rightarrow> PipelineRow option" where
  "pipeline_by_id m pid = (if mb_open m then find (\<lambda>p. pl_ID p = pid) (mb_pipelines m) else None)"

definition request_by_id :: "Members \<Rightarrow> string \<Rightarrow> MembershipRequest option" where
  "request_by_id m rid = (if mb_open m then find (\<lambda>q. mq_ID q = rid) (mb_requests m) else None)"

text \<open>\<^verbatim>\<open>membership_requests m JOIN verification_pipelines p ON p.id=m.pipeline_id WHERE m.id=?\<close>\<close>

definition request_with_pipeline :: "Members \<Rightarrow> string \<Rightarrow> (MembershipRequest \<times> PipelineRow) option" where
  "request_with_pipeline m rid =
     (case request_by_id m rid of
        None \<Rightarrow> None
      | Some q \<Rightarrow> (case pipeline_by_id m (mq_PipelineID q) of None \<Rightarrow> None | Some p \<Rightarrow> Some (q, p)))"

definition outstanding :: "MembershipRequest \<Rightarrow> bool" where
  "outstanding q =
     (mq_Status q \<in> set [''pending_email'', ''pending_admin'', ''pending''] \<or>
      mq_Status q = ''approved'' \<and> mq_FulfillmentState q \<noteq> ''succeeded'')"

definition pipelineHasOutstandingMembershipRequests :: "Members \<Rightarrow> string \<Rightarrow> bool option" where
  "pipelineHasOutstandingMembershipRequests m pid =
     (if \<not> mb_open m then None
      else Some (0 < count_where (\<lambda>q. mq_PipelineID q = pid \<and> outstanding q) (mb_requests m)))"

definition endpointHasOutstandingMembershipRequests :: "Members \<Rightarrow> string \<Rightarrow> bool option" where
  "endpointHasOutstandingMembershipRequests m endpoint =
     (if \<not> mb_open m then None
      else Some (0 < count_where (\<lambda>q. outstanding q \<and>
        list_ex (\<lambda>p. pl_ID p = mq_PipelineID q \<and> pl_EndpointAlias p = endpoint) (mb_pipelines m)) (mb_requests m)))"

text \<open>The endpoints a filter by sync set leaves; \<open>None\<close> inside is no filter.\<close>

definition membershipPipelineScope :: "MembersEnv \<Rightarrow> string \<Rightarrow> string list option option" where
  "membershipPipelineScope v syncSetID =
     (if syncSetID = [] then Some None
      else case me_bindings v of
        None \<Rightarrow> None
      | Some bs \<Rightarrow> Some (Some (map br_Alias (filter (\<lambda>b. br_SyncSetID b = Some syncSetID) bs))))"

definition in_scope :: "string list option \<Rightarrow> PipelineRow \<Rightarrow> bool" where
  "in_scope scope p = (case scope of None \<Rightarrow> True | Some aliases \<Rightarrow> pl_EndpointAlias p \<in> set aliases)"

subsection \<open>Forms\<close>

definition membershipConfig :: "Members \<Rightarrow> string \<Rightarrow> MembershipConfig option" where
  "membershipConfig m syncSetID =
     (if \<not> mb_open m then None
      else case find (\<lambda>f. fm_SyncSetID f = syncSetID) (mb_forms m) of
        None \<Rightarrow> Some no_form
      | Some f \<Rightarrow> Some \<lparr>mc_ApplicantInstructions = fm_ApplicantInstructions f,
          mc_EvidenceInstructions = fm_EvidenceInstructions f, mc_ReviewerGuidance = fm_ReviewerGuidance f,
          mc_EvidenceRequired = fm_EvidenceRequired f,
          mc_CustomFields = sort_key cf_Position
            (map fl_Field (filter (\<lambda>r. fl_SyncSetID r = syncSetID) (mb_fields m)))\<rparr>)"

definition membershipSyncSetExists :: "MembersEnv \<Rightarrow> Members \<Rightarrow> string \<Rightarrow> reply option" where
  "membershipSyncSetExists v m sid =
     (case me_sets v of
        None \<Rightarrow> Some (MError 503 ''database unavailable'')
      | Some sids \<Rightarrow> if sid \<in> set sids then None else Some (MError 404 ''sync set not found''))"

definition handleGetMembershipConfig :: "MembersEnv \<Rightarrow> string \<Rightarrow> Members \<Rightarrow> reply" where
  "handleGetMembershipConfig v sid m =
     (let sid = trim_space sid in
      case membershipSyncSetExists v m sid of
        Some e \<Rightarrow> e
      | None \<Rightarrow>
          (case membershipConfig m sid of
             None \<Rightarrow> MError 500 ''failed to read membership configuration'' | Some c \<Rightarrow> MForm c))"

text \<open>The row of the field of index \<open>i\<close>, and the constraints of the table.\<close>

definition stored_field :: "int \<Rightarrow> MembershipCustomField \<Rightarrow> MembershipCustomField" where
  "stored_field i f =
     (trim_field f)\<lparr>cf_Position := field_position i f,
       cf_MaxLength := (if cf_MaxLength f = 0 then 500 else cf_MaxLength f),
       cf_Options := map trim_space (cf_Options f)\<rparr>"

definition glob_field_key :: "string \<Rightarrow> bool" where
  "glob_field_key s = (case s of c # d # cs \<Rightarrow> is_alpha c \<and> field_key_char d | _ \<Rightarrow> False)"

definition field_row_ok :: "MembershipCustomField \<Rightarrow> bool" where
  "field_row_ok f =
     (glob_field_key (cf_Key f) \<and> sql_length (cf_Key f) \<le> 32 \<and>
      1 \<le> sql_length (cf_Label f) \<and> sql_length (cf_Label f) \<le> 120 \<and> field_type_ok (cf_Type f) \<and>
      1 \<le> cf_MaxLength f \<and> cf_MaxLength f \<le> 2000 \<and> 0 \<le> cf_Position f \<and> cf_Position f \<le> 31)"

definition field_free :: "string \<Rightarrow> string \<Rightarrow> MembershipCustomField \<Rightarrow> FieldRow list \<Rightarrow> bool" where
  "field_free fid sid f rows =
     (\<not> has_key fl_ID fid rows \<and>
      \<not> list_ex (\<lambda>r. fl_SyncSetID r = sid \<and>
        (cf_Key (fl_Field r) = cf_Key f \<or> cf_Position (fl_Field r) = cf_Position f)) rows)"

fun insert_fields ::
  "MembersEnv \<Rightarrow> string \<Rightarrow> int \<Rightarrow> MembershipCustomField list \<Rightarrow> Members \<Rightarrow> bool \<times> Members" where
  "insert_fields v sid i [] m = (True, m)"
| "insert_fields v sid i (f # fs) m =
     (case draw_id v m of
        (None, m) \<Rightarrow> (False, m)
      | (Some fid, m) \<Rightarrow>
          let f = stored_field i f in
          if \<not> field_row_ok f \<or> \<not> field_free fid sid f (mb_fields m) then (False, m)
          else insert_fields v sid (i + 1) fs
            (m\<lparr>mb_fields := mb_fields m @ [\<lparr>fl_ID = fid, fl_SyncSetID = sid, fl_Field = f\<rparr>]\<rparr>))"

definition form_row :: "MembersEnv \<Rightarrow> Principal option \<Rightarrow> string \<Rightarrow> MembershipConfig \<Rightarrow> FormRow" where
  "form_row v p sid c =
     \<lparr>fm_SyncSetID = sid, fm_ApplicantInstructions = trim_space (mc_ApplicantInstructions c),
      fm_EvidenceInstructions = trim_space (mc_EvidenceInstructions c),
      fm_ReviewerGuidance = trim_space (mc_ReviewerGuidance c), fm_EvidenceRequired = mc_EvidenceRequired c,
      fm_UpdatedBy = principal_id p, fm_CreatedAt = me_now v, fm_UpdatedAt = me_now v\<rparr>"

definition update_form :: "FormRow \<Rightarrow> FormRow \<Rightarrow> FormRow" where
  "update_form new old = new\<lparr>fm_CreatedAt := fm_CreatedAt old\<rparr>"

text \<open>The transaction: on failure the tables are as before, the random bytes are gone.\<close>

definition handlePutMembershipConfig ::
  "MembersEnv \<Rightarrow> Principal option \<Rightarrow> string \<Rightarrow> MembershipConfig option \<Rightarrow> Members \<Rightarrow> reply \<times> Members" where
  "handlePutMembershipConfig v p sid body m =
     (let sid = trim_space sid in
      case membershipSyncSetExists v m sid of
        Some e \<Rightarrow> (e, m)
      | None \<Rightarrow>
          (case body of
             None \<Rightarrow> (MError 400 ''invalid membership configuration'', m)
           | Some c \<Rightarrow>
               if validateMembershipConfig c \<noteq> None then (MError 400 ''invalid membership configuration'', m)
               else if \<not> mb_open m \<or> \<not> has_key us_ID (principal_id p) (ac_users (mb_accounts m))
               then (MError 500 ''membership configuration unavailable'', m)
               else case insert_fields v sid 0 (mc_CustomFields c)
                   (m\<lparr>mb_forms := upsert fm_SyncSetID update_form (form_row v p sid c) (mb_forms m),
                      mb_fields := delete_where (\<lambda>r. fl_SyncSetID r = sid) (mb_fields m)\<rparr>) of
                 (False, m') \<Rightarrow> (MError 500 ''membership configuration unavailable'', m\<lparr>mb_accounts := mb_accounts m'\<rparr>)
               | (True, m') \<Rightarrow> (MForm c, m')))"

definition handleDeleteMembershipConfig :: "MembersEnv \<Rightarrow> string \<Rightarrow> Members \<Rightarrow> reply \<times> Members" where
  "handleDeleteMembershipConfig v sid m =
     (let sid = trim_space sid in
      case membershipSyncSetExists v m sid of
        Some e \<Rightarrow> (e, m)
      | None \<Rightarrow>
          if \<not> mb_open m then (MError 500 ''membership configuration unavailable'', m)
          else (MStatus 200 ''ok'',
            m\<lparr>mb_forms := delete_where (\<lambda>r. fm_SyncSetID r = sid) (mb_forms m),
              mb_fields := delete_where (\<lambda>r. fl_SyncSetID r = sid) (mb_fields m)\<rparr>))"

subsection \<open>Pages\<close>

record PipelineInput =
  pi_Label :: string
  pi_Transport :: string
  pi_EndpointAlias :: string
  pi_DiscordRoleID :: string
  pi_Enabled :: bool

definition blank_set :: "string option \<Rightarrow> bool" where
  "blank_set s = (case s of None \<Rightarrow> True | Some s \<Rightarrow> trim_space s = [])"

definition validatePipeline :: "MembersEnv \<Rightarrow> PipelineInput \<Rightarrow> gerr option" where
  "validatePipeline v i =
     (if trim_space (pi_Label i) = [] \<or> pi_Transport i \<noteq> ''whatsapp'' \<and> pi_Transport i \<noteq> ''discord'' \<or>
         pi_EndpointAlias i = []
      then Some (ErrMsg ''invalid pipeline'')
      else case binding_of v (pi_EndpointAlias i) of
        None \<Rightarrow> Some (ErrMsg ''pipeline endpoint is unavailable'')
      | Some b \<Rightarrow>
          if br_Transport b \<noteq> pi_Transport i \<or> blank_set (br_SyncSetID b)
          then Some (ErrMsg ''pipeline endpoint is unavailable'') else None)"

definition handleListPipelines :: "MembersEnv \<Rightarrow> string \<Rightarrow> Members \<Rightarrow> reply" where
  "handleListPipelines v syncSetID m =
     (if syncSetID \<noteq> [] \<and> ValidateSyncSetID syncSetID \<noteq> None then MError 400 ''invalid sync set filter''
      else case membershipPipelineScope v syncSetID of
        None \<Rightarrow> MError 500 ''failed to read sync set scope''
      | Some scope \<Rightarrow>
          if \<not> mb_open m then MError 500 ''failed to list pipelines''
          else MPipelines (sort_key pl_CreatedAt (filter (in_scope scope) (mb_pipelines m))))"

definition handleCreatePipeline ::
  "MembersEnv \<Rightarrow> Principal option \<Rightarrow> PipelineInput option \<Rightarrow> Members \<Rightarrow> reply \<times> Members" where
  "handleCreatePipeline v p body m =
     (case body of
        None \<Rightarrow> (MError 400 ''invalid pipeline'', m)
      | Some i \<Rightarrow>
          if validatePipeline v i \<noteq> None then (MError 400 ''invalid pipeline'', m)
          else (case draw_id v m of
            (None, m) \<Rightarrow> (MError 500 ''failed to create pipeline'', m)
          | (Some pid, m) \<Rightarrow>
              (case draw_token v m of
                 (None, m) \<Rightarrow> (MError 500 ''failed to create pipeline'', m)
               | (Some token, m) \<Rightarrow>
                   let row = \<lparr>pl_ID = pid, pl_PublicToken = token, pl_Label = pi_Label i, pl_Transport = pi_Transport i,
                     pl_EndpointAlias = pi_EndpointAlias i, pl_DiscordRoleID = pi_DiscordRoleID i,
                     pl_Enabled = pi_Enabled i, pl_CreatorID = principal_id p, pl_CreatedAt = me_now v,
                     pl_UpdatedAt = me_now v\<rparr> in
                   if \<not> mb_open m \<or> has_key pl_ID pid (mb_pipelines m) \<or> has_key pl_PublicToken token (mb_pipelines m) \<or>
                      sql_length (pi_Label i) = 0 \<or> \<not> has_key us_ID (principal_id p) (ac_users (mb_accounts m))
                   then (MError 500 ''failed to create pipeline'', m)
                   else (MPipeline 201 row, m\<lparr>mb_pipelines := mb_pipelines m @ [row]\<rparr>))))"

definition same_destination :: "PipelineRow \<Rightarrow> PipelineInput \<Rightarrow> bool" where
  "same_destination p i =
     (pl_Transport p = pi_Transport i \<and> pl_EndpointAlias p = pi_EndpointAlias i \<and>
      pl_DiscordRoleID p = pi_DiscordRoleID i)"

definition handleUpdatePipeline ::
  "MembersEnv \<Rightarrow> string \<Rightarrow> PipelineInput option \<Rightarrow> Members \<Rightarrow> reply \<times> Members" where
  "handleUpdatePipeline v pid body m =
     (case body of
        None \<Rightarrow> (MError 400 ''invalid pipeline'', m)
      | Some i \<Rightarrow>
          if validatePipeline v i \<noteq> None then (MError 400 ''invalid pipeline'', m)
          else if \<not> mb_open m then (MError 500 ''failed to update pipeline'', m)
          else case pipeline_by_id m pid of
            None \<Rightarrow> (MError 404 ''pipeline not found'', m)
          | Some p \<Rightarrow>
              if \<not> same_destination p i \<and> pipelineHasOutstandingMembershipRequests m pid = Some True
              then (MError 409 ''pipeline has outstanding membership requests'', m)
              else if sql_length (pi_Label i) = 0 then (MError 500 ''failed to update pipeline'', m)
              else (MStatus 200 ''ok'', m\<lparr>mb_pipelines := update_where (\<lambda>x. pl_ID x = pid)
                (\<lambda>x. x\<lparr>pl_Label := pi_Label i, pl_Transport := pi_Transport i, pl_EndpointAlias := pi_EndpointAlias i,
                  pl_DiscordRoleID := pi_DiscordRoleID i, pl_Enabled := pi_Enabled i, pl_UpdatedAt := me_now v\<rparr>)
                (mb_pipelines m)\<rparr>))"

text \<open>A page with requests of any kind cannot be deleted: their rows refer to it.\<close>

definition handleDeletePipeline :: "string \<Rightarrow> Members \<Rightarrow> reply \<times> Members" where
  "handleDeletePipeline pid m =
     (case pipelineHasOutstandingMembershipRequests m pid of
        None \<Rightarrow> (MError 500 ''membership state unavailable'', m)
      | Some True \<Rightarrow> (MError 409 ''pipeline has outstanding membership requests'', m)
      | Some False \<Rightarrow>
          if list_ex (\<lambda>q. mq_PipelineID q = pid) (mb_requests m) \<and> has_key pl_ID pid (mb_pipelines m)
          then (MError 500 ''failed to delete pipeline'', m)
          else if \<not> has_key pl_ID pid (mb_pipelines m) then (MError 404 ''pipeline not found'', m)
          else (MStatus 200 ''ok'', m\<lparr>mb_pipelines := delete_where (\<lambda>p. pl_ID p = pid) (mb_pipelines m)\<rparr>))"

definition pipelineByToken :: "MembersEnv \<Rightarrow> string \<Rightarrow> Members \<Rightarrow> PipelineView option" where
  "pipelineByToken v token m =
     (case (if mb_open m then find (\<lambda>p. pl_PublicToken p = token) (mb_pipelines m) else None) of
        None \<Rightarrow> None
      | Some p \<Rightarrow>
          if \<not> pl_Enabled p then None
          else case binding_of v (pl_EndpointAlias p) of
            None \<Rightarrow> None
          | Some b \<Rightarrow>
              (case br_SyncSetID b of
                 None \<Rightarrow> None
               | Some sid \<Rightarrow>
                   if trim_space sid = [] then None
                   else map_option (\<lambda>c. \<lparr>pv_Pipeline = p, pv_Form = c\<rparr>) (membershipConfig m sid)))"

definition public_form :: "MembershipConfig \<Rightarrow> MembershipConfig" where
  "public_form c = c\<lparr>mc_ReviewerGuidance := []\<rparr>"

definition handlePublicPipeline :: "MembersEnv \<Rightarrow> string \<Rightarrow> Members \<Rightarrow> reply" where
  "handlePublicPipeline v token m =
     (case pipelineByToken v token m of
        None \<Rightarrow> MError 404 ''verification page not found''
      | Some p \<Rightarrow> MPage (pl_Label (pv_Pipeline p)) (pl_Transport (pv_Pipeline p)) (public_form (pv_Form p)))"

end
