(* ===== verification/MembersHandlers.thy ===== *)
theory MembersHandlers
  imports Members
begin

text \<open>
  The life of an application (\<^verbatim>\<open>internal/api/verification.go\<close>): intake, proof of the mail address, decision, admission,
  clean-up (\<^verbatim>\<open>internal/controlstore/controlstore.go\<close>). One request is one step.
\<close>

subsection \<open>Files\<close>

definition remove_file :: "MembersEnv \<Rightarrow> string \<Rightarrow> Members \<Rightarrow> Members" where
  "remove_file v ref m =
     (if me_removed v ref then m\<lparr>mb_files := filter (\<lambda>(n, _). n \<noteq> ref) (mb_files m)\<rparr> else m)"

definition has_file :: "string \<Rightarrow> Members \<Rightarrow> bool" where
  "has_file ref m = list_ex (\<lambda>(n, _). n = ref) (mb_files m)"

text \<open>\<^verbatim>\<open>filepath.Base(ref) == ref\<close>.\<close>

definition is_base_name :: "string \<Rightarrow> bool" where
  "is_base_name ref = (ref \<noteq> [] \<and> (CHR ''/'' \<notin> set ref \<or> ref = ''/''))"

definition queue_cleanup :: "int \<Rightarrow> string \<Rightarrow> Members \<Rightarrow> Members" where
  "queue_cleanup now ref m = m\<lparr>mb_cleanup := upsert cq_Reference
     (\<lambda>new old. old\<lparr>cq_NextAttemptAt := min (cq_NextAttemptAt old) (cq_NextAttemptAt new)\<rparr>)
     \<lparr>cq_Reference = ref, cq_CreatedAt = now, cq_NextAttemptAt = now\<rparr> (mb_cleanup m)\<rparr>"

text \<open>\<open>None\<close> if the statement fails.\<close>

definition enqueueEvidenceCleanupTx :: "int \<Rightarrow> string \<Rightarrow> Members \<Rightarrow> Members option" where
  "enqueueEvidenceCleanupTx now ref m =
     (let ref = trim_space ref in
      if ref = [] then Some m else if sql_length ref = 0 then None else Some (queue_cleanup now ref m))"

definition drop_cleanup :: "string \<Rightarrow> Members \<Rightarrow> Members" where
  "drop_cleanup ref m = m\<lparr>mb_cleanup := delete_where (\<lambda>c. cq_Reference c = ref) (mb_cleanup m)\<rparr>"

fun cleanup_loop :: "MembersEnv \<Rightarrow> string list \<Rightarrow> Members \<Rightarrow> Members" where
  "cleanup_loop v [] m = m"
| "cleanup_loop v (ref # refs) m =
     cleanup_loop v refs
       (if \<not> is_base_name ref then drop_cleanup ref m
        else if me_removed v ref \<or> \<not> has_file ref m then drop_cleanup ref (remove_file v ref m)
        else m\<lparr>mb_cleanup := update_where (\<lambda>c. cq_Reference c = ref)
          (\<lambda>c. c\<lparr>cq_NextAttemptAt := me_now v + 3600000\<rparr>) (mb_cleanup m)\<rparr>)"

definition cleanupMembershipEvidence :: "MembersEnv \<Rightarrow> nat \<Rightarrow> Members \<Rightarrow> Members" where
  "cleanupMembershipEvidence v limit m =
     (if \<not> me_evidence_dir v \<or> \<not> mb_open m then m
      else cleanup_loop v
        (map cq_Reference (take limit (sort_key cq_NextAttemptAt (sort_key cq_CreatedAt
          (filter (\<lambda>c. cq_NextAttemptAt c \<le> me_now v) (mb_cleanup m)))))) m)"

text \<open>\<^verbatim>\<open>DELETE FROM membership_requests\<close>, with the rows that refer to the deleted ones.\<close>

definition delete_requests :: "(MembershipRequest \<Rightarrow> bool) \<Rightarrow> Members \<Rightarrow> Members" where
  "delete_requests P m =
     (let gone = map mq_ID (filter P (mb_requests m)) in
      m\<lparr>mb_requests := delete_where P (mb_requests m),
        mb_challenges := delete_where (\<lambda>c. ch_RequestID c \<in> set gone) (mb_challenges m),
        mb_tokens := delete_where (\<lambda>t. jt_RequestID t \<in> set gone) (mb_tokens m),
        mb_claims := delete_where (\<lambda>c. jc_RequestID c \<in> set gone) (mb_claims m),
        mb_assessments := delete_where (\<lambda>a. as_RequestID a \<in> set gone) (mb_assessments m)\<rparr>)"

definition update_request :: "string \<Rightarrow> (MembershipRequest \<Rightarrow> MembershipRequest) \<Rightarrow> Members \<Rightarrow> Members" where
  "update_request rid f m = m\<lparr>mb_requests := update_where (\<lambda>q. mq_ID q = rid) f (mb_requests m)\<rparr>"

subsection \<open>Intake\<close>

text \<open>The form of an application; \<open>it_Evidence\<close> is the size the upload claims and its bytes.\<close>

record Intake =
  it_WorkEmail :: string
  it_Identity :: string
  it_Answers :: string
  it_LinkedInURL :: string
  it_Evidence :: "(int \<times> string) option"

text \<open>\<^verbatim>\<open>^\+?[0-9]{7,20}$\<close> and \<^verbatim>\<open>^[0-9]{16,22}$\<close>.\<close>

definition match_phone :: "string \<Rightarrow> bool" where
  "match_phone s =
     (let d = trim_prefix s ''+'' in 7 \<le> length d \<and> length d \<le> 20 \<and> list_all is_digit d)"

definition match_discord_user :: "string \<Rightarrow> bool" where
  "match_discord_user s = (16 \<le> length s \<and> length s \<le> 22 \<and> list_all is_digit s)"

definition bad_application :: "MembersEnv \<Rightarrow> PipelineRow \<Rightarrow> string \<Rightarrow> string \<Rightarrow> bool" where
  "bad_application v p email identity =
     (me_parse_address v email \<noteq> Some email \<or> 320 < length email \<or>
      pl_Transport p = ''whatsapp'' \<and> \<not> match_phone identity \<or>
      pl_Transport p = ''discord'' \<and> \<not> match_discord_user identity)"

definition bad_linkedin :: "MembersEnv \<Rightarrow> URL \<Rightarrow> bool" where
  "bad_linkedin v u =
     (let host = lower_text (me_hostname v u) in
      ul_Scheme u \<noteq> ''https'' \<or> host \<noteq> ''linkedin.com'' \<and> \<not> has_suffix host ''.linkedin.com'')"

definition known_application :: "Members \<Rightarrow> string \<Rightarrow> string \<Rightarrow> bool" where
  "known_application m pid email =
     (mb_open m \<and> 0 < count_where (\<lambda>q. mq_PipelineID q = pid \<and> mq_WorkEmail q = email \<and>
        mq_Status q \<in> set [''pending_email'', ''pending'']) (mb_requests m))"

text \<open>The upload: the name and type of the file that was written, both empty without one.\<close>

definition store_evidence ::
  "MembersEnv \<Rightarrow> (int \<times> string) option \<Rightarrow> Members \<Rightarrow> (reply + string \<times> string) \<times> Members" where
  "store_evidence v upload m =
     (case upload of
        None \<Rightarrow> (Inr ([], []), m)
      | Some (bytes, content) \<Rightarrow>
          let kind = me_detect v (take 512 content) in
          if 5 * 1048576 < bytes then (Inl (MError 400 ''evidence too large''), m)
          else if kind \<noteq> ''application/pdf'' \<and> \<not> has_prefix kind ''image/''
          then (Inl (MError 400 ''unsupported evidence type''), m)
          else if \<not> me_evidence_dir v \<or> \<not> me_dir_made v then (Inl (MError 500 ''evidence storage unavailable''), m)
          else (case draw_id v m of (x, m) \<Rightarrow>
            let name = (case x of Some n \<Rightarrow> n | None \<Rightarrow> []) in
            if name = [] \<or> has_file name m \<or> \<not> me_created v name
            then (Inl (MError 500 ''evidence storage unavailable''), m)
            else
              let m = m\<lparr>mb_files := mb_files m @ [(name, me_now v)]\<rparr> in
              if \<not> me_written v name then (Inl (MError 400 ''invalid evidence''), remove_file v name m)
              else (Inr (name, kind), m)))"

definition new_request ::
  "MembersEnv \<Rightarrow> PipelineView \<Rightarrow> Intake \<Rightarrow> answers \<Rightarrow> string \<times> string \<Rightarrow> string \<Rightarrow> MembershipRequest" where
  "new_request v p i as evidence rid =
     (let identity = trim_space (it_Identity i); wa = (pl_Transport (pv_Pipeline p) = ''whatsapp'') in
      \<lparr>mq_ID = rid, mq_PipelineID = pl_ID (pv_Pipeline p), mq_Status = ''pending_email'',
       mq_WorkEmail = trim_space (it_WorkEmail i), mq_WhatsAppPhone = (if wa then identity else []),
       mq_DiscordUserID = (if wa then [] else identity), mq_LinkedInURL = trim_space (it_LinkedInURL i),
       mq_EvidenceReference = fst evidence, mq_EvidenceType = snd evidence, mq_VerificationState = ''pending'',
       mq_FulfillmentState = ''not_started'', mq_FailureClass = [], mq_DecidedBy = None, mq_DecidedAt = None,
       mq_Definition = pv_Form p, mq_Answers = as, mq_CreatedAt = me_now v, mq_UpdatedAt = me_now v\<rparr>)"

definition insert_assessment :: "AssessmentRow \<Rightarrow> Members \<Rightarrow> Members" where
  "insert_assessment a m =
     (if has_key as_ID (as_ID a) (mb_assessments m) \<or>
         has_key (\<lambda>x. (as_RequestID x, as_Kind x)) (as_RequestID a, as_Kind a) (mb_assessments m) then m
      else m\<lparr>mb_assessments := mb_assessments m @ [a]\<rparr>)"

definition assessment :: "MembersEnv \<Rightarrow> string \<Rightarrow> string \<Rightarrow> string \<Rightarrow> string \<Rightarrow> string \<Rightarrow> AssessmentRow" where
  "assessment v rid kind state code detail =
     \<lparr>as_ID = rid @ ''-'' @ kind, as_RequestID = rid, as_Kind = kind, as_State = state, as_ResultCode = code,
      as_Confidence = [], as_Detail = detail, as_CreatedAt = me_now v, as_UpdatedAt = me_now v\<rparr>"

text \<open>What happens once the request and its challenge are stored.\<close>

definition announce ::
  "MembersEnv \<Rightarrow> PipelineView \<Rightarrow> MembershipRequest \<Rightarrow> string \<Rightarrow> string \<Rightarrow> Members \<Rightarrow> Members" where
  "announce v p q linkedin challenge m =
     (let advice = Assess (me_parse_url v) (mq_WorkEmail q) linkedin (mq_EvidenceReference q \<noteq> []);
          m = insert_assessment (assessment v (mq_ID q) ''deterministic'' ''complete'' (av_Result advice)
            (av_DomainClass advice)) m;
          m = (if me_mailer v
            then m\<lparr>mb_mails := mb_mails m @ [\<lparr>ml_Recipient = mq_WorkEmail q, ml_Label = pl_Label (pv_Pipeline p),
              ml_Text = challenge\<rparr>]\<rparr> else m)
      in if me_analyzer v \<and> mq_EvidenceReference q \<noteq> [] \<and> me_readable v (mq_EvidenceReference q)
         then (insert_assessment (assessment v (mq_ID q) ''openrouter'' ''pending'' [] []) m)
           \<lparr>mb_analyses := mb_analyses m @ [mq_ID q]\<rparr>
         else m)"

definition challenge_lifetime :: int where "challenge_lifetime = 24 * 3600000"

definition insert_challenge :: "MembersEnv \<Rightarrow> string \<Rightarrow> string \<Rightarrow> Members \<Rightarrow> Members option" where
  "insert_challenge v rid token m =
     (let h = tokenHash (me_accounts v) token in
      if has_key ch_ID (rid @ ''-email'') (mb_challenges m) \<or> has_key ch_TokenHash h (mb_challenges m) then None
      else Some (m\<lparr>mb_challenges := mb_challenges m @
        [\<lparr>ch_ID = rid @ ''-email'', ch_RequestID = rid, ch_TokenHash = h,
          ch_ExpiresAt = me_now v + challenge_lifetime, ch_AttemptCount = 0, ch_VerifiedAt = None\<rparr>]\<rparr>))"

text \<open>The request is stored, or else the file goes again, then the challenge, or else the request goes again.\<close>

definition accept_application ::
  "MembersEnv \<Rightarrow> PipelineView \<Rightarrow> Intake \<Rightarrow> answers \<Rightarrow> string \<times> string \<Rightarrow> Members \<Rightarrow> reply \<times> Members" where
  "accept_application v p i as evidence m =
     (let undo = (\<lambda>m. if fst evidence \<noteq> [] then remove_file v (fst evidence) m else m) in
      case draw_id v m of (x, m) \<Rightarrow>
        let rid = (case x of Some r \<Rightarrow> r | None \<Rightarrow> []); q = new_request v p i as evidence rid in
        if \<not> mb_open m \<or> has_key mq_ID rid (mb_requests m)
        then (MError 400 ''application could not be accepted'', undo m)
        else
          let m = m\<lparr>mb_requests := mb_requests m @ [q]\<rparr> in
          (case draw_token v m of
             (None, m) \<Rightarrow> (MError 500 ''application could not be accepted'',
               undo (delete_requests (\<lambda>x. mq_ID x = rid) m))
           | (Some token, m) \<Rightarrow>
               (case insert_challenge v rid token m of
                  None \<Rightarrow> (MError 500 ''application could not be accepted'',
                    undo (delete_requests (\<lambda>x. mq_ID x = rid) m))
                | Some m \<Rightarrow> (MStatus 202 ''received'', announce v p q (it_LinkedInURL i) token m))))"

definition take_application ::
  "MembersEnv \<Rightarrow> PipelineView \<Rightarrow> Intake \<Rightarrow> answers \<Rightarrow> Members \<Rightarrow> reply \<times> Members" where
  "take_application v p i as m =
     (case store_evidence v (it_Evidence i) m of
        (Inl e, m) \<Rightarrow> (e, m)
      | (Inr evidence, m) \<Rightarrow>
          if mc_EvidenceRequired (pv_Form p) \<and> fst evidence = [] then (MError 400 ''evidence is required'', m)
          else accept_application v p i as evidence m)"

text \<open>
  A LinkedIn address that \<^verbatim>\<open>url.Parse\<close> rejects is asked for its host before the error is looked at, and there is
  no address then.
\<close>

definition handlePublicIntake :: "MembersEnv \<Rightarrow> string \<Rightarrow> Intake option \<Rightarrow> Members \<Rightarrow> reply \<times> Members" where
  "handlePublicIntake v token body m =
     (case pipelineByToken v token m of
        None \<Rightarrow> (MError 404 ''verification page not found'', m)
      | Some p \<Rightarrow>
          (case body of
             None \<Rightarrow> (MError 400 ''invalid application'', m)
           | Some i \<Rightarrow>
               let email = trim_space (it_WorkEmail i); identity = trim_space (it_Identity i);
                   linkedin = trim_space (it_LinkedInURL i) in
               if bad_application v (pv_Pipeline p) email identity then (MError 400 ''invalid application'', m)
               else case validateMembershipAnswers (me_decode v) (pv_Form p) (it_Answers i) of
                 Inl e \<Rightarrow> (MError 400 ''invalid application'', m)
               | Inr as \<Rightarrow>
                   if linkedin \<noteq> [] \<and> me_parse_url v linkedin = None then (MPanic, m)
                   else if linkedin \<noteq> [] \<and> bad_linkedin v (the (me_parse_url v linkedin))
                   then (MError 400 ''invalid application'', m)
                   else if known_application m (pl_ID (pv_Pipeline p)) email then (MStatus 202 ''received'', m)
                   else take_application v p i as m))"

text \<open>The analysis of some evidence comes back.\<close>

definition finish_analysis :: "MembersEnv \<Rightarrow> string \<Rightarrow> string \<Rightarrow> string \<Rightarrow> string \<Rightarrow> Members \<Rightarrow> Members" where
  "finish_analysis v rid state confidence advice m =
     (if rid \<notin> set (mb_analyses m) then m
      else
        let m = m\<lparr>mb_analyses := remove1 rid (mb_analyses m)\<rparr> in
        if \<not> mb_open m \<or> state \<notin> set [''pending'', ''complete'', ''failed'', ''unavailable''] then m
        else m\<lparr>mb_assessments := update_where (\<lambda>a. as_RequestID a = rid \<and> as_Kind a = ''openrouter'')
          (\<lambda>a. a\<lparr>as_State := state, as_ResultCode := confidence, as_Detail := advice, as_UpdatedAt := me_now v\<rparr>)
          (mb_assessments m)\<rparr>)"

subsection \<open>Proof of the mail address\<close>

definition open_challenge :: "Members \<Rightarrow> string \<Rightarrow> Challenge option" where
  "open_challenge m rid =
     (if mb_open m then find (\<lambda>c. ch_RequestID c = rid \<and> ch_VerifiedAt c = None) (mb_challenges m) else None)"

definition challenge_fails :: "MembersEnv \<Rightarrow> string \<Rightarrow> Challenge \<Rightarrow> bool" where
  "challenge_fails v challenge c =
     (ch_ExpiresAt c \<le> me_now v \<or> 5 \<le> ch_AttemptCount c \<or> tokenHash (me_accounts v) challenge \<noteq> ch_TokenHash c)"

definition handleVerifyEmail :: "MembersEnv \<Rightarrow> (string \<times> string) option \<Rightarrow> Members \<Rightarrow> reply \<times> Members" where
  "handleVerifyEmail v body m =
     (case body of
        None \<Rightarrow> (MError 400 ''invalid verification'', m)
      | Some (rid, challenge) \<Rightarrow>
          if rid = [] \<or> challenge = [] then (MError 400 ''invalid verification'', m)
          else case open_challenge m rid of
            None \<Rightarrow> (MError 401 ''invalid verification'', m)
          | Some c \<Rightarrow>
              if challenge_fails v challenge c
              then (MError 401 ''invalid verification'', m\<lparr>mb_challenges := update_where (\<lambda>c. ch_RequestID c = rid)
                (\<lambda>c. c\<lparr>ch_AttemptCount := ch_AttemptCount c + 1\<rparr>) (mb_challenges m)\<rparr>)
              else (MStatus 200 ''verified'',
                m\<lparr>mb_challenges := update_where (\<lambda>c. ch_RequestID c = rid \<and> ch_VerifiedAt c = None)
                    (\<lambda>c. c\<lparr>ch_VerifiedAt := Some (me_now v)\<rparr>) (mb_challenges m),
                  mb_requests := update_where (\<lambda>q. mq_ID q = rid \<and> mq_Status q = ''pending_email'')
                    (\<lambda>q. q\<lparr>mq_Status := ''pending_admin'', mq_VerificationState := ''verified'',
                      mq_UpdatedAt := me_now v\<rparr>) (mb_requests m)\<rparr>))"

definition renew_challenge :: "MembersEnv \<Rightarrow> string \<Rightarrow> string \<Rightarrow> Members \<Rightarrow> Members" where
  "renew_challenge v rid token m =
     (let h = tokenHash (me_accounts v) token in
      if list_ex (\<lambda>c. ch_TokenHash c = h \<and> ch_RequestID c \<noteq> rid) (mb_challenges m) then m
      else m\<lparr>mb_challenges := update_where (\<lambda>c. ch_RequestID c = rid)
        (\<lambda>c. c\<lparr>ch_TokenHash := h, ch_ExpiresAt := me_now v + challenge_lifetime, ch_AttemptCount := 0,
          ch_VerifiedAt := None\<rparr>) (mb_challenges m)\<rparr>)"

definition handleResendEmail :: "MembersEnv \<Rightarrow> string option \<Rightarrow> Members \<Rightarrow> reply \<times> Members" where
  "handleResendEmail v body m =
     (case body of
        None \<Rightarrow> (MError 400 ''invalid request'', m)
      | Some rid \<Rightarrow>
          if rid = [] then (MError 400 ''invalid request'', m)
          else
            let later = MError 202 ''if eligible, a new challenge will be sent'' in
            case request_with_pipeline m rid of
              None \<Rightarrow> (later, m)
            | Some (q, p) \<Rightarrow>
                if mq_Status q \<noteq> ''pending_email'' then (later, m)
                else (case draw_token v m of
                  (None, m) \<Rightarrow> (later, m)
                | (Some token, m) \<Rightarrow>
                    let m = renew_challenge v rid token m in
                    (MStatus 202 ''accepted'',
                     if me_mailer v then m\<lparr>mb_mails := mb_mails m @
                       [\<lparr>ml_Recipient = mq_WorkEmail q, ml_Label = pl_Label p, ml_Text = token\<rparr>]\<rparr> else m)))"

subsection \<open>Decisions\<close>

definition revoke_tokens :: "(JoinToken \<Rightarrow> bool) \<Rightarrow> int \<Rightarrow> Members \<Rightarrow> Members" where
  "revoke_tokens P now m = m\<lparr>mb_tokens := update_where P (\<lambda>t. t\<lparr>jt_RevokedAt := Some now\<rparr>) (mb_tokens m)\<rparr>"

definition next_status :: "string \<Rightarrow> string option" where
  "next_status action =
     (if action = ''approve'' then Some ''approved'' else if action = ''reject'' then Some ''rejected''
      else if action = ''needs_review'' then Some ''pending_admin'' else None)"

text \<open>An approval or rejection: the evidence is no longer referred to, and a rejection revokes the links.\<close>

definition verdict :: "MembersEnv \<Rightarrow> Principal option \<Rightarrow> string \<Rightarrow> string \<Rightarrow> Members \<Rightarrow> Members" where
  "verdict v p rid next m =
     (let m = m\<lparr>mb_requests := update_where (\<lambda>q. mq_ID q = rid \<and> mq_Status q = ''pending_admin'')
        (\<lambda>q. q\<lparr>mq_Status := next, mq_DecidedBy := Some (principal_id p), mq_DecidedAt := Some (me_now v),
          mq_UpdatedAt := me_now v, mq_EvidenceReference := [], mq_EvidenceType := []\<rparr>) (mb_requests m)\<rparr>
      in if next = ''rejected''
         then revoke_tokens (\<lambda>t. jt_RequestID t = rid \<and> jt_RevokedAt t = None) (me_now v) m else m)"

text \<open>The deciding user must exist; the transaction changes nothing if it does not.\<close>

definition decide :: "MembersEnv \<Rightarrow> Principal option \<Rightarrow> string \<Rightarrow> string \<Rightarrow> Members \<Rightarrow> Members option" where
  "decide v p rid next m =
     (case (if mb_open m then find (\<lambda>q. mq_ID q = rid \<and> mq_Status q = ''pending_admin'') (mb_requests m) else None) of
        None \<Rightarrow> None
      | Some q \<Rightarrow>
          if next = ''pending_admin'' then
            Some (m\<lparr>mb_requests := update_where (\<lambda>q. mq_ID q = rid \<and> mq_Status q = ''pending_admin'')
              (\<lambda>q. q\<lparr>mq_Status := next, mq_DecidedBy := Some (principal_id p), mq_DecidedAt := Some (me_now v),
                mq_UpdatedAt := me_now v\<rparr>) (mb_requests m)\<rparr>)
          else map_option (verdict v p rid next) (enqueueEvidenceCleanupTx (me_now v) (mq_EvidenceReference q) m))"

definition is_waiting :: "Members \<Rightarrow> string \<Rightarrow> bool" where
  "is_waiting m rid =
     (mb_open m \<and> list_ex (\<lambda>q. mq_ID q = rid \<and> mq_Status q = ''pending_admin'') (mb_requests m))"

definition handleMembershipDecision ::
  "MembersEnv \<Rightarrow> Principal option \<Rightarrow> string \<Rightarrow> string option \<Rightarrow> Members \<Rightarrow> reply \<times> Members" where
  "handleMembershipDecision v p rid body m =
     (case (case body of None \<Rightarrow> None | Some action \<Rightarrow> map_option (Pair action) (next_status action)) of
        None \<Rightarrow> (MError 400 ''invalid decision'', m)
      | Some (action, next) \<Rightarrow>
          if \<not> mb_open m then (MError 500 ''decision unavailable'', m)
          else if \<not> is_waiting m rid then (MError 409 ''request state changed'', m)
          else if \<not> has_key us_ID (principal_id p) (ac_users (mb_accounts m))
          then (MError 500 ''decision unavailable'', m)
          else case decide v p rid next m of
            None \<Rightarrow> (MError 500 ''decision unavailable'', m)
          | Some m \<Rightarrow>
              let m = log_action v p (''membership_'' @ action) rid m in
              (MStatus 200 next, if next = ''pending_admin'' then m else cleanupMembershipEvidence v 25 m))"

definition handleDeleteMembershipRequest :: "MembersEnv \<Rightarrow> string \<Rightarrow> Members \<Rightarrow> reply \<times> Members" where
  "handleDeleteMembershipRequest v rid m =
     (if \<not> mb_open m then (MError 500 ''failed to delete request'', m)
      else case request_by_id m rid of
        None \<Rightarrow> (MError 404 ''request not found'', m)
      | Some q \<Rightarrow>
          (case enqueueEvidenceCleanupTx (me_now v) (mq_EvidenceReference q) m of
             None \<Rightarrow> (MError 500 ''failed to delete request'', m)
           | Some m \<Rightarrow> (MStatus 200 ''ok'', cleanupMembershipEvidence v 25
               (delete_requests (\<lambda>q. mq_ID q = rid)
                 (revoke_tokens (\<lambda>t. jt_RequestID t = rid \<and> jt_RevokedAt t = None) (me_now v) m)))))"

end
