(* ===== verification/MembersAdmission.thy ===== *)
theory MembersAdmission
  imports MembersHandlers
begin

text \<open>
  From an approved application to a member (\<^verbatim>\<open>internal/api/verification.go\<close>): join links, admission through the
  provider, the periodic pass, what operators see, and retention (\<^verbatim>\<open>internal/controlstore/controlstore.go\<close>).
\<close>

subsection \<open>Join links\<close>

definition join_token_lifetime :: int where "join_token_lifetime = 48 * 3600000"

definition live_token :: "int \<Rightarrow> JoinToken \<Rightarrow> bool" where
  "live_token now t = (now < jt_ExpiresAt t \<and> jt_RevokedAt t = None \<and> jt_ConsumedAt t = None)"

definition issueMembershipJoinToken :: "MembersEnv \<Rightarrow> string \<Rightarrow> Members \<Rightarrow> string option \<times> Members" where
  "issueMembershipJoinToken v rid m =
     (case draw_token v m of
        (None, m) \<Rightarrow> (None, m)
      | (Some token, m) \<Rightarrow>
          let h = tokenHash (me_accounts v) token in
          if \<not> mb_open m \<or> has_key jt_TokenHash h (mb_tokens m) \<or> \<not> has_key mq_ID rid (mb_requests m) then (None, m)
          else
            let m = revoke_tokens (\<lambda>t. jt_RequestID t = rid \<and> jt_RevokedAt t = None \<and> jt_ConsumedAt t = None) (me_now v) m
            in (Some token, m\<lparr>mb_tokens := mb_tokens m @
              [\<lparr>jt_TokenHash = h, jt_RequestID = rid, jt_ExpiresAt = me_now v + join_token_lifetime,
                jt_CreatedAt = me_now v, jt_RevokedAt = None, jt_ConsumedAt = None\<rparr>]\<rparr>))"

definition trim_slashes :: "string \<Rightarrow> string" where
  "trim_slashes s = rev (dropWhile (\<lambda>c. c = CHR ''/'') (rev s))"

definition membershipJoinURL :: "MembersEnv \<Rightarrow> HttpRequest \<Rightarrow> string \<Rightarrow> string \<Rightarrow> string option" where
  "membershipJoinURL v r host token =
     (let base = trim_space (me_base_url v);
          scheme = (if hr_TLS r \<or> fold_equal ''https'' (trim_space (first_part (hr_ForwardedProto r)))
            then ''https'' else ''http'')
      in if trim_space token = [] \<or> base = [] \<and> trim_space host = [] then None
         else case me_parse_url v (if base = [] then scheme @ ''://'' @ trim_space host else base) of
           None \<Rightarrow> None
         | Some u \<Rightarrow>
             if ul_Host u = [] \<or> ul_Scheme u \<noteq> ''http'' \<and> ul_Scheme u \<noteq> ''https'' then None
             else Some (me_url_text v
               (u\<lparr>ul_Path := trim_slashes (ul_Path u) @ ''/api/verification/join/'' @ me_path_escape v token\<rparr>)))"

definition revoke_token :: "MembersEnv \<Rightarrow> string \<Rightarrow> string \<Rightarrow> Members \<Rightarrow> Members" where
  "revoke_token v rid token m =
     revoke_tokens (\<lambda>t. jt_RequestID t = rid \<and> jt_TokenHash t = tokenHash (me_accounts v) token \<and>
       jt_RevokedAt t = None) (me_now v) m"

text \<open>The failure class, empty if the mail went out.\<close>

definition sendMembershipJoinInvite ::
  "MembersEnv \<Rightarrow> HttpRequest \<Rightarrow> string \<Rightarrow> string \<Rightarrow> string \<Rightarrow> string \<Rightarrow> Members \<Rightarrow> string \<times> Members" where
  "sendMembershipJoinInvite v r host rid email label m =
     (if \<not> me_mailer v then (''invite_delivery_unavailable'', m)
      else case issueMembershipJoinToken v rid m of
        (None, m) \<Rightarrow> (''invite_token_unavailable'', m)
      | (Some token, m) \<Rightarrow>
          (case membershipJoinURL v r host token of
             None \<Rightarrow> (''join_url_unavailable'', revoke_token v rid token m)
           | Some url \<Rightarrow>
               let mail = \<lparr>ml_Recipient = email, ml_Label = label, ml_Text = url\<rparr>;
                   m' = m\<lparr>mb_mails := mb_mails m @ [mail]\<rparr>
               in if me_mail_sent v (mb_mails m) mail then ([], m')
                  else (''invite_delivery_failed'', revoke_token v rid token m')))"

definition open_join :: "MembersEnv \<Rightarrow> string \<Rightarrow> Members \<Rightarrow> (JoinToken \<times> PipelineRow) option" where
  "open_join v token m =
     (case (if mb_open m then find (\<lambda>t. jt_TokenHash t = tokenHash (me_accounts v) token \<and> live_token (me_now v) t)
         (mb_tokens m) else None) of
        None \<Rightarrow> None
      | Some t \<Rightarrow>
          (case request_with_pipeline m (jt_RequestID t) of
             None \<Rightarrow> None
           | Some (q, p) \<Rightarrow>
               if mq_Status q = ''approved'' \<and> pl_Transport p = ''whatsapp'' then Some (t, p) else None))"

definition connection_of :: "MembersEnv \<Rightarrow> string \<Rightarrow> (WhatsAppAdmin option \<times> DiscordAdmin option) option" where
  "connection_of v endpoint = (case binding_of v endpoint of None \<Rightarrow> None | Some b \<Rightarrow> me_connection v (br_ConnectionID b))"

definition handleMembershipJoin :: "MembersEnv \<Rightarrow> string \<Rightarrow> Members \<Rightarrow> reply \<times> Members" where
  "handleMembershipJoin v token m =
     (case open_join v token m of
        None \<Rightarrow> (MError 404 ''join link unavailable'', m)
      | Some (t, p) \<Rightarrow>
          let endpoint = pl_EndpointAlias p in
          (case connection_of v endpoint of
             Some (Some wa, dc) \<Rightarrow>
               let h = mb_calls m; h1 = h @ [CallJoinApprovalRequired endpoint]; h2 = h1 @ [CallInviteLink endpoint] in
               if wa_JoinApprovalRequired wa h endpoint \<noteq> Inr True
               then (MError 409 ''join approval must be enabled'', m\<lparr>mb_calls := h1\<rparr>)
               else (case wa_InviteLink wa h1 endpoint of
                  Inl e \<Rightarrow> (MError 503 ''join link unavailable'', m\<lparr>mb_calls := h2\<rparr>)
                | Inr link \<Rightarrow> (MRedirect link, m\<lparr>mb_calls := h2\<rparr>))
           | _ \<Rightarrow> (MError 503 ''join link unavailable'', m)))"

subsection \<open>Admission\<close>

definition fulfillment_request :: "MembershipRequest \<Rightarrow> PipelineRow \<Rightarrow> FulfillmentRequest" where
  "fulfillment_request q p =
     \<lparr>fq_Transport = pl_Transport p, fq_EndpointAlias = pl_EndpointAlias p, fq_RoleID = pl_DiscordRoleID p,
      fq_Phone = mq_WhatsAppPhone q, fq_DiscordUserID = mq_DiscordUserID q\<rparr>"

text \<open>
  Claiming the number for the request at this endpoint: the owner of a claim that is in the way, or the tables
  with the claim.
\<close>

definition claim_phone :: "MembersEnv \<Rightarrow> string \<Rightarrow> FulfillmentRequest \<Rightarrow> Members \<Rightarrow> string + Members" where
  "claim_phone v rid req m =
     (let endpoint = fq_EndpointAlias req; phone = phone_digits (fq_Phone req) in
      if fq_Transport req \<noteq> ''whatsapp'' \<or> has_key jc_RequestID rid (mb_claims m) then Inr m
      else case find (\<lambda>c. jc_EndpointAlias c = endpoint \<and> jc_Phone c = phone) (mb_claims m) of
        Some c \<Rightarrow> Inl (jc_RequestID c)
      | None \<Rightarrow> Inr (m\<lparr>mb_claims := mb_claims m @
          [\<lparr>jc_EndpointAlias = endpoint, jc_Phone = phone, jc_RequestID = rid, jc_ClaimedAt = me_now v\<rparr>]\<rparr>))"

definition run_fulfill ::
  "MembersEnv \<Rightarrow> FulfillmentRequest \<Rightarrow> Members \<Rightarrow> FulfillmentResult \<times> bool \<times> Members" where
  "run_fulfill v req m =
     (let c = connection_of v (fq_EndpointAlias req);
          wa = (case c of None \<Rightarrow> None | Some (wa, dc) \<Rightarrow> wa); dc = (case c of None \<Rightarrow> None | Some (wa, dc) \<Rightarrow> dc)
      in case Fulfill req wa dc (mb_calls m) of (result, failed, h) \<Rightarrow> (result, failed, m\<lparr>mb_calls := h\<rparr>))"

text \<open>A member's links are used up and the claim is given back.\<close>

definition settle_member :: "MembersEnv \<Rightarrow> string \<Rightarrow> FulfillmentResult \<Rightarrow> Members \<Rightarrow> Members" where
  "settle_member v rid result m =
     (if fr_State result \<noteq> ''succeeded'' then m
      else m\<lparr>mb_tokens := update_where (\<lambda>t. jt_RequestID t = rid \<and> jt_ConsumedAt t = None)
          (\<lambda>t. t\<lparr>jt_ConsumedAt := Some (me_now v)\<rparr>) (mb_tokens m),
        mb_claims := delete_where (\<lambda>c. jc_RequestID c = rid) (mb_claims m)\<rparr>)"

definition note_result :: "MembersEnv \<Rightarrow> string \<Rightarrow> FulfillmentResult \<Rightarrow> Members \<Rightarrow> Members" where
  "note_result v rid result m =
     update_request rid (\<lambda>q. q\<lparr>mq_FulfillmentState := fr_State result, mq_FailureClass := fr_FailureClass result,
       mq_UpdatedAt := me_now v\<rparr>) (settle_member v rid result m)"

definition invite_result ::
  "MembersEnv \<Rightarrow> HttpRequest \<Rightarrow> string \<Rightarrow> MembershipRequest \<Rightarrow> PipelineRow \<Rightarrow> FulfillmentResult \<Rightarrow> Members \<Rightarrow>
   FulfillmentResult \<times> Members" where
  "invite_result v r host q p result m =
     (if result = outcome ''action_pending'' ''invite_pending'' \<and> pl_Transport p = ''whatsapp''
      then (case sendMembershipJoinInvite v r host (mq_ID q) (mq_WorkEmail q) (pl_Label p) m of
        (failure, m) \<Rightarrow> (if failure = [] then result else outcome ''action_pending'' failure, m))
      else (result, m))"

definition handleFulfillMembershipRequest ::
  "MembersEnv \<Rightarrow> HttpRequest \<Rightarrow> string \<Rightarrow> Principal option \<Rightarrow> string \<Rightarrow> Members \<Rightarrow> reply \<times> Members" where
  "handleFulfillMembershipRequest v r host p rid m =
     (case request_with_pipeline m rid of
        None \<Rightarrow> (MError 404 ''request not found'', m)
      | Some (q, pl) \<Rightarrow>
          if mq_Status q \<noteq> ''approved'' then (MError 409 ''request is not approved'', m)
          else if mq_FulfillmentState q = ''succeeded'' then (MStatus 200 ''succeeded'', m)
          else
            let req = fulfillment_request q pl in
            case claim_phone v rid req m of
              Inl owner \<Rightarrow>
                (MState 409 ''action_pending'' ''identity_claimed'', update_request rid
                  (\<lambda>q. q\<lparr>mq_FulfillmentState := ''action_pending'', mq_FailureClass := ''identity_claimed'',
                    mq_UpdatedAt := me_now v\<rparr>) m)
            | Inr m \<Rightarrow>
                (case run_fulfill v req (log_action v p ''membership_fulfillment_retry'' rid m) of
                   (result, failed, m) \<Rightarrow>
                     (case invite_result v r host q pl result m of
                        (result, m) \<Rightarrow>
                          (MState (if failed \<and> fr_State result = ''failed'' then 502 else 200)
                             (fr_State result) (fr_FailureClass result), note_result v rid result m))))"

definition has_live_token :: "MembersEnv \<Rightarrow> string \<Rightarrow> Members \<Rightarrow> bool" where
  "has_live_token v rid m = list_ex (\<lambda>t. jt_RequestID t = rid \<and> live_token (me_now v) t) (mb_tokens m)"

definition reconcileMembershipRequest :: "MembersEnv \<Rightarrow> string \<Rightarrow> Members \<Rightarrow> Members" where
  "reconcileMembershipRequest v rid m =
     (case request_with_pipeline m rid of
        None \<Rightarrow> m
      | Some (q, p) \<Rightarrow>
          if mq_Status q \<noteq> ''approved'' \<or> mq_FulfillmentState q = ''succeeded'' \<or> \<not> has_live_token v rid m then m
          else
            let req = fulfillment_request q p in
            case claim_phone v rid req m of
              Inl owner \<Rightarrow> update_request rid
                (\<lambda>q. q\<lparr>mq_FailureClass := ''identity_claimed'', mq_UpdatedAt := me_now v\<rparr>) m
            | Inr m \<Rightarrow> (case run_fulfill v req m of (result, failed, m) \<Rightarrow> note_result v rid result m))"

definition ReconcileMembership :: "MembersEnv \<Rightarrow> Members \<Rightarrow> Members" where
  "ReconcileMembership v m =
     (let m = cleanupMembershipEvidence v 25 m in
      if \<not> mb_open m then m
      else fold (reconcileMembershipRequest v)
        (map mq_ID (take 25 (sort_key mq_UpdatedAt (filter (\<lambda>q. mq_Status q = ''approved'' \<and>
          mq_FulfillmentState q = ''action_pending'' \<and> has_live_token v (mq_ID q) m) (mb_requests m))))) m)"

subsection \<open>What operators see\<close>

text \<open>\<^verbatim>\<open>strconv.Atoi\<close>, but for values beyond 64 bits.\<close>

definition decimal_value :: "string \<Rightarrow> int" where
  "decimal_value s = foldl (\<lambda>n c. 10 * n + int (byte c - 48)) 0 s"

definition Atoi :: "string \<Rightarrow> int option" where
  "Atoi s =
     (let digits = (if has_prefix s ''-'' \<or> has_prefix s ''+'' then tl s else s) in
      if digits = [] \<or> \<not> list_all is_digit digits then None
      else Some (if has_prefix s ''-'' then - decimal_value digits else decimal_value digits))"

record RequestFilter =
  rf_SyncSetID :: string
  rf_Pipeline :: string
  rf_Status :: string
  rf_AgeHours :: string

definition filter_hours :: "string \<Rightarrow> int option option" where
  "filter_hours s =
     (if s = [] then Some None
      else case Atoi s of None \<Rightarrow> None | Some n \<Rightarrow> if n < 0 \<or> 24 * 365 < n then None else Some (Some n))"

definition selected :: "MembersEnv \<Rightarrow> string list option \<Rightarrow> int option \<Rightarrow> RequestFilter \<Rightarrow> Members \<Rightarrow> MembershipRequest \<Rightarrow> bool" where
  "selected v scope hours f m q =
     ((scope = None \<or> list_ex (\<lambda>p. pl_ID p = mq_PipelineID q \<and> in_scope scope p) (mb_pipelines m)) \<and>
      (rf_Pipeline f = [] \<or> mq_PipelineID q = rf_Pipeline f) \<and> (rf_Status f = [] \<or> mq_Status q = rf_Status f) \<and>
      (case hours of None \<Rightarrow> True | Some n \<Rightarrow> me_now v - n * 3600000 \<le> mq_CreatedAt q))"

definition handleListMembershipRequests :: "MembersEnv \<Rightarrow> RequestFilter \<Rightarrow> Members \<Rightarrow> reply" where
  "handleListMembershipRequests v f m =
     (if rf_SyncSetID f \<noteq> [] \<and> ValidateSyncSetID (rf_SyncSetID f) \<noteq> None then MError 400 ''invalid sync set filter''
      else case membershipPipelineScope v (rf_SyncSetID f) of
        None \<Rightarrow> MError 500 ''failed to read sync set scope''
      | Some scope \<Rightarrow>
          (case filter_hours (rf_AgeHours f) of
             None \<Rightarrow> MError 400 ''invalid age filter''
           | Some hours \<Rightarrow>
               if \<not> mb_open m then MError 500 ''failed to list requests''
               else MRequests (take 500 (rev (sort_key mq_CreatedAt
                 (filter (selected v scope hours f m) (mb_requests m)))))))"

definition find_assessment :: "Members \<Rightarrow> string \<Rightarrow> string \<Rightarrow> AssessmentRow option" where
  "find_assessment m rid kind = find (\<lambda>a. as_RequestID a = rid \<and> as_Kind a = kind) (mb_assessments m)"

definition column :: "(AssessmentRow \<Rightarrow> string) \<Rightarrow> AssessmentRow option \<Rightarrow> string" where
  "column f a = (case a of None \<Rightarrow> [] | Some a \<Rightarrow> f a)"

definition handleGetMembershipRequest :: "string \<Rightarrow> Members \<Rightarrow> reply" where
  "handleGetMembershipRequest rid m =
     (case request_by_id m rid of
        None \<Rightarrow> MError 404 ''request not found''
      | Some q \<Rightarrow>
          let det = find_assessment m rid ''deterministic''; ai = find_assessment m rid ''openrouter'' in
          MRequest \<lparr>rq_Request = q, rq_DeterministicResult = column as_ResultCode det, rq_AIState = column as_State ai,
            rq_AIConfidence = column as_Confidence ai, rq_AIAssessment = column as_Detail ai\<rparr>)"

definition handleMembershipEvidence :: "MembersEnv \<Rightarrow> string \<Rightarrow> Members \<Rightarrow> reply" where
  "handleMembershipEvidence v rid m =
     (case request_by_id m rid of
        None \<Rightarrow> MError 404 ''evidence not found''
      | Some q \<Rightarrow>
          let ref = mq_EvidenceReference q in
          if \<not> is_base_name ref \<or> ref \<in> set [''.'', ''..'', ''/''] \<or> \<not> has_file ref m
          then MError 404 ''evidence not found'' else MEvidence ref)"

definition handleGetMembershipReadiness :: "MembersEnv \<Rightarrow> string \<Rightarrow> string \<Rightarrow> Members \<Rightarrow> reply \<times> Members" where
  "handleGetMembershipReadiness v cid endpoint m =
     (let cid = trim_space cid; endpoint = trim_space endpoint in
      if cid = [] \<or> endpoint = [] then (MError 400 ''connection and endpoint are required'', m)
      else if me_bindings v = None then (MError 503 ''membership readiness unavailable'', m)
      else case binding_of v endpoint of
        None \<Rightarrow> (MError 404 ''endpoint not found'', m)
      | Some b \<Rightarrow>
          if br_Transport b \<noteq> ''whatsapp'' \<or> br_ConnectionID b \<noteq> cid
          then (MError 400 ''endpoint is not owned by this WhatsApp connection'', m)
          else (case me_connection v cid of
            Some (Some wa, dc) \<Rightarrow>
              ((case wa_JoinApprovalRequired wa (mb_calls m) endpoint of
                  Inl e \<Rightarrow> MReady False False ''group_unavailable''
                | Inr required \<Rightarrow> if required then MReady True True [] else MReady False False ''join_approval_required''),
               m\<lparr>mb_calls := mb_calls m @ [CallJoinApprovalRequired endpoint]\<rparr>)
          | _ \<Rightarrow> (MReady False False ''connection_unavailable'', m)))"

subsection \<open>Retention\<close>

text \<open>The first \<open>batch\<close> rows with a property go.\<close>

fun delete_first :: "nat \<Rightarrow> ('r \<Rightarrow> bool) \<Rightarrow> 'r list \<Rightarrow> 'r list" where
  "delete_first n P [] = []"
| "delete_first n P (x # xs) =
     (if P x then (case n of 0 \<Rightarrow> x # xs | Suc k \<Rightarrow> delete_first k P xs) else x # delete_first n P xs)"

definition terminal :: "MembershipRequest \<Rightarrow> bool" where
  "terminal q =
     (mq_Status q \<in> set [''rejected'', ''fulfilled'', ''cancelled'', ''expired''] \<or>
      mq_Status q = ''approved'' \<and> mq_FulfillmentState q = ''succeeded'')"

definition prune_accounts :: "int \<Rightarrow> nat \<Rightarrow> Accounts \<Rightarrow> Accounts" where
  "prune_accounts now batch a =
     a\<lparr>ac_invites := delete_first batch (\<lambda>i. iv_ExpiresAt i < now \<or> iv_ConsumedAt i \<noteq> None) (ac_invites a),
       ac_resets := delete_first batch (\<lambda>t. rt_ExpiresAt t < now \<or> rt_ConsumedAt t \<noteq> None) (ac_resets a),
       ac_sessions := delete_first batch (\<lambda>s. sn_ExpiresAt s < now \<or> sn_RevokedAt s \<noteq> None) (ac_sessions a)\<rparr>"

definition prunable :: "int \<Rightarrow> nat \<Rightarrow> Members \<Rightarrow> string list" where
  "prunable cutoff batch m =
     map mq_ID (take batch (filter (\<lambda>q. terminal q \<and> mq_UpdatedAt q < cutoff) (mb_requests m)))"

fun orphan_loop :: "MembersEnv \<Rightarrow> nat \<Rightarrow> (string \<times> int) list \<Rightarrow> Members \<Rightarrow> Members" where
  "orphan_loop v n [] m = m"
| "orphan_loop v n ((ref, at) # entries) m =
     (if n = 0 then m
      else if me_now v - 600000 < at \<or> \<not> is_base_name ref then orphan_loop v n entries m
      else if list_ex (\<lambda>q. mq_EvidenceReference q = ref \<and>
          mq_Status q \<in> set [''pending_email'', ''pending_admin'', ''pending'']) (mb_requests m) \<or> \<not> me_removed v ref
      then orphan_loop v (n - 1) entries m
      else orphan_loop v (n - 1) entries (drop_cleanup ref (remove_file v ref m)))"

definition pruneOrphanEvidence :: "MembersEnv \<Rightarrow> nat \<Rightarrow> Members \<Rightarrow> Members" where
  "pruneOrphanEvidence v batch m =
     (if \<not> me_evidence_dir v \<or> \<not> mb_open m then m else orphan_loop v batch (sort_key fst (mb_files m)) m)"

text \<open>Of the deleted requests the references of their evidence are returned, and queued before.\<close>

definition control_PruneRetention :: "MembersEnv \<Rightarrow> int \<Rightarrow> nat \<Rightarrow> Members \<Rightarrow> string list result \<times> Members" where
  "control_PruneRetention v age batch m =
     (let batch = (if batch = 0 then 100 else batch); now = me_now v; cutoff = now - age in
      if \<not> mb_open m then (Inl (ErrWrap ''begin control retention'' ErrConnDone), m)
      else
        let gone = prunable cutoff batch m;
            refs = filter (\<lambda>ref. ref \<noteq> []) (map mq_EvidenceReference (filter (\<lambda>q. mq_ID q \<in> set gone) (mb_requests m)));
            m = m\<lparr>mb_challenges := delete_first batch (\<lambda>c. ch_ExpiresAt c < now) (mb_challenges m),
              mb_tokens := delete_first batch
                (\<lambda>t. jt_ExpiresAt t < now \<or> jt_RevokedAt t \<noteq> None \<or> jt_ConsumedAt t \<noteq> None) (mb_tokens m),
              mb_accounts := prune_accounts now batch (mb_accounts m)\<rparr>;
            m = fold (queue_cleanup now) refs m;
            m = delete_requests (\<lambda>q. mq_ID q \<in> set gone) m
        in (Inr refs, pruneOrphanEvidence v batch m))"

subsection \<open>Routes\<close>

datatype member_ask =
    MaGetForm string
  | MaPutForm string "MembershipConfig option"
  | MaDeleteForm string
  | MaListPipelines string
  | MaCreatePipeline "PipelineInput option"
  | MaUpdatePipeline string "PipelineInput option"
  | MaDeletePipeline string
  | MaPage string
  | MaIntake string "Intake option"
  | MaJoin string
  | MaVerify "(string \<times> string) option"
  | MaResend "string option"
  | MaListRequests RequestFilter
  | MaGetRequest string
  | MaDeleteRequest string
  | MaDecide string "string option"
  | MaEvidence string
  | MaFulfill string
  | MaReadiness string string

fun member_method :: "member_ask \<Rightarrow> string" where
  "member_method (MaPutForm sid body) = ''PUT''"
| "member_method (MaUpdatePipeline pid body) = ''PUT''"
| "member_method (MaDeleteForm sid) = ''DELETE''"
| "member_method (MaDeletePipeline pid) = ''DELETE''"
| "member_method (MaDeleteRequest rid) = ''DELETE''"
| "member_method (MaCreatePipeline body) = ''POST''"
| "member_method (MaIntake token body) = ''POST''"
| "member_method (MaVerify body) = ''POST''"
| "member_method (MaResend body) = ''POST''"
| "member_method (MaDecide rid body) = ''POST''"
| "member_method (MaFulfill rid) = ''POST''"
| "member_method q = ''GET''"

fun member_path :: "member_ask \<Rightarrow> string" where
  "member_path (MaGetForm sid) = ''/api/sync-sets/'' @ sid @ ''/membership''"
| "member_path (MaPutForm sid body) = ''/api/sync-sets/'' @ sid @ ''/membership''"
| "member_path (MaDeleteForm sid) = ''/api/sync-sets/'' @ sid @ ''/membership''"
| "member_path (MaListPipelines sid) = ''/api/verification/pipelines''"
| "member_path (MaCreatePipeline body) = ''/api/verification/pipelines''"
| "member_path (MaUpdatePipeline pid body) = ''/api/verification/pipelines/'' @ pid"
| "member_path (MaDeletePipeline pid) = ''/api/verification/pipelines/'' @ pid"
| "member_path (MaPage token) = ''/api/verification/'' @ token"
| "member_path (MaIntake token body) = ''/api/verification/'' @ token"
| "member_path (MaJoin token) = ''/api/verification/join/'' @ token"
| "member_path (MaVerify body) = ''/api/verification/email/verify''"
| "member_path (MaResend body) = ''/api/verification/email/resend''"
| "member_path (MaListRequests f) = ''/api/verification/requests''"
| "member_path (MaGetRequest rid) = ''/api/verification/requests/'' @ rid"
| "member_path (MaDeleteRequest rid) = ''/api/verification/requests/'' @ rid"
| "member_path (MaDecide rid body) = ''/api/verification/requests/'' @ rid @ ''/decision''"
| "member_path (MaEvidence rid) = ''/api/verification/requests/'' @ rid @ ''/evidence''"
| "member_path (MaFulfill rid) = ''/api/verification/requests/'' @ rid @ ''/fulfill''"
| "member_path (MaReadiness cid endpoint) = ''/api/connections/'' @ cid @ ''/membership-readiness''"

fun member_dispatch ::
  "MembersEnv \<Rightarrow> HttpRequest \<Rightarrow> string \<Rightarrow> Principal option \<Rightarrow> member_ask \<Rightarrow> Members \<Rightarrow> reply \<times> Members" where
  "member_dispatch v r host p (MaGetForm sid) m = (handleGetMembershipConfig v sid m, m)"
| "member_dispatch v r host p (MaPutForm sid body) m = handlePutMembershipConfig v p sid body m"
| "member_dispatch v r host p (MaDeleteForm sid) m = handleDeleteMembershipConfig v sid m"
| "member_dispatch v r host p (MaListPipelines sid) m = (handleListPipelines v sid m, m)"
| "member_dispatch v r host p (MaCreatePipeline body) m = handleCreatePipeline v p body m"
| "member_dispatch v r host p (MaUpdatePipeline pid body) m = handleUpdatePipeline v pid body m"
| "member_dispatch v r host p (MaDeletePipeline pid) m = handleDeletePipeline pid m"
| "member_dispatch v r host p (MaPage token) m = (handlePublicPipeline v token m, m)"
| "member_dispatch v r host p (MaIntake token body) m = handlePublicIntake v token body m"
| "member_dispatch v r host p (MaJoin token) m = handleMembershipJoin v token m"
| "member_dispatch v r host p (MaVerify body) m = handleVerifyEmail v body m"
| "member_dispatch v r host p (MaResend body) m = handleResendEmail v body m"
| "member_dispatch v r host p (MaListRequests f) m = (handleListMembershipRequests v f m, m)"
| "member_dispatch v r host p (MaGetRequest rid) m = (handleGetMembershipRequest rid m, m)"
| "member_dispatch v r host p (MaDeleteRequest rid) m = handleDeleteMembershipRequest v rid m"
| "member_dispatch v r host p (MaDecide rid body) m = handleMembershipDecision v p rid body m"
| "member_dispatch v r host p (MaEvidence rid) m = (handleMembershipEvidence v rid m, m)"
| "member_dispatch v r host p (MaFulfill rid) m = handleFulfillMembershipRequest v r host p rid m"
| "member_dispatch v r host p (MaReadiness cid endpoint) m = handleGetMembershipReadiness v cid endpoint m"

text \<open>The check in front of these routes is that of \<open>authMiddleware\<close>.\<close>

definition members_serve ::
  "MembersEnv \<Rightarrow> HttpRequest \<Rightarrow> string \<Rightarrow> member_ask \<Rightarrow> Members \<Rightarrow> reply \<times> Members" where
  "members_serve v r host q m =
     (let path = member_path q in
      if open_path path then member_dispatch v r host None q m
      else case session_principal (me_accounts v) (extractToken r) (mb_accounts m) of
        (None, a) \<Rightarrow> (MError 401 ''unauthorized'', m\<lparr>mb_accounts := a\<rparr>)
      | (Some p, a) \<Rightarrow>
          if requiresAdmin (member_method q) path \<and> pp_Role p \<noteq> ''admin''
          then (MError 403 ''forbidden'', m\<lparr>mb_accounts := a\<rparr>)
          else member_dispatch v r host (Some p) q (m\<lparr>mb_accounts := a\<rparr>))"

text \<open>What happens to the tables over time: requests, the periodic pass, retention, and analyses that come back.\<close>

inductive member_step :: "Members \<Rightarrow> Members \<Rightarrow> bool" where
  request: "members_serve v r host q m = (reply, m') \<Longrightarrow> member_step m m'"
| reconcile: "member_step m (ReconcileMembership v m)"
| retention: "control_PruneRetention v age batch m = (refs, m') \<Longrightarrow> member_step m m'"
| analysis: "member_step m (finish_analysis v rid state confidence advice m)"

inductive member_run :: "Members \<Rightarrow> Members \<Rightarrow> bool" where
  begin_run: "member_run m m"
| next_step: "member_run m m' \<Longrightarrow> member_step m' m'' \<Longrightarrow> member_run m m''"

inductive_cases member_stepE: "member_step m m'"

end
