(* ===== verification/FulfillSpec.thy ===== *)
theory FulfillSpec
  imports MembersAdmission
begin

text \<open>
  Admission through the provider: who is reported as a member is one, and no request but the applicant's own is
  ever approved. Answers that were accepted fit the form.
\<close>

subsection \<open>Members are confirmed\<close>

text \<open>
  A provider's word that the applicant is in: the call and the answer it got after the calls before it.
\<close>

definition confirmed ::
  "FulfillmentRequest \<Rightarrow> WhatsAppAdmin option \<Rightarrow> DiscordAdmin option \<Rightarrow> admin_calls \<Rightarrow> admin_calls \<Rightarrow> bool" where
  "confirmed req wa dc before after =
     (\<exists>h. (\<exists>w. wa = Some w \<and> after = before @ h @ [CallIsMember (fq_EndpointAlias req) (fq_Phone req)] \<and>
          wa_IsMember w (before @ h) (fq_EndpointAlias req) (fq_Phone req) = Inr True) \<or>
        (\<exists>d. dc = Some d \<and>
          after = before @ h @ [CallAssignRole (fq_EndpointAlias req) (fq_RoleID req) (fq_DiscordUserID req)] \<and>
          dc_AssignRole d (before @ h) (fq_EndpointAlias req) (fq_RoleID req) (fq_DiscordUserID req) = None))"

lemmas fulfill_defs = fulfill_whatsapp_def approve_target_def offer_invite_def outcome_def approve_failure_def Let_def

lemma approve_confirms:
  assumes "approve_target req wa target h = (result, failed, after)" "fr_State result = ''succeeded''"
  shows "\<exists>h'. after = h @ h' @ [CallIsMember (fq_EndpointAlias req) (fq_Phone req)] \<and>
    wa_IsMember wa (h @ h') (fq_EndpointAlias req) (fq_Phone req) = Inr True"
  using assms
  by (auto simp: fulfill_defs intro!: exI [of _ "[CallApproveJoinRequest (fq_EndpointAlias req) target]"]
      split: option.splits sum.splits if_splits admin_error.splits)

lemma find_target_calls: "find_target req wa h = (x, h') \<Longrightarrow> \<exists>c. h' = h @ [c]"
  by (auto simp: find_target_def Let_def split: option.splits)

lemma whatsapp_confirms:
  assumes "fulfill_whatsapp req wa h = (result, failed, after)" "fr_State result = ''succeeded''"
  shows "\<exists>h'. after = h @ h' @ [CallIsMember (fq_EndpointAlias req) (fq_Phone req)] \<and>
    wa_IsMember wa (h @ h') (fq_EndpointAlias req) (fq_Phone req) = Inr True"
proof (cases "wa_IsMember wa h (fq_EndpointAlias req) (fq_Phone req) = Inr True")
  case True
  then show ?thesis
    using assms by (intro exI [of _ "[]"]) (simp add: fulfill_whatsapp_def Let_def)
next
  case False
  obtain x h2 where target: "find_target req wa (h @ [CallIsMember (fq_EndpointAlias req) (fq_Phone req),
      CallJoinApprovalRequired (fq_EndpointAlias req)]) = (x, h2)"
    by force
  obtain t where t: "approve_target req wa t h2 = (result, failed, after)"
    using False assms target
    by (auto simp: fulfill_whatsapp_def offer_invite_def outcome_def Let_def split: sum.splits if_splits)
  obtain c where "h2 = h @ [CallIsMember (fq_EndpointAlias req) (fq_Phone req),
      CallJoinApprovalRequired (fq_EndpointAlias req), c]"
    using find_target_calls [OF target] by auto
  then show ?thesis
    using approve_confirms [OF t assms(2)] by (metis append.assoc)
qed

text \<open>
  C17: An applicant is only reported as admitted on the word of the provider: the last call was the question whether
  the applicant's number is in the group of the endpoint, answered with yes, or the assignment of the role to the
  applicant's account, which succeeded.
\<close>

theorem admission_is_confirmed:
  assumes "Fulfill req wa dc h = (result, failed, after)" "fr_State result = ''succeeded''"
  shows "confirmed req wa dc h after"
proof (cases "fq_Transport req = ''whatsapp''")
  case True
  then obtain w where "wa = Some w" "fulfill_whatsapp req w h = (result, failed, after)"
    using assms by (auto simp: Fulfill_def outcome_def split: option.splits)
  then show ?thesis
    using whatsapp_confirms assms(2) unfolding confirmed_def by blast
next
  case False
  then show ?thesis
    using assms
    by (auto simp: Fulfill_def confirmed_def outcome_def Let_def intro!: exI [of _ "[]"]
        split: option.splits admin_error.splits if_splits)
qed

subsection \<open>Only the applicant's request is approved\<close>

lemma match_loop_found:
  assumes "match_loop wanted cs found = Some target" "target \<noteq> []"
  shows "target = found \<or> (\<exists>c \<in> set cs. phone_digits (jr_Phone c) = wanted \<and> target = join_target c)"
  using assms by (induction cs arbitrary: found) (auto split: if_splits)

lemma match_loop_kept:
  "match_loop wanted cs found = Some target \<Longrightarrow> found \<noteq> [] \<Longrightarrow>
    target = found \<and> (\<forall>c \<in> set cs. phone_digits (jr_Phone c) \<noteq> wanted)"
  by (induction cs) (auto split: if_splits)

lemma match_loop_single:
  assumes "match_loop wanted cs [] = Some target" "target \<noteq> []"
  shows "\<exists>before c after. cs = before @ c # after \<and> phone_digits (jr_Phone c) = wanted \<and> target = join_target c \<and>
    (\<forall>x \<in> set before. phone_digits (jr_Phone x) = wanted \<longrightarrow> join_target x = []) \<and>
    (\<forall>x \<in> set after. phone_digits (jr_Phone x) \<noteq> wanted)"
  using assms
proof (induction cs)
  case (Cons c cs)
  show ?case
  proof (cases "phone_digits (jr_Phone c) = wanted \<and> join_target c \<noteq> []")
    case True
    then have "target = join_target c \<and> (\<forall>x \<in> set cs. phone_digits (jr_Phone x) \<noteq> wanted)"
      using Cons.prems match_loop_kept by simp
    then show ?thesis
      using True by (intro exI [of _ "[]"] exI [of _ c] exI [of _ cs]) simp
  next
    case False
    then have "match_loop wanted cs [] = Some target"
      using Cons.prems(1) by (auto split: if_splits)
    then obtain before d after where "cs = before @ d # after" "phone_digits (jr_Phone d) = wanted"
        "target = join_target d" "\<forall>x \<in> set before. phone_digits (jr_Phone x) = wanted \<longrightarrow> join_target x = []"
        "\<forall>x \<in> set after. phone_digits (jr_Phone x) \<noteq> wanted"
      using Cons.IH Cons.prems(2) by blast
    then show ?thesis
      using False by (intro exI [of _ "c # before"] exI [of _ d] exI [of _ after]) auto
  qed
qed simp

text \<open>
  The applicant's own request, by what the provider has said: it is the match the adapter found, or the last of the
  pending requests with the applicant's number, the only one that can be named.
\<close>

definition own_request :: "FulfillmentRequest \<Rightarrow> WhatsAppAdmin \<Rightarrow> admin_calls \<Rightarrow> string \<Rightarrow> bool" where
  "own_request req wa h target =
     (case wa_MatchPendingJoinRequest wa of
        Some matcher \<Rightarrow> \<exists>c. matcher h (fq_EndpointAlias req) (fq_Phone req) = Inr (Some c) \<and> target = join_target c
      | None \<Rightarrow> \<exists>before c after. wa_PendingJoinRequests wa h (fq_EndpointAlias req) = Inr (before @ c # after) \<and>
          phone_digits (jr_Phone c) = phone_digits (fq_Phone req) \<and> target = join_target c \<and>
          (\<forall>x \<in> set before. phone_digits (jr_Phone x) = phone_digits (fq_Phone req) \<longrightarrow> join_target x = []) \<and>
          (\<forall>x \<in> set after. phone_digits (jr_Phone x) \<noteq> phone_digits (fq_Phone req)))"

lemma found_own:
  assumes "find_target req wa h = (Inr target, h')" "target \<noteq> []"
  shows "own_request req wa h target"
proof (cases "wa_MatchPendingJoinRequest wa")
  case None
  then obtain pending where "wa_PendingJoinRequests wa h (fq_EndpointAlias req) = Inr pending"
      "match_loop (phone_digits (fq_Phone req)) pending [] = Some target"
    using assms(1) by (auto simp: find_target_def Let_def split: sum.splits option.splits)
  then show ?thesis
    using None match_loop_single [OF _ assms(2)] by (auto simp: own_request_def)
next
  case (Some matcher)
  then show ?thesis
    using assms by (auto simp: find_target_def own_request_def Let_def split: sum.splits option.splits)
qed

text \<open>
  C18: A join request is only approved in a group whose joins need approval, and only the applicant's own: the one
  the provider's adapter matched with the applicant's number, or the single pending request with that number that
  can be named. When several match, none is approved.
\<close>

theorem only_own_request_approved:
  assumes "Fulfill req (Some wa) dc h = (result, failed, after)"
    and "CallApproveJoinRequest endpoint target \<in> set (drop (length h) after)"
  shows "endpoint = fq_EndpointAlias req \<and>
    wa_JoinApprovalRequired wa (h @ [CallIsMember endpoint (fq_Phone req)]) endpoint = Inr True \<and>
    own_request req wa (h @ [CallIsMember endpoint (fq_Phone req), CallJoinApprovalRequired endpoint]) target"
proof -
  let ?e = "fq_EndpointAlias req" and ?p = "fq_Phone req"
  have "fq_Transport req = ''whatsapp''"
  proof (rule ccontr)
    assume "fq_Transport req \<noteq> ''whatsapp''"
    then show False
      using assms by (auto simp: Fulfill_def Let_def split: option.splits admin_error.splits if_splits)
  qed
  then have run: "fulfill_whatsapp req wa h = (result, failed, after)"
    using assms(1) by (simp add: Fulfill_def)
  obtain x h2 where found: "find_target req wa (h @ [CallIsMember ?e ?p, CallJoinApprovalRequired ?e]) = (x, h2)"
    by force
  obtain c where h2: "h2 = h @ [CallIsMember ?e ?p, CallJoinApprovalRequired ?e, c]"
      "c \<noteq> CallApproveJoinRequest endpoint target"
    using found by (auto simp: find_target_def Let_def split: option.splits)
  have approval: "wa_JoinApprovalRequired wa (h @ [CallIsMember ?e ?p]) ?e = Inr True"
    and x: "\<exists>t. x = Inr t \<and> t \<noteq> [] \<and> approve_target req wa t h2 = (result, failed, after)"
    using run assms(2) found h2
    by (auto simp: fulfill_whatsapp_def offer_invite_def Let_def split: sum.splits if_splits)
  then obtain t where t: "x = Inr t" "t \<noteq> []" "approve_target req wa t h2 = (result, failed, after)"
    by blast
  then have "endpoint = ?e \<and> target = t"
    using assms(2) h2
    by (auto simp: approve_target_def Let_def split: option.splits sum.splits if_splits)
  then show ?thesis
    using approval found_own found t by auto
qed

subsection \<open>An admission\<close>

definition sample_wa :: WhatsAppAdmin where
  "sample_wa =
     \<lparr>wa_InviteLink = (\<lambda>h endpoint. Inr ''link''),
      wa_IsMember = (\<lambda>h endpoint phone. Inr (CallApproveJoinRequest endpoint ''j2'' \<in> set h)),
      wa_JoinApprovalRequired = (\<lambda>h endpoint. Inr True),
      wa_PendingJoinRequests = (\<lambda>h endpoint. Inr [\<lparr>jr_ID = ''j1'', jr_Phone = ''15550199''\<rparr>, \<lparr>jr_ID = ''j2'', jr_Phone = ''+15550100''\<rparr>]),
      wa_ApproveJoinRequest = (\<lambda>h endpoint target. None), wa_MatchPendingJoinRequest = None\<rparr>"

definition sample_admission :: FulfillmentRequest where
  "sample_admission = \<lparr>fq_Transport = ''whatsapp'', fq_EndpointAlias = ''fam'', fq_RoleID = [], fq_Phone = ''15550100'',
     fq_DiscordUserID = []\<rparr>"

definition sample_calls :: admin_calls where
  "sample_calls = [CallIsMember ''fam'' ''15550100'', CallJoinApprovalRequired ''fam'', CallPendingJoinRequests ''fam'',
     CallApproveJoinRequest ''fam'' ''j2'', CallIsMember ''fam'' ''15550100'']"

lemma sample_phones: "phone_digits ''15550100'' = ''15550100''" "phone_digits ''+15550100'' = ''15550100''"
  "phone_digits ''15550199'' = ''15550199''"
  by code_simp+

lemma sample_admitted:
  "Fulfill sample_admission (Some sample_wa) None [] = (outcome ''succeeded'' [], False, sample_calls)"
  by (simp add: Fulfill_def sample_admission_def sample_wa_def fulfill_whatsapp_def find_target_def approve_target_def
      sample_calls_def sample_phones join_target_def Let_def)

theorem admission_is_confirmed_witness: "confirmed sample_admission (Some sample_wa) None [] sample_calls"
  by (rule admission_is_confirmed [OF sample_admitted]) (simp add: outcome_def)

theorem only_own_request_approved_witness:
  "own_request sample_admission sample_wa [CallIsMember ''fam'' ''15550100'', CallJoinApprovalRequired ''fam''] ''j2''"
proof -
  have "CallApproveJoinRequest ''fam'' ''j2'' \<in> set (drop (length ([] :: admin_calls)) sample_calls)"
    by (simp add: sample_calls_def)
  from only_own_request_approved [OF sample_admitted this] show ?thesis
    by (simp add: sample_admission_def)
qed

subsection \<open>Accepted answers\<close>

text \<open>
  Answers are only accepted if they fit the form: each required field is answered, a text is trimmed and within
  its bound, a selection is one of the options, a required box is checked, and nothing else is answered; and accepted
  answers stand for themselves: with them the check of each field passes again and changes nothing.
\<close>

theorem accepted_answers_fit:
  assumes "validateMembershipAnswers decode c raw = Inr as" and "distinct (map cf_Key (mc_CustomFields c))"
  shows "(\<forall>f. f \<in> set (mc_CustomFields c) \<longrightarrow> answer_fits f (map_of as (cf_Key f)) \<and>
      (\<exists>bs. check_answer f as = Inr bs \<and> map_of bs = map_of as)) \<and>
    fst ` set as \<subseteq> cf_Key ` set (mc_CustomFields c)"
proof -
  obtain bs where "check_answers (mc_CustomFields c) bs = Inr as"
    and keys: "list_all (\<lambda>(k, _). list_ex (\<lambda>f. cf_Key f = k) (mc_CustomFields c)) as"
    using assms(1) by (auto simp: validateMembershipAnswers_def bind_res_Inr split: if_splits)
  then have "\<forall>f \<in> set (mc_CustomFields c). answer_fits f (map_of as (cf_Key f))"
    using check_answers_fit assms(2) by blast
  moreover have "fst ` set as \<subseteq> cf_Key ` set (mc_CustomFields c)"
    using keys by (auto simp: list_all_iff list_ex_iff)
  ultimately show ?thesis
    using fitting_answer_stays by blast
qed

definition sample_form :: MembershipConfig where
  "sample_form = no_form\<lparr>mc_CustomFields :=
     [\<lparr>cf_Key = ''team'', cf_Label = ''Team'', cf_Type = ''select'', cf_Required = True, cf_MaxLength = 0, cf_Position = 0,
       cf_Options = [''red'', ''blue'']\<rparr>,
      \<lparr>cf_Key = ''why'', cf_Label = ''Why'', cf_Type = ''text'', cf_Required = False, cf_MaxLength = 20, cf_Position = 1,
       cf_Options = []\<rparr>]\<rparr>"

definition sample_answers :: answers where
  "sample_answers = [(''team'', JString ''blue''), (''why'', JString '' curious '')]"

theorem accepted_answers_fit_witness:
  "answer_fits (hd (mc_CustomFields sample_form)) (map_of [(''team'', JString ''blue''), (''why'', JString ''curious'')] ''team'')"
proof -
  have texts: "trim_space '' curious '' = ''curious''" "trim_space ''{}'' = ''{}''" by code_simp+
  have "validateMembershipAnswers (\<lambda>_. Some sample_answers) sample_form ''{}''
      = Inr [(''team'', JString ''blue''), (''why'', JString ''curious'')]"
    by (simp add: validateMembershipAnswers_def decoded_answers_def texts sample_answers_def sample_form_def
        check_answer_def)
  from accepted_answers_fit [OF this] show ?thesis
    by (simp add: sample_form_def)
qed

end
