(* ===== verification/MembersInvariant.thy ===== *)
theory MembersInvariant
  imports FulfillSpec
begin

text \<open>
  The tables of applications in every state that requests, the periodic pass, retention and analyses reach.
\<close>

subsection \<open>The invariant\<close>

text \<open>
  What holds of one application: a proven mail address once it left the first state, a decision behind each approval
  and rejection, after which no evidence is referred to, and no admission before an approval.
\<close>

definition request_ok :: "MembershipRequest \<Rightarrow> bool" where
  "request_ok q =
     (mq_Status q \<in> set [''pending_email'', ''pending_admin'', ''approved'', ''rejected''] \<and>
      mq_VerificationState q = (if mq_Status q = ''pending_email'' then ''pending'' else ''verified'') \<and>
      mq_FulfillmentState q \<in> set [''not_started'', ''succeeded'', ''action_pending'', ''failed''] \<and>
      (mq_FulfillmentState q = ''not_started'' \<or> mq_Status q = ''approved'') \<and>
      (mq_Status q = ''approved'' \<or> mq_Status q = ''rejected'' \<longrightarrow>
        mq_DecidedBy q \<noteq> None \<and> mq_EvidenceReference q = []))"

definition admissible :: "MembershipRequest \<Rightarrow> bool" where
  "admissible q = (mq_Status q = ''approved'' \<and> mq_FulfillmentState q \<noteq> ''succeeded'')"

definition admitting :: "MembershipRequest list \<Rightarrow> string \<Rightarrow> bool" where
  "admitting qs rid = list_ex (\<lambda>q. mq_ID q = rid \<and> admissible q) qs"

definition open_token :: "JoinToken \<Rightarrow> bool" where
  "open_token t = (jt_RevokedAt t = None \<and> jt_ConsumedAt t = None)"

definition requests_ok :: "PipelineRow list \<Rightarrow> MembershipRequest list \<Rightarrow> bool" where
  "requests_ok ps qs =
     (keys_ok pl_ID ps \<and> keys_ok mq_ID qs \<and> list_all request_ok qs \<and>
      list_all (\<lambda>q. has_key pl_ID (mq_PipelineID q) ps) qs)"

definition children_ok :: "MembershipRequest list \<Rightarrow> Challenge list \<Rightarrow> AssessmentRow list \<Rightarrow> bool" where
  "children_ok qs cs as =
     (list_all (\<lambda>c. has_key mq_ID (ch_RequestID c) qs) cs \<and> list_all (\<lambda>a. has_key mq_ID (as_RequestID a) qs) as)"

text \<open>Of each request at most one join link is neither revoked nor used, and then the request is still to be admitted.\<close>

definition tokens_ok :: "MembershipRequest list \<Rightarrow> JoinToken list \<Rightarrow> bool" where
  "tokens_ok qs ts =
     (keys_ok jt_TokenHash ts \<and> keys_ok jt_RequestID (filter open_token ts) \<and>
      list_all (\<lambda>t. has_key mq_ID (jt_RequestID t) qs) ts \<and>
      list_all (\<lambda>t. admitting qs (jt_RequestID t)) (filter open_token ts))"

text \<open>At each endpoint a number is claimed by at most one request, which is still to be admitted.\<close>

definition claims_ok :: "MembershipRequest list \<Rightarrow> JoinClaim list \<Rightarrow> bool" where
  "claims_ok qs cs =
     (keys_ok jc_RequestID cs \<and> keys_ok (\<lambda>c. (jc_EndpointAlias c, jc_Phone c)) cs \<and>
      list_all (\<lambda>c. admitting qs (jc_RequestID c)) cs)"

definition members_ok :: "Members \<Rightarrow> bool" where
  "members_ok m =
     (requests_ok (mb_pipelines m) (mb_requests m) \<and>
      children_ok (mb_requests m) (mb_challenges m) (mb_assessments m) \<and>
      tokens_ok (mb_requests m) (mb_tokens m) \<and> claims_ok (mb_requests m) (mb_claims m) \<and>
      keys_ok cq_Reference (mb_cleanup m))"

lemmas members_parts = members_ok_def requests_ok_def children_ok_def tokens_ok_def claims_ok_def

subsection \<open>What keeps it\<close>

lemma ok_other [simp]:
  "members_ok (m\<lparr>mb_accounts := a\<rparr>) = members_ok m" "members_ok (m\<lparr>mb_forms := fs\<rparr>) = members_ok m"
  "members_ok (m\<lparr>mb_fields := xs\<rparr>) = members_ok m" "members_ok (m\<lparr>mb_files := ns\<rparr>) = members_ok m"
  "members_ok (m\<lparr>mb_mails := ms\<rparr>) = members_ok m" "members_ok (m\<lparr>mb_calls := h\<rparr>) = members_ok m"
  "members_ok (m\<lparr>mb_analyses := ys\<rparr>) = members_ok m"
  by (simp_all add: members_ok_def)

lemma ok_fresh: "members_ok m \<Longrightarrow> keys_ok cq_Reference qs \<Longrightarrow> members_ok (m\<lparr>mb_cleanup := qs\<rparr>)"
  by (simp add: members_ok_def)

lemma has_key_update:
  "(\<And>x. key (f x) = key x) \<Longrightarrow> has_key key k (update_where P f rows) = has_key key k rows"
  unfolding has_key_def by (rule list_ex_map) simp

lemma admitting_update:
  assumes "admitting qs rid" "\<And>q. mq_ID (f q) = mq_ID q"
    "\<And>q. q \<in> set qs \<Longrightarrow> P q \<Longrightarrow> mq_ID q = rid \<Longrightarrow> admissible q \<Longrightarrow> admissible (f q)"
  shows "admitting (update_where P f qs) rid"
proof -
  obtain q where "q \<in> set qs" "mq_ID q = rid" "admissible q"
    using assms(1) by (auto simp: admitting_def list_ex_iff)
  then have "(if P q then f q else q) \<in> set (update_where P f qs) \<and>
      mq_ID (if P q then f q else q) = rid \<and> admissible (if P q then f q else q)"
    using assms(2,3) by auto
  then show ?thesis
    unfolding admitting_def list_ex_iff by blast
qed

text \<open>
  Changing requests in place: what is to be admitted stays so unless its links and claims are closed.
\<close>

lemma ok_update_requests:
  assumes "members_ok m"
    and f: "\<And>q. mq_ID (f q) = mq_ID q" "\<And>q. mq_PipelineID (f q) = mq_PipelineID q"
    and fine: "\<And>q. q \<in> set (mb_requests m) \<Longrightarrow> P q \<Longrightarrow> request_ok q \<Longrightarrow> request_ok (f q)"
    and admits: "\<And>q. q \<in> set (mb_requests m) \<Longrightarrow> P q \<Longrightarrow> admissible q \<Longrightarrow> \<not> admissible (f q) \<Longrightarrow>
      (\<forall>t. t \<in> set (mb_tokens m) \<longrightarrow> open_token t \<longrightarrow> jt_RequestID t \<noteq> mq_ID q) \<and>
      (\<forall>c. c \<in> set (mb_claims m) \<longrightarrow> jc_RequestID c \<noteq> mq_ID q)"
  shows "members_ok (m\<lparr>mb_requests := update_where P f (mb_requests m)\<rparr>)"
proof -
  let ?qs = "mb_requests m" and ?us = "update_where P f (mb_requests m)"
  have keys: "has_key mq_ID k ?us = has_key mq_ID k ?qs" for k
    by (rule has_key_update) (simp add: f)
  have "requests_ok (mb_pipelines m) ?us"
  proof -
    have "list_all request_ok ?us"
      using assms(1) fine by (auto simp: members_parts list_all_iff)
    moreover have "list_all (\<lambda>q. has_key pl_ID (mq_PipelineID q) (mb_pipelines m)) ?us"
      using assms(1) f(2) by (auto simp: members_parts list_all_iff)
    ultimately show ?thesis
      using assms(1) by (simp add: members_parts keys_ok_update f)
  qed
  moreover have "tokens_ok ?us (mb_tokens m)"
  proof -
    have "admitting ?us (jt_RequestID t)" if t: "t \<in> set (mb_tokens m)" "open_token t" for t
    proof (rule admitting_update)
      show "admitting ?qs (jt_RequestID t)"
        using assms(1) t by (simp add: members_parts list_all_iff)
      show "admissible (f q)" if "q \<in> set ?qs" "P q" "mq_ID q = jt_RequestID t" "admissible q" for q
        using admits [OF that(1,2,4)] t that(3) by metis
    qed (rule f(1))
    then show ?thesis
      using assms(1) keys by (auto simp del: has_key_iff simp: members_parts list_all_iff)
  qed
  moreover have "claims_ok ?us (mb_claims m)"
  proof -
    have "admitting ?us (jc_RequestID c)" if c: "c \<in> set (mb_claims m)" for c
    proof (rule admitting_update)
      show "admitting ?qs (jc_RequestID c)"
        using assms(1) c by (simp add: members_parts list_all_iff)
      show "admissible (f q)" if "q \<in> set ?qs" "P q" "mq_ID q = jc_RequestID c" "admissible q" for q
        using admits [OF that(1,2,4)] c that(3) by metis
    qed (rule f(1))
    then show ?thesis
      using assms(1) by (simp add: members_parts list_all_iff)
  qed
  ultimately show ?thesis
    using assms(1) keys by (simp del: has_key_iff add: members_ok_def children_ok_def)
qed

lemma ok_delete_requests:
  assumes "members_ok m"
  shows "members_ok (delete_requests P m)"
proof -
  have unique: "mq_ID q \<notin> mq_ID ` set (filter P (mb_requests m))" if "q \<in> set (mb_requests m)" "\<not> P q" for q
    using assms that by (auto simp: members_parts dest: keys_ok_unique)
  have key: "has_key mq_ID k (delete_where P (mb_requests m))"
    if "has_key mq_ID k (mb_requests m)" "k \<notin> mq_ID ` set (filter P (mb_requests m))" for k
    using that by auto
  have admit: "admitting (delete_where P (mb_requests m)) k"
    if "admitting (mb_requests m) k" "k \<notin> mq_ID ` set (filter P (mb_requests m))" for k
    using that by (auto simp: admitting_def list_ex_iff)
  have tokens: "keys_ok jt_RequestID (filter open_token (delete_where Q ts))"
    if "keys_ok jt_RequestID (filter open_token ts)" for Q ts
    using keys_ok_delete [OF that, of Q] by (simp add: delete_where_def conj_commute)
  show ?thesis
    using assms key admit tokens
    by (simp add: delete_requests_def members_parts list_all_iff Let_def)
qed

lemma open_tokens_update:
  assumes "\<And>t. jt_RequestID (f t) = jt_RequestID t" "\<And>t. P t \<Longrightarrow> \<not> open_token (f t)"
  shows "filter open_token (update_where P f ts) = filter open_token (filter (\<lambda>t. \<not> P t) ts)"
  using assms(2) by (induction ts) (auto simp: update_where_def)

text \<open>Closing links.\<close>

lemma ok_close_tokens:
  assumes "members_ok m" "\<And>t. jt_RequestID (f t) = jt_RequestID t" "\<And>t. jt_TokenHash (f t) = jt_TokenHash t"
    "\<And>t. P t \<Longrightarrow> \<not> open_token (f t)"
  shows "members_ok (m\<lparr>mb_tokens := update_where P f (mb_tokens m)\<rparr>)"
proof -
  have left: "filter open_token (update_where P f (mb_tokens m)) = filter open_token (delete_where P (mb_tokens m))"
    unfolding delete_where_def by (rule open_tokens_update) (simp_all add: assms)
  have "keys_ok jt_RequestID (filter open_token (delete_where P (mb_tokens m)))"
    using assms(1) keys_ok_delete [of jt_RequestID "filter open_token (mb_tokens m)" P]
    by (simp add: members_parts delete_where_def conj_commute)
  then show ?thesis
    using assms left
    by (simp add: members_parts keys_ok_update list_all_map) (auto simp: list_all_iff)
qed

lemma ok_revoke_tokens: "members_ok m \<Longrightarrow> members_ok (revoke_tokens P now m)"
  unfolding revoke_tokens_def by (rule ok_close_tokens) (simp_all add: open_token_def)

lemma revoked_rows:
  "t \<in> set (mb_tokens (revoke_tokens P now m)) \<Longrightarrow> open_token t \<Longrightarrow> t \<in> set (mb_tokens m) \<and> \<not> P t"
  by (auto simp: revoke_tokens_def open_token_def)

lemma revoke_fields [simp]:
  "mb_requests (revoke_tokens P now m) = mb_requests m" "mb_pipelines (revoke_tokens P now m) = mb_pipelines m"
  "mb_claims (revoke_tokens P now m) = mb_claims m" "mb_accounts (revoke_tokens P now m) = mb_accounts m"
  "mb_challenges (revoke_tokens P now m) = mb_challenges m" "mb_cleanup (revoke_tokens P now m) = mb_cleanup m"
  by (simp_all add: revoke_tokens_def)

subsection \<open>Files, mails and random values\<close>

lemma ok_draw_id [simp]: "draw_id v m = (x, m') \<Longrightarrow> members_ok m' = members_ok m"
  by (auto simp: draw_id_def split: prod.splits)

lemma ok_draw_token [simp]: "draw_token v m = (x, m') \<Longrightarrow> members_ok m' = members_ok m"
  by (auto simp: draw_token_def split: prod.splits)

lemma draws_only:
  "draw_id v m = (x, m') \<Longrightarrow> \<exists>a. m' = m\<lparr>mb_accounts := a\<rparr>"
  "draw_token v m = (x, m') \<Longrightarrow> \<exists>a. m' = m\<lparr>mb_accounts := a\<rparr>"
  by (auto simp: draw_id_def draw_token_def split: prod.splits)

lemma ok_log [simp]: "members_ok (log_action v p action target m) = members_ok m"
  by (simp add: log_action_def)

lemma ok_remove_file [simp]: "members_ok (remove_file v ref m) = members_ok m"
  by (simp add: remove_file_def)

lemma ok_queue_cleanup: "members_ok m \<Longrightarrow> members_ok (queue_cleanup now ref m)"
proof -
  assume ok: "members_ok m"
  have "keys_ok cq_Reference (mb_cleanup (queue_cleanup now ref m))"
    using ok by (auto simp: queue_cleanup_def members_ok_def upsert_def intro!: keys_ok_update)
  then show ?thesis
    using ok by (simp add: members_ok_def queue_cleanup_def)
qed

lemma ok_drop_cleanup: "members_ok m \<Longrightarrow> members_ok (drop_cleanup ref m)"
  by (simp add: drop_cleanup_def members_ok_def)

lemma ok_cleanup_loop: "members_ok m \<Longrightarrow> members_ok (cleanup_loop v refs m)"
proof (induction refs arbitrary: m)
  case (Cons ref refs)
  have "members_ok (m\<lparr>mb_cleanup := update_where (\<lambda>c. cq_Reference c = ref) (\<lambda>c. c\<lparr>cq_NextAttemptAt := at\<rparr>) (mb_cleanup m)\<rparr>)" for at
    using Cons.prems by (intro ok_fresh) (auto simp: members_ok_def intro!: keys_ok_update)
  then show ?case
    using Cons by (simp add: ok_drop_cleanup)
qed simp

lemma ok_cleanup: "members_ok m \<Longrightarrow> members_ok (cleanupMembershipEvidence v limit m)"
  by (simp add: cleanupMembershipEvidence_def ok_cleanup_loop)

lemma ok_enqueue: "members_ok m \<Longrightarrow> enqueueEvidenceCleanupTx now ref m = Some m' \<Longrightarrow> members_ok m'"
  by (auto simp: enqueueEvidenceCleanupTx_def Let_def ok_queue_cleanup split: if_splits)

lemma ok_store_evidence: "store_evidence v upload m = (x, m') \<Longrightarrow> members_ok m' = members_ok m"
  by (auto simp: store_evidence_def Let_def split: option.splits prod.splits if_splits)

subsection \<open>Pages and forms\<close>

lemma ok_update_pipelines:
  assumes "members_ok m" "\<And>p. pl_ID (f p) = pl_ID p"
  shows "members_ok (m\<lparr>mb_pipelines := update_where P f (mb_pipelines m)\<rparr>)"
  using assms has_key_update [of pl_ID f, OF assms(2)]
  by (simp del: has_key_iff add: members_parts keys_ok_update)

lemma ok_add_pipeline:
  "members_ok m \<Longrightarrow> \<not> has_key pl_ID (pl_ID p) (mb_pipelines m) \<Longrightarrow> members_ok (m\<lparr>mb_pipelines := mb_pipelines m @ [p]\<rparr>)"
  by (auto simp: members_parts list_all_iff)

lemma ok_create_pipeline: "members_ok m \<Longrightarrow> members_ok (snd (handleCreatePipeline v p body m))"
  by (auto simp: handleCreatePipeline_def Let_def split: option.split prod.split
      intro!: ok_add_pipeline)

lemma ok_update_pipeline: "members_ok m \<Longrightarrow> members_ok (snd (handleUpdatePipeline v pid body m))"
  by (auto simp: handleUpdatePipeline_def split: option.split intro!: ok_update_pipelines)

lemma ok_delete_pipeline: "members_ok m \<Longrightarrow> members_ok (snd (handleDeletePipeline pid m))"
proof -
  assume ok: "members_ok m"
  have "members_ok (m\<lparr>mb_pipelines := delete_where (\<lambda>p. pl_ID p = pid) (mb_pipelines m)\<rparr>)"
    if "\<not> list_ex (\<lambda>q. mq_PipelineID q = pid) (mb_requests m)"
    using ok that by (auto simp: members_parts list_all_iff list_ex_iff image_iff) metis
  then show ?thesis
    using ok by (auto simp: handleDeletePipeline_def split: option.split bool.split)
qed

lemma ok_insert_fields: "members_ok m \<Longrightarrow> members_ok (snd (insert_fields v sid i fs m))"
  by (induction v sid i fs m rule: insert_fields.induct) (auto simp: Let_def split: prod.split option.split)

lemma ok_put_form: "members_ok m \<Longrightarrow> members_ok (snd (handlePutMembershipConfig v p sid body m))"
  using ok_insert_fields
  by (auto simp: handlePutMembershipConfig_def Let_def split: option.split prod.split bool.split)
     (metis ok_other(2) ok_other(3) snd_conv)

lemma ok_delete_form: "members_ok m \<Longrightarrow> members_ok (snd (handleDeleteMembershipConfig v sid m))"
  by (simp add: handleDeleteMembershipConfig_def Let_def split: option.split)

subsection \<open>Intake\<close>

lemma admitting_append: "admitting qs rid \<Longrightarrow> admitting (qs @ [q]) rid"
  by (simp add: admitting_def)

lemma ok_add_request:
  assumes "members_ok m" "mq_ID q \<notin> mq_ID ` set (mb_requests m)" "request_ok q"
    "mq_PipelineID q \<in> pl_ID ` set (mb_pipelines m)"
  shows "members_ok (m\<lparr>mb_requests := mb_requests m @ [q]\<rparr>)"
  using assms by (auto simp: members_parts list_all_iff admitting_append)

lemma new_request_ok: "request_ok (new_request v p i as evidence rid)"
  "mq_ID (new_request v p i as evidence rid) = rid"
  "mq_PipelineID (new_request v p i as evidence rid) = pl_ID (pv_Pipeline p)"
  by (simp_all add: new_request_def request_ok_def Let_def)

lemma ok_insert_assessment:
  "members_ok m \<Longrightarrow> as_RequestID a \<in> mq_ID ` set (mb_requests m) \<Longrightarrow> members_ok (insert_assessment a m)"
  by (auto simp: insert_assessment_def members_parts)

lemma insert_assessment_fields [simp]:
  "mb_requests (insert_assessment a m) = mb_requests m" "mb_analyses (insert_assessment a m) = mb_analyses m"
  "mb_challenges (insert_assessment a m) = mb_challenges m" "mb_pipelines (insert_assessment a m) = mb_pipelines m"
  by (simp_all add: insert_assessment_def)

lemma ok_announce:
  "members_ok m \<Longrightarrow> mq_ID q \<in> mq_ID ` set (mb_requests m) \<Longrightarrow> members_ok (announce v p q linkedin challenge m)"
  by (auto simp: announce_def Let_def assessment_def intro!: ok_insert_assessment)

lemma ok_insert_challenge:
  "members_ok m \<Longrightarrow> rid \<in> mq_ID ` set (mb_requests m) \<Longrightarrow> insert_challenge v rid token m = Some m' \<Longrightarrow> members_ok m'"
  by (auto simp: insert_challenge_def members_parts Let_def split: if_splits)

lemma insert_challenge_fields:
  "insert_challenge v rid token m = Some m' \<Longrightarrow> mb_requests m' = mb_requests m \<and> mb_pipelines m' = mb_pipelines m"
  by (auto simp: insert_challenge_def Let_def split: if_splits)

lemma ok_accept:
  assumes "members_ok m" "pl_ID (pv_Pipeline p) \<in> pl_ID ` set (mb_pipelines m)"
  shows "members_ok (snd (accept_application v p i as evidence m))"
proof -
  obtain x m1 where draw: "draw_id v m = (x, m1)" by force
  obtain a where m1: "m1 = m\<lparr>mb_accounts := a\<rparr>"
    using draws_only(1) [OF draw] by blast
  define rid where "rid = (case x of Some r \<Rightarrow> r | None \<Rightarrow> [])"
  define q where "q = new_request v p i as evidence rid"
  define m2 where "m2 = m1\<lparr>mb_requests := mb_requests m1 @ [q]\<rparr>"
  show ?thesis
  proof (cases "\<not> mb_open m1 \<or> has_key mq_ID rid (mb_requests m1)")
    case True
    then show ?thesis
      using assms(1) draw m1 by (auto simp: accept_application_def Let_def rid_def)
  next
    case False
    then have ok2: "members_ok m2"
      unfolding m2_def q_def using assms m1 by (intro ok_add_request) (simp_all add: new_request_ok)
    obtain y m3 where token: "draw_token v m2 = (y, m3)" by force
    obtain b where m3: "m3 = m2\<lparr>mb_accounts := b\<rparr>"
      using draws_only(2) [OF token] by blast
    have ok3: "members_ok m3" and key: "mq_ID q \<in> mq_ID ` set (mb_requests m3)" "mq_ID q = rid"
      using ok2 m3 m2_def by (simp_all add: q_def new_request_ok)
    have "members_ok (announce v p q linkedin challenge m4)" if "insert_challenge v rid t m3 = Some m4" for t m4 linkedin challenge
      using ok_insert_challenge [OF ok3 _ that] insert_challenge_fields [OF that] key by (intro ok_announce) simp_all
    then show ?thesis
      using False draw token ok_delete_requests [OF ok3, of "\<lambda>x. mq_ID x = rid"]
      unfolding accept_application_def Let_def
      by (cases y; cases "insert_challenge v rid (the y) m3")
         (simp_all flip: rid_def q_def m2_def)
  qed
qed

lemma pipelineByToken_found: "pipelineByToken v token m = Some p \<Longrightarrow> pv_Pipeline p \<in> set (mb_pipelines m)"
  by (auto simp: pipelineByToken_def find_Some_iff split: option.splits if_splits)

lemma store_evidence_rows:
  "store_evidence v upload m = (x, m') \<Longrightarrow> mb_pipelines m' = mb_pipelines m \<and> mb_requests m' = mb_requests m \<and>
    mb_challenges m' = mb_challenges m"
  by (auto simp: store_evidence_def remove_file_def Let_def dest!: draws_only
      split: option.splits prod.splits if_splits)

lemma ok_intake: "members_ok m \<Longrightarrow> members_ok (snd (handlePublicIntake v token body m))"
  by (auto simp: handlePublicIntake_def take_application_def Let_def ok_store_evidence store_evidence_rows
      split: option.split sum.split prod.split intro!: ok_accept dest!: pipelineByToken_found)

lemma ok_analysis: "members_ok m \<Longrightarrow> members_ok (finish_analysis v rid state confidence advice m)"
  by (auto simp: finish_analysis_def Let_def members_parts list_all_map)

subsection \<open>Proof of the mail address\<close>

lemma ok_challenges:
  "members_ok m \<Longrightarrow> (\<And>c. ch_RequestID (f c) = ch_RequestID c) \<Longrightarrow>
    members_ok (m\<lparr>mb_challenges := update_where P f (mb_challenges m)\<rparr>)"
  by (simp add: members_parts list_all_map)

lemma ok_verify: "members_ok m \<Longrightarrow> members_ok (snd (handleVerifyEmail v body m))"
proof -
  assume ok: "members_ok m"
  have "members_ok (m\<lparr>mb_challenges := update_where P (\<lambda>c. c\<lparr>ch_VerifiedAt := Some n\<rparr>) (mb_challenges m),
      mb_requests := update_where (\<lambda>q. mq_ID q = rid \<and> mq_Status q = ''pending_email'')
        (\<lambda>q. q\<lparr>mq_Status := ''pending_admin'', mq_VerificationState := ''verified'', mq_UpdatedAt := n\<rparr>)
        (mb_requests m)\<rparr>)" for P n rid
    using ok_update_requests [OF ok_challenges [OF ok], where P = "\<lambda>q. mq_ID q = rid \<and> mq_Status q = ''pending_email''"
        and f = "\<lambda>q. q\<lparr>mq_Status := ''pending_admin'', mq_VerificationState := ''verified'', mq_UpdatedAt := n\<rparr>"]
    by (simp add: request_ok_def admissible_def)
  then show ?thesis
    using ok by (auto simp: handleVerifyEmail_def split: option.split intro!: ok_challenges)
qed

lemma ok_renew: "members_ok m \<Longrightarrow> members_ok (renew_challenge v rid token m)"
  by (simp add: renew_challenge_def Let_def ok_challenges)

lemma ok_resend: "members_ok m \<Longrightarrow> members_ok (snd (handleResendEmail v body m))"
  by (auto simp: handleResendEmail_def Let_def split: option.split prod.split intro!: ok_renew)

subsection \<open>Decisions\<close>

lemma ok_review:
  assumes "members_ok m"
  shows "members_ok (m\<lparr>mb_requests := update_where (\<lambda>q. mq_ID q = rid \<and> mq_Status q = ''pending_admin'')
    (\<lambda>q. q\<lparr>mq_Status := ''pending_admin'', mq_DecidedBy := d, mq_DecidedAt := t, mq_UpdatedAt := n\<rparr>) (mb_requests m)\<rparr>)"
proof (rule ok_update_requests [OF assms])
  fix q :: MembershipRequest
  assume "mq_ID q = rid \<and> mq_Status q = ''pending_admin''" "request_ok q"
  then show "request_ok (q\<lparr>mq_Status := ''pending_admin'', mq_DecidedBy := d, mq_DecidedAt := t, mq_UpdatedAt := n\<rparr>)"
    by (simp add: request_ok_def)
qed (simp_all add: admissible_def)

lemma ok_verdict:
  assumes "members_ok m" "next = ''approved'' \<or> next = ''rejected''"
  shows "members_ok (m\<lparr>mb_requests := update_where (\<lambda>q. mq_ID q = rid \<and> mq_Status q = ''pending_admin'')
    (\<lambda>q. q\<lparr>mq_Status := next, mq_DecidedBy := Some d, mq_DecidedAt := t, mq_UpdatedAt := n,
      mq_EvidenceReference := [], mq_EvidenceType := []\<rparr>) (mb_requests m)\<rparr>)"
proof (rule ok_update_requests [OF assms(1)])
  fix q :: MembershipRequest
  assume "mq_ID q = rid \<and> mq_Status q = ''pending_admin''" "request_ok q"
  then show "request_ok (q\<lparr>mq_Status := next, mq_DecidedBy := Some d, mq_DecidedAt := t, mq_UpdatedAt := n,
      mq_EvidenceReference := [], mq_EvidenceType := []\<rparr>)"
    using assms(2) by (elim disjE) (simp_all add: request_ok_def)
qed (simp_all add: admissible_def)

lemma decide_verdict:
  assumes "decide v p rid next m = Some m'" "next \<noteq> ''pending_admin''"
  shows "\<exists>q k. q \<in> set (mb_requests m) \<and> mq_ID q = rid \<and> mq_Status q = ''pending_admin'' \<and>
    enqueueEvidenceCleanupTx (me_now v) (mq_EvidenceReference q) m = Some k \<and> m' = verdict v p rid next k"
proof -
  obtain q where q: "find (\<lambda>q. mq_ID q = rid \<and> mq_Status q = ''pending_admin'') (mb_requests m) = Some q"
    using assms by (auto simp: decide_def split: option.splits if_splits)
  obtain k where "enqueueEvidenceCleanupTx (me_now v) (mq_EvidenceReference q) m = Some k" "m' = verdict v p rid next k"
    using assms by (auto simp: decide_def q split: option.splits if_splits)
  moreover have "q \<in> set (mb_requests m) \<and> mq_ID q = rid \<and> mq_Status q = ''pending_admin''"
    using q by (auto simp: find_Some_iff)
  ultimately show ?thesis by metis
qed

lemma ok_decide:
  assumes "members_ok m" "decide v p rid next m = Some m'"
    "next = ''approved'' \<or> next = ''rejected'' \<or> next = ''pending_admin''"
  shows "members_ok m'"
proof (cases "next = ''pending_admin''")
  case True
  then show ?thesis
    using assms(1,2) ok_review by (auto simp: decide_def split: option.splits)
next
  case False
  then obtain q :: MembershipRequest and k where k: "enqueueEvidenceCleanupTx (me_now v) (mq_EvidenceReference q) m = Some k"
    and m': "m' = verdict v p rid next k"
    using decide_verdict [OF assms(2) False] by auto
  have "next = ''approved'' \<or> next = ''rejected''"
    using assms(3) False by blast
  from ok_verdict [OF ok_enqueue [OF assms(1) k] this] show ?thesis
    by (cases "next = ''rejected''") (auto simp: m' verdict_def Let_def intro!: ok_revoke_tokens)
qed

lemma next_status_range: "next_status action = Some next \<Longrightarrow> next = ''approved'' \<or> next = ''rejected'' \<or> next = ''pending_admin''"
  by (auto simp: next_status_def split: if_splits)

text \<open>What a decision that went through did.\<close>

lemma decision_made:
  assumes "handleMembershipDecision v p rid body m = (reply, m')"
  shows "m' = m \<or> (\<exists>action next k. body = Some action \<and> next_status action = Some next \<and> mb_open m \<and>
    is_waiting m rid \<and> has_key us_ID (principal_id p) (ac_users (mb_accounts m)) \<and> decide v p rid next m = Some k \<and>
    (m' = log_action v p (''membership_'' @ action) rid k \<or>
     m' = cleanupMembershipEvidence v 25 (log_action v p (''membership_'' @ action) rid k)))"
proof (cases body)
  case None
  then show ?thesis using assms by (simp add: handleMembershipDecision_def)
next
  case (Some action)
  then show ?thesis
    using assms
    by (cases "next_status action"; cases "decide v p rid (the (next_status action)) m")
       (auto simp: handleMembershipDecision_def Let_def split: if_splits)
qed

lemma ok_decision: "members_ok m \<Longrightarrow> members_ok (snd (handleMembershipDecision v p rid body m))"
proof -
  assume ok: "members_ok m"
  have decided: "members_ok (log_action v p action rid k)"
    if "decide v p rid s m = Some k" "next_status a = Some s" for action s a k
    using ok_decide [OF ok that(1) next_status_range [OF that(2)]] by simp
  show ?thesis
    using decision_made [of v p rid body m, OF prod.collapse [symmetric]] decided ok ok_cleanup by metis
qed

lemma ok_delete_request: "members_ok m \<Longrightarrow> members_ok (snd (handleDeleteMembershipRequest v rid m))"
  by (auto simp: handleDeleteMembershipRequest_def split: option.split
      intro!: ok_cleanup ok_delete_requests ok_revoke_tokens dest: ok_enqueue)

end
