(* ===== verification/MembersReach.thy ===== *)
theory MembersReach
  imports MembersInvariant
begin

text \<open>
  Admission, retention and the routes keep the tables of applications sound.
\<close>

subsection \<open>Links\<close>

lemma ok_add_token:
  assumes "members_ok m" "jt_TokenHash t \<notin> jt_TokenHash ` set (mb_tokens m)" "admitting (mb_requests m) (jt_RequestID t)"
    "\<And>x. x \<in> set (mb_tokens m) \<Longrightarrow> open_token x \<Longrightarrow> jt_RequestID x \<noteq> jt_RequestID t"
  shows "members_ok (m\<lparr>mb_tokens := mb_tokens m @ [t]\<rparr>)"
proof -
  have "jt_RequestID t \<in> mq_ID ` set (mb_requests m)"
    using assms(3) unfolding admitting_def list_ex_iff by (metis imageI)
  then show ?thesis
    using assms by (cases "open_token t") (auto simp: members_parts)
qed

lemma issued_state:
  assumes "issueMembershipJoinToken v rid m = (x, m')"
  shows "\<exists>a. m' = m\<lparr>mb_accounts := a\<rparr> \<or>
    (let k = revoke_tokens (\<lambda>t. jt_RequestID t = rid \<and> jt_RevokedAt t = None \<and> jt_ConsumedAt t = None) (me_now v)
        (m\<lparr>mb_accounts := a\<rparr>)
     in \<exists>h. h \<notin> jt_TokenHash ` set (mb_tokens k) \<and> m' = k\<lparr>mb_tokens := mb_tokens k @
       [\<lparr>jt_TokenHash = h, jt_RequestID = rid, jt_ExpiresAt = me_now v + join_token_lifetime,
         jt_CreatedAt = me_now v, jt_RevokedAt = None, jt_ConsumedAt = None\<rparr>]\<rparr>)"
proof -
  obtain y k where draw: "draw_token v m = (y, k)" by force
  obtain a where k: "k = m\<lparr>mb_accounts := a\<rparr>"
    using draws_only(2) [OF draw] by blast
  have hashes: "jt_TokenHash ` set (mb_tokens (revoke_tokens P n k)) = jt_TokenHash ` set (mb_tokens k)" for P n
  proof -
    have "map jt_TokenHash (mb_tokens (revoke_tokens P n k)) = map jt_TokenHash (mb_tokens k)"
      by (simp add: revoke_tokens_def map_update_where)
    then show ?thesis by (metis list.set_map)
  qed
  show ?thesis
    using assms draw hashes
    by (intro exI [of _ a]) (auto simp: issueMembershipJoinToken_def k Let_def split: option.splits if_splits)
qed

lemma ok_issue:
  assumes "members_ok m" "admitting (mb_requests m) rid" "issueMembershipJoinToken v rid m = (x, m')"
  shows "members_ok m' \<and> mb_requests m' = mb_requests m \<and> mb_claims m' = mb_claims m"
proof -
  obtain a where a: "m' = m\<lparr>mb_accounts := a\<rparr> \<or>
    (let k = revoke_tokens (\<lambda>t. jt_RequestID t = rid \<and> jt_RevokedAt t = None \<and> jt_ConsumedAt t = None) (me_now v)
        (m\<lparr>mb_accounts := a\<rparr>)
     in \<exists>h. h \<notin> jt_TokenHash ` set (mb_tokens k) \<and> m' = k\<lparr>mb_tokens := mb_tokens k @
       [\<lparr>jt_TokenHash = h, jt_RequestID = rid, jt_ExpiresAt = me_now v + join_token_lifetime,
         jt_CreatedAt = me_now v, jt_RevokedAt = None, jt_ConsumedAt = None\<rparr>]\<rparr>)"
    using issued_state [OF assms(3)] by blast
  define k where "k = revoke_tokens (\<lambda>t. jt_RequestID t = rid \<and> jt_RevokedAt t = None \<and> jt_ConsumedAt t = None)
    (me_now v) (m\<lparr>mb_accounts := a\<rparr>)"
  have k: "members_ok k" "mb_requests k = mb_requests m" "mb_claims k = mb_claims m"
    using assms(1) by (simp_all add: k_def ok_revoke_tokens)
  have closed: "jt_RequestID t \<noteq> rid" if "t \<in> set (mb_tokens k)" "open_token t" for t
    using revoked_rows [OF that [unfolded k_def]] that(2) by (auto simp: open_token_def)
  show ?thesis
    using a assms(1,2) k closed unfolding k_def [symmetric] Let_def
    by (elim disjE exE conjE) (simp_all add: ok_add_token)
qed

lemma members_ok_invite:
  assumes "members_ok m" "admitting (mb_requests m) rid" "sendMembershipJoinInvite v r host rid email label m = (x, m')"
  shows "members_ok m' \<and> mb_requests m' = mb_requests m \<and> mb_claims m' = mb_claims m"
proof (cases "me_mailer v")
  case False
  then show ?thesis using assms by (simp add: sendMembershipJoinInvite_def)
next
  case True
  obtain y k where issue: "issueMembershipJoinToken v rid m = (y, k)" by force
  have k: "members_ok k" "mb_requests k = mb_requests m" "mb_claims k = mb_claims m"
    using ok_issue [OF assms(1,2) issue] by blast+
  show ?thesis
  proof (cases y)
    case None
    then show ?thesis using assms(3) True issue k by (simp add: sendMembershipJoinInvite_def)
  next
    case (Some token)
    then show ?thesis
      using assms(3) True issue k
      by (cases "membershipJoinURL v r host token")
         (auto simp: sendMembershipJoinInvite_def revoke_token_def Let_def ok_revoke_tokens split: if_split_asm)
  qed
qed

subsection \<open>Admission\<close>

lemma ok_claim:
  assumes "members_ok m" "admitting (mb_requests m) rid" "claim_phone v rid req m = Inr m'"
  shows "members_ok m' \<and> mb_requests m' = mb_requests m"
  using assms
  by (auto simp: claim_phone_def members_parts Let_def find_None_iff split: option.splits if_splits) blast

lemma run_fulfill_state: "run_fulfill v req m = (result, failed, m') \<Longrightarrow> \<exists>h. m' = m\<lparr>mb_calls := h\<rparr>"
  by (auto simp: run_fulfill_def Let_def split: prod.splits)

definition fulfill_state :: "string \<Rightarrow> bool" where
  "fulfill_state s = (s = ''succeeded'' \<or> s = ''action_pending'' \<or> s = ''failed'')"

lemma approve_states: "fulfill_state (fr_State (approve_failure e))"
  by (cases e) (simp_all add: approve_failure_def outcome_def fulfill_state_def)

lemma whatsapp_states: "fulfill_state (fr_State (fst (fulfill_whatsapp req wa h)))"
  using approve_states
  by (auto simp: fulfill_whatsapp_def approve_target_def offer_invite_def outcome_def fulfill_state_def Let_def
      split: sum.split option.split prod.split)

lemma fulfill_states: "fulfill_state (fr_State (fst (Fulfill req wa dc h)))"
  using whatsapp_states
  by (auto simp: Fulfill_def Let_def outcome_def fulfill_state_def split: option.split admin_error.split)

lemma run_fulfill_result: "run_fulfill v req m = (result, failed, m') \<Longrightarrow> fulfill_state (fr_State result)"
  using fulfill_states by (auto simp: run_fulfill_def Let_def split: prod.splits) (metis fst_conv)

lemma ok_settle:
  assumes "members_ok m"
  shows "members_ok (settle_member v rid result m)"
proof -
  let ?ts = "update_where (\<lambda>t. jt_RequestID t = rid \<and> jt_ConsumedAt t = None)
    (\<lambda>t. t\<lparr>jt_ConsumedAt := Some (me_now v)\<rparr>) (mb_tokens m)"
  have "members_ok (m\<lparr>mb_tokens := ?ts\<rparr>)"
    by (rule ok_close_tokens [OF assms]) (simp_all add: open_token_def)
  then have "members_ok (m\<lparr>mb_tokens := ?ts, mb_claims := delete_where (\<lambda>c. jc_RequestID c = rid) (mb_claims m)\<rparr>)"
    by (simp add: members_ok_def claims_ok_def list_all_iff)
  then show ?thesis
    using assms by (simp add: settle_member_def)
qed

lemma update_where_elem: "t \<in> set (update_where P f rows) \<Longrightarrow> \<exists>x \<in> set rows. t = (if P x then f x else x)"
  by (auto simp: update_where_def)

lemma settled_token:
  assumes "fr_State result = ''succeeded''" "t \<in> set (mb_tokens (settle_member v rid result m))" "open_token t"
  shows "jt_RequestID t \<noteq> rid"
proof -
  have "t \<in> set (update_where (\<lambda>t. jt_RequestID t = rid \<and> jt_ConsumedAt t = None)
      (\<lambda>t. t\<lparr>jt_ConsumedAt := Some (me_now v)\<rparr>) (mb_tokens m))"
    using assms(1,2) by (simp only: settle_member_def simp_thms if_False) simp
  from update_where_elem [OF this] obtain x where
    "t = (if jt_RequestID x = rid \<and> jt_ConsumedAt x = None then x\<lparr>jt_ConsumedAt := Some (me_now v)\<rparr> else x)" ..
  then show ?thesis
    using assms(3) by (simp add: open_token_def split: if_split_asm)
qed

lemma settle_rows:
  "mb_requests (settle_member v rid result m) = mb_requests m"
  "fr_State result = ''succeeded'' \<Longrightarrow> c \<in> set (mb_claims (settle_member v rid result m)) \<Longrightarrow> jc_RequestID c \<noteq> rid"
  by (simp_all add: settle_member_def)

definition noted :: "MembersEnv \<Rightarrow> FulfillmentResult \<Rightarrow> MembershipRequest \<Rightarrow> MembershipRequest" where
  "noted v result q = q\<lparr>mq_FulfillmentState := fr_State result, mq_FailureClass := fr_FailureClass result,
     mq_UpdatedAt := me_now v\<rparr>"

lemma noted_ok: "request_ok q \<Longrightarrow> mq_Status q = ''approved'' \<Longrightarrow> fulfill_state (fr_State result) \<Longrightarrow> request_ok (noted v result q)"
  unfolding request_ok_def fulfill_state_def noted_def by (elim disjE) simp_all

lemma noted_fields [simp]: "mq_ID (noted v result q) = mq_ID q" "mq_PipelineID (noted v result q) = mq_PipelineID q"
  "mq_Status (noted v result q) = mq_Status q" "mq_FulfillmentState (noted v result q) = fr_State result"
  by (simp_all add: noted_def)

lemma note_result_noted:
  "note_result v rid result m = (settle_member v rid result m)
    \<lparr>mb_requests := update_where (\<lambda>q. mq_ID q = rid) (noted v result) (mb_requests (settle_member v rid result m))\<rparr>"
  by (simp add: note_result_def update_request_def noted_def [abs_def])

lemma ok_note:
  assumes "members_ok m" "fulfill_state (fr_State result)"
    "\<And>q. q \<in> set (mb_requests m) \<Longrightarrow> mq_ID q = rid \<Longrightarrow> mq_Status q = ''approved''"
  shows "members_ok (note_result v rid result m)"
proof -
  define k where "k = settle_member v rid result m"
  have approved: "mq_Status q = ''approved''" if "q \<in> set (mb_requests k)" "mq_ID q = rid" for q
    using assms(3) that by (simp add: k_def settle_rows)
  have closed: "(\<forall>t. t \<in> set (mb_tokens k) \<longrightarrow> open_token t \<longrightarrow> jt_RequestID t \<noteq> rid) \<and>
      (\<forall>c. c \<in> set (mb_claims k) \<longrightarrow> jc_RequestID c \<noteq> rid)" if "fr_State result = ''succeeded''"
    unfolding k_def using settled_token [OF that] settle_rows(2) [OF that] by blast
  have "members_ok (k\<lparr>mb_requests := update_where (\<lambda>q. mq_ID q = rid) (noted v result) (mb_requests k)\<rparr>)"
  proof (rule ok_update_requests)
    show "members_ok k"
      unfolding k_def by (rule ok_settle [OF assms(1)])
    fix q
    assume q: "q \<in> set (mb_requests k)" "mq_ID q = rid"
    show "request_ok q \<Longrightarrow> request_ok (noted v result q)"
      by (rule noted_ok [OF _ approved [OF q] assms(2)])
    assume "\<not> admissible (noted v result q)"
    then have "fr_State result = ''succeeded''"
      using approved [OF q] by (simp add: admissible_def)
    then show "(\<forall>t. t \<in> set (mb_tokens k) \<longrightarrow> open_token t \<longrightarrow> jt_RequestID t \<noteq> mq_ID q) \<and>
        (\<forall>c. c \<in> set (mb_claims k) \<longrightarrow> jc_RequestID c \<noteq> mq_ID q)"
      unfolding q(2) by (rule closed)
  qed (rule noted_fields)+
  then show ?thesis
    by (simp add: note_result_noted k_def)
qed

lemma request_with_pipeline_found:
  "request_with_pipeline m rid = Some (q, p) \<Longrightarrow> q \<in> set (mb_requests m) \<and> mq_ID q = rid \<and>
    p \<in> set (mb_pipelines m) \<and> pl_ID p = mq_PipelineID q \<and> mb_open m"
  by (auto simp: request_with_pipeline_def request_by_id_def pipeline_by_id_def find_Some_iff split: option.splits if_splits)

lemma found_admitting:
  assumes "members_ok m" "request_with_pipeline m rid = Some (q, p)" "mq_Status q = ''approved''"
  shows "mq_FulfillmentState q \<noteq> ''succeeded'' \<Longrightarrow> admitting (mb_requests m) rid"
    and "x \<in> set (mb_requests m) \<Longrightarrow> mq_ID x = rid \<Longrightarrow> x = q"
proof -
  note found = request_with_pipeline_found [OF assms(2)]
  show "admitting (mb_requests m) rid" if "mq_FulfillmentState q \<noteq> ''succeeded''"
    using found that assms(3) by (auto simp: admitting_def list_ex_iff admissible_def)
  show "x = q" if "x \<in> set (mb_requests m)" "mq_ID x = rid"
    using keys_ok_unique [of mq_ID "mb_requests m" x q] assms(1) found that by (simp add: members_parts)
qed

lemma ok_claimed:
  assumes "members_ok m" "request_with_pipeline m rid = Some (q, p)" "mq_Status q = ''approved''"
    "mq_FulfillmentState q \<noteq> ''succeeded''"
  shows "members_ok (update_request rid (\<lambda>q. q\<lparr>mq_FulfillmentState := ''action_pending'', mq_FailureClass := f,
      mq_UpdatedAt := n\<rparr>) m)"
    and "members_ok (update_request rid (\<lambda>q. q\<lparr>mq_FailureClass := f, mq_UpdatedAt := n\<rparr>) m)"
proof -
  note unique = found_admitting(2) [OF assms(1,2,3)]
  show "members_ok (update_request rid (\<lambda>q. q\<lparr>mq_FulfillmentState := ''action_pending'', mq_FailureClass := f,
      mq_UpdatedAt := n\<rparr>) m)"
    unfolding update_request_def
    by (rule ok_update_requests [OF assms(1)]) (use unique assms(3) in \<open>auto simp: request_ok_def admissible_def\<close>)
  show "members_ok (update_request rid (\<lambda>q. q\<lparr>mq_FailureClass := f, mq_UpdatedAt := n\<rparr>) m)"
    unfolding update_request_def
    by (rule ok_update_requests [OF assms(1)]) (simp_all add: request_ok_def admissible_def)
qed

lemma ok_admission:
  assumes "members_ok m" "admitting (mb_requests m) rid"
    and "\<And>x. x \<in> set (mb_requests m) \<Longrightarrow> mq_ID x = rid \<Longrightarrow> mq_Status x = ''approved''"
    and "claim_phone v rid req m = Inr m1" "run_fulfill v req (m1\<lparr>mb_accounts := a\<rparr>) = (result, failed, m2)"
  shows "members_ok m2 \<and> mb_requests m2 = mb_requests m \<and> fulfill_state (fr_State result)"
  using ok_claim [OF assms(1,2,4)] run_fulfill_state [OF assms(5)] run_fulfill_result [OF assms(5)] by auto

lemma invite_state:
  assumes "invite_result v r host q p result m = (result', m')" "fulfill_state (fr_State result)"
    "members_ok m" "admitting (mb_requests m) (mq_ID q)"
  shows "members_ok m' \<and> mb_requests m' = mb_requests m \<and> fulfill_state (fr_State result')"
  using assms
  by (auto simp: invite_result_def fulfill_state_def outcome_def split: prod.splits if_splits dest: members_ok_invite)

lemma ok_fulfill_request:
  assumes "members_ok m"
  shows "members_ok (snd (handleFulfillMembershipRequest v r host p rid m))"
proof (cases "request_with_pipeline m rid")
  case None
  then show ?thesis using assms by (simp add: handleFulfillMembershipRequest_def)
next
  case (Some qp)
  obtain q pl where found: "request_with_pipeline m rid = Some (q, pl)"
    using Some by (cases qp) simp
  show ?thesis
  proof (cases "mq_Status q = ''approved'' \<and> mq_FulfillmentState q \<noteq> ''succeeded''")
    case False
    then show ?thesis
      using assms found by (auto simp: handleFulfillMembershipRequest_def)
  next
    case True
    then have admits: "admitting (mb_requests m) rid"
      and approved: "\<And>x. x \<in> set (mb_requests m) \<Longrightarrow> mq_ID x = rid \<Longrightarrow> mq_Status x = ''approved''"
      using found_admitting [OF assms found] by auto
    have rid: "mq_ID q = rid"
      using request_with_pipeline_found [OF found] by blast
    show ?thesis
    proof (cases "claim_phone v rid (fulfillment_request q pl) m")
      case (Inl owner)
      then show ?thesis
        using found True ok_claimed(1) [OF assms found]
        by (simp add: handleFulfillMembershipRequest_def Let_def)
    next
      case (Inr m1)
      obtain result failed m2 where run: "run_fulfill v (fulfillment_request q pl)
          (log_action v p ''membership_fulfillment_retry'' rid m1) = (result, failed, m2)"
        using prod_cases3 by blast
      have two: "members_ok m2 \<and> mb_requests m2 = mb_requests m \<and> fulfill_state (fr_State result)"
        using ok_admission [OF assms admits approved Inr run [unfolded log_action_def]] by blast
      obtain result' m3 where inv: "invite_result v r host q pl result m2 = (result', m3)"
        by force
      have "members_ok m3 \<and> mb_requests m3 = mb_requests m \<and> fulfill_state (fr_State result')"
        using invite_state [OF inv] two admits rid by simp
      then have "members_ok (note_result v rid result' m3)"
        using approved by (intro ok_note) auto
      then show ?thesis
        using found True Inr run inv by (simp add: handleFulfillMembershipRequest_def Let_def)
    qed
  qed
qed

lemma ok_reconcile_one:
  assumes "members_ok m"
  shows "members_ok (reconcileMembershipRequest v rid m)"
proof (cases "request_with_pipeline m rid")
  case None
  then show ?thesis using assms by (simp add: reconcileMembershipRequest_def)
next
  case (Some qp)
  obtain q pl where found: "request_with_pipeline m rid = Some (q, pl)"
    using Some by (cases qp) simp
  show ?thesis
  proof (cases "mq_Status q = ''approved'' \<and> mq_FulfillmentState q \<noteq> ''succeeded'' \<and> has_live_token v rid m")
    case False
    then show ?thesis
      using assms found by (auto simp: reconcileMembershipRequest_def)
  next
    case True
    then have admits: "admitting (mb_requests m) rid"
      and approved: "\<And>x. x \<in> set (mb_requests m) \<Longrightarrow> mq_ID x = rid \<Longrightarrow> mq_Status x = ''approved''"
      using found_admitting [OF assms found] by auto
    show ?thesis
    proof (cases "claim_phone v rid (fulfillment_request q pl) m")
      case (Inl owner)
      then show ?thesis
        using found True ok_claimed(2) [OF assms found]
        by (simp add: reconcileMembershipRequest_def Let_def)
    next
      case (Inr m1)
      obtain result failed m2 where run: "run_fulfill v (fulfillment_request q pl) m1 = (result, failed, m2)"
        using prod_cases3 by blast
      have "run_fulfill v (fulfillment_request q pl) (m1\<lparr>mb_accounts := mb_accounts m1\<rparr>) = (result, failed, m2)"
        using run by simp
      then have "members_ok m2 \<and> mb_requests m2 = mb_requests m \<and> fulfill_state (fr_State result)"
        using ok_admission [OF assms admits approved Inr] by blast
      then have "members_ok (note_result v rid result m2)"
        using approved by (intro ok_note) auto
      then show ?thesis
        using found True Inr run by (simp add: reconcileMembershipRequest_def Let_def)
    qed
  qed
qed

lemma ok_reconcile_all: "members_ok m \<Longrightarrow> members_ok (fold (reconcileMembershipRequest v) rids m)"
  by (induction rids arbitrary: m) (simp_all add: ok_reconcile_one)

lemma ok_reconcile: "members_ok m \<Longrightarrow> members_ok (ReconcileMembership v m)"
  by (simp add: ReconcileMembership_def Let_def ok_reconcile_all ok_cleanup)

subsection \<open>Retention\<close>

lemma delete_first_set: "set (delete_first n P xs) \<subseteq> set xs"
  by (induction n P xs rule: delete_first.induct) (auto split: nat.split)

lemma delete_first_keys:
  "keys_ok key (filter R xs) \<Longrightarrow> keys_ok key (filter R (delete_first n P xs))"
proof (induction n P xs rule: delete_first.induct)
  case (2 n P x xs)
  have rest: "keys_ok key (filter R xs)"
    using 2(3) by (auto split: if_split_asm)
  show ?case
  proof (cases "P x")
    case True
    show ?thesis
    proof (cases n)
      case 0
      then show ?thesis using 2(3) True by simp
    next
      case (Suc k)
      then show ?thesis using 2(1) [OF True Suc rest] True by simp
    qed
  next
    case False
    then show ?thesis
      using 2(2) [OF False rest] 2(3) delete_first_set [of n P xs] by (auto split: if_split_asm)
  qed
qed simp

lemma ok_prune_rows:
  assumes "members_ok m"
  shows "members_ok (m\<lparr>mb_challenges := delete_first n P (mb_challenges m), mb_tokens := delete_first k Q (mb_tokens m)\<rparr>)"
proof -
  have hashes: "keys_ok jt_TokenHash (delete_first k Q (mb_tokens m))"
    using assms delete_first_keys [of jt_TokenHash "\<lambda>_. True" "mb_tokens m" k Q] by (simp add: members_parts)
  have ids: "keys_ok jt_RequestID (filter open_token (delete_first k Q (mb_tokens m)))"
    using assms by (intro delete_first_keys) (simp add: members_parts)
  show ?thesis
    using assms hashes ids delete_first_set [of n P "mb_challenges m"] delete_first_set [of k Q "mb_tokens m"]
    unfolding members_parts by (simp add: list_all_iff) blast
qed

lemma ok_queue_all: "members_ok m \<Longrightarrow> members_ok (fold (queue_cleanup now) refs m)"
  by (induction refs arbitrary: m) (simp_all add: ok_queue_cleanup)

lemma ok_orphan_loop: "members_ok m \<Longrightarrow> members_ok (orphan_loop v n entries m)"
  by (induction v n entries m rule: orphan_loop.induct) (simp_all add: ok_drop_cleanup)

lemma ok_retention:
  assumes "members_ok m"
  shows "members_ok (snd (control_PruneRetention v age batch m))"
  using ok_prune_rows [OF assms]
  by (simp add: control_PruneRetention_def pruneOrphanEvidence_def Let_def ok_orphan_loop ok_delete_requests ok_queue_all assms)

subsection \<open>Every step\<close>

lemma ok_join: "members_ok m \<Longrightarrow> members_ok (snd (handleMembershipJoin v token m))"
  by (auto simp: handleMembershipJoin_def Let_def split: option.split prod.split sum.split)

lemma ok_readiness: "members_ok m \<Longrightarrow> members_ok (snd (handleGetMembershipReadiness v cid endpoint m))"
  by (auto simp: handleGetMembershipReadiness_def Let_def split: option.split prod.split)

lemmas ok_handlers = ok_put_form ok_delete_form ok_create_pipeline ok_update_pipeline ok_delete_pipeline ok_intake
  ok_join ok_verify ok_resend ok_delete_request ok_decision ok_fulfill_request ok_readiness

lemma members_ok_dispatch: "members_ok m \<Longrightarrow> members_ok (snd (member_dispatch v r host p q m))"
  by (cases q) (simp_all add: ok_handlers)

text \<open>A request is answered by the check, or by its handler on the same tables.\<close>

lemma serve_cases:
  assumes "members_serve v r host q m = (reply, m')"
  shows "(\<exists>a. m' = m\<lparr>mb_accounts := a\<rparr>) \<or>
    open_path (member_path q) \<and> member_dispatch v r host None q m = (reply, m') \<or>
    (\<exists>p a. \<not> open_path (member_path q) \<and>
      session_principal (me_accounts v) (extractToken r) (mb_accounts m) = (Some p, a) \<and>
      (requiresAdmin (member_method q) (member_path q) \<longrightarrow> pp_Role p = ''admin'') \<and>
      member_dispatch v r host (Some p) q (m\<lparr>mb_accounts := a\<rparr>) = (reply, m'))"
proof (cases "open_path (member_path q)")
  case False
  obtain x a where "session_principal (me_accounts v) (extractToken r) (mb_accounts m) = (x, a)" by force
  then show ?thesis
    using assms False by (cases x) (auto simp: members_serve_def Let_def split: if_split_asm)
qed (use assms in \<open>simp add: members_serve_def\<close>)

lemma ok_serve: "members_ok m \<Longrightarrow> members_serve v r host q m = (reply, m') \<Longrightarrow> members_ok m'"
  using serve_cases [of v r host q m reply m'] members_ok_dispatch [of m v r host None q] members_ok_dispatch [of "m\<lparr>mb_accounts := a\<rparr>" v r host p q for a p]
  by (metis ok_other(1) snd_conv)

lemma ok_step: "member_step m m' \<Longrightarrow> members_ok m \<Longrightarrow> members_ok m'"
proof (induction rule: member_step.induct)
  case (retention v age batch m refs m')
  then show ?case using ok_retention [of m v age batch] by simp
qed (simp_all add: ok_reconcile ok_analysis ok_serve)

lemma ok_run: "member_run m m' \<Longrightarrow> members_ok m \<Longrightarrow> members_ok m'"
  by (induction rule: member_run.induct) (simp_all add: ok_step)

definition fresh_members :: "Accounts \<Rightarrow> Members" where
  "fresh_members a =
     \<lparr>mb_accounts = a, mb_pipelines = [], mb_requests = [], mb_challenges = [], mb_tokens = [], mb_claims = [],
      mb_cleanup = [], mb_assessments = [], mb_forms = [], mb_fields = [], mb_files = [], mb_mails = [], mb_calls = [],
      mb_analyses = []\<rparr>"

lemma fresh_ok: "members_ok (fresh_members a)"
  by (simp add: fresh_members_def members_parts)


end
