(* ===== verification/MembersFrame.thy ===== *)
theory MembersFrame
  imports MembersReach
begin

text \<open>
  What the steps leave alone: the pages, and the ids, states and challenges of applications.
\<close>

subsection \<open>Parts that stay\<close>

lemma frame_simps [simp]:
  "mb_requests (log_action v p a t m) = mb_requests m" "mb_pipelines (log_action v p a t m) = mb_pipelines m"
  "mb_challenges (log_action v p a t m) = mb_challenges m"
  "mb_requests (remove_file v f m) = mb_requests m" "mb_pipelines (remove_file v f m) = mb_pipelines m"
  "mb_challenges (remove_file v f m) = mb_challenges m"
  "mb_requests (queue_cleanup n f m) = mb_requests m" "mb_pipelines (queue_cleanup n f m) = mb_pipelines m"
  "mb_challenges (queue_cleanup n f m) = mb_challenges m"
  "mb_requests (drop_cleanup f m) = mb_requests m" "mb_pipelines (drop_cleanup f m) = mb_pipelines m"
  "mb_challenges (drop_cleanup f m) = mb_challenges m"
  "mb_pipelines (settle_member v rid res m) = mb_pipelines m" "mb_challenges (settle_member v rid res m) = mb_challenges m"
  "mb_pipelines (delete_requests P m) = mb_pipelines m"
  "mb_pipelines (update_request rid g m) = mb_pipelines m" "mb_challenges (update_request rid g m) = mb_challenges m"
  by (simp_all add: log_action_def remove_file_def queue_cleanup_def drop_cleanup_def settle_member_def
      delete_requests_def update_request_def Let_def)

lemma cleanup_loop_frame [simp]:
  "mb_requests (cleanup_loop v refs m) = mb_requests m" "mb_pipelines (cleanup_loop v refs m) = mb_pipelines m"
  "mb_challenges (cleanup_loop v refs m) = mb_challenges m"
  by (induction refs arbitrary: m) simp_all

lemma cleanup_frame [simp]:
  "mb_requests (cleanupMembershipEvidence v n m) = mb_requests m"
  "mb_pipelines (cleanupMembershipEvidence v n m) = mb_pipelines m"
  "mb_challenges (cleanupMembershipEvidence v n m) = mb_challenges m"
  by (simp_all add: cleanupMembershipEvidence_def)

lemma enqueue_frame:
  "enqueueEvidenceCleanupTx n f m = Some m' \<Longrightarrow>
    mb_requests m' = mb_requests m \<and> mb_pipelines m' = mb_pipelines m \<and> mb_challenges m' = mb_challenges m"
  by (auto simp: enqueueEvidenceCleanupTx_def Let_def split: if_split_asm)

lemma insert_fields_frame [simp]:
  "mb_requests (snd (insert_fields v sid i fs m)) = mb_requests m \<and>
   mb_pipelines (snd (insert_fields v sid i fs m)) = mb_pipelines m \<and>
   mb_challenges (snd (insert_fields v sid i fs m)) = mb_challenges m"
  by (induction v sid i fs m rule: insert_fields.induct)
     (auto simp: Let_def split: prod.split option.split dest!: draws_only)

text \<open>Two states with the same pages, applications and challenges.\<close>

definition same_rows :: "Members \<Rightarrow> Members \<Rightarrow> bool" where
  "same_rows m m' =
     (mb_requests m' = mb_requests m \<and> mb_pipelines m' = mb_pipelines m \<and> mb_challenges m' = mb_challenges m)"

lemma same_rows_refl [simp]: "same_rows m m"
  by (simp add: same_rows_def)

lemma same_put_form: "same_rows m (snd (handlePutMembershipConfig v p sid body m))"
proof -
  have "same_rows m k" if "insert_fields v s 0 fs (m\<lparr>mb_forms := a, mb_fields := b\<rparr>) = (t, k)" for s fs a b t k
    using insert_fields_frame [of v s 0 fs "m\<lparr>mb_forms := a, mb_fields := b\<rparr>"] that by (simp add: same_rows_def)
  then show ?thesis
    by (auto simp: handlePutMembershipConfig_def Let_def same_rows_def split: option.split prod.split bool.split)
qed

lemma same_delete_form: "same_rows m (snd (handleDeleteMembershipConfig v sid m))"
  by (simp add: handleDeleteMembershipConfig_def Let_def same_rows_def split: option.split)

lemma same_join: "same_rows m (snd (handleMembershipJoin v token m))"
  by (auto simp: handleMembershipJoin_def Let_def same_rows_def split: option.split prod.split sum.split)

lemma same_readiness: "same_rows m (snd (handleGetMembershipReadiness v cid endpoint m))"
  by (auto simp: handleGetMembershipReadiness_def Let_def same_rows_def split: option.split prod.split)

lemma same_analysis: "same_rows m (finish_analysis v rid state confidence advice m)"
  by (simp add: finish_analysis_def Let_def same_rows_def)

lemma same_claim: "claim_phone v rid req m = Inr m' \<Longrightarrow> same_rows m m'"
  by (auto simp: claim_phone_def Let_def same_rows_def split: option.split_asm if_split_asm)

lemma same_run: "run_fulfill v req m = (res, failed, m') \<Longrightarrow> same_rows m m'"
  by (auto simp: same_rows_def dest!: run_fulfill_state)

lemma same_issue: "issueMembershipJoinToken v rid m = (x, m') \<Longrightarrow> same_rows m m'"
  by (auto simp: issueMembershipJoinToken_def same_rows_def Let_def revoke_tokens_def
      split: option.split_asm prod.split_asm if_split_asm dest!: draws_only)

lemma same_rows_trans: "same_rows a b \<Longrightarrow> same_rows b c \<Longrightarrow> same_rows a c"
  by (simp add: same_rows_def)

lemma same_invite: "sendMembershipJoinInvite v r host rid email label m = (x, m') \<Longrightarrow> same_rows m m'"
proof (cases "me_mailer v")
  case False
  then show "sendMembershipJoinInvite v r host rid email label m = (x, m') \<Longrightarrow> same_rows m m'"
    by (simp add: sendMembershipJoinInvite_def)
next
  case True
  assume sent: "sendMembershipJoinInvite v r host rid email label m = (x, m')"
  obtain y k where issue: "issueMembershipJoinToken v rid m = (y, k)" by force
  have "same_rows k m'"
    using sent True issue
    by (cases y; cases "membershipJoinURL v r host (the y)")
       (auto simp: sendMembershipJoinInvite_def revoke_token_def same_rows_def Let_def split: if_split_asm)
  then show ?thesis
    using same_rows_trans [OF same_issue [OF issue]] by blast
qed

lemma same_invite_result: "invite_result v r host q p res m = (res', m') \<Longrightarrow> same_rows m m'"
  by (auto simp: invite_result_def split: if_split_asm prod.split_asm dest: same_invite)

subsection \<open>Applications keep their state\<close>

definition keeps_status :: "Members \<Rightarrow> Members \<Rightarrow> bool" where
  "keeps_status m m' =
     (\<forall>q'. q' \<in> set (mb_requests m') \<longrightarrow>
        (\<exists>q. q \<in> set (mb_requests m) \<and> mq_ID q = mq_ID q' \<and> mq_Status q = mq_Status q') \<or>
        mq_ID q' \<notin> mq_ID ` set (mb_requests m))"

lemma keeps_same: "mb_requests m' = mb_requests m \<Longrightarrow> keeps_status m m'"
  by (auto simp: keeps_status_def)

lemma keeps_subset: "set (mb_requests m') \<subseteq> set (mb_requests m) \<Longrightarrow> keeps_status m m'"
  by (auto simp: keeps_status_def)

lemma keeps_update:
  assumes "mb_requests m' = update_where P f (mb_requests m)" "\<And>q. mq_ID (f q) = mq_ID q" "\<And>q. mq_Status (f q) = mq_Status q"
  shows "keeps_status m m'"
  unfolding keeps_status_def
proof (intro allI impI disjI1)
  fix q' assume "q' \<in> set (mb_requests m')"
  then obtain q where "q \<in> set (mb_requests m)" "q' = (if P q then f q else q)"
    using update_where_elem assms(1) by metis
  then show "\<exists>q. q \<in> set (mb_requests m) \<and> mq_ID q = mq_ID q' \<and> mq_Status q = mq_Status q'"
    using assms(2,3) by (intro exI [of _ q]) simp
qed

lemma keeps_note: "same_rows m k \<Longrightarrow> keeps_status m (note_result v rid res k)"
  by (rule keeps_update [where f = "noted v res" and P = "\<lambda>q. mq_ID q = rid"])
     (simp_all add: note_result_noted settle_rows same_rows_def)

lemma keeps_claimed:
  "(\<And>q. mq_ID (f q) = mq_ID q) \<Longrightarrow> (\<And>q. mq_Status (f q) = mq_Status q) \<Longrightarrow> keeps_status m (update_request rid f m)"
  by (rule keeps_update [where f = f and P = "\<lambda>q. mq_ID q = rid"]) (simp_all add: update_request_def)

text \<open>An admission ends with a result noted on unchanged rows, or with the claim of another application.\<close>

lemma fulfill_request_ends:
  assumes "handleFulfillMembershipRequest v r host p rid m = (reply, m')"
  shows "m' = m \<or> (\<exists>res k. same_rows m k \<and> m' = note_result v rid res k) \<or>
    m' = update_request rid (\<lambda>q. q\<lparr>mq_FulfillmentState := ''action_pending'', mq_FailureClass := ''identity_claimed'',
      mq_UpdatedAt := me_now v\<rparr>) m"
proof (cases "request_with_pipeline m rid")
  case None
  then show ?thesis using assms by (simp add: handleFulfillMembershipRequest_def)
next
  case (Some qp)
  obtain q pl where found: "request_with_pipeline m rid = Some (q, pl)"
    using Some by (cases qp) simp
  show ?thesis
  proof (cases "claim_phone v rid (fulfillment_request q pl) m")
    case (Inl owner)
    then show ?thesis
      using assms found by (auto simp: handleFulfillMembershipRequest_def Let_def split: if_split_asm)
  next
    case (Inr k)
    obtain res failed k2 where run: "run_fulfill v (fulfillment_request q pl)
        (log_action v p ''membership_fulfillment_retry'' rid k) = (res, failed, k2)"
      using prod_cases3 by blast
    obtain res' k3 where inv: "invite_result v r host q pl res k2 = (res', k3)" by force
    have logged: "same_rows k (log_action v p ''membership_fulfillment_retry'' rid k)"
      by (simp add: same_rows_def)
    have "same_rows m k3"
      using same_claim [OF Inr] logged same_run [OF run] same_invite_result [OF inv] same_rows_trans by blast
    then show ?thesis
      using assms found Inr run inv by (auto simp: handleFulfillMembershipRequest_def Let_def split: if_split_asm)
  qed
qed

lemma reconcile_ends:
  "reconcileMembershipRequest v rid m = m \<or>
   (\<exists>res k. same_rows m k \<and> reconcileMembershipRequest v rid m = note_result v rid res k) \<or>
   reconcileMembershipRequest v rid m =
     update_request rid (\<lambda>q. q\<lparr>mq_FailureClass := ''identity_claimed'', mq_UpdatedAt := me_now v\<rparr>) m"
proof (cases "request_with_pipeline m rid")
  case None
  then show ?thesis by (simp add: reconcileMembershipRequest_def)
next
  case (Some qp)
  obtain q pl where found: "request_with_pipeline m rid = Some (q, pl)"
    using Some by (cases qp) simp
  show ?thesis
  proof (cases "claim_phone v rid (fulfillment_request q pl) m")
    case (Inl owner)
    then show ?thesis
      using found by (simp add: reconcileMembershipRequest_def Let_def)
  next
    case (Inr k)
    obtain res failed k2 where run: "run_fulfill v (fulfillment_request q pl) k = (res, failed, k2)"
      using prod_cases3 by blast
    have "same_rows m k2"
      using same_claim [OF Inr] same_run [OF run] same_rows_trans by blast
    then show ?thesis
      using found Inr run by (auto simp: reconcileMembershipRequest_def Let_def)
  qed
qed

lemma keeps_fulfill: "keeps_status m (snd (handleFulfillMembershipRequest v r host p rid m))"
  using fulfill_request_ends [of v r host p rid m, OF prod.collapse [symmetric]] keeps_note
  by (elim disjE exE conjE) (simp_all add: keeps_same keeps_claimed)

lemma keeps_resend: "mb_requests (snd (handleResendEmail v body m)) = mb_requests m"
  by (auto simp: handleResendEmail_def renew_challenge_def Let_def split: option.split prod.split dest!: draws_only)

lemma accept_rows:
  "\<exists>q. mq_ID q \<notin> mq_ID ` set (mb_requests m) \<and>
    set (mb_requests (snd (accept_application v p i as evidence m))) \<subseteq> insert q (set (mb_requests m)) \<and>
    mb_pipelines (snd (accept_application v p i as evidence m)) = mb_pipelines m \<and>
    (\<forall>c. c \<in> set (mb_challenges (snd (accept_application v p i as evidence m))) \<longrightarrow>
      c \<in> set (mb_challenges m) \<or> ch_RequestID c = mq_ID q) \<or>
   same_rows m (snd (accept_application v p i as evidence m))"
proof -
  obtain x m1 where draw: "draw_id v m = (x, m1)" by force
  obtain a where m1: "m1 = m\<lparr>mb_accounts := a\<rparr>"
    using draws_only(1) [OF draw] by blast
  define rid where "rid = (case x of Some r \<Rightarrow> r | None \<Rightarrow> [])"
  define q where "q = new_request v p i as evidence rid"
  define m2 where "m2 = m1\<lparr>mb_requests := mb_requests m1 @ [q]\<rparr>"
  have rid: "mq_ID q = rid" by (simp add: q_def new_request_ok)
  show ?thesis
  proof (cases "\<not> mb_open m1 \<or> has_key mq_ID rid (mb_requests m1)")
    case True
    then have "same_rows m (snd (accept_application v p i as evidence m))"
      using draw m1 by (auto simp: accept_application_def Let_def rid_def same_rows_def)
    then show ?thesis by blast
  next
    case False
    obtain y m3 where token: "draw_token v m2 = (y, m3)" by force
    obtain b where m3: "m3 = m2\<lparr>mb_accounts := b\<rparr>"
      using draws_only(2) [OF token] by blast
    have new: "mq_ID q \<notin> mq_ID ` set (mb_requests m)"
      using False m1 rid by simp
    have announced: "mb_requests (announce v p q l t k) = mb_requests k \<and> mb_pipelines (announce v p q l t k) = mb_pipelines k \<and>
        mb_challenges (announce v p q l t k) = mb_challenges k" for l t k
      by (simp add: announce_def Let_def)
    have undone: "mb_challenges (delete_requests P k) = delete_where (\<lambda>c. ch_RequestID c \<in> set (map mq_ID (filter P (mb_requests k)))) (mb_challenges k)"
        "mb_requests (delete_requests P k) = delete_where P (mb_requests k)" for P k
      by (simp_all add: delete_requests_def Let_def)
    have "set (mb_requests (snd (accept_application v p i as evidence m))) \<subseteq> insert q (set (mb_requests m)) \<and>
      mb_pipelines (snd (accept_application v p i as evidence m)) = mb_pipelines m \<and>
      (\<forall>c. c \<in> set (mb_challenges (snd (accept_application v p i as evidence m))) \<longrightarrow>
        c \<in> set (mb_challenges m) \<or> ch_RequestID c = mq_ID q)"
    proof (cases "y = None \<or> insert_challenge v rid (the y) m3 = None")
      case True
      then show ?thesis
        using False draw token unfolding accept_application_def Let_def
        by (cases y) (auto simp flip: rid_def q_def m2_def simp: m3 m2_def m1 undone)
    next
      case no: False
      then obtain t m4 where t: "y = Some t" "insert_challenge v rid t m3 = Some m4" by auto
      then obtain c where "mb_challenges m4 = mb_challenges m @ [c]" "ch_RequestID c = rid"
        by (auto simp: insert_challenge_def Let_def m3 m2_def m1 split: if_split_asm)
      then show ?thesis
        using False draw token t insert_challenge_fields [OF t(2)] announced unfolding accept_application_def Let_def
        by (auto simp flip: rid_def q_def m2_def simp: m3 m2_def m1 rid)
    qed
    then show ?thesis using new by blast
  qed
qed

end
