(* ===== verification/MembersSpec.thy ===== *)
theory MembersSpec
  imports MembersFrame
begin

text \<open>
  What applicants and operators can rely on: no approval without a proven mail address and a decision, destinations
  that stay, few guesses, join links for the approved. And what they cannot: a challenge that retention removed.
\<close>

subsection \<open>From state to state\<close>

lemma take_ends:
  assumes "take_application v p i as m = (reply, m')"
  shows "same_rows m m' \<or> (\<exists>e k. same_rows m k \<and> accept_application v p i as e k = (reply, m'))"
proof -
  obtain x k where evidence: "store_evidence v (it_Evidence i) m = (x, k)" by force
  have "same_rows m k"
    using store_evidence_rows [OF evidence] by (simp add: same_rows_def)
  then show ?thesis
    using assms evidence by (cases x) (auto simp: take_application_def split: if_split_asm)
qed

lemma intake_ends:
  assumes "handlePublicIntake v token body m = (reply, m')"
  shows "same_rows m m' \<or> (\<exists>p i as e k. same_rows m k \<and> accept_application v p i as e k = (reply, m'))"
proof -
  have "m' = m \<or> (\<exists>p i as. take_application v p i as m = (reply, m'))"
  proof (cases "pipelineByToken v token m")
    case None
    then show ?thesis using assms by (simp add: handlePublicIntake_def)
  next
    case (Some p)
    show ?thesis
    proof (cases body)
      case None
      then show ?thesis using assms \<open>pipelineByToken v token m = Some p\<close> by (simp add: handlePublicIntake_def)
    next
      case (Some i)
      show ?thesis
        using assms \<open>pipelineByToken v token m = Some p\<close> Some
        by (cases "validateMembershipAnswers (me_decode v) (pv_Form p) (it_Answers i)")
           (auto simp: handlePublicIntake_def Let_def split: if_split_asm)
    qed
  qed
  then show ?thesis
    using take_ends by (metis same_rows_refl)
qed

lemma keeps_accept:
  assumes "same_rows m k"
  shows "keeps_status m (snd (accept_application v p i as e k))"
  unfolding keeps_status_def
proof (intro allI impI)
  fix q'
  assume q': "q' \<in> set (mb_requests (snd (accept_application v p i as e k)))"
  from accept_rows [of k v p i as e] show "(\<exists>q. q \<in> set (mb_requests m) \<and> mq_ID q = mq_ID q' \<and> mq_Status q = mq_Status q') \<or>
      mq_ID q' \<notin> mq_ID ` set (mb_requests m)"
  proof (elim disjE exE conjE)
    fix q
    assume "mq_ID q \<notin> mq_ID ` set (mb_requests k)"
      "set (mb_requests (snd (accept_application v p i as e k))) \<subseteq> insert q (set (mb_requests k))"
    then show ?thesis
      using q' assms by (cases "q' = q") (auto simp: same_rows_def)
  next
    assume "same_rows k (snd (accept_application v p i as e k))"
    then show ?thesis
      using q' assms by (auto simp: same_rows_def)
  qed
qed

lemma keeps_intake: "keeps_status m (snd (handlePublicIntake v token body m))"
  using intake_ends [of v token body m, OF prod.collapse [symmetric]]
proof (elim disjE exE conjE)
  assume "same_rows m (snd (handlePublicIntake v token body m))"
  then show ?thesis by (intro keeps_same) (simp add: same_rows_def)
next
  fix p i as e k
  assume rows: "same_rows m k" and run: "accept_application v p i as e k
    = (fst (handlePublicIntake v token body m), snd (handlePublicIntake v token body m))"
  show ?thesis
    using keeps_accept [OF rows, of v p i as e] unfolding run by simp
qed

fun changes_status :: "member_ask \<Rightarrow> bool" where
  "changes_status (MaVerify body) = True"
| "changes_status (MaDecide rid body) = True"
| "changes_status q = False"

lemma dispatch_keeps:
  assumes "\<not> changes_status q"
  shows "keeps_status m (snd (member_dispatch v r host p q m))"
proof -
  have pages: "mb_requests (snd (handleCreatePipeline v p b m)) = mb_requests m"
    "mb_requests (snd (handleUpdatePipeline v i b' m)) = mb_requests m"
    "mb_requests (snd (handleDeletePipeline i m)) = mb_requests m" for b b' i
    by (auto simp: handleCreatePipeline_def handleUpdatePipeline_def handleDeletePipeline_def Let_def
        split: option.split prod.split bool.split dest!: draws_only)
  have deletion: "set (mb_requests (snd (handleDeleteMembershipRequest v rid m))) \<subseteq> set (mb_requests m)" for rid
    by (auto simp: handleDeleteMembershipRequest_def delete_requests_def Let_def split: option.split dest: enqueue_frame)
  show ?thesis
    using assms pages deletion same_put_form same_delete_form same_join same_readiness keeps_intake keeps_fulfill keeps_resend
    by (cases q) (auto simp: same_rows_def intro: keeps_same keeps_subset [OF deletion])
qed

lemma verified_rows:
  assumes "handleVerifyEmail v body m = (reply, m')" "q \<in> set (mb_requests m)" "q' \<in> set (mb_requests m')"
    "mq_ID q' = mq_ID q" "mq_Status q' \<noteq> mq_Status q" "keys_ok mq_ID (mb_requests m)"
  shows "\<exists>challenge c. body = Some (mq_ID q, challenge) \<and> c \<in> set (mb_challenges m) \<and> ch_RequestID c = mq_ID q \<and>
    ch_VerifiedAt c = None \<and> \<not> challenge_fails v challenge c \<and> mq_Status q = ''pending_email'' \<and> mq_Status q' = ''pending_admin''"
proof -
  have same: "x = q" if "x \<in> set (mb_requests m)" "mq_ID x = mq_ID q" for x
    using keys_ok_unique [OF assms(6) that(1) assms(2) that(2)] .
  then have changed: "mb_requests m' \<noteq> mb_requests m"
    using assms(3,4,5) by metis
  obtain rid challenge where body: "body = Some (rid, challenge)"
    using assms(1) changed by (cases body) (auto simp: handleVerifyEmail_def)
  obtain c where c: "open_challenge m rid = Some c" "\<not> challenge_fails v challenge c"
    and rows: "mb_requests m' = update_where (\<lambda>q. mq_ID q = rid \<and> mq_Status q = ''pending_email'')
      (\<lambda>q. q\<lparr>mq_Status := ''pending_admin'', mq_VerificationState := ''verified'', mq_UpdatedAt := me_now v\<rparr>) (mb_requests m)"
    using assms(1) changed unfolding body
    by (cases "open_challenge m rid") (auto simp: handleVerifyEmail_def split: if_split_asm)
  obtain x where "x \<in> set (mb_requests m)" and x: "q' = (if mq_ID x = rid \<and> mq_Status x = ''pending_email''
      then x\<lparr>mq_Status := ''pending_admin'', mq_VerificationState := ''verified'', mq_UpdatedAt := me_now v\<rparr> else x)"
    using update_where_elem [OF assms(3) [unfolded rows]] by blast
  then have "x = q"
    using same assms(4) by (auto split: if_split_asm)
  then have "mq_ID q = rid" "mq_Status q = ''pending_email''" "mq_Status q' = ''pending_admin''"
    using x assms(5) by (auto split: if_split_asm)
  moreover have "c \<in> set (mb_challenges m) \<and> ch_RequestID c = rid \<and> ch_VerifiedAt c = None"
    using c(1) by (auto simp: open_challenge_def find_Some_iff split: if_split_asm)
  ultimately show ?thesis
    using body c(2) by blast
qed

lemma decided_rows:
  assumes "decide v p rid s m = Some k" "q' \<in> set (mb_requests k)"
  shows "\<exists>x. x \<in> set (mb_requests m) \<and> mq_ID q' = mq_ID x \<and> (q' = x \<or> mq_ID x = rid \<and> mq_Status x = ''pending_admin'' \<and>
    mq_Status q' = s \<and> mq_DecidedBy q' = Some (principal_id p))"
proof -
  let ?P = "\<lambda>q. mq_ID q = rid \<and> mq_Status q = ''pending_admin''"
  obtain f where rows: "mb_requests k = update_where ?P f (mb_requests m)"
    and f: "\<And>q. mq_ID (f q) = mq_ID q \<and> mq_Status (f q) = s \<and> mq_DecidedBy (f q) = Some (principal_id p)"
  proof (cases "s = ''pending_admin''")
    case True
    then show ?thesis
      using assms(1) by (intro that [of "\<lambda>q. q\<lparr>mq_Status := s, mq_DecidedBy := Some (principal_id p),
        mq_DecidedAt := Some (me_now v), mq_UpdatedAt := me_now v\<rparr>"]) (auto simp: decide_def split: option.splits if_split_asm)
  next
    case False
    obtain q :: MembershipRequest and k' where k': "enqueueEvidenceCleanupTx (me_now v) (mq_EvidenceReference q) m = Some k'"
        "k = verdict v p rid s k'"
      using decide_verdict [OF assms(1) False] by blast
    then show ?thesis
      using enqueue_frame [OF k'(1)]
      by (intro that [of "\<lambda>q. q\<lparr>mq_Status := s, mq_DecidedBy := Some (principal_id p), mq_DecidedAt := Some (me_now v),
        mq_UpdatedAt := me_now v, mq_EvidenceReference := [], mq_EvidenceType := []\<rparr>"]) (simp_all add: verdict_def Let_def)
  qed
  obtain x where "x \<in> set (mb_requests m)" "q' = (if ?P x then f x else x)"
    using update_where_elem [OF assms(2) [unfolded rows]] by blast
  then show ?thesis
    using f by (intro exI [of _ x]) auto
qed

lemma decision_rows:
  assumes "handleMembershipDecision v p rid body m = (reply, m')" "q \<in> set (mb_requests m)" "q' \<in> set (mb_requests m')"
    "mq_ID q' = mq_ID q" "mq_Status q' \<noteq> mq_Status q" "keys_ok mq_ID (mb_requests m)"
  shows "\<exists>action. body = Some action \<and> next_status action = Some (mq_Status q') \<and> rid = mq_ID q \<and>
    mq_Status q = ''pending_admin'' \<and> mq_DecidedBy q' = Some (principal_id p) \<and>
    has_key us_ID (principal_id p) (ac_users (mb_accounts m))"
proof -
  have same: "x = q" if "x \<in> set (mb_requests m)" "mq_ID x = mq_ID q" for x
    using keys_ok_unique [OF assms(6) that(1) assms(2) that(2)] .
  have "m' \<noteq> m"
    using same assms(3,4,5) by metis
  then obtain action s k where made: "body = Some action" "next_status action = Some s"
      "has_key us_ID (principal_id p) (ac_users (mb_accounts m))" "decide v p rid s m = Some k" "mb_requests m' = mb_requests k"
    using decision_made [OF assms(1)] by (auto simp del: has_key_iff)
  obtain x where "x \<in> set (mb_requests m)" "mq_ID q' = mq_ID x" "q' = x \<or> mq_ID x = rid \<and> mq_Status x = ''pending_admin'' \<and>
      mq_Status q' = s \<and> mq_DecidedBy q' = Some (principal_id p)"
    using decided_rows [OF made(4)] assms(3) made(5) by metis
  moreover from this have "x = q"
    using same assms(4) by simp
  ultimately show ?thesis
    using assms(5) made(1,2,3) by blast
qed

lemma served_status:
  assumes "members_ok m" "members_serve v r host ask m = (reply, m')"
    and "q \<in> set (mb_requests m)" "q' \<in> set (mb_requests m')" "mq_ID q' = mq_ID q" "mq_Status q' \<noteq> mq_Status q"
  shows "(\<exists>challenge c. ask = MaVerify (Some (mq_ID q, challenge)) \<and> c \<in> set (mb_challenges m) \<and>
      ch_RequestID c = mq_ID q \<and> ch_VerifiedAt c = None \<and> ch_TokenHash c = tokenHash (me_accounts v) challenge \<and>
      me_now v < ch_ExpiresAt c \<and> ch_AttemptCount c < 5 \<and>
      mq_Status q = ''pending_email'' \<and> mq_Status q' = ''pending_admin'') \<or>
    (\<exists>action s u. ask = MaDecide (mq_ID q) (Some action) \<and> next_status action = Some (mq_Status q') \<and>
      mq_Status q = ''pending_admin'' \<and>
      live_session (me_accounts v) (mb_accounts m) (extractToken r) = Some (s, u) \<and> us_Active u \<and>
      me_now v < sn_ExpiresAt s \<and> mq_DecidedBy q' = Some (us_ID u))"
proof -
  have keys: "keys_ok mq_ID (mb_requests m)"
    using assms(1) by (simp add: members_parts)
  have same: "x = q" if "x \<in> set (mb_requests m)" "mq_ID x = mq_ID q" for x
    using keys_ok_unique [OF keys that(1) assms(3) that(2)] .
  have moved: False if "keeps_status m m'"
    using that same assms(3-6) unfolding keeps_status_def by (metis imageI)
  consider (verify) body where "ask = MaVerify body" | (decide) rid body where "ask = MaDecide rid body"
    | (other) "\<not> changes_status ask"
    by (cases ask) auto
  then show ?thesis
  proof cases
    case verify
    then have "handleVerifyEmail v body m = (reply, m')"
      using assms(2) by (simp add: members_serve_def open_path_def)
    then show ?thesis
      using verified_rows [OF _ assms(3-6) keys] verify by (simp add: challenge_fails_def not_le) metis
  next
    case decide
    have closed: "\<not> open_path (member_path ask)"
      by (simp add: decide open_path_def has_prefix_def)
    have not_same: "mb_requests m' \<noteq> mb_requests m"
      using moved keeps_same by blast
    obtain p a where p: "session_principal (me_accounts v) (extractToken r) (mb_accounts m) = (Some p, a)"
        "handleMembershipDecision v (Some p) rid body (m\<lparr>mb_accounts := a\<rparr>) = (reply, m')"
      using serve_cases [OF assms(2)] closed not_same by (auto simp: decide)
    obtain s u where "live_session (me_accounts v) (mb_accounts m) (extractToken r) = Some (s, u)"
        "pp_ID p = us_ID u" "me_now v < sn_ExpiresAt s"
      using p(1) by (auto simp: session_principal_def me_now_def split: if_split_asm option.split_asm prod.split_asm)
    moreover from this have "us_Active u"
      by (auto simp: live_session_def split: option.split_asm if_split_asm)
    moreover have "\<exists>action. body = Some action \<and> next_status action = Some (mq_Status q') \<and> rid = mq_ID q \<and>
        mq_Status q = ''pending_admin'' \<and> mq_DecidedBy q' = Some (pp_ID p)"
      using decision_rows [OF p(2), of q q'] assms(3-6) keys by (simp add: principal_id_def) blast
    ultimately show ?thesis
      unfolding decide by metis
  next
    case other
    have "keeps_status m m'"
      using serve_cases [OF assms(2)]
    proof (elim disjE exE conjE)
      fix a assume "m' = m\<lparr>mb_accounts := a\<rparr>"
      then show ?thesis by (simp add: keeps_same)
    next
      assume "member_dispatch v r host None ask m = (reply, m')"
      then show ?thesis using dispatch_keeps [OF other, of m v r host None] by simp
    next
      fix p a assume "member_dispatch v r host (Some p) ask (m\<lparr>mb_accounts := a\<rparr>) = (reply, m')"
      then show ?thesis
        using dispatch_keeps [OF other, of "m\<lparr>mb_accounts := a\<rparr>" v r host "Some p"] by (simp add: keeps_status_def)
    qed
    then show ?thesis using moved by blast
  qed
qed


subsection \<open>Destinations\<close>

definition destination :: "PipelineRow \<Rightarrow> string \<times> string \<times> string" where
  "destination p = (pl_Transport p, pl_EndpointAlias p, pl_DiscordRoleID p)"

definition keeps_destination :: "string \<Rightarrow> Members \<Rightarrow> Members \<Rightarrow> bool" where
  "keeps_destination pid m m' =
     (\<forall>p. p \<in> set (mb_pipelines m) \<longrightarrow> pl_ID p = pid \<longrightarrow>
        (\<exists>p'. p' \<in> set (mb_pipelines m') \<and> pl_ID p' = pid \<and> destination p' = destination p))"

lemma keeps_pages: "mb_pipelines m' = mb_pipelines m \<Longrightarrow> keeps_destination pid m m'"
  unfolding keeps_destination_def by auto

lemma note_pages: "same_rows m k \<Longrightarrow> mb_pipelines (note_result v rid res k) = mb_pipelines m"
  by (simp add: note_result_def same_rows_def)

lemma fulfill_pages: "mb_pipelines (snd (handleFulfillMembershipRequest v r host p rid m)) = mb_pipelines m"
  using fulfill_request_ends [of v r host p rid m, OF prod.collapse [symmetric]] note_pages
  by (elim disjE exE conjE) simp_all

lemma intake_pages: "mb_pipelines (snd (handlePublicIntake v token body m)) = mb_pipelines m"
  using intake_ends [of v token body m, OF prod.collapse [symmetric]]
proof (elim disjE exE conjE)
  fix p i as e k
  assume rows: "same_rows m k" and run: "accept_application v p i as e k
    = (fst (handlePublicIntake v token body m), snd (handlePublicIntake v token body m))"
  have "mb_pipelines (snd (accept_application v p i as e k)) = mb_pipelines k"
    using accept_rows [of k v p i as e] by (auto simp: same_rows_def)
  then show ?thesis
    using rows unfolding run by (simp add: same_rows_def)
qed (simp add: same_rows_def)

lemma decision_pages: "mb_pipelines (snd (handleMembershipDecision v p rid body m)) = mb_pipelines m \<and>
  mb_challenges (snd (handleMembershipDecision v p rid body m)) = mb_challenges m"
proof -
  have "mb_pipelines k = mb_pipelines m \<and> mb_challenges k = mb_challenges m" if "decide v p rid s m = Some k" for s k
    using that by (auto simp: decide_def verdict_def Let_def split: option.splits if_split_asm dest: enqueue_frame)
  then show ?thesis
    using decision_made [of v p rid body m, OF prod.collapse [symmetric]] by (elim disjE exE conjE) simp_all
qed

lemma verify_pages: "mb_pipelines (snd (handleVerifyEmail v body m)) = mb_pipelines m"
  by (simp add: handleVerifyEmail_def split: option.split prod.split)

lemma resend_pages: "mb_pipelines (snd (handleResendEmail v body m)) = mb_pipelines m"
  by (auto simp: handleResendEmail_def renew_challenge_def Let_def split: option.split prod.split dest!: draws_only)

lemma deletion_pages: "mb_pipelines (snd (handleDeleteMembershipRequest v rid m)) = mb_pipelines m"
  by (auto simp: handleDeleteMembershipRequest_def split: option.split dest: enqueue_frame)

lemma create_page: "keeps_destination pid m (snd (handleCreatePipeline v p body m))"
proof -
  have "set (mb_pipelines m) \<subseteq> set (mb_pipelines (snd (handleCreatePipeline v p body m)))"
    by (auto simp: handleCreatePipeline_def Let_def split: option.split prod.split dest!: draws_only)
  then show ?thesis
    unfolding keeps_destination_def by blast
qed

lemma guarded_page:
  assumes "q \<in> set (mb_requests m)" "outstanding q" "mb_open m"
  shows "pipelineHasOutstandingMembershipRequests m (mq_PipelineID q) = Some True"
  using assms by (auto simp: pipelineHasOutstandingMembershipRequests_def count_where_def filter_empty_conv)

definition edited :: "MembersEnv \<Rightarrow> PipelineInput \<Rightarrow> PipelineRow \<Rightarrow> PipelineRow" where
  "edited v i x = x\<lparr>pl_Label := pi_Label i, pl_Transport := pi_Transport i, pl_EndpointAlias := pi_EndpointAlias i,
     pl_DiscordRoleID := pi_DiscordRoleID i, pl_Enabled := pi_Enabled i, pl_UpdatedAt := me_now v\<rparr>"

lemma update_page_rows:
  "mb_pipelines (snd (handleUpdatePipeline v pid (Some i) m)) =
    (case pipeline_by_id m pid of
       None \<Rightarrow> mb_pipelines m
     | Some p \<Rightarrow>
         if validatePipeline v i \<noteq> None \<or> sql_length (pi_Label i) = 0 \<or> \<not> same_destination p i \<and>
           pipelineHasOutstandingMembershipRequests m pid = Some True
         then mb_pipelines m else update_where (\<lambda>x. pl_ID x = pid) (edited v i) (mb_pipelines m))"
proof (cases "mb_open m")
  case True
  then show ?thesis
    by (simp add: handleUpdatePipeline_def edited_def [abs_def] split: option.split)
next
  case False
  then show ?thesis by (simp add: handleUpdatePipeline_def pipeline_by_id_def)
qed

lemma update_page:
  assumes "q \<in> set (mb_requests m)" "outstanding q" "keys_ok pl_ID (mb_pipelines m)"
  shows "keeps_destination (mq_PipelineID q) m (snd (handleUpdatePipeline v pid body m))"
proof (cases body)
  case None
  then show ?thesis by (simp add: handleUpdatePipeline_def keeps_pages)
next
  case (Some i)
  show ?thesis
  proof (cases "pipeline_by_id m pid")
    case None
    then show ?thesis unfolding Some by (intro keeps_pages) (simp add: update_page_rows)
  next
    case page: (Some p)
    then have p: "p \<in> set (mb_pipelines m)" "pl_ID p = pid" "mb_open m"
      by (auto simp: pipeline_by_id_def find_Some_iff split: if_split_asm)
    show ?thesis
    proof (cases "mb_pipelines (snd (handleUpdatePipeline v pid (Some i) m)) = mb_pipelines m")
      case True
      then show ?thesis unfolding Some by (rule keeps_pages)
    next
      case False
      then have guard: "same_destination p i \<or> pipelineHasOutstandingMembershipRequests m pid \<noteq> Some True"
        and rows: "mb_pipelines (snd (handleUpdatePipeline v pid (Some i) m))
          = update_where (\<lambda>x. pl_ID x = pid) (edited v i) (mb_pipelines m)"
        by (simp_all add: update_page_rows page split: if_split_asm)
      have "\<exists>p'. p' \<in> set (update_where (\<lambda>x. pl_ID x = pid) (edited v i) (mb_pipelines m)) \<and>
          pl_ID p' = mq_PipelineID q \<and> destination p' = destination x"
        if x: "x \<in> set (mb_pipelines m)" "pl_ID x = mq_PipelineID q" for x
      proof (cases "pl_ID x = pid")
        case True
        then have "x = p"
          using keys_ok_unique [OF assms(3) x(1) p(1)] p(2) by simp
        moreover have "same_destination p i"
          using guard guarded_page [OF assms(1,2) p(3)] x(2) True by simp
        ultimately have "pl_ID (edited v i x) = mq_PipelineID q \<and> destination (edited v i x) = destination x"
          using x(2) by (simp add: destination_def same_destination_def edited_def)
        moreover have "edited v i x \<in> set (update_where (\<lambda>x. pl_ID x = pid) (edited v i) (mb_pipelines m))"
          using x(1) True by simp
        ultimately show ?thesis by blast
      next
        case False
        then have "x \<in> set (update_where (\<lambda>x. pl_ID x = pid) (edited v i) (mb_pipelines m))"
          using x(1) by simp
        then show ?thesis using x(2) by blast
      qed
      then show ?thesis
        unfolding Some keeps_destination_def rows by blast
    qed
  qed
qed

lemma delete_page:
  assumes "q \<in> set (mb_requests m)" "outstanding q"
  shows "keeps_destination (mq_PipelineID q) m (snd (handleDeletePipeline pid m))"
  using assms guarded_page [OF assms]
  by (auto simp: handleDeletePipeline_def keeps_destination_def list_ex_iff
      split: option.split bool.split) metis

lemma dispatch_destination:
  assumes "q \<in> set (mb_requests m)" "outstanding q" "keys_ok pl_ID (mb_pipelines m)"
  shows "keeps_destination (mq_PipelineID q) m (snd (member_dispatch v r host p ask m))"
  using create_page update_page [OF assms] delete_page [OF assms(1,2)] same_put_form same_delete_form same_join
    same_readiness intake_pages fulfill_pages decision_pages verify_pages resend_pages deletion_pages
  by (cases ask) (simp_all add: same_rows_def keeps_pages)

lemma reconcile_pages: "mb_pipelines (ReconcileMembership v m) = mb_pipelines m"
proof -
  have one: "mb_pipelines (reconcileMembershipRequest v rid k) = mb_pipelines k" for rid k
    using reconcile_ends [of v rid k] note_pages by (elim disjE exE conjE) simp_all
  have "mb_pipelines (fold (reconcileMembershipRequest v) rids k) = mb_pipelines k" for rids k
    by (induction rids arbitrary: k) (simp_all add: one)
  then show ?thesis
    by (simp add: ReconcileMembership_def Let_def)
qed

lemma orphan_frame [simp]:
  "mb_requests (orphan_loop v n es m) = mb_requests m" "mb_pipelines (orphan_loop v n es m) = mb_pipelines m"
  "mb_challenges (orphan_loop v n es m) = mb_challenges m"
  by (induction v n es m rule: orphan_loop.induct) simp_all

lemma queue_all_frame [simp]:
  "mb_requests (fold (queue_cleanup n) refs m) = mb_requests m"
  "mb_pipelines (fold (queue_cleanup n) refs m) = mb_pipelines m"
  "mb_challenges (fold (queue_cleanup n) refs m) = mb_challenges m"
  by (induction refs arbitrary: m) simp_all

lemma retention_pages: "mb_pipelines (snd (control_PruneRetention v age batch m)) = mb_pipelines m"
  by (simp add: control_PruneRetention_def pruneOrphanEvidence_def Let_def)

text \<open>
  C19: Where an application leads does not change under it: while it waits for its mail, for a decision or for its
  admission, the page it was made on stays, with the same provider, endpoint and role.
\<close>

theorem destination_is_fixed:
  assumes "members_ok m" "member_step m m'" "q \<in> set (mb_requests m)" "outstanding q"
    and "p \<in> set (mb_pipelines m)" "pl_ID p = mq_PipelineID q"
  shows "\<exists>p'. p' \<in> set (mb_pipelines m') \<and> pl_ID p' = mq_PipelineID q \<and> destination p' = destination p"
proof -
  have keys: "keys_ok pl_ID (mb_pipelines m)"
    using assms(1) by (simp add: members_parts)
  note dispatched = dispatch_destination [OF assms(3,4) keys]
  have account: "keeps_destination (mq_PipelineID q) (m\<lparr>mb_accounts := a\<rparr>) k = keeps_destination (mq_PipelineID q) m k" for a k
    by (simp add: keeps_destination_def)
  from assms(2) have "keeps_destination (mq_PipelineID q) m m'"
  proof (cases rule: member_step.cases)
    case (request v r host ask reply)
    from serve_cases [OF request] show ?thesis
    proof (elim disjE exE conjE)
      fix a assume "m' = m\<lparr>mb_accounts := a\<rparr>"
      then show ?thesis by (simp add: keeps_pages)
    next
      assume "member_dispatch v r host None ask m = (reply, m')"
      then show ?thesis using dispatched [of v r host None ask] by simp
    next
      fix x a assume run: "member_dispatch v r host (Some x) ask (m\<lparr>mb_accounts := a\<rparr>) = (reply, m')"
      have "keeps_destination (mq_PipelineID q) (m\<lparr>mb_accounts := a\<rparr>)
          (snd (member_dispatch v r host (Some x) ask (m\<lparr>mb_accounts := a\<rparr>)))"
        using assms(3,4) keys by (intro dispatch_destination) simp_all
      then show ?thesis by (simp add: run account)
    qed
  next
    case (reconcile v)
    then show ?thesis by (simp add: keeps_pages reconcile_pages)
  next
    case (retention v age batch refs)
    then show ?thesis using retention_pages [of v age batch m] by (simp add: keeps_pages)
  next
    case (analysis v rid state confidence advice)
    then show ?thesis using same_analysis by (simp add: keeps_pages same_rows_def)
  qed
  then show ?thesis
    using assms(5,6) unfolding keeps_destination_def by blast
qed

end
