(* ===== verification/MembersLimits.thy ===== *)
theory MembersLimits
  imports MembersSpec
begin

text \<open>
  Guessing a challenge, opening a join link, and what retention does to those who waited too long.
\<close>

subsection \<open>Guesses\<close>

text \<open>A client tries challenges for an application, one after the other.\<close>

fun guess_all :: "string \<Rightarrow> (MembersEnv \<times> string) list \<Rightarrow> Members \<Rightarrow> Members" where
  "guess_all rid [] m = m"
| "guess_all rid ((v, g) # gs) m = guess_all rid gs (snd (handleVerifyEmail v (Some (rid, g)) m))"

definition counted :: "string \<Rightarrow> int \<Rightarrow> Challenge list \<Rightarrow> Challenge list" where
  "counted rid n cs = update_where (\<lambda>c. ch_RequestID c = rid) (\<lambda>c. c\<lparr>ch_AttemptCount := ch_AttemptCount c + n\<rparr>) cs"

lemma counted_counted: "counted rid k (counted rid n cs) = counted rid (n + k) cs"
  by (simp add: counted_def update_where_def add.assoc)

lemma find_counted:
  assumes "find (\<lambda>c. ch_RequestID c = rid \<and> ch_VerifiedAt c = None) cs = Some c"
  shows "find (\<lambda>c. ch_RequestID c = rid \<and> ch_VerifiedAt c = None) (counted rid n cs)
    = Some (c\<lparr>ch_AttemptCount := ch_AttemptCount c + n\<rparr>)"
  using assms by (induction cs) (auto simp: counted_def update_where_def split: if_split_asm)

lemma wrong_guess:
  assumes "open_challenge m rid = Some c" "tokenHash (me_accounts v) g \<noteq> ch_TokenHash c" "rid \<noteq> []" "g \<noteq> []"
  shows "handleVerifyEmail v (Some (rid, g)) m
    = (MError 401 ''invalid verification'', m\<lparr>mb_challenges := counted rid 1 (mb_challenges m)\<rparr>)"
  using assms by (simp add: handleVerifyEmail_def challenge_fails_def counted_def)

lemma wrong_guesses:
  assumes "open_challenge m rid = Some c" "rid \<noteq> []"
    "\<forall>v g. (v, g) \<in> set gs \<longrightarrow> g \<noteq> [] \<and> tokenHash (me_accounts v) g \<noteq> ch_TokenHash c"
  shows "guess_all rid gs m = m\<lparr>mb_challenges := counted rid (int (length gs)) (mb_challenges m)\<rparr>"
  using assms
proof (induction gs arbitrary: m c)
  case Nil
  have "counted rid 0 cs = cs" for cs
    by (induction cs) (simp_all add: counted_def update_where_def)
  then show ?case by simp
next
  case (Cons x gs)
  obtain v g where x: "x = (v, g)" by force
  let ?k = "m\<lparr>mb_challenges := counted rid 1 (mb_challenges m)\<rparr>"
  have "g \<noteq> []" "tokenHash (me_accounts v) g \<noteq> ch_TokenHash c"
    using Cons.prems(3) x by auto
  then have one: "handleVerifyEmail v (Some (rid, g)) m = (MError 401 ''invalid verification'', ?k)"
    using wrong_guess [OF Cons.prems(1)] Cons.prems(2) by blast
  have found: "find (\<lambda>c. ch_RequestID c = rid \<and> ch_VerifiedAt c = None) (mb_challenges m) = Some c" "mb_open m"
    using Cons.prems(1) by (simp_all add: open_challenge_def split: if_split_asm)
  have "open_challenge ?k rid = Some (c\<lparr>ch_AttemptCount := ch_AttemptCount c + 1\<rparr>)"
    using find_counted [OF found(1)] found(2) by (simp add: open_challenge_def mb_open_def)
  from Cons.IH [OF this Cons.prems(2)] have
    "guess_all rid gs ?k = ?k\<lparr>mb_challenges := counted rid (int (length gs)) (mb_challenges ?k)\<rparr>"
    using Cons.prems(3) by simp
  then show ?case
    by (simp add: x one counted_counted)
qed

definition is_refused :: "reply \<Rightarrow> bool" where
  "is_refused reply = (case reply of MError status msg \<Rightarrow> 400 \<le> status | _ \<Rightarrow> False)"

text \<open>
  C20: A challenge that was mailed can be guessed five times: after five wrong answers every further one is refused, the
  right one included, and no application has changed.
\<close>

theorem guesses_are_bounded:
  assumes "open_challenge m rid = Some c" "rid \<noteq> []" "0 \<le> ch_AttemptCount c" "5 \<le> length gs"
    and "\<forall>v g. (v, g) \<in> set gs \<longrightarrow> g \<noteq> [] \<and> tokenHash (me_accounts v) g \<noteq> ch_TokenHash c"
  shows "is_refused (fst (handleVerifyEmail w (Some (rid, code)) (guess_all rid gs m))) \<and>
    mb_requests (snd (handleVerifyEmail w (Some (rid, code)) (guess_all rid gs m))) = mb_requests m"
proof -
  have found: "find (\<lambda>c. ch_RequestID c = rid \<and> ch_VerifiedAt c = None) (mb_challenges m) = Some c" "mb_open m"
    using assms(1) by (simp_all add: open_challenge_def split: if_split_asm)
  have state: "guess_all rid gs m = m\<lparr>mb_challenges := counted rid (int (length gs)) (mb_challenges m)\<rparr>"
    by (rule wrong_guesses [OF assms(1,2,5)])
  have "open_challenge (guess_all rid gs m) rid = Some (c\<lparr>ch_AttemptCount := ch_AttemptCount c + int (length gs)\<rparr>)"
    using find_counted [OF found(1)] found(2) by (simp add: state open_challenge_def mb_open_def)
  then show ?thesis
    using assms(2-4) state by (simp add: handleVerifyEmail_def challenge_fails_def is_refused_def)
qed

subsection \<open>Join links\<close>

text \<open>
  C21: A join link opens for a client only as long as it is live, and it belongs to an application on a WhatsApp page that
  was approved and is still to be admitted; the group then needs approval for joining, as the provider says at that
  moment, and the client gets the link the provider gives.
\<close>

theorem join_link_is_for_approved:
  assumes "members_ok m" "handleMembershipJoin v token m = (MRedirect link, m')"
  shows "\<exists>t q p wa dc. t \<in> set (mb_tokens m) \<and> jt_TokenHash t = tokenHash (me_accounts v) token \<and>
    live_token (me_now v) t \<and> q \<in> set (mb_requests m) \<and> mq_ID q = jt_RequestID t \<and> mq_Status q = ''approved'' \<and>
    mq_FulfillmentState q \<noteq> ''succeeded'' \<and> p \<in> set (mb_pipelines m) \<and> pl_ID p = mq_PipelineID q \<and>
    pl_Transport p = ''whatsapp'' \<and> connection_of v (pl_EndpointAlias p) = Some (Some wa, dc) \<and>
    wa_JoinApprovalRequired wa (mb_calls m) (pl_EndpointAlias p) = Inr True \<and>
    wa_InviteLink wa (mb_calls m @ [CallJoinApprovalRequired (pl_EndpointAlias p)]) (pl_EndpointAlias p) = Inr link"
proof -
  obtain t p where joined: "open_join v token m = Some (t, p)"
    using assms(2) by (cases "open_join v token m") (auto simp: handleMembershipJoin_def)
  then have t: "t \<in> set (mb_tokens m)" "jt_TokenHash t = tokenHash (me_accounts v) token" "live_token (me_now v) t"
    by (auto simp: open_join_def find_Some_iff split: option.split_asm prod.split_asm if_split_asm)
  obtain q where q: "request_with_pipeline m (jt_RequestID t) = Some (q, p)" "mq_Status q = ''approved''"
      "pl_Transport p = ''whatsapp''"
    using joined by (auto simp: open_join_def split: option.split_asm prod.split_asm if_split_asm)
  have "open_token t"
    using t(3) by (simp add: live_token_def open_token_def)
  then have "admitting (mb_requests m) (jt_RequestID t)"
    using assms(1) t(1) by (simp add: members_parts list_all_iff)
  then have "mq_FulfillmentState q \<noteq> ''succeeded''"
    using found_admitting(2) [OF assms(1) q(1,2)] by (auto simp: admitting_def list_ex_iff admissible_def)
  moreover obtain wa dc where "connection_of v (pl_EndpointAlias p) = Some (Some wa, dc)"
    using assms(2) joined by (auto simp: handleMembershipJoin_def Let_def split: option.split_asm prod.split_asm)
  moreover from this have "wa_JoinApprovalRequired wa (mb_calls m) (pl_EndpointAlias p) = Inr True"
      "wa_InviteLink wa (mb_calls m @ [CallJoinApprovalRequired (pl_EndpointAlias p)]) (pl_EndpointAlias p) = Inr link"
    using assms(2) joined by (auto simp: handleMembershipJoin_def Let_def split: if_split_asm sum.split_asm)
  ultimately show ?thesis
    using t q request_with_pipeline_found [OF q(1)] by blast
qed

subsection \<open>Expired challenges\<close>

lemma delete_first_every: "length xs \<le> n \<Longrightarrow> delete_first n P xs = filter (\<lambda>x. \<not> P x) xs"
  by (induction n P xs rule: delete_first.induct) (auto split: nat.split)

text \<open>An application that waits for its mail without a challenge that could be answered.\<close>

definition stranded :: "string \<Rightarrow> Members \<Rightarrow> bool" where
  "stranded rid m =
     ((\<exists>q. q \<in> set (mb_requests m) \<and> mq_ID q = rid \<and> mq_Status q = ''pending_email'') \<and>
      (\<forall>c. c \<in> set (mb_challenges m) \<longrightarrow> ch_RequestID c \<noteq> rid))"

text \<open>Steps during which the application is there.\<close>

inductive lasting :: "string \<Rightarrow> Members \<Rightarrow> Members \<Rightarrow> bool" where
  stay: "lasting rid m m"
| go: "lasting rid m m' \<Longrightarrow> member_step m' m'' \<Longrightarrow> rid \<in> mq_ID ` set (mb_requests m'') \<Longrightarrow> lasting rid m m''"

text \<open>Challenges are made for new applications only.\<close>

definition keeps_challenges :: "Members \<Rightarrow> Members \<Rightarrow> bool" where
  "keeps_challenges m m' =
     (\<forall>c. c \<in> set (mb_challenges m') \<longrightarrow>
        ch_RequestID c \<in> ch_RequestID ` set (mb_challenges m) \<or> ch_RequestID c \<notin> mq_ID ` set (mb_requests m))"

lemma keeps_challenges_same: "mb_challenges m' = mb_challenges m \<Longrightarrow> keeps_challenges m m'"
  by (simp add: keeps_challenges_def)

lemma keeps_challenges_subset:
  "ch_RequestID ` set (mb_challenges m') \<subseteq> ch_RequestID ` set (mb_challenges m) \<Longrightarrow> keeps_challenges m m'"
  unfolding keeps_challenges_def by blast

lemma challenge_ids_update:
  "(\<And>c. ch_RequestID (f c) = ch_RequestID c) \<Longrightarrow> ch_RequestID ` set (update_where P f cs) = ch_RequestID ` set cs"
  by (metis list.set_map map_update_where)

lemma verify_challenges: "keeps_challenges m (snd (handleVerifyEmail v body m))"
proof (rule keeps_challenges_subset)
  show "ch_RequestID ` set (mb_challenges (snd (handleVerifyEmail v body m))) \<subseteq> ch_RequestID ` set (mb_challenges m)"
    by (simp add: handleVerifyEmail_def challenge_ids_update del: set_update_where split: option.split prod.split)
qed

lemma renew_challenges: "ch_RequestID ` set (mb_challenges (renew_challenge v rid token m)) = ch_RequestID ` set (mb_challenges m)"
  by (simp add: renew_challenge_def Let_def challenge_ids_update del: set_update_where)

lemma resend_challenges: "keeps_challenges m (snd (handleResendEmail v body m))"
proof (rule keeps_challenges_subset)
  show "ch_RequestID ` set (mb_challenges (snd (handleResendEmail v body m))) \<subseteq> ch_RequestID ` set (mb_challenges m)"
    by (auto simp: handleResendEmail_def Let_def renew_challenges simp del: image_subset_iff
        split: option.split prod.split dest!: draws_only)
qed

lemma intake_challenges: "keeps_challenges m (snd (handlePublicIntake v token body m))"
  using intake_ends [of v token body m, OF prod.collapse [symmetric]]
proof (elim disjE exE conjE)
  fix p i as e k
  assume rows: "same_rows m k" and run: "accept_application v p i as e k
    = (fst (handlePublicIntake v token body m), snd (handlePublicIntake v token body m))"
  have "keeps_challenges k (snd (accept_application v p i as e k))"
    using accept_rows [of k v p i as e] unfolding keeps_challenges_def same_rows_def by (elim disjE exE conjE) auto
  then show ?thesis
    using rows unfolding run by (simp add: keeps_challenges_def same_rows_def)
qed (simp add: same_rows_def keeps_challenges_same)

lemma fulfill_challenges: "mb_challenges (snd (handleFulfillMembershipRequest v r host p rid m)) = mb_challenges m"
  using fulfill_request_ends [of v r host p rid m, OF prod.collapse [symmetric]]
  by (elim disjE exE conjE) (simp_all add: note_result_def same_rows_def)

lemma dispatch_challenges: "keeps_challenges m (snd (member_dispatch v r host p ask m))"
proof -
  have pages: "mb_challenges (snd (handleCreatePipeline v p b m)) = mb_challenges m"
    "mb_challenges (snd (handleUpdatePipeline v i b' m)) = mb_challenges m"
    "mb_challenges (snd (handleDeletePipeline i m)) = mb_challenges m" for b b' i
    by (auto simp: handleCreatePipeline_def handleUpdatePipeline_def handleDeletePipeline_def Let_def
        split: option.split prod.split bool.split dest!: draws_only)
  have deletion: "ch_RequestID ` set (mb_challenges (snd (handleDeleteMembershipRequest v rid m)))
      \<subseteq> ch_RequestID ` set (mb_challenges m)" for rid
    by (auto simp: handleDeleteMembershipRequest_def delete_requests_def Let_def split: option.split dest: enqueue_frame)
  show ?thesis
    using pages keeps_challenges_subset [OF deletion] same_put_form same_delete_form same_join same_readiness
      intake_challenges verify_challenges resend_challenges fulfill_challenges decision_pages
    by (cases ask) (simp_all add: same_rows_def keeps_challenges_same)
qed

lemma reconcile_challenges: "mb_challenges (ReconcileMembership v m) = mb_challenges m"
proof -
  have one: "mb_challenges (reconcileMembershipRequest v rid k) = mb_challenges k" for rid k
    using reconcile_ends [of v rid k] by (elim disjE exE conjE) (simp_all add: note_result_def same_rows_def)
  have "mb_challenges (fold (reconcileMembershipRequest v) rids k) = mb_challenges k" for rids k
    by (induction rids arbitrary: k) (simp_all add: one)
  then show ?thesis
    by (simp add: ReconcileMembership_def Let_def)
qed

lemma reconcile_status: "keeps_status m (ReconcileMembership v m)"
proof -
  have one: "keeps_status k (reconcileMembershipRequest v rid k)" for rid k
    using reconcile_ends [of v rid k] keeps_note by (elim disjE exE conjE) (simp_all add: keeps_same keeps_claimed)
  have ids: "mq_ID ` set (mb_requests (reconcileMembershipRequest v rid k)) = mq_ID ` set (mb_requests k)" for rid k
  proof -
    have "map mq_ID (mb_requests (reconcileMembershipRequest v rid k)) = map mq_ID (mb_requests k)"
      using reconcile_ends [of v rid k]
      by (elim disjE exE conjE)
         (simp_all add: note_result_noted settle_rows same_rows_def update_request_def map_update_where)
    then show ?thesis by (metis list.set_map)
  qed
  have "keeps_status k (fold (reconcileMembershipRequest v) rids k) \<and>
      mq_ID ` set (mb_requests (fold (reconcileMembershipRequest v) rids k)) = mq_ID ` set (mb_requests k)" for rids k
  proof (induction rids arbitrary: k)
    case (Cons rid rids)
    then show ?case
      using one [of k rid] ids [of rid k] unfolding keeps_status_def by simp metis
  qed (simp add: keeps_status_def, blast)
  moreover have "keeps_status m x = keeps_status (cleanupMembershipEvidence v 25 m) x" for x
    by (simp add: keeps_status_def)
  ultimately show ?thesis
    unfolding ReconcileMembership_def Let_def by (simp add: keeps_same)
qed

lemma retention_rows:
  "set (mb_requests (snd (control_PruneRetention v age batch m))) \<subseteq> set (mb_requests m)"
  "set (mb_challenges (snd (control_PruneRetention v age batch m))) \<subseteq> set (mb_challenges m)"
  by (auto simp: control_PruneRetention_def pruneOrphanEvidence_def delete_requests_def Let_def
      dest!: delete_first_set [THEN subsetD])

lemma stranded_step:
  assumes "members_ok m" "member_step m m'" "stranded rid m" "rid \<in> mq_ID ` set (mb_requests m')"
  shows "stranded rid m'"
proof -
  obtain q where q: "q \<in> set (mb_requests m)" "mq_ID q = rid" "mq_Status q = ''pending_email''"
    and none: "\<And>c. c \<in> set (mb_challenges m) \<Longrightarrow> ch_RequestID c \<noteq> rid"
    using assms(3) by (auto simp: stranded_def)
  obtain q' where q': "q' \<in> set (mb_requests m')" "mq_ID q' = rid"
    using assms(4) by blast
  have keys: "keys_ok mq_ID (mb_requests m)"
    using assms(1) by (simp add: members_parts)
  have kept: "mq_Status q' = ''pending_email''" if "keeps_status m m'"
    using that q q' keys_ok_unique [OF keys] unfolding keeps_status_def by (metis imageI)
  have silent: "ch_RequestID c \<noteq> rid" if "keeps_challenges m m'" "c \<in> set (mb_challenges m')" for c
    using that none q unfolding keeps_challenges_def by (metis imageE imageI)
  from assms(2) have "mq_Status q' = ''pending_email'' \<and> (\<forall>c. c \<in> set (mb_challenges m') \<longrightarrow> ch_RequestID c \<noteq> rid)"
  proof (cases rule: member_step.cases)
    case (request v r host ask reply)
    have "mq_Status q' = ''pending_email''"
      using served_status [OF assms(1) request q(1) q'(1)] q q'(2) none by auto
    moreover have "keeps_challenges m m'"
      using serve_cases [OF request]
    proof (elim disjE exE conjE)
      fix a assume "m' = m\<lparr>mb_accounts := a\<rparr>"
      then show ?thesis by (simp add: keeps_challenges_same)
    next
      assume "member_dispatch v r host None ask m = (reply, m')"
      then show ?thesis using dispatch_challenges [of m v r host None ask] by simp
    next
      fix x a assume "member_dispatch v r host (Some x) ask (m\<lparr>mb_accounts := a\<rparr>) = (reply, m')"
      then show ?thesis
        using dispatch_challenges [of "m\<lparr>mb_accounts := a\<rparr>" v r host "Some x" ask] by (simp add: keeps_challenges_def)
    qed
    ultimately show ?thesis using silent by blast
  next
    case (reconcile v)
    then show ?thesis
      using kept silent reconcile_status keeps_challenges_same [OF reconcile_challenges] by blast
  next
    case (retention v age batch refs)
    have "keeps_status m m'"
      using retention_rows(1) [of v age batch m] retention by (intro keeps_subset) simp
    moreover have "keeps_challenges m m'"
      using retention_rows(2) [of v age batch m] retention by (intro keeps_challenges_subset) auto
    ultimately show ?thesis using kept silent by blast
  next
    case (analysis v x state confidence advice)
    have "keeps_status m m'" "keeps_challenges m m'"
      using same_analysis analysis by (simp_all add: same_rows_def keeps_same keeps_challenges_same)
    then show ?thesis using kept silent by blast
  qed
  then show ?thesis
    using q' unfolding stranded_def by blast
qed

lemma stranded_lasts:
  assumes "lasting rid m m'" "members_ok m" "stranded rid m"
  shows "members_ok m' \<and> stranded rid m'"
  using assms by (induction rule: lasting.induct) (auto intro: ok_step stranded_step)

lemma retention_strands:
  assumes "members_ok m" "q \<in> set (mb_requests m)" "mq_Status q = ''pending_email''" "mb_open m"
    "\<And>c. c \<in> set (mb_challenges m) \<Longrightarrow> ch_RequestID c = mq_ID q \<Longrightarrow> ch_ExpiresAt c < me_now v"
    "length (mb_challenges m) \<le> batch"
  shows "stranded (mq_ID q) (snd (control_PruneRetention v age batch m))"
proof -
  have "mq_ID q \<notin> set (prunable c n m)" for c n
  proof
    assume "mq_ID q \<in> set (prunable c n m)"
    then obtain x where x: "x \<in> set (mb_requests m)" "mq_ID x = mq_ID q" "terminal x"
      by (auto simp: prunable_def dest!: in_set_takeD)
    then have "x = q"
      using keys_ok_unique [of mq_ID "mb_requests m" x q] assms(1,2) by (simp add: members_parts)
    then show False using x(3) assms(3) by (simp add: terminal_def)
  qed
  then have stays: "q \<in> set (mb_requests (snd (control_PruneRetention v age batch m)))"
    using assms(2,4) by (simp add: control_PruneRetention_def pruneOrphanEvidence_def delete_requests_def Let_def)
  define n where "n = (if batch = 0 then 100 else batch)"
  have "length (mb_challenges m) \<le> n"
    using assms(6) by (simp add: n_def)
  then have left: "delete_first n (\<lambda>c. ch_ExpiresAt c < me_now v) (mb_challenges m)
      = filter (\<lambda>c. \<not> ch_ExpiresAt c < me_now v) (mb_challenges m)"
    by (rule delete_first_every)
  have "set (mb_challenges (snd (control_PruneRetention v age batch m)))
      \<subseteq> set (delete_first n (\<lambda>c. ch_ExpiresAt c < me_now v) (mb_challenges m))"
    using assms(4) by (auto simp: control_PruneRetention_def pruneOrphanEvidence_def delete_requests_def Let_def n_def)
  then show ?thesis
    using stays assms(3,5) unfolding stranded_def left by auto
qed

text \<open>
  C22: Retention removes the challenge of an application whose mail was not answered in time, but not the application.
  Whatever happens afterwards, a new mail that is asked for included, as long as the application is there it waits for
  its mail and no challenge proves the address any more.
\<close>

theorem expired_challenge_strands_applicant:
  assumes "members_ok m" "q \<in> set (mb_requests m)" "mq_Status q = ''pending_email''" "mb_open m"
    and "\<And>c. c \<in> set (mb_challenges m) \<Longrightarrow> ch_RequestID c = mq_ID q \<Longrightarrow> ch_ExpiresAt c < me_now v"
    and "length (mb_challenges m) \<le> batch" "lasting (mq_ID q) (snd (control_PruneRetention v age batch m)) m'"
  shows "(\<exists>q'. q' \<in> set (mb_requests m') \<and> mq_ID q' = mq_ID q \<and> mq_Status q' = ''pending_email'') \<and>
    is_refused (fst (handleVerifyEmail w (Some (mq_ID q, code)) m')) \<and>
    snd (handleVerifyEmail w (Some (mq_ID q, code)) m') = m'"
proof -
  have "stranded (mq_ID q) m'"
    using stranded_lasts [OF assms(7) ok_retention [OF assms(1)]] retention_strands [OF assms(1-6)] by blast
  moreover from this have "open_challenge m' (mq_ID q) = None"
    by (auto simp: stranded_def open_challenge_def find_None_iff)
  ultimately show ?thesis
    by (auto simp: stranded_def handleVerifyEmail_def is_refused_def)
qed

end
