(* ===== verification/MembersSample.thy ===== *)
theory MembersSample
  imports MembersLimits AccountsSpec
begin

text \<open>
  A small group with one page and two applications, on which the properties of applications are seen at work.
\<close>

definition sample_env :: "int \<Rightarrow> MembersEnv" where
  "sample_env now =
     \<lparr>me_accounts = sample_accounts_env\<lparr>ae_now := now\<rparr>,
      me_bindings = Some [\<lparr>br_Alias = ''fam'', br_Transport = ''whatsapp'', br_ConnectionID = ''c1'', br_RemoteID = ''1@g.us'',
        br_SyncSetID = Some ''s1'', br_AnonymizeIncoming = False, br_AnonymizeOutgoing = False\<rparr>],
      me_sets = Some [''s1''], me_connection = (\<lambda>_. Some (Some sample_wa, None)), me_parse_address = Some,
      me_parse_url = (\<lambda>_. None), me_hostname = ul_Host, me_url_text = ul_Path, me_path_escape = (\<lambda>s. s),
      me_decode = (\<lambda>_. None), me_detect = (\<lambda>_. ''image/png''), me_mailer = True, me_mail_sent = (\<lambda>_ _. True),
      me_analyzer = False, me_evidence_dir = False, me_dir_made = False, me_created = (\<lambda>_. False),
      me_written = (\<lambda>_. False), me_readable = (\<lambda>_. False), me_removed = (\<lambda>_. False), me_base_url = []\<rparr>"

definition sample_page :: PipelineRow where
  "sample_page =
     \<lparr>pl_ID = ''p1'', pl_PublicToken = ''join-us'', pl_Label = ''Family'', pl_Transport = ''whatsapp'',
      pl_EndpointAlias = ''fam'', pl_DiscordRoleID = [], pl_Enabled = True, pl_CreatorID = ''u1'', pl_CreatedAt = 0,
      pl_UpdatedAt = 0\<rparr>"

definition sample_waiting :: MembershipRequest where
  "sample_waiting =
     \<lparr>mq_ID = ''r1'', mq_PipelineID = ''p1'', mq_Status = ''pending_email'', mq_WorkEmail = ''eve@work.example'',
      mq_WhatsAppPhone = ''15550100'', mq_DiscordUserID = [], mq_LinkedInURL = [], mq_EvidenceReference = [],
      mq_EvidenceType = [], mq_VerificationState = ''pending'', mq_FulfillmentState = ''not_started'',
      mq_FailureClass = [], mq_DecidedBy = None, mq_DecidedAt = None, mq_Definition = no_form, mq_Answers = [],
      mq_CreatedAt = 0, mq_UpdatedAt = 0\<rparr>"

definition sample_approved :: MembershipRequest where
  "sample_approved = sample_waiting\<lparr>mq_ID := ''r2'', mq_Status := ''approved'', mq_VerificationState := ''verified'',
     mq_FulfillmentState := ''action_pending'', mq_DecidedBy := Some ''u1''\<rparr>"

definition sample_challenge :: Challenge where
  "sample_challenge =
     \<lparr>ch_ID = ''r1-email'', ch_RequestID = ''r1'', ch_TokenHash = EncodeToString64 ''code'', ch_ExpiresAt = 100,
      ch_AttemptCount = 0, ch_VerifiedAt = None\<rparr>"

definition sample_members :: Members where
  "sample_members = (fresh_members sample_accounts)\<lparr>mb_pipelines := [sample_page],
     mb_requests := [sample_waiting, sample_approved], mb_challenges := [sample_challenge],
     mb_tokens := [\<lparr>jt_TokenHash = EncodeToString64 ''link'', jt_RequestID = ''r2'', jt_ExpiresAt = 100, jt_CreatedAt = 0,
       jt_RevokedAt = None, jt_ConsumedAt = None\<rparr>]\<rparr>"

lemmas sample_rows = sample_members_def fresh_members_def sample_page_def sample_waiting_def sample_approved_def
  sample_challenge_def

lemma sample_sound: "members_ok sample_members"
  by (simp add: sample_rows members_parts request_ok_def open_token_def admitting_def admissible_def)

lemma sample_members_open: "mb_open sample_members"
  by (simp add: mb_open_def sample_members_def fresh_members_def sample_accounts_def fresh_accounts_def)

lemma sample_hash: "tokenHash (me_accounts (sample_env now)) w = EncodeToString64 w" "me_now (sample_env now) = now"
  by (simp_all add: tokenHash_def sample_env_def sample_accounts_env_def me_now_def)

subsection \<open>The properties at work\<close>


definition sample_verified :: MembershipRequest where
  "sample_verified = sample_waiting\<lparr>mq_Status := ''pending_admin'', mq_VerificationState := ''verified'', mq_UpdatedAt := 50\<rparr>"

lemma sample_found: "open_challenge sample_members ''r1'' = Some sample_challenge"
  using sample_members_open by (simp add: open_challenge_def sample_rows)

definition sample_proven :: Members where
  "sample_proven = snd (handleVerifyEmail (sample_env 50) (Some (''r1'', ''code'')) sample_members)"

lemma sample_proof:
  "members_serve (sample_env 50) (sample_request AskMe) [] (MaVerify (Some (''r1'', ''code''))) sample_members
    = (MStatus 200 ''verified'', sample_proven)"
  "sample_verified \<in> set (mb_requests sample_proven)"
proof -
  have answer: "handleVerifyEmail (sample_env 50) (Some (''r1'', ''code'')) sample_members
    = (MStatus 200 ''verified'', sample_members\<lparr>mb_challenges :=
         update_where (\<lambda>c. ch_RequestID c = ''r1'' \<and> ch_VerifiedAt c = None) (\<lambda>c. c\<lparr>ch_VerifiedAt := Some 50\<rparr>) (mb_challenges sample_members),
       mb_requests := update_where (\<lambda>q. mq_ID q = ''r1'' \<and> mq_Status q = ''pending_email'')
         (\<lambda>q. q\<lparr>mq_Status := ''pending_admin'', mq_VerificationState := ''verified'', mq_UpdatedAt := 50\<rparr>)
         (mb_requests sample_members)\<rparr>)"
    by (simp add: handleVerifyEmail_def sample_found challenge_fails_def sample_hash sample_challenge_def)
  show "members_serve (sample_env 50) (sample_request AskMe) [] (MaVerify (Some (''r1'', ''code''))) sample_members
    = (MStatus 200 ''verified'', sample_proven)"
    by (simp add: members_serve_def open_path_def sample_proven_def answer)
  show "sample_verified \<in> set (mb_requests sample_proven)"
    unfolding sample_proven_def answer snd_conv
    by (simp add: sample_verified_def sample_members_def update_where_def) (simp add: sample_waiting_def)
qed

lemma sample_ids: "mq_ID sample_verified = mq_ID sample_waiting" "mq_Status sample_verified \<noteq> mq_Status sample_waiting"
  "sample_waiting \<in> set (mb_requests sample_members)"
  by (simp_all add: sample_verified_def sample_waiting_def sample_members_def)


theorem destination_is_fixed_witness:
  "\<exists>p'. p' \<in> set (mb_pipelines sample_proven) \<and> pl_ID p' = ''p1'' \<and> destination p' = (''whatsapp'', ''fam'', [])"
proof -
  have "outstanding sample_waiting" "sample_page \<in> set (mb_pipelines sample_members)"
    "pl_ID sample_page = mq_PipelineID sample_waiting"
    by (simp_all add: outstanding_def sample_rows)
  from destination_is_fixed [OF sample_sound request [OF sample_proof(1)] sample_ids(3) this] show ?thesis
    by (simp add: destination_def sample_waiting_def sample_page_def)
qed

definition sample_guesses :: "(MembersEnv \<times> string) list" where
  "sample_guesses = replicate 5 (sample_env 50, ''guess'')"

theorem guesses_are_bounded_witness:
  "is_refused (fst (handleVerifyEmail (sample_env 50) (Some (''r1'', ''code'')) (guess_all ''r1'' sample_guesses sample_members)))"
proof -
  have "EncodeToString64 ''guess'' \<noteq> EncodeToString64 ''code''" by code_simp
  then have "\<forall>v g. (v, g) \<in> set sample_guesses \<longrightarrow> g \<noteq> [] \<and> tokenHash (me_accounts v) g \<noteq> ch_TokenHash sample_challenge"
    by (simp add: sample_guesses_def sample_hash sample_challenge_def)
  from guesses_are_bounded [OF sample_found _ _ _ this] show ?thesis
    by (simp add: sample_challenge_def sample_guesses_def)
qed

theorem join_link_is_for_approved_witness:
  "\<exists>t q. t \<in> set (mb_tokens sample_members) \<and> q \<in> set (mb_requests sample_members) \<and> mq_ID q = jt_RequestID t \<and>
    mq_Status q = ''approved''"
proof -
  have with_page: "request_with_pipeline sample_members ''r2'' = Some (sample_approved, sample_page)"
    using sample_members_open by (simp add: request_with_pipeline_def request_by_id_def pipeline_by_id_def sample_rows)
  have joined: "open_join (sample_env 50) ''link'' sample_members = Some (hd (mb_tokens sample_members), sample_page)"
    using sample_members_open with_page
    by (simp add: open_join_def sample_hash live_token_def sample_members_def fresh_members_def)
       (simp add: sample_rows)
  have "connection_of (sample_env 50) ''fam'' = Some (Some sample_wa, None)"
    by (simp add: connection_of_def binding_of_def sample_env_def)
  then have "handleMembershipJoin (sample_env 50) ''link'' sample_members
    = (MRedirect ''link'', sample_members\<lparr>mb_calls := [CallJoinApprovalRequired ''fam'', CallInviteLink ''fam'']\<rparr>)"
    by (simp add: handleMembershipJoin_def joined sample_wa_def Let_def) (simp add: sample_rows)
  from join_link_is_for_approved [OF sample_sound this] show ?thesis by blast
qed

theorem expired_challenge_strands_applicant_witness:
  "is_refused (fst (handleVerifyEmail (sample_env 300) (Some (''r1'', ''code''))
    (snd (control_PruneRetention (sample_env 200) 1000 100 sample_members))))"
proof -
  let ?m = "snd (control_PruneRetention (sample_env 200) 1000 100 sample_members)"
  have waiting: "mq_Status sample_waiting = ''pending_email''" "mq_ID sample_waiting = ''r1''"
    by (simp_all add: sample_waiting_def)
  have few: "length (mb_challenges sample_members) \<le> 100"
    by (simp add: sample_members_def)
  have expired: "ch_ExpiresAt c < me_now (sample_env 200)" if "c \<in> set (mb_challenges sample_members)" for c
    using that by (simp add: sample_hash sample_members_def sample_challenge_def)
  have "lasting (mq_ID sample_waiting) ?m ?m" by (rule stay)
  from expired_challenge_strands_applicant [OF sample_sound sample_ids(3) waiting(1) sample_members_open expired few this]
  show ?thesis unfolding waiting by blast
qed

end
