(* ===== verification/MemberFormSpec.thy ===== *)
theory MemberFormSpec
  imports MembersSample
begin

text \<open>
  Storing an application form and reading it back, and which accepted forms the table takes.
\<close>

subsection \<open>Reading back\<close>

fun stored_fields :: "int \<Rightarrow> MembershipCustomField list \<Rightarrow> MembershipCustomField list" where
  "stored_fields i [] = []"
| "stored_fields i (f # fs) = stored_field i f # stored_fields (i + 1) fs"

text \<open>What a form is stored as: texts trimmed, defaults filled in, fields by their places.\<close>

definition normal_form :: "MembershipConfig \<Rightarrow> MembershipConfig" where
  "normal_form c =
     \<lparr>mc_ApplicantInstructions = trim_space (mc_ApplicantInstructions c),
      mc_EvidenceInstructions = trim_space (mc_EvidenceInstructions c),
      mc_ReviewerGuidance = trim_space (mc_ReviewerGuidance c), mc_EvidenceRequired = mc_EvidenceRequired c,
      mc_CustomFields = sort_key cf_Position (stored_fields 0 (mc_CustomFields c))\<rparr>"

lemma inserted_fields:
  assumes "insert_fields v sid i fs m = (True, m')"
  shows "mb_forms m' = mb_forms m \<and> mb_open m' = mb_open m \<and>
    (\<exists>rows. mb_fields m' = mb_fields m @ rows \<and> map fl_Field rows = stored_fields i fs \<and>
      list_all (\<lambda>r. fl_SyncSetID r = sid) rows)"
  using assms
proof (induction fs arbitrary: i m)
  case (Cons f fs)
  obtain x k where draw: "draw_id v m = (x, k)" by force
  obtain a where k: "k = m\<lparr>mb_accounts := a\<rparr>" "ac_open a = ac_open (mb_accounts m)"
    using draw by (auto simp: draw_id_def randomOpaqueID_def Accounts.draw_def split: prod.split_asm)
  obtain fid where fid: "x = Some fid"
    using Cons.prems draw by (cases x) simp_all
  let ?r = "\<lparr>fl_ID = fid, fl_SyncSetID = sid, fl_Field = stored_field i f\<rparr>"
  have "insert_fields v sid (i + 1) fs (k\<lparr>mb_fields := mb_fields k @ [?r]\<rparr>) = (True, m')"
    using Cons.prems draw fid by (simp add: Let_def split: if_split_asm)
  from Cons.IH [OF this] obtain rows where "mb_forms m' = mb_forms m" "mb_open m' = mb_open m"
    "mb_fields m' = mb_fields m @ ?r # rows" "map fl_Field rows = stored_fields (i + 1) fs"
    "list_all (\<lambda>r. fl_SyncSetID r = sid) rows"
    using k by (auto simp: mb_open_def)
  then show ?case by (intro conjI exI [of _ "?r # rows"]) simp_all
qed simp

lemma find_upserted:
  "\<exists>t. find (\<lambda>f. fm_SyncSetID f = fm_SyncSetID r) (upsert fm_SyncSetID update_form r rows) = Some (r\<lparr>fm_CreatedAt := t\<rparr>)"
proof (cases "has_key fm_SyncSetID (fm_SyncSetID r) rows")
  case True
  have "\<exists>t. find (\<lambda>f. fm_SyncSetID f = fm_SyncSetID r) (update_where (\<lambda>x. fm_SyncSetID x = fm_SyncSetID r) (update_form r) rows)
      = Some (r\<lparr>fm_CreatedAt := t\<rparr>)"
    using True by (induction rows) (auto simp: update_where_def update_form_def)
  then show ?thesis using True by (auto simp: upsert_def)
next
  case False
  have "find (\<lambda>f. fm_SyncSetID f = fm_SyncSetID r) (rows @ [r]) = Some r"
    using False by (induction rows) auto
  then show ?thesis using False by (intro exI [of _ "fm_CreatedAt r"]) (simp add: upsert_def)
qed

lemma find_form:
  "\<exists>f. find (\<lambda>f. fm_SyncSetID f = sid) (upsert fm_SyncSetID update_form (form_row v p sid c) rows) = Some f \<and>
    fm_ApplicantInstructions f = trim_space (mc_ApplicantInstructions c) \<and>
    fm_EvidenceInstructions f = trim_space (mc_EvidenceInstructions c) \<and>
    fm_ReviewerGuidance f = trim_space (mc_ReviewerGuidance c) \<and> fm_EvidenceRequired f = mc_EvidenceRequired c"
  using find_upserted [of "form_row v p sid c" rows] by (auto simp: form_row_def)


subsection \<open>What the table takes\<close>

lemma sql_length_le: "sql_length s \<le> length s"
  unfolding sql_length_def by (meson le_trans length_filter_le length_takeWhile_le)

lemma checked_field:
  assumes "check_field seen positions i (trim_field f) = None" "0 \<le> i"
  shows "match_field_key (trim_space (cf_Key f))" "length (trim_space (cf_Label f)) \<le> 120"
    "field_type_ok (trim_space (cf_Type f))" "0 \<le> cf_MaxLength f" "cf_MaxLength f \<le> 2000"
    "0 \<le> cf_Position f" "cf_Position f \<le> 31" "i \<le> 31"
  using assms by (auto simp: check_field_def trim_field_def split: if_split_asm option.split_asm)

lemma checked_fields:
  assumes "check_custom_fields seen positions i fs = None" "0 \<le> i" "k < length fs"
  shows "\<exists>seen positions. check_field seen positions (i + int k) (trim_field (fs ! k)) = None"
  using assms
proof (induction fs arbitrary: seen positions i k)
  case (Cons f fs)
  then have one: "check_field seen positions i (trim_field f) = None"
    and rest: "check_custom_fields (cf_Key (trim_field f) # seen) (field_position i f # positions) (i + 1) fs = None"
    by (auto split: option.split_asm)
  show ?case
  proof (cases k)
    case 0
    then show ?thesis using one by auto
  next
    case (Suc j)
    then show ?thesis
      using Cons.IH [OF rest, of j] Cons.prems(2,3) by (simp add: algebra_simps)
  qed
qed simp

lemma key_fits:
  assumes "match_field_key s"
  shows "glob_field_key s \<longleftrightarrow> 2 \<le> length s" "sql_length s \<le> 32"
proof -
  show "glob_field_key s \<longleftrightarrow> 2 \<le> length s"
    using assms by (auto simp: match_field_key_def glob_field_key_def split: list.splits)
  have "length s \<le> 32"
    using assms by (auto simp: match_field_key_def split: list.splits)
  then show "sql_length s \<le> 32"
    using sql_length_le [of s] by linarith
qed

text \<open>
  Of the fields of an accepted form the table takes exactly those whose key has at least two characters and whose
  label does not begin with a NUL; a key of one letter passes the check and fails the constraint, and the whole form is
  refused with it.
\<close>

theorem accepted_field_fits_table:
  assumes "validateMembershipConfig c = None" "i < length (mc_CustomFields c)"
  shows "field_row_ok (stored_field (int i) (mc_CustomFields c ! i)) \<longleftrightarrow>
    2 \<le> length (trim_space (cf_Key (mc_CustomFields c ! i))) \<and>
    1 \<le> sql_length (trim_space (cf_Label (mc_CustomFields c ! i)))"
proof -
  let ?f = "mc_CustomFields c ! i"
  have "check_custom_fields [] [] 0 (mc_CustomFields c) = None"
    using assms(1) by (simp add: validateMembershipConfig_def split: if_split_asm)
  from checked_fields [OF this _ assms(2)] obtain seen positions where
    one: "check_field seen positions (int i) (trim_field ?f) = None" by auto
  note facts = checked_field [OF one]
  have "sql_length (trim_space (cf_Label ?f)) \<le> 120"
    using facts(2) sql_length_le [of "trim_space (cf_Label ?f)"] by simp
  then show ?thesis
    using facts key_fits [of "trim_space (cf_Key ?f)"]
    by (auto simp: field_row_ok_def stored_field_def trim_field_def field_position_def)
qed

subsection \<open>A form\<close>

definition short_key_form :: MembershipConfig where
  "short_key_form = no_form\<lparr>mc_CustomFields := [\<lparr>cf_Key = ''t'', cf_Label = ''Team'', cf_Type = ''text'',
     cf_Required = True, cf_MaxLength = 20, cf_Position = 0, cf_Options = []\<rparr>]\<rparr>"

lemma sample_texts: "trim_space ''t'' = ''t''" "trim_space ''Team'' = ''Team''" "trim_space ''text'' = ''text''"
  "trim_space [] = []" "trim_space ''s1'' = ''s1''" "is_alpha CHR ''t''"
  by code_simp+

theorem accepted_field_fits_table_witness:
  "validateMembershipConfig short_key_form = None \<and> \<not> field_row_ok (stored_field 0 (mc_CustomFields short_key_form ! 0))"
proof -
  have valid: "validateMembershipConfig short_key_form = None"
    by (simp add: validateMembershipConfig_def short_key_form_def no_form_def check_field_def trim_field_def sample_texts
        match_field_key_def field_type_ok_def)
  from accepted_field_fits_table [OF this, of 0] show ?thesis
    using valid by (simp add: short_key_form_def sample_texts)
qed


end
