(* ===== verification/Console.thy ===== *)
theory Console
  imports ConfigSave MembersAdmission
begin

text \<open>
  The routes of the console that change what is routed (\<^verbatim>\<open>internal/api/endpoints.go\<close>, \<^verbatim>\<open>sync_sets.go\<close>,
  \<^verbatim>\<open>sync_set_settings.go\<close>, \<^verbatim>\<open>config.go\<close>): endpoints, sync sets and the switch for private messages, over the routing
  tables of \<^verbatim>\<open>sync.db\<close> and the connections and pages of \<^verbatim>\<open>control.db\<close>. One request is one step. The server has both
  databases and a runtime, so the checks for a missing one are left out; names quoted in messages are left out as well.
\<close>

subsection \<open>State\<close>

text \<open>\<open>controlstore.Connection\<close>: a missing credential or nonce is empty.\<close>

record ConnectionRow =
  cn_WhatsAppDeviceName :: string
  cn_ID :: string
  cn_Transport :: string
  cn_IntegrationMode :: string
  cn_Label :: string
  cn_Enabled :: bool
  cn_EncryptedCredential :: string
  cn_CredentialNonce :: string
  cn_CredentialKeyVersion :: int
  cn_CreatedBy :: "string option"
  cn_CreatedAt :: int
  cn_UpdatedAt :: int

text \<open>What the console shows of a connection.\<close>

record Capabilities =
  cp_ChatDiscovery :: string
  cp_TopicDiscovery :: string
  cp_HistoryRecovery :: bool
  cp_PrivacyModeStatus :: bool
  cp_Polls :: bool

record ConnectionDTO =
  dt_WhatsAppDeviceName :: string
  dt_ID :: string
  dt_Transport :: string
  dt_IntegrationMode :: string
  dt_Capabilities :: "Capabilities option"
  dt_Label :: string
  dt_Enabled :: bool
  dt_CreatedAt :: int
  dt_UpdatedAt :: int

text \<open>
  \<open>co_answers\<close> is whether the routing database answers; the control database answers when its accounts do.
  \<open>co_reloads\<close> counts the calls of \<^verbatim>\<open>onConfigChange\<close>, \<open>co_stopped\<close> lists the connections that were stopped.
\<close>

record Console =
  co_answers :: bool
  co_db :: RoutingDB
  co_members :: Members
  co_connections :: "ConnectionRow list"
  co_reloads :: nat
  co_stopped :: "string list"

datatype target_check = TargetAccepted | TargetRejected | TargetUnavailable

text \<open>
  \<open>cv_validator\<close> is what the Telegram runtime says of a target, if there is one; \<open>cv_reload\<close> whether the runtime takes
  the new configuration; \<open>cv_runtime\<close> what a connection answers when it is asked to do something. \<open>cv_decode\<close> decodes
  settings over the present ones, refusing unknown fields. \<open>cv_encrypt\<close> and \<open>cv_decrypt\<close> are the cipher of the
  credentials with what it draws, \<open>cv_owned\<close> is whether the server opened the control database itself.
\<close>

datatype runtime_answer = RuntimeOk string | RuntimeFailed string

record StoredCredential =
  sd_Version :: int
  sd_BotToken :: string
  sd_WebhookURL :: string
  sd_ChannelID :: string

record ConsoleEnv =
  cv_members :: MembersEnv
  cv_validator :: "(string \<Rightarrow> string \<Rightarrow> target_check) option"
  cv_reload :: bool
  cv_decode :: "SyncSetSettings \<Rightarrow> string \<Rightarrow> SyncSetSettings option"
  cv_owned :: bool
  cv_runtime :: "string \<Rightarrow> string \<Rightarrow> runtime_answer"
  cv_encrypt :: "(string \<Rightarrow> (string \<times> string) option) option"
  cv_decrypt :: "string \<Rightarrow> string \<Rightarrow> string option"
  cv_encode_credential :: "StoredCredential \<Rightarrow> string"
  cv_decode_credential :: "string \<Rightarrow> StoredCredential option"
  cv_escaped_path :: "URL \<Rightarrow> string"
  cv_path_unescape :: "string \<Rightarrow> string option"

datatype console_reply =
    KError int string
  | KFault int gerr
  | KOk string
  | KEndpoints "BindingRow list"
  | KEndpoint int BindingRow
  | KSets "SyncSet list"
  | KSet int SyncSet
  | KPersisted string
  | KSetting bool
  | KConnections "ConnectionDTO list"
  | KConnection int ConnectionDTO
  | KStatus string string string bool
  | KRuntime string

text \<open>The checks of a handler in their order: the first that objects gives the answer, and nothing changes.\<close>

fun checked :: "console_reply option list \<Rightarrow> Console \<Rightarrow> console_reply \<times> Console \<Rightarrow> console_reply \<times> Console" where
  "checked [] k go = go"
| "checked (None # cs) k go = checked cs k go"
| "checked (Some r # cs) k go = (r, k)"

lemma checked_keeps:
  assumes "P k" "list_all (\<lambda>c. c = None) cs \<Longrightarrow> P (snd go)"
  shows "P (snd (checked cs k go))"
  using assms by (induction cs k go rule: checked.induct) auto

lemma checked_passes:
  assumes "checked cs k go = (r, k')" "Some r \<notin> set cs"
  shows "list_all (\<lambda>c. c = None) cs" "go = (r, k')"
  using assms by (induction cs k go rule: checked.induct) auto

definition refuse_if :: "bool \<Rightarrow> int \<Rightarrow> string \<Rightarrow> console_reply option" where
  "refuse_if b status message = (if b then Some (KError status message) else None)"

lemma refuse_if_None [simp]: "refuse_if b status message = None \<longleftrightarrow> \<not> b"
  by (simp add: refuse_if_def)

definition bad_request :: "gerr option \<Rightarrow> console_reply option" where
  "bad_request e = map_option (KFault 400) e"

lemma bad_request_None [simp]: "bad_request e = None \<longleftrightarrow> e = None"
  by (simp add: bad_request_def)

definition notifyConfigChange :: "ConsoleEnv \<Rightarrow> Console \<Rightarrow> bool \<times> Console" where
  "notifyConfigChange v k = (cv_reload v, k\<lparr>co_reloads := co_reloads k + 1\<rparr>)"

subsection \<open>Endpoints\<close>

record CreateEndpointRequest =
  nq_AnonymizeIncoming :: bool
  nq_AnonymizeOutgoing :: bool
  nq_Alias :: string
  nq_Transport :: string
  nq_ConnectionID :: string
  nq_RemoteID :: string
  nq_SyncSetID :: "string option"

record UpdateEndpointRequest =
  ur_AnonymizeIncoming :: "bool option"
  ur_AnonymizeOutgoing :: "bool option"
  ur_Alias :: string
  ur_Transport :: string
  ur_ConnectionID :: string
  ur_RemoteID :: string
  ur_SyncSetID :: "string option"

definition endpoint_view :: "BindingRow \<Rightarrow> BindingRow" where
  "endpoint_view r =
     r\<lparr>br_SyncSetID := (case br_SyncSetID r of None \<Rightarrow> None | Some i \<Rightarrow> if trim_space i = [] then None else Some i)\<rparr>"

definition find_endpoint :: "Console \<Rightarrow> string \<Rightarrow> BindingRow option" where
  "find_endpoint k alias = find (\<lambda>r. br_Alias r = alias) (rd_endpoints (co_db k))"

definition handleListEndpoints :: "Console \<Rightarrow> console_reply" where
  "handleListEndpoints k =
     (if \<not> co_answers k then KError 500 ''failed to query endpoints''
      else KEndpoints (map endpoint_view (sort_key br_Alias (rd_endpoints (co_db k)))))"

definition handleGetEndpoint :: "string \<Rightarrow> Console \<Rightarrow> console_reply" where
  "handleGetEndpoint path k =
     (let alias = trim_space path in
      if alias = [] then KError 400 ''endpoint alias is required''
      else if \<not> co_answers k then KError 500 ''failed to query endpoint''
      else case find_endpoint k alias of
        None \<Rightarrow> KError 404 ''endpoint not found''
      | Some r \<Rightarrow> KEndpoint 200 (endpoint_view r))"

definition check_target :: "ConsoleEnv \<Rightarrow> string \<Rightarrow> string \<Rightarrow> string \<Rightarrow> console_reply option" where
  "check_target v transport connectionID remoteID =
     (if transport \<noteq> ''telegram'' then None
      else case cv_validator v of
        None \<Rightarrow> Some (KError 503 ''Telegram connection cannot validate targets'')
      | Some f \<Rightarrow>
          (case f connectionID remoteID of
             TargetAccepted \<Rightarrow> None
           | TargetUnavailable \<Rightarrow> Some (KError 503 ''Telegram target validation is unavailable'')
           | TargetRejected \<Rightarrow> Some (KError 400 ''Telegram target is not a supported group'')))"

definition find_connection :: "Console \<Rightarrow> string \<Rightarrow> ConnectionRow option" where
  "find_connection k connectionID = find (\<lambda>c. cn_ID c = connectionID) (co_connections k)"

definition check_connection :: "Console \<Rightarrow> string \<Rightarrow> string \<Rightarrow> console_reply option" where
  "check_connection k transport connectionID =
     (if \<not> mb_open (co_members k) then Some (KError 500 ''database error'')
      else case find_connection k connectionID of
        None \<Rightarrow> Some (KError 400 ''connection not found'')
      | Some c \<Rightarrow>
          if \<not> cn_Enabled c then Some (KError 400 ''connection is disabled'')
          else refuse_if (cn_Transport c \<noteq> transport) 400 ''endpoint transport does not match connection transport'')"

definition check_alias_free :: "Console \<Rightarrow> string \<Rightarrow> console_reply option" where
  "check_alias_free k alias =
     (if \<not> co_answers k then Some (KError 500 ''database error'')
      else refuse_if (find_endpoint k alias \<noteq> None) 400 ''endpoint alias already exists'')"

definition check_target_free :: "Console \<Rightarrow> string \<Rightarrow> string \<Rightarrow> string \<Rightarrow> console_reply option" where
  "check_target_free k alias transport remoteID =
     (if \<not> co_answers k then Some (KError 500 ''database error'')
      else refuse_if (list_ex (\<lambda>r. br_Transport r = transport \<and> br_RemoteID r = remoteID \<and> br_Alias r \<noteq> alias)
             (rd_endpoints (co_db k)))
        400 ''an endpoint is already configured for this transport target'')"

text \<open>The value of the column, or why it cannot be set.\<close>

definition endpointSyncSetValue :: "Console \<Rightarrow> string option \<Rightarrow> console_reply + string option" where
  "endpointSyncSetValue k requested =
     (case requested of
        None \<Rightarrow> Inr None
      | Some s \<Rightarrow>
          (let setID = trim_space s in
           if setID = [] then Inr None
           else if \<not> co_answers k then Inl (KError 500 ''database error'')
           else if \<not> has_key sr_ID setID (rd_sets (co_db k)) then Inl (KError 400 ''sync set does not exist'')
           else Inr (Some setID)))"

definition insert_binding :: "BindingRow \<Rightarrow> RoutingDB \<Rightarrow> RoutingDB result" where
  "insert_binding row d =
     constraint (\<not> has_key br_Alias (br_Alias row) (rd_endpoints d)) ''unique'' (put_binding row d)"

definition handleCreateEndpoint ::
  "ConsoleEnv \<Rightarrow> CreateEndpointRequest option \<Rightarrow> Console \<Rightarrow> console_reply \<times> Console" where
  "handleCreateEndpoint v body k =
     (case body of
        None \<Rightarrow> (KError 400 ''invalid request body'', k)
      | Some req \<Rightarrow>
          let alias = trim_space (nq_Alias req); transport = trim_space (nq_Transport req);
              connectionID = trim_space (nq_ConnectionID req); remoteID = trim_space (nq_RemoteID req) in
          checked
            [bad_request (ValidateAlias alias), bad_request (ValidateConnectionID connectionID),
             bad_request (ValidateEndpointRemoteID transport remoteID),
             check_target v transport connectionID remoteID, check_connection k transport connectionID,
             check_alias_free k alias,
             refuse_if (list_ex (\<lambda>r. br_Transport r = transport \<and> br_RemoteID r = remoteID) (rd_endpoints (co_db k)))
               400 ''an endpoint is already configured for this transport target''] k
            (case endpointSyncSetValue k (nq_SyncSetID req) of
               Inl reply \<Rightarrow> (reply, k)
             | Inr setID \<Rightarrow>
                 let row = \<lparr>br_Alias = alias, br_Transport = transport, br_ConnectionID = connectionID,
                       br_RemoteID = remoteID, br_SyncSetID = setID, br_AnonymizeIncoming = nq_AnonymizeIncoming req,
                       br_AnonymizeOutgoing = nq_AnonymizeOutgoing req\<rparr> in
                 (case insert_binding row (co_db k) of
                    Inl e \<Rightarrow> (KError 500 ''failed to create endpoint'', k)
                  | Inr d \<Rightarrow> (KEndpoint 201 row, snd (notifyConfigChange v (k\<lparr>co_db := d\<rparr>))))))"

text \<open>
  The transaction of an update: the row with the keys that follow it (\<^verbatim>\<open>ON UPDATE CASCADE\<close>), the labels of a
  target that was left, and the copies and reactions when the alias changes.
\<close>

definition rename_key :: "string \<Rightarrow> string \<Rightarrow> string \<Rightarrow> string" where
  "rename_key old new a = (if a = old then new else a)"

definition update_endpoint_row :: "string \<Rightarrow> BindingRow \<Rightarrow> RoutingDB \<Rightarrow> RoutingDB result" where
  "update_endpoint_row alias row d =
     constraint (transport_IsValid (br_Transport row)) ''check''
     (constraint (br_Alias row = alias \<or> \<not> has_key br_Alias (br_Alias row) (rd_endpoints d)) ''unique''
     (constraint (\<not> list_ex (\<lambda>r. br_Alias r \<noteq> alias \<and> br_Transport r = br_Transport row \<and>
                       br_RemoteID r = br_RemoteID row) (rd_endpoints d)) ''unique''
     (constraint (case br_SyncSetID row of None \<Rightarrow> True | Some i \<Rightarrow> has_key sr_ID i (rd_sets d)) ''foreign key''
       (let t = rd_tables d; moved = rename_key alias (br_Alias row) in
        Inr (d\<lparr>rd_endpoints := update_where (\<lambda>r. br_Alias r = alias) (\<lambda>r. row) (rd_endpoints d),
               rd_tables := t
                 \<lparr>t_endpoints := update_where (\<lambda>e. ep_Alias e = alias)
                    (\<lambda>e. \<lparr>ep_Alias = br_Alias row, ep_SyncSetID = br_SyncSetID row\<rparr>) (t_endpoints t),
                  t_labels := map (\<lambda>l. l\<lparr>lb_EndpointID := moved (lb_EndpointID l)\<rparr>) (t_labels t),
                  t_participants := map (\<lambda>p. p\<lparr>pt_EndpointID := moved (pt_EndpointID p)\<rparr>) (t_participants t)\<rparr>\<rparr>)))))"

definition clear_labels :: "(string \<Rightarrow> bool) \<Rightarrow> RoutingDB \<Rightarrow> RoutingDB" where
  "clear_labels P d =
     d\<lparr>rd_tables := (rd_tables d)\<lparr>t_labels := delete_where (\<lambda>l. P (lb_EndpointID l)) (t_labels (rd_tables d))\<rparr>\<rparr>"

definition rename_messages :: "string \<Rightarrow> string \<Rightarrow> RoutingDB \<Rightarrow> RoutingDB result" where
  "rename_messages alias new d =
     (let t = rd_tables d;
          copies = map (\<lambda>c. c\<lparr>mc_EndpointID := rename_key alias new (mc_EndpointID c)\<rparr>) (t_copies t);
          reactions = map (\<lambda>x. x\<lparr>rx_SourceEndpointID := rename_key alias new (rx_SourceEndpointID x)\<rparr>) (t_reactions t)
      in constraint (keys_ok key_copy copies \<and> keys_ok key_copy2 copies \<and> keys_ok key_reaction reactions) ''unique''
           (Inr (d\<lparr>rd_tables := t\<lparr>t_copies := copies, t_reactions := reactions\<rparr>\<rparr>)))"

definition store_endpoint :: "BindingRow \<Rightarrow> BindingRow \<Rightarrow> RoutingDB \<Rightarrow> RoutingDB result" where
  "store_endpoint old row d =
     bind_res (update_endpoint_row (br_Alias old) row d) (\<lambda>d.
       let d = (if br_RemoteID old \<noteq> br_RemoteID row then clear_labels (\<lambda>a. a = br_Alias row) d else d) in
       if br_Alias row = br_Alias old then Inr d else rename_messages (br_Alias old) (br_Alias row) d)"

definition rename_pages :: "string \<Rightarrow> string \<Rightarrow> Members \<Rightarrow> Members" where
  "rename_pages alias new m =
     (if mb_open m
      then m\<lparr>mb_pipelines := update_where (\<lambda>p. pl_EndpointAlias p = alias) (\<lambda>p. p\<lparr>pl_EndpointAlias := new\<rparr>) (mb_pipelines m)\<rparr>
      else m)"

text \<open>What the request asks for, with the present values where it leaves them open.\<close>

definition wanted_endpoint :: "BindingRow \<Rightarrow> UpdateEndpointRequest \<Rightarrow> string option \<Rightarrow> BindingRow" where
  "wanted_endpoint old req setID =
     \<lparr>br_Alias = (if ur_Alias req = [] then br_Alias old else trim_space (ur_Alias req)),
      br_Transport = trim_space (ur_Transport req), br_ConnectionID = trim_space (ur_ConnectionID req),
      br_RemoteID = trim_space (ur_RemoteID req), br_SyncSetID = setID,
      br_AnonymizeIncoming = (case ur_AnonymizeIncoming req of None \<Rightarrow> br_AnonymizeIncoming old | Some b \<Rightarrow> b),
      br_AnonymizeOutgoing = (case ur_AnonymizeOutgoing req of None \<Rightarrow> br_AnonymizeOutgoing old | Some b \<Rightarrow> b)\<rparr>"

definition set_name :: "string option \<Rightarrow> string" where
  "set_name s = (case s of None \<Rightarrow> [] | Some i \<Rightarrow> trim_space i)"

definition endpoint_moves :: "BindingRow \<Rightarrow> BindingRow \<Rightarrow> string option \<Rightarrow> bool" where
  "endpoint_moves old new requested =
     (br_Alias new \<noteq> br_Alias old \<or> br_Transport new \<noteq> br_Transport old \<or> br_ConnectionID new \<noteq> br_ConnectionID old \<or>
      br_RemoteID new \<noteq> br_RemoteID old \<or> set_name requested \<noteq> set_name (br_SyncSetID old))"

definition membership_guard :: "Console \<Rightarrow> string \<Rightarrow> bool \<Rightarrow> console_reply option" where
  "membership_guard k alias concerns =
     (case endpointHasOutstandingMembershipRequests (co_members k) alias of
        None \<Rightarrow> Some (KError 500 ''membership state unavailable'')
      | Some waiting \<Rightarrow>
          refuse_if (waiting \<and> concerns) 409 ''endpoint has outstanding membership requests'')"

definition handleUpdateEndpoint ::
  "ConsoleEnv \<Rightarrow> string \<Rightarrow> UpdateEndpointRequest option \<Rightarrow> Console \<Rightarrow> console_reply \<times> Console" where
  "handleUpdateEndpoint v path body k =
     (let alias = trim_space path in
      if alias = [] then (KError 400 ''endpoint alias is required'', k)
      else case body of
        None \<Rightarrow> (KError 400 ''invalid request body'', k)
      | Some req \<Rightarrow>
          let newAlias = (if ur_Alias req = [] then alias else trim_space (ur_Alias req));
              transport = trim_space (ur_Transport req); remoteID = trim_space (ur_RemoteID req);
              connectionID = trim_space (ur_ConnectionID req) in
          checked
            [bad_request (if newAlias = alias then None else ValidateAlias newAlias),
             bad_request (ValidateEndpointRemoteID transport remoteID),
             refuse_if (\<not> co_answers k) 500 ''database error''] k
            (case find_endpoint k alias of
               None \<Rightarrow> (KError 404 ''endpoint not found'', k)
             | Some old \<Rightarrow>
                 checked
                   [refuse_if (connectionID = []) 400 ''connectionId is required'',
                    bad_request (ValidateConnectionID connectionID),
                    membership_guard k alias (endpoint_moves old (wanted_endpoint old req None) (ur_SyncSetID req)),
                    check_target v transport connectionID remoteID,
                    check_connection k transport connectionID,
                    (if newAlias = alias then None else check_alias_free k newAlias),
                    check_target_free k alias transport remoteID] k
                   (case endpointSyncSetValue k (ur_SyncSetID req) of
                      Inl reply \<Rightarrow> (reply, k)
                    | Inr setID \<Rightarrow>
                        let row = wanted_endpoint old req setID in
                        (case store_endpoint old row (co_db k) of
                           Inl e \<Rightarrow> (KError 500 ''failed to update endpoint'', k)
                         | Inr d \<Rightarrow>
                             let m = (if newAlias = alias then co_members k else rename_pages alias newAlias (co_members k))
                             in (KEndpoint 200 row,
                                 snd (notifyConfigChange v (k\<lparr>co_db := d, co_members := m\<rparr>)))))))"

definition handleDeleteEndpoint :: "ConsoleEnv \<Rightarrow> string \<Rightarrow> Console \<Rightarrow> console_reply \<times> Console" where
  "handleDeleteEndpoint v path k =
     (let alias = trim_space path in
      checked
        [refuse_if (alias = []) 400 ''endpoint alias is required'', membership_guard k alias True,
         refuse_if (\<not> co_answers k) 500 ''failed to delete endpoint'',
         refuse_if (find_endpoint k alias = None) 404 ''endpoint not found''] k
        (KOk ''ok'', snd (notifyConfigChange v (k\<lparr>co_db := delete_binding alias (co_db k)\<rparr>))))"

subsection \<open>Sync sets\<close>

record CreateSyncSetRequest =
  cs_ID :: string
  cs_Endpoints :: "string list"
  cs_AnonymizeToDiscord :: bool
  cs_Settings :: string

record UpdateSyncSetRequest =
  us_SetID :: string
  us_Endpoints :: "string list option"
  us_AnonymizeToDiscord :: "bool option"
  us_Settings :: string

definition handleListSyncSets :: "Console \<Rightarrow> console_reply" where
  "handleListSyncSets k =
     (if \<not> co_answers k then KError 500 ''failed to read sync sets'' else KSets (cfg_SyncSets (LoadRaw (co_db k))))"

definition find_set :: "Console \<Rightarrow> string \<Rightarrow> SyncSet option" where
  "find_set k i = find (\<lambda>s. set_ID s = i) (cfg_SyncSets (LoadRaw (co_db k)))"

definition handleGetSyncSet :: "string \<Rightarrow> Console \<Rightarrow> console_reply" where
  "handleGetSyncSet i k =
     (if \<not> co_answers k then KError 500 ''failed to read sync sets''
      else case find_set k i of None \<Rightarrow> KError 404 ''sync set not found'' | Some s \<Rightarrow> KSet 200 s)"

definition mergeSyncSetSettings :: "ConsoleEnv \<Rightarrow> SyncSetSettings \<Rightarrow> string \<Rightarrow> SyncSetSettings result" where
  "mergeSyncSetSettings v current raw =
     (let decoded = (if raw = [] then Inr current
        else if trim_space raw = ''null'' then Inl (ErrMsg ''settings must be an object'')
        else case cv_decode v current raw of
          None \<Rightarrow> Inl (ErrMsg ''invalid sync-set settings'') | Some s \<Rightarrow> Inr s)
      in bind_res decoded (\<lambda>s. let s = settings_Normalize s in try_err (settings_Validate s) (Inr s)))"

fun validate_loop :: "Console \<Rightarrow> string \<Rightarrow> bool \<Rightarrow> string list \<Rightarrow> string list \<Rightarrow> gerr option" where
  "validate_loop k i fresh seen [] = None"
| "validate_loop k i fresh seen (a # as) =
     (let alias = trim_space a in
      if alias = [] then Some (ErrMsg ''endpoint alias cannot be empty'')
      else if alias \<in> set seen then Some (ErrMsg ''duplicate endpoint in sync set'')
      else if \<not> co_answers k then Some (ErrMsg ''query endpoint'')
      else case find_endpoint k alias of
        None \<Rightarrow> Some (ErrMsg ''endpoint does not exist'')
      | Some r \<Rightarrow>
          (case br_SyncSetID r of
             Some j \<Rightarrow>
               if trim_space j \<noteq> [] \<and> (fresh \<or> j \<noteq> i)
               then Some (ErrMsg ''endpoint is already assigned to sync set'')
               else validate_loop k i fresh (alias # seen) as
           | None \<Rightarrow> validate_loop k i fresh (alias # seen) as))"

definition validateSyncSetEndpoints :: "Console \<Rightarrow> string \<Rightarrow> string list \<Rightarrow> bool \<Rightarrow> gerr option" where
  "validateSyncSetEndpoints k i aliases fresh = validate_loop k i fresh [] aliases"

text \<open>\<^verbatim>\<open>UPDATE endpoints SET sync_set_id = ? WHERE ...\<close>.\<close>

definition assign_where :: "(string \<Rightarrow> string option \<Rightarrow> bool) \<Rightarrow> string option \<Rightarrow> RoutingDB \<Rightarrow> RoutingDB" where
  "assign_where P i d =
     d\<lparr>rd_endpoints := update_where (\<lambda>r. P (br_Alias r) (br_SyncSetID r)) (\<lambda>r. r\<lparr>br_SyncSetID := i\<rparr>) (rd_endpoints d),
       rd_tables := (rd_tables d)\<lparr>t_endpoints :=
         update_where (\<lambda>e. P (ep_Alias e) (ep_SyncSetID e)) (\<lambda>e. e\<lparr>ep_SyncSetID := i\<rparr>) (t_endpoints (rd_tables d))\<rparr>\<rparr>"

definition is_assigned :: "RoutingDB \<Rightarrow> string \<Rightarrow> string \<Rightarrow> bool" where
  "is_assigned d i alias = list_ex (\<lambda>r. br_Alias r = alias \<and> br_SyncSetID r = Some i) (rd_endpoints d)"

definition write_set :: "SyncSet \<Rightarrow> SyncSetSettings \<Rightarrow> bool \<Rightarrow> RoutingDB \<Rightarrow> RoutingDB result" where
  "write_set s settings create d =
     (let row = \<lparr>sr_ID = set_ID s, sr_AnonymizeToDiscord = set_AnonymizeToDiscord s, sr_Settings = Some settings\<rparr> in
      if create then constraint (\<not> has_key sr_ID (set_ID s) (rd_sets d)) ''unique'' (Inr (put_set row d))
      else Inr (d\<lparr>rd_sets := update_where (\<lambda>r. sr_ID r = set_ID s) (\<lambda>r. row) (rd_sets d)\<rparr>))"

definition saveSyncSet ::
  "ConsoleEnv \<Rightarrow> SyncSet \<Rightarrow> SyncSetSettings \<Rightarrow> bool \<Rightarrow> Console \<Rightarrow> console_reply option \<times> Console" where
  "saveSyncSet v s settings create k =
     (if \<not> co_answers k then (Some (KError 500 ''database transaction error''), k)
      else case write_set s settings create (co_db k) of
        Inl e \<Rightarrow> (Some (KError 500 ''failed to save sync set''), k)
      | Inr d \<Rightarrow>
          let i = set_ID s;
              d = assign_where (\<lambda>a j. j = Some i) None d;
              d = foldl (\<lambda>d alias. assign_where (\<lambda>a j. a = alias) (Some i) d) d (set_Endpoints s);
              d = (if ss_ChildContextDisplayMode settings = ChildContextDisplayOpaque
                   then clear_labels (is_assigned d i) d else d)
          in (case notifyConfigChange v (k\<lparr>co_db := d\<rparr>) of
                (True, k) \<Rightarrow> (None, k)
              | (False, k) \<Rightarrow> (Some (KPersisted i), k)))"

definition not_admin :: "Principal option \<Rightarrow> bool" where
  "not_admin p = (case p of None \<Rightarrow> True | Some q \<Rightarrow> pp_Role q \<noteq> ''admin'')"

definition handleCreateSyncSet ::
  "ConsoleEnv \<Rightarrow> Principal option \<Rightarrow> CreateSyncSetRequest option \<Rightarrow> Console \<Rightarrow> console_reply \<times> Console" where
  "handleCreateSyncSet v p body k =
     (case body of
        None \<Rightarrow> (KError 400 ''invalid request body'', k)
      | Some req \<Rightarrow>
          let i = trim_space (cs_ID req) in
          checked
            [bad_request (ValidateSyncSetID i),
             (if \<not> co_answers k then Some (KError 500 ''database error'')
              else refuse_if (has_key sr_ID i (rd_sets (co_db k))) 400 ''sync set already exists''),
             bad_request (validateSyncSetEndpoints k i (cs_Endpoints req) True)] k
            (case mergeSyncSetSettings v DefaultSyncSetSettings (cs_Settings req) of
               Inl e \<Rightarrow> (KFault 400 e, k)
             | Inr settings \<Rightarrow>
                 let s = \<lparr>set_ID = i, set_Endpoints = cs_Endpoints req,
                       set_AnonymizeToDiscord = cs_AnonymizeToDiscord req, set_Settings = Some settings\<rparr> in
                 if ss_PrivateDMRelayEnabled settings \<and> not_admin p
                 then (KError 403 ''private DM relay enablement requires an administrator'', k)
                 else (case saveSyncSet v s settings True k of
                   (Some reply, k) \<Rightarrow> (reply, k) | (None, k) \<Rightarrow> (KSet 201 s, k))))"

definition wanted_set :: "SyncSet \<Rightarrow> UpdateSyncSetRequest \<Rightarrow> SyncSet" where
  "wanted_set current req =
     current\<lparr>set_Endpoints := (case us_Endpoints req of None \<Rightarrow> set_Endpoints current | Some as \<Rightarrow> as),
       set_AnonymizeToDiscord := (case us_AnonymizeToDiscord req of None \<Rightarrow> set_AnonymizeToDiscord current | Some b \<Rightarrow> b)\<rparr>"

definition handleUpdateSyncSet ::
  "ConsoleEnv \<Rightarrow> Principal option \<Rightarrow> string \<Rightarrow> UpdateSyncSetRequest option \<Rightarrow> Console \<Rightarrow> console_reply \<times> Console" where
  "handleUpdateSyncSet v p path body k =
     (let i = trim_space path in
      case body of
        None \<Rightarrow> (KError 400 ''invalid request body'', k)
      | Some req \<Rightarrow>
          checked
            [refuse_if (us_SetID req \<noteq> [] \<and> us_SetID req \<noteq> i) 400 ''sync set id in body does not match path'',
             refuse_if (\<not> co_answers k) 500 ''failed to read sync sets''] k
            (case find_set k i of
               None \<Rightarrow> (KError 404 ''sync set not found'', k)
             | Some current \<Rightarrow>
                 let s = wanted_set current req; c = LoadRaw (co_db k) in
                 checked [bad_request (validateSyncSetEndpoints k i (set_Endpoints s) False)] k
                   (case mergeSyncSetSettings v (SettingsForSet c s) (us_Settings req) of
                      Inl e \<Rightarrow> (KFault 400 e, k)
                    | Inr settings \<Rightarrow>
                        if ss_PrivateDMRelayEnabled settings \<noteq> ss_PrivateDMRelayEnabled (SettingsForSet c current) \<and> not_admin p
                        then (KError 403 ''private DM relay enablement requires an administrator'', k)
                        else let s = s\<lparr>set_Settings := Some settings\<rparr> in
                          (case saveSyncSet v s settings False k of
                             (Some reply, k) \<Rightarrow> (reply, k) | (None, k) \<Rightarrow> (KSet 200 s, k)))))"

definition delete_form :: "string \<Rightarrow> Members \<Rightarrow> Members" where
  "delete_form i m =
     m\<lparr>mb_forms := delete_where (\<lambda>f. fm_SyncSetID f = i) (mb_forms m),
       mb_fields := delete_where (\<lambda>f. fl_SyncSetID f = i) (mb_fields m)\<rparr>"

definition delete_set_bindings :: "string \<Rightarrow> RoutingDB \<Rightarrow> RoutingDB" where
  "delete_set_bindings i d =
     foldl (\<lambda>d alias. delete_binding alias d) d
       (map br_Alias (filter (\<lambda>r. br_SyncSetID r = Some i) (rd_endpoints d)))"

definition handleDeleteSyncSet :: "ConsoleEnv \<Rightarrow> string \<Rightarrow> Console \<Rightarrow> console_reply \<times> Console" where
  "handleDeleteSyncSet v path k =
     (let i = trim_space path in
      checked
        [refuse_if (i = []) 400 ''sync set id is required'', refuse_if (\<not> co_answers k) 500 ''database transaction error'',
         refuse_if (\<not> has_key sr_ID i (rd_sets (co_db k))) 404 ''sync set not found''] k
        (let k = k\<lparr>co_db := delete_set i (delete_set_bindings i (co_db k))\<rparr> in
         if \<not> mb_open (co_members k) then (KError 500 ''failed to delete membership configuration'', k)
         else (KOk ''ok'', snd (notifyConfigChange v (k\<lparr>co_members := delete_form i (co_members k)\<rparr>)))))"

subsection \<open>The switch for private messages\<close>

definition handleGetConfig :: "Console \<Rightarrow> console_reply" where
  "handleGetConfig k =
     (if \<not> co_answers k then KError 500 ''load private messaging setting''
      else case rd_global (co_db k) of
        None \<Rightarrow> KError 500 ''load private messaging setting''
      | Some g \<Rightarrow> KSetting (gl_PrivateDMRelayEnabled g))"

definition handleUpdateConfig :: "ConsoleEnv \<Rightarrow> bool option option \<Rightarrow> Console \<Rightarrow> console_reply \<times> Console" where
  "handleUpdateConfig v body k =
     (case body of
        None \<Rightarrow> (KError 400 ''invalid private messaging setting'', k)
      | Some None \<Rightarrow> (KError 400 ''privateDMRelayEnabled is required'', k)
      | Some (Some b) \<Rightarrow>
          if \<not> co_answers k then (KError 500 ''save private messaging setting'', k)
          else (case notifyConfigChange v (k\<lparr>co_db := (co_db k)\<lparr>rd_global :=
                  map_option (\<lambda>g. g\<lparr>gl_PrivateDMRelayEnabled := b\<rparr>) (rd_global (co_db k))\<rparr>\<rparr>) of
                  (True, k) \<Rightarrow> (KSetting b, k)
                | (False, k) \<Rightarrow> (KError 500 ''reload private messaging setting'', k)))"

end
