(* ===== verification/ConsoleConnections.thy ===== *)
theory ConsoleConnections
  imports Console PrivateStore
begin

text \<open>
  Connections to providers as the console manages them (\<^verbatim>\<open>internal/api/connections.go\<close>,
  \<^verbatim>\<open>internal/controlstore/connection.go\<close>, \<^verbatim>\<open>internal/transport/discord/credential.go\<close>), and the routes of the
  console that lead here. The cipher, JSON, the parsing of URLs and what a running connection answers are parameters.
\<close>

subsection \<open>Integration modes\<close>

definition NormalizeIntegrationMode :: "string \<Rightarrow> string \<Rightarrow> string" where
  "NormalizeIntegrationMode transportName mode =
     (let transportName = lower_text (trim_space transportName); mode = lower_text (trim_space mode) in
      if transportName = ''telegram'' then (if mode = [] then ''bot'' else mode)
      else if transportName = ''discord'' then (if mode = [] then ''managed'' else mode)
      else [])"

definition ValidateIntegrationMode :: "string \<Rightarrow> string \<Rightarrow> gerr option" where
  "ValidateIntegrationMode transportName mode =
     (let name = lower_text (trim_space transportName); mode' = NormalizeIntegrationMode name mode in
      if name = ''telegram'' then
        fail_if (mode' \<noteq> ''bot'' \<and> mode' \<noteq> ''mtproto'') ''invalid telegram integration mode: must be bot or mtproto''
      else if name = ''discord'' then
        fail_if (mode' \<noteq> ''managed'' \<and> mode' \<noteq> ''webhook'') ''invalid discord integration mode: must be managed or webhook''
      else fail_if (trim_space mode \<noteq> []) ''integration mode is only supported for discord and telegram connections'')"

definition CapabilitiesForIntegrationMode :: "string \<Rightarrow> Capabilities" where
  "CapabilitiesForIntegrationMode mode =
     (if fold_equal (trim_space mode) ''mtproto''
      then \<lparr>cp_ChatDiscovery = ''full'', cp_TopicDiscovery = ''full'', cp_HistoryRecovery = True,
            cp_PrivacyModeStatus = False, cp_Polls = True\<rparr>
      else \<lparr>cp_ChatDiscovery = ''observed'', cp_TopicDiscovery = ''observed'', cp_HistoryRecovery = False,
            cp_PrivacyModeStatus = True, cp_Polls = True\<rparr>)"

definition connectionDTOFromControl :: "ConnectionRow \<Rightarrow> ConnectionDTO" where
  "connectionDTOFromControl c =
     (let mode = NormalizeIntegrationMode (cn_Transport c) (cn_IntegrationMode c) in
      \<lparr>dt_WhatsAppDeviceName = cn_WhatsAppDeviceName c, dt_ID = cn_ID c, dt_Transport = cn_Transport c,
       dt_IntegrationMode = (if cn_Transport c = ''telegram'' \<or> cn_Transport c = ''discord'' then mode else []),
       dt_Capabilities =
         (if cn_Transport c = ''telegram'' then Some (CapabilitiesForIntegrationMode mode) else None),
       dt_Label = cn_Label c, dt_Enabled = cn_Enabled c, dt_CreatedAt = cn_CreatedAt c, dt_UpdatedAt = cn_UpdatedAt c\<rparr>)"

subsection \<open>Credentials of Discord\<close>

fun split_on :: "char \<Rightarrow> string \<Rightarrow> string list" where
  "split_on c [] = [[]]"
| "split_on c (x # xs) =
     (if x = c then [] # split_on c xs else (case split_on c xs of [] \<Rightarrow> [[x]] | y # ys \<Rightarrow> (x # y) # ys))"

definition trim_both :: "char \<Rightarrow> string \<Rightarrow> string" where
  "trim_both c s = rev (dropWhile (\<lambda>x. x = c) (rev (dropWhile (\<lambda>x. x = c) s)))"

fun webhook_parts :: "(string \<Rightarrow> string option) \<Rightarrow> string list \<Rightarrow> (string \<times> string) option" where
  "webhook_parts unescape (p # ident # token # rest) =
     (if p = ''webhooks'' then
        (case (unescape ident, unescape token) of
           (Some a, Some b) \<Rightarrow>
             if trim_space a \<noteq> [] \<and> trim_space b \<noteq> [] then Some (trim_space a, trim_space b)
             else webhook_parts unescape (ident # token # rest)
         | _ \<Rightarrow> webhook_parts unescape (ident # token # rest))
      else webhook_parts unescape (ident # token # rest))"
| "webhook_parts unescape ps = None"

definition discord_hosts :: "string list" where
  "discord_hosts = [''discord.com'', ''www.discord.com'', ''discordapp.com'', ''www.discordapp.com'',
     ''canary.discord.com'', ''ptb.discord.com'']"

definition ParseWebhookURL :: "ConsoleEnv \<Rightarrow> string \<Rightarrow> (string \<times> string) result" where
  "ParseWebhookURL v raw =
     (case me_parse_url (cv_members v) (trim_space raw) of
        None \<Rightarrow> Inl (ErrMsg ''invalid Discord webhook URL'')
      | Some u \<Rightarrow>
          if \<not> fold_equal (ul_Scheme u) ''https'' then Inl (ErrMsg ''Discord webhook URL must use HTTPS'')
          else if lower_text (trim_space (me_hostname (cv_members v) u)) \<notin> set discord_hosts
          then Inl (ErrMsg ''Discord webhook URL must use an official Discord host'')
          else case webhook_parts (cv_path_unescape v) (split_on (CHR ''/'') (trim_both (CHR ''/'') (cv_escaped_path v u))) of
            None \<Rightarrow> Inl (ErrMsg ''invalid Discord webhook URL'')
          | Some p \<Rightarrow> Inr p)"

definition EncodeStoredCredential ::
  "ConsoleEnv \<Rightarrow> string \<Rightarrow> string \<Rightarrow> string \<Rightarrow> string \<Rightarrow> string result" where
  "EncodeStoredCredential v mode botToken webhookURL channelID =
     (let mode = lower_text (trim_space mode); botToken = trim_space botToken; webhookURL = trim_space webhookURL;
          channelID = trim_space channelID in
      if botToken = [] then Inl (ErrMsg ''Discord bot token is required'')
      else if mode = [] \<or> mode = ''managed'' then
        (if webhookURL \<noteq> [] \<or> channelID \<noteq> []
         then Inl (ErrMsg ''managed Discord webhook mode does not accept an explicit webhook URL or channel ID'')
         else Inr botToken)
      else if mode \<noteq> ''webhook'' then Inl (ErrMsg ''unsupported Discord integration mode'')
      else if channelID = [] then Inl (ErrMsg ''Discord explicit webhook mode requires a channel ID'')
      else bind_res (ParseWebhookURL v webhookURL) (\<lambda>_. Inr (cv_encode_credential v
        \<lparr>sd_Version = 1, sd_BotToken = botToken, sd_WebhookURL = webhookURL, sd_ChannelID = channelID\<rparr>)))"

definition DecodeStoredCredential :: "ConsoleEnv \<Rightarrow> string \<Rightarrow> string \<Rightarrow> StoredCredential result" where
  "DecodeStoredCredential v mode raw =
     (let mode = lower_text (trim_space mode) in
      if mode = [] \<or> mode = ''managed'' then
        (if trim_space raw = [] then Inl (ErrMsg ''Discord bot token is required'')
         else Inr \<lparr>sd_Version = 1, sd_BotToken = trim_space raw, sd_WebhookURL = [], sd_ChannelID = []\<rparr>)
      else if mode \<noteq> ''webhook'' then Inl (ErrMsg ''unsupported Discord integration mode'')
      else case cv_decode_credential v raw of
        None \<Rightarrow> Inl (ErrMsg ''decode Discord webhook credential'')
      | Some c \<Rightarrow>
          (let c = c\<lparr>sd_BotToken := trim_space (sd_BotToken c), sd_WebhookURL := trim_space (sd_WebhookURL c),
                     sd_ChannelID := trim_space (sd_ChannelID c)\<rparr> in
           if sd_BotToken c = [] \<or> sd_ChannelID c = [] then Inl (ErrMsg ''Discord webhook credential is incomplete'')
           else bind_res (ParseWebhookURL v (sd_WebhookURL c)) (\<lambda>_. Inr c)))"

subsection \<open>The table of connections\<close>

definition control_ValidateConnectionID :: "string \<Rightarrow> gerr option" where
  "control_ValidateConnectionID i =
     (let i = trim_space i in
      or_else (fail_if (i = []) ''connection id is required'') (fail_if (\<not> match_endpoint i) ''connection id must match''))"

definition NewConnectionID :: "ConsoleEnv \<Rightarrow> Console \<Rightarrow> string option \<times> Console" where
  "NewConnectionID v k =
     (case draw (me_accounts (cv_members v)) 16 (mb_accounts (co_members k)) of
        (b, a) \<Rightarrow> (map_option (\<lambda>b. ''conn_'' @ hex_encode b) b, k\<lparr>co_members := (co_members k)\<lparr>mb_accounts := a\<rparr>\<rparr>))"

definition connection_Validate :: "ConnectionRow \<Rightarrow> gerr option" where
  "connection_Validate c =
     or_else (control_ValidateConnectionID (cn_ID c))
    (or_else (ValidateIntegrationMode (cn_Transport c) (cn_IntegrationMode c))
    (or_else
      (if cn_Transport c = ''whatsapp'' then
         or_else (if cn_WhatsAppDeviceName c = [] then None else ValidateWhatsAppDeviceName (cn_WhatsAppDeviceName c))
           (fail_if (cn_EncryptedCredential c \<noteq> [] \<or> cn_CredentialNonce c \<noteq> [])
             ''whatsapp connections must not store credentials'')
       else if cn_Transport c = ''discord'' \<or> cn_Transport c = ''telegram'' then
         fail_if (cn_EncryptedCredential c = [] \<or> cn_CredentialNonce c = []) ''connections require encrypted credentials''
       else Some (ErrMsg ''invalid transport: must be whatsapp, discord, or telegram''))
    (or_else (fail_if (trim_space (cn_Label c) = []) ''connection label is required'')
      (fail_if (cn_CredentialKeyVersion c < 1) ''credential key version must be at least 1''))))"

definition connection_row_ok :: "ConnectionRow \<Rightarrow> bool" where
  "connection_row_ok c =
     (transport_IsValid (cn_Transport c) \<and> 0 < sql_length (cn_Label c) \<and>
      (if cn_Transport c = ''whatsapp'' then cn_EncryptedCredential c = [] \<and> cn_CredentialNonce c = []
       else cn_EncryptedCredential c \<noteq> [] \<and> cn_CredentialNonce c \<noteq> []))"

definition creator_known :: "Members \<Rightarrow> ConnectionRow \<Rightarrow> bool" where
  "creator_known m c =
     (case cn_CreatedBy c of None \<Rightarrow> True | Some u \<Rightarrow> has_key us_ID u (ac_users (mb_accounts m)))"

definition insert_connection :: "ConnectionRow \<Rightarrow> Console \<Rightarrow> Console result" where
  "insert_connection c k =
     (if \<not> mb_open (co_members k) then Inl ErrConnDone
      else constraint (\<not> has_key cn_ID (cn_ID c) (co_connections k)) ''unique''
        (constraint (connection_row_ok c) ''check''
        (constraint (creator_known (co_members k) c) ''foreign key''
          (Inr (k\<lparr>co_connections := co_connections k @ [c]\<rparr>)))))"

definition CreateConnection :: "int \<Rightarrow> ConnectionRow \<Rightarrow> Console \<Rightarrow> Console result" where
  "CreateConnection now c k =
     (let c = (if cn_CredentialKeyVersion c = 0 then c\<lparr>cn_CredentialKeyVersion := 1\<rparr> else c) in
      try_err (ValidateIntegrationMode (cn_Transport c) (cn_IntegrationMode c))
        (let c = c\<lparr>cn_IntegrationMode := NormalizeIntegrationMode (cn_Transport c) (cn_IntegrationMode c)\<rparr> in
         try_err (connection_Validate c)
           (let c = (if cn_CreatedAt c = 0 then c\<lparr>cn_CreatedAt := now\<rparr> else c);
                c = (if cn_UpdatedAt c = 0 then c\<lparr>cn_UpdatedAt := now\<rparr> else c)
            in wrap_res ''insert connection'' (insert_connection c k))))"

definition control_GetConnection :: "string \<Rightarrow> Console \<Rightarrow> ConnectionRow result" where
  "control_GetConnection i k =
     (if \<not> mb_open (co_members k) then Inl (ErrWrap ''query connection'' ErrConnDone)
      else case find_connection k i of
        None \<Rightarrow> Inl (ErrMsg ''connection not found'')
      | Some c \<Rightarrow> Inr (c\<lparr>cn_IntegrationMode := NormalizeIntegrationMode (cn_Transport c) (cn_IntegrationMode c)\<rparr>))"

definition control_ListConnections :: "Console \<Rightarrow> ConnectionRow list result" where
  "control_ListConnections k =
     (if \<not> mb_open (co_members k) then Inl ErrConnDone
      else Inr (map (\<lambda>c. c\<lparr>cn_IntegrationMode := NormalizeIntegrationMode (cn_Transport c) (cn_IntegrationMode c)\<rparr>)
        (sort_key cn_ID (co_connections k))))"

definition control_DeleteConnection :: "string \<Rightarrow> Console \<Rightarrow> gerr option \<times> Console" where
  "control_DeleteConnection i k =
     (if \<not> mb_open (co_members k) then (Some (ErrWrap ''delete connection'' ErrConnDone), k)
      else if find_connection k i = None then (Some (ErrMsg ''connection not found''), k)
      else (None, k\<lparr>co_connections := delete_where (\<lambda>c. cn_ID c = i) (co_connections k)\<rparr>))"

definition control_UpdateConnection :: "int \<Rightarrow> ConnectionRow \<Rightarrow> Console \<Rightarrow> gerr option \<times> Console" where
  "control_UpdateConnection now c k =
     (let c' = c\<lparr>cn_IntegrationMode := NormalizeIntegrationMode (cn_Transport c) (cn_IntegrationMode c)\<rparr> in
      case or_else (ValidateIntegrationMode (cn_Transport c) (cn_IntegrationMode c)) (connection_Validate c') of
        Some e \<Rightarrow> (Some e, k)
      | None \<Rightarrow>
          if \<not> mb_open (co_members k) then (Some (ErrWrap ''update connection'' ErrConnDone), k)
          else case find_connection k (cn_ID c) of
            None \<Rightarrow> (Some (ErrMsg ''connection not found''), k)
          | Some old \<Rightarrow>
              let row = c'\<lparr>cn_Transport := cn_Transport old, cn_CreatedBy := cn_CreatedBy old,
                    cn_CreatedAt := cn_CreatedAt old, cn_UpdatedAt := now\<rparr> in
              if \<not> connection_row_ok row then (Some (ErrWrap ''update connection'' (ErrConstraint ''check'')), k)
              else (None, k\<lparr>co_connections := update_where (\<lambda>x. cn_ID x = cn_ID c) (\<lambda>x. row) (co_connections k)\<rparr>))"

definition ImportWhatsAppDeviceNames :: "string \<Rightarrow> Console \<Rightarrow> gerr option \<times> Console" where
  "ImportWhatsAppDeviceNames name k =
     (let name = (if name = [] then ''message-sync'' else name) in
      case ValidateWhatsAppDeviceName name of
        Some e \<Rightarrow> (Some e, k)
      | None \<Rightarrow>
          if \<not> mb_open (co_members k) then (Some ErrConnDone, k)
          else (None, k\<lparr>co_connections := update_where (\<lambda>c. cn_Transport c = ''whatsapp'' \<and> cn_WhatsAppDeviceName c = [])
            (\<lambda>c. c\<lparr>cn_WhatsAppDeviceName := name\<rparr>) (co_connections k)\<rparr>))"

subsection \<open>Handlers\<close>

record CreateConnectionRequest =
  cc_WhatsAppDeviceName :: string
  cc_ID :: string
  cc_Transport :: string
  cc_Label :: string
  cc_Enabled :: "bool option"
  cc_Token :: string
  cc_IntegrationMode :: string
  cc_WebhookURL :: string
  cc_ChannelID :: string

record UpdateConnectionRequest =
  uc_WhatsAppDeviceName :: "string option"
  uc_Label :: "string option"
  uc_Enabled :: "bool option"
  uc_Token :: "string option"
  uc_IntegrationMode :: "string option"

definition handleListConnections :: "Console \<Rightarrow> console_reply" where
  "handleListConnections k =
     (if \<not> mb_open (co_members k) then KError 500 ''failed to query connections''
      else KConnections (map connectionDTOFromControl (sort_key cn_ID (co_connections k))))"

text \<open>The connection that a path names, or the answer when there is none.\<close>

definition named_connection :: "string \<Rightarrow> string \<Rightarrow> Console \<Rightarrow> console_reply + ConnectionRow" where
  "named_connection trouble path k =
     (let i = trim_space path in
      if i = [] then Inl (KError 400 ''connection id is required'')
      else if \<not> mb_open (co_members k) then Inl (KError 500 trouble)
      else case find_connection k i of
        None \<Rightarrow> Inl (KError 404 ''connection not found'')
      | Some c \<Rightarrow> Inr c)"

definition handleGetConnection :: "string \<Rightarrow> Console \<Rightarrow> console_reply" where
  "handleGetConnection path k =
     (case named_connection ''failed to query connection'' path k of Inl reply \<Rightarrow> reply | Inr c \<Rightarrow> KConnection 200 (connectionDTOFromControl c))"

definition audit_console :: "ConsoleEnv \<Rightarrow> Principal option \<Rightarrow> string \<Rightarrow> string \<Rightarrow> Console \<Rightarrow> Console" where
  "audit_console v p action target k =
     k\<lparr>co_members := log_action (cv_members v) p action target (co_members k)\<rparr>"

definition check_device_name :: "string \<Rightarrow> string \<Rightarrow> console_reply option" where
  "check_device_name transport name =
     (if transport = ''whatsapp'' then bad_request (ValidateWhatsAppDeviceName (if name = [] then ''message-sync'' else name))
      else refuse_if (name \<noteq> []) 400 ''whatsappDeviceName requires a WhatsApp connection'')"

definition credential_of :: "ConsoleEnv \<Rightarrow> string \<Rightarrow> CreateConnectionRequest \<Rightarrow> console_reply + string" where
  "credential_of v mode req =
     (let transport = trim_space (cc_Transport req); token = trim_space (cc_Token req) in
      if transport = ''whatsapp'' then
        (if token \<noteq> [] then Inl (KError 400 ''whatsapp connections must not store credentials'') else Inr [])
      else if transport = ''discord'' then
        (case EncodeStoredCredential v mode token (trim_space (cc_WebhookURL req)) (trim_space (cc_ChannelID req)) of
           Inl e \<Rightarrow> Inl (KFault 400 e) | Inr c \<Rightarrow> Inr c)
      else if mode = ''bot'' then
        (if token = [] then Inl (KError 400 ''telegram connections require a bot token'') else Inr token)
      else if token \<noteq> [] then Inl (KError 400 ''mtproto connections do not accept bot tokens'')
      else Inr ''{\"version\":1}'')"

definition seal_credential :: "ConsoleEnv \<Rightarrow> string \<Rightarrow> console_reply + string \<times> string" where
  "seal_credential v credential =
     (if credential = [] then Inr ([], [])
      else case cv_encrypt v of
        None \<Rightarrow> Inl (KError 500 ''credential cipher unavailable'')
      | Some f \<Rightarrow>
          (case f credential of None \<Rightarrow> Inl (KError 500 ''failed to secure credentials'') | Some s \<Rightarrow> Inr s))"

definition store_connection :: "ConsoleEnv \<Rightarrow> ConnectionRow \<Rightarrow> Console \<Rightarrow> Console result" where
  "store_connection v c k =
     (if cv_owned v then CreateConnection (me_now (cv_members v)) c k else insert_connection c k)"

definition choose_id :: "ConsoleEnv \<Rightarrow> string \<Rightarrow> Console \<Rightarrow> (console_reply + string) \<times> Console" where
  "choose_id v requested k =
     (if requested = [] then
        (case NewConnectionID v k of
           (None, k) \<Rightarrow> (Inl (KError 500 ''failed to generate connection id''), k) | (Some i, k) \<Rightarrow> (Inr i, k))
      else case control_ValidateConnectionID requested of
        Some e \<Rightarrow> (Inl (KFault 400 e), k) | None \<Rightarrow> (Inr requested, k))"

definition handleCreateConnection ::
  "ConsoleEnv \<Rightarrow> Principal option \<Rightarrow> CreateConnectionRequest option \<Rightarrow> Console \<Rightarrow> console_reply \<times> Console" where
  "handleCreateConnection v p body k =
     (case body of
        None \<Rightarrow> (KError 400 ''invalid request body'', k)
      | Some req \<Rightarrow>
          let transport = trim_space (cc_Transport req); label = trim_space (cc_Label req);
              mode = NormalizeIntegrationMode transport (trim_space (cc_IntegrationMode req)) in
          checked
            [refuse_if (\<not> transport_IsValid transport) 400 ''invalid transport: must be whatsapp, discord, or telegram'',
             bad_request (ValidateIntegrationMode transport (trim_space (cc_IntegrationMode req))),
             check_device_name transport (cc_WhatsAppDeviceName req),
             refuse_if (label = []) 400 ''connection label is required''] k
            (case choose_id v (trim_space (cc_ID req)) k of
               (Inl reply, k) \<Rightarrow> (reply, k)
             | (Inr i, k) \<Rightarrow>
                 checked
                   [refuse_if (\<not> mb_open (co_members k)) 500 ''database error'',
                    refuse_if (find_connection k i \<noteq> None) 409 ''connection already exists''] k
                   (case credential_of v mode req of
                      Inl reply \<Rightarrow> (reply, k)
                    | Inr credential \<Rightarrow>
                        (case seal_credential v credential of
                           Inl reply \<Rightarrow> (reply, k)
                         | Inr (encrypted, nonce) \<Rightarrow>
                             let now = me_now (cv_members v);
                                 c = \<lparr>cn_WhatsAppDeviceName =
                                       (if transport = ''whatsapp'' \<and> cc_WhatsAppDeviceName req = [] then ''message-sync''
                                        else cc_WhatsAppDeviceName req),
                                     cn_ID = i, cn_Transport = transport, cn_IntegrationMode = mode, cn_Label = label,
                                     cn_Enabled = (case cc_Enabled req of None \<Rightarrow> True | Some b \<Rightarrow> b),
                                     cn_EncryptedCredential = encrypted, cn_CredentialNonce = nonce,
                                     cn_CredentialKeyVersion = 1,
                                     cn_CreatedBy = (if principal_id p = [] then None else Some (principal_id p)),
                                     cn_CreatedAt = now, cn_UpdatedAt = now\<rparr>
                             in (case store_connection v c k of
                                   Inl e \<Rightarrow> (KError 500 ''failed to create connection'', k)
                                 | Inr k \<Rightarrow>
                                     (KConnection 201 (connectionDTOFromControl c),
                                      snd (notifyConfigChange v (audit_console v p ''connection_created'' i k))))))))"

text \<open>The new credential of a request with a token.\<close>

definition replaced_credential :: "ConsoleEnv \<Rightarrow> ConnectionRow \<Rightarrow> string \<Rightarrow> console_reply + string \<times> string" where
  "replaced_credential v c token =
     (let mode = NormalizeIntegrationMode (cn_Transport c) (cn_IntegrationMode c); token = trim_space token in
      if cn_Transport c = ''telegram'' \<and> mode = ''mtproto''
      then Inl (KError 400 ''mtproto credentials are managed through Telegram authentication endpoints'')
      else if cn_Transport c = ''whatsapp'' then Inl (KError 400 ''whatsapp connections must not store credentials'')
      else if token = [] then Inl (KError 400 ''token cannot be empty'')
      else if cv_encrypt v = None then Inl (KError 500 ''credential cipher unavailable'')
      else if cn_Transport c = ''discord'' then
        (case cv_decrypt v (cn_EncryptedCredential c) (cn_CredentialNonce c) of
           None \<Rightarrow> Inl (KError 500 ''failed to read existing Discord credentials'')
         | Some raw \<Rightarrow>
             (case DecodeStoredCredential v mode raw of
                Inl e \<Rightarrow> Inl (KError 500 ''failed to read existing Discord credentials'')
              | Inr current \<Rightarrow>
                  (case EncodeStoredCredential v mode token (sd_WebhookURL current) (sd_ChannelID current) of
                     Inl e \<Rightarrow> Inl (KFault 400 e) | Inr credential \<Rightarrow> seal_credential v credential)))
      else seal_credential v token)"

definition check_mode :: "ConnectionRow \<Rightarrow> string option \<Rightarrow> console_reply option" where
  "check_mode c requested =
     (case requested of
        None \<Rightarrow> None
      | Some mode \<Rightarrow>
          (case ValidateIntegrationMode (cn_Transport c) (trim_space mode) of
             Some e \<Rightarrow> Some (KFault 400 e)
           | None \<Rightarrow>
               refuse_if (NormalizeIntegrationMode (cn_Transport c) (trim_space mode) \<noteq>
                   NormalizeIntegrationMode (cn_Transport c) (cn_IntegrationMode c)) 409
                 ''connection integration mode cannot be changed in place; create a new connection and reassign endpoints''))"

definition update_connection :: "ConnectionRow \<Rightarrow> Console \<Rightarrow> Console result" where
  "update_connection c k =
     constraint (connection_row_ok c) ''check''
       (Inr (k\<lparr>co_connections := update_where (\<lambda>x. cn_ID x = cn_ID c)
          (\<lambda>x. x\<lparr>cn_Label := cn_Label c, cn_Enabled := cn_Enabled c, cn_EncryptedCredential := cn_EncryptedCredential c,
             cn_CredentialNonce := cn_CredentialNonce c, cn_CredentialKeyVersion := cn_CredentialKeyVersion c,
             cn_UpdatedAt := cn_UpdatedAt c, cn_WhatsAppDeviceName := cn_WhatsAppDeviceName c\<rparr>) (co_connections k)\<rparr>))"

text \<open>When the runtime does not take the change, the row is written back as it was.\<close>

definition apply_connection ::
  "ConsoleEnv \<Rightarrow> Principal option \<Rightarrow> bool \<Rightarrow> ConnectionRow \<Rightarrow> ConnectionRow \<Rightarrow> Console \<Rightarrow> console_reply \<times> Console" where
  "apply_connection v p replaced old c k =
     (case update_connection c k of
        Inl e \<Rightarrow> (KError 500 ''failed to update connection'', k)
      | Inr k \<Rightarrow>
          (case notifyConfigChange v k of
             (False, k) \<Rightarrow>
               (KError 503 (if replaced then ''replacement connection could not be started''
                            else ''connection could not be reloaded''),
                case update_connection old k of Inl e \<Rightarrow> k | Inr k \<Rightarrow> k)
           | (True, k) \<Rightarrow>
               (KConnection 200 (connectionDTOFromControl c),
                if replaced then audit_console v p ''connection_credential_replaced'' (cn_ID c) k else k)))"

definition handleUpdateConnection ::
  "ConsoleEnv \<Rightarrow> Principal option \<Rightarrow> string \<Rightarrow> UpdateConnectionRequest option \<Rightarrow> Console \<Rightarrow> console_reply \<times> Console" where
  "handleUpdateConnection v p path body k =
     (if trim_space path = [] then (KError 400 ''connection id is required'', k)
      else case body of
        None \<Rightarrow> (KError 400 ''invalid request body'', k)
      | Some req \<Rightarrow>
          (case named_connection ''database error'' path k of
             Inl reply \<Rightarrow> (reply, k)
           | Inr old \<Rightarrow>
               checked
                 [check_mode old (uc_IntegrationMode req),
                  (case uc_WhatsAppDeviceName req of
                     None \<Rightarrow> None
                   | Some name \<Rightarrow>
                       if cn_Transport old \<noteq> ''whatsapp'' then Some (KError 400 ''device name requires a WhatsApp connection'')
                       else bad_request (ValidateWhatsAppDeviceName name)),
                  (case uc_Label req of
                     None \<Rightarrow> None
                   | Some l \<Rightarrow> refuse_if (trim_space l = []) 400 ''connection label cannot be empty'')] k
                 (let c = old
                        \<lparr>cn_WhatsAppDeviceName :=
                           (case uc_WhatsAppDeviceName req of None \<Rightarrow> cn_WhatsAppDeviceName old | Some name \<Rightarrow> name),
                         cn_Label := (case uc_Label req of None \<Rightarrow> cn_Label old | Some l \<Rightarrow> trim_space l),
                         cn_Enabled := (case uc_Enabled req of None \<Rightarrow> cn_Enabled old | Some b \<Rightarrow> b),
                         cn_UpdatedAt := me_now (cv_members v)\<rparr>;
                      k = (if cn_Enabled c = cn_Enabled old then k
                           else audit_console v p
                             (if cn_Enabled c then ''connection_enabled'' else ''connection_disabled'') (trim_space path) k)
                  in (case uc_Token req of
                        None \<Rightarrow> apply_connection v p False old c k
                      | Some token \<Rightarrow>
                          (case replaced_credential v c token of
                             Inl reply \<Rightarrow> (reply, k)
                           | Inr (encrypted, nonce) \<Rightarrow>
                               apply_connection v p True old (c\<lparr>cn_EncryptedCredential := encrypted,
                                 cn_CredentialNonce := nonce, cn_CredentialKeyVersion := 1\<rparr>) k)))))"

text \<open>A count of endpoints that fails does not keep the connection.\<close>

definition handleDeleteConnection ::
  "ConsoleEnv \<Rightarrow> Principal option \<Rightarrow> string \<Rightarrow> Console \<Rightarrow> console_reply \<times> Console" where
  "handleDeleteConnection v p path k =
     (case named_connection ''database error'' path k of
        Inl reply \<Rightarrow> (reply, k)
      | Inr c \<Rightarrow>
          if co_answers k \<and> list_ex (\<lambda>r. br_ConnectionID r = cn_ID c) (rd_endpoints (co_db k))
          then (KError 409 ''cannot delete connection referenced by endpoints'', k)
          else (KOk ''deleted'',
            snd (notifyConfigChange v (audit_console v p ''connection_deleted'' (cn_ID c)
              (k\<lparr>co_stopped := co_stopped k @ [cn_ID c],
                 co_connections := delete_where (\<lambda>x. cn_ID x = cn_ID c) (co_connections k)\<rparr>)))))"

definition handleGetConnectionStatus :: "ConsoleEnv \<Rightarrow> string \<Rightarrow> Console \<Rightarrow> console_reply" where
  "handleGetConnectionStatus v path k =
     (case named_connection ''database error'' path k of
        Inl reply \<Rightarrow> reply
      | Inr c \<Rightarrow>
          if \<not> cn_Enabled c then KStatus (cn_ID c) (cn_Transport c) ''disabled'' False
          else (case cv_runtime v ''status'' (cn_ID c) of
            RuntimeFailed e \<Rightarrow> KStatus (cn_ID c) (cn_Transport c) ''stopped'' True
          | RuntimeOk status \<Rightarrow> KRuntime status))"

definition handleGetConnectionDiscovery :: "ConsoleEnv \<Rightarrow> string \<Rightarrow> Console \<Rightarrow> console_reply" where
  "handleGetConnectionDiscovery v path k =
     (case named_connection ''database error'' path k of
        Inl reply \<Rightarrow> reply
      | Inr c \<Rightarrow>
          if \<not> cn_Enabled c then KError 400 ''connection is disabled''
          else (case cv_runtime v ''discovery'' (cn_ID c) of
            RuntimeFailed e \<Rightarrow> KError 500 ''failed to discover connection targets''
          | RuntimeOk targets \<Rightarrow> KRuntime targets))"

definition handleWhatsAppConnectionPair ::
  "ConsoleEnv \<Rightarrow> Principal option \<Rightarrow> string \<Rightarrow> Console \<Rightarrow> console_reply \<times> Console" where
  "handleWhatsAppConnectionPair v p path k =
     (case named_connection ''database error'' path k of
        Inl reply \<Rightarrow> (reply, k)
      | Inr c \<Rightarrow>
          checked
            [refuse_if (cn_Transport c \<noteq> ''whatsapp'') 400 ''not a WhatsApp connection'',
             refuse_if (\<not> cn_Enabled c) 400 ''connection is disabled''] k
            (case cv_runtime v ''pair'' (cn_ID c) of
               RuntimeFailed e \<Rightarrow>
                 (if index_of e ''already in progress'' \<noteq> None
                  then KError 409 ''WhatsApp pairing already in progress on another connection''
                  else KError 500 ''failed to initiate pairing'', k)
             | RuntimeOk code \<Rightarrow> (KRuntime code, audit_console v p ''whatsapp_pair_started'' (cn_ID c) k)))"

definition handleWhatsAppConnectionCancelPair ::
  "ConsoleEnv \<Rightarrow> Principal option \<Rightarrow> string \<Rightarrow> Console \<Rightarrow> console_reply \<times> Console" where
  "handleWhatsAppConnectionCancelPair v p path k =
     (case named_connection ''database error'' path k of
        Inl reply \<Rightarrow> (reply, k)
      | Inr c \<Rightarrow>
          if cn_Transport c \<noteq> ''whatsapp'' then (KError 400 ''not a WhatsApp connection'', k)
          else (case cv_runtime v ''cancel'' (cn_ID c) of
            RuntimeFailed e \<Rightarrow> (KError 500 ''failed to cancel pairing'', k)
          | RuntimeOk _ \<Rightarrow> (KOk ''unpaired'', audit_console v p ''whatsapp_pair_cancelled'' (cn_ID c) k)))"

definition handleWhatsAppConnectionLogout ::
  "ConsoleEnv \<Rightarrow> Principal option \<Rightarrow> string \<Rightarrow> Console \<Rightarrow> console_reply \<times> Console" where
  "handleWhatsAppConnectionLogout v p path k =
     (case named_connection ''database error'' path k of
        Inl reply \<Rightarrow> (reply, k)
      | Inr c \<Rightarrow>
          if cn_Transport c = ''telegram'' then
            (if NormalizeIntegrationMode (cn_Transport c) (cn_IntegrationMode c) \<noteq> ''mtproto''
             then (KError 400 ''logout is not supported for Telegram Bot API connections'', k)
             else case cv_runtime v ''logout'' (cn_ID c) of
               RuntimeFailed e \<Rightarrow> (KError 400 e, k)
             | RuntimeOk _ \<Rightarrow> (KOk ''disconnected'', audit_console v p ''telegram_mtproto_logged_out'' (cn_ID c) k))
          else if cn_Transport c \<noteq> ''whatsapp'' then (KError 400 ''not a WhatsApp connection'', k)
          else (case cv_runtime v ''logout'' (cn_ID c) of
            RuntimeFailed e \<Rightarrow> (KError 500 ''failed to logout whatsapp connection'', k)
          | RuntimeOk _ \<Rightarrow> (KOk ''unpaired'', audit_console v p ''whatsapp_logged_out'' (cn_ID c) k)))"

end
