(* ===== verification/ConsoleRoutes.thy ===== *)
theory ConsoleRoutes
  imports ConsoleConnections
begin

text \<open>
  The routes to the handlers of \<open>Console\<close> and \<open>ConsoleConnections\<close> (\<^verbatim>\<open>internal/api/api.go\<close>) behind the check of sessions
  and roles, and the steps by which the console changes what is routed.
\<close>

datatype console_ask =
    KaListEndpoints
  | KaGetEndpoint string
  | KaCreateEndpoint "CreateEndpointRequest option"
  | KaUpdateEndpoint string "UpdateEndpointRequest option"
  | KaDeleteEndpoint string
  | KaListSets
  | KaGetSet string
  | KaCreateSet "CreateSyncSetRequest option"
  | KaUpdateSet string "UpdateSyncSetRequest option"
  | KaDeleteSet string
  | KaGetConfig
  | KaUpdateConfig "bool option option"
  | KaListConnections
  | KaGetConnection string
  | KaCreateConnection "CreateConnectionRequest option"
  | KaUpdateConnection string "UpdateConnectionRequest option"
  | KaDeleteConnection string
  | KaStatus string
  | KaDiscovery string
  | KaPair string
  | KaCancelPair string
  | KaLogout string

text \<open>The connections can be changed with \<^verbatim>\<open>PUT\<close> and with \<^verbatim>\<open>PATCH\<close>; both are changes to the check of roles.\<close>

fun console_method :: "console_ask \<Rightarrow> string" where
  "console_method (KaCreateEndpoint body) = ''POST''"
| "console_method (KaUpdateEndpoint alias body) = ''PUT''"
| "console_method (KaDeleteEndpoint alias) = ''DELETE''"
| "console_method (KaCreateSet body) = ''POST''"
| "console_method (KaUpdateSet sid body) = ''PUT''"
| "console_method (KaDeleteSet sid) = ''DELETE''"
| "console_method (KaUpdateConfig body) = ''PUT''"
| "console_method (KaCreateConnection body) = ''POST''"
| "console_method (KaUpdateConnection cid body) = ''PUT''"
| "console_method (KaDeleteConnection cid) = ''DELETE''"
| "console_method (KaPair cid) = ''POST''"
| "console_method (KaCancelPair cid) = ''DELETE''"
| "console_method (KaLogout cid) = ''POST''"
| "console_method q = ''GET''"

fun console_path :: "console_ask \<Rightarrow> string" where
  "console_path KaListEndpoints = ''/api/endpoints''"
| "console_path (KaGetEndpoint alias) = ''/api/endpoints/'' @ alias"
| "console_path (KaCreateEndpoint body) = ''/api/endpoints''"
| "console_path (KaUpdateEndpoint alias body) = ''/api/endpoints/'' @ alias"
| "console_path (KaDeleteEndpoint alias) = ''/api/endpoints/'' @ alias"
| "console_path KaListSets = ''/api/sync-sets''"
| "console_path (KaGetSet sid) = ''/api/sync-sets/'' @ sid"
| "console_path (KaCreateSet body) = ''/api/sync-sets''"
| "console_path (KaUpdateSet sid body) = ''/api/sync-sets/'' @ sid"
| "console_path (KaDeleteSet sid) = ''/api/sync-sets/'' @ sid"
| "console_path KaGetConfig = ''/api/config''"
| "console_path (KaUpdateConfig body) = ''/api/config''"
| "console_path KaListConnections = ''/api/connections''"
| "console_path (KaGetConnection cid) = ''/api/connections/'' @ cid"
| "console_path (KaCreateConnection body) = ''/api/connections''"
| "console_path (KaUpdateConnection cid body) = ''/api/connections/'' @ cid"
| "console_path (KaDeleteConnection cid) = ''/api/connections/'' @ cid"
| "console_path (KaStatus cid) = ''/api/connections/'' @ cid @ ''/status''"
| "console_path (KaDiscovery cid) = ''/api/connections/'' @ cid @ ''/discovery''"
| "console_path (KaPair cid) = ''/api/connections/'' @ cid @ ''/pair''"
| "console_path (KaCancelPair cid) = ''/api/connections/'' @ cid @ ''/pair''"
| "console_path (KaLogout cid) = ''/api/connections/'' @ cid @ ''/logout''"

fun console_dispatch :: "ConsoleEnv \<Rightarrow> Principal option \<Rightarrow> console_ask \<Rightarrow> Console \<Rightarrow> console_reply \<times> Console" where
  "console_dispatch v p KaListEndpoints k = (handleListEndpoints k, k)"
| "console_dispatch v p (KaGetEndpoint alias) k = (handleGetEndpoint alias k, k)"
| "console_dispatch v p (KaCreateEndpoint body) k = handleCreateEndpoint v body k"
| "console_dispatch v p (KaUpdateEndpoint alias body) k = handleUpdateEndpoint v alias body k"
| "console_dispatch v p (KaDeleteEndpoint alias) k = handleDeleteEndpoint v alias k"
| "console_dispatch v p KaListSets k = (handleListSyncSets k, k)"
| "console_dispatch v p (KaGetSet sid) k = (handleGetSyncSet sid k, k)"
| "console_dispatch v p (KaCreateSet body) k = handleCreateSyncSet v p body k"
| "console_dispatch v p (KaUpdateSet sid body) k = handleUpdateSyncSet v p sid body k"
| "console_dispatch v p (KaDeleteSet sid) k = handleDeleteSyncSet v sid k"
| "console_dispatch v p KaGetConfig k = (handleGetConfig k, k)"
| "console_dispatch v p (KaUpdateConfig body) k = handleUpdateConfig v body k"
| "console_dispatch v p KaListConnections k = (handleListConnections k, k)"
| "console_dispatch v p (KaGetConnection cid) k = (handleGetConnection cid k, k)"
| "console_dispatch v p (KaCreateConnection body) k = handleCreateConnection v p body k"
| "console_dispatch v p (KaUpdateConnection cid body) k = handleUpdateConnection v p cid body k"
| "console_dispatch v p (KaDeleteConnection cid) k = handleDeleteConnection v p cid k"
| "console_dispatch v p (KaStatus cid) k = (handleGetConnectionStatus v cid k, k)"
| "console_dispatch v p (KaDiscovery cid) k = (handleGetConnectionDiscovery v cid k, k)"
| "console_dispatch v p (KaPair cid) k = handleWhatsAppConnectionPair v p cid k"
| "console_dispatch v p (KaCancelPair cid) k = handleWhatsAppConnectionCancelPair v p cid k"
| "console_dispatch v p (KaLogout cid) k = handleWhatsAppConnectionLogout v p cid k"

text \<open>The check in front of these routes is that of \<open>authMiddleware\<close>.\<close>

definition with_accounts :: "Accounts \<Rightarrow> Console \<Rightarrow> Console" where
  "with_accounts a k = k\<lparr>co_members := (co_members k)\<lparr>mb_accounts := a\<rparr>\<rparr>"

definition console_serve ::
  "ConsoleEnv \<Rightarrow> HttpRequest \<Rightarrow> console_ask \<Rightarrow> Console \<Rightarrow> console_reply \<times> Console" where
  "console_serve v r q k =
     (if open_path (console_path q) then console_dispatch v None q k
      else case session_principal (me_accounts (cv_members v)) (extractToken r) (mb_accounts (co_members k)) of
        (None, a) \<Rightarrow> (KError 401 ''unauthorized'', with_accounts a k)
      | (Some p, a) \<Rightarrow>
          if requiresAdmin (console_method q) (console_path q) \<and> pp_Role p \<noteq> ''admin''
          then (KError 403 ''forbidden'', with_accounts a k)
          else console_dispatch v (Some p) q (with_accounts a k))"

text \<open>
  What changes the tables of the console: requests, a Telegram group that becomes a supergroup, and what happens to
  the applications.
\<close>

lemma console_not_open [simp]: "\<not> open_path (console_path q)"
  by (cases q) (simp_all add: open_path_def has_prefix_def)

inductive console_step :: "Console \<Rightarrow> Console \<Rightarrow> bool" where
  served: "console_serve v r q k = (reply, k') \<Longrightarrow> console_step k k'"
| migrated: "MigrateTelegramEndpoint (co_db k) alias connectionID old new = (e, d) \<Longrightarrow> console_step k (k\<lparr>co_db := d\<rparr>)"
| applications: "member_step (co_members k) m \<Longrightarrow> console_step k (k\<lparr>co_members := m\<rparr>)"

inductive console_run :: "Console \<Rightarrow> Console \<Rightarrow> bool" where
  console_begin: "console_run k k"
| console_next: "console_run k k' \<Longrightarrow> console_step k' k'' \<Longrightarrow> console_run k k''"

inductive_cases console_stepE: "console_step k k'"

end
