(* ===== verification/ConsoleInvariant.thy ===== *)
theory ConsoleInvariant
  imports ConsoleRoutes
begin

text \<open>
  What holds of the routing tables and the connections whatever the console is asked: keys and foreign keys over both
  databases, and every endpoint belongs to a connection of its transport.
\<close>

subsection \<open>Statements on the routing tables\<close>

definition target_of :: "BindingRow \<Rightarrow> string \<times> string" where
  "target_of r = (br_Transport r, br_RemoteID r)"

definition targets_ok :: "RoutingDB \<Rightarrow> bool" where
  "targets_ok d \<longleftrightarrow> keys_ok target_of (rd_endpoints d)"

lemma routing_parts:
  assumes "routing_ok d"
  shows "keys_ok br_Alias (rd_endpoints d)" "keys_ok sr_ID (rd_sets d)" "db_ok (rd_tables d)"
    "t_endpoints (rd_tables d) = map endpoint_key (rd_endpoints d)" "t_sync_sets (rd_tables d) = map sr_ID (rd_sets d)"
  using assms by (simp_all add: routing_ok_def)

lemma routing_insert: "insert_binding row d = Inr d' \<Longrightarrow> routing_ok d \<Longrightarrow> routing_ok d'"
  by (auto simp: insert_binding_def constraint_Inr intro: routing_put_binding)

lemma rows_insert: "insert_binding row d = Inr d' \<Longrightarrow> rd_endpoints d' = rd_endpoints d @ [row]"
  by (auto simp: insert_binding_def put_binding_def constraint_Inr upsert_def)

lemma targets_insert: "insert_binding row d = Inr d' \<Longrightarrow> targets_ok d \<Longrightarrow> targets_ok d'"
proof -
  assume new: "insert_binding row d = Inr d'" and ok: "targets_ok d"
  have taken: "\<not> list_ex (\<lambda>r. br_Alias r \<noteq> br_Alias row \<and> br_Transport r = br_Transport row \<and>
      br_RemoteID r = br_RemoteID row) (rd_endpoints d)"
    and fresh: "br_Alias row \<notin> br_Alias ` set (rd_endpoints d)"
    using new by (auto simp: insert_binding_def put_binding_def constraint_Inr)
  have "target_of row \<noteq> target_of r" if r: "r \<in> set (rd_endpoints d)" for r
  proof -
    have "br_Alias r \<noteq> br_Alias row"
    proof
      assume same: "br_Alias r = br_Alias row"
      have "br_Alias row \<in> br_Alias ` set (rd_endpoints d)" unfolding same [symmetric] using r by (rule imageI)
      with fresh show False by simp
    qed
    with taken r show ?thesis unfolding list_ex_iff target_of_def by auto
  qed
  then have "target_of row \<notin> target_of ` set (rd_endpoints d)" by blast
  then show ?thesis
    using ok by (simp add: targets_ok_def rows_insert [OF new])
qed

lemma db_labels: "db_ok t \<Longrightarrow> db_ok (t\<lparr>t_labels := delete_where P (t_labels t)\<rparr>)"
  using db_ok_refs(3) [of t] by (intro db_ok_labels) (auto simp: db_ok_keys refer_def dest: db_ok_checks(2))

lemma routing_labels: "routing_ok d \<Longrightarrow> routing_ok (clear_labels P d)"
  using db_labels by (auto simp: routing_ok_def clear_labels_def)

lemma clear_labels_rows [simp]: "rd_endpoints (clear_labels P d) = rd_endpoints d" "rd_sets (clear_labels P d) = rd_sets d"
  by (simp_all add: clear_labels_def)

lemma routing_rename_messages:
  assumes "rename_messages a b d = Inr d'" "routing_ok d"
  shows "routing_ok d'"
proof -
  obtain copies reactions where new: "d' = d\<lparr>rd_tables := (rd_tables d)\<lparr>t_copies := copies, t_reactions := reactions\<rparr>\<rparr>"
    "keys_ok key_copy copies" "keys_ok key_copy2 copies" "keys_ok key_reaction reactions"
    "mc_CanonicalID ` set copies = mc_CanonicalID ` set (t_copies (rd_tables d))"
    "rx_CanonicalID ` set reactions = rx_CanonicalID ` set (t_reactions (rd_tables d))"
    using assms(1) unfolding rename_messages_def Let_def constraint_Inr by (auto simp: image_image)
  have "db_ok ((rd_tables d)\<lparr>t_copies := copies, t_reactions := reactions\<rparr>)"
    using routing_parts(3) [OF assms(2)] new(2-)
    by (simp add: db_ok_def pk_ok_def fk_ok_def checks_ok_def alias_ok_def refer_def)
  then show ?thesis
    using assms(2) by (simp add: routing_ok_def new(1))
qed

lemma rename_messages_rows: "rename_messages a b d = Inr d' \<Longrightarrow> rd_endpoints d' = rd_endpoints d \<and> rd_sets d' = rd_sets d"
  by (auto simp: rename_messages_def Let_def constraint_Inr)

text \<open>Renaming is injective on the keys that refer to an endpoint: none refers to the new alias yet.\<close>

lemma rename_inj:
  assumes "new = old \<or> new \<notin> A"
  shows "inj_on (rename_key old new) A"
proof (rule inj_onI)
  fix x y assume "x \<in> A" "y \<in> A" "rename_key old new x = rename_key old new y"
  then show "x = y"
    using assms by (metis rename_key_def)
qed

lemma keys_ok_map:
  assumes "keys_ok key rows" "\<And>x y. x \<in> set rows \<Longrightarrow> y \<in> set rows \<Longrightarrow> key' (f x) = key' (f y) \<Longrightarrow> key x = key y"
  shows "keys_ok key' (map f rows)"
proof -
  have "inj_on (key' \<circ> f) (set rows)"
  proof (rule inj_onI)
    fix x y assume "x \<in> set rows" "y \<in> set rows" "(key' \<circ> f) x = (key' \<circ> f) y"
    then have "key x = key y" by (intro assms(2)) simp_all
    with \<open>x \<in> set rows\<close> \<open>y \<in> set rows\<close> show "x = y" by (rule keys_ok_unique [OF assms(1)])
  qed
  moreover have "distinct rows"
    using assms(1) unfolding keys_ok_def distinct_map by blast
  ultimately show ?thesis
    unfolding keys_ok_def map_map distinct_map by blast
qed

text \<open>The tables after a rename, from what they were.\<close>

definition renamed_tables :: "(string \<Rightarrow> string) \<Rightarrow> EndpointRow list \<Rightarrow> tables \<Rightarrow> tables" where
  "renamed_tables f es t =
     t\<lparr>t_endpoints := es, t_labels := map (\<lambda>l. l\<lparr>lb_EndpointID := f (lb_EndpointID l)\<rparr>) (t_labels t),
       t_participants := map (\<lambda>p. p\<lparr>pt_EndpointID := f (pt_EndpointID p)\<rparr>) (t_participants t)\<rparr>"

lemma db_renamed:
  assumes "db_ok t" "inj_on f (ep_Alias ` set (t_endpoints t))" "ep_Alias ` set es = f ` ep_Alias ` set (t_endpoints t)"
  shows "db_ok (renamed_tables f es t)"
proof -
  have refs: "lb_EndpointID l \<in> ep_Alias ` set (t_endpoints t)" if "l \<in> set (t_labels t)" for l
    using db_ok_refs(3) [OF assms(1)] that unfolding refer_def by blast
  have refs2: "pt_EndpointID p \<in> ep_Alias ` set (t_endpoints t)" if "p \<in> set (t_participants t)" for p
    using assms(1) that unfolding db_ok_def fk_ok_def refer_def by blast
  have labels: "keys_ok key_label (map (\<lambda>l. l\<lparr>lb_EndpointID := f (lb_EndpointID l)\<rparr>) (t_labels t))"
  proof (rule keys_ok_map [OF db_ok_keys(5) [OF assms(1)]])
    fix x y assume "x \<in> set (t_labels t)" "y \<in> set (t_labels t)"
      "key_label (x\<lparr>lb_EndpointID := f (lb_EndpointID x)\<rparr>) = key_label (y\<lparr>lb_EndpointID := f (lb_EndpointID y)\<rparr>)"
    then show "key_label x = key_label y"
      using inj_onD [OF assms(2) _ refs refs] by (simp add: key_label_def)
  qed
  have people: "keys_ok key_participant (t_participants t)" "keys_ok key_participant2 (t_participants t)"
    using assms(1) by (simp_all add: db_ok_def pk_ok_def)
  have people1: "keys_ok key_participant (map (\<lambda>p. p\<lparr>pt_EndpointID := f (pt_EndpointID p)\<rparr>) (t_participants t))"
  proof (rule keys_ok_map [OF people(1)])
    fix x y assume "x \<in> set (t_participants t)" "y \<in> set (t_participants t)"
      "key_participant (x\<lparr>pt_EndpointID := f (pt_EndpointID x)\<rparr>) = key_participant (y\<lparr>pt_EndpointID := f (pt_EndpointID y)\<rparr>)"
    then show "key_participant x = key_participant y"
      using inj_onD [OF assms(2) _ refs2 refs2] by (simp add: key_participant_def)
  qed
  have people2: "keys_ok key_participant2 (map (\<lambda>p. p\<lparr>pt_EndpointID := f (pt_EndpointID p)\<rparr>) (t_participants t))"
  proof (rule keys_ok_map [OF people(2)])
    fix x y assume "x \<in> set (t_participants t)" "y \<in> set (t_participants t)"
      "key_participant2 (x\<lparr>pt_EndpointID := f (pt_EndpointID x)\<rparr>) = key_participant2 (y\<lparr>pt_EndpointID := f (pt_EndpointID y)\<rparr>)"
    then show "key_participant2 x = key_participant2 y"
      using inj_onD [OF assms(2) _ refs2 refs2] by (simp add: key_participant2_def)
  qed
  have "(\<lambda>l. lb_EndpointID (l\<lparr>lb_EndpointID := f (lb_EndpointID l)\<rparr>)) ` set (t_labels t) \<subseteq> ep_Alias ` set es"
    "(\<lambda>p. pt_EndpointID (p\<lparr>pt_EndpointID := f (pt_EndpointID p)\<rparr>)) ` set (t_participants t) \<subseteq> ep_Alias ` set es"
    unfolding assms(3) using refs refs2 by auto
  then show ?thesis
    using assms(1) labels people1 people2 unfolding db_ok_def pk_ok_def fk_ok_def checks_ok_def alias_ok_def
    by (simp add: renamed_tables_def refer_def image_image)
qed

lemma update_row_result:
  assumes "update_endpoint_row a row d = Inr d'"
  shows "d' = d\<lparr>rd_endpoints := update_where (\<lambda>r. br_Alias r = a) (\<lambda>r. row) (rd_endpoints d),
      rd_tables := renamed_tables (rename_key a (br_Alias row))
        (update_where (\<lambda>e. ep_Alias e = a) (\<lambda>e. endpoint_key row) (t_endpoints (rd_tables d))) (rd_tables d)\<rparr>"
    and "br_Alias row = a \<or> br_Alias row \<notin> br_Alias ` set (rd_endpoints d)"
    and "\<not> list_ex (\<lambda>r. br_Alias r \<noteq> a \<and> br_Transport r = br_Transport row \<and> br_RemoteID r = br_RemoteID row) (rd_endpoints d)"
  using assms unfolding update_endpoint_row_def constraint_Inr Let_def renamed_tables_def endpoint_key_def
  by simp_all

lemma routing_update_row:
  assumes "update_endpoint_row a row d = Inr d'" "routing_ok d"
  shows "routing_ok d'"
proof -
  note result = update_row_result [OF assms(1)] and parts = routing_parts [OF assms(2)]
  let ?f = "rename_key a (br_Alias row)"
  let ?es = "update_where (\<lambda>e. ep_Alias e = a) (\<lambda>e. endpoint_key row) (t_endpoints (rd_tables d))"
  have names: "ep_Alias ` set (t_endpoints (rd_tables d)) = br_Alias ` set (rd_endpoints d)"
    by (rule routing_aliases [OF assms(2)])
  have "ep_Alias ` set ?es = ?f ` ep_Alias ` set (t_endpoints (rd_tables d))"
    unfolding update_where_def set_map image_image
    by (rule image_cong) (auto simp: rename_key_def endpoint_key_def)
  then have db: "db_ok (renamed_tables ?f ?es (rd_tables d))"
    using rename_inj [OF result(2)] parts(3) unfolding names [symmetric] by (intro db_renamed) simp_all
  have keys: "keys_ok br_Alias (update_where (\<lambda>r. br_Alias r = a) (\<lambda>r. row) (rd_endpoints d))"
    unfolding update_where_def
  proof (rule keys_ok_map [OF parts(1)])
    fix x y assume "x \<in> set (rd_endpoints d)" "y \<in> set (rd_endpoints d)"
      "br_Alias (if br_Alias x = a then row else x) = br_Alias (if br_Alias y = a then row else y)"
    with result(2) show "br_Alias x = br_Alias y" by (metis image_eqI)
  qed
  have "map endpoint_key (update_where (\<lambda>r. br_Alias r = a) (\<lambda>r. row) (rd_endpoints d)) = ?es"
    unfolding parts(4) by (rule map_update_commute) (simp_all add: endpoint_key_def)
  then show ?thesis
    using db keys parts(2,5) by (simp add: routing_ok_def result(1) renamed_tables_def)
qed


lemma targets_update_row:
  assumes "update_endpoint_row a row d = Inr d'" "routing_ok d" "targets_ok d"
  shows "targets_ok d'"
proof -
  note result = update_row_result [OF assms(1)]
  have "keys_ok target_of (update_where (\<lambda>r. br_Alias r = a) (\<lambda>r. row) (rd_endpoints d))"
    unfolding update_where_def
  proof (rule keys_ok_map [OF routing_parts(1) [OF assms(2)]])
    fix x y
    assume rows: "x \<in> set (rd_endpoints d)" "y \<in> set (rd_endpoints d)"
      and same: "target_of (if br_Alias x = a then row else x) = target_of (if br_Alias y = a then row else y)"
    have other: "target_of z \<noteq> target_of row" if "z \<in> set (rd_endpoints d)" "br_Alias z \<noteq> a" for z
      using that result(3) by (auto simp: target_of_def list_ex_iff)
    show "br_Alias x = br_Alias y"
    proof (cases "br_Alias x = a"; cases "br_Alias y = a")
      assume "br_Alias x \<noteq> a" "br_Alias y \<noteq> a"
      then have "target_of x = target_of y" using same by simp
      then have "x = y" using assms(3) rows unfolding targets_ok_def by (rule_tac keys_ok_unique)
      then show ?thesis by simp
    qed (use same other rows in \<open>auto dest: sym\<close>)
  qed
  then show ?thesis by (simp add: targets_ok_def result(1))
qed

lemma store_endpoint_result:
  assumes "store_endpoint old row d = Inr d'" "routing_ok d"
  shows "routing_ok d'" "targets_ok d \<Longrightarrow> targets_ok d'" "rd_sets d' = rd_sets d"
    "rd_endpoints d' = update_where (\<lambda>r. br_Alias r = br_Alias old) (\<lambda>r. row) (rd_endpoints d)"
proof -
  obtain d1 where first: "update_endpoint_row (br_Alias old) row d = Inr d1"
    using assms(1) by (auto simp: store_endpoint_def bind_res_Inr)
  define d2 where "d2 = (if br_RemoteID old \<noteq> br_RemoteID row then clear_labels (\<lambda>a. a = br_Alias row) d1 else d1)"
  have rest: "(if br_Alias row = br_Alias old then Inr d2 else rename_messages (br_Alias old) (br_Alias row) d2) = Inr d'"
    using assms(1) first unfolding store_endpoint_def d2_def Let_def bind_res_simps by simp
  have d2: "routing_ok d2" "rd_endpoints d2 = rd_endpoints d1" "rd_sets d2 = rd_sets d1"
    using routing_update_row [OF first assms(2)] by (simp_all add: d2_def routing_labels)
  have d': "routing_ok d'" "rd_endpoints d' = rd_endpoints d1" "rd_sets d' = rd_sets d1"
    using rest d2 routing_rename_messages rename_messages_rows by (auto split: if_split_asm)
  note result = update_row_result(1) [OF first]
  show "routing_ok d'" by (rule d')
  show "rd_sets d' = rd_sets d" "rd_endpoints d' = update_where (\<lambda>r. br_Alias r = br_Alias old) (\<lambda>r. row) (rd_endpoints d)"
    using d' by (simp_all add: result)
  show "targets_ok d \<Longrightarrow> targets_ok d'"
    using targets_update_row [OF first assms(2)] d'(2) by (simp add: targets_ok_def)
qed

lemma delete_binding_rows: "rd_endpoints (delete_binding a d) = delete_where (\<lambda>r. br_Alias r = a) (rd_endpoints d)"
  by (simp add: delete_binding_def)

lemma delete_set_rows: "rd_endpoints (delete_set i d) =
    update_where (\<lambda>r. br_SyncSetID r = Some i) (\<lambda>r. r\<lparr>br_SyncSetID := None\<rparr>) (rd_endpoints d)"
  by (simp add: delete_set_def)

lemma delete_bindings_rows: "rd_endpoints (foldl (\<lambda>d a. delete_binding a d) d as) =
    delete_where (\<lambda>r. br_Alias r \<in> set as) (rd_endpoints d)"
  by (simp add: fold_delete_binding)

lemma routing_delete_bindings: "routing_ok d \<Longrightarrow> routing_ok (foldl (\<lambda>d a. delete_binding a d) d as)"
  by (induction as arbitrary: d) (simp_all add: routing_delete_binding)

lemma map_target_update:
  "(\<And>r. target_of (f r) = target_of r) \<Longrightarrow> map target_of (update_where P f rows) = map target_of rows"
  by (simp add: update_where_def)

lemma targets_delete: "targets_ok d \<Longrightarrow> rd_endpoints d' = delete_where P (rd_endpoints d) \<Longrightarrow> targets_ok d'"
  by (simp add: targets_ok_def)

lemma targets_same: "map target_of (rd_endpoints d') = map target_of (rd_endpoints d) \<Longrightarrow> targets_ok d' = targets_ok d"
  by (simp add: targets_ok_def keys_ok_def)

text \<open>Assigning endpoints to a set that is there, or to none.\<close>

lemma db_assign:
  assumes "db_ok t" "map ep_Alias es = map ep_Alias (t_endpoints t)"
  shows "db_ok (t\<lparr>t_endpoints := es\<rparr>)"
proof -
  have "ep_Alias ` set es = ep_Alias ` set (t_endpoints t)" using assms(2) by (metis set_map)
  then show ?thesis
    using assms(1) by (simp add: db_ok_def pk_ok_def fk_ok_def checks_ok_def alias_ok_def)
qed

lemma routing_assign:
  assumes "routing_ok d"
  shows "routing_ok (assign_where P i d)"
proof -
  note parts = routing_parts [OF assms]
  let ?es = "update_where (\<lambda>e. P (ep_Alias e) (ep_SyncSetID e)) (\<lambda>e. e\<lparr>ep_SyncSetID := i\<rparr>) (t_endpoints (rd_tables d))"
  have "map endpoint_key (update_where (\<lambda>r. P (br_Alias r) (br_SyncSetID r)) (\<lambda>r. r\<lparr>br_SyncSetID := i\<rparr>) (rd_endpoints d)) = ?es"
    unfolding parts(4) by (rule map_update_commute) (simp_all add: endpoint_key_def)
  moreover have "db_ok ((rd_tables d)\<lparr>t_endpoints := ?es\<rparr>)"
    by (rule db_assign [OF parts(3)]) (simp add: map_update_where)
  ultimately show ?thesis
    using parts by (simp add: routing_ok_def assign_where_def keys_ok_update)
qed

lemma assign_rows: "rd_endpoints (assign_where P i d) =
    update_where (\<lambda>r. P (br_Alias r) (br_SyncSetID r)) (\<lambda>r. r\<lparr>br_SyncSetID := i\<rparr>) (rd_endpoints d)"
  "rd_sets (assign_where P i d) = rd_sets d" "rd_global (assign_where P i d) = rd_global d"
  by (simp_all add: assign_where_def)

lemma write_set_result:
  assumes "write_set s settings create d = Inr d'" "routing_ok d" "\<not> create \<Longrightarrow> set_ID s \<in> sr_ID ` set (rd_sets d)"
  shows "routing_ok d'" "rd_endpoints d' = rd_endpoints d"
    "rd_sets d' = upsert sr_ID (\<lambda>new old. new)
       \<lparr>sr_ID = set_ID s, sr_AnonymizeToDiscord = set_AnonymizeToDiscord s, sr_Settings = Some settings\<rparr> (rd_sets d)"
proof -
  let ?row = "\<lparr>sr_ID = set_ID s, sr_AnonymizeToDiscord = set_AnonymizeToDiscord s, sr_Settings = Some settings\<rparr>"
  have put: "put_set ?row d = d'"
  proof (cases create)
    case True
    then show ?thesis using assms(1) by (simp add: write_set_def constraint_Inr)
  next
    case False
    with assms(1,3) have d': "d' = d\<lparr>rd_sets := update_where (\<lambda>r. sr_ID r = set_ID s) (\<lambda>r. ?row) (rd_sets d)\<rparr>"
      and there: "set_ID s \<in> sr_ID ` set (rd_sets d)" by (simp_all add: write_set_def Let_def)
    have "set_ID s \<in> set (t_sync_sets (rd_tables d))"
      using there by (simp add: routing_parts(5) [OF assms(2)])
    then show ?thesis using there by (simp add: put_set_def upsert_def add_sync_set_def d')
  qed
  show "routing_ok d'" "rd_endpoints d' = rd_endpoints d" "rd_sets d' = upsert sr_ID (\<lambda>new old. new) ?row (rd_sets d)"
    using routing_put_set [OF assms(2), of ?row] unfolding put [symmetric] by (simp_all add: put_set_def)
qed

lemma routing_migrate:
  assumes "MigrateTelegramEndpoint d alias c old new = (e, d')" "routing_ok d" "targets_ok d"
  shows "routing_ok d' \<and> targets_ok d'"
proof (cases "d' = d")
  case False
  let ?mine = "\<lambda>r. br_Alias r = alias \<and> br_Transport r = ''telegram'' \<and> br_ConnectionID r = trim_space c"
  let ?new = "trim_space new"
  from assms(1) False have free: "\<not> list_ex (\<lambda>q. br_Alias q \<noteq> alias \<and> br_Transport q = ''telegram'' \<and> br_RemoteID q = ?new) (rd_endpoints d)"
    and d': "d' = d\<lparr>rd_endpoints := update_where (\<lambda>r. ?mine r \<and> br_RemoteID r = trim_space old) (\<lambda>r. r\<lparr>br_RemoteID := ?new\<rparr>) (rd_endpoints d)\<rparr>"
    unfolding MigrateTelegramEndpoint_def Let_def
    by (auto split: option.split_asm sum.split_asm if_split_asm)
  have same: "map endpoint_key (rd_endpoints d') = map endpoint_key (rd_endpoints d)"
    "map br_Alias (rd_endpoints d') = map br_Alias (rd_endpoints d)"
    by (simp_all add: d' update_where_def endpoint_key_def)
  have rest: "rd_sets d' = rd_sets d" "rd_tables d' = rd_tables d"
    by (simp_all add: d')
  have "keys_ok target_of (rd_endpoints d')"
  proof -
    have "keys_ok target_of (map (\<lambda>x. if ?mine x \<and> br_RemoteID x = trim_space old then x\<lparr>br_RemoteID := ?new\<rparr> else x) (rd_endpoints d))"
  proof (rule keys_ok_map [OF routing_parts(1) [OF assms(2)]])
    fix x y
    let ?f = "\<lambda>x. if ?mine x \<and> br_RemoteID x = trim_space old then x\<lparr>br_RemoteID := ?new\<rparr> else x"
    assume rows: "x \<in> set (rd_endpoints d)" "y \<in> set (rd_endpoints d)" and eq: "target_of (?f x) = target_of (?f y)"
    have named: "br_Alias z = alias" if "z \<in> set (rd_endpoints d)" "target_of z = (''telegram'', ?new)" for z
      using that free by (auto simp: target_of_def list_ex_iff)
    let ?P = "\<lambda>x. ?mine x \<and> br_RemoteID x = trim_space old"
    have moved: "br_Alias z = alias" "target_of (?f z) = (''telegram'', ?new)" if "?P z" for z
      using that by (simp_all add: target_of_def)
    have stays: "target_of (?f z) = target_of z" if "\<not> ?P z" for z
      using that by (simp only: if_False)
    show "br_Alias x = br_Alias y"
    proof (cases "?P x"; cases "?P y")
      assume c: "\<not> ?P x" "\<not> ?P y"
      then have "target_of x = target_of y" using eq stays [OF c(1)] stays [OF c(2)] by metis
      then have "x = y" using assms(3) rows unfolding targets_ok_def by (rule_tac keys_ok_unique)
      then show ?thesis by simp
    next
      assume "?P x" "?P y"
      then show ?thesis using moved(1) by metis
    next
      assume c: "?P x" "\<not> ?P y"
      then have "target_of y = (''telegram'', ?new)" using eq moved(2) [OF c(1)] stays [OF c(2)] by metis
      then show ?thesis using named [OF rows(2)] moved(1) [OF c(1)] by metis
    next
      assume c: "\<not> ?P x" "?P y"
      then have "target_of x = (''telegram'', ?new)" using eq moved(2) [OF c(2)] stays [OF c(1)] by metis
      then show ?thesis using named [OF rows(1)] moved(1) [OF c(2)] by metis
    qed
  qed
    then show ?thesis by (simp add: d' update_where_def)
  qed
  then show ?thesis
    using assms(2) same rest unfolding targets_ok_def routing_ok_def keys_ok_def by metis
qed (use assms in simp)


subsection \<open>The invariant\<close>

definition site_of :: "BindingRow \<Rightarrow> string \<times> string" where
  "site_of r = (br_ConnectionID r, br_Transport r)"

definition place_of :: "ConnectionRow \<Rightarrow> string \<times> string" where
  "place_of c = (cn_ID c, cn_Transport c)"

definition connections_ok :: "ConnectionRow list \<Rightarrow> bool" where
  "connections_ok cs \<longleftrightarrow> keys_ok cn_ID cs \<and> (\<forall>c \<in> set cs. connection_row_ok c)"

definition connected :: "RoutingDB \<Rightarrow> ConnectionRow list \<Rightarrow> bool" where
  "connected d cs \<longleftrightarrow> site_of ` set (rd_endpoints d) \<subseteq> place_of ` set cs"

definition console_ok :: "Console \<Rightarrow> bool" where
  "console_ok k \<longleftrightarrow>
     co_answers k \<and> routing_ok (co_db k) \<and> targets_ok (co_db k) \<and> connections_ok (co_connections k) \<and>
     connected (co_db k) (co_connections k)"

lemma console_parts:
  assumes "console_ok k"
  shows "co_answers k" "routing_ok (co_db k)" "targets_ok (co_db k)" "connections_ok (co_connections k)"
    "connected (co_db k) (co_connections k)" "keys_ok cn_ID (co_connections k)"
  using assms by (simp_all add: console_ok_def connections_ok_def)

lemma ok_irrelevant [simp]:
  "console_ok (k\<lparr>co_members := m\<rparr>) = console_ok k" "console_ok (k\<lparr>co_reloads := n\<rparr>) = console_ok k"
  "console_ok (k\<lparr>co_stopped := s\<rparr>) = console_ok k"
  by (simp_all add: console_ok_def)

lemma ok_notify [simp]: "console_ok (snd (notifyConfigChange v k)) = console_ok k"
  "snd (notifyConfigChange v k) = k\<lparr>co_reloads := co_reloads k + 1\<rparr>"
  by (simp_all add: notifyConfigChange_def)

lemma ok_audited [simp]: "console_ok (audit_console v p action target k) = console_ok k"
  by (simp add: audit_console_def)

lemma ok_accounts [simp]: "console_ok (with_accounts a k) = console_ok k"
  by (simp add: with_accounts_def)

text \<open>A change of the routing tables whose endpoints stay at connections there are.\<close>

lemma ok_db:
  assumes "console_ok k" "routing_ok d" "targets_ok d" "site_of ` set (rd_endpoints d) \<subseteq> place_of ` set (co_connections k)"
  shows "console_ok (k\<lparr>co_db := d\<rparr>)"
  using assms by (simp add: console_ok_def connected_def)

lemma sites:
  assumes "console_ok k"
  shows "site_of ` set (rd_endpoints (co_db k)) \<subseteq> place_of ` set (co_connections k)"
  using assms by (simp add: console_ok_def connected_def)

lemma ok_db_same:
  assumes "console_ok k" "routing_ok d" "map target_of (rd_endpoints d) = map target_of (rd_endpoints (co_db k))"
    and "map site_of (rd_endpoints d) = map site_of (rd_endpoints (co_db k))"
  shows "console_ok (k\<lparr>co_db := d\<rparr>)"
proof (rule ok_db [OF assms(1,2)])
  show "targets_ok d" using targets_same [OF assms(3)] console_parts(3) [OF assms(1)] by simp
  have "site_of ` set (rd_endpoints d) = site_of ` set (rd_endpoints (co_db k))" using assms(4) by (metis set_map)
  then show "site_of ` set (rd_endpoints d) \<subseteq> place_of ` set (co_connections k)" using sites [OF assms(1)] by simp
qed

lemma ok_db_deleted:
  assumes "console_ok k" "routing_ok d" "rd_endpoints d = delete_where P (rd_endpoints (co_db k))"
  shows "console_ok (k\<lparr>co_db := d\<rparr>)"
  using sites [OF assms(1)] targets_delete [OF console_parts(3) [OF assms(1)] assms(3)]
  by (intro ok_db [OF assms(1,2)]) (auto simp: assms(3))

lemma connection_there:
  assumes "check_connection k transport connectionID = None"
  shows "(connectionID, transport) \<in> place_of ` set (co_connections k)"
  using assms
  by (auto simp: check_connection_def find_connection_def place_of_def find_Some_iff image_iff
      split: if_split_asm option.split_asm intro: nth_mem)

subsection \<open>Every handler keeps it\<close>

lemma ok_insert:
  assumes "console_ok k" "check_connection k (br_Transport row) (br_ConnectionID row) = None"
    and "insert_binding row (co_db k) = Inr d"
  shows "console_ok (k\<lparr>co_db := d\<rparr>)"
proof (rule ok_db [OF assms(1)])
  show "routing_ok d" "targets_ok d"
    using routing_insert [OF assms(3)] targets_insert [OF assms(3)] console_parts [OF assms(1)] by blast+
  show "site_of ` set (rd_endpoints d) \<subseteq> place_of ` set (co_connections k)"
    using sites [OF assms(1)] connection_there [OF assms(2)] by (simp add: rows_insert [OF assms(3)] site_of_def)
qed

lemma ok_CreateEndpoint: "console_ok k \<Longrightarrow> console_ok (snd (handleCreateEndpoint v body k))"
  unfolding handleCreateEndpoint_def Let_def
  by (auto split: option.splits sum.splits intro!: checked_keeps [where P = console_ok] elim!: ok_insert [rotated 2])

lemma ok_stored:
  assumes "console_ok k" "store_endpoint old row (co_db k) = Inr d"
    and "check_connection k (br_Transport row) (br_ConnectionID row) = None"
  shows "console_ok (k\<lparr>co_db := d\<rparr>)"
proof (rule ok_db [OF assms(1)])
  note result = store_endpoint_result [OF assms(2) console_parts(2) [OF assms(1)]]
  show "routing_ok d" "targets_ok d"
    using result(1,2) console_parts(3) [OF assms(1)] by blast+
  show "site_of ` set (rd_endpoints d) \<subseteq> place_of ` set (co_connections k)"
    using sites [OF assms(1)] connection_there [OF assms(3)] by (auto simp: result(4) in_update site_of_def)
qed

lemma wanted_place [simp]:
  "br_Transport (wanted_endpoint old req i) = trim_space (ur_Transport req)"
  "br_ConnectionID (wanted_endpoint old req i) = trim_space (ur_ConnectionID req)"
  "br_RemoteID (wanted_endpoint old req i) = trim_space (ur_RemoteID req)"
  "br_SyncSetID (wanted_endpoint old req i) = i"
  by (simp_all add: wanted_endpoint_def)

lemma ok_UpdateEndpoint:
  assumes "console_ok k"
  shows "console_ok (snd (handleUpdateEndpoint v path body k))"
proof (cases body)
  case (Some req)
  have "console_ok (k\<lparr>co_db := d, co_members := m, co_reloads := n\<rparr>)"
    if "store_endpoint old (wanted_endpoint old req i) (co_db k) = Inr d"
      and "check_connection k (trim_space (ur_Transport req)) (trim_space (ur_ConnectionID req)) = None" for old i d m n
    using ok_stored [OF assms that(1)] that(2) by simp
  then show ?thesis
    using assms unfolding handleUpdateEndpoint_def Some Let_def option.case
    by (cases "find_endpoint k (trim_space path)"; cases "endpointSyncSetValue k (ur_SyncSetID req)")
       (auto intro!: checked_keeps [where P = console_ok] split: sum.split simp del: wanted_place)
qed (use assms in \<open>simp add: handleUpdateEndpoint_def Let_def\<close>)

lemma ok_DeleteEndpoint: "console_ok k \<Longrightarrow> console_ok (snd (handleDeleteEndpoint v path k))"
  unfolding handleDeleteEndpoint_def Let_def
  by (auto intro!: checked_keeps [where P = console_ok] ok_db_deleted routing_delete_binding simp: delete_binding_rows
      dest: console_parts(2))


lemma sites_assign: "map site_of (rd_endpoints (assign_where P i d)) = map site_of (rd_endpoints d)"
  "map target_of (rd_endpoints (assign_where P i d)) = map target_of (rd_endpoints d)"
  by (simp_all add: assign_rows update_where_def site_of_def target_of_def)

lemma assign_all:
  assumes "routing_ok d"
  shows "routing_ok (foldl (\<lambda>d a. assign_where (P a) i d) d as) \<and>
    map site_of (rd_endpoints (foldl (\<lambda>d a. assign_where (P a) i d) d as)) = map site_of (rd_endpoints d) \<and>
    map target_of (rd_endpoints (foldl (\<lambda>d a. assign_where (P a) i d) d as)) = map target_of (rd_endpoints d)"
  using assms by (induction as arbitrary: d) (simp_all add: routing_assign sites_assign)

text \<open>The routing tables that saving a sync set leaves.\<close>

definition saved_set :: "SyncSet \<Rightarrow> SyncSetSettings \<Rightarrow> RoutingDB \<Rightarrow> RoutingDB" where
  "saved_set s settings d =
     (let i = set_ID s;
          d = assign_where (\<lambda>a j. j = Some i) None d;
          d = foldl (\<lambda>d alias. assign_where (\<lambda>a j. a = alias) (Some i) d) d (set_Endpoints s)
      in if ss_ChildContextDisplayMode settings = ChildContextDisplayOpaque then clear_labels (is_assigned d i) d else d)"

lemma saveSyncSet_eq:
  "saveSyncSet v s settings create k =
     (if \<not> co_answers k then (Some (KError 500 ''database transaction error''), k)
      else case write_set s settings create (co_db k) of
        Inl e \<Rightarrow> (Some (KError 500 ''failed to save sync set''), k)
      | Inr d \<Rightarrow> (if cv_reload v then None else Some (KPersisted (set_ID s)),
                 k\<lparr>co_db := saved_set s settings d, co_reloads := co_reloads k + 1\<rparr>))"
  by (simp add: saveSyncSet_def saved_set_def notifyConfigChange_def Let_def split: sum.split bool.split)

lemma saved_set_ok:
  assumes "routing_ok d"
  shows "routing_ok (saved_set s settings d)"
    "map site_of (rd_endpoints (saved_set s settings d)) = map site_of (rd_endpoints d)"
    "map target_of (rd_endpoints (saved_set s settings d)) = map target_of (rd_endpoints d)"
proof -
  let ?d = "assign_where (\<lambda>a j. j = Some (set_ID s)) None d"
  let ?e = "foldl (\<lambda>d alias. assign_where (\<lambda>a j. a = alias) (Some (set_ID s)) d) ?d (set_Endpoints s)"
  have all: "routing_ok ?e \<and> map site_of (rd_endpoints ?e) = map site_of (rd_endpoints ?d) \<and>
      map target_of (rd_endpoints ?e) = map target_of (rd_endpoints ?d)"
    by (rule assign_all [OF routing_assign [OF assms]])
  then show "routing_ok (saved_set s settings d)"
    "map site_of (rd_endpoints (saved_set s settings d)) = map site_of (rd_endpoints d)"
    "map target_of (rd_endpoints (saved_set s settings d)) = map target_of (rd_endpoints d)"
    by (simp_all add: saved_set_def Let_def routing_labels sites_assign)
qed

lemma ok_saveSyncSet:
  assumes "console_ok k" "\<not> create \<Longrightarrow> set_ID s \<in> sr_ID ` set (rd_sets (co_db k))"
  shows "console_ok (snd (saveSyncSet v s settings create k))"
proof (cases "write_set s settings create (co_db k)")
  case (Inr d)
  note written = write_set_result [OF Inr console_parts(2) [OF assms(1)] assms(2)]
  have "console_ok (k\<lparr>co_db := saved_set s settings d\<rparr>)"
    using saved_set_ok [OF written(1), of s settings] written(2) by (intro ok_db_same [OF assms(1)]) simp_all
  then show ?thesis
    using assms(1) Inr by (simp add: saveSyncSet_eq)
qed (use assms in \<open>simp add: saveSyncSet_eq\<close>)

lemma ok_saved:
  "saveSyncSet v s settings create k = (x, k') \<Longrightarrow> console_ok k \<Longrightarrow>
     (\<not> create \<Longrightarrow> set_ID s \<in> sr_ID ` set (rd_sets (co_db k))) \<Longrightarrow> console_ok k'"
  using ok_saveSyncSet [of k create s v settings] by simp

lemma loaded_sets: "set_ID ` set (cfg_SyncSets (LoadRaw d)) = sr_ID ` set (rd_sets d)"
  by (simp add: LoadRaw_def Let_def image_image)

lemma find_set_there:
  assumes "find_set k i = Some s"
  shows "set_ID s = i" "i \<in> sr_ID ` set (rd_sets (co_db k))"
proof -
  have "s \<in> set (cfg_SyncSets (LoadRaw (co_db k))) \<and> set_ID s = i"
    using assms by (auto simp: find_set_def find_Some_iff)
  then show "set_ID s = i" "i \<in> sr_ID ` set (rd_sets (co_db k))"
    using loaded_sets [of "co_db k"] by auto
qed

lemma known_set: "find_set k i = Some s \<Longrightarrow> set_ID s \<in> sr_ID ` set (rd_sets (co_db k))"
  using find_set_there [of k i s] by simp

lemma set_ID_wanted [simp]: "set_ID (wanted_set s req) = set_ID s"
  by (simp add: wanted_set_def)

lemma ok_CreateSyncSet: "console_ok k \<Longrightarrow> console_ok (snd (handleCreateSyncSet v p body k))"
  unfolding handleCreateSyncSet_def Let_def
  by (auto split: option.splits sum.splits prod.splits intro!: checked_keeps [where P = console_ok]
      elim!: ok_saved [where create = True])

lemma ok_UpdateSyncSet:
  assumes "console_ok k"
  shows "console_ok (snd (handleUpdateSyncSet v p path body k))"
proof (cases body)
  case (Some req)
  show ?thesis
  proof (cases "find_set k (trim_space path)")
    case None
    then show ?thesis
      using assms unfolding handleUpdateSyncSet_def Some Let_def
      by (auto intro!: checked_keeps [where P = console_ok])
  next
    case found: (Some current)
    have saved: "console_ok k'" if "saveSyncSet v (wanted_set current req\<lparr>set_Settings := x\<rparr>) settings False k = (y, k')"
      for x y settings k'
      by (rule ok_saved [OF that assms]) (use known_set [OF found] in simp)
    show ?thesis
      using assms unfolding handleUpdateSyncSet_def Some found Let_def option.case
      by (auto split: sum.split prod.split option.split intro!: checked_keeps [where P = console_ok] elim!: saved)
  qed
qed (use assms in \<open>simp add: handleUpdateSyncSet_def Let_def\<close>)

lemma ok_DeleteSyncSet: "console_ok k \<Longrightarrow> console_ok (snd (handleDeleteSyncSet v path k))"
proof -
  assume ok: "console_ok k"
  have "console_ok (k\<lparr>co_db := delete_set i (delete_set_bindings i (co_db k))\<rparr>)" for i
  proof -
    let ?d = "delete_set_bindings i (co_db k)"
    have d: "routing_ok ?d"
      unfolding delete_set_bindings_def by (rule routing_delete_bindings [OF console_parts(2) [OF ok]])
    have "console_ok (k\<lparr>co_db := ?d\<rparr>)"
      by (rule ok_db_deleted [OF ok d]) (simp add: delete_set_bindings_def delete_bindings_rows)
    from ok_db_same [OF this, of "delete_set i ?d"] routing_delete_set [OF d] show ?thesis
      by (simp add: delete_set_rows update_where_def site_of_def target_of_def comp_def if_distrib cong: if_cong)
  qed
  then show ?thesis
    using ok unfolding handleDeleteSyncSet_def Let_def
    by (auto intro!: checked_keeps [where P = console_ok])
qed

lemma ok_UpdateConfig: "console_ok k \<Longrightarrow> console_ok (snd (handleUpdateConfig v body k))"
  by (auto simp: handleUpdateConfig_def notifyConfigChange_def console_ok_def targets_ok_def connected_def
      split: option.split bool.split)

text \<open>Connections.\<close>

lemma ok_connections:
  assumes "console_ok k" "connections_ok cs" "place_of ` set (co_connections k) \<subseteq> place_of ` set cs"
  shows "console_ok (k\<lparr>co_connections := cs\<rparr>)"
  using assms unfolding console_ok_def connected_def by simp blast

lemma ok_insert_connection:
  assumes "insert_connection c k = Inr k'" "console_ok k"
  shows "console_ok k'"
proof -
  have k': "k' = k\<lparr>co_connections := co_connections k @ [c]\<rparr>"
    and new: "connection_row_ok c" "cn_ID c \<notin> cn_ID ` set (co_connections k)"
    using assms(1) by (auto simp: insert_connection_def constraint_Inr split: if_split_asm)
  show ?thesis
    unfolding k' using new console_parts(4) [OF assms(2)]
    by (intro ok_connections [OF assms(2)]) (auto simp: connections_ok_def)
qed

lemma ok_store_connection: "store_connection v c k = Inr k' \<Longrightarrow> console_ok k \<Longrightarrow> console_ok k'"
  by (auto simp: store_connection_def CreateConnection_def Let_def try_err_Inr wrap_res_Inr elim!: ok_insert_connection
      split: if_split_asm)

lemma ok_choose_id: "choose_id v requested k = (x, k') \<Longrightarrow> console_ok k \<Longrightarrow> console_ok k'"
  by (auto simp: choose_id_def NewConnectionID_def split: if_split_asm prod.split_asm option.split_asm)

lemma audit_keeps_connections [simp]: "co_connections (audit_console v p action target k) = co_connections k"
  by (simp add: audit_console_def)

lemma ok_stored_connection:
  assumes "console_ok k"
  shows "console_ok (snd (case store_connection v c k of
           Inl e \<Rightarrow> (trouble, k)
         | Inr k \<Rightarrow> (reply, snd (notifyConfigChange v (audit_console v p action i k)))))"
  using assms ok_store_connection [of v c k]
  by (cases "store_connection v c k") (simp_all add: notifyConfigChange_def ok_audited)

lemma ok_CreateConnection: "console_ok k \<Longrightarrow> console_ok (snd (handleCreateConnection v p body k))"
proof (cases body)
  case (Some req)
  assume ok: "console_ok k"
  obtain x k1 where pick: "choose_id v (trim_space (cc_ID req)) k = (x, k1)" by fastforce
  note k1 = ok_choose_id [OF pick ok]
  show ?thesis
    unfolding handleCreateConnection_def Let_def Some option.case pick prod.case
    apply (rule checked_keeps [where P = console_ok, OF ok])
    apply (cases x; simp only: sum.case snd_conv k1)
    apply (rule checked_keeps [where P = console_ok, OF k1])
    apply (split sum.split, intro conjI allI impI, simp only: snd_conv k1)
    apply (split sum.split, intro conjI allI impI, simp only: snd_conv k1)
    apply (split prod.split, intro allI impI)
    apply (rule ok_stored_connection [OF k1])
    done
qed (simp add: handleCreateConnection_def)

lemma ok_update_connection:
  assumes "update_connection c k = Inr k'" "console_ok k" "(c0::ConnectionRow) \<in> set (co_connections k)"
    and "cn_ID c0 = cn_ID c" "cn_Transport c0 = cn_Transport c"
  shows "console_ok k'"
proof -
  let ?f = "\<lambda>x. x\<lparr>cn_Label := cn_Label c, cn_Enabled := cn_Enabled c, cn_EncryptedCredential := cn_EncryptedCredential c,
             cn_CredentialNonce := cn_CredentialNonce c, cn_CredentialKeyVersion := cn_CredentialKeyVersion c,
             cn_UpdatedAt := cn_UpdatedAt c, cn_WhatsAppDeviceName := cn_WhatsAppDeviceName c\<rparr>"
  have k': "k' = k\<lparr>co_connections := update_where (\<lambda>x. cn_ID x = cn_ID c) ?f (co_connections k)\<rparr>"
    and fits: "connection_row_ok c"
    using assms(1) by (auto simp: update_connection_def constraint_Inr)
  note old = console_parts(4) [OF assms(2)]
  have same: "x = c0" if "x \<in> set (co_connections k)" "cn_ID x = cn_ID c" for x
    using keys_ok_unique [OF console_parts(6) [OF assms(2)] that(1) assms(3)] that(2) assms(4) by simp
  have rows: "connection_row_ok (?f x)" if "x \<in> set (co_connections k)" "cn_ID x = cn_ID c" for x
    using same [OF that] fits assms(5) by (simp add: connection_row_ok_def)
  have "connections_ok (update_where (\<lambda>x. cn_ID x = cn_ID c) ?f (co_connections k))"
    using old rows unfolding connections_ok_def by (auto intro!: keys_ok_update simp: in_update)
  moreover have places: "map place_of (update_where (\<lambda>x. cn_ID x = cn_ID c) ?f (co_connections k)) = map place_of (co_connections k)"
    unfolding update_where_def map_map by (rule map_cong) (simp_all add: place_of_def)
  have "place_of ` set (update_where (\<lambda>x. cn_ID x = cn_ID c) ?f (co_connections k)) = place_of ` set (co_connections k)"
    unfolding set_map [symmetric] places ..
  ultimately show ?thesis
    unfolding k' by (intro ok_connections [OF assms(2)]) (simp_all only: order.refl)
qed


lemma find_connection_there: "find_connection k i = Some c \<Longrightarrow> c \<in> set (co_connections k) \<and> cn_ID c = i"
  by (auto simp: find_connection_def find_Some_iff)

lemma named_there: "named_connection trouble path k = Inr c \<Longrightarrow> c \<in> set (co_connections k) \<and> cn_ID c = trim_space path"
  by (auto simp: named_connection_def Let_def split: if_split_asm option.split_asm dest: find_connection_there)

lemma update_connection_places:
  "update_connection c k = Inr k' \<Longrightarrow> old \<in> set (co_connections k) \<Longrightarrow>
     \<exists>x \<in> set (co_connections k'). cn_ID x = cn_ID old \<and> cn_Transport x = cn_Transport old"
  by (rule bexI [of _ "if cn_ID old = cn_ID c then old\<lparr>cn_Label := cn_Label c, cn_Enabled := cn_Enabled c,
        cn_EncryptedCredential := cn_EncryptedCredential c, cn_CredentialNonce := cn_CredentialNonce c,
        cn_CredentialKeyVersion := cn_CredentialKeyVersion c, cn_UpdatedAt := cn_UpdatedAt c,
        cn_WhatsAppDeviceName := cn_WhatsAppDeviceName c\<rparr> else old"])
     (auto simp: update_connection_def constraint_Inr update_where_def)

lemma ok_apply:
  assumes "console_ok k" "old \<in> set (co_connections k)" "cn_ID c = cn_ID old" "cn_Transport c = cn_Transport old"
  shows "console_ok (snd (apply_connection v p replaced old c k))"
proof (cases "update_connection c k")
  case (Inr k1)
  note k1 = ok_update_connection [OF Inr assms(1,2) assms(3,4) [symmetric]]
  obtain x where x: "x \<in> set (co_connections k1)" "cn_ID x = cn_ID old" "cn_Transport x = cn_Transport old"
    using update_connection_places [OF Inr assms(2)] by blast
  let ?k2 = "k1\<lparr>co_reloads := co_reloads k1 + 1\<rparr>"
  have k2: "console_ok ?k2" "x \<in> set (co_connections ?k2)" using k1 x(1) by simp_all
  show ?thesis
    using k2(1) ok_update_connection [OF _ k2 x(2,3)]
    by (auto simp: apply_connection_def Inr notifyConfigChange_def split: bool.split sum.split)
qed (use assms in \<open>simp add: apply_connection_def\<close>)

lemma ok_changed:
  assumes ok: "console_ok k" and old: "(old::ConnectionRow) \<in> set (co_connections k)"
    and c: "cn_ID c = cn_ID old" "cn_Transport c = cn_Transport old"
  shows "console_ok (snd (case token of
           None \<Rightarrow> apply_connection v p False old c k
         | Some token \<Rightarrow>
             (case replaced_credential v c token of
                Inl reply \<Rightarrow> (reply, k)
              | Inr (encrypted, nonce) \<Rightarrow>
                  apply_connection v p True old (c\<lparr>cn_EncryptedCredential := encrypted,
                    cn_CredentialNonce := nonce, cn_CredentialKeyVersion := 1\<rparr>) k)))"
proof (cases token)
  case None
  then show ?thesis using ok_apply [OF ok old c] by simp
next
  case (Some t)
  show ?thesis
  proof (cases "replaced_credential v c t")
    case (Inr s)
    show ?thesis
      unfolding Some option.case Inr sum.case by (cases s) (simp add: ok_apply [OF ok old] c)
  qed (use Some ok in simp)
qed

lemma ok_UpdateConnection: "console_ok k \<Longrightarrow> console_ok (snd (handleUpdateConnection v p path body k))"
proof -
  assume ok: "console_ok k"
  show ?thesis
  proof (cases "trim_space path = [] \<or> body = None")
    case False
    then obtain req where body: "\<not> trim_space path = []" "body = Some req" by blast
    show ?thesis
    proof (cases "named_connection ''database error'' path k")
      case (Inr old)
      have old: "old \<in> set (co_connections k)" using named_there [OF Inr] by simp
      show ?thesis
        unfolding handleUpdateConnection_def Let_def body Inr option.case sum.case if_not_P [OF body(1)]
        apply (rule checked_keeps [where P = console_ok, OF ok])
        apply (rule ok_changed)
           apply (simp add: ok ok_audited split: if_split)
          apply (simp add: old split: if_split)
         apply simp_all
        done
    qed (use ok body in \<open>simp add: handleUpdateConnection_def\<close>)
  qed (use ok in \<open>auto simp: handleUpdateConnection_def\<close>)
qed

lemma ok_connections_kept:
  assumes "console_ok k" "connections_ok cs" "\<And>r. r \<in> set (rd_endpoints (co_db k)) \<Longrightarrow> site_of r \<in> place_of ` set cs"
  shows "console_ok (k\<lparr>co_connections := cs\<rparr>)"
  using assms unfolding console_ok_def connected_def by simp blast

lemma ok_connection_gone:
  assumes ok: "console_ok k" and unused: "\<not> list_ex (\<lambda>r. br_ConnectionID r = i) (rd_endpoints (co_db k))"
  shows "console_ok (k\<lparr>co_connections := delete_where (\<lambda>x. cn_ID x = i) (co_connections k)\<rparr>)"
proof (intro ok_connections_kept ok)
  show "connections_ok (delete_where (\<lambda>x. cn_ID x = i) (co_connections k))"
    using console_parts(4) [OF ok] by (simp add: connections_ok_def)
next
  fix r assume r: "r \<in> set (rd_endpoints (co_db k))"
  obtain c where c: "c \<in> set (co_connections k)" "site_of r = place_of c"
    using sites [OF ok] r by blast
  have "br_ConnectionID r \<noteq> i" using unused r by (simp add: list_ex_iff)
  moreover have "br_ConnectionID r = cn_ID c" using c(2) by (simp add: site_of_def place_of_def)
  ultimately have "c \<in> set (delete_where (\<lambda>x. cn_ID x = i) (co_connections k))"
    using c(1) by simp
  then show "site_of r \<in> place_of ` set (delete_where (\<lambda>x. cn_ID x = i) (co_connections k))"
    unfolding c(2) by (rule imageI)
qed

lemma ok_DeleteConnection: "console_ok k \<Longrightarrow> console_ok (snd (handleDeleteConnection v p path k))"
proof -
  assume ok: "console_ok k"
  show ?thesis
  proof (cases "named_connection ''database error'' path k")
    case (Inr c)
    show ?thesis
    proof (cases "list_ex (\<lambda>r. br_ConnectionID r = cn_ID c) (rd_endpoints (co_db k))")
      case False
      show ?thesis
        using ok_connection_gone [of "k\<lparr>co_stopped := co_stopped k @ [cn_ID c]\<rparr>"] ok False
        by (simp add: handleDeleteConnection_def Inr False notifyConfigChange_def audit_console_def)
    qed (use ok console_parts(1) [OF ok] Inr in \<open>simp add: handleDeleteConnection_def\<close>)
  qed (use ok in \<open>simp add: handleDeleteConnection_def\<close>)
qed

lemma ok_runtime:
  "console_ok k \<Longrightarrow> console_ok (snd (handleWhatsAppConnectionPair v p path k))"
  "console_ok k \<Longrightarrow> console_ok (snd (handleWhatsAppConnectionCancelPair v p path k))"
  "console_ok k \<Longrightarrow> console_ok (snd (handleWhatsAppConnectionLogout v p path k))"
  unfolding handleWhatsAppConnectionPair_def handleWhatsAppConnectionCancelPair_def handleWhatsAppConnectionLogout_def
  by (auto split: sum.split runtime_answer.split intro!: checked_keeps [where P = console_ok])

lemma ok_console_dispatch: "console_ok k \<Longrightarrow> console_ok (snd (console_dispatch v p q k))"
  by (cases q) (simp_all add: ok_CreateEndpoint ok_UpdateEndpoint ok_DeleteEndpoint ok_CreateSyncSet ok_UpdateSyncSet
      ok_DeleteSyncSet ok_UpdateConfig ok_CreateConnection ok_UpdateConnection ok_DeleteConnection ok_runtime)

lemma console_serve_cases:
  assumes "console_serve v r q k = (reply, k')"
  obtains a where "k' = with_accounts a k"
  | p a where "session_principal (me_accounts (cv_members v)) (extractToken r) (mb_accounts (co_members k)) = (Some p, a)"
      "requiresAdmin (console_method q) (console_path q) \<longrightarrow> pp_Role p = ''admin''"
      "console_dispatch v (Some p) q (with_accounts a k) = (reply, k')"
  using assms
  by (cases "session_principal (me_accounts (cv_members v)) (extractToken r) (mb_accounts (co_members k))")
     (auto simp: console_serve_def split: option.split_asm if_split_asm)

lemma ok_console_serve: "console_ok k \<Longrightarrow> console_serve v r q k = (reply, k') \<Longrightarrow> console_ok k'"
  by (erule console_serve_cases) (simp, metis ok_console_dispatch ok_accounts snd_conv)

end
