(* ===== verification/ConsoleSpec.thy ===== *)
theory ConsoleSpec
  imports ConsoleInvariant MembersSample
begin

text \<open>
  What the console promises: endpoints stay at connections of their transport, only administrators switch the private
  relay of a set, a saved set reads back, a change the runtime refuses is taken back, and endpoints that applicants
  wait for stay, except when their set is deleted.
\<close>

subsection \<open>Endpoints and connections\<close>

lemma migrate_sites:
  assumes "MigrateTelegramEndpoint d alias c old new = (e, d')"
  shows "map site_of (rd_endpoints d') = map site_of (rd_endpoints d)"
  using assms unfolding MigrateTelegramEndpoint_def Let_def
  by (auto simp: site_of_def update_where_def split: option.split_asm sum.split_asm if_split_asm)

lemma ok_migrated:
  assumes "MigrateTelegramEndpoint (co_db k) alias c old new = (e, d)" "console_ok k"
  shows "console_ok (k\<lparr>co_db := d\<rparr>)"
proof (rule ok_db [OF assms(2)])
  show "routing_ok d" "targets_ok d"
    using routing_migrate [OF assms(1)] console_parts [OF assms(2)] by blast+
  have "site_of ` set (rd_endpoints d) = site_of ` set (rd_endpoints (co_db k))"
    using migrate_sites [OF assms(1)] by (metis set_map)
  then show "site_of ` set (rd_endpoints d) \<subseteq> place_of ` set (co_connections k)"
    using sites [OF assms(2)] by simp
qed

lemma ok_console_step: "console_step k k' \<Longrightarrow> console_ok k \<Longrightarrow> console_ok k'"
  by (erule console_stepE) (auto elim: ok_console_serve ok_migrated)

lemma ok_console_run: "console_run k k' \<Longrightarrow> console_ok k \<Longrightarrow> console_ok k'"
  by (induction rule: console_run.induct) (auto elim: ok_console_step)


subsection \<open>A change that the runtime refuses\<close>

lemma updated_back:
  assumes "update_connection c k = Inr k1" "update_connection old k1' = Inr k2" "co_connections k1' = co_connections k1"
    and "keys_ok cn_ID (co_connections k)" "old \<in> set (co_connections k)" "cn_ID c = cn_ID old"
  shows "co_connections k2 = co_connections k"
proof -
  let ?f = "\<lambda>c x. x\<lparr>cn_Label := cn_Label c, cn_Enabled := cn_Enabled c, cn_EncryptedCredential := cn_EncryptedCredential c,
             cn_CredentialNonce := cn_CredentialNonce c, cn_CredentialKeyVersion := cn_CredentialKeyVersion c,
             cn_UpdatedAt := cn_UpdatedAt c, cn_WhatsAppDeviceName := cn_WhatsAppDeviceName c\<rparr>"
  have "co_connections k2 = map (\<lambda>x. if cn_ID x = cn_ID old then ?f old x else x)
      (map (\<lambda>x. if cn_ID x = cn_ID old then ?f c x else x) (co_connections k))"
    using assms(1-3,6) by (auto simp: update_connection_def constraint_Inr update_where_def)
  also have "\<dots> = co_connections k"
    unfolding map_map
  proof (rule map_idI)
    fix x assume "x \<in> set (co_connections k)"
    then have "cn_ID x = cn_ID old \<Longrightarrow> x = old" using assms(5) by (rule keys_ok_unique [OF assms(4)])
    then show "((\<lambda>x. if cn_ID x = cn_ID old then ?f old x else x) \<circ> (\<lambda>x. if cn_ID x = cn_ID old then ?f c x else x)) x = x"
      by (cases "cn_ID x = cn_ID old") simp_all
  qed
  finally show ?thesis .
qed

lemma apply_refused:
  assumes ok: "console_ok k" and old: "old \<in> set (co_connections k)" and c: "cn_ID c = cn_ID old"
    and refused: "\<not> cv_reload v"
  shows "co_connections (snd (apply_connection v p replaced old c k)) = co_connections k"
proof (cases "update_connection c k")
  case (Inr k1)
  have fits: "connection_row_ok old"
    using console_parts(4) [OF ok] old by (simp add: connections_ok_def)
  let ?k1 = "k1\<lparr>co_reloads := Suc (co_reloads k1)\<rparr>"
  obtain k2 where k2: "update_connection old ?k1 = Inr k2"
    using fits by (simp add: update_connection_def constraint_def)
  show ?thesis
    using updated_back [OF Inr k2 _ console_parts(6) [OF ok] old c] refused
    by (simp add: apply_connection_def Inr k2 notifyConfigChange_def)
qed (simp add: apply_connection_def)


subsection \<open>Who switches the private relay\<close>

definition relays :: "RoutingDB \<Rightarrow> string \<Rightarrow> bool" where
  "relays d i =
     (let c = LoadRaw d in list_ex (\<lambda>s. set_ID s = i \<and> ss_PrivateDMRelayEnabled (SettingsForSet c s)) (cfg_SyncSets c))"

definition relay_row :: "SyncSetRow \<Rightarrow> bool" where
  "relay_row s = (case sr_Settings s of None \<Rightarrow> False | Some t \<Rightarrow> ss_PrivateDMRelayEnabled t)"

lemma relays_rows: "relays d i \<longleftrightarrow> (\<exists>s \<in> set (rd_sets d). sr_ID s = i \<and> relay_row s)"
  unfolding relays_def LoadRaw_def Let_def list_ex_iff SettingsForSet_def relay_row_def
  by (auto simp: LegacySettings_def Let_def split: option.splits)

text \<open>What the switch of every set depends on.\<close>

definition switches :: "Console \<Rightarrow> GlobalRow option \<times> SyncSetRow list" where
  "switches k = (rd_global (co_db k), rd_sets (co_db k))"

lemma switches_irrelevant [simp]:
  "switches (k\<lparr>co_members := m\<rparr>) = switches k" "switches (k\<lparr>co_reloads := n\<rparr>) = switches k"
  "switches (k\<lparr>co_stopped := s\<rparr>) = switches k" "switches (k\<lparr>co_connections := cs\<rparr>) = switches k"
  "switches (audit_console v p action target k) = switches k" "switches (with_accounts a k) = switches k"
  by (simp_all add: switches_def audit_console_def with_accounts_def)

lemma insert_rest: "insert_binding row d = Inr d' \<Longrightarrow> rd_sets d' = rd_sets d \<and> rd_global d' = rd_global d"
  by (auto simp: insert_binding_def put_binding_def constraint_Inr)

lemma switches_insert: "insert_binding row (co_db k) = Inr d \<Longrightarrow> switches (k\<lparr>co_db := d\<rparr>) = switches k"
  by (simp add: switches_def insert_rest)

lemma store_endpoint_global:
  assumes "store_endpoint old row d = Inr d'"
  shows "rd_global d' = rd_global d"
  using assms
  by (auto simp: store_endpoint_def bind_res_Inr Let_def update_endpoint_row_def rename_messages_def constraint_Inr
      clear_labels_def split: if_split_asm)

lemma switches_store:
  "store_endpoint old row (co_db k) = Inr d \<Longrightarrow> console_ok k \<Longrightarrow> switches (k\<lparr>co_db := d\<rparr>) = switches k"
  using store_endpoint_result(3) [of old row "co_db k" d] store_endpoint_global [of old row "co_db k" d]
  by (simp add: switches_def console_parts(2))

lemma switches_checked: "switches (snd go) = switches k \<Longrightarrow> switches (snd (checked cs k go)) = switches k"
  by (rule checked_keeps) simp_all

lemma switches_endpoints:
  assumes "console_ok k"
  shows "switches (snd (handleCreateEndpoint v body k)) = switches k"
    "switches (snd (handleUpdateEndpoint v path ubody k)) = switches k"
    "switches (snd (handleDeleteEndpoint v path k)) = switches k"
  unfolding handleCreateEndpoint_def handleUpdateEndpoint_def handleDeleteEndpoint_def Let_def
  using switches_insert switches_store [OF _ assms]
  by (auto intro!: switches_checked split: option.split sum.split simp: notifyConfigChange_def)
     (auto simp: switches_def delete_binding_def)

text \<open>The handlers of connections leave the routing tables alone.\<close>

lemma db_choose: "choose_id v requested k = (x, k') \<Longrightarrow> co_db k' = co_db k"
  by (auto simp: choose_id_def NewConnectionID_def split: if_split_asm prod.split_asm option.split_asm)

lemma db_insert: "insert_connection c k = Inr k' \<Longrightarrow> co_db k' = co_db k"
  by (auto simp: insert_connection_def constraint_Inr split: if_split_asm)

lemma db_store_connection: "store_connection v c k = Inr k' \<Longrightarrow> co_db k' = co_db k"
  by (auto simp: store_connection_def CreateConnection_def Let_def try_err_Inr wrap_res_Inr dest!: db_insert
      split: if_split_asm)

lemma db_audit [simp]: "co_db (audit_console v p action target k) = co_db k"
  by (simp add: audit_console_def)

lemma db_checked: "co_db (snd go) = co_db k \<Longrightarrow> co_db (snd (checked cs k go)) = co_db k"
  by (rule checked_keeps) simp_all

lemma db_stored_connection:
  "co_db (snd (case store_connection v c k of
     Inl e \<Rightarrow> (trouble, k) | Inr k \<Rightarrow> (reply, snd (notifyConfigChange v (audit_console v p action i k))))) = co_db k"
  by (cases "store_connection v c k") (simp_all add: db_store_connection)

lemma db_CreateConnection: "co_db (snd (handleCreateConnection v p body k)) = co_db k"
proof (cases body)
  case (Some req)
  obtain x k1 where pick: "choose_id v (trim_space (cc_ID req)) k = (x, k1)" by fastforce
  note same = db_choose [OF pick]
  have k1: "co_db (snd (checked cs k1 go)) = co_db k" if "co_db (snd go) = co_db k1" for cs go
    using db_checked [OF that] same by simp
  show ?thesis
    unfolding handleCreateConnection_def Let_def Some option.case pick prod.case
    apply (rule db_checked)
    apply (cases x; simp only: sum.case snd_conv same)
    apply (rule k1)
    apply (split sum.split, intro conjI allI impI, simp only: snd_conv)
    apply (split sum.split, intro conjI allI impI, simp only: snd_conv)
    apply (split prod.split, intro allI impI)
    apply (rule db_stored_connection)
    done
qed (simp add: handleCreateConnection_def)

lemma db_apply: "co_db (snd (apply_connection v p replaced old c k)) = co_db k"
  by (auto simp: apply_connection_def update_connection_def constraint_def notifyConfigChange_def
      split: sum.split bool.split)

lemma db_UpdateConnection: "co_db (snd (handleUpdateConnection v p path body k)) = co_db k"
proof -
  have change: "co_db (snd (case token of
         None \<Rightarrow> apply_connection v p False old c k'
       | Some token \<Rightarrow>
           (case replaced_credential v c token of
              Inl reply \<Rightarrow> (reply, k')
            | Inr (encrypted, nonce) \<Rightarrow>
                apply_connection v p True old (c\<lparr>cn_EncryptedCredential := encrypted,
                  cn_CredentialNonce := nonce, cn_CredentialKeyVersion := 1\<rparr>) k'))) = co_db k"
    if "co_db k' = co_db k" for token c k' old
    using that by (simp add: db_apply split: option.split sum.split prod.split)
  show ?thesis
  proof (cases "trim_space path = [] \<or> body = None")
    case False
    then obtain req where body: "\<not> trim_space path = []" "body = Some req" by blast
    show ?thesis
    proof (cases "named_connection ''database error'' path k")
      case (Inr old)
      show ?thesis
        unfolding handleUpdateConnection_def Let_def body Inr option.case sum.case if_not_P [OF body(1)]
        by (rule db_checked, rule change) simp
    qed (use body in \<open>simp add: handleUpdateConnection_def\<close>)
  qed (auto simp: handleUpdateConnection_def)
qed

lemma db_connections:
  "co_db (snd (handleDeleteConnection v p path k)) = co_db k"
  "co_db (snd (handleWhatsAppConnectionPair v p path k)) = co_db k"
  "co_db (snd (handleWhatsAppConnectionCancelPair v p path k)) = co_db k"
  "co_db (snd (handleWhatsAppConnectionLogout v p path k)) = co_db k"
  unfolding handleDeleteConnection_def handleWhatsAppConnectionPair_def handleWhatsAppConnectionCancelPair_def
    handleWhatsAppConnectionLogout_def
  by (auto split: sum.split runtime_answer.split intro!: db_checked)

text \<open>Saving a set writes its row and no other.\<close>

lemma assigned_switches [simp]:
  "rd_sets (foldl (\<lambda>d a. assign_where (P a) i d) d as) = rd_sets d"
  "rd_global (foldl (\<lambda>d a. assign_where (P a) i d) d as) = rd_global d"
  by (induction as arbitrary: d) (simp_all add: assign_rows)

lemma saved_set_switches: "rd_sets (saved_set s settings d) = rd_sets d" "rd_global (saved_set s settings d) = rd_global d"
  by (simp_all add: saved_set_def Let_def clear_labels_def assign_rows)

lemma written_switches:
  assumes "write_set s settings create d = Inr d'" "set_ID s \<in> sr_ID ` set (rd_sets d) \<longleftrightarrow> \<not> create"
  shows "rd_global d' = rd_global d"
    and "set (rd_sets d') = {x \<in> set (rd_sets d). sr_ID x \<noteq> set_ID s} \<union>
      {\<lparr>sr_ID = set_ID s, sr_AnonymizeToDiscord = set_AnonymizeToDiscord s, sr_Settings = Some settings\<rparr>}"
proof -
  show "rd_global d' = rd_global d"
    using assms(1) by (auto simp: write_set_def Let_def constraint_Inr put_set_def split: if_split_asm)
  let ?row = "\<lparr>sr_ID = set_ID s, sr_AnonymizeToDiscord = set_AnonymizeToDiscord s, sr_Settings = Some settings\<rparr>"
  show "set (rd_sets d') = {x \<in> set (rd_sets d). sr_ID x \<noteq> set_ID s} \<union> {?row}"
  proof (cases create)
    case True
    then have "\<forall>x \<in> set (rd_sets d). sr_ID x \<noteq> set_ID s" using assms(2) by (auto dest: sym)
    then show ?thesis using assms(1) True by (auto simp: write_set_def Let_def constraint_Inr put_set_def upsert_def)
  next
    case False
    then show ?thesis using assms by (auto simp: write_set_def Let_def update_where_def)
  qed
qed

lemma relays_saved:
  assumes "saveSyncSet v s settings create k = (x, k')" "set_ID s \<in> sr_ID ` set (rd_sets (co_db k)) \<longleftrightarrow> \<not> create"
    and "ss_PrivateDMRelayEnabled settings \<longleftrightarrow> relays (co_db k) (set_ID s)"
  shows "relays (co_db k') i = relays (co_db k) i" "rd_global (co_db k') = rd_global (co_db k)"
proof -
  have "relays (co_db k') i = relays (co_db k) i \<and> rd_global (co_db k') = rd_global (co_db k)"
  proof (cases "co_db k' = co_db k")
    case False
    then obtain d where d: "write_set s settings create (co_db k) = Inr d" "co_db k' = saved_set s settings d"
      using assms(1) by (auto simp: saveSyncSet_eq split: if_split_asm sum.split_asm)
    note rows = written_switches [OF d(1) assms(2)]
    have "relays (co_db k') i = relays (co_db k) i"
    proof (cases "i = set_ID s")
      case True
      have "relays (co_db k') i = ss_PrivateDMRelayEnabled settings"
        by (auto simp: relays_rows d(2) saved_set_switches rows relay_row_def True)
      then show ?thesis using assms(3) True by simp
    next
      case False
      then show ?thesis
        by (auto simp: relays_rows d(2) saved_set_switches rows)
    qed
    then show ?thesis by (simp add: d(2) saved_set_switches rows)
  qed simp
  then show "relays (co_db k') i = relays (co_db k) i" "rd_global (co_db k') = rd_global (co_db k)" by blast+
qed

definition switches_kept :: "Console \<Rightarrow> Console \<Rightarrow> bool" where
  "switches_kept k k' \<longleftrightarrow>
     (\<forall>i. relays (co_db k') i \<longleftrightarrow> relays (co_db k) i \<and> i \<in> sr_ID ` set (rd_sets (co_db k'))) \<and>
     rd_global (co_db k') = rd_global (co_db k)"

lemma relays_there: "relays d i \<Longrightarrow> i \<in> sr_ID ` set (rd_sets d)"
  by (auto simp: relays_rows)

lemma kept_refl: "switches k' = switches k \<Longrightarrow> switches_kept k k'"
  using relays_there by (auto simp: switches_kept_def switches_def relays_rows)

lemma kept_db: "co_db k' = co_db k \<Longrightarrow> switches_kept k k'"
  by (rule kept_refl) (simp add: switches_def)

lemma kept_saved:
  assumes "saveSyncSet v s settings create k = (x, k')" "set_ID s \<in> sr_ID ` set (rd_sets (co_db k)) \<longleftrightarrow> \<not> create"
    and "ss_PrivateDMRelayEnabled settings \<longleftrightarrow> relays (co_db k) (set_ID s)"
  shows "switches_kept k k'"
  using relays_saved [OF assms] relays_there by (auto simp: switches_kept_def)

lemma kept_CreateSyncSet:
  assumes "not_admin p"
  shows "switches_kept k (snd (handleCreateSyncSet v p body k))"
proof (cases body)
  case (Some req)
  let ?i = "trim_space (cs_ID req)"
  show ?thesis
  proof (cases "mergeSyncSetSettings v DefaultSyncSetSettings (cs_Settings req)")
    case (Inr settings)
    let ?s = "\<lparr>set_ID = ?i, set_Endpoints = cs_Endpoints req, set_AnonymizeToDiscord = cs_AnonymizeToDiscord req,
      set_Settings = Some settings\<rparr>"
    obtain x k' where saved: "saveSyncSet v ?s settings True k = (x, k')" by fastforce
    have kept: "switches_kept k k'" if "\<not> ss_PrivateDMRelayEnabled settings" "?i \<notin> sr_ID ` set (rd_sets (co_db k))"
      using that relays_there by (intro kept_saved [OF saved]) auto
    show ?thesis
      unfolding handleCreateSyncSet_def Let_def Some option.case Inr sum.case saved prod.case
      by (rule checked_keeps [where P = "switches_kept k", OF kept_db [OF refl]])
         (auto simp: assms kept_db kept has_key_def split: option.split if_split_asm)
  qed (simp add: handleCreateSyncSet_def Let_def Some checked_keeps [where P = "switches_kept k"] kept_db)
qed (simp add: handleCreateSyncSet_def kept_db)

lemma loaded_keys:
  assumes "routing_ok d"
  shows "keys_ok set_ID (cfg_SyncSets (LoadRaw d))"
proof -
  have "map set_ID (cfg_SyncSets (LoadRaw d)) = map sr_ID (sort_key sr_ID (rd_sets d))"
    by (simp add: LoadRaw_def Let_def)
  moreover have "distinct (map sr_ID (sort_key sr_ID (rd_sets d)))"
    using routing_parts(2) [OF assms] by (simp add: keys_ok_def distinct_map)
  ultimately show ?thesis unfolding keys_ok_def by metis
qed

lemma relays_found:
  assumes "routing_ok (co_db k)" "find_set k i = Some s"
  shows "relays (co_db k) i \<longleftrightarrow> ss_PrivateDMRelayEnabled (SettingsForSet (LoadRaw (co_db k)) s)"
proof -
  have s: "s \<in> set (cfg_SyncSets (LoadRaw (co_db k)))" "set_ID s = i"
    using assms(2) by (auto simp: find_set_def find_Some_iff)
  have "x = s" if "x \<in> set (cfg_SyncSets (LoadRaw (co_db k)))" "set_ID x = i" for x
    using keys_ok_unique [OF loaded_keys [OF assms(1)] that(1) s(1)] that(2) s(2) by simp
  then show ?thesis
    using s unfolding relays_def Let_def list_ex_iff by blast
qed

lemma kept_UpdateSyncSet:
  assumes "not_admin p" "console_ok k"
  shows "switches_kept k (snd (handleUpdateSyncSet v p path body k))"
proof (cases body)
  case (Some req)
  let ?i = "trim_space path" and ?c = "LoadRaw (co_db k)"
  show ?thesis
  proof (cases "find_set k ?i")
    case (Some current)
    note known = find_set_there [OF Some] and relay = relays_found [OF console_parts(2) [OF assms(2)] Some]
    let ?s = "wanted_set current req"
    have last: "switches_kept k (snd (checked cs k
        (case mergeSyncSetSettings v (SettingsForSet ?c ?s) (us_Settings req) of
           Inl e \<Rightarrow> (KFault 400 e, k)
         | Inr settings \<Rightarrow>
             if ss_PrivateDMRelayEnabled settings \<noteq> ss_PrivateDMRelayEnabled (SettingsForSet ?c current) \<and> not_admin p
             then (KError 403 message, k)
             else (case saveSyncSet v (?s\<lparr>set_Settings := Some settings\<rparr>) settings False k of
                (Some reply, k) \<Rightarrow> (reply, k) | (None, k) \<Rightarrow> (KSet 200 (?s\<lparr>set_Settings := Some settings\<rparr>), k)))))"
      for cs message
    proof (rule checked_keeps [where P = "switches_kept k", OF kept_db [OF refl]])
      show "switches_kept k (snd (case mergeSyncSetSettings v (SettingsForSet ?c ?s) (us_Settings req) of
           Inl e \<Rightarrow> (KFault 400 e, k)
         | Inr settings \<Rightarrow>
             if ss_PrivateDMRelayEnabled settings \<noteq> ss_PrivateDMRelayEnabled (SettingsForSet ?c current) \<and> not_admin p
             then (KError 403 message, k)
             else (case saveSyncSet v (?s\<lparr>set_Settings := Some settings\<rparr>) settings False k of
                (Some reply, k) \<Rightarrow> (reply, k) | (None, k) \<Rightarrow> (KSet 200 (?s\<lparr>set_Settings := Some settings\<rparr>), k))))"
      proof (cases "mergeSyncSetSettings v (SettingsForSet ?c ?s) (us_Settings req)")
        case (Inr settings)
        obtain x k' where saved: "saveSyncSet v (?s\<lparr>set_Settings := Some settings\<rparr>) settings False k = (x, k')" by fastforce
        have "switches_kept k k'" if "ss_PrivateDMRelayEnabled settings = ss_PrivateDMRelayEnabled (SettingsForSet ?c current)"
          using that known relay by (intro kept_saved [OF saved]) simp_all
        then show ?thesis
          unfolding Inr sum.case saved prod.case by (auto simp: assms(1) kept_db split: option.split)
      qed (simp add: kept_db)
    qed
    show ?thesis
      unfolding handleUpdateSyncSet_def Let_def \<open>body = Some req\<close> Some option.case
      by (rule checked_keeps [where P = "switches_kept k", OF kept_db [OF refl] last])
  qed (simp add: handleUpdateSyncSet_def Let_def Some checked_keeps [where P = "switches_kept k"] kept_db)
qed (simp add: handleUpdateSyncSet_def kept_db)

lemma delete_bindings_switches:
  "rd_sets (foldl (\<lambda>d a. delete_binding a d) d as) = rd_sets d"
  "rd_global (foldl (\<lambda>d a. delete_binding a d) d as) = rd_global d"
  by (induction as arbitrary: d) (simp_all add: delete_binding_def)

lemma kept_DeleteSyncSet: "switches_kept k (snd (handleDeleteSyncSet v path k))"
proof -
  have rows: "rd_sets (delete_set i (delete_set_bindings i (co_db k))) = delete_where (\<lambda>r. sr_ID r = i) (rd_sets (co_db k))"
    "rd_global (delete_set i (delete_set_bindings i (co_db k))) = rd_global (co_db k)" for i
    by (simp_all add: delete_set_def delete_set_bindings_def delete_bindings_switches)
  have "switches_kept k k'" if "co_db k' = delete_set i (delete_set_bindings i (co_db k))" for k' i
    by (auto simp: switches_kept_def relays_rows that rows)
  then show ?thesis
    unfolding handleDeleteSyncSet_def Let_def
    by (intro checked_keeps [where P = "switches_kept k", OF kept_db [OF refl]]) (simp add: notifyConfigChange_def)
qed

lemma kept_dispatch:
  assumes "not_admin p" "console_ok k" "\<And>b. q \<noteq> KaUpdateConfig b"
  shows "switches_kept k (snd (console_dispatch v p q k))"
proof (cases q)
  case (KaUpdateConfig b)
  then show ?thesis using assms(3) by blast
qed (use assms(1,2) in \<open>simp_all add: kept_CreateSyncSet kept_UpdateSyncSet kept_DeleteSyncSet kept_refl switches_endpoints
      kept_db db_CreateConnection db_UpdateConnection db_connections\<close>)

text \<open>
  C26: Only an administrator switches the private relay: a request of anybody else, whatever it asks for, leaves the switch
  of every set as it was, or removes the set, and leaves the switch for the whole server as it was.
\<close>

theorem relay_needs_admin:
  assumes "console_ok k" "console_serve v r q k = (reply, k')"
    and "\<And>p a. session_principal (me_accounts (cv_members v)) (extractToken r) (mb_accounts (co_members k)) = (Some p, a) \<Longrightarrow>
      pp_Role p \<noteq> ''admin''"
  shows "(relays (co_db k') i \<longleftrightarrow> relays (co_db k) i \<and> i \<in> sr_ID ` set (rd_sets (co_db k'))) \<and>
    rd_global (co_db k') = rd_global (co_db k)"
proof -
  from assms(2) have "switches_kept k k'"
  proof (cases rule: console_serve_cases)
    case (1 a)
    then show ?thesis by (simp add: kept_refl)
  next
    case (2 p a)
    have role: "pp_Role p \<noteq> ''admin''" by (rule assms(3) [OF 2(1)])
    then have "q \<noteq> KaUpdateConfig b" for b using 2(2) by (auto simp: requiresAdmin_def)
    then have "switches_kept (with_accounts a k) k'"
      using kept_dispatch [of "Some p" "with_accounts a k" q v] role assms(1) 2(3) by (simp add: not_admin_def)
    then show ?thesis by (simp add: switches_kept_def with_accounts_def)
  qed
  then show ?thesis by (simp add: switches_kept_def)
qed

subsection \<open>A saved set reads back\<close>

lemma assigned_rows:
  "rd_endpoints (foldl (\<lambda>d a. assign_where (\<lambda>b j. b = a) (Some i) d) d as) =
    update_where (\<lambda>r. br_Alias r \<in> set as) (\<lambda>r. r\<lparr>br_SyncSetID := Some i\<rparr>) (rd_endpoints d)"
  by (induction as arbitrary: d) (auto simp: assign_rows update_where_def)

lemma saved_rows:
  "rd_endpoints (saved_set s settings d) =
    map (\<lambda>r. r\<lparr>br_SyncSetID := (if br_Alias r \<in> set (set_Endpoints s) then Some (set_ID s)
       else if br_SyncSetID r = Some (set_ID s) then None else br_SyncSetID r)\<rparr>) (rd_endpoints d)"
  by (simp add: saved_set_def Let_def assigned_rows assign_rows update_where_def)

lemma set_members_of:
  "trim_space i \<noteq> [] \<Longrightarrow> set (members_of rows i) = {br_Alias r | r. r \<in> set rows \<and> br_SyncSetID r = Some i}"
  by (auto simp: members_of_def split: option.splits)

lemma find_set_row:
  assumes "routing_ok (co_db k)" "row \<in> set (rd_sets (co_db k))" "sr_Settings row = Some settings" "trim_space (sr_ID row) \<noteq> []"
  shows "\<exists>s. find_set k (sr_ID row) = Some s \<and> set_AnonymizeToDiscord s = sr_AnonymizeToDiscord row \<and>
    set_Settings s = Some settings \<and>
    set (set_Endpoints s) = {br_Alias r | r. r \<in> set (rd_endpoints (co_db k)) \<and> br_SyncSetID r = Some (sr_ID row)}"
proof -
  let ?s = "\<lparr>set_ID = sr_ID row, set_Endpoints = members_of (sort_key br_Alias (rd_endpoints (co_db k))) (sr_ID row),
    set_AnonymizeToDiscord = sr_AnonymizeToDiscord row, set_Settings = Some settings\<rparr>"
  have "?s \<in> set (cfg_SyncSets (LoadRaw (co_db k)))"
    using assms(2,3) by (force simp: LoadRaw_def Let_def)
  moreover have "find_set k (sr_ID row) = Some x" if "x \<in> set (cfg_SyncSets (LoadRaw (co_db k)))" "set_ID x = sr_ID row" for x
  proof (cases "find_set k (sr_ID row)")
    case None
    then show ?thesis using that by (auto simp: find_set_def find_None_iff)
  next
    case (Some y)
    then have "y \<in> set (cfg_SyncSets (LoadRaw (co_db k)))" "set_ID y = set_ID x"
      using that(2) by (auto simp: find_set_def find_Some_iff)
    then have "y = x" using keys_ok_unique [OF loaded_keys [OF assms(1)] _ that(1)] by blast
    then show ?thesis using Some by simp
  qed
  ultimately have "find_set k (sr_ID row) = Some ?s" by simp
  then show ?thesis using set_members_of [OF assms(4)] by auto
qed

lemma saved_reads_back:
  assumes "console_ok k" "saveSyncSet v s settings create k = (None, k')" "trim_space (set_ID s) \<noteq> []"
    and "set_ID s \<in> sr_ID ` set (rd_sets (co_db k)) \<longleftrightarrow> \<not> create"
  shows "\<exists>s'. find_set k' (set_ID s) = Some s' \<and> set_AnonymizeToDiscord s' = set_AnonymizeToDiscord s \<and>
    set_Settings s' = Some settings \<and>
    set (set_Endpoints s') = set (set_Endpoints s) \<inter> br_Alias ` set (rd_endpoints (co_db k))"
proof -
  obtain d where d: "write_set s settings create (co_db k) = Inr d" "co_db k' = saved_set s settings d"
    using assms(2) by (auto simp: saveSyncSet_eq split: if_split_asm sum.split_asm)
  have ok: "console_ok k'" using ok_saved [OF assms(2,1)] assms(4) by blast
  note rows = written_switches [OF d(1) assms(4)]
  have same: "rd_endpoints d = rd_endpoints (co_db k)"
    using write_set_result(2) [OF d(1) console_parts(2) [OF assms(1)]] assms(4) by blast
  have chosen: "{br_Alias r | r. r \<in> f ` R \<and> P r} = (\<lambda>r. br_Alias (f r)) ` {r \<in> R. P (f r)}" for f :: "BindingRow \<Rightarrow> BindingRow" and R P
    by auto
  let ?row = "\<lparr>sr_ID = set_ID s, sr_AnonymizeToDiscord = set_AnonymizeToDiscord s, sr_Settings = Some settings\<rparr>"
  have "?row \<in> set (rd_sets (co_db k'))" by (simp add: d(2) saved_set_switches rows)
  moreover have "{br_Alias r | r. r \<in> set (rd_endpoints (co_db k')) \<and> br_SyncSetID r = Some (set_ID s)} =
      set (set_Endpoints s) \<inter> br_Alias ` set (rd_endpoints (co_db k))"
    unfolding d(2) saved_rows same set_map chosen by (auto split: if_split_asm)
  ultimately show ?thesis
    using find_set_row [of k' ?row settings] console_parts(2) [OF ok] assms(3) by simp
qed

lemma no_set_reply [simp]: "bad_request e \<noteq> Some (KSet n s)" "refuse_if b c m \<noteq> Some (KSet n s)"
  "Some (KSet n s) \<noteq> bad_request e" "Some (KSet n s) \<noteq> refuse_if b c m"
  by (cases e; simp add: bad_request_def refuse_if_def)+

lemma no_ok_reply [simp]: "Some (KOk answer) \<noteq> refuse_if b c m"
  by (simp add: refuse_if_def)

lemma no_set_if [simp]: "Some (KSet n s) = (if b then Some (KError x m) else c) \<longleftrightarrow> \<not> b \<and> Some (KSet n s) = c"
  by simp

lemma created_set:
  assumes "handleCreateSyncSet v p body k = (KSet status s, k')"
  shows "\<exists>settings. saveSyncSet v s settings True k = (None, k') \<and> set_Settings s = Some settings \<and>
    set_ID s \<notin> sr_ID ` set (rd_sets (co_db k))"
proof -
  obtain req where req: "body = Some req"
    using assms by (cases body) (simp_all add: handleCreateSyncSet_def)
  have run: "checked cs k go = (KSet status s, k') \<Longrightarrow> Some (KSet status s) \<notin> set cs \<Longrightarrow>
      list_all (\<lambda>c. c = None) cs \<and> go = (KSet status s, k')" for cs go
    using checked_passes by blast
  note passed = run [OF assms [unfolded handleCreateSyncSet_def Let_def req option.case]]
  have checks: "has_key sr_ID (trim_space (cs_ID req)) (rd_sets (co_db k)) = False" and
    rest: "(case mergeSyncSetSettings v DefaultSyncSetSettings (cs_Settings req) of
       Inl e \<Rightarrow> (KFault 400 e, k)
     | Inr settings \<Rightarrow>
         if ss_PrivateDMRelayEnabled settings \<and> not_admin p
         then (KError 403 ''private DM relay enablement requires an administrator'', k)
         else (case saveSyncSet v \<lparr>set_ID = trim_space (cs_ID req), set_Endpoints = cs_Endpoints req,
             set_AnonymizeToDiscord = cs_AnonymizeToDiscord req, set_Settings = Some settings\<rparr> settings True k of
           (Some reply, k) \<Rightarrow> (reply, k)
         | (None, k) \<Rightarrow> (KSet 201 \<lparr>set_ID = trim_space (cs_ID req), set_Endpoints = cs_Endpoints req,
             set_AnonymizeToDiscord = cs_AnonymizeToDiscord req, set_Settings = Some settings\<rparr>, k))) = (KSet status s, k')"
    using passed by (simp_all split: if_split_asm)
  from rest checks show ?thesis
    by (auto simp: saveSyncSet_eq has_key_def split: sum.split_asm if_split_asm prod.split_asm option.split_asm)
qed

lemma updated_set:
  assumes "handleUpdateSyncSet v p path body k = (KSet status s, k')"
  shows "\<exists>settings. saveSyncSet v s settings False k = (None, k') \<and> set_Settings s = Some settings \<and>
    set_ID s \<in> sr_ID ` set (rd_sets (co_db k))"
proof -
  obtain req where req: "body = Some req"
    using assms by (cases body) (simp_all add: handleUpdateSyncSet_def)
  have run: "checked cs k go = (KSet status s, k') \<Longrightarrow> Some (KSet status s) \<notin> set cs \<Longrightarrow> go = (KSet status s, k')" for cs go
    using checked_passes by blast
  have found: "(case find_set k (trim_space path) of
      None \<Rightarrow> (KError 404 ''sync set not found'', k)
    | Some current \<Rightarrow> go current) = (KSet status s, k') \<Longrightarrow>
      \<exists>current. find_set k (trim_space path) = Some current \<and> go current = (KSet status s, k')" for go
    by (auto split: option.split_asm)
  obtain current where current: "find_set k (trim_space path) = Some current"
    and inner: "checked [bad_request (validateSyncSetEndpoints k (trim_space path) (set_Endpoints (wanted_set current req)) False)] k
        (case mergeSyncSetSettings v (SettingsForSet (LoadRaw (co_db k)) (wanted_set current req)) (us_Settings req) of
           Inl e \<Rightarrow> (KFault 400 e, k)
         | Inr settings \<Rightarrow>
             if ss_PrivateDMRelayEnabled settings \<noteq> ss_PrivateDMRelayEnabled (SettingsForSet (LoadRaw (co_db k)) current) \<and> not_admin p
             then (KError 403 ''private DM relay enablement requires an administrator'', k)
             else (case saveSyncSet v (wanted_set current req\<lparr>set_Settings := Some settings\<rparr>) settings False k of
               (Some reply, k) \<Rightarrow> (reply, k)
             | (None, k) \<Rightarrow> (KSet 200 (wanted_set current req\<lparr>set_Settings := Some settings\<rparr>), k))) = (KSet status s, k')"
    using found [OF run [OF assms [unfolded handleUpdateSyncSet_def Let_def req option.case]]] by auto
  from run [OF inner] known_set [OF current] show ?thesis
    by (auto simp: saveSyncSet_eq split: sum.split_asm if_split_asm prod.split_asm option.split_asm)
qed

text \<open>
  C27: A set that the console reports as created or updated reads back with the switch for Discord and the settings that
  were reported, and with those reported endpoints that are the alias of an endpoint as they are written. An alias with
  blanks around it passes the checks, which trim it, and is reported, but its endpoint is not assigned.
\<close>

theorem reported_set_reads_back:
  assumes "console_ok k" "console_dispatch v p q k = (KSet status s, k')"
    and "(\<exists>body. q = KaCreateSet body) \<or> (\<exists>sid body. q = KaUpdateSet sid body)" "trim_space (set_ID s) \<noteq> []"
  shows "\<exists>s'. find_set k' (set_ID s) = Some s' \<and> set_AnonymizeToDiscord s' = set_AnonymizeToDiscord s \<and>
    set_Settings s' = set_Settings s \<and>
    set (set_Endpoints s') = set (set_Endpoints s) \<inter> br_Alias ` set (rd_endpoints (co_db k))"
proof -
  have "\<exists>settings create. saveSyncSet v s settings create k = (None, k') \<and> set_Settings s = Some settings \<and>
    (set_ID s \<in> sr_ID ` set (rd_sets (co_db k)) \<longleftrightarrow> \<not> create)"
    using assms(3)
  proof (elim disjE exE)
    fix body assume q: "q = KaCreateSet body"
    show ?thesis using created_set [OF assms(2) [unfolded q console_dispatch.simps]] by blast
  next
    fix sid body assume q: "q = KaUpdateSet sid body"
    show ?thesis using updated_set [OF assms(2) [unfolded q console_dispatch.simps]] by blast
  qed
  then obtain settings create where saved: "saveSyncSet v s settings create k = (None, k')" "set_Settings s = Some settings"
    "set_ID s \<in> sr_ID ` set (rd_sets (co_db k)) \<longleftrightarrow> \<not> create" by blast
  show ?thesis
    using saved_reads_back [OF assms(1) saved(1) assms(4) saved(3)] unfolding saved(2) .
qed

subsection \<open>Endpoints that applicants wait for\<close>

definition seat :: "BindingRow \<Rightarrow> string \<times> string \<times> string \<times> string" where
  "seat r = (br_Alias r, br_Transport r, br_ConnectionID r, br_RemoteID r)"

definition seats :: "Console \<Rightarrow> (string \<times> string \<times> string \<times> string) set" where
  "seats k = seat ` set (rd_endpoints (co_db k))"

text \<open>An applicant waits for the endpoint, as far as the handler can tell.\<close>

definition awaited :: "Console \<Rightarrow> string \<Rightarrow> bool" where
  "awaited k alias \<longleftrightarrow> endpointHasOutstandingMembershipRequests (co_members k) alias \<noteq> Some False"

lemma awaited_guard: "awaited k alias \<Longrightarrow> membership_guard k alias concerns = None \<Longrightarrow> \<not> concerns"
  by (auto simp: awaited_def membership_guard_def split: option.split_asm)

lemma awaited_accounts:
  "endpointHasOutstandingMembershipRequests (co_members k) alias = Some True \<Longrightarrow> awaited (with_accounts a k) alias"
  by (auto simp: awaited_def with_accounts_def endpointHasOutstandingMembershipRequests_def split: if_split_asm)

lemma seats_db: "rd_endpoints (co_db k') = rd_endpoints (co_db k) \<Longrightarrow> seats k' = seats k"
  by (simp add: seats_def)

lemma seats_insert: "insert_binding row (co_db k) = Inr d \<Longrightarrow> x \<in> seats k \<Longrightarrow> x \<in> seats (k\<lparr>co_db := d\<rparr>)"
  by (auto simp: seats_def rows_insert)

lemma seats_irrelevant [simp]:
  "seats (k\<lparr>co_members := m\<rparr>) = seats k" "seats (k\<lparr>co_reloads := n\<rparr>) = seats k" "seats (with_accounts a k) = seats k"
  by (simp_all add: seats_def with_accounts_def)

lemma seat_CreateEndpoint: "x \<in> seats k \<Longrightarrow> x \<in> seats (snd (handleCreateEndpoint v body k))"
  unfolding handleCreateEndpoint_def Let_def
  by (auto split: option.split sum.split intro!: checked_keeps [where P = "\<lambda>k. x \<in> seats k"] simp: notifyConfigChange_def
      dest: seats_insert)

lemma seat_DeleteEndpoint:
  assumes "x \<in> seats k" "awaited k (fst x)"
  shows "x \<in> seats (snd (handleDeleteEndpoint v path k))"
  unfolding handleDeleteEndpoint_def Let_def
proof (rule checked_keeps [where P = "\<lambda>k. x \<in> seats k", OF assms(1)], goal_cases)
  case 1
  then have "membership_guard k (trim_space path) True = None" by simp
  then have "fst x \<noteq> trim_space path" using awaited_guard [OF assms(2), of True] by auto
  then show ?case
    using assms(1) by (auto simp: notifyConfigChange_def seats_def delete_binding_rows seat_def)
qed

lemma seat_update:
  assumes "x \<in> seats k" "rd_endpoints d = update_where (\<lambda>r. br_Alias r = br_Alias old) (\<lambda>r. row) (rd_endpoints (co_db k))"
    and "fst x = br_Alias old \<Longrightarrow> seat row = x"
  shows "x \<in> seats (k\<lparr>co_db := d\<rparr>)"
proof -
  obtain r where r: "r \<in> set (rd_endpoints (co_db k))" "x = seat r" using assms(1) by (auto simp: seats_def)
  let ?r = "if br_Alias r = br_Alias old then row else r"
  have "?r \<in> set (rd_endpoints d)" using r(1) by (auto simp: assms(2) update_where_def)
  moreover have "seat ?r = x" using assms(3) by (simp add: r(2) seat_def)
  ultimately show ?thesis by (auto simp: seats_def)
qed

lemma seat_UpdateEndpoint:
  assumes "console_ok k" "x \<in> seats k" "awaited k (fst x)"
  shows "x \<in> seats (snd (handleUpdateEndpoint v path body k))"
proof (cases "trim_space path = [] \<or> body = None \<or> find_endpoint k (trim_space path) = None")
  case False
  then obtain req old where path: "\<not> trim_space path = []" and req: "body = Some req"
    and old: "find_endpoint k (trim_space path) = Some old" by auto
  have there: "old \<in> set (rd_endpoints (co_db k))" "br_Alias old = trim_space path"
    using old by (auto simp: find_endpoint_def find_Some_iff)
  show ?thesis
    unfolding handleUpdateEndpoint_def Let_def req option.case old if_not_P [OF path]
  proof (rule checked_keeps [where P = "\<lambda>k. x \<in> seats k", OF assms(2)],
      rule checked_keeps [where P = "\<lambda>k. x \<in> seats k", OF assms(2)], goal_cases)
    case 1
    then have "membership_guard k (trim_space path) (endpoint_moves old (wanted_endpoint old req None) (ur_SyncSetID req)) = None"
      by simp
    then have stays: "\<not> endpoint_moves old (wanted_endpoint old req None) (ur_SyncSetID req)" if "fst x = br_Alias old"
      using awaited_guard assms(3) that there(2) by metis
    have same: "seat (wanted_endpoint old req setID) = x" if "fst x = br_Alias old" for setID
    proof -
      obtain r where r: "r \<in> set (rd_endpoints (co_db k))" "x = seat r" using assms(2) by (auto simp: seats_def)
      then have "r = old"
        using keys_ok_unique [OF routing_parts(1) [OF console_parts(2) [OF assms(1)]] r(1) there(1)] that by (simp add: seat_def)
      then show ?thesis
        using stays [OF that] r(2) by (simp add: endpoint_moves_def seat_def wanted_endpoint_def)
    qed
    show ?case
    proof (cases "endpointSyncSetValue k (ur_SyncSetID req)")
      case (Inr setID)
      show ?thesis
      proof (cases "store_endpoint old (wanted_endpoint old req setID) (co_db k)")
        case stored: (Inr d)
        have "x \<in> seats (k\<lparr>co_db := d\<rparr>)"
          by (rule seat_update [OF assms(2) store_endpoint_result(4) [OF stored console_parts(2) [OF assms(1)]] same])
        then show ?thesis by (simp add: Inr stored notifyConfigChange_def)
      qed (simp add: Inr assms(2))
    qed (simp add: assms(2))
  qed
qed (use assms(2) in \<open>auto simp: handleUpdateEndpoint_def Let_def intro!: checked_keeps [where P = "\<lambda>k. x \<in> seats k"]
    split: option.split\<close>)

lemma seats_assigned: "map seat (rd_endpoints (saved_set s settings d)) = map seat (rd_endpoints d)"
  by (simp add: saved_rows seat_def)

lemma seats_saved:
  assumes "saveSyncSet v s settings create k = (x, k')" "console_ok k" "\<not> create \<Longrightarrow> set_ID s \<in> sr_ID ` set (rd_sets (co_db k))"
  shows "seats k' = seats k"
proof (cases "co_db k' = co_db k")
  case False
  then obtain d where d: "write_set s settings create (co_db k) = Inr d" "co_db k' = saved_set s settings d"
    using assms(1) by (auto simp: saveSyncSet_eq split: if_split_asm sum.split_asm)
  have "rd_endpoints d = rd_endpoints (co_db k)"
    by (rule write_set_result(2) [OF d(1) console_parts(2) [OF assms(2)] assms(3)])
  then have "map seat (rd_endpoints (co_db k')) = map seat (rd_endpoints (co_db k))"
    by (simp add: d(2) seats_assigned)
  then show ?thesis unfolding seats_def by (metis set_map)
qed (simp add: seats_def)

lemma seat_CreateSyncSet:
  assumes "console_ok k" "x \<in> seats k"
  shows "x \<in> seats (snd (handleCreateSyncSet v p body k))"
proof (cases body)
  case (Some req)
  show ?thesis
  proof (cases "mergeSyncSetSettings v DefaultSyncSetSettings (cs_Settings req)")
    case (Inr settings)
    let ?s = "\<lparr>set_ID = trim_space (cs_ID req), set_Endpoints = cs_Endpoints req,
      set_AnonymizeToDiscord = cs_AnonymizeToDiscord req, set_Settings = Some settings\<rparr>"
    obtain y k' where saved: "saveSyncSet v ?s settings True k = (y, k')" by fastforce
    have "x \<in> seats k'" using seats_saved [OF saved assms(1)] assms(2) by simp
    then show ?thesis
      unfolding handleCreateSyncSet_def Let_def Some option.case Inr sum.case saved prod.case
      by (intro checked_keeps [where P = "\<lambda>k. x \<in> seats k", OF assms(2)]) (simp add: assms(2) split: option.split)
  qed (simp add: handleCreateSyncSet_def Let_def Some checked_keeps [where P = "\<lambda>k. x \<in> seats k"] assms(2))
qed (simp add: handleCreateSyncSet_def assms(2))

lemma seat_UpdateSyncSet:
  assumes "console_ok k" "x \<in> seats k"
  shows "x \<in> seats (snd (handleUpdateSyncSet v p path body k))"
proof (cases "body = None \<or> find_set k (trim_space path) = None")
  case False
  then obtain req current where req: "body = Some req" and current: "find_set k (trim_space path) = Some current" by auto
  have saved: "x \<in> seats k'" if "saveSyncSet v (wanted_set current req\<lparr>set_Settings := settings'\<rparr>) settings False k = (y, k')"
    for settings settings' y k'
    using seats_saved [OF that assms(1)] known_set [OF current] assms(2) by simp
  show ?thesis
    unfolding handleUpdateSyncSet_def Let_def req current option.case
    by (rule checked_keeps [where P = "\<lambda>k. x \<in> seats k", OF assms(2)],
        rule checked_keeps [where P = "\<lambda>k. x \<in> seats k", OF assms(2)])
       (auto simp: assms(2) split: option.split sum.split prod.split dest: saved)
qed (use assms(2) in \<open>auto simp: handleUpdateSyncSet_def Let_def intro!: checked_keeps [where P = "\<lambda>k. x \<in> seats k"]
    split: option.split\<close>)

lemma seats_connections:
  "seats (snd (handleCreateConnection v p cbody k)) = seats k"
  "seats (snd (handleUpdateConnection v p path ubody k)) = seats k"
  "seats (snd (handleDeleteConnection v p path k)) = seats k"
  "seats (snd (handleWhatsAppConnectionPair v p path k)) = seats k"
  "seats (snd (handleWhatsAppConnectionCancelPair v p path k)) = seats k"
  "seats (snd (handleWhatsAppConnectionLogout v p path k)) = seats k"
  by (simp_all only: seats_def db_CreateConnection db_UpdateConnection db_connections)

lemma seat_dispatch:
  assumes "console_ok k" "x \<in> seats k" "awaited k (fst x)" "\<And>sid. q \<noteq> KaDeleteSet sid"
  shows "x \<in> seats (snd (console_dispatch v p q k))"
proof (cases q)
  case (KaDeleteSet sid)
  then show ?thesis using assms(4) by blast
next
  case (KaUpdateConfig b)
  then show ?thesis
    using assms(2) by (auto simp: handleUpdateConfig_def notifyConfigChange_def seats_def split: option.split bool.split)
qed (simp_all add: assms(1-3) seat_CreateEndpoint seat_UpdateEndpoint seat_DeleteEndpoint seat_CreateSyncSet
      seat_UpdateSyncSet seats_connections)

text \<open>
  C25: While an application for the page of an endpoint is outstanding, no request but the deletion of its sync set
  removes the endpoint, renames it, moves it to another connection or points it at another group.
\<close>

theorem awaited_endpoint_stays:
  assumes "console_ok k" "console_serve v r q k = (reply, k')" "row \<in> set (rd_endpoints (co_db k))"
    and "endpointHasOutstandingMembershipRequests (co_members k) (br_Alias row) = Some True" "\<And>sid. q \<noteq> KaDeleteSet sid"
  shows "\<exists>row' \<in> set (rd_endpoints (co_db k')). br_Alias row' = br_Alias row \<and> br_Transport row' = br_Transport row \<and>
    br_ConnectionID row' = br_ConnectionID row \<and> br_RemoteID row' = br_RemoteID row"
proof -
  have x: "seat row \<in> seats k" using assms(3) by (simp add: seats_def)
  have waiting: "awaited (with_accounts a k) (fst (seat row))" for a
    using awaited_accounts [OF assms(4)] by (simp add: seat_def)
  from assms(2) have "seat row \<in> seats k'"
  proof (cases rule: console_serve_cases)
    case (1 a)
    then show ?thesis using x by simp
  next
    case (2 p a)
    then show ?thesis
      using seat_dispatch [of "with_accounts a k" "seat row" q v "Some p"] assms(1,5) x waiting by simp
  qed
  then show ?thesis by (auto simp: seats_def seat_def)
qed


end
