(* ===== verification/ConsoleSample.thy ===== *)
theory ConsoleSample
  imports ConsoleSpec ConfigSpec
begin

text \<open>
  A small console, one WhatsApp connection with one group in one sync set that an applicant waits for, on which the
  properties of the console are seen at work.
\<close>

definition sample_binding :: BindingRow where
  "sample_binding = \<lparr>br_Alias = ''fam'', br_Transport = ''whatsapp'', br_ConnectionID = ''c1'', br_RemoteID = ''1@g.us'',
     br_SyncSetID = Some ''s1'', br_AnonymizeIncoming = False, br_AnonymizeOutgoing = False\<rparr>"

definition sample_set :: SyncSetRow where
  "sample_set = \<lparr>sr_ID = ''s1'', sr_AnonymizeToDiscord = False, sr_Settings = Some DefaultSyncSetSettings\<rparr>"

definition sample_routing :: RoutingDB where
  "sample_routing = (case insert_binding sample_binding (put_set sample_set empty_routing) of Inr d \<Rightarrow> d | Inl e \<Rightarrow> empty_routing)"

lemma sample_routing_rows:
  "insert_binding sample_binding (put_set sample_set empty_routing) = Inr sample_routing"
  "rd_endpoints sample_routing = [sample_binding]" "rd_sets sample_routing = [sample_set]" "rd_global sample_routing = None"
proof -
  have free: "rd_endpoints (put_set sample_set empty_routing) = []" "rd_sets (put_set sample_set empty_routing) = [sample_set]"
    "rd_global (put_set sample_set empty_routing) = None"
    by (simp_all add: put_set_def empty_routing_def upsert_def has_key_def)
  then have ok: "insert_binding sample_binding (put_set sample_set empty_routing) \<noteq> Inl e" for e
    by (simp add: insert_binding_def put_binding_def constraint_def has_key_def sample_binding_def sample_set_def transport_IsValid_def)
  then show inserted: "insert_binding sample_binding (put_set sample_set empty_routing) = Inr sample_routing"
    by (cases "insert_binding sample_binding (put_set sample_set empty_routing)") (auto simp: sample_routing_def)
  show "rd_endpoints sample_routing = [sample_binding]" using rows_insert [OF inserted] free by simp
  show "rd_sets sample_routing = [sample_set]" "rd_global sample_routing = None"
    using insert_rest [OF inserted] free by simp_all
qed

definition sample_connection :: ConnectionRow where
  "sample_connection = \<lparr>cn_WhatsAppDeviceName = ''message-sync'', cn_ID = ''c1'', cn_Transport = ''whatsapp'',
     cn_IntegrationMode = ''multidevice'', cn_Label = ''Phone'', cn_Enabled = True, cn_EncryptedCredential = [],
     cn_CredentialNonce = [], cn_CredentialKeyVersion = 1, cn_CreatedBy = None, cn_CreatedAt = 0, cn_UpdatedAt = 0\<rparr>"

definition sample_console :: Console where
  "sample_console = \<lparr>co_answers = True, co_db = sample_routing, co_members = sample_members,
     co_connections = [sample_connection], co_reloads = 0, co_stopped = []\<rparr>"

lemma sample_console_ok: "console_ok sample_console"
proof -
  have "routing_ok sample_routing"
    using routing_insert [OF sample_routing_rows(1) routing_put_set [OF empty_routing_ok]] .
  moreover have "connection_row_ok sample_connection" by code_simp
  ultimately show ?thesis
    by (simp add: console_ok_def sample_console_def targets_ok_def sample_routing_rows connections_ok_def connected_def
        site_of_def place_of_def sample_binding_def sample_connection_def)
qed

definition sample_console_env :: "bool \<Rightarrow> ConsoleEnv" where
  "sample_console_env reload =
     \<lparr>cv_members = sample_env 50, cv_validator = None, cv_reload = reload, cv_decode = (\<lambda>s raw. None), cv_owned = True,
      cv_runtime = (\<lambda>what i. RuntimeOk []), cv_encrypt = None, cv_decrypt = (\<lambda>c n. None),
      cv_encode_credential = (\<lambda>c. []), cv_decode_credential = (\<lambda>s. None), cv_escaped_path = ul_Path,
      cv_path_unescape = Some\<rparr>"

subsection \<open>The properties at work\<close>

definition switched_on :: Console where
  "switched_on = snd (console_serve (sample_console_env True) (sample_request AskMe) (KaUpdateConfig (Some (Some True))) sample_console)"

lemma switched_on_rows: "rd_endpoints (co_db switched_on) = [sample_binding]"
  unfolding switched_on_def console_serve_def
  by (simp add: handleUpdateConfig_def notifyConfigChange_def with_accounts_def sample_console_def sample_routing_rows
      split: prod.split option.split bool.split)


text \<open>An operator without the role of an administrator asks for a set with the private relay.\<close>

definition operator_console :: Console where
  "operator_console = with_accounts (sample_accounts\<lparr>ac_users := [sample_admin\<lparr>us_Role := ''operator''\<rparr>]\<rparr>) sample_console"

definition asked_relay :: Console where
  "asked_relay = snd (console_serve (sample_console_env True\<lparr>cv_decode := (\<lambda>s raw. Some (s\<lparr>ss_PrivateDMRelayEnabled := True\<rparr>))\<rparr>)
     (sample_request AskMe)
     (KaCreateSet (Some \<lparr>cs_ID = ''s2'', cs_Endpoints = [], cs_AnonymizeToDiscord = False, cs_Settings = ''x''\<rparr>)) operator_console)"

theorem relay_needs_admin_witness: "\<not> relays (co_db asked_relay) ''s2''"
proof -
  let ?v = "sample_console_env True\<lparr>cv_decode := (\<lambda>s raw. Some (s\<lparr>ss_PrivateDMRelayEnabled := True\<rparr>))\<rparr>"
  let ?q = "KaCreateSet (Some \<lparr>cs_ID = ''s2'', cs_Endpoints = [], cs_AnonymizeToDiscord = False, cs_Settings = ''x''\<rparr>)"
  have ok: "console_ok operator_console" by (simp add: operator_console_def sample_console_ok)
  have served: "console_serve ?v (sample_request AskMe) ?q operator_console =
      (fst (console_serve ?v (sample_request AskMe) ?q operator_console), asked_relay)"
    unfolding asked_relay_def by (rule surjective_pairing)
  have role: "pp_Role p \<noteq> ''admin''"
    if "session_principal (me_accounts (cv_members ?v)) (extractToken (sample_request AskMe))
      (mb_accounts (co_members operator_console)) = (Some p, a)" for p a
    using that
    by (auto simp: session_principal_def live_session_def operator_console_def with_accounts_def sample_accounts_def
        fresh_accounts_def sample_admin_def user_by_id_def find_Some_iff split: if_split_asm option.split_asm)
  have "\<not> relays (co_db operator_console) ''s2''"
    by (simp add: operator_console_def with_accounts_def sample_console_def relays_rows sample_routing_rows sample_set_def)
  moreover have "relays (co_db asked_relay) ''s2'' \<longleftrightarrow>
      relays (co_db operator_console) ''s2'' \<and> ''s2'' \<in> sr_ID ` set (rd_sets (co_db asked_relay))"
    by (rule relay_needs_admin [THEN conjunct1, OF ok served]) (rule role)
  ultimately show ?thesis by blast
qed


text \<open>A set is reported with an endpoint that it does not have.\<close>

definition sloppy_update :: UpdateSyncSetRequest where
  "sloppy_update = \<lparr>us_SetID = [], us_Endpoints = Some [''fam ''], us_AnonymizeToDiscord = Some True, us_Settings = []\<rparr>"

definition sloppy_set :: SyncSet where
  "sloppy_set = \<lparr>set_ID = ''s1'', set_Endpoints = [''fam ''], set_AnonymizeToDiscord = True,
     set_Settings = Some DefaultSyncSetSettings\<rparr>"

lemma sample_loaded: "find_set sample_console ''s1'' =
    Some \<lparr>set_ID = ''s1'', set_Endpoints = [''fam''], set_AnonymizeToDiscord = False, set_Settings = Some DefaultSyncSetSettings\<rparr>"
proof -
  have "trim_space ''s1'' \<noteq> []" by code_simp
  then show ?thesis
    by (simp add: find_set_def sample_console_def LoadRaw_def Let_def sample_routing_rows sample_set_def members_of_def
        sample_binding_def)
qed

lemma sloppy_answer:
  "fst (console_dispatch (sample_console_env True) None (KaUpdateSet ''s1'' (Some sloppy_update)) sample_console) = KSet 200 sloppy_set"
proof -
  have texts: "trim_space ''s1'' = ''s1''" "trim_space ''fam '' = ''fam''" by code_simp+
  have settings: "settings_Normalize DefaultSyncSetSettings = DefaultSyncSetSettings"
    "settings_Validate DefaultSyncSetSettings = None" by code_simp+
  have free: "find_endpoint sample_console ''fam'' = Some sample_binding"
    by (simp add: find_endpoint_def sample_console_def sample_routing_rows sample_binding_def)
  have checks: "validateSyncSetEndpoints sample_console ''s1'' [''fam ''] False = None"
    unfolding validateSyncSetEndpoints_def validate_loop.simps Let_def texts free option.case
    by (simp add: sample_binding_def) (simp add: sample_console_def)
  have wanted: "wanted_set \<lparr>set_ID = ''s1'', set_Endpoints = [''fam''], set_AnonymizeToDiscord = False,
      set_Settings = Some DefaultSyncSetSettings\<rparr> sloppy_update = sloppy_set"
    by (simp add: wanted_set_def sloppy_update_def sloppy_set_def)
  have merged: "mergeSyncSetSettings (sample_console_env True) (SettingsForSet c sloppy_set) (us_Settings sloppy_update) = Inr DefaultSyncSetSettings"
    for c
    by (simp add: mergeSyncSetSettings_def sloppy_update_def sloppy_set_def SettingsForSet_def settings)
  show ?thesis
    unfolding console_dispatch.simps handleUpdateSyncSet_def Let_def option.case texts(1) sample_loaded wanted merged sum.case
    by (simp add: sloppy_update_def sloppy_set_def checks saveSyncSet_eq write_set_def Let_def SettingsForSet_def)
       (simp add: sample_console_def sample_console_env_def bad_request_def refuse_if_def)
qed

theorem reported_set_reads_back_witness:
  "\<exists>k' s'. find_set k' ''s1'' = Some s' \<and> set_Endpoints s' = [] \<and> set_AnonymizeToDiscord s' \<and>
    console_dispatch (sample_console_env True) None (KaUpdateSet ''s1'' (Some sloppy_update)) sample_console = (KSet 200 sloppy_set, k')"
proof -
  obtain k' where k': "console_dispatch (sample_console_env True) None (KaUpdateSet ''s1'' (Some sloppy_update)) sample_console =
      (KSet 200 sloppy_set, k')"
    using sloppy_answer by (metis prod.collapse)
  have "trim_space (set_ID sloppy_set) \<noteq> []" by code_simp
  from reported_set_reads_back [OF sample_console_ok k' _ this] obtain s' where
    "find_set k' (set_ID sloppy_set) = Some s'" "set_AnonymizeToDiscord s' = set_AnonymizeToDiscord sloppy_set"
    "set (set_Endpoints s') = set (set_Endpoints sloppy_set) \<inter> br_Alias ` set (rd_endpoints (co_db sample_console))"
    by blast
  then show ?thesis
    using k' by (auto simp: sloppy_set_def sample_console_def sample_routing_rows sample_binding_def)
qed

lemma sample_awaited: "endpointHasOutstandingMembershipRequests (co_members sample_console) (br_Alias sample_binding) = Some True"
proof -
  have "count_where (\<lambda>q. outstanding q \<and> list_ex (\<lambda>p. pl_ID p = mq_PipelineID q \<and> pl_EndpointAlias p = ''fam'')
      (mb_pipelines sample_members)) (mb_requests sample_members) = 2"
    by (simp add: sample_rows count_where_def outstanding_def)
  then show ?thesis
    using sample_members_open by (simp add: endpointHasOutstandingMembershipRequests_def sample_console_def sample_binding_def)
qed

theorem awaited_endpoint_stays_witness:
  "\<exists>row'. row' \<in> set (rd_endpoints (co_db (snd (console_serve (sample_console_env True) (sample_request AskMe)
       (KaDeleteEndpoint ''fam'') sample_console)))) \<and> br_Alias row' = ''fam'' \<and> br_RemoteID row' = ''1@g.us''"
proof -
  have row: "sample_binding \<in> set (rd_endpoints (co_db sample_console))"
    by (simp add: sample_console_def sample_routing_rows)
  from awaited_endpoint_stays [where v = "sample_console_env True" and r = "sample_request AskMe" and
      q = "KaDeleteEndpoint ''fam''", OF sample_console_ok surjective_pairing row sample_awaited]
  show ?thesis by (auto simp: sample_binding_def)
qed


end
